(* ===== verification/Prelude.thy ===== *)
theory Prelude
  imports Main "HOL-Library.AList" "HOL-Library.Char_ord" "HOL-Library.List_Lexorder"
begin

text \<open>
  Prelude of the development: the value universe of the Python code (JSON-shaped values), the
  string operations it uses, errors as values, and the generic lemmas the components share.

  Strings are lists of characters of the range 0 to 255 (a Python string restricted to Latin-1);
  \<open>py_strip\<close>, \<open>py_lower\<close> and \<open>utf8_len\<close> are exact on that range.  A Python dict with string
  keys is an association list in insertion order (\<open>AList.update\<close> keeps the position of a key that
  is already present and appends a new one, as Python does).  Floats do not occur in the model.
\<close>

section \<open>Collections of the development\<close>

named_theorems row_simps \<open>projections and updates of the ledger's rows\<close>
named_theorems frame_simps \<open>what an operation leaves unchanged\<close>
named_theorems keep_intros \<open>operations that keep an invariant\<close>

section \<open>Errors as values\<close>

datatype integrity = Unique_Failed | Foreign_Key_Failed | Check_Failed

datatype py_error =
    Gov string            \<comment> \<open>a governance error with this machine-readable code\<close>
  | Sqlite_Integrity integrity
  | Py_Exc string         \<comment> \<open>an exception of Python itself, by its class\<close>

type_synonym 'a result = "py_error + 'a"

text \<open>Sequencing: the first error ends the computation, as a raise does.\<close>

fun ebind :: "'e + 'a \<Rightarrow> ('a \<Rightarrow> 'e + 'b) \<Rightarrow> 'e + 'b" where
  "ebind (Inl e) f = Inl e"
| "ebind (Inr x) f = f x"

lemma ebind_Inr_iff [simp]: "ebind m f = Inr y \<longleftrightarrow> (\<exists>x. m = Inr x \<and> f x = Inr y)"
  by (cases m) auto

lemma ebind_Inl_iff [simp]: "ebind m f = Inl e \<longleftrightarrow> m = Inl e \<or> (\<exists>x. m = Inr x \<and> f x = Inl e)"
  by (cases m) auto

lemma ebind_assoc: "ebind (ebind m f) g = ebind m (\<lambda>x. ebind (f x) g)"
  by (cases m) auto

lemma ebind_cong [fundef_cong]:
  "m = m' \<Longrightarrow> (\<And>x. m' = Inr x \<Longrightarrow> f x = g x) \<Longrightarrow> ebind m f = ebind m' g"
  by (cases m') auto

text \<open>\<open>[f x for x in xs]\<close> where \<open>f\<close> may raise.\<close>

fun emap :: "('a \<Rightarrow> 'e + 'b) \<Rightarrow> 'a list \<Rightarrow> 'e + 'b list" where
  "emap f [] = Inr []"
| "emap f (x # xs) = ebind (f x) (\<lambda>y. ebind (emap f xs) (\<lambda>ys. Inr (y # ys)))"

lemma emap_Inr_length: "emap f xs = Inr ys \<Longrightarrow> length ys = length xs"
  by (induction xs arbitrary: ys) auto

lemma emap_Inr_set: "emap f xs = Inr ys \<Longrightarrow> y \<in> set ys \<Longrightarrow> \<exists>x\<in>set xs. f x = Inr y"
  by (induction xs arbitrary: ys) auto

lemma emap_Inr_cover: "emap f xs = Inr ys \<Longrightarrow> x \<in> set xs \<Longrightarrow> \<exists>y\<in>set ys. f x = Inr y"
  by (induction xs arbitrary: ys) auto

lemma emap_fixed: "(\<And>y. y \<in> set ys \<Longrightarrow> f (g y) = Inr y) \<Longrightarrow> emap f (map g ys) = Inr ys"
  by (induction ys) auto

lemma emap_cong [fundef_cong]:
  "xs = ys \<Longrightarrow> (\<And>x. x \<in> set ys \<Longrightarrow> f x = g x) \<Longrightarrow> emap f xs = emap g ys"
proof (induction ys arbitrary: xs)
  case (Cons y ys)
  then have "emap f ys = emap g ys" by auto
  with Cons.prems show ?case by simp
qed simp

section \<open>Python values\<close>

datatype py =
    PNone
  | PBool bool
  | PInt int
  | PStr string
  | PList "py list"
  | PDict "(string \<times> py) list"

type_synonym dict = "(string \<times> py) list"

definition dget_or :: "dict \<Rightarrow> string \<Rightarrow> py \<Rightarrow> py" where
  "dget_or d k v = (case map_of d k of None \<Rightarrow> v | Some w \<Rightarrow> w)"

abbreviation dget :: "dict \<Rightarrow> string \<Rightarrow> py" where
  "dget d k \<equiv> dget_or d k PNone"

definition dhas :: "dict \<Rightarrow> string \<Rightarrow> bool" where
  "dhas d k \<longleftrightarrow> k \<in> set (map fst d)"

abbreviation dset :: "string \<Rightarrow> py \<Rightarrow> dict \<Rightarrow> dict" where
  "dset \<equiv> AList.update"

definition keys_of :: "dict \<Rightarrow> string list" where
  "keys_of d = map fst d"

text \<open>Keys of a dict are distinct, at every depth.\<close>

fun py_wf :: "py \<Rightarrow> bool" where
  "py_wf (PList xs) = list_all py_wf xs"
| "py_wf (PDict d) = (distinct (map fst d) \<and> list_all (\<lambda>kv. py_wf (snd kv)) d)"
| "py_wf _ = True"

text \<open>Truth value of a Python object (\<open>bool(x)\<close>), and the operator \<open>or\<close>.\<close>

fun truthy :: "py \<Rightarrow> bool" where
  "truthy PNone = False"
| "truthy (PBool b) = b"
| "truthy (PInt i) = (i \<noteq> 0)"
| "truthy (PStr s) = (s \<noteq> [])"
| "truthy (PList xs) = (xs \<noteq> [])"
| "truthy (PDict d) = (d \<noteq> [])"

definition py_or :: "py \<Rightarrow> py \<Rightarrow> py" where
  "py_or a b = (if truthy a then a else b)"

text \<open>\<open>list(x or [])\<close>\<close>

definition list_or_empty :: "py \<Rightarrow> py list result" where
  "list_or_empty v =
    (if \<not> truthy v then Inr []
     else case v of PList xs \<Rightarrow> Inr xs | PStr s \<Rightarrow> Inr (map (\<lambda>c. PStr [c]) s) | PDict d \<Rightarrow> Inr (map (PStr \<circ> fst) d)
        | _ \<Rightarrow> Inl (Py_Exc ''TypeError''))"

fun of_opt :: "string option \<Rightarrow> py" where
  "of_opt None = PNone"
| "of_opt (Some s) = PStr s"

fun is_str :: "py \<Rightarrow> bool" where
  "is_str (PStr _) = True" | "is_str _ = False"

fun is_dict :: "py \<Rightarrow> bool" where
  "is_dict (PDict _) = True" | "is_dict _ = False"

fun is_list :: "py \<Rightarrow> bool" where
  "is_list (PList _) = True" | "is_list _ = False"

text \<open>
  \<open>x in {...}\<close> for a set of strings: lists and dicts are unhashable, so the test raises
  TypeError; every other value is a member only if it is one of the strings.
\<close>

fun in_str_set :: "py \<Rightarrow> string list \<Rightarrow> bool result" where
  "in_str_set (PStr s) S = Inr (s \<in> set S)"
| "in_str_set (PList _) S = Inl (Py_Exc ''TypeError'')"
| "in_str_set (PDict _) S = Inl (Py_Exc ''TypeError'')"
| "in_str_set _ S = Inr False"

text \<open>A list or a dict cannot be a key.\<close>

fun hashable :: "py \<Rightarrow> bool" where
  "hashable (PList _) = False" | "hashable (PDict _) = False" | "hashable _ = True"

section \<open>Equality of values\<close>

text \<open>
  \<open>jsort v\<close> is the value that comes back when \<open>v\<close> is written as JSON with sorted keys and
  read again: the same value with every dict in key order.  \<open>py_norm\<close> also reads a bool as
  its number.  Python's \<open>==\<close> ignores the order of a dict and has \<open>True == 1\<close>, so it is
  equality of these normal forms.
\<close>

fun jsort :: "py \<Rightarrow> py" where
  "jsort (PList xs) = PList (map jsort xs)"
| "jsort (PDict d) = PDict (sort_key fst (map (\<lambda>kv. (fst kv, jsort (snd kv))) d))"
| "jsort v = v"

fun py_norm :: "py \<Rightarrow> py" where
  "py_norm (PBool b) = PInt (if b then 1 else 0)"
| "py_norm (PList xs) = PList (map py_norm xs)"
| "py_norm (PDict d) = PDict (sort_key fst (map (\<lambda>kv. (fst kv, py_norm (snd kv))) d))"
| "py_norm v = v"

definition py_eq :: "py \<Rightarrow> py \<Rightarrow> bool" where
  "py_eq a b \<longleftrightarrow> py_norm a = py_norm b"

lemma py_eq_refl [simp]: "py_eq a a"
  by (simp add: py_eq_def)

lemma py_eq_PStr [simp]: "py_eq (PStr s) v \<longleftrightarrow> v = PStr s"
  by (cases v) (auto simp: py_eq_def)

lemma py_eq_PNone [simp]: "py_eq PNone v \<longleftrightarrow> v = PNone"
  by (cases v) (auto simp: py_eq_def)

section \<open>Strings\<close>

text \<open>Characters that \<open>str.strip()\<close> removes, below code point 256.\<close>

definition is_ws :: "char \<Rightarrow> bool" where
  "is_ws c = (let n = (of_char c :: nat) in
     (9 \<le> n \<and> n \<le> 13) \<or> (28 \<le> n \<and> n \<le> 32) \<or> n = 133 \<or> n = 160)"

definition py_lstrip :: "string \<Rightarrow> string" where
  "py_lstrip s = dropWhile is_ws s"

definition py_strip :: "string \<Rightarrow> string" where
  "py_strip s = rev (dropWhile is_ws (rev (dropWhile is_ws s)))"

definition py_lower_char :: "char \<Rightarrow> char" where
  "py_lower_char c = (let n = (of_char c :: nat) in
     if (65 \<le> n \<and> n \<le> 90) \<or> (192 \<le> n \<and> n \<le> 222 \<and> n \<noteq> 215) then char_of (n + 32) else c)"

definition py_lower :: "string \<Rightarrow> string" where
  "py_lower = map py_lower_char"

definition utf8_len :: "string \<Rightarrow> nat" where
  "utf8_len s = sum_list (map (\<lambda>c. if (of_char c :: nat) < 128 then 1 else 2) s)"

fun starts_with :: "string \<Rightarrow> string \<Rightarrow> bool" where
  "starts_with s [] = True"
| "starts_with [] (p # ps) = False"
| "starts_with (c # cs) (p # ps) = (c = p \<and> starts_with cs ps)"

fun contains_str :: "string \<Rightarrow> string \<Rightarrow> bool" where
  "contains_str s [] = starts_with s []"
| "contains_str [] (p # ps) = False"
| "contains_str (c # cs) p = (starts_with (c # cs) p \<or> contains_str cs p)"

definition ends_with :: "string \<Rightarrow> string \<Rightarrow> bool" where
  "ends_with s p = starts_with (rev s) (rev p)"

text \<open>\<open>s.split(sep)\<close> for a one-character separator.\<close>

fun split_on :: "char \<Rightarrow> string \<Rightarrow> string list" where
  "split_on c [] = [[]]"
| "split_on c (x # xs) =
     (if x = c then [] # split_on c xs
      else (case split_on c xs of [] \<Rightarrow> [[x]] | p # ps \<Rightarrow> (x # p) # ps))"

text \<open>Decimal rendering of a number (\<open>str(n)\<close>).\<close>

fun show_nat :: "nat \<Rightarrow> string" where
  "show_nat n = (if n < 10 then [char_of (48 + n)]
                 else show_nat (n div 10) @ [char_of (48 + n mod 10)])"

declare show_nat.simps [simp del]

definition show_int :: "int \<Rightarrow> string" where
  "show_int i = (if i < 0 then CHR ''-'' # show_nat (nat (- i)) else show_nat (nat i))"

lemma starts_with_append [simp]: "starts_with (p @ s) p"
  by (induction p) auto

lemma starts_with_iff: "starts_with s p \<longleftrightarrow> (\<exists>t. s = p @ t)"
  by (induction s p rule: starts_with.induct) auto

lemma split_on_not_Nil [simp]: "split_on c s \<noteq> []"
  by (induction s) (auto split: list.splits)

lemma dropWhile_idle: "dropWhile P (dropWhile P xs) = dropWhile P xs"
  by (induction xs) auto

lemma dropWhile_rev_head:
  "xs = [] \<or> \<not> P (hd xs) \<Longrightarrow> rev (dropWhile P (rev xs)) = [] \<or> \<not> P (hd (rev (dropWhile P (rev xs))))"
proof -
  assume a: "xs = [] \<or> \<not> P (hd xs)"
  have "\<exists>zs. xs = rev (dropWhile P (rev xs)) @ zs"
    by (metis rev_append rev_rev_ident takeWhile_dropWhile_id)
  with a show ?thesis by (metis append_is_Nil_conv hd_append2)
qed

lemma dropWhile_head_not: "dropWhile P xs = [] \<or> \<not> P (hd (dropWhile P xs))"
  by (induction xs) auto

lemma dropWhile_not_head: "ys = [] \<or> \<not> P (hd ys) \<Longrightarrow> dropWhile P ys = ys"
  by (cases ys) auto

lemma py_strip_idem [simp]: "py_strip (py_strip s) = py_strip s"
proof -
  have "dropWhile is_ws (py_strip s) = py_strip s"
    unfolding py_strip_def
    by (intro dropWhile_not_head dropWhile_rev_head dropWhile_head_not)
  then show ?thesis by (simp add: py_strip_def dropWhile_idle)
qed

lemma length_py_strip: "length (py_strip s) \<le> length s"
  unfolding py_strip_def by (metis length_dropWhile_le length_rev order_trans)

section \<open>Dicts\<close>

lemma dget_or_update [simp]:
  "dget_or (AList.update k v d) k' w = (if k = k' then v else dget_or d k' w)"
  by (simp add: dget_or_def update_conv')

lemma dhas_update [simp]: "dhas (AList.update k v d) k' \<longleftrightarrow> k = k' \<or> dhas d k'"
  by (auto simp: dhas_def dom_update)

lemma update_same: "map_of d k = Some v \<Longrightarrow> AList.update k v d = d"
  by (induction d) auto

lemma dhas_map_of: "dhas d k \<longleftrightarrow> (\<exists>v. map_of d k = Some v)"
  by (induction d) (auto simp: dhas_def)

text \<open>\<open>set(d) - allowed\<close> is empty, and \<open>set(d) & {..}\<close> is not.\<close>

definition only_keys :: "dict \<Rightarrow> string list \<Rightarrow> bool" where
  "only_keys d allowed = list_all (\<lambda>k. k \<in> set allowed) (keys_of d)"

definition some_key :: "dict \<Rightarrow> string list \<Rightarrow> bool" where
  "some_key d ks = list_ex (\<lambda>k. k \<in> set ks) (keys_of d)"

definition exact_keys :: "dict \<Rightarrow> string list \<Rightarrow> bool" where
  "exact_keys d ks = (only_keys d ks \<and> list_all (\<lambda>k. dhas d k) ks)"

section \<open>Tables\<close>

text \<open>A query \<open>SELECT * FROM t WHERE key = k\<close> on a unique key, and an update of the rows that match.\<close>

definition row_with :: "('r \<Rightarrow> 'k) \<Rightarrow> 'k \<Rightarrow> 'r list \<Rightarrow> 'r option" where
  "row_with f k t = find (\<lambda>r. f r = k) t"

definition update_where :: "('r \<Rightarrow> bool) \<Rightarrow> ('r \<Rightarrow> 'r) \<Rightarrow> 'r list \<Rightarrow> 'r list" where
  "update_where P g t = map (\<lambda>r. if P r then g r else r) t"

lemma row_with_Some: "row_with f k t = Some r \<Longrightarrow> r \<in> set t \<and> f r = k"
  by (auto simp: row_with_def find_Some_iff)

lemma row_with_None: "row_with f k t = None \<longleftrightarrow> (\<forall>r\<in>set t. f r \<noteq> k)"
  by (auto simp: row_with_def find_None_iff)

lemma find_append: "find P (xs @ ys) = (case find P xs of None \<Rightarrow> find P ys | Some x \<Rightarrow> Some x)"
  by (induction xs) auto

lemma row_with_append:
  "row_with f k (xs @ ys) = (case row_with f k xs of None \<Rightarrow> row_with f k ys | Some x \<Rightarrow> Some x)"
  by (simp add: row_with_def find_append split: option.splits)

lemma row_with_self [simp]: "f r = k \<Longrightarrow> row_with f k [r] = Some r"
  by (simp add: row_with_def)

lemma row_with_other [simp]: "f r \<noteq> k \<Longrightarrow> row_with f k [r] = None"
  by (simp add: row_with_def)

lemma row_with_Nil [simp]: "row_with f k [] = None"
  by (simp add: row_with_def)

lemma row_with_unique:
  "distinct (map f t) \<Longrightarrow> r \<in> set t \<Longrightarrow> row_with f (f r) t = Some r"
proof (induction t)
  case (Cons a t)
  then show ?case by (auto simp: row_with_def)
qed simp

lemma update_where_map:
  "(\<And>r. P r \<Longrightarrow> f (g r) = f r) \<Longrightarrow> map f (update_where P g t) = map f t"
  by (simp add: update_where_def)

lemma set_update_where: "set (update_where P g t) = {r. \<exists>r0\<in>set t. r = (if P r0 then g r0 else r0)}"
  by (auto simp: update_where_def)

lemma length_update_where [simp]: "length (update_where P g t) = length t"
  by (simp add: update_where_def)

lemma row_with_update_where:
  assumes "\<And>r. P r \<Longrightarrow> f (g r) = f r"
  shows "row_with f k (update_where P g t) =
    map_option (\<lambda>r. if P r then g r else r) (row_with f k t)"
  using assms by (induction t) (auto simp: row_with_def update_where_def)

lemma filter_single: "distinct xs \<Longrightarrow> x \<in> set xs \<Longrightarrow> filter (\<lambda>y. y = x) xs = [x]"
  by (induction xs) (auto simp: filter_empty_conv)

text \<open>The prefix order: an append-only table only ever grows at its end.\<close>

definition extends :: "'r list \<Rightarrow> 'r list \<Rightarrow> bool" where
  "extends old new = (take (length old) new = old)"

lemma extends_iff: "extends xs ys \<longleftrightarrow> (\<exists>zs. ys = xs @ zs)"
  by (metis append_eq_conv_conj append_take_drop_id extends_def)

lemma extends_refl [simp, intro]: "extends xs xs"
  by (simp add: extends_def)

lemma extends_append [simp, intro]: "extends xs (xs @ ys)"
  by (simp add: extends_def)

lemma extends_trans: "extends xs ys \<Longrightarrow> extends ys zs \<Longrightarrow> extends xs zs"
  by (auto simp: extends_iff)

lemma distinct_snoc_key: "distinct (map f t) \<Longrightarrow> row_with f (f r) t = None \<Longrightarrow> distinct (map f (t @ [r]))"
  by (auto simp: row_with_None)

end
