(* ===== verification/Canonical.thy ===== *)
theory Canonical
  imports Prelude "HOL-Library.Multiset"
begin

text \<open>
  \<open>runner/work_item_governance/canonical.py\<close>: the canonical JSON text of a value (sorted keys, no
  white space, non-ASCII characters kept) and its SHA-256 digest.  The digest function itself is the
  parameter \<open>H\<close> of every definition that uses it (it maps the text to the hexadecimal digest).
  The theory proves that the canonical text determines the value: two values with the same text
  differ at most in the order of their keys.
\<close>

section \<open>The text\<close>

definition hex_digit :: "nat \<Rightarrow> char" where
  "hex_digit n = (if n < 10 then char_of (48 + n) else char_of (87 + n))"

definition esc_char :: "char \<Rightarrow> string" where
  "esc_char c = (let n = (of_char c :: nat) in
     if n = 34 then [CHR 0x5C, CHR 0x22]
     else if n = 92 then [CHR 0x5C, CHR 0x5C]
     else if n = 8 then [CHR 0x5C, CHR ''b'']
     else if n = 9 then [CHR 0x5C, CHR ''t'']
     else if n = 10 then [CHR 0x5C, CHR ''n'']
     else if n = 12 then [CHR 0x5C, CHR ''f'']
     else if n = 13 then [CHR 0x5C, CHR ''r'']
     else if n < 32 then [CHR 0x5C, CHR ''u'', CHR ''0'', CHR ''0'', hex_digit (n div 16), hex_digit (n mod 16)]
     else [c])"

definition render_str :: "string \<Rightarrow> string" where
  "render_str s = CHR 0x22 # concat (map esc_char s) @ [CHR 0x22]"

fun join_with :: "string \<Rightarrow> string list \<Rightarrow> string" where
  "join_with sep [] = []"
| "join_with sep [x] = x"
| "join_with sep (x # y # xs) = x @ sep @ join_with sep (y # xs)"

fun render :: "py \<Rightarrow> string" where
  "render PNone = ''null''"
| "render (PBool b) = (if b then ''true'' else ''false'')"
| "render (PInt i) = show_int i"
| "render (PStr s) = render_str s"
| "render (PList xs) = CHR ''['' # join_with '','' (map render xs) @ [CHR '']'']"
| "render (PDict d) =
     CHR ''{'' # join_with '','' (map (\<lambda>kv. render_str (fst kv) @ CHR '':'' # render (snd kv)) d) @ [CHR ''}'']"

definition max_json_bytes :: nat where
  "max_json_bytes = 1048576"

definition canonical_json_max :: "nat \<Rightarrow> py \<Rightarrow> string result" where
  "canonical_json_max max_bytes v =
     (let encoded = render (jsort v) in
      if utf8_len encoded > max_bytes then Inl (Gov ''JSON_TOO_LARGE'') else Inr encoded)"

definition canonical_json :: "py \<Rightarrow> string result" where
  "canonical_json v = canonical_json_max max_json_bytes v"

definition canonical_sha256 :: "(string \<Rightarrow> string) \<Rightarrow> py \<Rightarrow> string result" where
  "canonical_sha256 H v = ebind (canonical_json v) (\<lambda>text. Inr (H text))"

section \<open>Reading numbers back\<close>

definition read_nat :: "string \<Rightarrow> nat" where
  "read_nat s = foldl (\<lambda>n c. 10 * n + (of_char c - 48)) 0 s"

definition is_digit :: "char \<Rightarrow> bool" where
  "is_digit c = (let n = (of_char c :: nat) in 48 \<le> n \<and> n \<le> 57)"

lemma of_char_of_small [simp]: "n < 256 \<Longrightarrow> (of_char (char_of (n::nat)) :: nat) = n"
  by simp

lemma read_show_nat [simp]: "read_nat (show_nat n) = n"
proof (induction n rule: show_nat.induct)
  case (1 n)
  show ?case
  proof (cases "n < 10")
    case True
    then show ?thesis by (subst show_nat.simps) (simp add: read_nat_def)
  next
    case False
    with 1 have IH: "foldl (\<lambda>n c. 10 * n + (of_char c - 48)) 0 (show_nat (n div 10)) = n div 10"
      by (simp add: read_nat_def)
    have "n mod 10 < 10" by simp
    then have "48 + n mod 10 < 256" by arith
    then have "(of_char (char_of (48 + n mod 10)) :: nat) = 48 + n mod 10" by (rule of_char_of_small)
    with False IH show ?thesis by (subst show_nat.simps) (simp add: read_nat_def)
  qed
qed

lemma show_nat_digits: "list_all is_digit (show_nat n)"
proof (induction n rule: show_nat.induct)
  case (1 n)
  have d: "is_digit (char_of (48 + m))" if "m < 10" for m :: nat
  proof -
    have "(of_char (char_of (48 + m)) :: nat) = 48 + m" using that by (intro of_char_of_small) simp
    with that show ?thesis by (simp add: is_digit_def)
  qed
  show ?case
  proof (cases "n < 10")
    case True
    with d show ?thesis by (subst show_nat.simps) simp
  next
    case False
    with 1 have "list_all is_digit (show_nat (n div 10))" by simp
    with False d show ?thesis by (subst show_nat.simps) simp
  qed
qed

lemma show_nat_not_Nil [simp]: "show_nat n \<noteq> []"
  by (subst show_nat.simps) simp

text \<open>A rendered value is followed by a separator, a closing bracket, or nothing.\<close>

definition delim :: "string \<Rightarrow> bool" where
  "delim r \<longleftrightarrow> r = [] \<or> hd r \<in> {CHR '','', CHR '']'', CHR ''}''}"

lemma delim_simps [simp]:
  "delim (CHR '','' # r)" "delim (CHR '']'' # r)" "delim (CHR ''}'' # r)" "delim []"
  by (auto simp: delim_def)

lemma delim_not_digit: "delim (c # r) \<Longrightarrow> \<not> is_digit c"
  by (auto simp: delim_def is_digit_def)

lemma digits_prefix_unique:
  assumes "list_all is_digit a" "list_all is_digit b" "delim r" "delim r'" "a @ r = b @ r'"
  shows "a = b \<and> r = r'"
proof -
  have tw: "takeWhile is_digit (x @ y) = x" if "list_all is_digit x" "delim y" for x y
    using that delim_not_digit by (cases y) (auto simp: list_all_iff takeWhile_append2)
  have "a = b" using tw [of a r] tw [of b r'] assms by simp
  with assms(5) show ?thesis by simp
qed

lemma show_nat_prefix_unique:
  "delim r \<Longrightarrow> delim r' \<Longrightarrow> show_nat m @ r = show_nat n @ r' \<Longrightarrow> m = n \<and> r = r'"
  using digits_prefix_unique [of "show_nat m" "show_nat n" r r'] show_nat_digits
  by (metis read_show_nat)

lemma show_nat_head: "\<exists>c cs. show_nat n = c # cs \<and> is_digit c"
  using show_nat_digits [of n] by (cases "show_nat n") auto

lemma show_int_prefix_unique:
  assumes d: "delim r" "delim r'" and eq: "show_int i @ r = show_int j @ r'"
  shows "i = j \<and> r = r'"
proof -
  have m: "\<not> is_digit (CHR ''-'')" by (simp add: is_digit_def)
  obtain c cs where c: "show_nat (nat i) = c # cs" "is_digit c" using show_nat_head by blast
  obtain e es where e: "show_nat (nat j) = e # es" "is_digit e" using show_nat_head by blast
  show ?thesis
  proof (cases "i < 0 \<longleftrightarrow> j < 0")
    case True
    with eq d show ?thesis
      by (auto simp: show_int_def split: if_splits dest!: show_nat_prefix_unique [OF d])
  next
    case False
    with eq c e m show ?thesis by (auto simp: show_int_def split: if_splits)
  qed
qed

section \<open>Strings are read back\<close>

text \<open>The three shapes of an escaped character; no shape is a prefix of another.\<close>

definition unesc :: "string \<Rightarrow> char option" where
  "unesc s = (case s of
      [c] \<Rightarrow> Some c
    | [_, c] \<Rightarrow> Some (if c = CHR ''b'' then char_of (8::nat) else if c = CHR ''t'' then char_of (9::nat)
        else if c = CHR ''n'' then char_of (10::nat) else if c = CHR ''f'' then char_of (12::nat)
        else if c = CHR ''r'' then char_of (13::nat) else c)
    | [_, _, _, _, a, b] \<Rightarrow> Some (char_of ((if of_char a < (58::nat) then of_char a - 48 else of_char a - 87) * 16
        + (if of_char b < (58::nat) then of_char b - 48 else of_char b - (87::nat))))
    | _ \<Rightarrow> None)"

lemma unesc_esc_control: "list_all (\<lambda>n. unesc (esc_char (char_of (n::nat))) = Some (char_of n)) [0..<32]"
  by (simp add: upt_conv_Cons esc_char_def unesc_def hex_digit_def Let_def)

lemma unesc_esc [simp]: "unesc (esc_char c) = Some c"
proof (cases "(of_char c :: nat) < 32")
  case True
  then have "(of_char c :: nat) \<in> set [0..<32]" by simp
  with unesc_esc_control have "unesc (esc_char (char_of (of_char c :: nat))) = Some (char_of (of_char c :: nat))"
    unfolding list_all_iff by (rule bspec)
  then show ?thesis by simp
next
  case False
  have q: "c = CHR 0x22" if "(of_char c :: nat) = 34"
    using that of_char_eq_iff [of c "CHR 0x22", where 'a = nat] by simp
  have b: "c = CHR 0x5C" if "(of_char c :: nat) = 92"
    using that of_char_eq_iff [of c "CHR 0x5C", where 'a = nat] by simp
  from False q b show ?thesis by (auto simp: esc_char_def unesc_def Let_def)
qed

lemma esc_char_shapes:
  "(esc_char c = [c] \<and> c \<noteq> CHR 0x22 \<and> c \<noteq> CHR 0x5C)
   \<or> (\<exists>x. esc_char c = [CHR 0x5C, x] \<and> x \<noteq> CHR ''u'')
   \<or> (\<exists>a b. esc_char c = [CHR 0x5C, CHR ''u'', CHR ''0'', CHR ''0'', a, b])"
  by (auto simp: esc_char_def Let_def)

lemma esc_char_prefix_unique:
  assumes "esc_char c @ x = esc_char d @ y"
  shows "c = d \<and> x = y"
proof -
  have "esc_char c = esc_char d"
    using assms esc_char_shapes [of c] esc_char_shapes [of d] by auto
  then have "c = d" by (metis option.inject unesc_esc)
  with assms show ?thesis by simp
qed

lemma esc_char_head: "\<exists>h t. esc_char c = h # t \<and> h \<noteq> CHR 0x22"
  using esc_char_shapes [of c] by auto

lemma escaped_prefix_unique:
  "concat (map esc_char s) @ CHR 0x22 # r = concat (map esc_char t) @ CHR 0x22 # r'
   \<Longrightarrow> s = t \<and> r = r'"
proof (induction s arbitrary: t)
  case Nil
  then show ?case
  proof (cases t)
    case (Cons d t')
    with Nil esc_char_head [of d] show ?thesis by auto
  qed simp
next
  case (Cons c s)
  show ?case
  proof (cases t)
    case Nil
    with Cons.prems esc_char_head [of c] show ?thesis by auto
  next
    case (Cons d t')
    with Cons.prems have "esc_char c @ (concat (map esc_char s) @ CHR 0x22 # r)
        = esc_char d @ (concat (map esc_char t') @ CHR 0x22 # r')" by simp
    from esc_char_prefix_unique [OF this] Cons.IH [of t'] Cons show ?thesis by auto
  qed
qed

lemma render_str_prefix_unique: "render_str s @ r = render_str t @ r' \<Longrightarrow> s = t \<and> r = r'"
  by (auto simp: render_str_def dest!: escaped_prefix_unique)

section \<open>Values are read back\<close>

definition reads_back :: "('a \<Rightarrow> string) \<Rightarrow> 'a \<Rightarrow> bool" where
  "reads_back f x \<longleftrightarrow> (\<forall>y r r'. delim r \<longrightarrow> delim r' \<longrightarrow> f x @ r = f y @ r' \<longrightarrow> x = y \<and> r = r')"

lemma reads_backD:
  "reads_back f x \<Longrightarrow> delim r \<Longrightarrow> delim r' \<Longrightarrow> f x @ r = f y @ r' \<Longrightarrow> x = y \<and> r = r'"
  by (simp add: reads_back_def)

lemma join_with_Cons:
  "join_with sep (map f (x # xs)) = f x @ (if xs = [] then [] else sep @ join_with sep (map f xs))"
  by (cases xs) auto

text \<open>A separated list between brackets is read back when its elements are.\<close>

lemma join_prefix_unique:
  assumes close: "close = CHR '']'' \<or> close = CHR ''}''"
    and head: "\<And>x. \<exists>h t. f x = h # t \<and> h \<noteq> close"
    and elems: "\<And>x. x \<in> set xs \<Longrightarrow> reads_back f x"
    and eq: "join_with '','' (map f xs) @ close # r = join_with '','' (map f ys) @ close # r'"
  shows "xs = ys \<and> r = r'"
  using elems eq
proof (induction xs arbitrary: ys)
  case Nil
  then show ?case
  proof (cases ys)
    case (Cons y ys')
    from head [of y] obtain h t where "f y = h # t" "h \<noteq> close" by blast
    with Nil Cons show ?thesis unfolding Cons join_with_Cons by auto
  qed simp
next
  case (Cons x xs)
  show ?case
  proof (cases ys)
    case Nil
    from head [of x] obtain h t where "f x = h # t" "h \<noteq> close" by blast
    with Cons.prems(2) Nil show ?thesis unfolding join_with_Cons by auto
  next
    case (Cons y ys')
    define rest where "rest zs q = (if zs = [] then [] else '','' @ join_with '','' (map f zs)) @ close # q" for zs q
    have d: "delim (rest zs q)" for zs q using close by (auto simp: rest_def)
    have eq: "f x @ rest xs r = f y @ rest ys' r'"
      using Cons.prems(2) unfolding Cons join_with_Cons rest_def by simp
    have "reads_back f x" by (rule Cons.prems(1)) simp
    then have xr: "x = y \<and> rest xs r = rest ys' r'" using d d eq by (rule reads_backD)
    then have xy: "x = y" and rr: "rest xs r = rest ys' r'" by simp_all
    have "xs = ys' \<and> r = r'"
    proof (cases "xs = [] \<or> ys' = []")
      case True
      with rr close show ?thesis by (auto simp: rest_def split: if_splits)
    next
      case False
      with rr have "join_with '','' (map f xs) @ close # r = join_with '','' (map f ys') @ close # r'"
        by (simp add: rest_def)
      with Cons.IH Cons.prems(1) show ?thesis by simp
    qed
    with xy Cons show ?thesis by simp
  qed
qed

lemma show_int_head: "\<exists>h t. show_int i = h # t \<and> (h = CHR ''-'' \<or> is_digit h)"
  using show_nat_head [of "nat i"] show_nat_head [of "nat (- i)"] by (auto simp: show_int_def)

lemma render_str_head: "\<exists>t. render_str s = CHR 0x22 # t"
  by (simp add: render_str_def)

text \<open>The first character of a rendered value tells its kind.\<close>

fun kind_of :: "py \<Rightarrow> nat" where
  "kind_of PNone = 0" | "kind_of (PBool _) = 1" | "kind_of (PInt _) = 2"
| "kind_of (PStr _) = 3" | "kind_of (PList _) = 4" | "kind_of (PDict _) = 5"

definition head_kind :: "char \<Rightarrow> nat" where
  "head_kind c = (if c = CHR ''n'' then 0 else if c = CHR ''t'' \<or> c = CHR ''f'' then 1
     else if c = CHR ''-'' \<or> is_digit c then 2 else if c = CHR 0x22 then 3
     else if c = CHR ''['' then 4 else if c = CHR ''{'' then 5 else 6)"

lemma not_digit_heads:
  "\<not> is_digit (CHR ''n'')" "\<not> is_digit (CHR ''t'')" "\<not> is_digit (CHR ''f'')" "\<not> is_digit (CHR 0x22)"
  "\<not> is_digit (CHR ''['')" "\<not> is_digit (CHR ''{'')" "\<not> is_digit (CHR '']'')" "\<not> is_digit (CHR ''}'')"
  by (auto simp: is_digit_def)

lemma render_head_kind: "\<exists>h t. render v = h # t \<and> head_kind h = kind_of v"
proof (cases v)
  case (PInt i)
  obtain h t where "show_int i = h # t" "h = CHR ''-'' \<or> is_digit h" using show_int_head by blast
  with PInt not_digit_heads show ?thesis by (auto simp: head_kind_def)
qed (auto simp: render_str_def head_kind_def not_digit_heads)

lemma render_kind: "render v @ r = render w @ r' \<Longrightarrow> kind_of w = kind_of v"
  using render_head_kind [of v] render_head_kind [of w] by auto

lemma render_head_not_close: "\<exists>h t. render v = h # t \<and> h \<noteq> CHR '']'' \<and> h \<noteq> CHR ''}''"
proof -
  obtain h t where h: "render v = h # t" "head_kind h = kind_of v" using render_head_kind by blast
  have "kind_of v < 6" by (cases v) auto
  with h have "h \<noteq> CHR '']''" "h \<noteq> CHR ''}''" by (auto simp: head_kind_def not_digit_heads)
  with h show ?thesis by blast
qed

lemma reads_back_item:
  assumes "reads_back render (snd kv)"
  shows "reads_back (\<lambda>kv. render_str (fst kv) @ CHR '':'' # render (snd kv)) kv"
proof (unfold reads_back_def, intro allI impI)
  fix kv' :: "string \<times> py" and r r'
  assume d: "delim r" "delim r'"
    and eq: "(render_str (fst kv) @ CHR '':'' # render (snd kv)) @ r
           = (render_str (fst kv') @ CHR '':'' # render (snd kv')) @ r'"
  then have "fst kv = fst kv'" and "render (snd kv) @ r = render (snd kv') @ r'"
    using render_str_prefix_unique [of "fst kv" _ "fst kv'"] by auto
  with reads_backD [OF assms d] show "kv = kv' \<and> r = r'" by (cases kv; cases kv') auto
qed

lemma render_prefix_unique: "delim r \<Longrightarrow> delim r' \<Longrightarrow> render v @ r = render w @ r' \<Longrightarrow> v = w \<and> r = r'"
proof (induction v arbitrary: w r r')
  case (PInt i)
  from render_kind [OF PInt.prems(3)] PInt.prems show ?case
    by (cases w) (auto dest: show_int_prefix_unique)
next
  case (PStr s)
  from render_kind [OF PStr.prems(3)] PStr.prems show ?case
    by (cases w) (auto dest: render_str_prefix_unique)
next
  case (PList xs)
  have rb: "reads_back render x" if "x \<in> set xs" for x
    using PList.IH [OF that] by (auto simp: reads_back_def)
  from render_kind [OF PList.prems(3)] obtain ys where w: "w = PList ys" by (cases w) auto
  with PList.prems have "join_with '','' (map render xs) @ CHR '']'' # r = join_with '','' (map render ys) @ CHR '']'' # r'"
    by simp
  then have "xs = ys \<and> r = r'"
    using render_head_not_close rb by (intro join_prefix_unique [where f = render and close = "CHR '']''"]) blast+
  with w show ?case by simp
next
  case (PDict d)
  let ?f = "\<lambda>kv. render_str (fst kv) @ CHR '':'' # render (snd kv)"
  have rb: "reads_back ?f kv" if "kv \<in> set d" for kv
    using PDict.IH [OF that, of "snd kv"] by (intro reads_back_item) (cases kv, auto simp: reads_back_def)
  from render_kind [OF PDict.prems(3)] obtain e where w: "w = PDict e" by (cases w) auto
  with PDict.prems have "join_with '','' (map ?f d) @ CHR ''}'' # r = join_with '','' (map ?f e) @ CHR ''}'' # r'"
    by simp
  then have "d = e \<and> r = r'"
    using rb by (intro join_prefix_unique [where f = ?f and close = "CHR ''}''"]) (auto simp: render_str_def)
  with w show ?case by simp
next
  case PNone
  from render_kind [OF PNone.prems(3)] PNone.prems show ?case by (cases w) auto
next
  case (PBool b)
  from render_kind [OF PBool.prems(3)] PBool.prems show ?case by (cases w) (auto split: if_splits)
qed

lemma render_inj: "render v = render w \<Longrightarrow> v = w"
  using render_prefix_unique [of "[]" "[]" v w] by simp

section \<open>Key order\<close>

lemma insort_key_map: "(\<And>x. k (h x) = k x) \<Longrightarrow> insort_key k (h a) (map h xs) = map h (insort_key k a xs)"
  by (induction xs) auto

lemma sort_key_map: "(\<And>x. k (h x) = k x) \<Longrightarrow> sort_key k (map h xs) = map h (sort_key k xs)"
  by (induction xs) (auto simp: insort_key_map)

lemma sort_key_idem [simp]: "sort_key k (sort_key k xs) = sort_key k xs"
  by (simp add: sorted_sort_id sort_key_id_if_sorted)

lemma jsort_PDict: "jsort (PDict d) = PDict (map (\<lambda>kv. (fst kv, jsort (snd kv))) (sort_key fst d))"
  by (simp add: sort_key_map)

lemma jsort_idem [simp]: "jsort (jsort v) = jsort v"
proof (induction v)
  case (PDict d)
  have "map (\<lambda>kv. (fst kv, jsort (jsort (snd kv)))) (sort_key fst d)
      = map (\<lambda>kv. (fst kv, jsort (snd kv))) (sort_key fst d)"
    by (rule map_cong) (use PDict in \<open>auto intro: snds.intros\<close>)
  then show ?case by (simp add: sort_key_map del: map_map) (simp add: comp_def)
qed auto

lemma py_norm_jsort [simp]: "py_norm (jsort v) = py_norm v"
proof (induction v)
  case (PDict d)
  have "map (\<lambda>kv. (fst kv, py_norm (jsort (snd kv)))) (sort_key fst d)
      = map (\<lambda>kv. (fst kv, py_norm (snd kv))) (sort_key fst d)"
    by (rule map_cong) (use PDict in \<open>auto intro: snds.intros\<close>)
  then show ?case by (simp add: sort_key_map del: map_map) (simp add: comp_def)
qed auto

lemma py_eq_jsort [simp]: "py_eq (jsort v) w = py_eq v w" "py_eq v (jsort w) = py_eq v w"
  by (simp_all add: py_eq_def)

lemma canonical_json_jsort [simp]: "canonical_json (jsort v) = canonical_json v"
  by (simp add: canonical_json_def canonical_json_max_def)

lemma canonical_sha256_jsort [simp]: "canonical_sha256 H (jsort v) = canonical_sha256 H v"
  by (simp add: canonical_sha256_def)

lemma canonical_json_Inr: "canonical_json v = Inr t \<Longrightarrow> t = render (jsort v)"
  by (auto simp: canonical_json_def canonical_json_max_def Let_def split: if_splits)

lemma canonical_json_inj: "canonical_json v = Inr t \<Longrightarrow> canonical_json w = Inr t \<Longrightarrow> jsort v = jsort w"
  using canonical_json_Inr [of v t] canonical_json_Inr [of w t] by (auto intro: render_inj)

lemma sort_key_mset_eq:
  "mset d = mset e \<Longrightarrow> distinct (map fst d) \<Longrightarrow> sort_key fst d = sort_key (fst :: string \<times> 'a \<Rightarrow> string) e"
proof -
  assume m: "mset d = mset e" and d: "distinct (map fst d)"
  from d have "inj_on fst (set d)" by (simp add: distinct_map)
  with m show ?thesis by (intro sort_key_inj_key_eq) simp_all
qed

end
