(* ===== verification/Contracts.thy ===== *)
theory Contracts
  imports Canonical "HOL-Library.Word"
begin

text \<open>
  \<open>runner/work_item_governance/contracts.py\<close> and \<open>ids.py\<close>: the work item states, the transition
  relation and its policy, the closed vocabularies, and the stable identifiers (a kind prefix and a
  version 7 UUID built from a millisecond clock and ten random bytes).
\<close>

unbundle bit_operations_syntax

section \<open>States and transitions\<close>

definition WORK_ITEM_STATES :: "string list" where
  "WORK_ITEM_STATES = [''proposed'', ''ready'', ''in_delivery'', ''submitted'', ''accepted'', ''cancelled'']"

definition TERMINAL_WORK_ITEM_STATES :: "string list" where
  "TERMINAL_WORK_ITEM_STATES = [''accepted'', ''cancelled'']"

definition WORK_ITEM_TRANSITIONS :: "(string \<times> string list) list" where
  "WORK_ITEM_TRANSITIONS =
    [(''proposed'', [''ready'', ''cancelled'']),
     (''ready'', [''in_delivery'', ''cancelled'']),
     (''in_delivery'', [''submitted'', ''cancelled'']),
     (''submitted'', [''in_delivery'', ''accepted'', ''cancelled'']),
     (''accepted'', []),
     (''cancelled'', [])]"

definition can_transition :: "string \<Rightarrow> string \<Rightarrow> bool" where
  "can_transition current_state target_state =
    (case map_of WORK_ITEM_TRANSITIONS current_state of None \<Rightarrow> False | Some ts \<Rightarrow> target_state \<in> set ts)"

definition ORIGIN_KINDS :: "string list" where
  "ORIGIN_KINDS = [''quick_chat'', ''project'', ''workbench'', ''slack'', ''linear'', ''manual'', ''imported'']"

definition ARTIFACT_KINDS :: "string list" where
  "ARTIFACT_KINDS = [''report'', ''validation'', ''git_commit'', ''git_diff'', ''file'', ''test_report'',
     ''evidence_receipt'', ''other'']"

definition DECISION_ACTIONS :: "string list" where
  "DECISION_ACTIONS = [''approve'', ''approve_submission'', ''accept'', ''cancel'', ''reject'',
     ''request_changes'', ''submit'']"

text \<open>The transition policy: an entry of \<open>TRANSITION_REQUIREMENTS\<close>.\<close>

record requirement =
  rq_authority :: string
  rq_decision_actions :: "string list"
  rq_evidence_required :: bool
  rq_blockers_must_be_clear :: bool
  rq_transition_result :: string

definition cancel_requirement :: requirement where
  "cancel_requirement = \<lparr>rq_authority = ''work_item.cancel'', rq_decision_actions = [''cancel''],
     rq_evidence_required = False, rq_blockers_must_be_clear = False,
     rq_transition_result = ''state_advanced''\<rparr>"

definition TRANSITION_REQUIREMENTS :: "((string \<times> string) \<times> requirement) list" where
  "TRANSITION_REQUIREMENTS =
    [((''proposed'', ''ready''),
       \<lparr>rq_authority = ''work_item.ready'', rq_decision_actions = [],
        rq_evidence_required = False, rq_blockers_must_be_clear = False,
        rq_transition_result = ''state_advanced''\<rparr>),
     ((''ready'', ''in_delivery''),
       \<lparr>rq_authority = ''work_item.start_delivery'', rq_decision_actions = [],
        rq_evidence_required = False, rq_blockers_must_be_clear = True,
        rq_transition_result = ''state_advanced''\<rparr>),
     ((''in_delivery'', ''submitted''),
       \<lparr>rq_authority = ''work_item.submit'',
        rq_decision_actions = [''submit'', ''approve_submission'', ''approve''],
        rq_evidence_required = True, rq_blockers_must_be_clear = True,
        rq_transition_result = ''state_advanced''\<rparr>),
     ((''submitted'', ''accepted''),
       \<lparr>rq_authority = ''work_item.accept'', rq_decision_actions = [''accept'', ''approve''],
        rq_evidence_required = True, rq_blockers_must_be_clear = True,
        rq_transition_result = ''state_advanced''\<rparr>),
     ((''submitted'', ''in_delivery''),
       \<lparr>rq_authority = ''work_item.return_for_revision'',
        rq_decision_actions = [''request_changes'', ''reject''],
        rq_evidence_required = False, rq_blockers_must_be_clear = False,
        rq_transition_result = ''returned_for_revision''\<rparr>),
     ((''proposed'', ''cancelled''), cancel_requirement),
     ((''ready'', ''cancelled''), cancel_requirement),
     ((''in_delivery'', ''cancelled''), cancel_requirement),
     ((''submitted'', ''cancelled''), cancel_requirement)]"

definition requirement_for :: "string \<Rightarrow> string \<Rightarrow> requirement option" where
  "requirement_for current_state target_state = map_of TRANSITION_REQUIREMENTS (current_state, target_state)"

lemmas vocab_defs = WORK_ITEM_STATES_def TERMINAL_WORK_ITEM_STATES_def WORK_ITEM_TRANSITIONS_def
  ORIGIN_KINDS_def ARTIFACT_KINDS_def DECISION_ACTIONS_def

lemma can_transition_iff:
  "can_transition s t \<longleftrightarrow> (s, t) \<in>
     {(''proposed'', ''ready''), (''proposed'', ''cancelled''), (''ready'', ''in_delivery''),
      (''ready'', ''cancelled''), (''in_delivery'', ''submitted''), (''in_delivery'', ''cancelled''),
      (''submitted'', ''in_delivery''), (''submitted'', ''accepted''), (''submitted'', ''cancelled'')}"
  by (auto simp: can_transition_def vocab_defs)

lemma requirement_for_None: "requirement_for s t = None \<longleftrightarrow> \<not> can_transition s t"
  unfolding can_transition_iff by (auto simp: requirement_for_def TRANSITION_REQUIREMENTS_def)

lemma terminal_no_transition: "s \<in> set TERMINAL_WORK_ITEM_STATES \<Longrightarrow> \<not> can_transition s t"
  by (auto simp: can_transition_iff vocab_defs)

lemma can_transition_states:
  "can_transition s t \<Longrightarrow> s \<in> set WORK_ITEM_STATES \<and> t \<in> set WORK_ITEM_STATES"
  by (auto simp: can_transition_iff vocab_defs)

lemma accepted_only_from_submitted: "can_transition s ''accepted'' \<Longrightarrow> s = ''submitted''"
  by (auto simp: can_transition_iff)

section \<open>Stable identifiers\<close>

definition ID_PREFIXES :: "(string \<times> string) list" where
  "ID_PREFIXES =
    [(''work_item'', ''wi''), (''attempt'', ''attempt''), (''artifact'', ''artifact''),
     (''decision'', ''decision''), (''gate_event'', ''gate''), (''delivery_receipt'', ''delivery''),
     (''audit_event'', ''audit''), (''outbox_event'', ''outbox''), (''inbox_event'', ''inbox''),
     (''blocker'', ''blocker''), (''blocker_event'', ''blocker_event''),
     (''attempt_event'', ''attempt_event''), (''acceptance_manifest'', ''acceptance_manifest''),
     (''preview'', ''preview''), (''activation_lease'', ''lease''),
     (''activation_lease_event'', ''lease_event''), (''activation_envelope'', ''envelope'')]"

text \<open>The pattern of a version 7 UUID, one class per character.\<close>

datatype char_class = Hex | Variant | Lit char

fun class_match :: "char_class \<Rightarrow> char \<Rightarrow> bool" where
  "class_match Hex c = (let n = (of_char c :: nat) in (48 \<le> n \<and> n \<le> 57) \<or> (97 \<le> n \<and> n \<le> 102))"
| "class_match Variant c = (c \<in> {CHR ''8'', CHR ''9'', CHR ''a'', CHR ''b''})"
| "class_match (Lit l) c = (c = l)"

definition UUID7_PATTERN :: "char_class list" where
  "UUID7_PATTERN =
     [Hex, Hex, Hex, Hex, Hex, Hex, Hex, Hex, Lit (CHR ''-''), Hex, Hex, Hex, Hex, Lit (CHR ''-''),
      Lit (CHR ''7''), Hex, Hex, Hex, Lit (CHR ''-''), Variant, Hex, Hex, Hex, Lit (CHR ''-''),
      Hex, Hex, Hex, Hex, Hex, Hex, Hex, Hex, Hex, Hex, Hex, Hex]"

fun full_match :: "char_class list \<Rightarrow> string \<Rightarrow> bool" where
  "full_match [] [] = True"
| "full_match (p # ps) (c # cs) = (class_match p c \<and> full_match ps cs)"
| "full_match _ _ = False"

definition SHA256_PATTERN :: "string \<Rightarrow> bool" where
  "SHA256_PATTERN s = full_match (replicate 64 Hex) s"

definition is_stable_id_str :: "string \<Rightarrow> string \<Rightarrow> bool" where
  "is_stable_id_str s kind =
    (case map_of ID_PREFIXES kind of
       None \<Rightarrow> False
     | Some prefix \<Rightarrow> starts_with s (prefix @ ''_'') \<and> full_match UUID7_PATTERN (drop (length prefix + 1) s))"

definition is_stable_id :: "py \<Rightarrow> string \<Rightarrow> bool" where
  "is_stable_id value kind = (case value of PStr s \<Rightarrow> is_stable_id_str s kind | _ \<Rightarrow> False)"

text \<open>A new UUID: 48 bits of milliseconds, then ten bytes of entropy with version and variant set.\<close>

definition millis_bytes :: "int \<Rightarrow> 8 word list" where
  "millis_bytes millis = map (\<lambda>i. word_of_int (millis div 256 ^ i)) [5, 4, 3, 2, 1, 0]"

definition new_uuid7_bytes :: "int \<Rightarrow> 8 word list \<Rightarrow> 8 word list result" where
  "new_uuid7_bytes millis entropy =
    (if millis < 0 \<or> millis \<ge> 2 ^ 48 then Inl (Gov ''UUID7_TIMESTAMP_INVALID'')
     else if length entropy \<noteq> 10 then Inl (Gov ''UUID7_ENTROPY_INVALID'')
     else let raw = millis_bytes millis @ entropy;
              raw = raw[6 := (raw ! 6 AND 0x0F) OR 0x70];
              raw = raw[8 := (raw ! 8 AND 0x3F) OR 0x80]
          in Inr raw)"

definition byte_hex :: "8 word \<Rightarrow> string" where
  "byte_hex b = [hex_digit (unat (drop_bit 4 b)), hex_digit (unat (b AND 0x0F))]"

definition uuid_text :: "8 word list \<Rightarrow> string" where
  "uuid_text raw = (let h = concat (map byte_hex raw) in
     take 8 h @ ''-'' @ take 4 (drop 8 h) @ ''-'' @ take 4 (drop 12 h) @ ''-''
     @ take 4 (drop 16 h) @ ''-'' @ drop 20 h)"

definition new_stable_id :: "string \<Rightarrow> int \<Rightarrow> 8 word list \<Rightarrow> string result" where
  "new_stable_id kind millis entropy =
    (case map_of ID_PREFIXES kind of
       None \<Rightarrow> Inl (Gov ''ID_KIND_UNSUPPORTED'')
     | Some prefix \<Rightarrow> ebind (new_uuid7_bytes millis entropy) (\<lambda>raw. Inr (prefix @ ''_'' @ uuid_text raw)))"

subsection \<open>A generated identifier is well formed\<close>

lemma hex_digit_matches [simp]: "n < 16 \<Longrightarrow> class_match Hex (hex_digit n)"
proof -
  assume "n < 16"
  then have "n \<in> set [0..<16]" by simp
  moreover have "list_all (\<lambda>n. class_match Hex (hex_digit n)) [0..<16]"
    by (simp add: upt_conv_Cons hex_digit_def)
  ultimately show ?thesis unfolding list_all_iff by blast
qed

lemma drop_bit_4_lt: "unat (drop_bit 4 (b :: 8 word)) < 16"
proof -
  have "unat b < 2 ^ LENGTH(8)" by (rule unsigned_less)
  then have "unat b < 256" by simp
  then show ?thesis by (simp add: unat_drop_bit_eq drop_bit_eq_div unat_div)
qed

lemma and_15_lt: "unat ((b :: 8 word) AND 0x0F) < 16"
proof -
  have "b AND 0x0F \<le> 0x0F" by (rule word_and_le1)
  then have "unat (b AND 0x0F) \<le> unat (0x0F :: 8 word)" by (simp only: word_le_nat_alt)
  then show ?thesis by simp
qed

lemma byte_hex_matches:
  "class_match Hex (hex_digit (unat (drop_bit 4 (b :: 8 word))))"
  "class_match Hex (hex_digit (unat (b AND 0x0F)))"
  by (simp_all add: drop_bit_4_lt and_15_lt del: class_match.simps)

lemma version_nibble: "drop_bit 4 (((b :: 8 word) AND 0x0F) OR 0x70) = 7"
  by (simp add: drop_bit_or drop_bit_and)

lemma variant_nibble: "unat (drop_bit 4 (((b :: 8 word) AND 0x3F) OR 0x80)) \<in> {8, 9, 10, 11}"
proof -
  define x where "x = drop_bit 4 b AND 3"
  have "x \<le> 3" unfolding x_def by (rule word_and_le1)
  then have "unat x \<le> unat (3 :: 8 word)" by (simp only: word_le_nat_alt)
  then have "unat x \<in> {0, 1, 2, 3}" by auto
  then have "x \<in> {0, 1, 2, 3}" by (auto simp: word_unat_eq_iff)
  moreover have "drop_bit 4 ((b AND 0x3F) OR 0x80) = x OR 8"
    by (simp add: drop_bit_or drop_bit_and x_def)
  ultimately show ?thesis by auto
qed

lemma variant_matches: "class_match Variant (hex_digit (unat (drop_bit 4 (((b :: 8 word) AND 0x3F) OR 0x80))))"
  using variant_nibble [of b] by (auto simp: hex_digit_def char_of_eq_iff)

lemma ten_elements: "length xs = 10 \<longleftrightarrow> (\<exists>a b c d e f g h i j. xs = [a, b, c, d, e, f, g, h, i, j])"
  by (auto simp: length_Suc_conv numeral_eq_Suc)

lemma uuid_text_matches:
  assumes "new_uuid7_bytes millis entropy = Inr raw"
  shows "full_match UUID7_PATTERN (uuid_text raw)"
proof -
  from assms have "length entropy = 10" by (auto simp: new_uuid7_bytes_def split: if_splits)
  then obtain a b c d e f g h i j where e: "entropy = [a, b, c, d, e, f, g, h, i, j]"
    by (auto simp: ten_elements)
  obtain m0 m1 m2 m3 m4 m5 where m: "millis_bytes millis = [m0, m1, m2, m3, m4, m5]"
    by (simp add: millis_bytes_def)
  from assms e m have raw: "raw = [m0, m1, m2, m3, m4, m5, (a AND 0x0F) OR 0x70, b, (c AND 0x3F) OR 0x80,
      d, e, f, g, h, i, j]"
    by (auto simp: new_uuid7_bytes_def Let_def split: if_splits)
  have seven: "hex_digit (unat (drop_bit 4 ((a AND 0x0F) OR (0x70 :: 8 word)))) = CHR ''7''"
    unfolding version_nibble by (simp add: hex_digit_def char_of_eq_iff)
  show ?thesis
    unfolding raw uuid_text_def byte_hex_def UUID7_PATTERN_def Let_def
    by (simp add: byte_hex_matches variant_matches seven del: class_match.simps(1,2) drop_bit_or drop_bit_and)
qed

lemma new_stable_id_wf:
  assumes "new_stable_id kind millis entropy = Inr s"
  shows "is_stable_id_str s kind"
  using assms uuid_text_matches
  by (auto simp: new_stable_id_def is_stable_id_str_def starts_with_iff split: option.splits)

end
