(* ===== verification/Validation.thy ===== *)
theory Validation
  imports Contracts
begin

text \<open>
  \<open>runner/work_item_governance/validation.py\<close>: the validators and normalisers of command bodies.
  Each returns the normalised value or the error the code raises; an error is its machine-readable
  code (the message and the details of the error are not modelled).  A normalised origin, actor and
  task is a record; \<open>origin_py\<close>, \<open>actor_py\<close> and \<open>task_py\<close> give the dict the code builds.
  The second half shows what a normalised value guarantees and that normalising it again changes
  nothing, which is what lets the apply commands normalise a signed command a second time.
\<close>

section \<open>Basic validators\<close>

definition MAX_TEXT_LENGTH :: nat where "MAX_TEXT_LENGTH = 65536"
definition MAX_URI_LENGTH :: nat where "MAX_URI_LENGTH = 8192"

definition require_object :: "py \<Rightarrow> bool \<Rightarrow> dict result" where
  "require_object value non_empty =
    (case value of
       PDict d \<Rightarrow> if non_empty \<and> d = [] then Inl (Gov ''FIELD_OBJECT_REQUIRED'') else Inr d
     | _ \<Rightarrow> Inl (Gov ''FIELD_OBJECT_REQUIRED''))"

definition require_metadata_object :: "py \<Rightarrow> dict result" where
  "require_metadata_object value =
    ebind (require_object value False) (\<lambda>metadata.
      if length metadata > 128 then Inl (Gov ''METADATA_TOO_LARGE'') else Inr metadata)"

text \<open>\<open>require_text\<close> with \<open>nullable=False\<close>; \<open>optional_text\<close> covers the nullable use.\<close>

definition require_text :: "py \<Rightarrow> nat \<Rightarrow> string result" where
  "require_text value max_length =
    (case value of
       PStr s \<Rightarrow>
         let normalized = py_strip s in
         if normalized = [] then Inl (Gov ''FIELD_TEXT_REQUIRED'')
         else if length normalized > max_length then Inl (Gov ''FIELD_TEXT_TOO_LONG'')
         else Inr normalized
     | _ \<Rightarrow> Inl (Gov ''FIELD_TEXT_REQUIRED''))"

definition optional_text :: "py \<Rightarrow> nat \<Rightarrow> string option result" where
  "optional_text value max_length =
    (if value = PNone then Inr None else ebind (require_text value max_length) (\<lambda>s. Inr (Some s)))"

definition require_positive_integer :: "py \<Rightarrow> int result" where
  "require_positive_integer value =
    (case value of
       PInt i \<Rightarrow> if i < 1 then Inl (Gov ''POSITIVE_INTEGER_REQUIRED'') else Inr i
     | _ \<Rightarrow> Inl (Gov ''POSITIVE_INTEGER_REQUIRED''))"

definition require_non_negative_integer :: "py \<Rightarrow> int result" where
  "require_non_negative_integer value =
    (case value of
       PInt i \<Rightarrow> if i < 0 then Inl (Gov ''NON_NEGATIVE_INTEGER_REQUIRED'') else Inr i
     | _ \<Rightarrow> Inl (Gov ''NON_NEGATIVE_INTEGER_REQUIRED''))"

definition require_sha256 :: "py \<Rightarrow> string result" where
  "require_sha256 value =
    (case value of
       PStr s \<Rightarrow> if SHA256_PATTERN s then Inr s else Inl (Gov ''SHA256_REQUIRED'')
     | _ \<Rightarrow> Inl (Gov ''SHA256_REQUIRED''))"

definition require_stable_id :: "py \<Rightarrow> string \<Rightarrow> string result" where
  "require_stable_id value kind =
    (case value of
       PStr s \<Rightarrow> if is_stable_id value kind then Inr s else Inl (Gov ''STABLE_ID_INVALID'')
     | _ \<Rightarrow> Inl (Gov ''STABLE_ID_INVALID''))"

text \<open>A list of at most so many items, with the error of its place in the code.\<close>

definition bounded_list :: "py \<Rightarrow> nat \<Rightarrow> string \<Rightarrow> py list result" where
  "bounded_list value max_items code =
    (case value of
       PList xs \<Rightarrow> if length xs > max_items then Inl (Gov code) else Inr xs
     | _ \<Rightarrow> Inl (Gov code))"

lemma bounded_list_Inr [simp]: "bounded_list v n code = Inr xs \<longleftrightarrow> v = PList xs \<and> length xs \<le> n"
  by (auto simp: bounded_list_def split: py.splits if_splits)

text \<open>\<open>if not isinstance(value, bool): raise\<close>.\<close>

definition require_bool :: "py \<Rightarrow> string \<Rightarrow> bool result" where
  "require_bool value code = (case value of PBool b \<Rightarrow> Inr b | _ \<Rightarrow> Inl (Gov code))"

lemma require_bool_Inr [simp]: "require_bool v code = Inr b \<longleftrightarrow> v = PBool b"
  by (auto simp: require_bool_def split: py.splits)

section \<open>Normalised records\<close>

record origin =
  or_kind :: string
  or_ref :: "string option"
  or_snapshot_digest :: string

definition origin_py :: "origin \<Rightarrow> py" where
  "origin_py o' = PDict [(''kind'', PStr (or_kind o')), (''ref'', of_opt (or_ref o')),
     (''snapshot_digest'', PStr (or_snapshot_digest o'))]"

definition normalize_origin :: "py \<Rightarrow> bool option \<Rightarrow> origin result" where
  "normalize_origin value imported =
    ebind (require_object value True) (\<lambda>origin.
    if \<not> only_keys origin [''kind'', ''ref'', ''snapshot_digest''] then Inl (Gov ''ORIGIN_FIELD_UNSUPPORTED'')
    else ebind (in_str_set (dget origin ''kind'') ORIGIN_KINDS) (\<lambda>known.
    case dget origin ''kind'' of
      PStr kind \<Rightarrow>
        if \<not> known then Inl (Gov ''ORIGIN_KIND_UNSUPPORTED'')
        else if imported = Some True \<and> kind \<noteq> ''imported'' then Inl (Gov ''IMPORT_ORIGIN_REQUIRED'')
        else if imported = Some False \<and> kind = ''imported'' then Inl (Gov ''IMPORT_COMMAND_REQUIRED'')
        else ebind (optional_text (dget origin ''ref'') 2048) (\<lambda>ref.
             ebind (require_sha256 (dget origin ''snapshot_digest'')) (\<lambda>digest.
             Inr \<lparr>or_kind = kind, or_ref = ref, or_snapshot_digest = digest\<rparr>))
    | _ \<Rightarrow> Inl (Gov ''ORIGIN_KIND_UNSUPPORTED'')))"

record actor =
  ac_id :: string
  ac_kind :: string
  ac_display_name :: "string option"

definition actor_py :: "actor \<Rightarrow> py" where
  "actor_py a = PDict [(''id'', PStr (ac_id a)), (''kind'', PStr (ac_kind a)),
     (''display_name'', of_opt (ac_display_name a))]"

definition normalize_actor :: "py \<Rightarrow> actor result" where
  "normalize_actor value0 =
    (let value = (case value0 of
        PStr s \<Rightarrow> PDict [(''id'', PStr s), (''kind'', PStr ''user'')] | _ \<Rightarrow> value0) in
    ebind (require_object value True) (\<lambda>actor.
    if \<not> only_keys actor [''id'', ''kind'', ''display_name''] then Inl (Gov ''ACTOR_FIELD_UNSUPPORTED'')
    else ebind (require_text (dget actor ''id'') 512) (\<lambda>i.
         ebind (require_text (dget_or actor ''kind'' (PStr ''user'')) 128) (\<lambda>k.
         ebind (optional_text (dget actor ''display_name'') 512) (\<lambda>n.
         Inr \<lparr>ac_id = i, ac_kind = k, ac_display_name = n\<rparr>)))))"

definition normalize_authority_basis :: "py \<Rightarrow> string option \<Rightarrow> dict result" where
  "normalize_authority_basis value expected_authority =
    ebind (require_object value True) (\<lambda>basis.
    if length basis > 32 then Inl (Gov ''AUTHORITY_BASIS_TOO_LARGE'')
    else
      let actual = py_or (py_or (dget basis ''authority'') (dget basis ''permission'')) (dget basis ''kind'') in
      case expected_authority of
        Some expected \<Rightarrow>
          if \<not> py_eq (PStr expected) actual then Inl (Gov ''AUTHORITY_BASIS_INSUFFICIENT'')
          else ebind (canonical_json (PDict basis)) (\<lambda>_. Inr basis)
      | None \<Rightarrow> ebind (canonical_json (PDict basis)) (\<lambda>_. Inr basis))"

definition normalize_string_list :: "py \<Rightarrow> string list \<Rightarrow> nat \<Rightarrow> nat \<Rightarrow> string list result" where
  "normalize_string_list value default_items max_items max_item_length =
    (case value of
       PNone \<Rightarrow> Inr default_items
     | PList xs \<Rightarrow>
         if length xs > max_items then Inl (Gov ''STRING_LIST_INVALID'')
         else ebind (emap (\<lambda>x. require_text x max_item_length) xs) (\<lambda>normalized.
              if distinct normalized then Inr normalized else Inl (Gov ''STRING_LIST_DUPLICATE''))
     | _ \<Rightarrow> Inl (Gov ''STRING_LIST_INVALID''))"

record task =
  tk_objective_ref :: "string option"
  tk_plan_version_refs :: "string list"
  tk_artifact_contract :: dict
  tk_approval_requirements :: dict
  tk_reporting_destination :: dict
  tk_expected_receipt_contract :: dict
  tk_payload :: dict

definition task_py :: "task \<Rightarrow> py" where
  "task_py t = PDict
    [(''objective_ref'', of_opt (tk_objective_ref t)),
     (''plan_version_refs'', PList (map PStr (tk_plan_version_refs t))),
     (''artifact_contract'', PDict (tk_artifact_contract t)),
     (''approval_requirements'', PDict (tk_approval_requirements t)),
     (''reporting_destination'', PDict (tk_reporting_destination t)),
     (''expected_receipt_contract'', PDict (tk_expected_receipt_contract t)),
     (''payload'', PDict (tk_payload t))]"

definition TASK_FIELDS :: "string list" where
  "TASK_FIELDS = [''objective_ref'', ''plan_version_refs'', ''artifact_contract'', ''approval_requirements'',
     ''reporting_destination'', ''expected_receipt_contract'', ''payload'']"

definition normalize_initial_task :: "py \<Rightarrow> py \<Rightarrow> task result" where
  "normalize_initial_task value fallback_objective =
    ebind (if value = PNone then Inr [] else require_object value False) (\<lambda>task.
    if \<not> only_keys task TASK_FIELDS then Inl (Gov ''TASK_FIELD_UNSUPPORTED'')
    else
      ebind (optional_text (dget_or task ''objective_ref'' fallback_objective) 8192) (\<lambda>objective.
      ebind (normalize_string_list (dget task ''plan_version_refs'') [] 1024 8192) (\<lambda>refs.
      ebind (require_metadata_object (dget_or task ''artifact_contract'' (PDict []))) (\<lambda>contract.
      ebind (require_metadata_object (dget_or task ''approval_requirements'' (PDict []))) (\<lambda>approval.
      ebind (require_metadata_object (dget_or task ''reporting_destination'' (PDict []))) (\<lambda>reporting.
      ebind (require_metadata_object (dget_or task ''expected_receipt_contract'' (PDict []))) (\<lambda>receipt.
      ebind (require_metadata_object (dget_or task ''payload'' (PDict []))) (\<lambda>payload.
      let normalized = \<lparr>tk_objective_ref = objective, tk_plan_version_refs = refs,
            tk_artifact_contract = contract, tk_approval_requirements = approval,
            tk_reporting_destination = reporting, tk_expected_receipt_contract = receipt,
            tk_payload = payload\<rparr>
      in ebind (canonical_json (task_py normalized)) (\<lambda>_. Inr normalized)))))))))"

section \<open>Sensitive fields\<close>

text \<open>A loop that only checks: the first error ends it.\<close>

fun efor :: "('a \<Rightarrow> unit result) \<Rightarrow> 'a list \<Rightarrow> unit result" where
  "efor f [] = Inr ()"
| "efor f (x # xs) = ebind (f x) (\<lambda>_. efor f xs)"

lemma efor_Inr_iff [simp]: "efor f xs = Inr u \<longleftrightarrow> (\<forall>x\<in>set xs. f x = Inr ())"
  by (induction xs) auto

lemma efor_cong [fundef_cong]:
  "xs = ys \<Longrightarrow> (\<And>x. x \<in> set ys \<Longrightarrow> f x = g x) \<Longrightarrow> efor f xs = efor g ys"
proof (induction ys arbitrary: xs)
  case (Cons y ys)
  then have "efor f ys = efor g ys" by auto
  with Cons.prems show ?case by simp
qed simp

definition SENSITIVE_KEY_FRAGMENTS :: "string list" where
  "SENSITIVE_KEY_FRAGMENTS = [''access_token'', ''api_key'', ''authorization'', ''cookie'', ''credential'',
     ''password'', ''private_key'', ''prompt_body'', ''refresh_token'', ''report_body'', ''secret'',
     ''source_body'', ''source_code'']"

definition sensitive_key :: "string \<Rightarrow> bool" where
  "sensitive_key k = list_ex (\<lambda>fragment. contains_str (py_lower k) fragment) SENSITIVE_KEY_FRAGMENTS"

fun reject_sensitive_fields :: "py \<Rightarrow> unit result" where
  "reject_sensitive_fields (PDict d) =
     efor (\<lambda>kv. if sensitive_key (fst kv) then Inl (Gov ''SENSITIVE_FIELD_REJECTED'')
                else reject_sensitive_fields (snd kv)) d"
| "reject_sensitive_fields (PList xs) = efor (\<lambda>x. reject_sensitive_fields x) xs"
| "reject_sensitive_fields (PStr s) =
     (if length s > MAX_TEXT_LENGTH then Inl (Gov ''TEXT_TOO_LARGE'') else Inr ())"
| "reject_sensitive_fields _ = Inr ()"

text \<open>Every key of a value, at every depth.\<close>

fun all_keys :: "py \<Rightarrow> string set" where
  "all_keys (PDict d) = (\<Union>kv\<in>set d. insert (fst kv) (all_keys (snd kv)))"
| "all_keys (PList xs) = (\<Union>x\<in>set xs. all_keys x)"
| "all_keys _ = {}"

lemma reject_sensitive_no_keys:
  "reject_sensitive_fields v = Inr () \<Longrightarrow> k \<in> all_keys v \<Longrightarrow> \<not> sensitive_key k"
proof (induction v)
  case (PDict d)
  then show ?case by (auto split: if_splits) (metis prod.collapse snds.intros snd_conv)
qed auto

section \<open>What a normalised value guarantees\<close>

definition text_ok :: "nat \<Rightarrow> string \<Rightarrow> bool" where
  "text_ok m s \<longleftrightarrow> s \<noteq> [] \<and> py_strip s = s \<and> length s \<le> m"

definition opt_text_ok :: "nat \<Rightarrow> string option \<Rightarrow> bool" where
  "opt_text_ok m s = (case s of None \<Rightarrow> True | Some t \<Rightarrow> text_ok m t)"

lemma require_text_Inr: "require_text v m = Inr s \<Longrightarrow> text_ok m s"
  by (auto simp: require_text_def text_ok_def Let_def split: py.splits if_splits)

lemma require_text_again [simp]: "text_ok m s \<Longrightarrow> require_text (PStr s) m = Inr s"
  by (auto simp: require_text_def text_ok_def)

lemma optional_text_Inr: "optional_text v m = Inr s \<Longrightarrow> opt_text_ok m s"
  by (auto simp: optional_text_def opt_text_ok_def dest: require_text_Inr split: if_splits)

lemma optional_text_again [simp]: "opt_text_ok m s \<Longrightarrow> optional_text (of_opt s) m = Inr s"
  by (cases s) (auto simp: optional_text_def opt_text_ok_def)

lemma require_object_Inr: "require_object v b = Inr d \<longleftrightarrow> v = PDict d \<and> (b \<longrightarrow> d \<noteq> [])"
  by (auto simp: require_object_def split: py.splits if_splits)

lemma require_metadata_Inr: "require_metadata_object v = Inr d \<longleftrightarrow> v = PDict d \<and> length d \<le> 128"
  by (cases v) (auto simp: require_metadata_object_def require_object_def)

lemma require_sha256_Inr: "require_sha256 v = Inr s \<longleftrightarrow> v = PStr s \<and> SHA256_PATTERN s"
  by (auto simp: require_sha256_def split: py.splits if_splits)

lemma require_stable_id_Inr: "require_stable_id v kind = Inr s \<longleftrightarrow> v = PStr s \<and> is_stable_id_str s kind"
  by (auto simp: require_stable_id_def is_stable_id_def split: py.splits if_splits)

lemma require_positive_Inr: "require_positive_integer v = Inr i \<longleftrightarrow> v = PInt i \<and> 1 \<le> i"
  by (auto simp: require_positive_integer_def split: py.splits if_splits)

lemma require_non_negative_Inr: "require_non_negative_integer v = Inr i \<longleftrightarrow> v = PInt i \<and> 0 \<le> i"
  by (auto simp: require_non_negative_integer_def split: py.splits if_splits)

lemmas validator_Inr = require_object_Inr require_metadata_Inr require_sha256_Inr require_stable_id_Inr
  require_positive_Inr require_non_negative_Inr

definition origin_ok :: "bool option \<Rightarrow> origin \<Rightarrow> bool" where
  "origin_ok imported o' \<longleftrightarrow> or_kind o' \<in> set ORIGIN_KINDS \<and> opt_text_ok 2048 (or_ref o')
     \<and> SHA256_PATTERN (or_snapshot_digest o')
     \<and> (case imported of None \<Rightarrow> True | Some b \<Rightarrow> b = (or_kind o' = ''imported''))"

lemma normalize_origin_Inr:
  assumes "normalize_origin v imported = Inr o'"
  shows "origin_ok imported o'"
proof -
  from assms obtain d known where
    known: "in_str_set (dget d ''kind'') ORIGIN_KINDS = Inr known"
    and body: "(case dget d ''kind'' of
      PStr kind \<Rightarrow>
        if \<not> known then Inl (Gov ''ORIGIN_KIND_UNSUPPORTED'')
        else if imported = Some True \<and> kind \<noteq> ''imported'' then Inl (Gov ''IMPORT_ORIGIN_REQUIRED'')
        else if imported = Some False \<and> kind = ''imported'' then Inl (Gov ''IMPORT_COMMAND_REQUIRED'')
        else ebind (optional_text (dget d ''ref'') 2048) (\<lambda>ref.
             ebind (require_sha256 (dget d ''snapshot_digest'')) (\<lambda>digest.
             Inr \<lparr>or_kind = kind, or_ref = ref, or_snapshot_digest = digest\<rparr>))
    | _ \<Rightarrow> Inl (Gov ''ORIGIN_KIND_UNSUPPORTED'')) = Inr o'"
    unfolding normalize_origin_def by (auto split: if_splits)
  then obtain kind where k: "dget d ''kind'' = PStr kind" by (cases "dget d ''kind''") auto
  with known body obtain ref where
    "kind \<in> set ORIGIN_KINDS" "optional_text (dget d ''ref'') 2048 = Inr ref"
    "or_kind o' = kind" "or_ref o' = ref" "SHA256_PATTERN (or_snapshot_digest o')"
    "imported \<noteq> Some True \<or> kind = ''imported''" "imported \<noteq> Some False \<or> kind \<noteq> ''imported''"
    by (auto simp: require_sha256_Inr split: if_splits)
  then show ?thesis by (cases imported) (auto simp: origin_ok_def dest: optional_text_Inr)
qed

lemma dget_Cons [simp]: "dget_or ((k, v) # d) k' w = (if k = k' then v else dget_or d k' w)"
  by (simp add: dget_or_def)

lemma dget_Nil [simp]: "dget_or [] k w = w"
  by (simp add: dget_or_def)

lemma dhas_Cons [simp]: "dhas (kv # d) k \<longleftrightarrow> fst kv = k \<or> dhas d k"
  by (auto simp: dhas_def)

lemma dhas_Nil [simp]: "\<not> dhas [] k"
  by (simp add: dhas_def)

lemma only_keys_simps [simp]:
  "only_keys [] ks" "only_keys ((k, v) # d) ks \<longleftrightarrow> k \<in> set ks \<and> only_keys d ks"
  by (auto simp: only_keys_def keys_of_def)

lemma normalize_origin_again: "origin_ok imported o' \<Longrightarrow> normalize_origin (origin_py o') imported = Inr o'"
  by (cases imported) (auto simp: normalize_origin_def origin_py_def origin_ok_def require_object_Inr
      require_object_def require_sha256_def)

definition task_ok :: "task \<Rightarrow> bool" where
  "task_ok t \<longleftrightarrow> opt_text_ok 8192 (tk_objective_ref t)
     \<and> length (tk_plan_version_refs t) \<le> 1024 \<and> distinct (tk_plan_version_refs t)
     \<and> list_all (text_ok 8192) (tk_plan_version_refs t)
     \<and> length (tk_artifact_contract t) \<le> 128 \<and> length (tk_approval_requirements t) \<le> 128
     \<and> length (tk_reporting_destination t) \<le> 128 \<and> length (tk_expected_receipt_contract t) \<le> 128
     \<and> length (tk_payload t) \<le> 128
     \<and> (\<exists>text. canonical_json (task_py t) = Inr text)"

lemma normalize_string_list_Inr:
  assumes "normalize_string_list v [] n m = Inr xs"
  shows "length xs \<le> n \<and> distinct xs \<and> list_all (text_ok m) xs"
proof (cases v)
  case (PList ys)
  with assms have e: "emap (\<lambda>x. require_text x m) ys = Inr xs" and "length ys \<le> n" "distinct xs"
    by (auto simp: normalize_string_list_def split: if_splits)
  moreover have "text_ok m x" if "x \<in> set xs" for x
    using emap_Inr_set [OF e that] require_text_Inr by blast
  ultimately show ?thesis using emap_Inr_length [OF e] by (simp add: list_all_iff)
qed (use assms in \<open>auto simp: normalize_string_list_def\<close>)

lemma normalize_string_list_again:
  assumes "length xs \<le> n" "distinct xs" "list_all (text_ok m) xs"
  shows "normalize_string_list (PList (map PStr xs)) d n m = Inr xs"
proof -
  have "emap (\<lambda>x. require_text x m) (map PStr xs) = Inr xs"
    using assms by (intro emap_fixed) (simp add: list_all_iff)
  with assms show ?thesis by (simp add: normalize_string_list_def)
qed

lemma normalize_initial_task_Inr: "normalize_initial_task v fb = Inr t \<Longrightarrow> task_ok t"
  unfolding normalize_initial_task_def
  by (auto simp: task_ok_def require_metadata_Inr Let_def split: if_splits
      dest: optional_text_Inr normalize_string_list_Inr)

lemma normalize_initial_task_again: "task_ok t \<Longrightarrow> normalize_initial_task (task_py t) fb = Inr t"
  by (auto simp: normalize_initial_task_def task_ok_def task_py_def TASK_FIELDS_def require_object_def
      require_metadata_object_def normalize_string_list_again Let_def)

end
