(* ===== verification/Principal.thy ===== *)
theory Principal
  imports Validation
begin

text \<open>
  \<open>runner/work_item_governance/principal.py\<close> and \<open>preview.py\<close>: the trusted principal that carries
  the authority of a command, and the signed preview that carries a command from its preview to its
  apply.  The trust seal, an unforgeable object of the process, is the flag \<open>pr_trusted\<close>: only
  \<open>trusted_principal_context\<close> sets it.  The record \<open>env\<close> holds what lies outside the repository:
  the digest and the keyed digest, the signing key, the clock with its text form, the fresh
  identifiers, and the digest that binds the project root.
\<close>

section \<open>Principals\<close>

definition PRINCIPAL_KINDS :: "string list" where
  "PRINCIPAL_KINDS = [''human'', ''service'', ''agent'']"

definition AUTHENTICATION_METHODS :: "string list" where
  "AUTHENTICATION_METHODS = [''local_session'', ''oauth'', ''commander'']"

definition WORK_ITEM_PERMISSIONS :: "string list" where
  "WORK_ITEM_PERMISSIONS = [''work_item.ready'', ''work_item.start_delivery'', ''work_item.submit'',
     ''work_item.accept'', ''work_item.cancel'', ''work_item.return_for_revision'', ''work_item.approve'']"

definition DECISION_PERMISSION_BY_ACTION :: "(string \<times> string) list" where
  "DECISION_PERMISSION_BY_ACTION =
    [(''approve'', ''work_item.approve''), (''approve_submission'', ''work_item.submit''),
     (''accept'', ''work_item.accept''), (''cancel'', ''work_item.cancel''),
     (''reject'', ''work_item.return_for_revision''),
     (''request_changes'', ''work_item.return_for_revision''), (''submit'', ''work_item.submit'')]"

record principal =
  pr_id :: string
  pr_kind :: string
  pr_authenticated_by :: string
  pr_permissions :: "string list"    \<comment> \<open>a frozenset\<close>
  pr_session_ref :: "string option"
  pr_display_name :: "string option"
  pr_trusted :: bool

definition principal_required_text :: "py \<Rightarrow> nat \<Rightarrow> string result" where
  "principal_required_text value max_length =
    (case value of
       PStr s \<Rightarrow> if py_strip s = [] \<or> length (py_strip s) > max_length then Inl (Gov ''PRINCIPAL_FIELD_INVALID'')
                 else Inr (py_strip s)
     | _ \<Rightarrow> Inl (Gov ''PRINCIPAL_FIELD_INVALID''))"

definition trusted_principal_context ::
  "py \<Rightarrow> string \<Rightarrow> string \<Rightarrow> string list \<Rightarrow> py \<Rightarrow> py \<Rightarrow> principal result" where
  "trusted_principal_context principal_id principal_kind authenticated_by granted session_ref display_name =
    ebind (principal_required_text principal_id 512) (\<lambda>normalized_id.
    if principal_kind \<notin> set PRINCIPAL_KINDS then Inl (Gov ''PRINCIPAL_KIND_INVALID'')
    else if authenticated_by \<notin> set AUTHENTICATION_METHODS then Inl (Gov ''PRINCIPAL_AUTHENTICATION_INVALID'')
    else if granted = [] \<or> \<not> list_all (\<lambda>p. p \<in> set WORK_ITEM_PERMISSIONS) granted
      then Inl (Gov ''PRINCIPAL_PERMISSIONS_INVALID'')
    else ebind (if session_ref = PNone then Inr None
                else ebind (principal_required_text session_ref 2048) (\<lambda>s. Inr (Some s))) (\<lambda>session.
         ebind (if display_name = PNone then Inr None
                else ebind (principal_required_text display_name 512) (\<lambda>s. Inr (Some s))) (\<lambda>display.
         Inr \<lparr>pr_id = normalized_id, pr_kind = principal_kind, pr_authenticated_by = authenticated_by,
              pr_permissions = remdups granted, pr_session_ref = session, pr_display_name = display,
              pr_trusted = True\<rparr>)))"

definition principal_to_record :: "principal \<Rightarrow> py" where
  "principal_to_record p = PDict
    [(''principal_id'', PStr (pr_id p)), (''principal_kind'', PStr (pr_kind p)),
     (''authenticated_by'', PStr (pr_authenticated_by p)),
     (''granted_permissions'', PList (map PStr (sort (pr_permissions p)))),
     (''session_ref'', of_opt (pr_session_ref p))]"

definition principal_actor_record :: "principal \<Rightarrow> actor" where
  "principal_actor_record p = \<lparr>ac_id = pr_id p, ac_kind = pr_kind p, ac_display_name = pr_display_name p\<rparr>"

definition authority_basis_of :: "principal \<Rightarrow> string \<Rightarrow> dict" where
  "authority_basis_of p permission =
    [(''authority'', PStr permission), (''policy'', PStr ''work_item_principal_policy.v1''),
     (''principal_id'', PStr (pr_id p)), (''authenticated_by'', PStr (pr_authenticated_by p)),
     (''session_ref'', of_opt (pr_session_ref p))]"

definition authorize_principal :: "principal option \<Rightarrow> string \<Rightarrow> (py \<times> actor \<times> dict) result" where
  "authorize_principal principal_context permission =
    (case principal_context of
       None \<Rightarrow> Inl (Gov ''TRUSTED_PRINCIPAL_REQUIRED'')
     | Some p \<Rightarrow>
         if \<not> pr_trusted p then Inl (Gov ''TRUSTED_PRINCIPAL_REQUIRED'')
         else if permission \<notin> set (pr_permissions p) then Inl (Gov ''PRINCIPAL_PERMISSION_DENIED'')
         else Inr (principal_to_record p, principal_actor_record p, authority_basis_of p permission))"

definition permission_for_decision :: "string \<Rightarrow> string result" where
  "permission_for_decision action =
    (case map_of DECISION_PERMISSION_BY_ACTION action of
       None \<Rightarrow> Inl (Gov ''DECISION_ACTION_INVALID'')
     | Some p \<Rightarrow> Inr p)"

lemma authorize_principal_Inr:
  "authorize_principal pc perm = Inr (pj, actor, basis) \<longleftrightarrow>
   (\<exists>p. pc = Some p \<and> pr_trusted p \<and> perm \<in> set (pr_permissions p) \<and> pj = principal_to_record p
     \<and> actor = principal_actor_record p \<and> basis = authority_basis_of p perm)"
  by (auto simp: authorize_principal_def split: option.splits if_splits)

lemma permission_for_decision_total:
  "action \<in> set DECISION_ACTIONS \<Longrightarrow> \<exists>p. permission_for_decision action = Inr p \<and> p \<in> set WORK_ITEM_PERMISSIONS"
  by (auto simp: permission_for_decision_def DECISION_PERMISSION_BY_ACTION_def DECISION_ACTIONS_def
      WORK_ITEM_PERMISSIONS_def)

section \<open>Signed previews\<close>

text \<open>
  What the code takes from outside: \<open>e_sha\<close> is SHA-256 as hexadecimal text, \<open>e_mac key text\<close> the
  HMAC, \<open>e_iso\<close> the text of an instant (microseconds) and \<open>e_parse\<close> the instant a text denotes (None
  when it is not an ISO timestamp with a zone), \<open>e_fresh kind n\<close> the n-th identifier of a kind that
  \<open>new_stable_id\<close> returns during the command.  Of the file system: \<open>e_root\<close> the components of the
  project root, \<open>e_resolve\<close> the components of a resolved path and \<open>e_file_digest\<close> the digest of the
  file there, None when there is no file.
\<close>

datatype local_path = Under_Root string | Bare_Path string

record env =
  e_sha :: "string \<Rightarrow> string"
  e_mac :: "string \<Rightarrow> string \<Rightarrow> string"
  e_signing_key :: "string result"
  e_project_binding :: string
  e_iso :: "int \<Rightarrow> string"
  e_parse :: "string \<Rightarrow> int option"
  e_now :: int
  e_fresh :: "string \<Rightarrow> nat \<Rightarrow> string"
  e_root :: "string list"
  e_resolve :: "local_path \<Rightarrow> string list"
  e_file_digest :: "string list \<Rightarrow> string option"

definition DEFAULT_PREVIEW_TTL_SECONDS :: int where "DEFAULT_PREVIEW_TTL_SECONDS = 300"
definition MAX_PREVIEW_TTL_SECONDS :: int where "MAX_PREVIEW_TTL_SECONDS = 900"

definition isoformat_utc :: "env \<Rightarrow> int \<Rightarrow> string" where
  "isoformat_utc e t = e_iso e t"

definition parse_timestamp :: "env \<Rightarrow> py \<Rightarrow> int result" where
  "parse_timestamp e value =
    (case value of
       PStr s \<Rightarrow> (case e_parse e s of None \<Rightarrow> Inl (Gov ''PREVIEW_TIMESTAMP_INVALID'') | Some t \<Rightarrow> Inr t)
     | _ \<Rightarrow> Inl (Gov ''PREVIEW_TIMESTAMP_INVALID''))"

definition ttl_valid :: "py \<Rightarrow> bool" where
  "ttl_valid ttl = (case ttl of PInt n \<Rightarrow> 1 \<le> n \<and> n \<le> MAX_PREVIEW_TTL_SECONDS | _ \<Rightarrow> False)"

definition preview_unsigned :: "dict \<Rightarrow> dict" where
  "preview_unsigned preview = filter (\<lambda>kv. fst kv \<noteq> ''signature'') preview"

definition preview_sign :: "env \<Rightarrow> dict \<Rightarrow> string result" where
  "preview_sign e preview =
    ebind (e_signing_key e) (\<lambda>key.
    ebind (canonical_json (PDict (preview_unsigned preview))) (\<lambda>text.
    Inr (e_mac e key text)))"

definition preview_issue :: "env \<Rightarrow> string \<Rightarrow> dict \<Rightarrow> py \<Rightarrow> dict \<Rightarrow> dict result" where
  "preview_issue e operation command ttl_seconds generated_ids =
    (case ttl_seconds of
       PInt ttl \<Rightarrow>
         if \<not> ttl_valid ttl_seconds then Inl (Gov ''PREVIEW_TTL_INVALID'')
         else
           ebind (canonical_sha256 (e_sha e) (PDict command)) (\<lambda>content_digest.
           let payload =
             [(''schema_version'', PStr ''work_item_command_preview.v1''),
              (''preview_id'', PStr (e_fresh e ''preview'' 0)),
              (''operation'', PStr operation),
              (''project_binding'', PStr (e_project_binding e)),
              (''issued_at'', PStr (isoformat_utc e (e_now e))),
              (''expires_at'', PStr (isoformat_utc e (e_now e + ttl * 1000000))),
              (''ttl_seconds'', PInt ttl),
              (''content_digest'', PStr content_digest),
              (''command'', PDict command),
              (''generated_ids'', PDict generated_ids)]
           in ebind (preview_sign e payload) (\<lambda>signature.
              Inr (dset ''signature'' (PStr signature) payload)))
     | _ \<Rightarrow> Inl (Gov ''PREVIEW_TTL_INVALID''))"

definition PREVIEW_FIELDS :: "string list" where
  "PREVIEW_FIELDS = [''schema_version'', ''preview_id'', ''operation'', ''project_binding'', ''issued_at'',
     ''expires_at'', ''ttl_seconds'', ''content_digest'', ''command'', ''generated_ids'', ''signature'']"

definition is_ascii :: "string \<Rightarrow> bool" where
  "is_ascii s = list_all (\<lambda>c. (of_char c :: nat) < 128) s"

text \<open>\<open>hmac.compare_digest\<close> on two strings: TypeError unless both are ASCII.\<close>

definition compare_digest :: "string \<Rightarrow> string \<Rightarrow> bool result" where
  "compare_digest a b = (if is_ascii a \<and> is_ascii b then Inr (a = b) else Inl (Py_Exc ''TypeError''))"

definition preview_verify :: "env \<Rightarrow> py \<Rightarrow> string \<Rightarrow> dict result" where
  "preview_verify e preview0 expected_operation =
    (case preview0 of
       PDict preview \<Rightarrow>
         if \<not> exact_keys preview PREVIEW_FIELDS then Inl (Gov ''PREVIEW_SHAPE_INVALID'')
         else if dget preview ''schema_version'' \<noteq> PStr ''work_item_command_preview.v1''
           then Inl (Gov ''PREVIEW_SCHEMA_UNSUPPORTED'')
         else if dget preview ''operation'' \<noteq> PStr expected_operation
           then Inl (Gov ''PREVIEW_OPERATION_MISMATCH'')
         else if dget preview ''project_binding'' \<noteq> PStr (e_project_binding e)
           then Inl (Gov ''PREVIEW_PROJECT_MISMATCH'')
         else (case dget preview ''signature'' of
             PStr signature \<Rightarrow>
               ebind (preview_sign e preview) (\<lambda>expected_signature.
               ebind (compare_digest signature expected_signature) (\<lambda>same.
               if \<not> same then Inl (Gov ''PREVIEW_SIGNATURE_INVALID'')
               else (case dget preview ''command'' of
                   PDict command \<Rightarrow>
                     ebind (canonical_sha256 (e_sha e) (PDict command)) (\<lambda>digest.
                     if dget preview ''content_digest'' \<noteq> PStr digest then Inl (Gov ''PREVIEW_CONTENT_MISMATCH'')
                     else
                       ebind (parse_timestamp e (dget preview ''issued_at'')) (\<lambda>issued_at.
                       ebind (parse_timestamp e (dget preview ''expires_at'')) (\<lambda>expires_at.
                       case dget preview ''ttl_seconds'' of
                         PInt ttl \<Rightarrow>
                           if \<not> ttl_valid (PInt ttl) then Inl (Gov ''PREVIEW_TTL_INVALID'')
                           else if expires_at \<noteq> issued_at + ttl * 1000000 then Inl (Gov ''PREVIEW_TTL_MISMATCH'')
                           else if e_now e > expires_at then Inl (Gov ''PREVIEW_EXPIRED'')
                           else Inr preview
                       | _ \<Rightarrow> Inl (Gov ''PREVIEW_TTL_INVALID''))))
                 | _ \<Rightarrow> Inl (Gov ''PREVIEW_CONTENT_MISMATCH''))))
           | _ \<Rightarrow> Inl (Gov ''PREVIEW_SIGNATURE_INVALID''))
     | _ \<Rightarrow> Inl (Gov ''PREVIEW_REQUIRED''))"

text \<open>What acceptance of a preview establishes.\<close>

lemma preview_verify_Inr:
  assumes "preview_verify e v oper = Inr preview"
  shows "v = PDict preview"
    and "exact_keys preview PREVIEW_FIELDS"
    and "dget preview ''operation'' = PStr oper"
    and "dget preview ''project_binding'' = PStr (e_project_binding e)"
    and "\<exists>command digest. dget preview ''command'' = PDict command
          \<and> canonical_sha256 (e_sha e) (PDict command) = Inr digest
          \<and> dget preview ''content_digest'' = PStr digest"
    and "\<exists>s. dget preview ''signature'' = PStr s \<and> preview_sign e preview = Inr s"
    and "\<exists>t0 ttl. parse_timestamp e (dget preview ''issued_at'') = Inr t0
          \<and> dget preview ''ttl_seconds'' = PInt ttl \<and> 1 \<le> ttl \<and> ttl \<le> 900 \<and> e_now e \<le> t0 + ttl * 1000000"
proof -
  from assms obtain p where p: "v = PDict p" by (cases v) (auto simp: preview_verify_def)
  from assms p obtain s where sig0: "dget p ''signature'' = PStr s"
    unfolding preview_verify_def by (cases "dget p ''signature''") (auto split: if_splits)
  from assms p sig0 obtain command where cmd0: "dget p ''command'' = PDict command"
    unfolding preview_verify_def by (cases "dget p ''command''") (auto split: if_splits)
  from assms p sig0 cmd0 obtain ttl where ttl0: "dget p ''ttl_seconds'' = PInt ttl"
    unfolding preview_verify_def by (cases "dget p ''ttl_seconds''") (auto split: if_splits)
  note acc0 = assms [unfolded p preview_verify_def py.case sig0 cmd0 ttl0]
  from acc0 have pp: "p = preview" by (auto split: if_splits)
  note acc = acc0 [unfolded pp] and sig = sig0 [unfolded pp] and cmd = cmd0 [unfolded pp]
    and ttl = ttl0 [unfolded pp]
  show "v = PDict preview" using p pp by simp
  from acc show "exact_keys preview PREVIEW_FIELDS" "dget preview ''operation'' = PStr oper"
    "dget preview ''project_binding'' = PStr (e_project_binding e)"
    by (auto split: if_splits)
  from acc cmd show "\<exists>command digest. dget preview ''command'' = PDict command
          \<and> canonical_sha256 (e_sha e) (PDict command) = Inr digest
          \<and> dget preview ''content_digest'' = PStr digest"
    by (auto split: if_splits)
  from acc sig show "\<exists>s. dget preview ''signature'' = PStr s \<and> preview_sign e preview = Inr s"
    by (auto simp: compare_digest_def split: if_splits)
  from acc ttl show "\<exists>t0 ttl. parse_timestamp e (dget preview ''issued_at'') = Inr t0
          \<and> dget preview ''ttl_seconds'' = PInt ttl \<and> 1 \<le> ttl \<and> ttl \<le> 900 \<and> e_now e \<le> t0 + ttl * 1000000"
    by (auto simp: ttl_valid_def MAX_PREVIEW_TTL_SECONDS_def split: if_splits)
qed

text \<open>A preview is accepted for as long as it lives, by the codec that issued it.\<close>

lemma preview_roundtrip:
  assumes iss: "preview_issue e oper command (PInt ttl) ids = Inr preview"
    and later: "e' = e\<lparr>e_now := t\<rparr>" "t \<le> e_now e + ttl * 1000000"
    and parse: "\<And>u. e_parse e (e_iso e u) = Some u"
    and ascii: "\<And>k text. is_ascii (e_mac e k text)"
  shows "preview_verify e' (PDict preview) oper = Inr preview"
proof -
  let ?payload = "\<lambda>digest. [(''schema_version'', PStr ''work_item_command_preview.v1''),
              (''preview_id'', PStr (e_fresh e ''preview'' 0)),
              (''operation'', PStr oper),
              (''project_binding'', PStr (e_project_binding e)),
              (''issued_at'', PStr (isoformat_utc e (e_now e))),
              (''expires_at'', PStr (isoformat_utc e (e_now e + ttl * 1000000))),
              (''ttl_seconds'', PInt ttl),
              (''content_digest'', PStr digest),
              (''command'', PDict command),
              (''generated_ids'', PDict ids)]"
  from iss obtain digest sig where
    ttl: "ttl_valid (PInt ttl)" and dig: "canonical_sha256 (e_sha e) (PDict command) = Inr digest"
    and sig: "preview_sign e (?payload digest) = Inr sig"
    and p: "preview = dset ''signature'' (PStr sig) (?payload digest)"
    unfolding preview_issue_def Let_def by (auto split: if_splits)
  have unsigned: "preview_unsigned preview = preview_unsigned (?payload digest)"
    by (simp add: p preview_unsigned_def)
  have "preview_sign e' preview = Inr sig"
    using sig unsigned by (simp add: preview_sign_def later)
  moreover have "is_ascii sig" using sig ascii by (auto simp: preview_sign_def)
  ultimately show ?thesis
    using ttl dig parse later(2)
    by (simp add: preview_verify_def p exact_keys_def PREVIEW_FIELDS_def compare_digest_def
        parse_timestamp_def isoformat_utc_def later(1))
qed

end
