(* ===== verification/Ledger.thy ===== *)
theory Ledger
  imports Principal
begin

text \<open>
  \<open>runner/work_item_governance/repository.py\<close>, the tables of the ledger (migrations 1 to 4), as lists
  of rows in rowid order.  An \<open>insert_\<close> function is one INSERT statement with the CHECK, UNIQUE and
  FOREIGN KEY constraints of its table; a violated constraint is the \<open>sqlite3.IntegrityError\<close> it
  raises.  Columns named \<open>_json\<close> hold the value their text denotes, with its keys sorted (\<open>jsort\<close>);
  constant \<open>schema_version\<close> columns are left out.  A write transaction is a function from the ledger
  to an error (rollback: the ledger is unchanged) or a result with the new ledger (commit).
  The locale \<open>ledger_table\<close> states what every table promises its users; it is interpreted on each of
  the tables.
\<close>

section \<open>Rows\<close>

record work_item_row =
  wi_id :: string
  wi_state :: string
  wi_state_version :: int
  wi_origin :: origin
  wi_imported :: bool
  wi_current_task_version :: int
  wi_attributes :: py
  wi_content_digest :: string
  wi_creation_operation :: string
  wi_creation_preview_id :: string
  wi_idempotency_key :: "string option"
  wi_created_at :: string
  wi_updated_at :: string

record task_version_row =
  tv_work_item_id :: string
  tv_task_version :: int
  tv_objective_ref :: "string option"
  tv_plan_version_refs :: py
  tv_artifact_contract :: py
  tv_approval_requirements :: py
  tv_reporting_destination :: py
  tv_expected_receipt_contract :: py
  tv_payload :: py
  tv_payload_digest :: string
  tv_source_event_key :: string
  tv_created_at :: string

record attempt_row =
  at_id :: string
  at_work_item_id :: string
  at_task_version :: int
  at_status :: string
  at_objective_ref :: "string option"
  at_metadata :: py
  at_source_event_key :: string
  at_completion_event_key :: "string option"
  at_created_at :: string
  at_completed_at :: "string option"
  at_kind :: string
  at_dispatch_authorized :: bool
  at_historical_reason :: "string option"
  at_imported :: bool

record artifact_row =
  ar_id :: string
  ar_work_item_id :: string
  ar_task_version :: int
  ar_attempt_id :: "string option"
  ar_kind :: string
  ar_uri :: string
  ar_immutable_ref :: string
  ar_digest :: string
  ar_metadata :: py
  ar_source_event_key :: string
  ar_created_at :: string

record association_row =
  ea_kind :: string
  ea_ref :: string
  ea_work_item_id :: string
  ea_task_version :: int
  ea_attempt_id :: "string option"
  ea_source_event_key :: string
  ea_created_at :: string

record attempt_event_row =
  ae_id :: string
  ae_attempt_id :: string
  ae_event_type :: string
  ae_source_event_key :: string
  ae_payload :: py
  ae_created_at :: string

record decision_row =
  dr_id :: string
  dr_work_item_id :: string
  dr_task_version :: int
  dr_actor :: py
  dr_action :: string
  dr_evidence_artifact_ids :: "string list"
  dr_authority_basis :: py
  dr_reason :: string
  dr_supersedes :: "string option"
  dr_source_event_key :: string
  dr_created_at :: string
  dr_principal :: py

record gate_row =
  ge_id :: string
  ge_work_item_id :: string
  ge_task_version :: int
  ge_from_state :: string
  ge_target_state :: string
  ge_expected_state_version :: int
  ge_outcome :: string
  ge_reason_code :: string
  ge_decision_ids :: "string list"
  ge_evidence_artifact_ids :: "string list"
  ge_authority_basis :: py
  ge_command_digest :: string
  ge_preview_id :: string
  ge_idempotency_key :: "string option"
  ge_created_at :: string
  ge_principal :: py
  ge_transition_result :: string

record manifest_row =
  am_id :: string
  am_work_item_id :: string
  am_task_version :: int
  am_gate_event_id :: string
  am_accepted_state_version :: int
  am_artifact_ids :: "string list"
  am_artifact_manifest :: py
  am_artifact_manifest_digest :: string
  am_decision_ids :: "string list"
  am_principal :: py
  am_created_at :: string

record delivery_row =
  de_id :: string
  de_work_item_id :: string
  de_task_version :: int
  de_destination :: string
  de_payload_digest :: string
  de_status :: string
  de_attempt_count :: int
  de_last_error :: "string option"
  de_next_attempt_at :: "string option"
  de_idempotency_key :: string
  de_created_at :: string
  de_updated_at :: string
  de_acknowledged_at :: "string option"

record audit_row =
  au_id :: string
  au_work_item_id :: string
  au_task_version :: "int option"
  au_event_type :: string
  au_actor :: py
  au_payload :: py
  au_source_event_key :: string
  au_created_at :: string

record outbox_row =
  ob_id :: string
  ob_work_item_id :: string
  ob_event_type :: string
  ob_dedupe_key :: string
  ob_payload :: py
  ob_status :: string
  ob_attempt_count :: int
  ob_next_attempt_at :: "string option"
  ob_last_error :: "string option"
  ob_created_at :: string
  ob_updated_at :: string

record inbox_row =
  ib_id :: string
  ib_source :: string
  ib_source_event_key :: string
  ib_payload_digest :: string
  ib_received_at :: string

record blocker_row =
  bl_event_id :: string
  bl_blocker_id :: string
  bl_work_item_id :: string
  bl_task_version :: int
  bl_event_type :: string
  bl_reason :: string
  bl_actor :: py
  bl_source_event_key :: string
  bl_created_at :: string

text \<open>The ledger; of the activation leases it keeps identifier and status.\<close>

record ledger =
  work_items :: "work_item_row list"
  task_versions :: "task_version_row list"
  execution_attempts :: "attempt_row list"
  artifact_refs :: "artifact_row list"
  external_associations :: "association_row list"
  attempt_events :: "attempt_event_row list"
  decision_records :: "decision_row list"
  gate_events :: "gate_row list"
  acceptance_manifests :: "manifest_row list"
  delivery_receipts :: "delivery_row list"
  audit_events :: "audit_row list"
  outbox_events :: "outbox_row list"
  inbox_events :: "inbox_row list"
  blocker_events :: "blocker_row list"
  activation_leases :: "(string \<times> string) list"

definition empty_ledger :: ledger where
  "empty_ledger = \<lparr>work_items = [], task_versions = [], execution_attempts = [], artifact_refs = [],
     external_associations = [], attempt_events = [], decision_records = [], gate_events = [],
     acceptance_manifests = [], delivery_receipts = [], audit_events = [], outbox_events = [],
     inbox_events = [], blocker_events = [], activation_leases = []\<rparr>"

section \<open>Constraints and statements\<close>

text \<open>Constraint checks in the order the engine makes them: CHECK, UNIQUE, FOREIGN KEY.\<close>

definition constrained :: "bool \<Rightarrow> bool \<Rightarrow> bool \<Rightarrow> 'a \<Rightarrow> 'a result" where
  "constrained checks uniques references x =
    (if \<not> checks then Inl (Sqlite_Integrity Check_Failed)
     else if \<not> uniques then Inl (Sqlite_Integrity Unique_Failed)
     else if \<not> references then Inl (Sqlite_Integrity Foreign_Key_Failed)
     else Inr x)"

lemma constrained_Inr [simp]: "constrained c u f x = Inr y \<longleftrightarrow> c \<and> u \<and> f \<and> y = x"
  by (auto simp: constrained_def)

text \<open>A UNIQUE column: NULL is never equal to another NULL.\<close>

definition unique_key :: "('r \<Rightarrow> 'k) \<Rightarrow> 'r \<Rightarrow> 'r list \<Rightarrow> bool" where
  "unique_key f r t = list_all (\<lambda>r'. f r' \<noteq> f r) t"

definition unique_null :: "('r \<Rightarrow> 'k option) \<Rightarrow> 'r \<Rightarrow> 'r list \<Rightarrow> bool" where
  "unique_null f r t = (f r = None \<or> list_all (\<lambda>r'. f r' \<noteq> f r) t)"

definition has_task :: "ledger \<Rightarrow> string \<Rightarrow> int \<Rightarrow> bool" where
  "has_task l w v = list_ex (\<lambda>t. tv_work_item_id t = w \<and> tv_task_version t = v) (task_versions l)"

definition has_work_item :: "ledger \<Rightarrow> string \<Rightarrow> bool" where
  "has_work_item l w = list_ex (\<lambda>r. wi_id r = w) (work_items l)"

definition has_attempt :: "ledger \<Rightarrow> string \<Rightarrow> bool" where
  "has_attempt l a = list_ex (\<lambda>r. at_id r = a) (execution_attempts l)"

definition insert_work_item :: "work_item_row \<Rightarrow> ledger \<Rightarrow> ledger result" where
  "insert_work_item r l = constrained
    (wi_state r \<in> set WORK_ITEM_STATES \<and> wi_state_version r \<ge> 0 \<and> or_kind (wi_origin r) \<in> set ORIGIN_KINDS
      \<and> length (or_snapshot_digest (wi_origin r)) = 64 \<and> wi_current_task_version r \<ge> 1
      \<and> length (wi_content_digest r) = 64 \<and> wi_creation_operation r \<in> {''create'', ''legacy_import''})
    (unique_key wi_id r (work_items l) \<and> unique_key wi_creation_preview_id r (work_items l)
      \<and> unique_null wi_idempotency_key r (work_items l)
      \<and> (or_ref (wi_origin r) = None \<or> unique_key wi_origin r (work_items l)))
    True
    (l\<lparr>work_items := work_items l @ [r]\<rparr>)"

definition insert_task_version_row :: "task_version_row \<Rightarrow> ledger \<Rightarrow> ledger result" where
  "insert_task_version_row r l = constrained
    (tv_task_version r \<ge> 1 \<and> length (tv_payload_digest r) = 64)
    (unique_key (\<lambda>t. (tv_work_item_id t, tv_task_version t)) r (task_versions l)
      \<and> unique_key tv_source_event_key r (task_versions l))
    (has_work_item l (tv_work_item_id r))
    (l\<lparr>task_versions := task_versions l @ [r]\<rparr>)"

definition insert_attempt :: "attempt_row \<Rightarrow> ledger \<Rightarrow> ledger result" where
  "insert_attempt r l = constrained
    (at_task_version r \<ge> 1 \<and> at_status r \<in> {''claimed'', ''running'', ''completed'', ''failed'', ''cancelled''}
      \<and> at_kind r \<in> {''runtime'', ''historical''})
    (unique_key at_id r (execution_attempts l) \<and> unique_key at_source_event_key r (execution_attempts l)
      \<and> unique_null at_completion_event_key r (execution_attempts l))
    (has_task l (at_work_item_id r) (at_task_version r))
    (l\<lparr>execution_attempts := execution_attempts l @ [r]\<rparr>)"

definition insert_artifact_row :: "artifact_row \<Rightarrow> ledger \<Rightarrow> ledger result" where
  "insert_artifact_row r l = constrained
    (ar_task_version r \<ge> 1 \<and> ar_kind r \<in> set ARTIFACT_KINDS \<and> length (ar_digest r) = 64)
    (unique_key ar_id r (artifact_refs l) \<and> unique_key ar_source_event_key r (artifact_refs l)
      \<and> unique_key (\<lambda>a. (ar_work_item_id a, ar_kind a, ar_immutable_ref a)) r (artifact_refs l))
    (has_task l (ar_work_item_id r) (ar_task_version r)
      \<and> (case ar_attempt_id r of None \<Rightarrow> True | Some a \<Rightarrow> has_attempt l a))
    (l\<lparr>artifact_refs := artifact_refs l @ [r]\<rparr>)"

definition insert_association :: "association_row \<Rightarrow> ledger \<Rightarrow> ledger result" where
  "insert_association r l = constrained
    True
    (unique_key (\<lambda>a. (ea_kind a, ea_ref a)) r (external_associations l)
      \<and> unique_key ea_source_event_key r (external_associations l))
    (has_work_item l (ea_work_item_id r)
      \<and> (case ea_attempt_id r of None \<Rightarrow> True | Some a \<Rightarrow> has_attempt l a))
    (l\<lparr>external_associations := external_associations l @ [r]\<rparr>)"

definition insert_attempt_event :: "attempt_event_row \<Rightarrow> ledger \<Rightarrow> ledger result" where
  "insert_attempt_event r l = constrained
    True
    (unique_key ae_id r (attempt_events l) \<and> unique_key ae_source_event_key r (attempt_events l))
    (has_attempt l (ae_attempt_id r))
    (l\<lparr>attempt_events := attempt_events l @ [r]\<rparr>)"

definition insert_decision :: "decision_row \<Rightarrow> ledger \<Rightarrow> ledger result" where
  "insert_decision r l = constrained
    (dr_task_version r \<ge> 1 \<and> dr_action r \<in> set DECISION_ACTIONS)
    (unique_key dr_id r (decision_records l) \<and> unique_key dr_source_event_key r (decision_records l))
    (has_task l (dr_work_item_id r) (dr_task_version r)
      \<and> (case dr_supersedes r of None \<Rightarrow> True
           | Some d \<Rightarrow> d = dr_id r \<or> list_ex (\<lambda>r'. dr_id r' = d) (decision_records l)))
    (l\<lparr>decision_records := decision_records l @ [r]\<rparr>)"

definition insert_gate :: "gate_row \<Rightarrow> ledger \<Rightarrow> ledger result" where
  "insert_gate r l = constrained
    (ge_task_version r \<ge> 1 \<and> ge_expected_state_version r \<ge> 0
      \<and> ge_outcome r \<in> {''transition_applied'', ''transition_rejected''} \<and> length (ge_command_digest r) = 64
      \<and> ge_transition_result r \<in> {''state_advanced'', ''returned_for_revision''})
    (unique_key ge_id r (gate_events l) \<and> unique_key ge_preview_id r (gate_events l)
      \<and> unique_null ge_idempotency_key r (gate_events l))
    (has_task l (ge_work_item_id r) (ge_task_version r))
    (l\<lparr>gate_events := gate_events l @ [r]\<rparr>)"

definition insert_manifest :: "manifest_row \<Rightarrow> ledger \<Rightarrow> ledger result" where
  "insert_manifest r l = constrained
    (am_task_version r \<ge> 1 \<and> am_accepted_state_version r \<ge> 1 \<and> length (am_artifact_manifest_digest r) = 64)
    (unique_key am_id r (acceptance_manifests l) \<and> unique_key am_work_item_id r (acceptance_manifests l)
      \<and> unique_key am_gate_event_id r (acceptance_manifests l))
    (has_task l (am_work_item_id r) (am_task_version r)
      \<and> list_ex (\<lambda>g. ge_id g = am_gate_event_id r) (gate_events l))
    (l\<lparr>acceptance_manifests := acceptance_manifests l @ [r]\<rparr>)"

definition insert_delivery :: "delivery_row \<Rightarrow> ledger \<Rightarrow> ledger result" where
  "insert_delivery r l = constrained
    (de_task_version r \<ge> 1 \<and> length (de_payload_digest r) = 64 \<and> de_attempt_count r \<ge> 0
      \<and> de_status r \<in> {''pending'', ''retry_scheduled'', ''delivered'', ''acknowledged'', ''failed''})
    (unique_key de_id r (delivery_receipts l) \<and> unique_key de_idempotency_key r (delivery_receipts l))
    (has_task l (de_work_item_id r) (de_task_version r))
    (l\<lparr>delivery_receipts := delivery_receipts l @ [r]\<rparr>)"

definition insert_audit :: "audit_row \<Rightarrow> ledger \<Rightarrow> ledger result" where
  "insert_audit r l = constrained
    True
    (unique_key au_id r (audit_events l) \<and> unique_key au_source_event_key r (audit_events l))
    (has_work_item l (au_work_item_id r))
    (l\<lparr>audit_events := audit_events l @ [r]\<rparr>)"

definition insert_outbox :: "outbox_row \<Rightarrow> ledger \<Rightarrow> ledger result" where
  "insert_outbox r l = constrained
    (ob_attempt_count r \<ge> 0
      \<and> ob_status r \<in> {''pending'', ''retry_scheduled'', ''delivered'', ''failed'', ''manual_recovery''})
    (unique_key ob_id r (outbox_events l) \<and> unique_key ob_dedupe_key r (outbox_events l))
    (has_work_item l (ob_work_item_id r))
    (l\<lparr>outbox_events := outbox_events l @ [r]\<rparr>)"

definition insert_inbox :: "inbox_row \<Rightarrow> ledger \<Rightarrow> ledger result" where
  "insert_inbox r l = constrained
    (length (ib_payload_digest r) = 64)
    (unique_key ib_id r (inbox_events l)
      \<and> unique_key (\<lambda>i. (ib_source i, ib_source_event_key i)) r (inbox_events l))
    True
    (l\<lparr>inbox_events := inbox_events l @ [r]\<rparr>)"

definition insert_blocker :: "blocker_row \<Rightarrow> ledger \<Rightarrow> ledger result" where
  "insert_blocker r l = constrained
    (bl_task_version r \<ge> 1 \<and> bl_event_type r \<in> {''blocker_applied'', ''blocker_cleared''})
    (unique_key bl_event_id r (blocker_events l) \<and> unique_key bl_source_event_key r (blocker_events l))
    (has_task l (bl_work_item_id r) (bl_task_version r))
    (l\<lparr>blocker_events := blocker_events l @ [r]\<rparr>)"

lemmas insert_defs = insert_work_item_def insert_task_version_row_def insert_attempt_def
  insert_artifact_row_def insert_association_def insert_attempt_event_def insert_decision_def
  insert_gate_def insert_manifest_def insert_delivery_def insert_audit_def insert_outbox_def
  insert_inbox_def insert_blocker_def

text \<open>\<open>WorkItemApplicationService._integrity_error\<close>: what a caller of a guarded command sees.\<close>

definition integrity_error :: "integrity \<Rightarrow> py_error" where
  "integrity_error i = (case i of
      Unique_Failed \<Rightarrow> Gov ''IDEMPOTENCY_OR_ASSOCIATION_CONFLICT''
    | Foreign_Key_Failed \<Rightarrow> Gov ''LEDGER_REFERENCE_INVALID''
    | Check_Failed \<Rightarrow> Gov ''LEDGER_CONSTRAINT_VIOLATION'')"

definition catch_integrity :: "'a result \<Rightarrow> 'a result" where
  "catch_integrity r = (case r of
      Inl (Sqlite_Integrity i) \<Rightarrow> Inl (integrity_error i)
    | _ \<Rightarrow> r)"

lemma catch_integrity_Inr [simp]: "catch_integrity r = Inr x \<longleftrightarrow> r = Inr x"
  by (auto simp: catch_integrity_def split: sum.splits py_error.splits)

section \<open>What a table promises\<close>

locale ledger_table =
  fixes rows :: "ledger \<Rightarrow> 'r list"
    and insert_row :: "'r \<Rightarrow> ledger \<Rightarrow> ledger result"
    and key :: "'r \<Rightarrow> 'k"
  assumes insert_appends: "insert_row r l = Inr l' \<Longrightarrow> rows l' = rows l @ [r]"
    and insert_fresh: "insert_row r l = Inr l' \<Longrightarrow> \<forall>r'\<in>set (rows l). key r' \<noteq> key r"
begin

lemma insert_extends: "insert_row r l = Inr l' \<Longrightarrow> extends (rows l) (rows l')"
  by (simp add: insert_appends)

lemma insert_distinct:
  "distinct (map key (rows l)) \<Longrightarrow> insert_row r l = Inr l' \<Longrightarrow> distinct (map key (rows l'))"
  using insert_appends insert_fresh by fastforce

lemma lookup_inserted: "insert_row r l = Inr l' \<Longrightarrow> row_with key (key r) (rows l') = Some r"
  using insert_appends insert_fresh by (auto simp: row_with_append row_with_None split: option.splits
      dest!: row_with_Some)

lemma lookup_other:
  "insert_row r l = Inr l' \<Longrightarrow> k \<noteq> key r \<Longrightarrow> row_with key k (rows l') = row_with key k (rows l)"
  by (simp add: insert_appends row_with_append split: option.splits)

lemma insert_twice_fails: "insert_row r l = Inr l' \<Longrightarrow> insert_row r' l' = Inr l'' \<Longrightarrow> key r' \<noteq> key r"
  using insert_appends insert_fresh by fastforce

end

lemma unique_key_iff: "unique_key f r t \<longleftrightarrow> (\<forall>r'\<in>set t. f r' \<noteq> f r)"
  by (simp add: unique_key_def list_all_iff)

interpretation work_item_table: ledger_table work_items insert_work_item wi_id
  by unfold_locales (auto simp: insert_work_item_def unique_key_iff)

interpretation task_version_table: ledger_table task_versions insert_task_version_row
    "\<lambda>t. (tv_work_item_id t, tv_task_version t)"
  by unfold_locales (auto simp: insert_task_version_row_def unique_key_iff)

interpretation attempt_table: ledger_table execution_attempts insert_attempt at_id
  by unfold_locales (auto simp: insert_attempt_def unique_key_iff)

interpretation artifact_table: ledger_table artifact_refs insert_artifact_row ar_id
  by unfold_locales (auto simp: insert_artifact_row_def unique_key_iff)

interpretation association_table: ledger_table external_associations insert_association
    "\<lambda>a. (ea_kind a, ea_ref a)"
  by unfold_locales (auto simp: insert_association_def unique_key_iff)

interpretation attempt_event_table: ledger_table attempt_events insert_attempt_event ae_source_event_key
  by unfold_locales (auto simp: insert_attempt_event_def unique_key_iff)

interpretation decision_table: ledger_table decision_records insert_decision dr_id
  by unfold_locales (auto simp: insert_decision_def unique_key_iff)

interpretation gate_table: ledger_table gate_events insert_gate ge_id
  by unfold_locales (auto simp: insert_gate_def unique_key_iff)

interpretation gate_by_preview: ledger_table gate_events insert_gate ge_preview_id
  by unfold_locales (auto simp: insert_gate_def unique_key_iff)

interpretation manifest_table: ledger_table acceptance_manifests insert_manifest am_work_item_id
  by unfold_locales (auto simp: insert_manifest_def unique_key_iff)

interpretation delivery_table: ledger_table delivery_receipts insert_delivery de_id
  by unfold_locales (auto simp: insert_delivery_def unique_key_iff)

interpretation audit_table: ledger_table audit_events insert_audit au_id
  by unfold_locales (auto simp: insert_audit_def unique_key_iff)

interpretation outbox_table: ledger_table outbox_events insert_outbox ob_id
  by unfold_locales (auto simp: insert_outbox_def unique_key_iff)

interpretation inbox_table: ledger_table inbox_events insert_inbox "\<lambda>i. (ib_source i, ib_source_event_key i)"
  by unfold_locales (auto simp: insert_inbox_def unique_key_iff)

interpretation blocker_table: ledger_table blocker_events insert_blocker bl_event_id
  by unfold_locales (auto simp: insert_blocker_def unique_key_iff)

end
