(* ===== verification/WorkItems.thy ===== *)
theory WorkItems
  imports Ledger "HOL-Library.Product_Lexorder"
begin

text \<open>
  \<open>runner/work_item_governance/service.py\<close>, the first group of commands: creation and legacy import
  of a work item (preview, apply), the read models, the dispatch authority of an attempt, and the
  task versions.  \<open>config\<close> holds the settings of the service; it is the composition without an
  activation guard (\<open>activation_guard is None\<close>).  A command is a function of the environment, the
  settings, the ledger and its body; the fresh identifiers it draws are \<open>e_fresh\<close> of the environment.
\<close>

section \<open>Settings and the write transaction\<close>

record config =
  cf_enabled :: bool
  cf_gate_mode :: string
  cf_canary_marked :: bool

definition authoritative_transitions :: "config \<Rightarrow> bool" where
  "authoritative_transitions cfg \<longleftrightarrow> cf_gate_mode cfg = ''authoritative''"

definition require_enabled :: "config \<Rightarrow> unit result" where
  "require_enabled cfg = (if cf_enabled cfg then Inr () else Inl (Gov ''WORK_ITEM_GOVERNANCE_DISABLED''))"

definition require_gate_enabled :: "config \<Rightarrow> unit result" where
  "require_gate_enabled cfg =
    (if cf_gate_mode cfg = ''off'' then Inl (Gov ''WORK_ITEM_GATES_DISABLED'') else Inr ())"

definition latest_activation_lease :: "ledger \<Rightarrow> (string \<times> string) option" where
  "latest_activation_lease l = (case activation_leases l of [] \<Rightarrow> None | x # _ \<Rightarrow> Some x)"

text \<open>\<open>_write_transaction\<close>: the checks after \<open>BEGIN IMMEDIATE\<close>, then the body; an error rolls back.\<close>

definition write_transaction :: "config \<Rightarrow> ledger \<Rightarrow> (ledger \<Rightarrow> 'a result) \<Rightarrow> 'a result" where
  "write_transaction cfg l body =
    (if cf_canary_marked cfg then Inl (Gov ''ACTIVATION_COMPOSITION_DOWNGRADE_DENIED'')
     else case latest_activation_lease l of
       Some _ \<Rightarrow> Inl (Gov ''ACTIVATION_COMPOSITION_DOWNGRADE_DENIED'')
     | None \<Rightarrow> body l)"

definition assert_internal_activation_write_denied :: "config \<Rightarrow> ledger \<Rightarrow> unit result" where
  "assert_internal_activation_write_denied cfg l =
    (if cf_canary_marked cfg then Inl (Gov ''ACTIVATION_INTERNAL_WRITE_PATH_DENIED'')
     else case latest_activation_lease l of
       Some _ \<Rightarrow> Inl (Gov ''ACTIVATION_COMPOSITION_DOWNGRADE_DENIED'')
     | None \<Rightarrow> Inr ())"

lemma require_enabled_Inr [simp]: "require_enabled cfg = Inr u \<longleftrightarrow> cf_enabled cfg"
  by (simp add: require_enabled_def)

lemma write_transaction_Inr [simp]:
  "write_transaction cfg l body = Inr x \<longleftrightarrow>
    \<not> cf_canary_marked cfg \<and> latest_activation_lease l = None \<and> body l = Inr x"
  by (simp add: write_transaction_def split: option.splits)

lemma assert_internal_Inr [simp]:
  "assert_internal_activation_write_denied cfg l = Inr u \<longleftrightarrow>
    \<not> cf_canary_marked cfg \<and> latest_activation_lease l = None"
  by (simp add: assert_internal_activation_write_denied_def split: option.splits)

text \<open>An identifier the caller supplied, or a fresh one.\<close>

definition id_or_fresh :: "env \<Rightarrow> py \<Rightarrow> string \<Rightarrow> string result" where
  "id_or_fresh e v kind = (if v = PNone then Inr (e_fresh e kind 0) else require_stable_id v kind)"

section \<open>Creation commands\<close>

record create_command =
  cc_origin :: origin
  cc_attributes :: dict
  cc_task :: task
  cc_idempotency_key :: "string option"

definition create_py :: "create_command \<Rightarrow> py" where
  "create_py c = PDict [(''origin'', origin_py (cc_origin c)), (''attributes'', PDict (cc_attributes c)),
     (''task'', task_py (cc_task c)), (''idempotency_key'', of_opt (cc_idempotency_key c))]"

text \<open>A top-level \<open>title\<close> or \<open>objective\<close> goes into the attributes.\<close>

definition override_text :: "dict \<Rightarrow> string \<Rightarrow> nat \<Rightarrow> dict \<Rightarrow> dict result" where
  "override_text command key max_length attributes =
    (if dhas command key
     then ebind (require_text (dget command key) max_length) (\<lambda>t. Inr (dset key (PStr t) attributes))
     else Inr attributes)"

definition normalize_create_command :: "py \<Rightarrow> bool \<Rightarrow> create_command result" where
  "normalize_create_command value imported =
    ebind (require_object value True) (\<lambda>command.
    if \<not> only_keys command [''origin'', ''title'', ''objective'', ''attributes'', ''task'', ''idempotency_key'']
    then Inl (Gov ''CREATE_FIELD_UNSUPPORTED'')
    else
      ebind (normalize_origin (dget command ''origin'') (Some imported)) (\<lambda>origin.
      ebind (require_metadata_object (dget_or command ''attributes'' (PDict []))) (\<lambda>attributes0.
      ebind (reject_sensitive_fields (PDict attributes0)) (\<lambda>_.
      ebind (override_text command ''title'' 512 attributes0) (\<lambda>attributes1.
      ebind (override_text command ''objective'' MAX_TEXT_LENGTH attributes1) (\<lambda>attributes2.
      ebind (require_metadata_object (PDict attributes2)) (\<lambda>attributes.
      ebind (normalize_initial_task (dget command ''task'') (dget attributes ''objective'')) (\<lambda>task.
      ebind (reject_sensitive_fields (task_py task)) (\<lambda>_.
      ebind (optional_text (dget command ''idempotency_key'') 1024) (\<lambda>key.
      let c = \<lparr>cc_origin = origin, cc_attributes = attributes, cc_task = task, cc_idempotency_key = key\<rparr>
      in ebind (canonical_json (create_py c)) (\<lambda>_. Inr c)))))))))))"

record legacy_command =
  lc_origin :: origin
  lc_attributes :: dict
  lc_task :: task
  lc_idempotency_key :: "string option"
  lc_legacy_refs :: "(string \<times> string) list"
  lc_legacy_record :: dict

definition ref_py :: "string \<times> string \<Rightarrow> py" where
  "ref_py r = PDict [(''kind'', PStr (fst r)), (''ref'', PStr (snd r))]"

definition legacy_py :: "legacy_command \<Rightarrow> py" where
  "legacy_py c = PDict [(''origin'', origin_py (lc_origin c)), (''attributes'', PDict (lc_attributes c)),
     (''task'', task_py (lc_task c)), (''idempotency_key'', of_opt (lc_idempotency_key c)),
     (''legacy_refs'', PList (map ref_py (lc_legacy_refs c))), (''legacy_record'', PDict (lc_legacy_record c))]"

text \<open>An entry of \<open>legacy_refs\<close> or \<open>external_refs\<close>: kind and ref, nothing else.\<close>

definition normalize_ref :: "string \<Rightarrow> py \<Rightarrow> (string \<times> string) result" where
  "normalize_ref shape_error item =
    ebind (require_object item True) (\<lambda>ref.
    if \<not> exact_keys ref [''kind'', ''ref''] then Inl (Gov shape_error)
    else ebind (require_text (dget ref ''kind'') 128) (\<lambda>k.
         ebind (require_text (dget ref ''ref'') 2048) (\<lambda>r. Inr (k, r))))"

definition legacy_origin :: "dict \<Rightarrow> string \<Rightarrow> py" where
  "legacy_origin command snapshot_digest =
    (if dget command ''origin'' = PNone
     then PDict [(''kind'', PStr ''imported''), (''ref'', PNone), (''snapshot_digest'', PStr snapshot_digest)]
     else dget command ''origin'')"

definition normalize_legacy_import_command :: "env \<Rightarrow> py \<Rightarrow> legacy_command result" where
  "normalize_legacy_import_command e value =
    ebind (require_object value True) (\<lambda>command.
    if \<not> only_keys command [''legacy_record'', ''legacy_refs'', ''origin'', ''attributes'', ''task'', ''idempotency_key'']
    then Inl (Gov ''LEGACY_IMPORT_FIELD_UNSUPPORTED'')
    else
      ebind (require_object (dget command ''legacy_record'') True) (\<lambda>legacy_record.
      ebind (reject_sensitive_fields (PDict legacy_record)) (\<lambda>_.
      ebind (canonical_sha256 (e_sha e) (PDict legacy_record)) (\<lambda>snapshot_digest.
      ebind (normalize_origin (legacy_origin command snapshot_digest) (Some True)) (\<lambda>origin.
      if or_snapshot_digest origin \<noteq> snapshot_digest then Inl (Gov ''IMPORT_SNAPSHOT_DIGEST_MISMATCH'')
      else
        ebind (bounded_list (dget_or command ''legacy_refs'' (PList [])) 1024 ''LEGACY_REFS_INVALID'') (\<lambda>items.
        ebind (emap (normalize_ref ''LEGACY_REF_SHAPE_INVALID'') items) (\<lambda>legacy_refs.
        ebind (require_metadata_object (dget_or command ''attributes'' (PDict []))) (\<lambda>attributes0.
        ebind (reject_sensitive_fields (PDict attributes0)) (\<lambda>_.
        ebind (require_metadata_object (PDict
                 (dset ''imported_snapshot_digest'' (PStr snapshot_digest)
                   (dset ''legacy_refs'' (PList (map ref_py legacy_refs)) attributes0)))) (\<lambda>attributes.
        ebind (normalize_initial_task (dget command ''task'') PNone) (\<lambda>task.
        ebind (reject_sensitive_fields (task_py task)) (\<lambda>_.
        ebind (optional_text (dget command ''idempotency_key'') 1024) (\<lambda>key.
        let c = \<lparr>lc_origin = origin, lc_attributes = attributes, lc_task = task, lc_idempotency_key = key,
                 lc_legacy_refs = legacy_refs, lc_legacy_record = legacy_record\<rparr>
        in ebind (canonical_json (legacy_py c)) (\<lambda>_. Inr c))))))))))))))"

text \<open>The two previews issue the normalised command under a fresh work item identifier.\<close>

definition preview_work_item_create :: "env \<Rightarrow> config \<Rightarrow> py \<Rightarrow> py \<Rightarrow> (string \<times> dict) result" where
  "preview_work_item_create e cfg command ttl_seconds =
    ebind (require_enabled cfg) (\<lambda>_.
    ebind (normalize_create_command command False) (\<lambda>normalized.
    let work_item_id = e_fresh e ''work_item'' 0 in
    case create_py normalized of
      PDict d \<Rightarrow> ebind (preview_issue e ''work_item_create'' d ttl_seconds [(''work_item_id'', PStr work_item_id)])
                  (\<lambda>preview. Inr (work_item_id, preview))
    | _ \<Rightarrow> Inl (Py_Exc ''AttributeError'')))"

definition preview_legacy_work_item_import :: "env \<Rightarrow> config \<Rightarrow> py \<Rightarrow> py \<Rightarrow> (string \<times> dict) result" where
  "preview_legacy_work_item_import e cfg command ttl_seconds =
    ebind (require_enabled cfg) (\<lambda>_.
    ebind (normalize_legacy_import_command e command) (\<lambda>normalized.
    let work_item_id = e_fresh e ''work_item'' 0 in
    case legacy_py normalized of
      PDict d \<Rightarrow> ebind (preview_issue e ''legacy_work_item_import'' d ttl_seconds [(''work_item_id'', PStr work_item_id)])
                  (\<lambda>preview. Inr (work_item_id, preview))
    | _ \<Rightarrow> Inl (Py_Exc ''AttributeError'')))"

section \<open>Active blockers\<close>

text \<open>The last event of each key, in rowid order: the rows joined on \<open>MAX(rowid)\<close> per group.\<close>

fun latest_per :: "('r \<Rightarrow> 'k) \<Rightarrow> 'r list \<Rightarrow> 'r list" where
  "latest_per f [] = []"
| "latest_per f (x # xs) =
     (if list_ex (\<lambda>y. f y = f x) xs then latest_per f xs else x # latest_per f xs)"

definition active_blocker_rows :: "ledger \<Rightarrow> string \<Rightarrow> blocker_row list" where
  "active_blocker_rows l w =
    sort_key (\<lambda>b. (bl_created_at b, bl_blocker_id b))
      (filter (\<lambda>b. bl_event_type b = ''blocker_applied'')
        (latest_per bl_blocker_id (filter (\<lambda>b. bl_work_item_id b = w) (blocker_events l))))"

section \<open>Read models\<close>

text \<open>A frozen manifest is read back only if it still matches its digest and its identifiers.\<close>

definition manifest_entry_id :: "py \<Rightarrow> py" where
  "manifest_entry_id entry = (case entry of PDict d \<Rightarrow> dget d ''artifact_id'' | _ \<Rightarrow> PNone)"

definition materialize_acceptance_manifest :: "env \<Rightarrow> manifest_row \<Rightarrow> manifest_row result" where
  "materialize_acceptance_manifest e row =
    ebind (canonical_sha256 (e_sha e) (am_artifact_manifest row)) (\<lambda>computed.
    let manifest_ids = (case am_artifact_manifest row of
          PList entries \<Rightarrow> map manifest_entry_id (filter is_dict entries) | _ \<Rightarrow> []) in
    if computed \<noteq> am_artifact_manifest_digest row
       \<or> map PStr (sort (am_artifact_ids row)) \<noteq> manifest_ids
    then Inl (Gov ''ACCEPTANCE_MANIFEST_INTEGRITY_FAILED'')
    else Inr row)"

record children =
  ch_task_versions :: "task_version_row list"
  ch_execution_attempts :: "attempt_row list"
  ch_artifact_refs :: "artifact_row list"
  ch_decision_records :: "decision_row list"
  ch_gate_events :: "gate_row list"
  ch_delivery_receipts :: "delivery_row list"
  ch_accepted_evidence_manifest :: "manifest_row option"

record work_item_view =
  vw_work_item_id :: string
  vw_state :: string
  vw_state_version :: int
  vw_origin :: origin
  vw_imported :: bool
  vw_current_task_version :: int
  vw_attributes :: py
  vw_blocked :: bool
  vw_active_blocker_ids :: "string list"
  vw_created_at :: string
  vw_updated_at :: string
  vw_delivery_state_authority :: string
  vw_gate_mode :: string
  vw_children :: "children option"

definition view_children :: "env \<Rightarrow> ledger \<Rightarrow> string \<Rightarrow> children result" where
  "view_children e l w =
    ebind (case row_with am_work_item_id w (acceptance_manifests l) of
             None \<Rightarrow> Inr None
           | Some m \<Rightarrow> ebind (materialize_acceptance_manifest e m) (\<lambda>m'. Inr (Some m'))) (\<lambda>manifest.
    Inr \<lparr>ch_task_versions = sort_key tv_task_version (filter (\<lambda>t. tv_work_item_id t = w) (task_versions l)),
      ch_execution_attempts = sort_key (\<lambda>a. (at_created_at a, at_id a))
        (filter (\<lambda>a. at_work_item_id a = w) (execution_attempts l)),
      ch_artifact_refs = sort_key (\<lambda>a. (ar_created_at a, ar_id a))
        (filter (\<lambda>a. ar_work_item_id a = w) (artifact_refs l)),
      ch_decision_records = sort_key (\<lambda>d. (dr_created_at d, dr_id d))
        (filter (\<lambda>d. dr_work_item_id d = w) (decision_records l)),
      ch_gate_events = sort_key (\<lambda>g. (ge_created_at g, ge_id g))
        (filter (\<lambda>g. ge_work_item_id g = w) (gate_events l)),
      ch_delivery_receipts = sort_key (\<lambda>d. (de_created_at d, de_id d))
        (filter (\<lambda>d. de_work_item_id d = w) (delivery_receipts l)),
      ch_accepted_evidence_manifest = manifest\<rparr>)"

definition materialize_work_item ::
  "env \<Rightarrow> config \<Rightarrow> ledger \<Rightarrow> work_item_row \<Rightarrow> bool \<Rightarrow> work_item_view result" where
  "materialize_work_item e cfg l row include_children =
    (let blockers = active_blocker_rows l (wi_id row);
         item = \<lparr>vw_work_item_id = wi_id row, vw_state = wi_state row, vw_state_version = wi_state_version row,
           vw_origin = wi_origin row, vw_imported = wi_imported row,
           vw_current_task_version = wi_current_task_version row, vw_attributes = wi_attributes row,
           vw_blocked = (blockers \<noteq> []), vw_active_blocker_ids = map bl_blocker_id blockers,
           vw_created_at = wi_created_at row, vw_updated_at = wi_updated_at row,
           vw_delivery_state_authority =
             (if authoritative_transitions cfg then ''work_item_application_service'' else ''shadow_only''),
           vw_gate_mode = cf_gate_mode cfg, vw_children = None\<rparr>
     in if \<not> include_children then Inr item
        else ebind (view_children e l (wi_id row)) (\<lambda>c. Inr (item\<lparr>vw_children := Some c\<rparr>)))"

definition work_item_row_of :: "ledger \<Rightarrow> string \<Rightarrow> work_item_row result" where
  "work_item_row_of l w =
    (case row_with wi_id w (work_items l) of None \<Rightarrow> Inl (Gov ''WORK_ITEM_NOT_FOUND'') | Some r \<Rightarrow> Inr r)"

lemma work_item_row_of_Inr [simp]:
  "work_item_row_of l w = Inr r \<longleftrightarrow> row_with wi_id w (work_items l) = Some r"
  by (simp add: work_item_row_of_def split: option.splits)

definition get_work_item :: "env \<Rightarrow> config \<Rightarrow> ledger \<Rightarrow> py \<Rightarrow> work_item_view result" where
  "get_work_item e cfg l work_item_id =
    ebind (require_enabled cfg) (\<lambda>_.
    ebind (require_stable_id work_item_id ''work_item'') (\<lambda>w.
    ebind (work_item_row_of l w) (\<lambda>row. materialize_work_item e cfg l row True)))"

text \<open>\<open>list_work_items\<close>: newest first, at most \<open>limit\<close>, with the cursor of a full page.\<close>

definition select_work_items :: "ledger \<Rightarrow> string option \<Rightarrow> string option \<Rightarrow> nat \<Rightarrow> work_item_row list" where
  "select_work_items l state after limit =
    take limit (rev (sort_key (\<lambda>r. (wi_created_at r, wi_id r))
      (filter (\<lambda>r. (case state of None \<Rightarrow> True | Some s \<Rightarrow> wi_state r = s)
                 \<and> (case after of None \<Rightarrow> True | Some t \<Rightarrow> wi_created_at r < t)) (work_items l))))"

definition list_work_items ::
  "env \<Rightarrow> config \<Rightarrow> ledger \<Rightarrow> string option \<Rightarrow> py \<Rightarrow> py \<Rightarrow> (work_item_view list \<times> string option) result" where
  "list_work_items e cfg l state limit after_created_at =
    ebind (require_enabled cfg) (\<lambda>_.
    if (case state of None \<Rightarrow> False | Some s \<Rightarrow> s \<notin> set WORK_ITEM_STATES) then Inl (Gov ''WORK_ITEM_STATE_INVALID'')
    else case limit of
      PInt n \<Rightarrow>
        if n < 1 \<or> n > 200 then Inl (Gov ''LIST_LIMIT_INVALID'')
        else
          ebind (optional_text after_created_at 64) (\<lambda>after.
          ebind (emap (\<lambda>row. materialize_work_item e cfg l row False)
                  (select_work_items l state after (nat n))) (\<lambda>items.
          Inr (items, if int (length items) = n then Some (vw_created_at (last items)) else None)))
    | _ \<Rightarrow> Inl (Gov ''LIST_LIMIT_INVALID''))"

text \<open>\<open>get_work_item_timeline\<close>: every event of a work item, by time and then by identifier.\<close>

record timeline_event =
  te_type :: string
  te_id :: string
  te_occurred_at :: string

definition timeline_rows :: "ledger \<Rightarrow> string \<Rightarrow> timeline_event list" where
  "timeline_rows l w =
    map (\<lambda>a. \<lparr>te_type = ''execution_attempt'', te_id = at_id a, te_occurred_at = at_created_at a\<rparr>)
      (filter (\<lambda>a. at_work_item_id a = w) (execution_attempts l))
    @ map (\<lambda>a. \<lparr>te_type = ''artifact_reference'', te_id = ar_id a, te_occurred_at = ar_created_at a\<rparr>)
      (filter (\<lambda>a. ar_work_item_id a = w) (artifact_refs l))
    @ map (\<lambda>d. \<lparr>te_type = ''decision_record'', te_id = dr_id d, te_occurred_at = dr_created_at d\<rparr>)
      (filter (\<lambda>d. dr_work_item_id d = w) (decision_records l))
    @ map (\<lambda>g. \<lparr>te_type = ''gate_event'', te_id = ge_id g, te_occurred_at = ge_created_at g\<rparr>)
      (filter (\<lambda>g. ge_work_item_id g = w) (gate_events l))
    @ map (\<lambda>d. \<lparr>te_type = ''delivery_receipt'', te_id = de_id d, te_occurred_at = de_created_at d\<rparr>)
      (filter (\<lambda>d. de_work_item_id d = w) (delivery_receipts l))
    @ map (\<lambda>a. \<lparr>te_type = ''audit_event'', te_id = au_id a, te_occurred_at = au_created_at a\<rparr>)
      (filter (\<lambda>a. au_work_item_id a = w) (audit_events l))
    @ map (\<lambda>b. \<lparr>te_type = ''blocker_event'', te_id = bl_event_id b, te_occurred_at = bl_created_at b\<rparr>)
      (filter (\<lambda>b. bl_work_item_id b = w) (blocker_events l))
    @ map (\<lambda>a. \<lparr>te_type = ''attempt_'' @ ae_event_type a, te_id = ae_id a, te_occurred_at = ae_created_at a\<rparr>)
      (filter (\<lambda>a. list_ex (\<lambda>t. at_id t = ae_attempt_id a \<and> at_work_item_id t = w) (execution_attempts l))
        (attempt_events l))"

definition get_work_item_timeline :: "config \<Rightarrow> ledger \<Rightarrow> py \<Rightarrow> timeline_event list result" where
  "get_work_item_timeline cfg l work_item_id =
    ebind (require_enabled cfg) (\<lambda>_.
    ebind (require_stable_id work_item_id ''work_item'') (\<lambda>w.
    if \<not> has_work_item l w then Inl (Gov ''WORK_ITEM_NOT_FOUND'')
    else Inr (sort_key (\<lambda>t. (te_occurred_at t, te_id t)) (timeline_rows l w))))"

text \<open>\<open>get_execution_attempt_dispatch_authority\<close>: every reason against dispatch, in order.\<close>

definition dispatch_reasons :: "attempt_row \<Rightarrow> work_item_row \<Rightarrow> string \<Rightarrow> int \<Rightarrow> string list" where
  "dispatch_reasons attempt work_item w v =
    (if at_work_item_id attempt \<noteq> w \<or> at_task_version attempt \<noteq> v then [''ATTEMPT_CONTEXT_MISMATCH''] else [])
    @ (if at_kind attempt \<noteq> ''runtime'' \<or> \<not> at_dispatch_authorized attempt
       then [''ATTEMPT_DISPATCH_NOT_AUTHORIZED''] else [])
    @ (if at_status attempt \<notin> {''claimed'', ''running''} then [''ATTEMPT_NOT_ACTIVE''] else [])
    @ (if wi_state work_item \<in> set TERMINAL_WORK_ITEM_STATES then [''WORK_ITEM_TERMINAL''] else [])
    @ (if wi_state work_item = ''submitted'' then [''REVISION_GATE_REQUIRED''] else [])
    @ (if wi_current_task_version work_item \<noteq> v then [''TASK_VERSION_STALE''] else [])"

definition get_execution_attempt_dispatch_authority ::
  "config \<Rightarrow> ledger \<Rightarrow> py \<Rightarrow> py \<Rightarrow> py \<Rightarrow> (bool \<times> string list) result" where
  "get_execution_attempt_dispatch_authority cfg l attempt_id work_item_id task_version =
    ebind (require_enabled cfg) (\<lambda>_.
    ebind (require_stable_id attempt_id ''attempt'') (\<lambda>a.
    ebind (require_stable_id work_item_id ''work_item'') (\<lambda>w.
    ebind (require_positive_integer task_version) (\<lambda>v.
    case row_with at_id a (execution_attempts l) of
      None \<Rightarrow> Inl (Gov ''ATTEMPT_NOT_FOUND'')
    | Some attempt \<Rightarrow>
        ebind (work_item_row_of l w) (\<lambda>work_item.
        let reasons = dispatch_reasons attempt work_item w v in Inr (reasons = [], reasons))))))"

section \<open>Creation\<close>

text \<open>A column written as canonical JSON: the text must fit, and reads back in key order.\<close>

definition json_column :: "py \<Rightarrow> py result" where
  "json_column v = ebind (canonical_json v) (\<lambda>_. Inr (jsort v))"

lemma json_column_Inr: "json_column v = Inr x \<Longrightarrow> x = jsort v"
  by (auto simp: json_column_def)

fun insert_plan_refs :: "string \<Rightarrow> int \<Rightarrow> string \<Rightarrow> string \<Rightarrow> nat \<Rightarrow> string list \<Rightarrow> ledger \<Rightarrow> ledger result" where
  "insert_plan_refs w v source_event_key created_at i [] l = Inr l"
| "insert_plan_refs w v source_event_key created_at i (plan_ref # refs) l =
     ebind (insert_association \<lparr>ea_kind = ''plan_version'', ea_ref = plan_ref, ea_work_item_id = w,
              ea_task_version = v, ea_attempt_id = None,
              ea_source_event_key = source_event_key @ '':plan:'' @ show_nat i, ea_created_at = created_at\<rparr> l)
       (insert_plan_refs w v source_event_key created_at (Suc i) refs)"

definition task_version_row_of :: "string \<Rightarrow> int \<Rightarrow> task \<Rightarrow> string \<Rightarrow> string \<Rightarrow> string \<Rightarrow> task_version_row" where
  "task_version_row_of w v task digest source_event_key created_at =
    \<lparr>tv_work_item_id = w, tv_task_version = v, tv_objective_ref = tk_objective_ref task,
      tv_plan_version_refs = PList (map PStr (tk_plan_version_refs task)),
      tv_artifact_contract = jsort (PDict (tk_artifact_contract task)),
      tv_approval_requirements = jsort (PDict (tk_approval_requirements task)),
      tv_reporting_destination = jsort (PDict (tk_reporting_destination task)),
      tv_expected_receipt_contract = jsort (PDict (tk_expected_receipt_contract task)),
      tv_payload = jsort (PDict (tk_payload task)), tv_payload_digest = digest,
      tv_source_event_key = source_event_key, tv_created_at = created_at\<rparr>"

definition insert_task_version ::
  "env \<Rightarrow> string \<Rightarrow> int \<Rightarrow> task \<Rightarrow> string \<Rightarrow> string \<Rightarrow> ledger \<Rightarrow> ledger result" where
  "insert_task_version e w v task source_event_key created_at l =
    ebind (canonical_sha256 (e_sha e) (task_py task)) (\<lambda>payload_digest.
    ebind (json_column (PList (map PStr (tk_plan_version_refs task)))) (\<lambda>_.
    ebind (json_column (PDict (tk_artifact_contract task))) (\<lambda>_.
    ebind (json_column (PDict (tk_approval_requirements task))) (\<lambda>_.
    ebind (json_column (PDict (tk_reporting_destination task))) (\<lambda>_.
    ebind (json_column (PDict (tk_expected_receipt_contract task))) (\<lambda>_.
    ebind (json_column (PDict (tk_payload task))) (\<lambda>_.
    ebind (insert_task_version_row
             (task_version_row_of w v task payload_digest source_event_key created_at) l)
      (insert_plan_refs w v source_event_key created_at 0 (tk_plan_version_refs task)))))))))"

record creation =
  cr_origin :: origin
  cr_attributes :: dict
  cr_task :: task
  cr_idempotency_key :: "string option"
  cr_content :: py

definition normalize_creation :: "env \<Rightarrow> config \<Rightarrow> ledger \<Rightarrow> string \<Rightarrow> py \<Rightarrow> creation result" where
  "normalize_creation e cfg l creation_operation command =
    (if creation_operation = ''create'' then
       ebind (normalize_create_command command False) (\<lambda>c.
       Inr \<lparr>cr_origin = cc_origin c, cr_attributes = cc_attributes c, cr_task = cc_task c,
            cr_idempotency_key = cc_idempotency_key c, cr_content = create_py c\<rparr>)
     else if creation_operation = ''legacy_import'' then
       ebind (assert_internal_activation_write_denied cfg l) (\<lambda>_.
       ebind (normalize_legacy_import_command e command) (\<lambda>c.
       Inr \<lparr>cr_origin = lc_origin c, cr_attributes = lc_attributes c, cr_task = lc_task c,
            cr_idempotency_key = lc_idempotency_key c, cr_content = legacy_py c\<rparr>))
     else Inl (Gov ''CREATE_OPERATION_UNSUPPORTED''))"

definition assert_existing_create_matches :: "work_item_row \<Rightarrow> string \<Rightarrow> string \<Rightarrow> unit result" where
  "assert_existing_create_matches row content_digest creation_operation =
    (if wi_content_digest row \<noteq> content_digest \<or> wi_creation_operation row \<noteq> creation_operation
     then Inl (Gov ''IDEMPOTENCY_CONFLICT'') else Inr ())"

text \<open>\<open>preview.get("generated_ids", {}).get(key)\<close>, required to be an identifier of its kind.\<close>

definition generated_id :: "dict \<Rightarrow> string \<Rightarrow> string \<Rightarrow> string result" where
  "generated_id preview key kind =
    (case dget_or preview ''generated_ids'' (PDict []) of
       PDict ids \<Rightarrow> require_stable_id (dget ids key) kind
     | _ \<Rightarrow> Inl (Py_Exc ''AttributeError''))"

definition existing_creation :: "ledger \<Rightarrow> string \<Rightarrow> creation \<Rightarrow> work_item_row option" where
  "existing_creation l preview_id cr =
    (case find (\<lambda>r. wi_creation_preview_id r = preview_id) (work_items l) of
       Some r \<Rightarrow> Some r
     | None \<Rightarrow>
         (case (case cr_idempotency_key cr of
                  None \<Rightarrow> None | Some k \<Rightarrow> find (\<lambda>r. wi_idempotency_key r = Some k) (work_items l)) of
            Some r \<Rightarrow> Some r
          | None \<Rightarrow> find (\<lambda>r. wi_origin r = cr_origin cr) (work_items l)))"

definition new_work_item_row ::
  "string \<Rightarrow> creation \<Rightarrow> string \<Rightarrow> string \<Rightarrow> string \<Rightarrow> string \<Rightarrow> work_item_row" where
  "new_work_item_row w cr content_digest creation_operation preview_id created_at =
    \<lparr>wi_id = w, wi_state = ''proposed'', wi_state_version = 0, wi_origin = cr_origin cr,
      wi_imported = (creation_operation = ''legacy_import''), wi_current_task_version = 1,
      wi_attributes = jsort (PDict (cr_attributes cr)), wi_content_digest = content_digest,
      wi_creation_operation = creation_operation, wi_creation_preview_id = preview_id,
      wi_idempotency_key = cr_idempotency_key cr, wi_created_at = created_at, wi_updated_at = created_at\<rparr>"

record create_answer =
  ca_work_item_id :: string
  ca_idempotent_replay :: bool
  ca_work_item :: "work_item_view result"

text \<open>
  The transaction returns the identifier of the work item, whether the command was replayed, and the
  ledger; the work item is read back after the commit.
\<close>

definition apply_create ::
  "env \<Rightarrow> config \<Rightarrow> ledger \<Rightarrow> dict \<Rightarrow> py \<Rightarrow> string \<Rightarrow> (create_answer \<times> ledger) result" where
  "apply_create e cfg l preview command creation_operation =
    ebind (normalize_creation e cfg l creation_operation command) (\<lambda>cr.
    ebind (generated_id preview ''work_item_id'' ''work_item'') (\<lambda>work_item_id.
    ebind (require_stable_id (dget preview ''preview_id'') ''preview'') (\<lambda>preview_id.
    ebind (canonical_sha256 (e_sha e) (cr_content cr)) (\<lambda>content_digest.
    let created_at = isoformat_utc e (e_now e) in
    ebind (catch_integrity (write_transaction cfg l (\<lambda>l.
      case existing_creation l preview_id cr of
        Some r \<Rightarrow> ebind (assert_existing_create_matches r content_digest creation_operation)
                    (\<lambda>_. Inr (wi_id r, True, l))
      | None \<Rightarrow>
          ebind (json_column (PDict (cr_attributes cr))) (\<lambda>_.
          ebind (insert_work_item
                   (new_work_item_row work_item_id cr content_digest creation_operation preview_id created_at) l) (\<lambda>l1.
          ebind (insert_task_version e work_item_id 1 (cr_task cr) (preview_id @ '':task:1'') created_at l1) (\<lambda>l2.
          Inr (work_item_id, False, l2))))))) (\<lambda>(existing_id, idempotent, l').
    Inr (\<lparr>ca_work_item_id = existing_id, ca_idempotent_replay = idempotent,
          ca_work_item = get_work_item e cfg l' (PStr existing_id)\<rparr>, l'))))))"

definition preview_command :: "dict \<Rightarrow> py" where
  "preview_command verified = dget verified ''command''"

definition apply_work_item_create :: "env \<Rightarrow> config \<Rightarrow> ledger \<Rightarrow> py \<Rightarrow> (create_answer \<times> ledger) result" where
  "apply_work_item_create e cfg l preview =
    ebind (require_enabled cfg) (\<lambda>_.
    ebind (preview_verify e preview ''work_item_create'') (\<lambda>verified.
    ebind (normalize_create_command (preview_command verified) False) (\<lambda>command.
    apply_create e cfg l verified (create_py command) ''create'')))"

definition apply_legacy_work_item_import :: "env \<Rightarrow> config \<Rightarrow> ledger \<Rightarrow> py \<Rightarrow> (create_answer \<times> ledger) result" where
  "apply_legacy_work_item_import e cfg l preview =
    ebind (require_enabled cfg) (\<lambda>_.
    ebind (preview_verify e preview ''legacy_work_item_import'') (\<lambda>verified.
    ebind (normalize_legacy_import_command e (preview_command verified)) (\<lambda>command.
    apply_create e cfg l verified (legacy_py command) ''legacy_import'')))"

section \<open>Task versions\<close>

definition add_task_version :: "env \<Rightarrow> config \<Rightarrow> ledger \<Rightarrow> py \<Rightarrow> ((task_version_row \<times> bool) \<times> ledger) result" where
  "add_task_version e cfg l command =
    ebind (require_enabled cfg) (\<lambda>_.
    ebind (require_object command True) (\<lambda>value.
    if \<not> only_keys value [''work_item_id'', ''task_version'', ''task'', ''source_event_key'']
    then Inl (Gov ''TASK_VERSION_FIELD_UNSUPPORTED'')
    else
      ebind (require_stable_id (dget value ''work_item_id'') ''work_item'') (\<lambda>w.
      ebind (require_positive_integer (dget value ''task_version'')) (\<lambda>v.
      ebind (normalize_initial_task (dget value ''task'') PNone) (\<lambda>task.
      ebind (reject_sensitive_fields (task_py task)) (\<lambda>_.
      ebind (canonical_sha256 (e_sha e) (task_py task)) (\<lambda>task_digest.
      ebind (require_text (dget value ''source_event_key'') 1024) (\<lambda>source_event_key.
      let created_at = isoformat_utc e (e_now e) in
      catch_integrity (write_transaction cfg l (\<lambda>l.
        case row_with tv_source_event_key source_event_key (task_versions l) of
          Some existing \<Rightarrow>
            if tv_work_item_id existing \<noteq> w \<or> tv_task_version existing \<noteq> v
               \<or> tv_payload_digest existing \<noteq> task_digest
            then Inl (Gov ''IDEMPOTENCY_CONFLICT'')
            else Inr ((existing, True), l)
        | None \<Rightarrow>
            ebind (work_item_row_of l w) (\<lambda>work_item.
            if wi_state work_item \<in> set TERMINAL_WORK_ITEM_STATES then Inl (Gov ''WORK_ITEM_TERMINAL'')
            else if wi_state work_item = ''submitted'' then Inl (Gov ''REVISION_GATE_REQUIRED'')
            else if v \<noteq> wi_current_task_version work_item + 1 then Inl (Gov ''TASK_VERSION_SEQUENCE_INVALID'')
            else
              ebind (insert_task_version e w v task source_event_key created_at l) (\<lambda>l1.
              let l2 = l1\<lparr>work_items := update_where (\<lambda>r. wi_id r = w)
                    (\<lambda>r. r\<lparr>wi_current_task_version := v, wi_state_version := wi_state_version r + 1,
                          wi_updated_at := created_at\<rparr>) (work_items l1)\<rparr>
              in case row_with (\<lambda>t. (tv_work_item_id t, tv_task_version t)) (w, v) (task_versions l2) of
                   Some row \<Rightarrow> Inr ((row, False), l2)
                 | None \<Rightarrow> Inl (Py_Exc ''TypeError'')))))))))))))"

end
