(* ===== verification/WorkItemFacts.thy ===== *)
theory WorkItemFacts
  imports WorkItems
begin

text \<open>
  Facts of the commands of \<open>WorkItems\<close>: a normalised creation command normalises to itself, so the
  digest that apply computes is the digest of the command that was signed; the statements that
  \<open>apply_create\<close> and \<open>add_task_version\<close> run, written out; the decision which blocker is active.
\<close>

section \<open>Normalised commands are fixed points\<close>

lemma set_dset: "kv \<in> set (dset k v d) \<Longrightarrow> kv = (k, v) \<or> kv \<in> set d"
  by (induction d) (auto split: if_splits)

lemma full_match_length: "full_match cs s \<Longrightarrow> length s = length cs"
  by (induction cs s rule: full_match.induct) auto

lemma SHA256_length: "SHA256_PATTERN s \<Longrightarrow> length s = 64"
  using full_match_length by (fastforce simp: SHA256_PATTERN_def)

lemma text_ok_length: "text_ok m s \<Longrightarrow> length s \<le> m"
  by (simp add: text_ok_def)

lemma reject_dset:
  assumes "reject_sensitive_fields (PDict d) = Inr ()" "\<not> sensitive_key k" "reject_sensitive_fields v = Inr ()"
  shows "reject_sensitive_fields (PDict (dset k v d)) = Inr ()"
  using assms by (auto dest!: set_dset split: if_splits)

lemma plain_keys: "\<not> sensitive_key ''title''" "\<not> sensitive_key ''objective''" "\<not> sensitive_key ''kind''"
  "\<not> sensitive_key ''ref''" "\<not> sensitive_key ''legacy_refs''" "\<not> sensitive_key ''imported_snapshot_digest''"
  by code_simp+

definition create_ok :: "bool \<Rightarrow> create_command \<Rightarrow> bool" where
  "create_ok imported c \<longleftrightarrow> origin_ok (Some imported) (cc_origin c)
     \<and> length (cc_attributes c) \<le> 128 \<and> reject_sensitive_fields (PDict (cc_attributes c)) = Inr ()
     \<and> task_ok (cc_task c) \<and> reject_sensitive_fields (task_py (cc_task c)) = Inr ()
     \<and> opt_text_ok 1024 (cc_idempotency_key c) \<and> (\<exists>text. canonical_json (create_py c) = Inr text)"

lemma override_text_ok:
  assumes "override_text d k m a = Inr b" "reject_sensitive_fields (PDict a) = Inr ()"
    "m \<le> MAX_TEXT_LENGTH" "\<not> sensitive_key k"
  shows "reject_sensitive_fields (PDict b) = Inr ()"
proof (cases "dhas d k")
  case True
  then obtain t where "require_text (dget d k) m = Inr t" and b: "b = dset k (PStr t) a"
    using assms(1) by (auto simp: override_text_def)
  then have "length t \<le> MAX_TEXT_LENGTH" using assms(3) require_text_Inr text_ok_length by fastforce
  with assms show ?thesis unfolding b by (intro reject_dset) auto
qed (use assms in \<open>simp add: override_text_def\<close>)

lemma override_both_ok:
  "override_text d ''title'' 512 a = Inr b \<Longrightarrow> override_text d ''objective'' MAX_TEXT_LENGTH b = Inr c
    \<Longrightarrow> reject_sensitive_fields (PDict a) = Inr () \<Longrightarrow> reject_sensitive_fields (PDict c) = Inr ()"
  by (rule override_text_ok [OF _ override_text_ok])
    (auto simp: plain_keys MAX_TEXT_LENGTH_def simp del: reject_sensitive_fields.simps)

lemma override_text_absent: "\<not> dhas d k \<Longrightarrow> override_text d k m a = Inr a"
  by (simp add: override_text_def)

lemma normalize_create_Inr:
  assumes "normalize_create_command v imported = Inr c"
  shows "create_ok imported c"
  using assms
  unfolding normalize_create_command_def create_ok_def
  by (auto simp: Let_def require_metadata_Inr simp del: reject_sensitive_fields.simps
      split: if_split_asm intro: normalize_origin_Inr normalize_initial_task_Inr optional_text_Inr
        override_both_ok)

lemma normalize_create_again:
  assumes "create_ok imported c"
  shows "normalize_create_command (create_py c) imported = Inr c"
  using assms
  by (auto simp: create_ok_def normalize_create_command_def create_py_def require_object_def
      normalize_origin_again require_metadata_object_def normalize_initial_task_again Let_def
      override_text_absent simp del: reject_sensitive_fields.simps)

definition legacy_ok :: "env \<Rightarrow> legacy_command \<Rightarrow> bool" where
  "legacy_ok e c \<longleftrightarrow> (\<exists>digest attrs0. origin_ok (Some True) (lc_origin c)
     \<and> lc_legacy_record c \<noteq> [] \<and> reject_sensitive_fields (PDict (lc_legacy_record c)) = Inr ()
     \<and> canonical_sha256 (e_sha e) (PDict (lc_legacy_record c)) = Inr digest
     \<and> or_snapshot_digest (lc_origin c) = digest
     \<and> length (lc_legacy_refs c) \<le> 1024
     \<and> (\<forall>r\<in>set (lc_legacy_refs c). text_ok 128 (fst r) \<and> text_ok 2048 (snd r))
     \<and> lc_attributes c = dset ''imported_snapshot_digest'' (PStr digest)
         (dset ''legacy_refs'' (PList (map ref_py (lc_legacy_refs c))) attrs0)
     \<and> reject_sensitive_fields (PDict attrs0) = Inr ()
     \<and> length (lc_attributes c) \<le> 128
     \<and> task_ok (lc_task c) \<and> reject_sensitive_fields (task_py (lc_task c)) = Inr ()
     \<and> opt_text_ok 1024 (lc_idempotency_key c) \<and> (\<exists>js. canonical_json (legacy_py c) = Inr js))"

lemma normalize_ref_Inr:
  "normalize_ref se v = Inr r \<Longrightarrow> text_ok 128 (fst r) \<and> text_ok 2048 (snd r)"
  by (auto simp: normalize_ref_def dest!: require_text_Inr split: if_splits)

lemma normalize_ref_again:
  "text_ok 128 (fst r) \<and> text_ok 2048 (snd r) \<Longrightarrow> normalize_ref se (ref_py r) = Inr r"
  by (simp add: normalize_ref_def ref_py_def require_object_def exact_keys_def)

lemma normalize_legacy_Inr:
  assumes "normalize_legacy_import_command e v = Inr c"
  shows "legacy_ok e c"
proof -
  have refs: "(\<forall>r\<in>set rs. text_ok 128 (fst r) \<and> text_ok 2048 (snd r)) \<and> length rs = length xs"
    if "emap (normalize_ref se) xs = Inr rs" for se xs rs
    using emap_Inr_set [OF that] emap_Inr_length [OF that] normalize_ref_Inr by blast
  show ?thesis
    using assms unfolding normalize_legacy_import_command_def legacy_ok_def Let_def
    by (auto simp: require_metadata_Inr require_object_Inr simp del: reject_sensitive_fields.simps
        split: if_split_asm dest!: refs
        intro: normalize_origin_Inr normalize_initial_task_Inr optional_text_Inr)
      (rule exI, rule conjI, rule refl,
        auto simp del: reject_sensitive_fields.simps intro: normalize_initial_task_Inr optional_text_Inr)
qed

lemma reject_refs: "\<forall>r\<in>set rs. text_ok 128 (fst r) \<and> text_ok 2048 (snd r) \<Longrightarrow>
    reject_sensitive_fields (PList (map ref_py rs)) = Inr ()"
  by (fastforce simp: ref_py_def plain_keys MAX_TEXT_LENGTH_def dest: text_ok_length)

lemma normalize_legacy_again:
  assumes ok: "legacy_ok e c"
  shows "normalize_legacy_import_command e (legacy_py c) = Inr c"
proof -
  from ok obtain digest attrs0 where
    o: "origin_ok (Some True) (lc_origin c)" and d: "or_snapshot_digest (lc_origin c) = digest"
    and sha: "canonical_sha256 (e_sha e) (PDict (lc_legacy_record c)) = Inr digest"
    and refs: "\<forall>r\<in>set (lc_legacy_refs c). text_ok 128 (fst r) \<and> text_ok 2048 (snd r)"
    and r0: "reject_sensitive_fields (PDict attrs0) = Inr ()"
    and attrs: "lc_attributes c = dset ''imported_snapshot_digest'' (PStr digest)
         (dset ''legacy_refs'' (PList (map ref_py (lc_legacy_refs c))) attrs0)"
    by (auto simp: legacy_ok_def simp del: reject_sensitive_fields.simps)
  have ra: "reject_sensitive_fields (PDict (lc_attributes c)) = Inr ()"
    unfolding attrs using r0 refs o d
    by (intro reject_dset plain_keys reject_refs)
      (auto simp: origin_ok_def MAX_TEXT_LENGTH_def dest: SHA256_length)
  have same: "dset ''imported_snapshot_digest'' (PStr digest)
      (dset ''legacy_refs'' (PList (map ref_py (lc_legacy_refs c))) (lc_attributes c)) = lc_attributes c"
    unfolding attrs by (simp add: update_same update_conv')
  have refs': "emap (normalize_ref se) (map ref_py (lc_legacy_refs c)) = Inr (lc_legacy_refs c)" for se
    using refs by (intro emap_fixed normalize_ref_again) auto
  have on: "origin_py (lc_origin c) \<noteq> PNone" by (simp add: origin_py_def)
  show ?thesis
    using ok o d sha ra on unfolding legacy_ok_def
    by (auto simp: normalize_legacy_import_command_def legacy_py_def require_object_def legacy_origin_def
        normalize_origin_again require_metadata_object_def normalize_initial_task_again Let_def
        bounded_list_def same refs' simp del: reject_sensitive_fields.simps)
qed

section \<open>What the statements of a command do\<close>

lemma insert_plan_refs_effect:
  "insert_plan_refs w v key t i refs l = Inr l' \<Longrightarrow>
    \<exists>as. l' = l\<lparr>external_associations := external_associations l @ as\<rparr> \<and> length as = length refs
      \<and> (\<forall>a\<in>set as. ea_work_item_id a = w \<and> ea_task_version a = v \<and> ea_attempt_id a = None)
      \<and> (refs \<noteq> [] \<longrightarrow> has_work_item l w)"
proof (induction refs arbitrary: i l)
  case Nil
  then show ?case by (auto intro: exI [of _ "[]"])
next
  case (Cons r refs)
  let ?a = "\<lparr>ea_kind = ''plan_version'', ea_ref = r, ea_work_item_id = w,
              ea_task_version = v, ea_attempt_id = None,
              ea_source_event_key = key @ '':plan:'' @ show_nat i, ea_created_at = t\<rparr>"
  from Cons.prems obtain l1 where l1: "insert_association ?a l = Inr l1"
    and rest: "insert_plan_refs w v key t (Suc i) refs l1 = Inr l'" by auto
  from l1 have e1: "l1 = l\<lparr>external_associations := external_associations l @ [?a]\<rparr>"
    and h: "has_work_item l w" by (auto simp: insert_association_def)
  from Cons.IH [OF rest] obtain as where
    as: "l' = l1\<lparr>external_associations := external_associations l1 @ as\<rparr>" "length as = length refs"
      "\<forall>a\<in>set as. ea_work_item_id a = w \<and> ea_task_version a = v \<and> ea_attempt_id a = None" by blast
  show ?case by (rule exI [of _ "?a # as"]) (use as e1 h in auto)
qed

lemma insert_task_version_effect:
  assumes "insert_task_version e w v task key t l = Inr l'"
  obtains digest as where
    "canonical_sha256 (e_sha e) (task_py task) = Inr digest"
    "l' = l\<lparr>task_versions := task_versions l @ [task_version_row_of w v task digest key t],
            external_associations := external_associations l @ as\<rparr>"
    "\<forall>a\<in>set as. ea_work_item_id a = w \<and> ea_task_version a = v \<and> ea_attempt_id a = None"
    "length as = length (tk_plan_version_refs task)"
    "has_work_item l w" "1 \<le> v" "\<not> has_task l w v"
    "\<forall>r\<in>set (task_versions l). tv_source_event_key r \<noteq> key"
proof -
  from assms obtain digest l1 where
    sha: "canonical_sha256 (e_sha e) (task_py task) = Inr digest"
    and ins: "insert_task_version_row (task_version_row_of w v task digest key t) l = Inr l1"
    and refs: "insert_plan_refs w v key t 0 (tk_plan_version_refs task) l1 = Inr l'"
    unfolding insert_task_version_def by auto
  from ins have l1: "l1 = l\<lparr>task_versions := task_versions l @ [task_version_row_of w v task digest key t]\<rparr>"
    and facts: "has_work_item l w" "1 \<le> v" "\<not> has_task l w v"
      "\<forall>r\<in>set (task_versions l). tv_source_event_key r \<noteq> key"
    by (auto simp: insert_task_version_row_def task_version_row_of_def unique_key_iff has_task_def list_ex_iff)
  from insert_plan_refs_effect [OF refs] obtain as where
    "l' = l1\<lparr>external_associations := external_associations l1 @ as\<rparr>" "length as = length (tk_plan_version_refs task)"
    "\<forall>a\<in>set as. ea_work_item_id a = w \<and> ea_task_version a = v \<and> ea_attempt_id a = None" by blast
  with l1 sha facts that show ?thesis by auto
qed

text \<open>An applied creation replays an existing work item, or adds one row and its first task version.\<close>

lemma apply_create_effect:
  assumes "apply_create e cfg l preview command oper = Inr (a, l')"
  shows "(ca_idempotent_replay a \<and> l' = l \<and> has_work_item l (ca_work_item_id a))
    \<or> (\<exists>cr digest preview_id tdigest as. \<not> ca_idempotent_replay a
        \<and> normalize_creation e cfg l oper command = Inr cr
        \<and> canonical_sha256 (e_sha e) (cr_content cr) = Inr digest
        \<and> dget preview ''preview_id'' = PStr preview_id
        \<and> is_stable_id_str (ca_work_item_id a) ''work_item''
        \<and> \<not> has_work_item l (ca_work_item_id a)
        \<and> existing_creation l preview_id cr = None
        \<and> (\<forall>r\<in>set (work_items l). wi_creation_preview_id r \<noteq> preview_id)
        \<and> canonical_sha256 (e_sha e) (task_py (cr_task cr)) = Inr tdigest
        \<and> \<not> has_task l (ca_work_item_id a) 1
        \<and> (\<forall>r\<in>set as. ea_work_item_id r = ca_work_item_id a \<and> ea_task_version r = 1 \<and> ea_attempt_id r = None)
        \<and> l' = l\<lparr>work_items := work_items l @ [new_work_item_row (ca_work_item_id a) cr digest oper preview_id
                                                  (isoformat_utc e (e_now e))],
                 task_versions := task_versions l @ [task_version_row_of (ca_work_item_id a) 1 (cr_task cr) tdigest
                                                      (preview_id @ '':task:1'') (isoformat_utc e (e_now e))],
                 external_associations := external_associations l @ as\<rparr>)"
proof -
  from assms obtain cr wid pid digest idem eid where
    cr: "normalize_creation e cfg l oper command = Inr cr"
    and wid: "generated_id preview ''work_item_id'' ''work_item'' = Inr wid"
    and pid: "dget preview ''preview_id'' = PStr pid"
    and dig: "canonical_sha256 (e_sha e) (cr_content cr) = Inr digest"
    and body: "(case existing_creation l pid cr of
        Some r \<Rightarrow> ebind (assert_existing_create_matches r digest oper) (\<lambda>_. Inr (wi_id r, True, l))
      | None \<Rightarrow>
          ebind (json_column (PDict (cr_attributes cr))) (\<lambda>_.
          ebind (insert_work_item (new_work_item_row wid cr digest oper pid (isoformat_utc e (e_now e))) l) (\<lambda>l1.
          ebind (insert_task_version e wid 1 (cr_task cr) (pid @ '':task:1'') (isoformat_utc e (e_now e)) l1) (\<lambda>l2.
          Inr (wid, False, l2))))) = Inr (eid, idem, l')"
    and a: "ca_work_item_id a = eid" "ca_idempotent_replay a = idem"
    unfolding apply_create_def Let_def by (auto simp: require_stable_id_Inr split: prod.splits)
  have sid: "is_stable_id_str wid ''work_item''"
    using wid by (auto simp: generated_id_def require_stable_id_Inr split: py.splits)
  show ?thesis
  proof (cases "existing_creation l pid cr")
    case (Some r)
    then have "r \<in> set (work_items l)"
      by (auto simp: existing_creation_def find_Some_iff split: option.splits)
    with Some body a show ?thesis by (auto simp: has_work_item_def list_ex_iff)
  next
    case None
    with body obtain l1 where
      ins: "insert_work_item (new_work_item_row wid cr digest oper pid (isoformat_utc e (e_now e))) l = Inr l1"
      and tv: "insert_task_version e wid 1 (cr_task cr) (pid @ '':task:1'') (isoformat_utc e (e_now e)) l1 = Inr l'"
      and eid: "eid = wid" "\<not> idem" by auto
    from ins have l1: "l1 = l\<lparr>work_items := work_items l @ [new_work_item_row wid cr digest oper pid
          (isoformat_utc e (e_now e))]\<rparr>"
      and fresh: "\<not> has_work_item l wid" "\<forall>r\<in>set (work_items l). wi_creation_preview_id r \<noteq> pid"
      by (auto simp: insert_work_item_def new_work_item_row_def unique_key_iff has_work_item_def list_ex_iff)
    from insert_task_version_effect [OF tv] obtain tdigest as where
      "canonical_sha256 (e_sha e) (task_py (cr_task cr)) = Inr tdigest"
      "l' = l1\<lparr>task_versions := task_versions l1 @ [task_version_row_of wid 1 (cr_task cr) tdigest
              (pid @ '':task:1'') (isoformat_utc e (e_now e))],
            external_associations := external_associations l1 @ as\<rparr>"
      "\<forall>r\<in>set as. ea_work_item_id r = wid \<and> ea_task_version r = 1 \<and> ea_attempt_id r = None"
      "\<not> has_task l1 wid 1" by metis
    with l1 fresh cr dig pid sid a eid None show ?thesis
      by (intro disjI2 exI [of _ cr] exI [of _ digest] exI [of _ pid] exI [of _ tdigest] exI [of _ as])
        (simp add: has_task_def)
  qed
qed

lemma add_task_version_effect:
  assumes "add_task_version e cfg l command = Inr ((row, idem), l')"
  shows "(idem \<and> l' = l \<and> row \<in> set (task_versions l))
    \<or> (\<exists>w v item task digest key as. \<not> idem
        \<and> row_with wi_id w (work_items l) = Some item
        \<and> wi_state item \<notin> set TERMINAL_WORK_ITEM_STATES \<and> wi_state item \<noteq> ''submitted''
        \<and> v = wi_current_task_version item + 1 \<and> 1 \<le> v \<and> \<not> has_task l w v
        \<and> (\<forall>a\<in>set as. ea_work_item_id a = w \<and> ea_task_version a = v \<and> ea_attempt_id a = None)
        \<and> row = task_version_row_of w v task digest key (isoformat_utc e (e_now e))
        \<and> (\<forall>r\<in>set (task_versions l). tv_source_event_key r \<noteq> key)
        \<and> l' = l\<lparr>work_items := update_where (\<lambda>r. wi_id r = w)
                    (\<lambda>r. r\<lparr>wi_current_task_version := v, wi_state_version := wi_state_version r + 1,
                          wi_updated_at := isoformat_utc e (e_now e)\<rparr>) (work_items l),
                 task_versions := task_versions l @ [row],
                 external_associations := external_associations l @ as\<rparr>)"
proof -
  from assms obtain w v task digest key where
    body: "(case row_with tv_source_event_key key (task_versions l) of
          Some existing \<Rightarrow>
            if tv_work_item_id existing \<noteq> w \<or> tv_task_version existing \<noteq> v
               \<or> tv_payload_digest existing \<noteq> digest
            then Inl (Gov ''IDEMPOTENCY_CONFLICT'')
            else Inr ((existing, True), l)
        | None \<Rightarrow>
            ebind (work_item_row_of l w) (\<lambda>work_item.
            if wi_state work_item \<in> set TERMINAL_WORK_ITEM_STATES then Inl (Gov ''WORK_ITEM_TERMINAL'')
            else if wi_state work_item = ''submitted'' then Inl (Gov ''REVISION_GATE_REQUIRED'')
            else if v \<noteq> wi_current_task_version work_item + 1 then Inl (Gov ''TASK_VERSION_SEQUENCE_INVALID'')
            else
              ebind (insert_task_version e w v task key (isoformat_utc e (e_now e)) l) (\<lambda>l1.
              let l2 = l1\<lparr>work_items := update_where (\<lambda>r. wi_id r = w)
                    (\<lambda>r. r\<lparr>wi_current_task_version := v, wi_state_version := wi_state_version r + 1,
                          wi_updated_at := isoformat_utc e (e_now e)\<rparr>) (work_items l1)\<rparr>
              in case row_with (\<lambda>t. (tv_work_item_id t, tv_task_version t)) (w, v) (task_versions l2) of
                   Some row \<Rightarrow> Inr ((row, False), l2)
                 | None \<Rightarrow> Inl (Py_Exc ''TypeError'')))) = Inr ((row, idem), l')"
    unfolding add_task_version_def Let_def by (auto split: if_splits)
  show ?thesis
  proof (cases "row_with tv_source_event_key key (task_versions l)")
    case (Some existing)
    with body show ?thesis by (auto dest: row_with_Some split: if_splits)
  next
    case None
    with body obtain item l1 where
      item: "row_with wi_id w (work_items l) = Some item" "wi_state item \<notin> set TERMINAL_WORK_ITEM_STATES"
        "wi_state item \<noteq> ''submitted''" "v = wi_current_task_version item + 1"
      and ins: "insert_task_version e w v task key (isoformat_utc e (e_now e)) l = Inr l1"
      and l': "l' = l1\<lparr>work_items := update_where (\<lambda>r. wi_id r = w)
                    (\<lambda>r. r\<lparr>wi_current_task_version := v, wi_state_version := wi_state_version r + 1,
                          wi_updated_at := isoformat_utc e (e_now e)\<rparr>) (work_items l1)\<rparr>"
      and row: "row_with (\<lambda>t. (tv_work_item_id t, tv_task_version t)) (w, v) (task_versions l1) = Some row"
      and "\<not> idem"
      by (auto simp: Let_def split: if_splits option.splits)
    from insert_task_version_effect [OF ins] obtain dg as where
      l1: "l1 = l\<lparr>task_versions := task_versions l @ [task_version_row_of w v task dg key (isoformat_utc e (e_now e))],
            external_associations := external_associations l @ as\<rparr>"
      and as: "\<forall>a\<in>set as. ea_work_item_id a = w \<and> ea_task_version a = v \<and> ea_attempt_id a = None"
      and v: "1 \<le> v" and nt: "\<not> has_task l w v"
      and fresh: "\<forall>r\<in>set (task_versions l). tv_source_event_key r \<noteq> key" by metis
    have "row = task_version_row_of w v task dg key (isoformat_utc e (e_now e))"
      using row nt
      by (auto simp: l1 row_with_append task_version_row_of_def has_task_def list_ex_iff
          split: option.splits dest!: row_with_Some)
    with item l' l1 as v nt fresh \<open>\<not> idem\<close> show ?thesis
      by (intro disjI2 exI [of _ w] exI [of _ v] exI [of _ item] exI [of _ task] exI [of _ dg]
          exI [of _ key] exI [of _ as]) simp
  qed
qed

section \<open>Which blockers are active\<close>

text \<open>A blocker is active exactly when the last event recorded for it applied it.\<close>

lemma latest_per_iff:
  "x \<in> set (latest_per f xs) \<longleftrightarrow> (\<exists>ys zs. xs = ys @ x # zs \<and> (\<forall>z\<in>set zs. f z \<noteq> f x))"
proof (induction xs)
  case Nil
  then show ?case by simp
next
  case (Cons a xs)
  show ?case
  proof (cases "list_ex (\<lambda>y. f y = f a) xs")
    case True
    then have "x \<in> set (latest_per f (a # xs)) \<longleftrightarrow> x \<in> set (latest_per f xs)" by simp
    also have "\<dots> \<longleftrightarrow> (\<exists>ys zs. a # xs = ys @ x # zs \<and> (\<forall>z\<in>set zs. f z \<noteq> f x))"
      unfolding Cons.IH using True
      by (auto simp: Cons_eq_append_conv list_ex_iff)
    finally show ?thesis .
  next
    case False
    then have "x \<in> set (latest_per f (a # xs)) \<longleftrightarrow> x = a \<or> x \<in> set (latest_per f xs)" by simp
    also have "\<dots> \<longleftrightarrow> (\<exists>ys zs. a # xs = ys @ x # zs \<and> (\<forall>z\<in>set zs. f z \<noteq> f x))"
      unfolding Cons.IH using False by (auto simp: Cons_eq_append_conv list_ex_iff)
    finally show ?thesis .
  qed
qed

lemma latest_per_distinct: "distinct (map f (latest_per f xs))"
proof -
  have sub: "set (latest_per f xs) \<subseteq> set xs" for xs by (induction xs) auto
  show ?thesis by (induction xs) (use sub in \<open>fastforce simp: list_ex_iff\<close>)+
qed

end
