(* ===== verification/Attempts.thy ===== *)
theory Attempts
  imports WorkItemFacts
begin

text \<open>
  \<open>runner/work_item_governance/service.py\<close>, execution attempts and artifacts: claim of a runtime
  attempt, binding of a historical one, completion with its artifacts, registration of an artifact
  reference with the check of a local file's digest.  The last part writes out what each command
  does to the ledger.
\<close>

section \<open>Artifacts\<close>

record artifact =
  af_id :: string
  af_id_supplied :: bool
  af_work_item_id :: string
  af_task_version :: int
  af_attempt_id :: "string option"
  af_kind :: string
  af_uri :: string
  af_immutable_ref :: string
  af_digest :: string
  af_metadata :: dict
  af_source_event_key :: string

definition local_artifact_path :: "string \<Rightarrow> local_path option" where
  "local_artifact_path uri =
    (if starts_with uri ''project://'' then Some (Under_Root (dropWhile (\<lambda>c. c = CHR ''/'') (drop 10 uri)))
     else if starts_with uri ''file://'' then Some (Bare_Path (drop 7 uri))
     else if \<not> contains_str uri ''://'' then Some (Under_Root uri)
     else None)"

definition verify_local_artifact_digest :: "env \<Rightarrow> string \<Rightarrow> string \<Rightarrow> unit result" where
  "verify_local_artifact_digest e uri digest =
    (case local_artifact_path uri of
       None \<Rightarrow> Inr ()
     | Some path \<Rightarrow>
         let resolved = e_resolve e path in
         if take (length (e_root e)) resolved \<noteq> e_root e then Inl (Gov ''ARTIFACT_PATH_OUTSIDE_PROJECT'')
         else (case e_file_digest e resolved of
             None \<Rightarrow> Inl (Gov ''ARTIFACT_FILE_MISSING'')
           | Some observed \<Rightarrow>
               if observed \<noteq> digest then Inl (Gov ''ARTIFACT_DIGEST_MISMATCH'') else Inr ()))"

definition ARTIFACT_FIELDS :: "string list" where
  "ARTIFACT_FIELDS = [''artifact_id'', ''work_item_id'', ''task_version'', ''attempt_id'', ''kind'', ''uri'',
     ''immutable_ref'', ''digest'', ''observed_digest'', ''metadata'', ''source_event_key'']"

text \<open>A value that must be one of a closed set of strings.\<close>

definition one_of :: "py \<Rightarrow> string list \<Rightarrow> string \<Rightarrow> string result" where
  "one_of v S code =
    ebind (in_str_set v S) (\<lambda>known.
    case v of PStr s \<Rightarrow> if known then Inr s else Inl (Gov code) | _ \<Rightarrow> Inl (Gov code))"

definition normalize_artifact_command :: "env \<Rightarrow> nat \<Rightarrow> py \<Rightarrow> artifact result" where
  "normalize_artifact_command e i value =
    ebind (require_object value True) (\<lambda>command.
    if \<not> only_keys command ARTIFACT_FIELDS then Inl (Gov ''ARTIFACT_FIELD_UNSUPPORTED'')
    else
      ebind (if dget command ''artifact_id'' = PNone then Inr (e_fresh e ''artifact'' i)
             else require_stable_id (dget command ''artifact_id'') ''artifact'') (\<lambda>artifact_id.
      ebind (one_of (dget command ''kind'') ARTIFACT_KINDS ''ARTIFACT_KIND_INVALID'') (\<lambda>kind.
      ebind (require_text (dget command ''uri'') MAX_URI_LENGTH) (\<lambda>uri.
      if list_ex (\<lambda>c. (of_char c :: nat) < 32) uri then Inl (Gov ''ARTIFACT_URI_INVALID'')
      else
        ebind (require_sha256 (dget command ''digest'')) (\<lambda>digest.
        ebind (if dget command ''observed_digest'' = PNone then Inr ()
               else ebind (require_sha256 (dget command ''observed_digest'')) (\<lambda>observed.
                    if observed \<noteq> digest then Inl (Gov ''ARTIFACT_DIGEST_MISMATCH'') else Inr ())) (\<lambda>_.
        ebind (verify_local_artifact_digest e uri digest) (\<lambda>_.
        ebind (require_metadata_object (dget_or command ''metadata'' (PDict []))) (\<lambda>metadata.
        ebind (reject_sensitive_fields (PDict metadata)) (\<lambda>_.
        ebind (require_stable_id (dget command ''work_item_id'') ''work_item'') (\<lambda>w.
        ebind (require_positive_integer (dget command ''task_version'')) (\<lambda>v.
        ebind (if dget command ''attempt_id'' = PNone then Inr None
               else ebind (require_stable_id (dget command ''attempt_id'') ''attempt'') (\<lambda>a. Inr (Some a))) (\<lambda>attempt.
        ebind (require_text (dget command ''immutable_ref'') MAX_URI_LENGTH) (\<lambda>immutable_ref.
        ebind (require_text (dget command ''source_event_key'') 1024) (\<lambda>key.
        Inr \<lparr>af_id = artifact_id, af_id_supplied = (dget command ''artifact_id'' \<noteq> PNone),
             af_work_item_id = w, af_task_version = v, af_attempt_id = attempt, af_kind = kind, af_uri = uri,
             af_immutable_ref = immutable_ref, af_digest = digest, af_metadata = metadata,
             af_source_event_key = key\<rparr>))))))))))))))"

definition find_existing_artifact :: "ledger \<Rightarrow> artifact \<Rightarrow> artifact_row option" where
  "find_existing_artifact l a =
    (case row_with ar_source_event_key (af_source_event_key a) (artifact_refs l) of
       Some r \<Rightarrow> Some r
     | None \<Rightarrow> row_with (\<lambda>r. (ar_work_item_id r, ar_kind r, ar_immutable_ref r))
                 (af_work_item_id a, af_kind a, af_immutable_ref a) (artifact_refs l))"

definition assert_existing_artifact_matches :: "artifact_row \<Rightarrow> artifact \<Rightarrow> unit result" where
  "assert_existing_artifact_matches r a =
    (if (ar_work_item_id r, ar_task_version r, ar_attempt_id r, ar_kind r, ar_uri r, ar_immutable_ref r, ar_digest r)
        \<noteq> (af_work_item_id a, af_task_version a, af_attempt_id a, af_kind a, af_uri a, af_immutable_ref a, af_digest a)
        \<or> (af_id_supplied a \<and> ar_id r \<noteq> af_id a)
        \<or> \<not> py_eq (ar_metadata r) (PDict (af_metadata a))
     then Inl (Gov ''IDEMPOTENCY_CONFLICT'') else Inr ())"

definition assert_pending_artifact_matches :: "artifact \<Rightarrow> artifact \<Rightarrow> unit result" where
  "assert_pending_artifact_matches p a =
    (if (af_id_supplied a \<and> af_id p \<noteq> af_id a)
        \<or> (af_work_item_id p, af_task_version p, af_attempt_id p, af_kind p, af_uri p, af_immutable_ref p, af_digest p)
          \<noteq> (af_work_item_id a, af_task_version a, af_attempt_id a, af_kind a, af_uri a, af_immutable_ref a, af_digest a)
        \<or> \<not> py_eq (PDict (af_metadata p)) (PDict (af_metadata a))
     then Inl (Gov ''IDEMPOTENCY_CONFLICT'') else Inr ())"

text \<open>
  \<open>_count_new_completion_artifacts\<close>: \<open>pend\<close> holds the artifacts counted so far; both indexes of the
  code map into it (by event key, else by reference).
\<close>

fun count_new_completion_artifacts :: "ledger \<Rightarrow> artifact list \<Rightarrow> artifact list \<Rightarrow> nat result" where
  "count_new_completion_artifacts l pend [] = Inr (length pend)"
| "count_new_completion_artifacts l pend (a # as) =
     (case find_existing_artifact l a of
        Some r \<Rightarrow> ebind (assert_existing_artifact_matches r a) (\<lambda>_. count_new_completion_artifacts l pend as)
      | None \<Rightarrow>
          (case (case row_with af_source_event_key (af_source_event_key a) pend of
                   Some p \<Rightarrow> Some p
                 | None \<Rightarrow> row_with (\<lambda>p. (af_work_item_id p, af_kind p, af_immutable_ref p))
                             (af_work_item_id a, af_kind a, af_immutable_ref a) pend) of
             Some p \<Rightarrow> ebind (assert_pending_artifact_matches p a) (\<lambda>_. count_new_completion_artifacts l pend as)
           | None \<Rightarrow> count_new_completion_artifacts l (pend @ [a]) as))"

definition task_row_of :: "ledger \<Rightarrow> string \<Rightarrow> int \<Rightarrow> task_version_row result" where
  "task_row_of l w v =
    (case row_with (\<lambda>t. (tv_work_item_id t, tv_task_version t)) (w, v) (task_versions l) of
       None \<Rightarrow> Inl (Gov ''TASK_VERSION_NOT_FOUND'') | Some r \<Rightarrow> Inr r)"

definition assert_artifact_attempt :: "ledger \<Rightarrow> artifact \<Rightarrow> unit result" where
  "assert_artifact_attempt l a =
    (case af_attempt_id a of
       None \<Rightarrow> Inr ()
     | Some attempt_id \<Rightarrow>
         (case row_with at_id attempt_id (execution_attempts l) of
            None \<Rightarrow> Inl (Gov ''ARTIFACT_ATTEMPT_MISMATCH'')
          | Some attempt \<Rightarrow>
              if at_work_item_id attempt \<noteq> af_work_item_id a \<or> at_task_version attempt \<noteq> af_task_version a
              then Inl (Gov ''ARTIFACT_ATTEMPT_MISMATCH'') else Inr ()))"

definition insert_artifact :: "artifact \<Rightarrow> string \<Rightarrow> ledger \<Rightarrow> ((artifact_row \<times> bool) \<times> ledger) result" where
  "insert_artifact a created_at l =
    (case find_existing_artifact l a of
       Some r \<Rightarrow> ebind (assert_existing_artifact_matches r a) (\<lambda>_. Inr ((r, True), l))
     | None \<Rightarrow>
         ebind (work_item_row_of l (af_work_item_id a)) (\<lambda>work_item.
         if wi_state work_item \<in> set TERMINAL_WORK_ITEM_STATES then Inl (Gov ''TERMINAL_ARTIFACT_SET_FROZEN'')
         else
           ebind (task_row_of l (af_work_item_id a) (af_task_version a)) (\<lambda>_.
           ebind (assert_artifact_attempt l a) (\<lambda>_.
           ebind (json_column (PDict (af_metadata a))) (\<lambda>metadata.
           let row = \<lparr>ar_id = af_id a, ar_work_item_id = af_work_item_id a, ar_task_version = af_task_version a,
                 ar_attempt_id = af_attempt_id a, ar_kind = af_kind a, ar_uri = af_uri a,
                 ar_immutable_ref = af_immutable_ref a, ar_digest = af_digest a, ar_metadata = metadata,
                 ar_source_event_key = af_source_event_key a, ar_created_at = created_at\<rparr>
           in ebind (insert_artifact_row row l) (\<lambda>l'. Inr ((row, False), l')))))))"

definition register_artifact_reference ::
  "env \<Rightarrow> config \<Rightarrow> ledger \<Rightarrow> py \<Rightarrow> ((artifact_row \<times> bool) \<times> ledger) result" where
  "register_artifact_reference e cfg l command =
    ebind (require_enabled cfg) (\<lambda>_.
    ebind (normalize_artifact_command e 0 command) (\<lambda>a.
    catch_integrity (write_transaction cfg l (insert_artifact a (isoformat_utc e (e_now e))))))"

section \<open>Attempts\<close>

text \<open>\<open>_normalize_external_refs\<close>: the first entry that repeats an earlier one ends the loop.\<close>

fun external_refs_loop :: "(string \<times> string) list \<Rightarrow> py list \<Rightarrow> (string \<times> string) list result" where
  "external_refs_loop seen [] = Inr (rev seen)"
| "external_refs_loop seen (x # xs) =
     ebind (normalize_ref ''EXTERNAL_REF_SHAPE_INVALID'' x) (\<lambda>r.
     if r \<in> set seen then Inl (Gov ''EXTERNAL_REF_DUPLICATE'') else external_refs_loop (r # seen) xs)"

definition normalize_external_refs :: "py \<Rightarrow> (string \<times> string) list result" where
  "normalize_external_refs value =
    (if value = PNone then Inr []
     else ebind (bounded_list value 1024 ''EXTERNAL_REFS_INVALID'') (external_refs_loop []))"

fun insert_external_refs ::
  "string \<Rightarrow> int \<Rightarrow> string \<Rightarrow> string \<Rightarrow> string \<Rightarrow> nat \<Rightarrow> (string \<times> string) list \<Rightarrow> ledger \<Rightarrow> ledger result" where
  "insert_external_refs w v attempt_id source_event_key created_at i [] l = Inr l"
| "insert_external_refs w v attempt_id source_event_key created_at i (r # rs) l =
     ebind (insert_association \<lparr>ea_kind = fst r, ea_ref = snd r, ea_work_item_id = w,
              ea_task_version = v, ea_attempt_id = Some attempt_id,
              ea_source_event_key = source_event_key @ '':external:'' @ show_nat i, ea_created_at = created_at\<rparr> l)
       (insert_external_refs w v attempt_id source_event_key created_at (Suc i) rs)"

text \<open>The refs recorded for an attempt, \<open>ORDER BY association_kind,external_ref\<close>.\<close>

definition attempt_external_refs :: "ledger \<Rightarrow> string \<Rightarrow> (string \<times> string) list" where
  "attempt_external_refs l attempt_id =
    sort_key (\<lambda>r. r) (map (\<lambda>a. (ea_kind a, ea_ref a))
      (filter (\<lambda>a. ea_attempt_id a = Some attempt_id) (external_associations l)))"

definition claim_payload ::
  "string \<Rightarrow> int \<Rightarrow> string option \<Rightarrow> string \<Rightarrow> string option \<Rightarrow> dict \<Rightarrow> (string \<times> string) list \<Rightarrow> py" where
  "claim_payload w v supplied status objective metadata refs = PDict
    [(''work_item_id'', PStr w), (''task_version'', PInt v), (''attempt_id'', of_opt supplied),
     (''status'', PStr status), (''objective_ref'', of_opt objective), (''metadata'', PDict metadata),
     (''external_refs'', PList (map ref_py refs)), (''attempt_kind'', PStr ''runtime''),
     (''dispatch_authorized'', PBool True)]"

text \<open>The identifier the caller supplied, if any: a replay must name the same one.\<close>

definition supplied_id :: "py \<Rightarrow> string \<Rightarrow> string option" where
  "supplied_id v i = (if v = PNone then None else Some i)"

definition claim_conflict ::
  "ledger \<Rightarrow> attempt_row \<Rightarrow> string \<Rightarrow> int \<Rightarrow> string option \<Rightarrow> string \<Rightarrow> string option \<Rightarrow> dict
    \<Rightarrow> (string \<times> string) list \<Rightarrow> string \<Rightarrow> bool" where
  "claim_conflict l existing w v supplied status objective metadata sorted_refs key =
    (let claim_event = find (\<lambda>ev. ae_source_event_key ev = key \<and> ae_event_type ev = ''claim'') (attempt_events l);
         immutable_mismatch = (at_work_item_id existing \<noteq> w \<or> at_task_version existing \<noteq> v
           \<or> at_kind existing \<noteq> ''runtime'' \<or> \<not> at_dispatch_authorized existing
           \<or> (case supplied of None \<Rightarrow> False | Some i \<Rightarrow> at_id existing \<noteq> i)
           \<or> at_objective_ref existing \<noteq> objective
           \<or> attempt_external_refs l (at_id existing) \<noteq> sorted_refs)
     in case claim_event of
          Some ev \<Rightarrow> immutable_mismatch
            \<or> \<not> py_eq (ae_payload ev) (claim_payload w v supplied status objective metadata sorted_refs)
        | None \<Rightarrow> immutable_mismatch
            \<or> (at_completion_event_key existing = None
               \<and> (at_status existing \<noteq> status \<or> \<not> py_eq (at_metadata existing) (PDict metadata))))"

definition attempt_of :: "ledger \<Rightarrow> string \<Rightarrow> attempt_row result" where
  "attempt_of l i =
    (case row_with at_id i (execution_attempts l) of Some r \<Rightarrow> Inr r | None \<Rightarrow> Inl (Py_Exc ''TypeError''))"

definition runtime_attempt_row ::
  "string \<Rightarrow> string \<Rightarrow> int \<Rightarrow> string \<Rightarrow> string option \<Rightarrow> py \<Rightarrow> string \<Rightarrow> string \<Rightarrow> attempt_row" where
  "runtime_attempt_row i w v status objective metadata key created_at =
    \<lparr>at_id = i, at_work_item_id = w, at_task_version = v, at_status = status, at_objective_ref = objective,
      at_metadata = metadata, at_source_event_key = key, at_completion_event_key = None, at_created_at = created_at,
      at_completed_at = None, at_kind = ''runtime'', at_dispatch_authorized = True,
      at_historical_reason = None, at_imported = False\<rparr>"

definition claim_transaction ::
  "env \<Rightarrow> string \<Rightarrow> int \<Rightarrow> string \<Rightarrow> string option \<Rightarrow> string \<Rightarrow> string option \<Rightarrow> dict \<Rightarrow> string
    \<Rightarrow> (string \<times> string) list \<Rightarrow> string \<Rightarrow> ledger \<Rightarrow> ((attempt_row \<times> bool) \<times> ledger) result" where
  "claim_transaction e w v attempt_id supplied status objective metadata key refs created_at l =
    (let sorted_refs = sort_key (\<lambda>r. r) refs;
         payload = claim_payload w v supplied status objective metadata sorted_refs in
    case row_with at_source_event_key key (execution_attempts l) of
      Some existing \<Rightarrow>
        if claim_conflict l existing w v supplied status objective metadata sorted_refs key
        then Inl (Gov ''IDEMPOTENCY_CONFLICT'')
        else ebind (attempt_of l (at_id existing)) (\<lambda>row. Inr ((row, True), l))
    | None \<Rightarrow>
        ebind (work_item_row_of l w) (\<lambda>work_item.
        if wi_state work_item \<in> set TERMINAL_WORK_ITEM_STATES then Inl (Gov ''WORK_ITEM_TERMINAL'')
        else if wi_state work_item = ''submitted'' then Inl (Gov ''REVISION_GATE_REQUIRED'')
        else if wi_current_task_version work_item \<noteq> v then Inl (Gov ''TASK_VERSION_STALE'')
        else
          ebind (task_row_of l w v) (\<lambda>_.
          ebind (json_column (PDict metadata)) (\<lambda>metadata_json.
          ebind (insert_attempt
                   (runtime_attempt_row attempt_id w v status objective metadata_json key created_at) l) (\<lambda>l1.
          ebind (insert_external_refs w v attempt_id key created_at 0 refs l1) (\<lambda>l2.
          ebind (json_column payload) (\<lambda>payload_json.
          ebind (insert_attempt_event \<lparr>ae_id = e_fresh e ''attempt_event'' 0, ae_attempt_id = attempt_id,
                   ae_event_type = ''claim'', ae_source_event_key = key, ae_payload = payload_json,
                   ae_created_at = created_at\<rparr> l2) (\<lambda>l3.
          ebind (attempt_of l3 attempt_id) (\<lambda>row. Inr ((row, False), l3))))))))))"

definition create_execution_attempt ::
  "env \<Rightarrow> config \<Rightarrow> ledger \<Rightarrow> py \<Rightarrow> ((attempt_row \<times> bool) \<times> ledger) result" where
  "create_execution_attempt e cfg l command =
    ebind (require_enabled cfg) (\<lambda>_.
    ebind (require_object command True) (\<lambda>value.
    if \<not> only_keys value [''work_item_id'', ''task_version'', ''attempt_id'', ''status'', ''objective_ref'',
        ''metadata'', ''source_event_key'', ''external_refs'']
    then Inl (Gov ''ATTEMPT_FIELD_UNSUPPORTED'')
    else
      ebind (require_stable_id (dget value ''work_item_id'') ''work_item'') (\<lambda>w.
      ebind (require_positive_integer (dget value ''task_version'')) (\<lambda>v.
      ebind (id_or_fresh e (dget value ''attempt_id'') ''attempt'') (\<lambda>attempt_id.
      ebind (one_of (dget_or value ''status'' (PStr ''claimed'')) [''claimed'', ''running'']
               ''ATTEMPT_INITIAL_STATUS_INVALID'') (\<lambda>status.
      ebind (require_metadata_object (dget_or value ''metadata'' (PDict []))) (\<lambda>metadata.
      ebind (reject_sensitive_fields (PDict metadata)) (\<lambda>_.
      ebind (optional_text (dget value ''objective_ref'') 8192) (\<lambda>objective.
      ebind (require_text (dget value ''source_event_key'') 1024) (\<lambda>key.
      ebind (normalize_external_refs (dget value ''external_refs'')) (\<lambda>refs.
      let supplied = supplied_id (dget value ''attempt_id'') attempt_id;
          created_at = isoformat_utc e (e_now e) in
      catch_integrity (write_transaction cfg l
        (claim_transaction e w v attempt_id supplied status objective metadata key refs created_at)))))))))))))"

definition historical_payload ::
  "string \<Rightarrow> int \<Rightarrow> string option \<Rightarrow> string \<Rightarrow> string option \<Rightarrow> dict \<Rightarrow> (string \<times> string) list \<Rightarrow> string \<Rightarrow> py" where
  "historical_payload w v supplied status objective metadata refs reason = PDict
    [(''work_item_id'', PStr w), (''task_version'', PInt v), (''attempt_id'', of_opt supplied),
     (''status'', PStr status), (''objective_ref'', of_opt objective), (''metadata'', PDict metadata),
     (''external_refs'', PList (map ref_py refs)), (''historical_reason'', PStr reason),
     (''imported'', PBool True), (''attempt_kind'', PStr ''historical''), (''dispatch_authorized'', PBool False)]"

definition historical_attempt_row ::
  "string \<Rightarrow> string \<Rightarrow> int \<Rightarrow> string \<Rightarrow> string option \<Rightarrow> py \<Rightarrow> string \<Rightarrow> string \<Rightarrow> string \<Rightarrow> attempt_row" where
  "historical_attempt_row i w v status objective metadata key reason created_at =
    \<lparr>at_id = i, at_work_item_id = w, at_task_version = v, at_status = status, at_objective_ref = objective,
      at_metadata = metadata, at_source_event_key = key, at_completion_event_key = None, at_created_at = created_at,
      at_completed_at = Some created_at, at_kind = ''historical'', at_dispatch_authorized = False,
      at_historical_reason = Some reason, at_imported = True\<rparr>"

definition historical_transaction ::
  "env \<Rightarrow> string \<Rightarrow> int \<Rightarrow> string \<Rightarrow> string \<Rightarrow> string option \<Rightarrow> dict \<Rightarrow> string \<Rightarrow> string
    \<Rightarrow> (string \<times> string) list \<Rightarrow> py \<Rightarrow> string \<Rightarrow> ledger \<Rightarrow> ((attempt_row \<times> bool) \<times> ledger) result" where
  "historical_transaction e w v attempt_id status objective metadata reason key refs payload created_at l =
    (case row_with at_source_event_key key (execution_attempts l) of
      Some existing \<Rightarrow>
        (case find (\<lambda>ev. ae_source_event_key ev = key \<and> ae_event_type ev = ''historical_binding'') (attempt_events l) of
           None \<Rightarrow> Inl (Gov ''IDEMPOTENCY_CONFLICT'')
         | Some ev \<Rightarrow>
             if \<not> py_eq (ae_payload ev) payload then Inl (Gov ''IDEMPOTENCY_CONFLICT'')
             else ebind (attempt_of l (at_id existing)) (\<lambda>row. Inr ((row, True), l)))
    | None \<Rightarrow>
        ebind (task_row_of l w v) (\<lambda>_.
        ebind (json_column (PDict metadata)) (\<lambda>metadata_json.
        ebind (insert_attempt
                 (historical_attempt_row attempt_id w v status objective metadata_json key reason created_at) l) (\<lambda>l1.
        ebind (insert_external_refs w v attempt_id key created_at 0 refs l1) (\<lambda>l2.
        ebind (json_column payload) (\<lambda>payload_json.
        ebind (insert_attempt_event \<lparr>ae_id = e_fresh e ''attempt_event'' 0, ae_attempt_id = attempt_id,
                 ae_event_type = ''historical_binding'', ae_source_event_key = key, ae_payload = payload_json,
                 ae_created_at = created_at\<rparr> l2) (\<lambda>l3.
        ebind (attempt_of l3 attempt_id) (\<lambda>row. Inr ((row, False), l3)))))))))"

definition bind_historical_execution_attempt ::
  "env \<Rightarrow> config \<Rightarrow> ledger \<Rightarrow> py \<Rightarrow> ((attempt_row \<times> bool) \<times> ledger) result" where
  "bind_historical_execution_attempt e cfg l command =
    ebind (require_enabled cfg) (\<lambda>_.
    ebind (require_object command True) (\<lambda>value.
    if \<not> only_keys value [''work_item_id'', ''task_version'', ''attempt_id'', ''status'', ''objective_ref'',
        ''metadata'', ''source_event_key'', ''external_refs'', ''historical_reason'', ''imported'']
    then Inl (Gov ''HISTORICAL_ATTEMPT_FIELD_UNSUPPORTED'')
    else if dget value ''imported'' \<noteq> PBool True then Inl (Gov ''HISTORICAL_ATTEMPT_IMPORT_REQUIRED'')
    else
      ebind (require_stable_id (dget value ''work_item_id'') ''work_item'') (\<lambda>w.
      ebind (require_positive_integer (dget value ''task_version'')) (\<lambda>v.
      ebind (id_or_fresh e (dget value ''attempt_id'') ''attempt'') (\<lambda>attempt_id.
      ebind (one_of (dget value ''status'') [''completed'', ''failed'', ''cancelled'']
               ''HISTORICAL_ATTEMPT_STATUS_INVALID'') (\<lambda>status.
      ebind (optional_text (dget value ''objective_ref'') 8192) (\<lambda>objective.
      ebind (require_metadata_object (dget_or value ''metadata'' (PDict []))) (\<lambda>metadata.
      ebind (reject_sensitive_fields (PDict metadata)) (\<lambda>_.
      ebind (require_text (dget value ''historical_reason'') MAX_TEXT_LENGTH) (\<lambda>reason.
      ebind (require_text (dget value ''source_event_key'') 1024) (\<lambda>key.
      ebind (normalize_external_refs (dget value ''external_refs'')) (\<lambda>unsorted.
      let refs = sort_key (\<lambda>r. r) unsorted;
          supplied = supplied_id (dget value ''attempt_id'') attempt_id;
          payload = historical_payload w v supplied status objective metadata refs reason;
          created_at = isoformat_utc e (e_now e) in
      catch_integrity (write_transaction cfg l
        (historical_transaction e w v attempt_id status objective metadata reason key refs payload created_at))))))))))))))"

section \<open>Completion\<close>

definition artifact_payload :: "artifact \<Rightarrow> py" where
  "artifact_payload a = PDict
    [(''work_item_id'', PStr (af_work_item_id a)), (''task_version'', PInt (af_task_version a)),
     (''attempt_id'', of_opt (af_attempt_id a)), (''kind'', PStr (af_kind a)), (''uri'', PStr (af_uri a)),
     (''immutable_ref'', PStr (af_immutable_ref a)), (''digest'', PStr (af_digest a)),
     (''metadata'', PDict (af_metadata a)), (''source_event_key'', PStr (af_source_event_key a))]"

definition completion_payload :: "string \<Rightarrow> dict \<Rightarrow> artifact list \<Rightarrow> py" where
  "completion_payload status metadata artifacts = PDict
    [(''status'', PStr status), (''metadata'', PDict metadata),
     (''artifacts'', PList (map artifact_payload artifacts))]"

text \<open>The UPDATE that completes an attempt; its completion key is UNIQUE.\<close>

definition complete_attempt_row :: "string \<Rightarrow> string \<Rightarrow> string \<Rightarrow> py \<Rightarrow> attempt_row \<Rightarrow> attempt_row" where
  "complete_attempt_row status key completed_at metadata r =
    r\<lparr>at_status := status, at_completion_event_key := Some key, at_completed_at := Some completed_at,
      at_metadata := metadata\<rparr>"

definition update_completion ::
  "string \<Rightarrow> string \<Rightarrow> string \<Rightarrow> string \<Rightarrow> py \<Rightarrow> ledger \<Rightarrow> ledger result" where
  "update_completion attempt_id status key completed_at metadata l =
    (if list_ex (\<lambda>r. at_completion_event_key r = Some key \<and> at_id r \<noteq> attempt_id) (execution_attempts l)
     then Inl (Sqlite_Integrity Unique_Failed)
     else Inr (l\<lparr>execution_attempts :=
       update_where (\<lambda>r. at_id r = attempt_id \<and> at_completion_event_key r = None)
         (complete_attempt_row status key completed_at metadata) (execution_attempts l)\<rparr>))"

definition assert_completion_artifact :: "string \<Rightarrow> attempt_row \<Rightarrow> artifact \<Rightarrow> unit result" where
  "assert_completion_artifact attempt_id attempt a =
    (if af_attempt_id a \<noteq> Some attempt_id then Inl (Gov ''ARTIFACT_ATTEMPT_MISMATCH'')
     else if af_work_item_id a \<noteq> at_work_item_id attempt \<or> af_task_version a \<noteq> at_task_version attempt
       then Inl (Gov ''ARTIFACT_CONTEXT_MISMATCH'')
     else Inr ())"

fun insert_artifacts :: "string \<Rightarrow> artifact list \<Rightarrow> ledger \<Rightarrow> ledger result" where
  "insert_artifacts created_at [] l = Inr l"
| "insert_artifacts created_at (a # as) l =
     ebind (insert_artifact a created_at l) (\<lambda>(_, l'). insert_artifacts created_at as l')"

definition artifacts_of_attempt :: "ledger \<Rightarrow> string \<Rightarrow> artifact_row list" where
  "artifacts_of_attempt l attempt_id =
    sort_key (\<lambda>a. (ar_created_at a, ar_id a)) (filter (\<lambda>a. ar_attempt_id a = Some attempt_id) (artifact_refs l))"

record completion_answer =
  co_attempt :: attempt_row
  co_artifacts :: "artifact_row list"
  co_idempotent_replay :: bool

definition first_completion ::
  "env \<Rightarrow> attempt_row \<Rightarrow> string \<Rightarrow> string \<Rightarrow> string \<Rightarrow> dict \<Rightarrow> artifact list \<Rightarrow> string \<Rightarrow> ledger
    \<Rightarrow> (bool \<times> ledger) result" where
  "first_completion e attempt attempt_id status key metadata artifacts completed_at l =
    (if at_completion_event_key attempt \<noteq> None then Inl (Gov ''ATTEMPT_ALREADY_COMPLETED'')
    else
      ebind (efor (assert_completion_artifact attempt_id attempt) artifacts) (\<lambda>_.
      ebind (count_new_completion_artifacts l [] artifacts) (\<lambda>_.
      ebind (json_column (PDict metadata)) (\<lambda>metadata_json.
      ebind (update_completion attempt_id status key completed_at metadata_json l) (\<lambda>l1.
      ebind (json_column (completion_payload status metadata artifacts)) (\<lambda>payload_json.
      ebind (insert_attempt_event \<lparr>ae_id = e_fresh e ''attempt_event'' 0, ae_attempt_id = attempt_id,
               ae_event_type = ''completion'', ae_source_event_key = key,
               ae_payload = payload_json, ae_created_at = completed_at\<rparr> l1) (\<lambda>l2.
      ebind (insert_artifacts completed_at artifacts l2) (\<lambda>l3. Inr (False, l3)))))))))"

definition completion_transaction ::
  "env \<Rightarrow> string \<Rightarrow> string \<Rightarrow> string \<Rightarrow> dict \<Rightarrow> artifact list \<Rightarrow> string \<Rightarrow> ledger
    \<Rightarrow> (completion_answer \<times> ledger) result" where
  "completion_transaction e attempt_id status key metadata artifacts completed_at l =
    (case row_with at_id attempt_id (execution_attempts l) of
      None \<Rightarrow> Inl (Gov ''ATTEMPT_NOT_FOUND'')
    | Some attempt \<Rightarrow>
        if at_kind attempt \<noteq> ''runtime'' \<or> \<not> at_dispatch_authorized attempt
        then Inl (Gov ''HISTORICAL_ATTEMPT_NOT_COMPLETABLE'')
        else
          ebind (case row_with ae_source_event_key key (attempt_events l) of
              Some prior \<Rightarrow>
                if ae_attempt_id prior \<noteq> attempt_id \<or> \<not> py_eq (ae_payload prior) (completion_payload status metadata artifacts)
                then Inl (Gov ''IDEMPOTENCY_CONFLICT'') else Inr (True, l)
            | None \<Rightarrow>
                first_completion e attempt attempt_id status key metadata artifacts completed_at l)
            (\<lambda>(idempotent, l').
          ebind (attempt_of l' attempt_id) (\<lambda>row.
          Inr (\<lparr>co_attempt = row, co_artifacts = artifacts_of_attempt l' attempt_id,
                co_idempotent_replay = idempotent\<rparr>, l'))))"

definition complete_execution_attempt ::
  "env \<Rightarrow> config \<Rightarrow> ledger \<Rightarrow> py \<Rightarrow> (completion_answer \<times> ledger) result" where
  "complete_execution_attempt e cfg l command =
    ebind (require_enabled cfg) (\<lambda>_.
    ebind (require_object command True) (\<lambda>value.
    if \<not> only_keys value [''attempt_id'', ''status'', ''source_event_key'', ''metadata'', ''artifacts'']
    then Inl (Gov ''ATTEMPT_COMPLETION_FIELD_UNSUPPORTED'')
    else
      ebind (require_stable_id (dget value ''attempt_id'') ''attempt'') (\<lambda>attempt_id.
      ebind (one_of (dget value ''status'') [''completed'', ''failed'', ''cancelled'']
               ''ATTEMPT_COMPLETION_STATUS_INVALID'') (\<lambda>status.
      ebind (require_text (dget value ''source_event_key'') 1024) (\<lambda>key.
      ebind (require_metadata_object (dget_or value ''metadata'' (PDict []))) (\<lambda>metadata.
      ebind (reject_sensitive_fields (PDict metadata)) (\<lambda>_.
      ebind (bounded_list (dget_or value ''artifacts'' (PList [])) 1024 ''ARTIFACT_LIST_INVALID'') (\<lambda>items.
      ebind (emap (\<lambda>ix. normalize_artifact_command e (fst ix) (snd ix)) (enumerate 0 items)) (\<lambda>artifacts.
      let completed_at = isoformat_utc e (e_now e) in
      catch_integrity (write_transaction cfg l
        (completion_transaction e attempt_id status key metadata artifacts completed_at)))))))))))"

section \<open>What the commands do to the ledger\<close>

lemma one_of_Inr: "one_of v S code = Inr s \<longleftrightarrow> v = PStr s \<and> s \<in> set S"
  by (cases v) (auto simp: one_of_def split: if_splits)

lemma task_row_of_Inr: "task_row_of l w v = Inr r \<Longrightarrow> r \<in> set (task_versions l) \<and> tv_work_item_id r = w \<and> tv_task_version r = v"
  by (auto simp: task_row_of_def split: option.splits dest: row_with_Some)

lemma task_row_has_task: "task_row_of l w v = Inr r \<Longrightarrow> has_task l w v"
  by (auto simp: has_task_def list_ex_iff dest: task_row_of_Inr)

lemma attempt_of_Inr: "attempt_of l i = Inr r \<longleftrightarrow> row_with at_id i (execution_attempts l) = Some r"
  by (simp add: attempt_of_def split: option.splits)

definition attempt_fits :: "ledger \<Rightarrow> string option \<Rightarrow> string \<Rightarrow> int \<Rightarrow> bool" where
  "attempt_fits l attempt_id w v \<longleftrightarrow> (case attempt_id of None \<Rightarrow> True
     | Some i \<Rightarrow> \<exists>t\<in>set (execution_attempts l). at_id t = i \<and> at_work_item_id t = w \<and> at_task_version t = v)"

definition artifact_fits :: "ledger \<Rightarrow> artifact_row \<Rightarrow> bool" where
  "artifact_fits l r \<longleftrightarrow> has_task l (ar_work_item_id r) (ar_task_version r)
     \<and> (\<exists>item. row_with wi_id (ar_work_item_id r) (work_items l) = Some item
           \<and> wi_state item \<notin> set TERMINAL_WORK_ITEM_STATES)
     \<and> attempt_fits l (ar_attempt_id r) (ar_work_item_id r) (ar_task_version r)"

lemma assert_artifact_attempt_Inr:
  "assert_artifact_attempt l a = Inr u \<Longrightarrow>
    attempt_fits l (af_attempt_id a) (af_work_item_id a) (af_task_version a)"
  by (auto simp: assert_artifact_attempt_def attempt_fits_def split: option.splits if_splits dest: row_with_Some)

lemma insert_artifact_effect:
  assumes "insert_artifact a t l = Inr ((row, replay), l')"
  shows "(replay \<and> l' = l \<and> row \<in> set (artifact_refs l))
    \<or> (\<not> replay \<and> l' = l\<lparr>artifact_refs := artifact_refs l @ [row]\<rparr> \<and> artifact_fits l row
        \<and> ar_id row = af_id a \<and> (\<forall>r\<in>set (artifact_refs l). ar_id r \<noteq> ar_id row))"
proof (cases "find_existing_artifact l a")
  case (Some r)
  then have "r \<in> set (artifact_refs l)"
    by (auto simp: find_existing_artifact_def split: option.splits dest: row_with_Some)
  with Some assms show ?thesis by (auto simp: insert_artifact_def)
next
  case None
  with assms show ?thesis
    by (auto simp: insert_artifact_def Let_def insert_artifact_row_def unique_key_iff artifact_fits_def
        split: if_splits dest: task_row_has_task assert_artifact_attempt_Inr)
qed

lemma insert_artifacts_effect:
  "insert_artifacts t as l = Inr l' \<Longrightarrow>
    \<exists>rows. l' = l\<lparr>artifact_refs := artifact_refs l @ rows\<rparr> \<and> (\<forall>r\<in>set rows. artifact_fits l r)
      \<and> (distinct (map ar_id (artifact_refs l)) \<longrightarrow> distinct (map ar_id (artifact_refs l @ rows)))"
proof (induction as arbitrary: l)
  case Nil
  then show ?case by (auto intro: exI [of _ "[]"])
next
  case (Cons a as)
  then obtain row replay l1 where l1: "insert_artifact a t l = Inr ((row, replay), l1)"
    and rest: "insert_artifacts t as l1 = Inr l'" by auto
  from Cons.IH [OF rest] obtain rows where
    rows: "l' = l1\<lparr>artifact_refs := artifact_refs l1 @ rows\<rparr>" "\<forall>r\<in>set rows. artifact_fits l1 r"
      "distinct (map ar_id (artifact_refs l1)) \<longrightarrow> distinct (map ar_id (artifact_refs l1 @ rows))" by blast
  have fits: "artifact_fits (l\<lparr>artifact_refs := x\<rparr>) r = artifact_fits l r" for x r
    by (simp add: artifact_fits_def attempt_fits_def has_task_def cong: option.case_cong)
  from insert_artifact_effect [OF l1] show ?case
  proof (elim disjE conjE)
    assume "l1 = l"
    with rows show ?thesis by blast
  next
    assume l1': "l1 = l\<lparr>artifact_refs := artifact_refs l @ [row]\<rparr>" and f: "artifact_fits l row"
      and fresh: "\<forall>r\<in>set (artifact_refs l). ar_id r \<noteq> ar_id row"
    show ?thesis
      by (rule exI [of _ "row # rows"]) (use rows l1' f fresh fits in auto)
  qed
qed

lemma register_artifact_effect:
  assumes "register_artifact_reference e cfg l command = Inr ((row, replay), l')"
  shows "(replay \<and> l' = l \<and> row \<in> set (artifact_refs l))
    \<or> (\<not> replay \<and> l' = l\<lparr>artifact_refs := artifact_refs l @ [row]\<rparr> \<and> artifact_fits l row
        \<and> (\<forall>r\<in>set (artifact_refs l). ar_id r \<noteq> ar_id row))"
proof -
  from assms obtain a where "insert_artifact a (isoformat_utc e (e_now e)) l = Inr ((row, replay), l')"
    by (auto simp: register_artifact_reference_def)
  then show ?thesis using insert_artifact_effect by blast
qed

lemma insert_external_refs_effect:
  "insert_external_refs w v i key t n refs l = Inr l' \<Longrightarrow>
    \<exists>as. l' = l\<lparr>external_associations := external_associations l @ as\<rparr> \<and> length as = length refs
      \<and> map (\<lambda>a. (ea_kind a, ea_ref a)) as = refs
      \<and> (\<forall>a\<in>set as. ea_work_item_id a = w \<and> ea_task_version a = v \<and> ea_attempt_id a = Some i)
      \<and> (refs \<noteq> [] \<longrightarrow> has_work_item l w \<and> has_attempt l i)"
proof (induction refs arbitrary: n l)
  case Nil
  then show ?case by (auto intro: exI [of _ "[]"])
next
  case (Cons r refs)
  let ?a = "\<lparr>ea_kind = fst r, ea_ref = snd r, ea_work_item_id = w,
              ea_task_version = v, ea_attempt_id = Some i,
              ea_source_event_key = key @ '':external:'' @ show_nat n, ea_created_at = t\<rparr>"
  from Cons.prems obtain l1 where l1: "insert_association ?a l = Inr l1"
    and rest: "insert_external_refs w v i key t (Suc n) refs l1 = Inr l'" by auto
  from l1 have e1: "l1 = l\<lparr>external_associations := external_associations l @ [?a]\<rparr>"
    and h: "has_work_item l w" "has_attempt l i" by (auto simp: insert_association_def)
  from Cons.IH [OF rest] obtain as where
    as: "l' = l1\<lparr>external_associations := external_associations l1 @ as\<rparr>" "length as = length refs"
      "map (\<lambda>a. (ea_kind a, ea_ref a)) as = refs"
      "\<forall>a\<in>set as. ea_work_item_id a = w \<and> ea_task_version a = v \<and> ea_attempt_id a = Some i" by blast
  show ?case by (rule exI [of _ "?a # as"]) (use as e1 h in auto)
qed

text \<open>A new attempt: one row, its external references and its first event.\<close>

definition new_attempt_effect :: "ledger \<Rightarrow> attempt_row \<Rightarrow> string \<Rightarrow> ledger \<Rightarrow> bool" where
  "new_attempt_effect l row event l' \<longleftrightarrow>
    (\<exists>as ev. l' = l\<lparr>execution_attempts := execution_attempts l @ [row],
                    external_associations := external_associations l @ as,
                    attempt_events := attempt_events l @ [ev]\<rparr>
      \<and> (\<forall>a\<in>set as. ea_work_item_id a = at_work_item_id row \<and> ea_task_version a = at_task_version row)
      \<and> ae_attempt_id ev = at_id row \<and> ae_event_type ev = event
      \<and> ae_source_event_key ev = at_source_event_key row
      \<and> (\<forall>x\<in>set (attempt_events l). ae_source_event_key x \<noteq> ae_source_event_key ev)
      \<and> has_task l (at_work_item_id row) (at_task_version row)
      \<and> (\<forall>r\<in>set (execution_attempts l). at_id r \<noteq> at_id row))"

lemma new_attempt_statements:
  assumes "insert_attempt row l = Inr l1" "insert_external_refs (at_work_item_id row) (at_task_version row) (at_id row)
      key t 0 refs l1 = Inr l2"
    "insert_attempt_event ev l2 = Inr l3" "ae_attempt_id ev = at_id row" "ae_event_type ev = event"
    "ae_source_event_key ev = at_source_event_key row"
  shows "new_attempt_effect l row event l3 \<and> row_with at_id (at_id row) (execution_attempts l3) = Some row"
proof -
  from assms(1) have l1: "l1 = l\<lparr>execution_attempts := execution_attempts l @ [row]\<rparr>"
    and f: "has_task l (at_work_item_id row) (at_task_version row)" "\<forall>r\<in>set (execution_attempts l). at_id r \<noteq> at_id row"
    by (auto simp: insert_attempt_def unique_key_iff)
  from insert_external_refs_effect [OF assms(2)] obtain as where
    l2: "l2 = l1\<lparr>external_associations := external_associations l1 @ as\<rparr>"
      "\<forall>a\<in>set as. ea_work_item_id a = at_work_item_id row \<and> ea_task_version a = at_task_version row" by blast
  from assms(3) have l3: "l3 = l2\<lparr>attempt_events := attempt_events l2 @ [ev]\<rparr>"
    "\<forall>x\<in>set (attempt_events l). ae_source_event_key x \<noteq> ae_source_event_key ev"
    by (auto simp: insert_attempt_event_def unique_key_iff l2 l1)
  have "row_with at_id (at_id row) (execution_attempts l) = None" using f(2) by (simp add: row_with_None)
  then have "row_with at_id (at_id row) (execution_attempts l3) = Some row"
    by (simp add: l3 l2 l1 row_with_append)
  moreover have "new_attempt_effect l row event l3"
    unfolding new_attempt_effect_def
    by (intro exI [of _ as] exI [of _ ev]) (use l1 l2 l3 f assms(4-6) in simp)
  ultimately show ?thesis by simp
qed

lemma claim_transaction_effect:
  assumes "claim_transaction e w v attempt_id supplied status objective metadata key refs t l = Inr ((row, replay), l')"
    and status: "status \<in> {''claimed'', ''running''}"
  shows "(replay \<and> l' = l \<and> row \<in> set (execution_attempts l))
    \<or> (\<not> replay \<and> new_attempt_effect l row ''claim'' l'
        \<and> at_kind row = ''runtime'' \<and> at_dispatch_authorized row \<and> at_status row \<in> {''claimed'', ''running''}
        \<and> at_completion_event_key row = None
        \<and> (\<exists>item. row_with wi_id (at_work_item_id row) (work_items l) = Some item
              \<and> wi_state item \<notin> set TERMINAL_WORK_ITEM_STATES \<and> wi_state item \<noteq> ''submitted''
              \<and> wi_current_task_version item = at_task_version row))"
proof (cases "row_with at_source_event_key key (execution_attempts l)")
  case (Some existing)
  with assms show ?thesis
    by (auto simp: claim_transaction_def Let_def attempt_of_Inr dest: row_with_Some split: if_splits)
next
  case None
  with assms obtain item mj pj l1 l2 where
    item: "row_with wi_id w (work_items l) = Some item" "wi_state item \<notin> set TERMINAL_WORK_ITEM_STATES"
      "wi_state item \<noteq> ''submitted''" "wi_current_task_version item = v"
    and s1: "insert_attempt (runtime_attempt_row attempt_id w v status objective mj key t) l = Inr l1"
    and s2: "insert_external_refs w v attempt_id key t 0 refs l1 = Inr l2"
    and s3: "insert_attempt_event \<lparr>ae_id = e_fresh e ''attempt_event'' 0, ae_attempt_id = attempt_id,
                     ae_event_type = ''claim'', ae_source_event_key = key, ae_payload = pj,
                     ae_created_at = t\<rparr> l2 = Inr l'"
    and s4: "row_with at_id attempt_id (execution_attempts l') = Some row" "\<not> replay"
    by (auto simp: claim_transaction_def Let_def attempt_of_Inr split: if_splits)
  let ?r = "runtime_attempt_row attempt_id w v status objective mj key t"
  have "new_attempt_effect l ?r ''claim'' l' \<and> row_with at_id (at_id ?r) (execution_attempts l') = Some ?r"
    by (rule new_attempt_statements [OF s1 _ s3]) (use s2 in \<open>simp_all add: runtime_attempt_row_def\<close>)
  with s4 have "row = ?r" "new_attempt_effect l ?r ''claim'' l'" by (simp_all add: runtime_attempt_row_def)
  with item status s4 show ?thesis by (simp add: runtime_attempt_row_def)
qed

lemma create_attempt_effect:
  assumes "create_execution_attempt e cfg l command = Inr ((row, replay), l')"
  shows "\<exists>w v i supplied status objective metadata key refs. status \<in> {''claimed'', ''running''}
    \<and> claim_transaction e w v i supplied status objective metadata key refs (isoformat_utc e (e_now e)) l
      = Inr ((row, replay), l')"
  using assms unfolding create_execution_attempt_def Let_def
  by (clarsimp simp: one_of_Inr simp del: insert_iff split: if_split_asm) (intro exI conjI, assumption+)

lemma historical_transaction_effect:
  assumes "historical_transaction e w v attempt_id status objective metadata reason key refs payload t l = Inr ((row, replay), l')"
    and status: "status \<in> {''completed'', ''failed'', ''cancelled''}"
  shows "(replay \<and> l' = l \<and> row \<in> set (execution_attempts l))
    \<or> (\<not> replay \<and> new_attempt_effect l row ''historical_binding'' l'
        \<and> at_kind row = ''historical'' \<and> \<not> at_dispatch_authorized row \<and> at_imported row
        \<and> at_status row \<in> {''completed'', ''failed'', ''cancelled''} \<and> at_completion_event_key row = None)"
proof (cases "row_with at_source_event_key key (execution_attempts l)")
  case (Some existing)
  with assms show ?thesis
    by (auto simp: historical_transaction_def attempt_of_Inr dest: row_with_Some split: if_splits option.splits)
next
  case None
  with assms obtain mj pj l1 l2 where
    s1: "insert_attempt (historical_attempt_row attempt_id w v status objective mj key reason t) l = Inr l1"
    and s2: "insert_external_refs w v attempt_id key t 0 refs l1 = Inr l2"
    and s3: "insert_attempt_event \<lparr>ae_id = e_fresh e ''attempt_event'' 0, ae_attempt_id = attempt_id,
                     ae_event_type = ''historical_binding'', ae_source_event_key = key, ae_payload = pj,
                     ae_created_at = t\<rparr> l2 = Inr l'"
    and s4: "row_with at_id attempt_id (execution_attempts l') = Some row" "\<not> replay"
    by (auto simp: historical_transaction_def attempt_of_Inr)
  let ?r = "historical_attempt_row attempt_id w v status objective mj key reason t"
  have "new_attempt_effect l ?r ''historical_binding'' l' \<and> row_with at_id (at_id ?r) (execution_attempts l') = Some ?r"
    by (rule new_attempt_statements [OF s1 _ s3]) (use s2 in \<open>simp_all add: historical_attempt_row_def\<close>)
  with s4 have "row = ?r" "new_attempt_effect l ?r ''historical_binding'' l'" by (simp_all add: historical_attempt_row_def)
  with status s4 show ?thesis by (simp add: historical_attempt_row_def)
qed

lemma bind_historical_effect:
  assumes "bind_historical_execution_attempt e cfg l command = Inr ((row, replay), l')"
  shows "\<exists>w v i status objective metadata reason key refs payload. status \<in> {''completed'', ''failed'', ''cancelled''}
    \<and> historical_transaction e w v i status objective metadata reason key refs payload (isoformat_utc e (e_now e)) l
      = Inr ((row, replay), l')"
  using assms unfolding bind_historical_execution_attempt_def Let_def
  by (clarsimp simp: one_of_Inr simp del: insert_iff split: if_split_asm) (intro exI conjI, assumption+)

text \<open>
  A completion replays its event, or is the first one: the attempt gets its terminal status, one
  completion event is recorded and the new artifacts of that attempt are appended.
\<close>

lemma update_completion_effect:
  "update_completion i status key t m l = Inr l' \<longleftrightarrow>
    (\<forall>r\<in>set (execution_attempts l). at_completion_event_key r = Some key \<longrightarrow> at_id r = i)
    \<and> l' = l\<lparr>execution_attempts := update_where (\<lambda>r. at_id r = i \<and> at_completion_event_key r = None)
         (complete_attempt_row status key t m) (execution_attempts l)\<rparr>"
  by (auto simp: update_completion_def list_ex_iff)

lemma completion_transaction_effect:
  assumes "completion_transaction e i status key metadata artifacts t l = Inr (a, l')"
  shows "(co_idempotent_replay a \<and> l' = l)
    \<or> (\<exists>attempt ev rows m. \<not> co_idempotent_replay a
        \<and> row_with at_id i (execution_attempts l) = Some attempt
        \<and> at_kind attempt = ''runtime'' \<and> at_dispatch_authorized attempt \<and> at_completion_event_key attempt = None
        \<and> l' = l\<lparr>execution_attempts := update_where (\<lambda>r. at_id r = i \<and> at_completion_event_key r = None)
                    (complete_attempt_row status key t m) (execution_attempts l),
                 attempt_events := attempt_events l @ [ev],
                 artifact_refs := artifact_refs l @ rows\<rparr>
        \<and> ae_attempt_id ev = i \<and> ae_event_type ev = ''completion'' \<and> ae_source_event_key ev = key
        \<and> (\<forall>x\<in>set (attempt_events l). ae_source_event_key x \<noteq> key)
        \<and> (\<forall>r\<in>set rows. artifact_fits (l\<lparr>execution_attempts := execution_attempts l'\<rparr>) r)
        \<and> (distinct (map ar_id (artifact_refs l)) \<longrightarrow> distinct (map ar_id (artifact_refs l @ rows))))"
proof (cases "row_with at_id i (execution_attempts l)")
  case None
  with assms show ?thesis by (simp add: completion_transaction_def)
next
  case (Some attempt)
  show ?thesis
  proof (cases "row_with ae_source_event_key key (attempt_events l)")
    case (Some prior)
    with assms \<open>row_with at_id i (execution_attempts l) = Some attempt\<close> show ?thesis
      by (auto simp: completion_transaction_def split: if_splits)
  next
    case None
    with assms Some obtain m pj l1 l2 where
      kind: "at_kind attempt = ''runtime''" "at_dispatch_authorized attempt" "at_completion_event_key attempt = None"
      and s1: "update_completion i status key t m l = Inr l1"
      and s2: "insert_attempt_event \<lparr>ae_id = e_fresh e ''attempt_event'' 0, ae_attempt_id = i,
                 ae_event_type = ''completion'', ae_source_event_key = key, ae_payload = pj, ae_created_at = t\<rparr> l1 = Inr l2"
      and s3: "insert_artifacts t artifacts l2 = Inr l'" and nr: "\<not> co_idempotent_replay a"
      by (auto simp: completion_transaction_def first_completion_def split: if_splits)
    let ?ev = "\<lparr>ae_id = e_fresh e ''attempt_event'' 0, ae_attempt_id = i,
                 ae_event_type = ''completion'', ae_source_event_key = key, ae_payload = pj, ae_created_at = t\<rparr>"
    from s1 have l1: "l1 = l\<lparr>execution_attempts := update_where (\<lambda>r. at_id r = i \<and> at_completion_event_key r = None)
         (complete_attempt_row status key t m) (execution_attempts l)\<rparr>" by (simp add: update_completion_effect)
    from s2 have l2: "l2 = l1\<lparr>attempt_events := attempt_events l1 @ [?ev]\<rparr>"
      and fresh: "\<forall>x\<in>set (attempt_events l). ae_source_event_key x \<noteq> key"
      by (auto simp: insert_attempt_event_def unique_key_iff l1)
    from insert_artifacts_effect [OF s3] obtain rows where
      rows: "l' = l2\<lparr>artifact_refs := artifact_refs l2 @ rows\<rparr>" "\<forall>r\<in>set rows. artifact_fits l2 r"
        "distinct (map ar_id (artifact_refs l2)) \<longrightarrow> distinct (map ar_id (artifact_refs l2 @ rows))" by blast
    have "artifact_fits l2 r = artifact_fits (l\<lparr>execution_attempts := execution_attempts l'\<rparr>) r" for r
      by (simp add: rows l2 l1 artifact_fits_def attempt_fits_def has_task_def cong: option.case_cong)
    with rows kind Some nr fresh show ?thesis
      by (intro disjI2 exI [of _ attempt] exI [of _ ?ev] exI [of _ rows] exI [of _ m]) (simp add: l2 l1)
  qed
qed

lemma complete_attempt_effect:
  assumes "complete_execution_attempt e cfg l command = Inr (a, l')"
  shows "\<exists>i status key metadata artifacts. status \<in> {''completed'', ''failed'', ''cancelled''}
    \<and> completion_transaction e i status key metadata artifacts (isoformat_utc e (e_now e)) l = Inr (a, l')"
  using assms unfolding complete_execution_attempt_def Let_def
  by (clarsimp simp: one_of_Inr simp del: insert_iff split: if_split_asm) (intro exI conjI, assumption+)

end
