(* ===== verification/Decisions.thy ===== *)
theory Decisions
  imports Attempts
begin

text \<open>
  \<open>runner/work_item_governance/service.py\<close>, review decisions: append-only records that bind an action
  to a trusted principal, to artifact evidence and to the current task version, and the checks a
  transition makes on the artifacts and decisions it names.
\<close>

section \<open>Checks on named artifacts and decisions\<close>

definition normalize_id_list :: "py \<Rightarrow> string \<Rightarrow> string list result" where
  "normalize_id_list value kind =
    ebind (bounded_list value 1024 ''ID_LIST_INVALID'') (\<lambda>items.
    ebind (emap (\<lambda>x. require_stable_id x kind) items) (\<lambda>ids.
    if distinct ids then Inr ids else Inl (Gov ''ID_LIST_DUPLICATE'')))"

definition assert_artifact :: "ledger \<Rightarrow> string \<Rightarrow> int \<Rightarrow> string \<Rightarrow> artifact_row result" where
  "assert_artifact l w v artifact_id =
    (case row_with ar_id artifact_id (artifact_refs l) of
       None \<Rightarrow> Inl (Gov ''ARTIFACT_NOT_FOUND'')
     | Some row \<Rightarrow>
         if ar_work_item_id row \<noteq> w \<or> ar_task_version row \<noteq> v then Inl (Gov ''ARTIFACT_CONTEXT_MISMATCH'')
         else Inr row)"

definition assert_artifacts :: "ledger \<Rightarrow> string list \<Rightarrow> string \<Rightarrow> int \<Rightarrow> artifact_row list result" where
  "assert_artifacts l artifact_ids w v = emap (assert_artifact l w v) artifact_ids"

text \<open>The binding of a stored decision: principal, authority and policy must agree.\<close>

definition decision_trusted :: "decision_row \<Rightarrow> string \<Rightarrow> bool result" where
  "decision_trusted d expected_permission =
    (case dr_principal d of
       PDict who \<Rightarrow>
         (case dr_authority_basis d of
            PDict authority \<Rightarrow>
              Inr (py_eq (dget who ''principal_id'') (dget authority ''principal_id'')
                   \<and> dget authority ''authority'' = PStr expected_permission
                   \<and> dget authority ''policy'' = PStr ''work_item_principal_policy.v1'')
          | _ \<Rightarrow> Inl (Py_Exc ''AttributeError''))
     | _ \<Rightarrow> Inr False)"

definition assert_decision :: "ledger \<Rightarrow> string \<Rightarrow> int \<Rightarrow> string \<Rightarrow> decision_row result" where
  "assert_decision l w v decision_id =
    (case row_with dr_id decision_id (decision_records l) of
       None \<Rightarrow> Inl (Gov ''DECISION_NOT_FOUND'')
     | Some row \<Rightarrow>
         ebind (permission_for_decision (dr_action row)) (\<lambda>expected_permission.
         ebind (decision_trusted row expected_permission) (\<lambda>trusted.
         if \<not> trusted then Inl (Gov ''DECISION_PRINCIPAL_UNTRUSTED'')
         else if dr_work_item_id row \<noteq> w \<or> dr_task_version row \<noteq> v then Inl (Gov ''DECISION_CONTEXT_MISMATCH'')
         else if list_ex (\<lambda>d. dr_supersedes d = Some decision_id) (decision_records l)
           then Inl (Gov ''DECISION_SUPERSEDED'')
         else Inr row)))"

definition assert_decisions :: "ledger \<Rightarrow> string list \<Rightarrow> string \<Rightarrow> int \<Rightarrow> decision_row list result" where
  "assert_decisions l decision_ids w v = emap (assert_decision l w v) decision_ids"

section \<open>Recording a decision\<close>

record decision_command =
  dc_id :: string
  dc_supplied :: "string option"
  dc_work_item_id :: string
  dc_task_version :: int
  dc_action :: string
  dc_principal :: py
  dc_actor :: actor
  dc_authority_basis :: dict
  dc_evidence :: "string list"
  dc_reason :: string
  dc_supersedes :: "string option"
  dc_source_event_key :: string

definition normalize_supersedes :: "py \<Rightarrow> string \<Rightarrow> string option result" where
  "normalize_supersedes v decision_id =
    (if v = PNone then Inr None
     else ebind (require_stable_id v ''decision'') (\<lambda>d.
          if d = decision_id then Inl (Gov ''DECISION_SUPERSEDES_SELF'') else Inr (Some d)))"

definition normalize_decision_command :: "env \<Rightarrow> py \<Rightarrow> principal option \<Rightarrow> decision_command result" where
  "normalize_decision_command e command principal_context =
    ebind (require_object command True) (\<lambda>value.
    if some_key value [''actor'', ''authority_basis'', ''principal_context'']
    then Inl (Gov ''CALLER_ASSERTED_AUTHORITY_FORBIDDEN'')
    else if \<not> only_keys value [''decision_id'', ''work_item_id'', ''task_version'', ''action'',
        ''evidence_artifact_ids'', ''reason'', ''supersedes_decision_id'', ''source_event_key'']
    then Inl (Gov ''DECISION_FIELD_UNSUPPORTED'')
    else
      ebind (id_or_fresh e (dget value ''decision_id'') ''decision'') (\<lambda>decision_id.
      ebind (require_stable_id (dget value ''work_item_id'') ''work_item'') (\<lambda>w.
      ebind (require_positive_integer (dget value ''task_version'')) (\<lambda>v.
      ebind (one_of (dget value ''action'') DECISION_ACTIONS ''DECISION_ACTION_INVALID'') (\<lambda>action.
      ebind (permission_for_decision action) (\<lambda>permission.
      ebind (authorize_principal principal_context permission) (\<lambda>(pj, actor, basis).
      ebind (normalize_id_list (dget_or value ''evidence_artifact_ids'' (PList [])) ''artifact'') (\<lambda>evidence.
      if action \<notin> {''cancel'', ''reject'', ''request_changes''} \<and> evidence = []
      then Inl (Gov ''DECISION_EVIDENCE_REQUIRED'')
      else
        ebind (require_text (dget value ''reason'') MAX_TEXT_LENGTH) (\<lambda>reason.
        ebind (normalize_supersedes (dget value ''supersedes_decision_id'') decision_id) (\<lambda>supersedes.
        ebind (require_text (dget value ''source_event_key'') 1024) (\<lambda>key.
        Inr \<lparr>dc_id = decision_id, dc_supplied = supplied_id (dget value ''decision_id'') decision_id,
             dc_work_item_id = w, dc_task_version = v, dc_action = action, dc_principal = pj,
             dc_actor = actor, dc_authority_basis = basis, dc_evidence = evidence, dc_reason = reason,
             dc_supersedes = supersedes, dc_source_event_key = key\<rparr>)))))))))))"

definition decision_conflict :: "decision_row \<Rightarrow> decision_command \<Rightarrow> bool" where
  "decision_conflict existing c \<longleftrightarrow>
    dr_work_item_id existing \<noteq> dc_work_item_id c
    \<or> dr_task_version existing \<noteq> dc_task_version c
    \<or> (case dc_supplied c of None \<Rightarrow> False | Some i \<Rightarrow> dr_id existing \<noteq> i)
    \<or> dr_action existing \<noteq> dc_action c
    \<or> \<not> py_eq (dr_actor existing) (actor_py (dc_actor c))
    \<or> dr_evidence_artifact_ids existing \<noteq> dc_evidence c
    \<or> \<not> py_eq (dr_authority_basis existing) (PDict (dc_authority_basis c))
    \<or> \<not> py_eq (dr_principal existing) (dc_principal c)
    \<or> dr_reason existing \<noteq> dc_reason c
    \<or> dr_supersedes existing \<noteq> dc_supersedes c"

definition assert_superseded :: "ledger \<Rightarrow> decision_command \<Rightarrow> unit result" where
  "assert_superseded l c =
    (case dc_supersedes c of
       None \<Rightarrow> Inr ()
     | Some d \<Rightarrow>
         (case row_with dr_id d (decision_records l) of
            None \<Rightarrow> Inl (Gov ''SUPERSEDED_DECISION_INVALID'')
          | Some prior \<Rightarrow>
              if dr_work_item_id prior \<noteq> dc_work_item_id c \<or> dr_task_version prior \<noteq> dc_task_version c
              then Inl (Gov ''SUPERSEDED_DECISION_INVALID'') else Inr ()))"

definition decision_row_of :: "decision_command \<Rightarrow> string \<Rightarrow> decision_row" where
  "decision_row_of c created_at =
    \<lparr>dr_id = dc_id c, dr_work_item_id = dc_work_item_id c, dr_task_version = dc_task_version c,
      dr_actor = jsort (actor_py (dc_actor c)), dr_action = dc_action c,
      dr_evidence_artifact_ids = dc_evidence c, dr_authority_basis = jsort (PDict (dc_authority_basis c)),
      dr_reason = dc_reason c, dr_supersedes = dc_supersedes c, dr_source_event_key = dc_source_event_key c,
      dr_created_at = created_at, dr_principal = jsort (dc_principal c)\<rparr>"

definition decision_transaction ::
  "decision_command \<Rightarrow> string \<Rightarrow> ledger \<Rightarrow> ((decision_row \<times> bool) \<times> ledger) result" where
  "decision_transaction c created_at l =
    (case row_with dr_source_event_key (dc_source_event_key c) (decision_records l) of
       Some existing \<Rightarrow>
         if decision_conflict existing c then Inl (Gov ''IDEMPOTENCY_CONFLICT'') else Inr ((existing, True), l)
     | None \<Rightarrow>
         ebind (work_item_row_of l (dc_work_item_id c)) (\<lambda>work_item.
         if wi_state work_item \<in> set TERMINAL_WORK_ITEM_STATES then Inl (Gov ''WORK_ITEM_TERMINAL'')
         else if wi_current_task_version work_item \<noteq> dc_task_version c then Inl (Gov ''TASK_VERSION_STALE'')
         else
           ebind (assert_artifacts l (dc_evidence c) (dc_work_item_id c) (dc_task_version c)) (\<lambda>_.
           ebind (assert_superseded l c) (\<lambda>_.
           ebind (json_column (actor_py (dc_actor c))) (\<lambda>_.
           ebind (json_column (PList (map PStr (dc_evidence c)))) (\<lambda>_.
           ebind (json_column (PDict (dc_authority_basis c))) (\<lambda>_.
           ebind (json_column (dc_principal c)) (\<lambda>_.
           ebind (insert_decision (decision_row_of c created_at) l) (\<lambda>l'.
           Inr ((decision_row_of c created_at, False), l'))))))))))"

definition record_review_decision ::
  "env \<Rightarrow> config \<Rightarrow> ledger \<Rightarrow> py \<Rightarrow> principal option \<Rightarrow> ((decision_row \<times> bool) \<times> ledger) result" where
  "record_review_decision e cfg l command principal_context =
    ebind (require_enabled cfg) (\<lambda>_.
    ebind (normalize_decision_command e command principal_context) (\<lambda>c.
    catch_integrity (write_transaction cfg l (decision_transaction c (isoformat_utc e (e_now e))))))"

section \<open>Facts\<close>

lemma assert_artifact_Inr:
  "assert_artifact l w v i = Inr r \<longleftrightarrow>
    row_with ar_id i (artifact_refs l) = Some r \<and> ar_work_item_id r = w \<and> ar_task_version r = v"
  by (auto simp: assert_artifact_def split: option.splits)

lemma assert_artifacts_Inr:
  assumes "assert_artifacts l ids w v = Inr rows"
  shows "map ar_id rows = ids"
    and "\<forall>r\<in>set rows. r \<in> set (artifact_refs l) \<and> ar_work_item_id r = w \<and> ar_task_version r = v"
proof -
  show "map ar_id rows = ids" using assms unfolding assert_artifacts_def
    by (induction ids arbitrary: rows) (auto simp: assert_artifact_Inr dest: row_with_Some)
  show "\<forall>r\<in>set rows. r \<in> set (artifact_refs l) \<and> ar_work_item_id r = w \<and> ar_task_version r = v"
    using assms unfolding assert_artifacts_def
    by (auto dest!: emap_Inr_set simp: assert_artifact_Inr dest: row_with_Some)
qed

lemma assert_decision_Inr:
  "assert_decision l w v i = Inr d \<longleftrightarrow>
    row_with dr_id i (decision_records l) = Some d \<and> dr_work_item_id d = w \<and> dr_task_version d = v
    \<and> (\<exists>p. permission_for_decision (dr_action d) = Inr p \<and> decision_trusted d p = Inr True)
    \<and> (\<forall>d'\<in>set (decision_records l). dr_supersedes d' \<noteq> Some i)"
  by (auto simp: assert_decision_def list_ex_iff split: option.splits if_splits)

lemma decision_transaction_effect:
  assumes "decision_transaction c t l = Inr ((row, replay), l')"
  shows "(replay \<and> l' = l \<and> row \<in> set (decision_records l))
    \<or> (\<not> replay \<and> row = decision_row_of c t \<and> l' = l\<lparr>decision_records := decision_records l @ [row]\<rparr>
        \<and> (\<exists>item. row_with wi_id (dr_work_item_id row) (work_items l) = Some item
              \<and> wi_state item \<notin> set TERMINAL_WORK_ITEM_STATES
              \<and> wi_current_task_version item = dr_task_version row)
        \<and> has_task l (dr_work_item_id row) (dr_task_version row)
        \<and> (\<forall>d\<in>set (decision_records l). dr_id d \<noteq> dr_id row)
        \<and> dr_supersedes row \<in> insert None (Some ` dr_id ` set (decision_records l))
        \<and> (\<exists>rows. assert_artifacts l (dr_evidence_artifact_ids row) (dr_work_item_id row) (dr_task_version row) = Inr rows))"
proof (cases "row_with dr_source_event_key (dc_source_event_key c) (decision_records l)")
  case (Some existing)
  with assms show ?thesis
    by (auto simp: decision_transaction_def dest: row_with_Some split: if_splits)
next
  case None
  let ?r = "decision_row_of c t"
  from None assms obtain item rows where
    item: "row_with wi_id (dc_work_item_id c) (work_items l) = Some item"
      "wi_state item \<notin> set TERMINAL_WORK_ITEM_STATES" "wi_current_task_version item = dc_task_version c"
    and arts: "assert_artifacts l (dc_evidence c) (dc_work_item_id c) (dc_task_version c) = Inr rows"
    and sup: "assert_superseded l c = Inr ()"
    and ins: "insert_decision ?r l = Inr l'" and "row = ?r" "\<not> replay"
    unfolding decision_transaction_def by (clarsimp split: if_split_asm)
  moreover from sup have "dc_supersedes c \<in> insert None (Some ` dr_id ` set (decision_records l))"
    by (auto simp: assert_superseded_def split: option.splits if_splits dest: row_with_Some)
  moreover from ins have "l' = l\<lparr>decision_records := decision_records l @ [?r]\<rparr>"
    "has_task l (dr_work_item_id ?r) (dr_task_version ?r)" "\<forall>d\<in>set (decision_records l). dr_id d \<noteq> dr_id ?r"
    by (simp_all add: insert_decision_def unique_key_iff)
  ultimately show ?thesis unfolding decision_row_of_def by simp
qed

lemma dget_jsort: "distinct (map fst d) \<Longrightarrow>
  dget (sort_key fst (map (\<lambda>kv. (fst kv, jsort (snd kv))) d)) k = jsort (dget d k)"
proof -
  assume d: "distinct (map fst d)"
  let ?m = "map (\<lambda>kv. (fst kv, jsort (snd kv))) d"
  have m: "distinct (map fst ?m)" using d by (simp add: comp_def)
  then have "distinct (map fst (sort_key fst ?m))"
    unfolding distinct_map [of fst ?m] distinct_map [of fst "sort_key fst ?m"] by simp
  with m have "map_of (sort_key fst ?m) = map_of ?m" by (subst map_of_inject_set) (simp_all del: map_map)
  moreover have "map_of ?m k = map_option jsort (map_of d k)" by (induction d) auto
  ultimately show ?thesis by (simp add: dget_or_def split: option.splits)
qed

text \<open>What was recorded for a trusted principal passes the binding check of every later transition.\<close>

lemma recorded_decision_trusted:
  assumes "authorize_principal pc perm = Inr (pj, actor, basis)"
    and "dr_principal d = jsort pj" "dr_authority_basis d = jsort (PDict basis)"
  shows "decision_trusted d perm = Inr True"
proof -
  from assms(1) obtain p where p: "pj = principal_to_record p" "basis = authority_basis_of p perm"
    by (auto simp: authorize_principal_Inr)
  show ?thesis
    unfolding decision_trusted_def assms(2,3) p principal_to_record_def
    by (simp add: dget_jsort authority_basis_of_def)
qed

end
