(* ===== verification/Gates.thy ===== *)
theory Gates
  imports Decisions
begin

text \<open>
  \<open>runner/work_item_governance/service.py\<close>, the gate: normalisation of a transition command, binding
  of its authority to the trusted principal, evaluation against the transition policy, and the
  transaction that records the outcome and moves the state by compare-and-set, with the acceptance
  manifest, the audit event and the outbox event.
\<close>

section \<open>Commands\<close>

record transition =
  tc_work_item_id :: string
  tc_task_version :: int
  tc_target_state :: string
  tc_expected_state_version :: int
  tc_decision_ids :: "string list"
  tc_evidence_artifact_ids :: "string list"
  tc_idempotency_key :: "string option"

record bound_transition = transition +
  tc_actor :: actor
  tc_authority_basis :: dict
  tc_principal_context :: py

definition transition_fields :: "'a transition_scheme \<Rightarrow> dict" where
  "transition_fields c =
    [(''work_item_id'', PStr (tc_work_item_id c)), (''task_version'', PInt (tc_task_version c)),
     (''target_state'', PStr (tc_target_state c)),
     (''expected_state_version'', PInt (tc_expected_state_version c)),
     (''decision_ids'', PList (map PStr (tc_decision_ids c))),
     (''evidence_artifact_ids'', PList (map PStr (tc_evidence_artifact_ids c))),
     (''idempotency_key'', of_opt (tc_idempotency_key c))]"

definition bound_fields :: "bound_transition \<Rightarrow> dict" where
  "bound_fields c = transition_fields c @
    [(''actor'', actor_py (tc_actor c)), (''authority_basis'', PDict (tc_authority_basis c)),
     (''principal_context'', tc_principal_context c)]"

definition PUBLIC_FIELDS :: "string list" where
  "PUBLIC_FIELDS = [''work_item_id'', ''task_version'', ''target_state'', ''expected_state_version'',
     ''decision_ids'', ''evidence_artifact_ids'', ''idempotency_key'']"

definition AUTHORITY_FIELDS :: "string list" where
  "AUTHORITY_FIELDS = [''actor'', ''authority_basis'', ''principal_context'']"

definition normalize_transition_command :: "py \<Rightarrow> transition result" where
  "normalize_transition_command value =
    ebind (require_object value True) (\<lambda>command.
    if some_key command AUTHORITY_FIELDS then Inl (Gov ''CALLER_ASSERTED_AUTHORITY_FORBIDDEN'')
    else if \<not> only_keys command PUBLIC_FIELDS then Inl (Gov ''TRANSITION_FIELD_UNSUPPORTED'')
    else
      ebind (one_of (dget command ''target_state'') WORK_ITEM_STATES ''TARGET_STATE_INVALID'') (\<lambda>target_state.
      ebind (require_stable_id (dget command ''work_item_id'') ''work_item'') (\<lambda>w.
      ebind (require_positive_integer (dget command ''task_version'')) (\<lambda>v.
      ebind (require_non_negative_integer (dget command ''expected_state_version'')) (\<lambda>n.
      ebind (normalize_id_list (dget_or command ''decision_ids'' (PList [])) ''decision'') (\<lambda>decision_ids.
      ebind (normalize_id_list (dget_or command ''evidence_artifact_ids'' (PList [])) ''artifact'') (\<lambda>evidence.
      ebind (optional_text (dget command ''idempotency_key'') 1024) (\<lambda>key.
      let c = \<lparr>tc_work_item_id = w, tc_task_version = v, tc_target_state = target_state,
               tc_expected_state_version = n, tc_decision_ids = decision_ids,
               tc_evidence_artifact_ids = evidence, tc_idempotency_key = key\<rparr>
      in ebind (canonical_json (PDict (transition_fields c))) (\<lambda>_. Inr c)))))))))"

definition fallback_transition_permission :: "string \<Rightarrow> string \<Rightarrow> string" where
  "fallback_transition_permission current_state target_state =
    (if current_state = ''submitted'' \<and> target_state = ''in_delivery'' then ''work_item.return_for_revision''
     else case map_of [(''ready'', ''work_item.ready''), (''in_delivery'', ''work_item.start_delivery''),
            (''submitted'', ''work_item.submit''), (''accepted'', ''work_item.accept''),
            (''cancelled'', ''work_item.cancel'')] target_state of
       None \<Rightarrow> ''work_item.approve'' | Some p \<Rightarrow> p)"

definition transition_permission :: "string \<Rightarrow> string \<Rightarrow> string" where
  "transition_permission current_state target_state =
    (case requirement_for current_state target_state of
       Some rq \<Rightarrow> rq_authority rq
     | None \<Rightarrow> fallback_transition_permission current_state target_state)"

definition bind_authority :: "transition \<Rightarrow> py \<Rightarrow> actor \<Rightarrow> dict \<Rightarrow> bound_transition" where
  "bind_authority c pj actor basis = transition.extend c (bound_transition.fields actor basis pj)"

definition bind_transition_authority :: "transition \<Rightarrow> principal option \<Rightarrow> string \<Rightarrow> bound_transition result" where
  "bind_transition_authority c principal_context current_state =
    ebind (authorize_principal principal_context (transition_permission current_state (tc_target_state c)))
      (\<lambda>(pj, actor, basis). Inr (bind_authority c pj actor basis))"

text \<open>\<open>_verify_signed_transition_authority\<close>: the signed command, rebuilt for the applying principal.\<close>

definition signed_authority :: "dict \<Rightarrow> string result" where
  "signed_authority sgn_cmd =
    (case dget sgn_cmd ''authority_basis'' of
       PDict authority \<Rightarrow>
         (case dget authority ''authority'' of
            PStr a \<Rightarrow> Inr a | _ \<Rightarrow> Inl (Gov ''SIGNED_TRANSITION_AUTHORITY_INVALID''))
     | _ \<Rightarrow> Inl (Gov ''SIGNED_TRANSITION_AUTHORITY_INVALID''))"

definition verify_signed_transition_authority :: "py \<Rightarrow> principal option \<Rightarrow> bound_transition result" where
  "verify_signed_transition_authority value principal_context =
    ebind (require_object value True) (\<lambda>sgn_cmd.
    if \<not> exact_keys sgn_cmd (PUBLIC_FIELDS @ AUTHORITY_FIELDS) then Inl (Gov ''SIGNED_TRANSITION_SHAPE_INVALID'')
    else
      ebind (normalize_transition_command (PDict (map (\<lambda>f. (f, dget sgn_cmd f)) PUBLIC_FIELDS))) (\<lambda>normalized.
      ebind (signed_authority sgn_cmd) (\<lambda>authority.
      ebind (authorize_principal principal_context authority) (\<lambda>(pj, actor, basis).
      let verified = bind_authority normalized pj actor basis
      in if \<not> py_eq (PDict (bound_fields verified)) (PDict sgn_cmd) then Inl (Gov ''PREVIEW_PRINCIPAL_MISMATCH'')
         else Inr verified))))"

section \<open>Evaluation\<close>

record evaluation =
  ev_eligible :: bool
  ev_reason_code :: string

definition rejected :: "string \<Rightarrow> evaluation" where
  "rejected reason = \<lparr>ev_eligible = False, ev_reason_code = reason\<rparr>"

definition eligible :: evaluation where
  "eligible = \<lparr>ev_eligible = True, ev_reason_code = ''ELIGIBLE''\<rparr>"

text \<open>\<open>except WorkItemGovernanceError as exc\<close>: the error becomes the reason of a rejection.\<close>

definition catch_governance :: "'a result \<Rightarrow> ('a \<Rightarrow> evaluation result) \<Rightarrow> evaluation result" where
  "catch_governance r f =
    (case r of Inr x \<Rightarrow> f x | Inl (Gov code) \<Rightarrow> Inr (rejected code) | Inl e \<Rightarrow> Inl e)"

definition active_attempts :: "ledger \<Rightarrow> string \<Rightarrow> int \<Rightarrow> attempt_row list" where
  "active_attempts l w v =
    sort_key at_id (filter (\<lambda>a. at_work_item_id a = w \<and> at_task_version a = v \<and> at_kind a = ''runtime''
      \<and> at_status a \<in> {''claimed'', ''running''}) (execution_attempts l))"

definition evaluate_decisions :: "ledger \<Rightarrow> bound_transition \<Rightarrow> requirement \<Rightarrow> evaluation result" where
  "evaluate_decisions l c rq =
    (if rq_decision_actions rq = [] then Inr eligible
     else
       catch_governance (assert_decisions l (tc_decision_ids c) (tc_work_item_id c) (tc_task_version c)) (\<lambda>decisions.
       let matching = filter (\<lambda>d. dr_action d \<in> set (rq_decision_actions rq)) decisions in
       if matching = [] then Inr (rejected ''REQUIRED_DECISION_MISSING'')
       else if \<not> list_ex (\<lambda>d. set (dr_evidence_artifact_ids d) \<subseteq> set (tc_evidence_artifact_ids c)) matching
         then Inr (rejected ''DECISION_EVIDENCE_MISMATCH'')
       else Inr eligible))"

definition evaluate_transition :: "ledger \<Rightarrow> work_item_row \<Rightarrow> bound_transition \<Rightarrow> evaluation result" where
  "evaluate_transition l work_item c =
    (let current_state = wi_state work_item; target_state = tc_target_state c in
     if current_state \<in> set TERMINAL_WORK_ITEM_STATES then Inr (rejected ''TERMINAL_STATE'')
     else if \<not> can_transition current_state target_state then Inr (rejected ''TRANSITION_NOT_ALLOWED'')
     else if wi_state_version work_item \<noteq> tc_expected_state_version c then Inr (rejected ''STATE_VERSION_STALE'')
     else if wi_current_task_version work_item \<noteq> tc_task_version c then Inr (rejected ''TASK_VERSION_STALE'')
     else case requirement_for current_state target_state of
       None \<Rightarrow> Inr (rejected ''TRANSITION_POLICY_MISSING'')
     | Some rq \<Rightarrow>
         catch_governance (normalize_authority_basis (PDict (tc_authority_basis c)) (Some (rq_authority rq))) (\<lambda>_.
         if rq_blockers_must_be_clear rq \<and> active_blocker_rows l (tc_work_item_id c) \<noteq> []
         then Inr (rejected ''ACTIVE_BLOCKERS'')
         else
           catch_governance
             (assert_artifacts l (tc_evidence_artifact_ids c) (tc_work_item_id c) (tc_task_version c)) (\<lambda>_.
           if rq_evidence_required rq \<and> tc_evidence_artifact_ids c = [] then Inr (rejected ''EVIDENCE_REQUIRED'')
           else if target_state = ''accepted''
                   \<and> active_attempts l (tc_work_item_id c) (tc_task_version c) \<noteq> []
             then Inr (rejected ''ACTIVE_EXECUTION_ATTEMPTS'')
           else evaluate_decisions l c rq)))"

section \<open>Recording the outcome\<close>

definition manifest_entry :: "artifact_row \<Rightarrow> py" where
  "manifest_entry r = PDict [(''artifact_id'', PStr (ar_id r)), (''kind'', PStr (ar_kind r)),
     (''uri'', PStr (ar_uri r)), (''immutable_ref'', PStr (ar_immutable_ref r)), (''digest'', PStr (ar_digest r))]"

definition insert_acceptance_manifest ::
  "env \<Rightarrow> string \<Rightarrow> string \<Rightarrow> int \<Rightarrow> int \<Rightarrow> string list \<Rightarrow> string list \<Rightarrow> py \<Rightarrow> string \<Rightarrow> ledger \<Rightarrow> ledger result" where
  "insert_acceptance_manifest e gate_event_id w v accepted_state_version artifact_ids decision_ids pj created_at l =
    ebind (assert_artifacts l artifact_ids w v) (\<lambda>artifact_rows.
    let sorted_rows = sort_key ar_id artifact_rows;
        artifact_manifest = PList (map manifest_entry sorted_rows) in
    ebind (json_column (PList (map (\<lambda>r. PStr (ar_id r)) sorted_rows))) (\<lambda>_.
    ebind (json_column artifact_manifest) (\<lambda>manifest_json.
    ebind (canonical_sha256 (e_sha e) artifact_manifest) (\<lambda>digest.
    ebind (json_column (PList (map PStr (sort decision_ids)))) (\<lambda>_.
    ebind (json_column pj) (\<lambda>principal_json.
    insert_manifest \<lparr>am_id = e_fresh e ''acceptance_manifest'' 0, am_work_item_id = w, am_task_version = v,
      am_gate_event_id = gate_event_id, am_accepted_state_version = accepted_state_version,
      am_artifact_ids = map ar_id sorted_rows, am_artifact_manifest = manifest_json,
      am_artifact_manifest_digest = digest, am_decision_ids = sort decision_ids,
      am_principal = principal_json, am_created_at = created_at\<rparr> l))))))"

definition insert_audit_event ::
  "env \<Rightarrow> string \<Rightarrow> int option \<Rightarrow> string \<Rightarrow> py \<Rightarrow> py \<Rightarrow> string \<Rightarrow> string \<Rightarrow> ledger \<Rightarrow> ledger result" where
  "insert_audit_event e w v event_type actor payload source_event_key created_at l =
    ebind (json_column actor) (\<lambda>actor_json.
    ebind (json_column payload) (\<lambda>payload_json.
    insert_audit \<lparr>au_id = e_fresh e ''audit_event'' 0, au_work_item_id = w, au_task_version = v,
      au_event_type = event_type, au_actor = actor_json, au_payload = payload_json,
      au_source_event_key = source_event_key, au_created_at = created_at\<rparr> l))"

definition insert_outbox_event :: "env \<Rightarrow> string \<Rightarrow> string \<Rightarrow> string \<Rightarrow> py \<Rightarrow> string \<Rightarrow> ledger \<Rightarrow> ledger result" where
  "insert_outbox_event e w event_type dedupe_key payload created_at l =
    ebind (json_column payload) (\<lambda>payload_json.
    insert_outbox \<lparr>ob_id = e_fresh e ''outbox_event'' 0, ob_work_item_id = w, ob_event_type = event_type,
      ob_dedupe_key = dedupe_key, ob_payload = payload_json, ob_status = ''pending'', ob_attempt_count = 0,
      ob_next_attempt_at = None, ob_last_error = None, ob_created_at = created_at, ob_updated_at = created_at\<rparr> l)"

text \<open>The compare-and-set UPDATE; the second component is whether a row matched.\<close>

definition cas_state ::
  "bound_transition \<Rightarrow> string \<Rightarrow> string \<Rightarrow> ledger \<Rightarrow> ledger \<times> bool" where
  "cas_state c from_state created_at l =
    (let matches = (\<lambda>r. wi_id r = tc_work_item_id c \<and> wi_state r = from_state
           \<and> wi_state_version r = tc_expected_state_version c
           \<and> wi_current_task_version r = tc_task_version c)
     in (l\<lparr>work_items := update_where matches
             (\<lambda>r. r\<lparr>wi_state := tc_target_state c, wi_state_version := wi_state_version r + 1,
                   wi_updated_at := created_at\<rparr>) (work_items l)\<rparr>,
         length (filter matches (work_items l)) = 1))"

definition gate_row_of ::
  "string \<Rightarrow> bound_transition \<Rightarrow> string \<Rightarrow> string \<Rightarrow> string \<Rightarrow> string \<Rightarrow> string \<Rightarrow> string \<Rightarrow> string \<Rightarrow> gate_row" where
  "gate_row_of gate_event_id c from_state outcome reason_code digest preview_id transition_result created_at =
    \<lparr>ge_id = gate_event_id, ge_work_item_id = tc_work_item_id c, ge_task_version = tc_task_version c,
      ge_from_state = from_state, ge_target_state = tc_target_state c,
      ge_expected_state_version = tc_expected_state_version c, ge_outcome = outcome, ge_reason_code = reason_code,
      ge_decision_ids = tc_decision_ids c, ge_evidence_artifact_ids = tc_evidence_artifact_ids c,
      ge_authority_basis = jsort (PDict (tc_authority_basis c)), ge_command_digest = digest,
      ge_preview_id = preview_id, ge_idempotency_key = tc_idempotency_key c, ge_created_at = created_at,
      ge_principal = jsort (tc_principal_context c), ge_transition_result = transition_result\<rparr>"

definition gate_audit_payload :: "gate_row \<Rightarrow> py" where
  "gate_audit_payload g = PDict
    [(''gate_event_id'', PStr (ge_id g)), (''from_state'', PStr (ge_from_state g)),
     (''target_state'', PStr (ge_target_state g)), (''reason_code'', PStr (ge_reason_code g)),
     (''transition_result'', PStr (ge_transition_result g)), (''command_digest'', PStr (ge_command_digest g))]"

definition gate_outbox_payload :: "gate_row \<Rightarrow> py" where
  "gate_outbox_payload g = PDict
    [(''gate_event_id'', PStr (ge_id g)), (''work_item_id'', PStr (ge_work_item_id g)),
     (''task_version'', PInt (ge_task_version g)), (''from_state'', PStr (ge_from_state g)),
     (''target_state'', PStr (ge_target_state g)), (''reason_code'', PStr (ge_reason_code g)),
     (''transition_result'', PStr (ge_transition_result g))]"

text \<open>Everything the transaction writes for a gate event that is not a replay.\<close>

definition write_gate_facts ::
  "env \<Rightarrow> bound_transition \<Rightarrow> gate_row \<Rightarrow> ledger \<Rightarrow> ledger result" where
  "write_gate_facts e c g l =
    ebind (json_column (PList (map PStr (tc_decision_ids c)))) (\<lambda>_.
    ebind (json_column (PList (map PStr (tc_evidence_artifact_ids c)))) (\<lambda>_.
    ebind (json_column (PDict (tc_authority_basis c))) (\<lambda>_.
    ebind (json_column (tc_principal_context c)) (\<lambda>_.
    ebind (insert_gate g l) (\<lambda>l1.
    ebind (if ge_outcome g = ''transition_applied'' \<and> tc_target_state c = ''accepted''
           then insert_acceptance_manifest e (ge_id g) (tc_work_item_id c) (tc_task_version c)
                  (tc_expected_state_version c + 1) (tc_evidence_artifact_ids c) (tc_decision_ids c)
                  (tc_principal_context c) (ge_created_at g) l1
           else Inr l1) (\<lambda>l2.
    ebind (insert_audit_event e (tc_work_item_id c) (Some (tc_task_version c)) (ge_outcome g)
             (actor_py (tc_actor c)) (gate_audit_payload g) (''gate:'' @ ge_id g) (ge_created_at g) l2) (\<lambda>l3.
    insert_outbox_event e (tc_work_item_id c) (ge_outcome g) (''gate:'' @ ge_id g)
      (gate_outbox_payload g) (ge_created_at g) l3)))))))"

definition transition_result_of :: "string \<Rightarrow> string \<Rightarrow> string" where
  "transition_result_of current_state target_state =
    (case requirement_for current_state target_state of None \<Rightarrow> ''state_advanced'' | Some rq \<Rightarrow> rq_transition_result rq)"

definition existing_gate :: "ledger \<Rightarrow> string \<Rightarrow> bound_transition \<Rightarrow> gate_row option" where
  "existing_gate l preview_id c =
    (case row_with ge_preview_id preview_id (gate_events l) of
       Some g \<Rightarrow> Some g
     | None \<Rightarrow>
         (case tc_idempotency_key c of
            None \<Rightarrow> None | Some k \<Rightarrow> row_with ge_idempotency_key (Some k) (gate_events l)))"

definition transition_transaction ::
  "env \<Rightarrow> bound_transition \<Rightarrow> string \<Rightarrow> string \<Rightarrow> string \<Rightarrow> string \<Rightarrow> ledger \<Rightarrow> ((gate_row \<times> bool) \<times> ledger) result" where
  "transition_transaction e c gate_event_id preview_id command_digest created_at l =
    (case existing_gate l preview_id c of
       Some g \<Rightarrow>
         if ge_command_digest g \<noteq> command_digest then Inl (Gov ''IDEMPOTENCY_CONFLICT'') else Inr ((g, True), l)
     | None \<Rightarrow>
         ebind (work_item_row_of l (tc_work_item_id c)) (\<lambda>work_item.
         ebind (evaluate_transition l work_item c) (\<lambda>evaluation.
         let (l1, matched) = (if ev_eligible evaluation then cas_state c (wi_state work_item) created_at l
                              else (l, False));
             outcome = (if matched then ''transition_applied'' else ''transition_rejected'');
             reason_code = (if ev_eligible evaluation \<and> \<not> matched then ''CAS_CONFLICT'' else ev_reason_code evaluation);
             g = gate_row_of gate_event_id c (wi_state work_item) outcome reason_code command_digest preview_id
                   (transition_result_of (wi_state work_item) (tc_target_state c)) created_at
         in ebind (write_gate_facts e c g l1) (\<lambda>l2. Inr ((g, False), l2)))))"

section \<open>The two commands\<close>

definition preview_work_item_transition ::
  "env \<Rightarrow> config \<Rightarrow> ledger \<Rightarrow> py \<Rightarrow> principal option \<Rightarrow> py \<Rightarrow> (dict \<times> evaluation) result" where
  "preview_work_item_transition e cfg l command principal_context ttl_seconds =
    ebind (require_enabled cfg) (\<lambda>_.
    ebind (require_gate_enabled cfg) (\<lambda>_.
    ebind (normalize_transition_command command) (\<lambda>normalized.
    ebind (work_item_row_of l (tc_work_item_id normalized)) (\<lambda>work_item.
    ebind (bind_transition_authority normalized principal_context (wi_state work_item)) (\<lambda>c.
    ebind (evaluate_transition l work_item c) (\<lambda>evaluation.
    ebind (preview_issue e ''work_item_transition'' (bound_fields c) ttl_seconds
             [(''gate_event_id'', PStr (e_fresh e ''gate_event'' 0))]) (\<lambda>preview.
    Inr (preview, evaluation))))))))"

datatype transition_answer =
    Shadow_Evaluated evaluation
  | Gate_Recorded gate_row bool "work_item_view result"

definition apply_work_item_transition ::
  "env \<Rightarrow> config \<Rightarrow> ledger \<Rightarrow> py \<Rightarrow> principal option \<Rightarrow> (transition_answer \<times> ledger) result" where
  "apply_work_item_transition e cfg l preview principal_context =
    ebind (require_enabled cfg) (\<lambda>_.
    ebind (require_gate_enabled cfg) (\<lambda>_.
    ebind (preview_verify e preview ''work_item_transition'') (\<lambda>verified.
    ebind (verify_signed_transition_authority (preview_command verified) principal_context) (\<lambda>c.
    if \<not> authoritative_transitions cfg then
      ebind (work_item_row_of l (tc_work_item_id c)) (\<lambda>work_item.
      ebind (evaluate_transition l work_item c) (\<lambda>evaluation. Inr (Shadow_Evaluated evaluation, l)))
    else
      ebind (generated_id verified ''gate_event_id'' ''gate_event'') (\<lambda>gate_event_id.
      ebind (require_stable_id (dget verified ''preview_id'') ''preview'') (\<lambda>preview_id.
      let created_at = isoformat_utc e (e_now e) in
      ebind (canonical_sha256 (e_sha e) (PDict (bound_fields c))) (\<lambda>command_digest.
      ebind (catch_integrity (write_transaction cfg l
               (transition_transaction e c gate_event_id preview_id command_digest created_at))) (\<lambda>((g, idempotent), l').
      Inr (Gate_Recorded g idempotent (get_work_item e cfg l' (PStr (tc_work_item_id c))), l')))))))))"

end
