(* ===== verification/GateFacts.thy ===== *)
theory GateFacts
  imports Gates
begin

text \<open>
  Facts of the gate: when a transition is eligible, what a transition transaction writes, and that the
  compare-and-set of an eligible transition always finds its row.
\<close>

section \<open>Eligibility\<close>

lemma catch_governance_eligible:
  "catch_governance r f = Inr ev \<Longrightarrow> ev_eligible ev \<Longrightarrow> \<exists>x. r = Inr x \<and> f x = Inr ev"
  by (auto simp: catch_governance_def rejected_def split: sum.splits py_error.splits)

definition decision_supports :: "ledger \<Rightarrow> bound_transition \<Rightarrow> requirement \<Rightarrow> decision_row \<Rightarrow> bool" where
  "decision_supports l c rq d \<longleftrightarrow> dr_action d \<in> set (rq_decision_actions rq)
     \<and> set (dr_evidence_artifact_ids d) \<subseteq> set (tc_evidence_artifact_ids c)
     \<and> dr_work_item_id d = tc_work_item_id c \<and> dr_task_version d = tc_task_version c
     \<and> (\<forall>d'\<in>set (decision_records l). dr_supersedes d' \<noteq> Some (dr_id d))
     \<and> (\<exists>p. permission_for_decision (dr_action d) = Inr p \<and> decision_trusted d p = Inr True)"

definition transition_ok :: "ledger \<Rightarrow> work_item_row \<Rightarrow> bound_transition \<Rightarrow> requirement \<Rightarrow> bool" where
  "transition_ok l item c rq \<longleftrightarrow>
     can_transition (wi_state item) (tc_target_state c)
   \<and> requirement_for (wi_state item) (tc_target_state c) = Some rq
   \<and> wi_state_version item = tc_expected_state_version c
   \<and> wi_current_task_version item = tc_task_version c
   \<and> (\<exists>b. normalize_authority_basis (PDict (tc_authority_basis c)) (Some (rq_authority rq)) = Inr b)
   \<and> (rq_blockers_must_be_clear rq \<longrightarrow> active_blocker_rows l (tc_work_item_id c) = [])
   \<and> (\<exists>rows. assert_artifacts l (tc_evidence_artifact_ids c) (tc_work_item_id c) (tc_task_version c) = Inr rows)
   \<and> (rq_evidence_required rq \<longrightarrow> tc_evidence_artifact_ids c \<noteq> [])
   \<and> (tc_target_state c = ''accepted'' \<longrightarrow> active_attempts l (tc_work_item_id c) (tc_task_version c) = [])
   \<and> (rq_decision_actions rq \<noteq> [] \<longrightarrow>
        (\<exists>ds. assert_decisions l (tc_decision_ids c) (tc_work_item_id c) (tc_task_version c) = Inr ds
            \<and> (\<exists>d\<in>set ds. decision_supports l c rq d)))"

lemma assert_decisions_support:
  assumes "assert_decisions l ids w v = Inr ds" "d \<in> set ds"
  shows "dr_work_item_id d = w \<and> dr_task_version d = v \<and> dr_id d \<in> set ids
    \<and> d \<in> set (decision_records l)
    \<and> (\<forall>d'\<in>set (decision_records l). dr_supersedes d' \<noteq> Some (dr_id d))
    \<and> (\<exists>p. permission_for_decision (dr_action d) = Inr p \<and> decision_trusted d p = Inr True)"
  using emap_Inr_set [OF assms(1) [unfolded assert_decisions_def] assms(2)]
  by (auto simp: assert_decision_Inr dest: row_with_Some)

lemma evaluate_decisions_eligible:
  "evaluate_decisions l c rq = Inr ev \<and> ev_eligible ev \<longleftrightarrow> ev = eligible \<and>
    (rq_decision_actions rq \<noteq> [] \<longrightarrow>
        (\<exists>ds. assert_decisions l (tc_decision_ids c) (tc_work_item_id c) (tc_task_version c) = Inr ds
            \<and> (\<exists>d\<in>set ds. decision_supports l c rq d)))" (is "?L \<longleftrightarrow> ?R")
proof (cases "rq_decision_actions rq = []")
  case True
  then show ?thesis by (auto simp: evaluate_decisions_def eligible_def)
next
  case False
  show ?thesis
  proof
    assume ?L
    then obtain ds where ds: "assert_decisions l (tc_decision_ids c) (tc_work_item_id c) (tc_task_version c) = Inr ds"
      and body: "(let matching = filter (\<lambda>d. dr_action d \<in> set (rq_decision_actions rq)) ds in
       if matching = [] then Inr (rejected ''REQUIRED_DECISION_MISSING'')
       else if \<not> list_ex (\<lambda>d. set (dr_evidence_artifact_ids d) \<subseteq> set (tc_evidence_artifact_ids c)) matching
         then Inr (rejected ''DECISION_EVIDENCE_MISMATCH'')
       else Inr eligible) = (Inr ev :: evaluation result)" and el: "ev_eligible ev"
      using False by (auto simp: evaluate_decisions_def dest: catch_governance_eligible)
    then have "ev = eligible" and "\<exists>d\<in>set ds. dr_action d \<in> set (rq_decision_actions rq)
        \<and> set (dr_evidence_artifact_ids d) \<subseteq> set (tc_evidence_artifact_ids c)"
      by (auto simp: Let_def rejected_def list_ex_iff split: if_splits)
    with ds show ?R using assert_decisions_support [OF ds] unfolding decision_supports_def by blast
  next
    assume ?R
    with False obtain ds d where
      "assert_decisions l (tc_decision_ids c) (tc_work_item_id c) (tc_task_version c) = Inr ds" "d \<in> set ds"
      "dr_action d \<in> set (rq_decision_actions rq)" "set (dr_evidence_artifact_ids d) \<subseteq> set (tc_evidence_artifact_ids c)"
      "ev = eligible"
      by (auto simp: decision_supports_def)
    then show ?L using False
      by (auto simp: evaluate_decisions_def catch_governance_def eligible_def Let_def list_ex_iff filter_empty_conv)
  qed
qed

lemma evaluate_transition_eligible:
  "evaluate_transition l item c = Inr ev \<and> ev_eligible ev \<longleftrightarrow>
    ev = eligible \<and> (\<exists>rq. transition_ok l item c rq)" (is "?L \<longleftrightarrow> ?R")
proof
  assume L: ?L
  then have nt: "wi_state item \<notin> set TERMINAL_WORK_ITEM_STATES" and ct: "can_transition (wi_state item) (tc_target_state c)"
    and sv: "wi_state_version item = tc_expected_state_version c" and tv: "wi_current_task_version item = tc_task_version c"
    by (auto simp: evaluate_transition_def Let_def rejected_def split: if_splits)
  from ct obtain rq where rq: "requirement_for (wi_state item) (tc_target_state c) = Some rq"
    using requirement_for_None by fastforce
  note L' = L [unfolded evaluate_transition_def Let_def rq]
  from L' nt ct sv tv rq obtain b where
    b: "normalize_authority_basis (PDict (tc_authority_basis c)) (Some (rq_authority rq)) = Inr b"
    and L2: "(if rq_blockers_must_be_clear rq \<and> active_blocker_rows l (tc_work_item_id c) \<noteq> []
         then Inr (rejected ''ACTIVE_BLOCKERS'')
         else
           catch_governance
             (assert_artifacts l (tc_evidence_artifact_ids c) (tc_work_item_id c) (tc_task_version c)) (\<lambda>_.
           if rq_evidence_required rq \<and> tc_evidence_artifact_ids c = [] then Inr (rejected ''EVIDENCE_REQUIRED'')
           else if tc_target_state c = ''accepted''
                   \<and> active_attempts l (tc_work_item_id c) (tc_task_version c) \<noteq> []
             then Inr (rejected ''ACTIVE_EXECUTION_ATTEMPTS'')
           else evaluate_decisions l c rq)) = Inr ev"
    by (auto dest!: catch_governance_eligible)
  have el: "ev_eligible ev" using L by simp
  from L2 el have bl: "rq_blockers_must_be_clear rq \<longrightarrow> active_blocker_rows l (tc_work_item_id c) = []"
    by (auto simp: rejected_def split: if_splits)
  with L2 el obtain rows where
    rows: "assert_artifacts l (tc_evidence_artifact_ids c) (tc_work_item_id c) (tc_task_version c) = Inr rows"
    and L3: "(if rq_evidence_required rq \<and> tc_evidence_artifact_ids c = [] then Inr (rejected ''EVIDENCE_REQUIRED'')
           else if tc_target_state c = ''accepted''
                   \<and> active_attempts l (tc_work_item_id c) (tc_task_version c) \<noteq> []
             then Inr (rejected ''ACTIVE_EXECUTION_ATTEMPTS'')
           else evaluate_decisions l c rq) = Inr ev"
    by (auto dest!: catch_governance_eligible split: if_split_asm)
  from L3 el have ev: "rq_evidence_required rq \<longrightarrow> tc_evidence_artifact_ids c \<noteq> []"
      "tc_target_state c = ''accepted'' \<longrightarrow> active_attempts l (tc_work_item_id c) (tc_task_version c) = []"
    and L4: "evaluate_decisions l c rq = Inr ev \<and> ev_eligible ev"
    by (auto simp: rejected_def split: if_splits)
  from evaluate_decisions_eligible [THEN iffD1, OF L4] have D: "ev = eligible"
    "rq_decision_actions rq \<noteq> [] \<longrightarrow>
        (\<exists>ds. assert_decisions l (tc_decision_ids c) (tc_work_item_id c) (tc_task_version c) = Inr ds
            \<and> (\<exists>d\<in>set ds. decision_supports l c rq d))" by simp_all
  have "transition_ok l item c rq"
    unfolding transition_ok_def using ct sv tv rq b bl rows ev D(2) by blast
  with D(1) show ?R by blast
next
  assume ?R
  then obtain rq where ev: "ev = eligible" and ok: "transition_ok l item c rq" by blast
  have nt: "wi_state item \<notin> set TERMINAL_WORK_ITEM_STATES"
    using ok terminal_no_transition unfolding transition_ok_def by blast
  from ok obtain b rows where
    ct: "can_transition (wi_state item) (tc_target_state c)"
    and rq: "requirement_for (wi_state item) (tc_target_state c) = Some rq"
    and v: "wi_state_version item = tc_expected_state_version c" "wi_current_task_version item = tc_task_version c"
    and b: "normalize_authority_basis (PDict (tc_authority_basis c)) (Some (rq_authority rq)) = Inr b"
    and rows: "assert_artifacts l (tc_evidence_artifact_ids c) (tc_work_item_id c) (tc_task_version c) = Inr rows"
    and guards: "rq_blockers_must_be_clear rq \<longrightarrow> active_blocker_rows l (tc_work_item_id c) = []"
      "rq_evidence_required rq \<longrightarrow> tc_evidence_artifact_ids c \<noteq> []"
      "tc_target_state c = ''accepted'' \<longrightarrow> active_attempts l (tc_work_item_id c) (tc_task_version c) = []"
    unfolding transition_ok_def by blast
  have D: "evaluate_decisions l c rq = Inr ev \<and> ev_eligible ev"
    using ev ok unfolding evaluate_decisions_eligible transition_ok_def by blast
  have "evaluate_transition l item c = evaluate_decisions l c rq"
    unfolding evaluate_transition_def Let_def rq option.case catch_governance_def b rows sum.case
    using nt ct v guards by auto
  with D show ?L by simp
qed

section \<open>What the transaction writes\<close>

lemma insert_acceptance_manifest_effect:
  assumes "insert_acceptance_manifest e g w v n arts ds pj t l = Inr l'"
  shows "\<exists>m rows. l' = l\<lparr>acceptance_manifests := acceptance_manifests l @ [m]\<rparr>
    \<and> assert_artifacts l arts w v = Inr rows
    \<and> am_work_item_id m = w \<and> am_task_version m = v \<and> am_gate_event_id m = g \<and> am_accepted_state_version m = n
    \<and> am_artifact_ids m = map ar_id (sort_key ar_id rows)
    \<and> am_artifact_manifest m = jsort (PList (map manifest_entry (sort_key ar_id rows)))
    \<and> canonical_sha256 (e_sha e) (PList (map manifest_entry (sort_key ar_id rows))) = Inr (am_artifact_manifest_digest m)
    \<and> am_decision_ids m = sort ds \<and> am_principal m = jsort pj
    \<and> (\<forall>m'\<in>set (acceptance_manifests l). am_work_item_id m' \<noteq> w)"
  using assms unfolding insert_acceptance_manifest_def Let_def
  by (auto simp: insert_manifest_def unique_key_iff dest!: json_column_Inr)

lemma insert_audit_event_effect:
  assumes "insert_audit_event e w v ty ac pl key t l = Inr l'"
  shows "\<exists>a. l' = l\<lparr>audit_events := audit_events l @ [a]\<rparr> \<and> au_work_item_id a = w \<and> au_event_type a = ty
    \<and> au_task_version a = v \<and> au_source_event_key a = key \<and> au_actor a = jsort ac \<and> au_payload a = jsort pl
    \<and> (\<forall>x\<in>set (audit_events l). au_id x \<noteq> au_id a) \<and> has_work_item l w"
  using assms unfolding insert_audit_event_def
  by (auto simp: insert_audit_def unique_key_iff dest!: json_column_Inr)

lemma insert_outbox_event_effect:
  assumes "insert_outbox_event e w ty key pl t l = Inr l'"
  shows "\<exists>x. l' = l\<lparr>outbox_events := outbox_events l @ [x]\<rparr> \<and> ob_work_item_id x = w \<and> ob_event_type x = ty
    \<and> ob_dedupe_key x = key \<and> ob_status x = ''pending'' \<and> ob_attempt_count x = 0 \<and> ob_payload x = jsort pl
    \<and> (\<forall>y\<in>set (outbox_events l). ob_id y \<noteq> ob_id x \<and> ob_dedupe_key y \<noteq> key) \<and> has_work_item l w"
  using assms unfolding insert_outbox_event_def
  by (auto simp: insert_outbox_def unique_key_iff dest!: json_column_Inr)

definition manifest_for :: "env \<Rightarrow> bound_transition \<Rightarrow> gate_row \<Rightarrow> ledger \<Rightarrow> manifest_row \<Rightarrow> bool" where
  "manifest_for e c g l m \<longleftrightarrow>
    (\<exists>rows. assert_artifacts l (tc_evidence_artifact_ids c) (tc_work_item_id c) (tc_task_version c) = Inr rows
      \<and> am_artifact_ids m = map ar_id (sort_key ar_id rows)
      \<and> am_artifact_manifest m = jsort (PList (map manifest_entry (sort_key ar_id rows)))
      \<and> canonical_sha256 (e_sha e) (PList (map manifest_entry (sort_key ar_id rows))) = Inr (am_artifact_manifest_digest m))
    \<and> am_work_item_id m = tc_work_item_id c \<and> am_task_version m = tc_task_version c \<and> am_gate_event_id m = ge_id g
    \<and> am_accepted_state_version m = tc_expected_state_version c + 1
    \<and> am_decision_ids m = sort (tc_decision_ids c) \<and> am_principal m = jsort (tc_principal_context c)"

text \<open>The rows that go with a gate event \<open>g\<close>: manifests \<open>ms\<close>, audit event \<open>a\<close>, outbox event \<open>x\<close>.\<close>

definition gate_facts ::
  "env \<Rightarrow> bound_transition \<Rightarrow> gate_row \<Rightarrow> ledger \<Rightarrow> manifest_row list \<Rightarrow> audit_row \<Rightarrow> outbox_row \<Rightarrow> bool" where
  "gate_facts e c g l ms a x \<longleftrightarrow>
    (if ge_outcome g = ''transition_applied'' \<and> tc_target_state c = ''accepted''
     then \<exists>m. ms = [m] \<and> manifest_for e c g l m \<and> (\<forall>m'\<in>set (acceptance_manifests l). am_work_item_id m' \<noteq> tc_work_item_id c)
     else ms = [])
    \<and> au_work_item_id a = tc_work_item_id c \<and> au_event_type a = ge_outcome g
    \<and> au_source_event_key a = ''gate:'' @ ge_id g \<and> au_payload a = jsort (gate_audit_payload g)
    \<and> (\<forall>y\<in>set (audit_events l). au_id y \<noteq> au_id a)
    \<and> ob_work_item_id x = tc_work_item_id c \<and> ob_event_type x = ge_outcome g
    \<and> ob_dedupe_key x = ''gate:'' @ ge_id g \<and> ob_status x = ''pending'' \<and> ob_payload x = jsort (gate_outbox_payload g)
    \<and> (\<forall>y\<in>set (outbox_events l). ob_id y \<noteq> ob_id x)
    \<and> (\<forall>g'\<in>set (gate_events l). ge_id g' \<noteq> ge_id g \<and> ge_preview_id g' \<noteq> ge_preview_id g)
    \<and> has_task l (ge_work_item_id g) (ge_task_version g)"

lemma write_gate_facts_effect:
  assumes "write_gate_facts e c g l = Inr l'"
  shows "\<exists>ms a x. l' = l\<lparr>gate_events := gate_events l @ [g], acceptance_manifests := acceptance_manifests l @ ms,
            audit_events := audit_events l @ [a], outbox_events := outbox_events l @ [x]\<rparr>
    \<and> gate_facts e c g l ms a x"
proof -
  from assms obtain l1 l2 l3 where
    s1: "insert_gate g l = Inr l1"
    and s2: "(if ge_outcome g = ''transition_applied'' \<and> tc_target_state c = ''accepted''
           then insert_acceptance_manifest e (ge_id g) (tc_work_item_id c) (tc_task_version c)
                  (tc_expected_state_version c + 1) (tc_evidence_artifact_ids c) (tc_decision_ids c)
                  (tc_principal_context c) (ge_created_at g) l1
           else Inr l1) = Inr l2"
    and s3: "insert_audit_event e (tc_work_item_id c) (Some (tc_task_version c)) (ge_outcome g)
             (actor_py (tc_actor c)) (gate_audit_payload g) (''gate:'' @ ge_id g) (ge_created_at g) l2 = Inr l3"
    and s4: "insert_outbox_event e (tc_work_item_id c) (ge_outcome g) (''gate:'' @ ge_id g)
      (gate_outbox_payload g) (ge_created_at g) l3 = Inr l'"
    unfolding write_gate_facts_def by auto
  from s1 have l1: "l1 = l\<lparr>gate_events := gate_events l @ [g]\<rparr>"
    and gf: "\<forall>g'\<in>set (gate_events l). ge_id g' \<noteq> ge_id g \<and> ge_preview_id g' \<noteq> ge_preview_id g"
      "has_task l (ge_work_item_id g) (ge_task_version g)"
    by (auto simp: insert_gate_def unique_key_iff)
  have "\<exists>ms. l2 = l1\<lparr>acceptance_manifests := acceptance_manifests l1 @ ms\<rparr> \<and>
    (if ge_outcome g = ''transition_applied'' \<and> tc_target_state c = ''accepted''
     then \<exists>m. ms = [m] \<and> manifest_for e c g l m \<and> (\<forall>m'\<in>set (acceptance_manifests l). am_work_item_id m' \<noteq> tc_work_item_id c)
     else ms = [])"
  proof (cases "ge_outcome g = ''transition_applied'' \<and> tc_target_state c = ''accepted''")
    case True
    then have "insert_acceptance_manifest e (ge_id g) (tc_work_item_id c) (tc_task_version c)
                  (tc_expected_state_version c + 1) (tc_evidence_artifact_ids c) (tc_decision_ids c)
                  (tc_principal_context c) (ge_created_at g) l1 = Inr l2" using s2 by simp
    from insert_acceptance_manifest_effect [OF this] obtain m rows where
      m: "l2 = l1\<lparr>acceptance_manifests := acceptance_manifests l1 @ [m]\<rparr>"
      and rows: "assert_artifacts l1 (tc_evidence_artifact_ids c) (tc_work_item_id c) (tc_task_version c) = Inr rows"
      and rest: "am_work_item_id m = tc_work_item_id c" "am_task_version m = tc_task_version c"
        "am_gate_event_id m = ge_id g" "am_accepted_state_version m = tc_expected_state_version c + 1"
        "am_artifact_ids m = map ar_id (sort_key ar_id rows)"
        "am_artifact_manifest m = jsort (PList (map manifest_entry (sort_key ar_id rows)))"
        "canonical_sha256 (e_sha e) (PList (map manifest_entry (sort_key ar_id rows))) = Inr (am_artifact_manifest_digest m)"
        "am_decision_ids m = sort (tc_decision_ids c)" "am_principal m = jsort (tc_principal_context c)"
        "\<forall>m'\<in>set (acceptance_manifests l1). am_work_item_id m' \<noteq> tc_work_item_id c" by blast
    have "assert_artifact l1 = assert_artifact l"
      by (intro ext) (simp add: assert_artifact_def l1)
    then have "assert_artifacts l1 = assert_artifacts l"
      by (intro ext) (simp add: assert_artifacts_def)
    with rows rest have "manifest_for e c g l m" unfolding manifest_for_def by simp
    with m rest(10) True show ?thesis by (intro exI [of _ "[m]"]) (simp add: l1)
  next
    case False
    then show ?thesis using s2 by (auto simp: l1)
  qed
  then obtain ms where ms: "l2 = l1\<lparr>acceptance_manifests := acceptance_manifests l1 @ ms\<rparr>"
    "if ge_outcome g = ''transition_applied'' \<and> tc_target_state c = ''accepted''
     then \<exists>m. ms = [m] \<and> manifest_for e c g l m \<and> (\<forall>m'\<in>set (acceptance_manifests l). am_work_item_id m' \<noteq> tc_work_item_id c)
     else ms = []" by blast
  from insert_audit_event_effect [OF s3] obtain a where
    a: "l3 = l2\<lparr>audit_events := audit_events l2 @ [a]\<rparr>" "au_work_item_id a = tc_work_item_id c"
      "au_event_type a = ge_outcome g" "au_source_event_key a = ''gate:'' @ ge_id g"
      "au_payload a = jsort (gate_audit_payload g)" "\<forall>y\<in>set (audit_events l2). au_id y \<noteq> au_id a" by blast
  from insert_outbox_event_effect [OF s4] obtain x where
    x: "l' = l3\<lparr>outbox_events := outbox_events l3 @ [x]\<rparr>" "ob_work_item_id x = tc_work_item_id c"
      "ob_event_type x = ge_outcome g" "ob_dedupe_key x = ''gate:'' @ ge_id g" "ob_status x = ''pending''"
      "ob_payload x = jsort (gate_outbox_payload g)" "\<forall>y\<in>set (outbox_events l3). ob_id y \<noteq> ob_id x" by blast
  have "gate_facts e c g l ms a x"
    unfolding gate_facts_def using l1 ms a x gf by simp
  moreover have "l' = l\<lparr>gate_events := gate_events l @ [g], acceptance_manifests := acceptance_manifests l @ ms,
            audit_events := audit_events l @ [a], outbox_events := outbox_events l @ [x]\<rparr>"
    using l1 ms a x by simp
  ultimately show ?thesis by blast
qed

text \<open>The update of an eligible transition finds exactly the row the transaction read.\<close>

lemma cas_matches:
  assumes d: "distinct (map wi_id (work_items l))"
    and item: "row_with wi_id (tc_work_item_id c) (work_items l) = Some item"
    and ok: "transition_ok l item c rq"
  shows "cas_state c (wi_state item) t l =
    (l\<lparr>work_items := update_where (\<lambda>r. wi_id r = tc_work_item_id c)
             (\<lambda>r. r\<lparr>wi_state := tc_target_state c, wi_state_version := wi_state_version r + 1,
                   wi_updated_at := t\<rparr>) (work_items l)\<rparr>, True)"
proof -
  from item have mem: "item \<in> set (work_items l)" "wi_id item = tc_work_item_id c"
    by (auto dest: row_with_Some)
  have only: "r = item" if "r \<in> set (work_items l)" "wi_id r = tc_work_item_id c" for r
    using d that mem by (metis inj_onD distinct_map)
  let ?P = "\<lambda>r. wi_id r = tc_work_item_id c \<and> wi_state r = wi_state item
           \<and> wi_state_version r = tc_expected_state_version c \<and> wi_current_task_version r = tc_task_version c"
  have eqP: "?P r \<longleftrightarrow> wi_id r = tc_work_item_id c" if "r \<in> set (work_items l)" for r
    using only [OF that] ok unfolding transition_ok_def by auto
  have "filter ?P (work_items l) = [item]"
  proof -
    have "filter ?P (work_items l) = filter (\<lambda>r. r = item) (work_items l)"
    proof (rule filter_cong [OF refl])
      fix r assume r: "r \<in> set (work_items l)"
      show "?P r = (r = item)" unfolding eqP [OF r] using only [OF r] mem(2) by blast
    qed
    moreover have "distinct (work_items l)" using d by (simp add: distinct_map)
    ultimately show ?thesis using mem(1) by (simp only: filter_single)
  qed
  moreover have "update_where ?P f (work_items l) = update_where (\<lambda>r. wi_id r = tc_work_item_id c) f (work_items l)" for f
    unfolding update_where_def using eqP by auto
  ultimately show ?thesis by (simp add: cas_state_def Let_def)
qed

end
