(* ===== verification/Delivery.thy ===== *)
theory Delivery
  imports GateFacts
begin

text \<open>
  \<open>runner/work_item_governance/service.py\<close>, the commands beside the gate: blocker events, delivery
  receipts with their retries and acknowledgement, and the outbox.  None of them writes a work item.
  An answer from outside is recorded once, as an inbox event under its source and event key.
\<close>

section \<open>Blockers\<close>

record blocker_command =
  bc_blocker_id :: string
  bc_supplied :: bool
  bc_work_item_id :: string
  bc_task_version :: int
  bc_reason :: string
  bc_actor :: actor
  bc_source_event_key :: string

definition normalize_blocker_command :: "env \<Rightarrow> py \<Rightarrow> string \<Rightarrow> blocker_command result" where
  "normalize_blocker_command e command event_type =
    ebind (require_object command True) (\<lambda>value.
    if \<not> only_keys value [''blocker_id'', ''work_item_id'', ''task_version'', ''reason'', ''actor'', ''source_event_key'']
    then Inl (Gov ''BLOCKER_FIELD_UNSUPPORTED'')
    else if event_type = ''blocker_cleared'' \<and> dget value ''blocker_id'' = PNone
    then Inl (Gov ''BLOCKER_ID_REQUIRED'')
    else
      ebind (id_or_fresh e (dget value ''blocker_id'') ''blocker'') (\<lambda>blocker_id.
      ebind (require_stable_id (dget value ''work_item_id'') ''work_item'') (\<lambda>w.
      ebind (require_positive_integer (dget value ''task_version'')) (\<lambda>v.
      ebind (require_text (dget value ''reason'') MAX_TEXT_LENGTH) (\<lambda>reason.
      ebind (normalize_actor (dget value ''actor'')) (\<lambda>actor.
      ebind (require_text (dget value ''source_event_key'') 1024) (\<lambda>key.
      Inr \<lparr>bc_blocker_id = blocker_id, bc_supplied = (dget value ''blocker_id'' \<noteq> PNone), bc_work_item_id = w,
           bc_task_version = v, bc_reason = reason, bc_actor = actor, bc_source_event_key = key\<rparr>)))))))"

definition blocker_conflict :: "blocker_row \<Rightarrow> blocker_command \<Rightarrow> string \<Rightarrow> bool" where
  "blocker_conflict existing c event_type \<longleftrightarrow>
    (bc_supplied c \<and> bl_blocker_id existing \<noteq> bc_blocker_id c)
    \<or> bl_work_item_id existing \<noteq> bc_work_item_id c
    \<or> bl_task_version existing \<noteq> bc_task_version c
    \<or> bl_event_type existing \<noteq> event_type
    \<or> bl_reason existing \<noteq> bc_reason c
    \<or> \<not> py_eq (bl_actor existing) (actor_py (bc_actor c))"

definition blocker_transaction ::
  "env \<Rightarrow> blocker_command \<Rightarrow> string \<Rightarrow> string \<Rightarrow> ledger \<Rightarrow> ((blocker_row \<times> bool) \<times> ledger) result" where
  "blocker_transaction e c event_type created_at l =
    (case row_with bl_source_event_key (bc_source_event_key c) (blocker_events l) of
       Some existing \<Rightarrow>
         if blocker_conflict existing c event_type then Inl (Gov ''IDEMPOTENCY_CONFLICT'')
         else Inr ((existing, True), l)
     | None \<Rightarrow>
         ebind (work_item_row_of l (bc_work_item_id c)) (\<lambda>work_item.
         if wi_current_task_version work_item \<noteq> bc_task_version c then Inl (Gov ''TASK_VERSION_STALE'')
         else
           let active = map bl_blocker_id (active_blocker_rows l (bc_work_item_id c)) in
           if event_type = ''blocker_applied'' \<and> bc_blocker_id c \<in> set active
           then Inl (Gov ''BLOCKER_ALREADY_ACTIVE'')
           else if event_type = ''blocker_cleared'' \<and> bc_blocker_id c \<notin> set active
           then Inl (Gov ''BLOCKER_NOT_ACTIVE'')
           else
             ebind (json_column (actor_py (bc_actor c))) (\<lambda>actor_json.
             let row = \<lparr>bl_event_id = e_fresh e ''blocker_event'' 0, bl_blocker_id = bc_blocker_id c,
                   bl_work_item_id = bc_work_item_id c, bl_task_version = bc_task_version c,
                   bl_event_type = event_type, bl_reason = bc_reason c, bl_actor = actor_json,
                   bl_source_event_key = bc_source_event_key c, bl_created_at = created_at\<rparr>
             in ebind (insert_blocker row l) (\<lambda>l1.
                ebind (insert_audit_event e (bc_work_item_id c) (Some (bc_task_version c)) event_type
                         (actor_py (bc_actor c))
                         (PDict [(''blocker_id'', PStr (bc_blocker_id c)), (''reason'', PStr (bc_reason c))])
                         (''audit:'' @ bc_source_event_key c) created_at l1) (\<lambda>l2.
                Inr ((row, False), l2))))))"

definition record_blocker_event ::
  "env \<Rightarrow> config \<Rightarrow> ledger \<Rightarrow> py \<Rightarrow> string \<Rightarrow> ((blocker_row \<times> bool) \<times> ledger) result" where
  "record_blocker_event e cfg l command event_type =
    ebind (assert_internal_activation_write_denied cfg l) (\<lambda>_.
    ebind (require_enabled cfg) (\<lambda>_.
    ebind (normalize_blocker_command e command event_type) (\<lambda>c.
    catch_integrity (write_transaction cfg l (blocker_transaction e c event_type (isoformat_utc e (e_now e)))))))"

definition apply_blocker :: "env \<Rightarrow> config \<Rightarrow> ledger \<Rightarrow> py \<Rightarrow> ((blocker_row \<times> bool) \<times> ledger) result" where
  "apply_blocker e cfg l command = record_blocker_event e cfg l command ''blocker_applied''"

definition clear_blocker :: "env \<Rightarrow> config \<Rightarrow> ledger \<Rightarrow> py \<Rightarrow> ((blocker_row \<times> bool) \<times> ledger) result" where
  "clear_blocker e cfg l command = record_blocker_event e cfg l command ''blocker_cleared''"

section \<open>Inbox and retry delay\<close>

definition find_inbox :: "ledger \<Rightarrow> string \<Rightarrow> string \<Rightarrow> inbox_row option" where
  "find_inbox l source key = row_with (\<lambda>i. (ib_source i, ib_source_event_key i)) (source, key) (inbox_events l)"

definition insert_inbox_event :: "env \<Rightarrow> string \<Rightarrow> string \<Rightarrow> py \<Rightarrow> string \<Rightarrow> ledger \<Rightarrow> ledger result" where
  "insert_inbox_event e source source_event_key payload received_at l =
    ebind (canonical_sha256 (e_sha e) payload) (\<lambda>digest.
    insert_inbox \<lparr>ib_id = e_fresh e ''inbox_event'' 0, ib_source = source,
      ib_source_event_key = source_event_key, ib_payload_digest = digest, ib_received_at = received_at\<rparr> l)"

text \<open>A recorded answer may only be replayed with the same content.\<close>

definition assert_inbox_matches :: "env \<Rightarrow> inbox_row \<Rightarrow> py \<Rightarrow> unit result" where
  "assert_inbox_matches e inbox payload =
    ebind (canonical_sha256 (e_sha e) payload) (\<lambda>digest.
    if ib_payload_digest inbox \<noteq> digest then Inl (Gov ''IDEMPOTENCY_CONFLICT'') else Inr ())"

text \<open>\<open>min(3600, 2 ** min(attempt_count, 12))\<close>, in seconds; attempt counts are at least 1 here.\<close>

definition retry_delay_seconds :: "int \<Rightarrow> int" where
  "retry_delay_seconds attempt_count = min 3600 (2 ^ nat (min attempt_count 12))"

section \<open>Delivery receipts\<close>

definition delivery_conflict ::
  "delivery_row \<Rightarrow> string option \<Rightarrow> string \<Rightarrow> int \<Rightarrow> string \<Rightarrow> string \<Rightarrow> bool" where
  "delivery_conflict existing supplied w v destination digest \<longleftrightarrow>
    de_payload_digest existing \<noteq> digest
    \<or> (case supplied of None \<Rightarrow> False | Some i \<Rightarrow> de_id existing \<noteq> i)
    \<or> de_destination existing \<noteq> destination
    \<or> de_work_item_id existing \<noteq> w
    \<or> de_task_version existing \<noteq> v"

definition receipt_transaction ::
  "env \<Rightarrow> string \<Rightarrow> string option \<Rightarrow> string \<Rightarrow> int \<Rightarrow> string \<Rightarrow> string \<Rightarrow> string \<Rightarrow> string \<Rightarrow> ledger
    \<Rightarrow> ((delivery_row \<times> bool) \<times> ledger) result" where
  "receipt_transaction e receipt_id supplied w v destination digest key created_at l =
    (case row_with de_idempotency_key key (delivery_receipts l) of
       Some existing \<Rightarrow>
         if delivery_conflict existing supplied w v destination digest then Inl (Gov ''IDEMPOTENCY_CONFLICT'')
         else Inr ((existing, True), l)
     | None \<Rightarrow>
         ebind (task_row_of l w v) (\<lambda>_.
         let row = \<lparr>de_id = receipt_id, de_work_item_id = w, de_task_version = v, de_destination = destination,
               de_payload_digest = digest, de_status = ''pending'', de_attempt_count = 0, de_last_error = None,
               de_next_attempt_at = None, de_idempotency_key = key, de_created_at = created_at,
               de_updated_at = created_at, de_acknowledged_at = None\<rparr>
         in ebind (insert_delivery row l) (\<lambda>l1.
            ebind (insert_outbox_event e w ''delivery_pending'' (''delivery:'' @ receipt_id @ '':created'')
                     (PDict [(''delivery_receipt_id'', PStr receipt_id), (''destination'', PStr destination),
                             (''payload_digest'', PStr digest)]) created_at l1) (\<lambda>l2.
            Inr ((row, False), l2)))))"

definition create_delivery_receipt ::
  "env \<Rightarrow> config \<Rightarrow> ledger \<Rightarrow> py \<Rightarrow> ((delivery_row \<times> bool) \<times> ledger) result" where
  "create_delivery_receipt e cfg l command =
    ebind (require_enabled cfg) (\<lambda>_.
    ebind (require_object command True) (\<lambda>value.
    if \<not> only_keys value [''delivery_receipt_id'', ''work_item_id'', ''task_version'', ''destination'',
        ''payload_digest'', ''idempotency_key'']
    then Inl (Gov ''DELIVERY_FIELD_UNSUPPORTED'')
    else
      ebind (id_or_fresh e (dget value ''delivery_receipt_id'') ''delivery_receipt'') (\<lambda>receipt_id.
      ebind (require_stable_id (dget value ''work_item_id'') ''work_item'') (\<lambda>w.
      ebind (require_positive_integer (dget value ''task_version'')) (\<lambda>v.
      ebind (require_text (dget value ''destination'') MAX_URI_LENGTH) (\<lambda>destination.
      ebind (require_sha256 (dget value ''payload_digest'')) (\<lambda>digest.
      ebind (require_text (dget value ''idempotency_key'') 1024) (\<lambda>key.
      catch_integrity (write_transaction cfg l
        (receipt_transaction e receipt_id (supplied_id (dget value ''delivery_receipt_id'') receipt_id)
           w v destination digest key (isoformat_utc e (e_now e))))))))))))"

definition receipt_of :: "ledger \<Rightarrow> string \<Rightarrow> delivery_row result" where
  "receipt_of l i =
    (case row_with de_id i (delivery_receipts l) of
       None \<Rightarrow> Inl (Gov ''DELIVERY_RECEIPT_NOT_FOUND'') | Some r \<Rightarrow> Inr r)"

definition update_receipt :: "string \<Rightarrow> (delivery_row \<Rightarrow> delivery_row) \<Rightarrow> ledger \<Rightarrow> ledger" where
  "update_receipt i f l = l\<lparr>delivery_receipts := update_where (\<lambda>r. de_id r = i) f (delivery_receipts l)\<rparr>"

definition retry_transaction ::
  "env \<Rightarrow> string \<Rightarrow> string \<Rightarrow> bool \<Rightarrow> string option \<Rightarrow> ledger \<Rightarrow> ((delivery_row \<times> bool) \<times> ledger) result" where
  "retry_transaction e receipt_id key delivered err l =
    (let updated_at = isoformat_utc e (e_now e);
         payload = PDict [(''delivery_receipt_id'', PStr receipt_id), (''delivered'', PBool delivered),
                          (''error'', of_opt err)] in
     ebind (receipt_of l receipt_id) (\<lambda>receipt.
     ebind (case find_inbox l ''delivery_retry'' key of
         Some existing \<Rightarrow> ebind (assert_inbox_matches e existing payload) (\<lambda>_. Inr (True, l))
       | None \<Rightarrow>
           if de_status receipt = ''acknowledged'' then Inl (Gov ''DELIVERY_ALREADY_ACKNOWLEDGED'')
           else
             let attempt_count = de_attempt_count receipt + 1;
                 status = (if delivered then ''delivered'' else ''retry_scheduled'');
                 next_attempt = (if delivered then None
                   else Some (isoformat_utc e (e_now e + retry_delay_seconds attempt_count * 1000000)));
                 l1 = update_receipt receipt_id (\<lambda>r. r\<lparr>de_status := status, de_attempt_count := attempt_count,
                        de_last_error := err, de_next_attempt_at := next_attempt, de_updated_at := updated_at\<rparr>) l
             in ebind (insert_inbox_event e ''delivery_retry'' key payload updated_at l1) (\<lambda>l2.
                ebind (insert_outbox_event e (de_work_item_id receipt)
                         (if delivered then ''delivery_succeeded'' else ''delivery_retry_scheduled'')
                         (''delivery:'' @ receipt_id @ '':retry:'' @ key)
                         (PDict [(''delivery_receipt_id'', PStr receipt_id), (''attempt_count'', PInt attempt_count),
                                 (''status'', PStr status), (''next_attempt_at'', of_opt next_attempt)])
                         updated_at l2) (\<lambda>l3.
                Inr (False, l3))))
       (\<lambda>(idempotent, l').
     ebind (receipt_of l' receipt_id) (\<lambda>row. Inr ((row, idempotent), l')))))"

definition retry_delivery :: "env \<Rightarrow> config \<Rightarrow> ledger \<Rightarrow> py \<Rightarrow> ((delivery_row \<times> bool) \<times> ledger) result" where
  "retry_delivery e cfg l command =
    ebind (require_enabled cfg) (\<lambda>_.
    ebind (require_object command True) (\<lambda>value.
    if \<not> only_keys value [''delivery_receipt_id'', ''source_event_key'', ''error'', ''delivered'']
    then Inl (Gov ''DELIVERY_RETRY_FIELD_UNSUPPORTED'')
    else
      ebind (require_stable_id (dget value ''delivery_receipt_id'') ''delivery_receipt'') (\<lambda>receipt_id.
      ebind (require_text (dget value ''source_event_key'') 1024) (\<lambda>key.
      ebind (optional_text (dget value ''error'') MAX_TEXT_LENGTH) (\<lambda>err.
      ebind (require_bool (dget_or value ''delivered'' (PBool (err = None))) ''DELIVERY_RESULT_INVALID'') (\<lambda>delivered.
      if delivered \<and> err \<noteq> None then Inl (Gov ''DELIVERY_RESULT_CONFLICT'')
      else catch_integrity (write_transaction cfg l (retry_transaction e receipt_id key delivered err))))))))"

definition acknowledge_transaction ::
  "env \<Rightarrow> string \<Rightarrow> string \<Rightarrow> string \<Rightarrow> ledger \<Rightarrow> ((delivery_row \<times> bool) \<times> ledger) result" where
  "acknowledge_transaction e receipt_id source key l =
    (let acknowledged_at = isoformat_utc e (e_now e);
         payload = PDict [(''delivery_receipt_id'', PStr receipt_id)] in
     ebind (receipt_of l receipt_id) (\<lambda>receipt.
     ebind (case find_inbox l source key of
         None \<Rightarrow>
           if de_status receipt \<notin> {''delivered'', ''acknowledged''} then Inl (Gov ''DELIVERY_NOT_DELIVERED'')
           else
             ebind (insert_inbox_event e source key payload acknowledged_at l) (\<lambda>l1.
             Inr (False, update_receipt receipt_id (\<lambda>r. r\<lparr>de_status := ''acknowledged'',
               de_acknowledged_at := (case de_acknowledged_at r of None \<Rightarrow> Some acknowledged_at | Some t \<Rightarrow> Some t),
               de_updated_at := acknowledged_at\<rparr>) l1))
       | Some existing \<Rightarrow> ebind (assert_inbox_matches e existing payload) (\<lambda>_. Inr (True, l)))
       (\<lambda>(idempotent, l').
     ebind (receipt_of l' receipt_id) (\<lambda>row. Inr ((row, idempotent), l')))))"

definition acknowledge_delivery :: "env \<Rightarrow> config \<Rightarrow> ledger \<Rightarrow> py \<Rightarrow> ((delivery_row \<times> bool) \<times> ledger) result" where
  "acknowledge_delivery e cfg l command =
    ebind (require_enabled cfg) (\<lambda>_.
    ebind (require_object command True) (\<lambda>value.
    if \<not> only_keys value [''delivery_receipt_id'', ''source'', ''source_event_key'']
    then Inl (Gov ''DELIVERY_ACK_FIELD_UNSUPPORTED'')
    else
      ebind (require_stable_id (dget value ''delivery_receipt_id'') ''delivery_receipt'') (\<lambda>receipt_id.
      ebind (require_text (dget value ''source'') 256) (\<lambda>source.
      ebind (require_text (dget value ''source_event_key'') 1024) (\<lambda>key.
      write_transaction cfg l (acknowledge_transaction e receipt_id source key))))))"

section \<open>Outbox\<close>

definition OUTBOX_STATUSES :: "string list" where
  "OUTBOX_STATUSES = [''pending'', ''retry_scheduled'', ''delivered'', ''failed'', ''manual_recovery'']"

definition list_outbox_events :: "config \<Rightarrow> ledger \<Rightarrow> string option \<Rightarrow> py \<Rightarrow> outbox_row list result" where
  "list_outbox_events cfg l status limit =
    ebind (require_enabled cfg) (\<lambda>_.
    if (case status of None \<Rightarrow> False | Some s \<Rightarrow> s \<notin> set OUTBOX_STATUSES) then Inl (Gov ''OUTBOX_STATUS_INVALID'')
    else case limit of
      PInt n \<Rightarrow>
        if n < 1 \<or> n > 500 then Inl (Gov ''LIST_LIMIT_INVALID'')
        else Inr (take (nat n) (sort_key (\<lambda>o'. (ob_created_at o', ob_id o'))
               (filter (\<lambda>o'. case status of None \<Rightarrow> True | Some s \<Rightarrow> ob_status o' = s) (outbox_events l))))
    | _ \<Rightarrow> Inl (Gov ''LIST_LIMIT_INVALID''))"

definition outbox_of :: "ledger \<Rightarrow> string \<Rightarrow> outbox_row result" where
  "outbox_of l i =
    (case row_with ob_id i (outbox_events l) of
       None \<Rightarrow> Inl (Gov ''OUTBOX_EVENT_NOT_FOUND'') | Some r \<Rightarrow> Inr r)"

definition update_outbox :: "string \<Rightarrow> (outbox_row \<Rightarrow> outbox_row) \<Rightarrow> ledger \<Rightarrow> ledger" where
  "update_outbox i f l = l\<lparr>outbox_events := update_where (\<lambda>r. ob_id r = i) f (outbox_events l)\<rparr>"

definition outbox_result_transaction ::
  "env \<Rightarrow> string \<Rightarrow> string \<Rightarrow> bool \<Rightarrow> string option \<Rightarrow> ledger \<Rightarrow> ((outbox_row \<times> bool) \<times> ledger) result" where
  "outbox_result_transaction e event_id key delivered err l =
    (let updated_at = isoformat_utc e (e_now e);
         payload = PDict [(''outbox_event_id'', PStr event_id), (''delivered'', PBool delivered),
                          (''error'', of_opt err)] in
     ebind (outbox_of l event_id) (\<lambda>row.
     ebind (case find_inbox l ''outbox_delivery'' key of
         None \<Rightarrow>
           let attempts = ob_attempt_count row + 1;
               status = (if delivered then ''delivered'' else ''retry_scheduled'');
               next_attempt = (if delivered then None
                 else Some (isoformat_utc e (e_now e + retry_delay_seconds attempts * 1000000)));
               l1 = update_outbox event_id (\<lambda>r. r\<lparr>ob_status := status, ob_attempt_count := attempts,
                      ob_next_attempt_at := next_attempt, ob_last_error := err, ob_updated_at := updated_at\<rparr>) l
           in ebind (insert_inbox_event e ''outbox_delivery'' key payload updated_at l1) (\<lambda>l2. Inr (False, l2))
       | Some existing \<Rightarrow> ebind (assert_inbox_matches e existing payload) (\<lambda>_. Inr (True, l)))
       (\<lambda>(idempotent, l').
     ebind (outbox_of l' event_id) (\<lambda>current. Inr ((current, idempotent), l')))))"

definition record_outbox_delivery_result ::
  "env \<Rightarrow> config \<Rightarrow> ledger \<Rightarrow> py \<Rightarrow> ((outbox_row \<times> bool) \<times> ledger) result" where
  "record_outbox_delivery_result e cfg l command =
    ebind (require_enabled cfg) (\<lambda>_.
    ebind (require_object command True) (\<lambda>value.
    if \<not> only_keys value [''outbox_event_id'', ''source_event_key'', ''delivered'', ''error'']
    then Inl (Gov ''OUTBOX_RESULT_FIELD_UNSUPPORTED'')
    else
      ebind (require_stable_id (dget value ''outbox_event_id'') ''outbox_event'') (\<lambda>event_id.
      ebind (require_text (dget value ''source_event_key'') 1024) (\<lambda>key.
      ebind (require_bool (dget value ''delivered'') ''OUTBOX_RESULT_INVALID'') (\<lambda>delivered.
      ebind (optional_text (dget value ''error'') MAX_TEXT_LENGTH) (\<lambda>err.
      if delivered \<and> err \<noteq> None then Inl (Gov ''OUTBOX_RESULT_CONFLICT'')
      else write_transaction cfg l (outbox_result_transaction e event_id key delivered err)))))))"

definition outbox_recovery_transaction ::
  "env \<Rightarrow> string \<Rightarrow> string \<Rightarrow> string \<Rightarrow> ledger \<Rightarrow> ((outbox_row \<times> bool) \<times> ledger) result" where
  "outbox_recovery_transaction e event_id key reason l =
    (let updated_at = isoformat_utc e (e_now e);
         payload = PDict [(''outbox_event_id'', PStr event_id), (''reason'', PStr reason)] in
     ebind (outbox_of l event_id) (\<lambda>row.
     ebind (case find_inbox l ''outbox_manual_recovery'' key of
         None \<Rightarrow>
           if ob_status row = ''delivered'' then Inl (Gov ''OUTBOX_ALREADY_DELIVERED'')
           else
             let l1 = update_outbox event_id (\<lambda>r. r\<lparr>ob_status := ''pending'', ob_next_attempt_at := None,
                        ob_last_error := None, ob_updated_at := updated_at\<rparr>) l
             in ebind (insert_inbox_event e ''outbox_manual_recovery'' key payload updated_at l1)
                  (\<lambda>l2. Inr (False, l2))
       | Some existing \<Rightarrow> ebind (assert_inbox_matches e existing payload) (\<lambda>_. Inr (True, l)))
       (\<lambda>(idempotent, l').
     ebind (outbox_of l' event_id) (\<lambda>current. Inr ((current, idempotent), l')))))"

definition recover_outbox_event ::
  "env \<Rightarrow> config \<Rightarrow> ledger \<Rightarrow> py \<Rightarrow> ((outbox_row \<times> bool) \<times> ledger) result" where
  "recover_outbox_event e cfg l command =
    ebind (require_enabled cfg) (\<lambda>_.
    ebind (require_object command True) (\<lambda>value.
    if \<not> only_keys value [''outbox_event_id'', ''source_event_key'', ''reason'']
    then Inl (Gov ''OUTBOX_RECOVERY_FIELD_UNSUPPORTED'')
    else
      ebind (require_stable_id (dget value ''outbox_event_id'') ''outbox_event'') (\<lambda>event_id.
      ebind (require_text (dget value ''source_event_key'') 1024) (\<lambda>key.
      ebind (require_text (dget value ''reason'') MAX_TEXT_LENGTH) (\<lambda>reason.
      write_transaction cfg l (outbox_recovery_transaction e event_id key reason))))))"

section \<open>What these commands do to the ledger\<close>

lemma receipt_of_Inr [simp]: "receipt_of l i = Inr r \<longleftrightarrow> row_with de_id i (delivery_receipts l) = Some r"
  by (simp add: receipt_of_def split: option.splits)

lemma outbox_of_Inr [simp]: "outbox_of l i = Inr r \<longleftrightarrow> row_with ob_id i (outbox_events l) = Some r"
  by (simp add: outbox_of_def split: option.splits)

text \<open>
  A side effect leaves everything a gate reads as it is: the work items, task versions, attempts,
  artifacts, decisions, gate events and manifests; blocker events and audit events only grow.
\<close>

definition side_effect_only :: "ledger \<Rightarrow> ledger \<Rightarrow> bool" where
  "side_effect_only l l' \<longleftrightarrow> work_items l' = work_items l \<and> task_versions l' = task_versions l
     \<and> execution_attempts l' = execution_attempts l \<and> artifact_refs l' = artifact_refs l
     \<and> external_associations l' = external_associations l \<and> attempt_events l' = attempt_events l
     \<and> decision_records l' = decision_records l \<and> gate_events l' = gate_events l
     \<and> acceptance_manifests l' = acceptance_manifests l \<and> activation_leases l' = activation_leases l
     \<and> extends (audit_events l) (audit_events l') \<and> extends (blocker_events l) (blocker_events l')
     \<and> extends (inbox_events l) (inbox_events l')
     \<and> extends (map ob_id (outbox_events l)) (map ob_id (outbox_events l'))
     \<and> extends (map de_id (delivery_receipts l)) (map de_id (delivery_receipts l'))"

lemma side_effect_refl [simp, intro]: "side_effect_only l l"
  by (simp add: side_effect_only_def)

lemma insert_inbox_event_effect:
  assumes "insert_inbox_event e s k p t l = Inr l'"
  shows "\<exists>i. l' = l\<lparr>inbox_events := inbox_events l @ [i]\<rparr> \<and> ib_source i = s \<and> ib_source_event_key i = k
    \<and> canonical_sha256 (e_sha e) p = Inr (ib_payload_digest i)
    \<and> (\<forall>j\<in>set (inbox_events l). (ib_source j, ib_source_event_key j) \<noteq> (s, k))"
  using assms unfolding insert_inbox_event_def by (auto simp: insert_inbox_def unique_key_iff)

lemma update_where_keeps: "(\<And>r. f (g r) = f r) \<Longrightarrow> map f (update_where P g t) = map f t"
  by (simp add: update_where_map)

lemma map_ids_update_receipt: "(\<And>r. de_id (f r) = de_id r) \<Longrightarrow>
    map de_id (delivery_receipts (update_receipt i f l)) = map de_id (delivery_receipts l)"
  by (simp add: update_receipt_def update_where_map)

lemma map_ids_update_outbox: "(\<And>r. ob_id (f r) = ob_id r) \<Longrightarrow>
    map ob_id (outbox_events (update_outbox i f l)) = map ob_id (outbox_events l)"
  by (simp add: update_outbox_def update_where_map)

lemma blocker_transaction_effect:
  assumes "blocker_transaction e c ty t l = Inr ((row, replay), l')"
  shows "(replay \<and> l' = l \<and> row \<in> set (blocker_events l))
    \<or> (\<exists>a item. \<not> replay
        \<and> l' = l\<lparr>blocker_events := blocker_events l @ [row], audit_events := audit_events l @ [a]\<rparr>
        \<and> row_with wi_id (bl_work_item_id row) (work_items l) = Some item
        \<and> wi_current_task_version item = bl_task_version row
        \<and> bl_event_type row = ty \<and> bl_work_item_id row = bc_work_item_id c \<and> bl_blocker_id row = bc_blocker_id c
        \<and> (\<forall>y\<in>set (blocker_events l). bl_event_id y \<noteq> bl_event_id row)
        \<and> has_task l (bl_work_item_id row) (bl_task_version row)
        \<and> (ty = ''blocker_applied'' \<longrightarrow> bc_blocker_id c \<notin> bl_blocker_id ` set (active_blocker_rows l (bc_work_item_id c)))
        \<and> (ty = ''blocker_cleared'' \<longrightarrow> bc_blocker_id c \<in> bl_blocker_id ` set (active_blocker_rows l (bc_work_item_id c))))"
proof (cases "row_with bl_source_event_key (bc_source_event_key c) (blocker_events l)")
  case (Some existing)
  with assms show ?thesis by (auto simp: blocker_transaction_def dest: row_with_Some split: if_splits)
next
  case None
  with assms obtain item aj l1 where
    item: "row_with wi_id (bc_work_item_id c) (work_items l) = Some item" "wi_current_task_version item = bc_task_version c"
    and act: "\<not> (ty = ''blocker_applied'' \<and> bc_blocker_id c \<in> set (map bl_blocker_id (active_blocker_rows l (bc_work_item_id c))))"
      "\<not> (ty = ''blocker_cleared'' \<and> bc_blocker_id c \<notin> set (map bl_blocker_id (active_blocker_rows l (bc_work_item_id c))))"
    and row: "row = \<lparr>bl_event_id = e_fresh e ''blocker_event'' 0, bl_blocker_id = bc_blocker_id c,
                   bl_work_item_id = bc_work_item_id c, bl_task_version = bc_task_version c,
                   bl_event_type = ty, bl_reason = bc_reason c, bl_actor = aj,
                   bl_source_event_key = bc_source_event_key c, bl_created_at = t\<rparr>"
    and s1: "insert_blocker row l = Inr l1"
    and s2: "insert_audit_event e (bc_work_item_id c) (Some (bc_task_version c)) ty
                         (actor_py (bc_actor c))
                         (PDict [(''blocker_id'', PStr (bc_blocker_id c)), (''reason'', PStr (bc_reason c))])
                         (''audit:'' @ bc_source_event_key c) t l1 = Inr l'"
    and nr: "\<not> replay"
    unfolding blocker_transaction_def Let_def
    by (clarsimp simp del: set_map split: if_split_asm)
  from s1 have l1: "l1 = l\<lparr>blocker_events := blocker_events l @ [row]\<rparr>"
    and f: "\<forall>y\<in>set (blocker_events l). bl_event_id y \<noteq> bl_event_id row"
      "has_task l (bl_work_item_id row) (bl_task_version row)"
    by (auto simp: insert_blocker_def unique_key_iff)
  from insert_audit_event_effect [OF s2] obtain a where
    "l' = l1\<lparr>audit_events := audit_events l1 @ [a]\<rparr>" by blast
  with l1 f item act nr row show ?thesis
    by (intro disjI2 exI [of _ a] exI [of _ item]) auto
qed

lemma receipt_transaction_effect:
  assumes "receipt_transaction e i sp w v dst dg key t l = Inr ((row, replay), l')"
  shows "(replay \<and> l' = l \<and> row \<in> set (delivery_receipts l))
    \<or> (\<exists>x. \<not> replay \<and> l' = l\<lparr>delivery_receipts := delivery_receipts l @ [row], outbox_events := outbox_events l @ [x]\<rparr>
        \<and> de_work_item_id row = w \<and> de_task_version row = v \<and> de_status row = ''pending'' \<and> de_attempt_count row = 0
        \<and> de_payload_digest row = dg \<and> de_idempotency_key row = key
        \<and> has_task l w v \<and> (\<forall>y\<in>set (delivery_receipts l). de_id y \<noteq> de_id row)
        \<and> ob_work_item_id x = w \<and> ob_event_type x = ''delivery_pending'' \<and> ob_status x = ''pending''
        \<and> (\<forall>y\<in>set (outbox_events l). ob_id y \<noteq> ob_id x))"
proof (cases "row_with de_idempotency_key key (delivery_receipts l)")
  case (Some existing)
  with assms show ?thesis by (auto simp: receipt_transaction_def dest: row_with_Some split: if_splits)
next
  case None
  with assms obtain l1 where
    s1: "insert_delivery row l = Inr l1"
    and row: "row = \<lparr>de_id = i, de_work_item_id = w, de_task_version = v, de_destination = dst,
               de_payload_digest = dg, de_status = ''pending'', de_attempt_count = 0, de_last_error = None,
               de_next_attempt_at = None, de_idempotency_key = key, de_created_at = t,
               de_updated_at = t, de_acknowledged_at = None\<rparr>"
    and s2: "insert_outbox_event e w ''delivery_pending'' (''delivery:'' @ i @ '':created'')
                     (PDict [(''delivery_receipt_id'', PStr i), (''destination'', PStr dst),
                             (''payload_digest'', PStr dg)]) t l1 = Inr l'" and nr: "\<not> replay"
    unfolding receipt_transaction_def Let_def by clarsimp
  from s1 have l1: "l1 = l\<lparr>delivery_receipts := delivery_receipts l @ [row]\<rparr>"
    and f: "has_task l w v" "\<forall>y\<in>set (delivery_receipts l). de_id y \<noteq> de_id row"
    by (auto simp: insert_delivery_def unique_key_iff row)
  from insert_outbox_event_effect [OF s2] obtain x where
    "l' = l1\<lparr>outbox_events := outbox_events l1 @ [x]\<rparr>" "ob_work_item_id x = w"
    "ob_event_type x = ''delivery_pending''" "ob_status x = ''pending''" "\<forall>y\<in>set (outbox_events l1). ob_id y \<noteq> ob_id x"
    by blast
  with l1 f nr show ?thesis by (intro disjI2 exI [of _ x]) (simp add: row)
qed

lemma retry_transaction_effect:
  assumes "retry_transaction e i key delivered err l = Inr ((row, replay), l')"
  shows "(replay \<and> l' = l \<and> row \<in> set (delivery_receipts l))
    \<or> (\<exists>receipt x j. \<not> replay \<and> row_with de_id i (delivery_receipts l) = Some receipt
        \<and> de_status receipt \<noteq> ''acknowledged''
        \<and> row = receipt\<lparr>de_status := (if delivered then ''delivered'' else ''retry_scheduled''),
              de_attempt_count := de_attempt_count receipt + 1, de_last_error := err,
              de_next_attempt_at := (if delivered then None else
                Some (isoformat_utc e (e_now e + retry_delay_seconds (de_attempt_count receipt + 1) * 1000000))),
              de_updated_at := isoformat_utc e (e_now e)\<rparr>
        \<and> l' = l\<lparr>delivery_receipts := update_where (\<lambda>r. de_id r = i) (\<lambda>r.
                  r\<lparr>de_status := (if delivered then ''delivered'' else ''retry_scheduled''),
              de_attempt_count := de_attempt_count receipt + 1, de_last_error := err,
              de_next_attempt_at := (if delivered then None else
                Some (isoformat_utc e (e_now e + retry_delay_seconds (de_attempt_count receipt + 1) * 1000000))),
              de_updated_at := isoformat_utc e (e_now e)\<rparr>) (delivery_receipts l),
             inbox_events := inbox_events l @ [j], outbox_events := outbox_events l @ [x]\<rparr>
        \<and> ib_source j = ''delivery_retry'' \<and> ib_source_event_key j = key \<and> find_inbox l ''delivery_retry'' key = None)"
proof -
  let ?payload = "PDict [(''delivery_receipt_id'', PStr i), (''delivered'', PBool delivered), (''error'', of_opt err)]"
  show ?thesis
  proof (cases "find_inbox l ''delivery_retry'' key")
    case (Some existing)
    with assms show ?thesis by (auto simp: retry_transaction_def Let_def dest: row_with_Some)
  next
    case None
    let ?f = "\<lambda>receipt r. r\<lparr>de_status := (if delivered then ''delivered'' else ''retry_scheduled''),
              de_attempt_count := de_attempt_count receipt + 1, de_last_error := err,
              de_next_attempt_at := (if delivered then None else
                Some (isoformat_utc e (e_now e + retry_delay_seconds (de_attempt_count receipt + 1) * 1000000))),
              de_updated_at := isoformat_utc e (e_now e)\<rparr>"
    from None assms obtain receipt l2 ty pl where
      r: "row_with de_id i (delivery_receipts l) = Some receipt" "de_status receipt \<noteq> ''acknowledged''"
      and s1: "insert_inbox_event e ''delivery_retry'' key ?payload (isoformat_utc e (e_now e))
                 (update_receipt i (?f receipt) l) = Inr l2"
      and s2: "insert_outbox_event e (de_work_item_id receipt) ty (''delivery:'' @ i @ '':retry:'' @ key)
                 pl (isoformat_utc e (e_now e)) l2 = Inr l'"
      and row: "row_with de_id i (delivery_receipts l') = Some row" and nr: "\<not> replay"
      unfolding retry_transaction_def Let_def by (clarsimp split: if_split_asm)
    from insert_inbox_event_effect [OF s1] obtain j where
      j: "l2 = (update_receipt i (?f receipt) l)\<lparr>inbox_events := inbox_events (update_receipt i (?f receipt) l) @ [j]\<rparr>"
        "ib_source j = ''delivery_retry''" "ib_source_event_key j = key" by blast
    from insert_outbox_event_effect [OF s2] obtain x where
      x: "l' = l2\<lparr>outbox_events := outbox_events l2 @ [x]\<rparr>" by blast
    have "row_with de_id i (delivery_receipts l') = Some (?f receipt receipt)"
      using r by (simp add: x j update_receipt_def row_with_update_where) (auto dest: row_with_Some)
    with row have "row = ?f receipt receipt" by simp
    with r j x nr None show ?thesis
      by (intro disjI2 exI [of _ receipt] exI [of _ x] exI [of _ j]) (simp add: update_receipt_def)
  qed
qed

lemma acknowledge_transaction_effect:
  assumes "acknowledge_transaction e i src key l = Inr ((row, replay), l')"
  shows "(replay \<and> l' = l \<and> row \<in> set (delivery_receipts l))
    \<or> (\<exists>receipt j. \<not> replay \<and> row_with de_id i (delivery_receipts l) = Some receipt
        \<and> de_status receipt \<in> {''delivered'', ''acknowledged''}
        \<and> de_status row = ''acknowledged'' \<and> de_id row = i
        \<and> l' = l\<lparr>delivery_receipts := update_where (\<lambda>r. de_id r = i) (\<lambda>r. r\<lparr>de_status := ''acknowledged'',
               de_acknowledged_at := (case de_acknowledged_at r of None \<Rightarrow> Some (isoformat_utc e (e_now e)) | Some t \<Rightarrow> Some t),
               de_updated_at := isoformat_utc e (e_now e)\<rparr>) (delivery_receipts l),
             inbox_events := inbox_events l @ [j]\<rparr>
        \<and> ib_source j = src \<and> ib_source_event_key j = key \<and> find_inbox l src key = None)"
proof (cases "find_inbox l src key")
  case (Some existing)
  with assms show ?thesis by (auto simp: acknowledge_transaction_def Let_def dest: row_with_Some)
next
  case None
  let ?f = "\<lambda>r. r\<lparr>de_status := ''acknowledged'',
               de_acknowledged_at := (case de_acknowledged_at r of None \<Rightarrow> Some (isoformat_utc e (e_now e)) | Some t \<Rightarrow> Some t),
               de_updated_at := isoformat_utc e (e_now e)\<rparr>"
  from None assms obtain receipt l1 where
    r: "row_with de_id i (delivery_receipts l) = Some receipt" "de_status receipt \<in> {''delivered'', ''acknowledged''}"
    and s1: "insert_inbox_event e src key (PDict [(''delivery_receipt_id'', PStr i)]) (isoformat_utc e (e_now e)) l = Inr l1"
    and l': "l' = update_receipt i ?f l1"
    and row: "row_with de_id i (delivery_receipts l') = Some row" and nr: "\<not> replay"
    unfolding acknowledge_transaction_def Let_def by (clarsimp simp del: insert_iff split: if_split_asm)
  from insert_inbox_event_effect [OF s1] obtain j where
    j: "l1 = l\<lparr>inbox_events := inbox_events l @ [j]\<rparr>" "ib_source j = src" "ib_source_event_key j = key" by blast
  have "row_with de_id i (delivery_receipts l') = Some (?f receipt)"
    using r(1) by (simp add: l' j update_receipt_def row_with_update_where) (auto dest: row_with_Some)
  with row have "row = ?f receipt" by simp
  with r j l' nr None show ?thesis
    by (intro disjI2 exI [of _ receipt] exI [of _ j]) (auto simp: update_receipt_def dest: row_with_Some)
qed

lemma outbox_result_effect:
  assumes "outbox_result_transaction e i key delivered err l = Inr ((row, replay), l')"
  shows "(replay \<and> l' = l)
    \<or> (\<exists>old j. \<not> replay \<and> row_with ob_id i (outbox_events l) = Some old
        \<and> l' = l\<lparr>outbox_events := update_where (\<lambda>r. ob_id r = i) (\<lambda>r.
               r\<lparr>ob_status := (if delivered then ''delivered'' else ''retry_scheduled''),
                 ob_attempt_count := ob_attempt_count old + 1,
                 ob_next_attempt_at := (if delivered then None else
                   Some (isoformat_utc e (e_now e + retry_delay_seconds (ob_attempt_count old + 1) * 1000000))),
                 ob_last_error := err, ob_updated_at := isoformat_utc e (e_now e)\<rparr>) (outbox_events l),
             inbox_events := inbox_events l @ [j]\<rparr>)"
proof (cases "find_inbox l ''outbox_delivery'' key")
  case (Some existing)
  with assms show ?thesis by (auto simp: outbox_result_transaction_def Let_def)
next
  case None
  with assms obtain old l1 where
    old: "row_with ob_id i (outbox_events l) = Some old" and nr: "\<not> replay"
    and s1: "insert_inbox_event e ''outbox_delivery'' key (PDict [(''outbox_event_id'', PStr i),
        (''delivered'', PBool delivered), (''error'', of_opt err)]) (isoformat_utc e (e_now e))
      (update_outbox i (\<lambda>r. r\<lparr>ob_status := (if delivered then ''delivered'' else ''retry_scheduled''),
         ob_attempt_count := ob_attempt_count old + 1,
         ob_next_attempt_at := (if delivered then None else
           Some (isoformat_utc e (e_now e + retry_delay_seconds (ob_attempt_count old + 1) * 1000000))),
         ob_last_error := err, ob_updated_at := isoformat_utc e (e_now e)\<rparr>) l) = Inr l1" and l': "l' = l1"
    unfolding outbox_result_transaction_def Let_def by clarsimp
  from insert_inbox_event_effect [OF s1] old nr l' show ?thesis
    by (auto simp: update_outbox_def)
qed

lemma outbox_recovery_effect:
  assumes "outbox_recovery_transaction e i key reason l = Inr ((row, replay), l')"
  shows "(replay \<and> l' = l)
    \<or> (\<exists>old j. \<not> replay \<and> row_with ob_id i (outbox_events l) = Some old \<and> ob_status old \<noteq> ''delivered''
        \<and> l' = l\<lparr>outbox_events := update_where (\<lambda>r. ob_id r = i) (\<lambda>r. r\<lparr>ob_status := ''pending'',
                   ob_next_attempt_at := None, ob_last_error := None,
                   ob_updated_at := isoformat_utc e (e_now e)\<rparr>) (outbox_events l),
             inbox_events := inbox_events l @ [j]\<rparr>)"
proof (cases "find_inbox l ''outbox_manual_recovery'' key")
  case (Some existing)
  with assms show ?thesis by (auto simp: outbox_recovery_transaction_def Let_def)
next
  case None
  with assms obtain old l1 where
    old: "row_with ob_id i (outbox_events l) = Some old" "ob_status old \<noteq> ''delivered''" and nr: "\<not> replay"
    and s1: "insert_inbox_event e ''outbox_manual_recovery'' key (PDict [(''outbox_event_id'', PStr i),
        (''reason'', PStr reason)]) (isoformat_utc e (e_now e))
      (update_outbox i (\<lambda>r. r\<lparr>ob_status := ''pending'', ob_next_attempt_at := None,
                        ob_last_error := None, ob_updated_at := isoformat_utc e (e_now e)\<rparr>) l) = Inr l1"
    and l': "l' = l1"
    unfolding outbox_recovery_transaction_def Let_def by (clarsimp split: if_split_asm)
  from insert_inbox_event_effect [OF s1] old nr l' show ?thesis
    by (auto simp: update_outbox_def)
qed

end
