(* ===== verification/LedgerSystem.thy ===== *)
theory LedgerSystem
  imports Delivery
begin

text \<open>
  The Work Item service as a transition system.  \<open>operation\<close> lists the write commands, \<open>run\<close> is one
  command on a ledger, \<open>reachable\<close> the ledgers that any sequence of committed commands produces (each
  with its own environment and settings).  \<open>change\<close> lists the shapes of what a command can do to the
  ledger; every committed command is one of them.  The abstract specification is \<open>item_step\<close>, a
  machine that keeps of each work item only its state, its state version and its task version.
\<close>

section \<open>Commands as steps\<close>

datatype operation =
    Apply_Create py
  | Apply_Legacy_Import py
  | Add_Task_Version py
  | Create_Attempt py
  | Register_Artifact py
  | Bind_Historical py
  | Complete_Attempt py
  | Record_Decision py "principal option"
  | Apply_Transition py "principal option"
  | Apply_Blocker py
  | Clear_Blocker py
  | Create_Receipt py
  | Retry_Delivery py
  | Acknowledge_Delivery py
  | Outbox_Result py
  | Recover_Outbox py

definition ledger_of :: "('a \<times> ledger) result \<Rightarrow> ledger result" where
  "ledger_of r = ebind r (\<lambda>(_, l). Inr l)"

lemma ledger_of_Inr: "ledger_of r = Inr l' \<longleftrightarrow> (\<exists>a. r = Inr (a, l'))"
  by (auto simp: ledger_of_def)

fun run :: "env \<Rightarrow> config \<Rightarrow> ledger \<Rightarrow> operation \<Rightarrow> ledger result" where
  "run e cfg l (Apply_Create p) = ledger_of (apply_work_item_create e cfg l p)"
| "run e cfg l (Apply_Legacy_Import p) = ledger_of (apply_legacy_work_item_import e cfg l p)"
| "run e cfg l (Add_Task_Version c) = ledger_of (add_task_version e cfg l c)"
| "run e cfg l (Create_Attempt c) = ledger_of (create_execution_attempt e cfg l c)"
| "run e cfg l (Register_Artifact c) = ledger_of (register_artifact_reference e cfg l c)"
| "run e cfg l (Bind_Historical c) = ledger_of (bind_historical_execution_attempt e cfg l c)"
| "run e cfg l (Complete_Attempt c) = ledger_of (complete_execution_attempt e cfg l c)"
| "run e cfg l (Record_Decision c pc) = ledger_of (record_review_decision e cfg l c pc)"
| "run e cfg l (Apply_Transition p pc) = ledger_of (apply_work_item_transition e cfg l p pc)"
| "run e cfg l (Apply_Blocker c) = ledger_of (apply_blocker e cfg l c)"
| "run e cfg l (Clear_Blocker c) = ledger_of (clear_blocker e cfg l c)"
| "run e cfg l (Create_Receipt c) = ledger_of (create_delivery_receipt e cfg l c)"
| "run e cfg l (Retry_Delivery c) = ledger_of (retry_delivery e cfg l c)"
| "run e cfg l (Acknowledge_Delivery c) = ledger_of (acknowledge_delivery e cfg l c)"
| "run e cfg l (Outbox_Result c) = ledger_of (record_outbox_delivery_result e cfg l c)"
| "run e cfg l (Recover_Outbox c) = ledger_of (recover_outbox_event e cfg l c)"

inductive step :: "ledger \<Rightarrow> ledger \<Rightarrow> bool" where
  step: "run e cfg l oper = Inr l' \<Longrightarrow> step l l'"

inductive reachable :: "ledger \<Rightarrow> bool" where
  reach_empty: "reachable empty_ledger"
| reach_step: "reachable l \<Longrightarrow> step l l' \<Longrightarrow> reachable l'"

inductive_cases stepE: "step l l'"

section \<open>Shapes of a change\<close>

definition applied :: "gate_row \<Rightarrow> bool" where
  "applied g \<longleftrightarrow> ge_outcome g = ''transition_applied''"

definition move_item :: "string \<Rightarrow> string \<Rightarrow> string \<Rightarrow> work_item_row list \<Rightarrow> work_item_row list" where
  "move_item w s t = update_where (\<lambda>r. wi_id r = w)
     (\<lambda>r. r\<lparr>wi_state := s, wi_state_version := wi_state_version r + 1, wi_updated_at := t\<rparr>)"

definition bump_task :: "string \<Rightarrow> int \<Rightarrow> string \<Rightarrow> work_item_row list \<Rightarrow> work_item_row list" where
  "bump_task w v t = update_where (\<lambda>r. wi_id r = w)
     (\<lambda>r. r\<lparr>wi_current_task_version := v, wi_state_version := wi_state_version r + 1, wi_updated_at := t\<rparr>)"

inductive change :: "ledger \<Rightarrow> ledger \<Rightarrow> bool" where
  Replay: "change l l"
| New_Item:
    "\<not> has_work_item l w \<Longrightarrow> wi_id r = w \<Longrightarrow> wi_state r = ''proposed'' \<Longrightarrow> wi_state_version r = 0
      \<Longrightarrow> wi_current_task_version r = 1 \<Longrightarrow> tv_work_item_id t = w \<Longrightarrow> tv_task_version t = 1
      \<Longrightarrow> \<forall>a\<in>set as. ea_work_item_id a = w \<Longrightarrow> is_stable_id_str w ''work_item''
      \<Longrightarrow> change l (l\<lparr>work_items := work_items l @ [r], task_versions := task_versions l @ [t],
                    external_associations := external_associations l @ as\<rparr>)"
| New_Task:
    "row_with wi_id w (work_items l) = Some item \<Longrightarrow> wi_state item \<notin> set TERMINAL_WORK_ITEM_STATES
      \<Longrightarrow> wi_state item \<noteq> ''submitted'' \<Longrightarrow> v = wi_current_task_version item + 1
      \<Longrightarrow> tv_work_item_id t = w \<Longrightarrow> tv_task_version t = v
      \<Longrightarrow> \<forall>a\<in>set as. ea_work_item_id a = w
      \<Longrightarrow> change l (l\<lparr>work_items := bump_task w v at (work_items l), task_versions := task_versions l @ [t],
                    external_associations := external_associations l @ as\<rparr>)"
| New_Runtime_Attempt:
    "new_attempt_effect l row ''claim'' l' \<Longrightarrow> at_kind row = ''runtime''
      \<Longrightarrow> at_status row \<in> {''claimed'', ''running''} \<Longrightarrow> at_completion_event_key row = None
      \<Longrightarrow> row_with wi_id (at_work_item_id row) (work_items l) = Some item
      \<Longrightarrow> wi_state item \<notin> set TERMINAL_WORK_ITEM_STATES \<Longrightarrow> wi_state item \<noteq> ''submitted''
      \<Longrightarrow> wi_current_task_version item = at_task_version row \<Longrightarrow> change l l'"
| New_Historical_Attempt:
    "new_attempt_effect l row ''historical_binding'' l' \<Longrightarrow> at_kind row = ''historical''
      \<Longrightarrow> at_status row \<in> {''completed'', ''failed'', ''cancelled''} \<Longrightarrow> at_completion_event_key row = None
      \<Longrightarrow> change l l'"
| Completion:
    "row_with at_id i (execution_attempts l) = Some attempt \<Longrightarrow> at_kind attempt = ''runtime''
      \<Longrightarrow> at_completion_event_key attempt = None \<Longrightarrow> status \<in> {''completed'', ''failed'', ''cancelled''}
      \<Longrightarrow> ae_attempt_id ev = i \<Longrightarrow> ae_event_type ev = ''completion'' \<Longrightarrow> ae_source_event_key ev = key
      \<Longrightarrow> \<forall>x\<in>set (attempt_events l). ae_source_event_key x \<noteq> key
      \<Longrightarrow> \<forall>r\<in>set rows. has_task l (ar_work_item_id r) (ar_task_version r)
            \<and> (\<exists>item. row_with wi_id (ar_work_item_id r) (work_items l) = Some item
                    \<and> wi_state item \<notin> set TERMINAL_WORK_ITEM_STATES)
      \<Longrightarrow> distinct (map ar_id (artifact_refs l)) \<longrightarrow> distinct (map ar_id (artifact_refs l @ rows))
      \<Longrightarrow> change l (l\<lparr>execution_attempts := update_where (\<lambda>r. at_id r = i \<and> at_completion_event_key r = None)
                    (complete_attempt_row status key t m) (execution_attempts l),
                 attempt_events := attempt_events l @ [ev], artifact_refs := artifact_refs l @ rows\<rparr>)"
| New_Artifact:
    "artifact_fits l row \<Longrightarrow> \<forall>r\<in>set (artifact_refs l). ar_id r \<noteq> ar_id row
      \<Longrightarrow> change l (l\<lparr>artifact_refs := artifact_refs l @ [row]\<rparr>)"
| New_Decision:
    "row_with wi_id (dr_work_item_id d) (work_items l) = Some item
      \<Longrightarrow> wi_state item \<notin> set TERMINAL_WORK_ITEM_STATES
      \<Longrightarrow> wi_current_task_version item = dr_task_version d
      \<Longrightarrow> has_task l (dr_work_item_id d) (dr_task_version d)
      \<Longrightarrow> \<forall>x\<in>set (decision_records l). dr_id x \<noteq> dr_id d
      \<Longrightarrow> dr_supersedes d \<in> insert None (Some ` dr_id ` set (decision_records l))
      \<Longrightarrow> change l (l\<lparr>decision_records := decision_records l @ [d]\<rparr>)"
| Gate_Applied:
    "row_with wi_id (tc_work_item_id c) (work_items l) = Some item \<Longrightarrow> transition_ok l item c rq
      \<Longrightarrow> ge_work_item_id g = tc_work_item_id c \<Longrightarrow> ge_task_version g = tc_task_version c
      \<Longrightarrow> ge_from_state g = wi_state item \<Longrightarrow> ge_target_state g = tc_target_state c
      \<Longrightarrow> ge_outcome g = ''transition_applied''
      \<Longrightarrow> \<forall>g'\<in>set (gate_events l). ge_id g' \<noteq> ge_id g \<and> ge_preview_id g' \<noteq> ge_preview_id g
      \<Longrightarrow> has_task l (tc_work_item_id c) (tc_task_version c)
      \<Longrightarrow> if tc_target_state c = ''accepted''
          then \<exists>m. ms = [m] \<and> manifest_for e c g l m
                 \<and> (\<forall>m'\<in>set (acceptance_manifests l). am_work_item_id m' \<noteq> tc_work_item_id c)
          else ms = []
      \<Longrightarrow> au_work_item_id a = tc_work_item_id c \<Longrightarrow> ob_work_item_id x = tc_work_item_id c
      \<Longrightarrow> change l (l\<lparr>work_items := move_item (tc_work_item_id c) (tc_target_state c) t (work_items l),
                    gate_events := gate_events l @ [g], acceptance_manifests := acceptance_manifests l @ ms,
                    audit_events := audit_events l @ [a], outbox_events := outbox_events l @ [x]\<rparr>)"
| Gate_Rejected:
    "ge_outcome g = ''transition_rejected'' \<Longrightarrow> has_work_item l (ge_work_item_id g)
      \<Longrightarrow> \<forall>g'\<in>set (gate_events l). ge_id g' \<noteq> ge_id g \<and> ge_preview_id g' \<noteq> ge_preview_id g
      \<Longrightarrow> has_task l (ge_work_item_id g) (ge_task_version g)
      \<Longrightarrow> change l (l\<lparr>gate_events := gate_events l @ [g],
                    audit_events := audit_events l @ [a], outbox_events := outbox_events l @ [x]\<rparr>)"
| Side: "side_effect_only l l' \<Longrightarrow> change l l'"

section \<open>Every committed command is a change\<close>

text \<open>What a transition transaction that is not a replay records: an applied gate moves the work item,
  a rejected one leaves it.\<close>

definition gate_applies ::
  "env \<Rightarrow> bound_transition \<Rightarrow> work_item_row \<Rightarrow> gate_row \<Rightarrow> string \<Rightarrow> ledger \<Rightarrow> ledger \<Rightarrow> bool" where
  "gate_applies e c item g t l l' \<longleftrightarrow> (\<exists>rq ms a x. transition_ok l item c rq \<and> ge_outcome g = ''transition_applied''
     \<and> (\<forall>g'\<in>set (gate_events l). ge_id g' \<noteq> ge_id g \<and> ge_preview_id g' \<noteq> ge_preview_id g)
     \<and> has_task l (tc_work_item_id c) (tc_task_version c)
     \<and> (if tc_target_state c = ''accepted''
        then \<exists>m. ms = [m] \<and> manifest_for e c g l m
               \<and> (\<forall>m'\<in>set (acceptance_manifests l). am_work_item_id m' \<noteq> tc_work_item_id c)
        else ms = [])
     \<and> au_work_item_id a = tc_work_item_id c \<and> ob_work_item_id x = tc_work_item_id c
     \<and> l' = l\<lparr>work_items := move_item (tc_work_item_id c) (tc_target_state c) t (work_items l),
              gate_events := gate_events l @ [g], acceptance_manifests := acceptance_manifests l @ ms,
              audit_events := audit_events l @ [a], outbox_events := outbox_events l @ [x]\<rparr>)"

definition gate_rejects :: "bound_transition \<Rightarrow> work_item_row \<Rightarrow> gate_row \<Rightarrow> ledger \<Rightarrow> ledger \<Rightarrow> bool" where
  "gate_rejects c item g l l' \<longleftrightarrow> (\<exists>a x. (\<nexists>rq. transition_ok l item c rq) \<and> ge_outcome g = ''transition_rejected''
     \<and> (\<forall>g'\<in>set (gate_events l). ge_id g' \<noteq> ge_id g \<and> ge_preview_id g' \<noteq> ge_preview_id g)
     \<and> has_task l (tc_work_item_id c) (tc_task_version c)
     \<and> l' = l\<lparr>gate_events := gate_events l @ [g],
              audit_events := audit_events l @ [a], outbox_events := outbox_events l @ [x]\<rparr>)"

lemma rejected_facts:
  assumes "write_gate_facts e c g l = Inr l'" "ge_outcome g = ''transition_rejected''"
    and "ge_work_item_id g = tc_work_item_id c" "ge_task_version g = tc_task_version c"
    and "\<nexists>rq. transition_ok l item c rq"
  shows "gate_rejects c item g l l'"
proof -
  from write_gate_facts_effect [OF assms(1)] obtain ms a x where
    l': "l' = l\<lparr>gate_events := gate_events l @ [g], acceptance_manifests := acceptance_manifests l @ ms,
            audit_events := audit_events l @ [a], outbox_events := outbox_events l @ [x]\<rparr>"
    and f: "gate_facts e c g l ms a x" by blast
  from f have "\<forall>g'\<in>set (gate_events l). ge_id g' \<noteq> ge_id g \<and> ge_preview_id g' \<noteq> ge_preview_id g"
    and "has_task l (tc_work_item_id c) (tc_task_version c)" and "ms = []"
    unfolding gate_facts_def by (simp_all add: assms(2-4))
  then show ?thesis using l' assms(2,5) unfolding gate_rejects_def by (intro exI [of _ a] exI [of _ x]) simp
qed

lemma applied_facts:
  assumes wr: "write_gate_facts e c g (l\<lparr>work_items := move_item (tc_work_item_id c) (tc_target_state c) t (work_items l)\<rparr>)
      = Inr l'"
    and g: "ge_outcome g = ''transition_applied''" "ge_work_item_id g = tc_work_item_id c"
      "ge_task_version g = tc_task_version c"
    and ok: "transition_ok l item c rq"
  shows "gate_applies e c item g t l l'"
proof -
  let ?l1 = "l\<lparr>work_items := move_item (tc_work_item_id c) (tc_target_state c) t (work_items l)\<rparr>"
  have "assert_artifact ?l1 = assert_artifact l" by (intro ext) (simp add: assert_artifact_def)
  then have "assert_artifacts ?l1 = assert_artifacts l" by (intro ext) (simp add: assert_artifacts_def)
  then have mf: "manifest_for e c g ?l1 m = manifest_for e c g l m" for m by (simp add: manifest_for_def)
  have ht: "has_task ?l1 = has_task l" by (intro ext) (simp add: has_task_def)
  from write_gate_facts_effect [OF wr] obtain ms a x where
    l': "l' = ?l1\<lparr>gate_events := gate_events ?l1 @ [g], acceptance_manifests := acceptance_manifests ?l1 @ ms,
            audit_events := audit_events ?l1 @ [a], outbox_events := outbox_events ?l1 @ [x]\<rparr>"
    and f: "gate_facts e c g ?l1 ms a x" by blast
  from f have "if tc_target_state c = ''accepted''
        then \<exists>m. ms = [m] \<and> manifest_for e c g l m \<and> (\<forall>m'\<in>set (acceptance_manifests l). am_work_item_id m' \<noteq> tc_work_item_id c)
        else ms = []"
    and "au_work_item_id a = tc_work_item_id c" "ob_work_item_id x = tc_work_item_id c"
    and "has_task l (tc_work_item_id c) (tc_task_version c)"
    and "\<forall>g'\<in>set (gate_events l). ge_id g' \<noteq> ge_id g \<and> ge_preview_id g' \<noteq> ge_preview_id g"
    unfolding gate_facts_def mf ht g by (simp_all split: if_split_asm)
  then show ?thesis
    unfolding gate_applies_def using l' ok g(1)
    by (intro exI [of _ rq] exI [of _ ms] exI [of _ a] exI [of _ x]) simp
qed

lemma transition_transaction_effect:
  assumes d: "distinct (map wi_id (work_items l))"
    and tx: "transition_transaction e c gid pid dg t l = Inr ((g, replay), l')"
  shows "(replay \<and> l' = l \<and> existing_gate l pid c = Some g \<and> ge_command_digest g = dg)
    \<or> (\<not> replay \<and> (\<exists>item reason outcome. row_with wi_id (tc_work_item_id c) (work_items l) = Some item
        \<and> g = gate_row_of gid c (wi_state item) outcome reason dg pid
                (transition_result_of (wi_state item) (tc_target_state c)) t
        \<and> (gate_applies e c item g t l l' \<or> gate_rejects c item g l l')))"
proof (cases "existing_gate l pid c")
  case (Some g')
  with tx show ?thesis by (auto simp: transition_transaction_def split: if_splits)
next
  case None
  with tx obtain item ev where
    item: "row_with wi_id (tc_work_item_id c) (work_items l) = Some item"
    and ev: "evaluate_transition l item c = Inr ev"
    and body: "(let (l1, matched) = (if ev_eligible ev then cas_state c (wi_state item) t l else (l, False));
             outcome = (if matched then ''transition_applied'' else ''transition_rejected'');
             reason_code = (if ev_eligible ev \<and> \<not> matched then ''CAS_CONFLICT'' else ev_reason_code ev);
             g = gate_row_of gid c (wi_state item) outcome reason_code dg pid
                   (transition_result_of (wi_state item) (tc_target_state c)) t
         in ebind (write_gate_facts e c g l1) (\<lambda>l2. Inr ((g, False), l2))) = Inr ((g, replay), l')"
    unfolding transition_transaction_def by auto
  have shape: ?thesis if "\<not> replay" "gate_applies e c item g t l l' \<or> gate_rejects c item g l l'"
    "g = gate_row_of gid c (wi_state item) outcome reason dg pid
       (transition_result_of (wi_state item) (tc_target_state c)) t" for outcome reason
    using that item by blast
  show ?thesis
  proof (cases "ev_eligible ev")
    case False
    then have "\<nexists>rq. transition_ok l item c rq" using ev evaluate_transition_eligible
      by (metis Inr_inject)
    with False body show ?thesis
      by (intro shape disjI2 rejected_facts) (auto simp: Let_def gate_row_of_def)
  next
    case True
    with ev obtain rq where ok: "transition_ok l item c rq" using evaluate_transition_eligible by blast
    with True body show ?thesis
      unfolding cas_matches [OF d item ok] move_item_def [symmetric]
      by (intro shape disjI1 applied_facts [OF _ _ _ _ ok]) (auto simp: Let_def gate_row_of_def)
  qed
qed

lemma transition_transaction_change:
  assumes d: "distinct (map wi_id (work_items l))"
    and tx: "transition_transaction e c gid pid dg t l = Inr ((g, replay), l')"
  shows "change l l'"
  using transition_transaction_effect [OF assms]
proof (elim disjE exE conjE)
  assume "l' = l"
  then show ?thesis by (simp add: Replay)
next
  fix item reason outcome
  assume item: "row_with wi_id (tc_work_item_id c) (work_items l) = Some item"
    and g: "g = gate_row_of gid c (wi_state item) outcome reason dg pid
                (transition_result_of (wi_state item) (tc_target_state c)) t"
    and "gate_applies e c item g t l l'"
  then show ?thesis unfolding gate_applies_def
    by (elim exE conjE) (simp only:, rule Gate_Applied [OF item], auto simp: gate_row_of_def)
next
  fix item reason outcome
  assume item: "row_with wi_id (tc_work_item_id c) (work_items l) = Some item"
    and g: "g = gate_row_of gid c (wi_state item) outcome reason dg pid
                (transition_result_of (wi_state item) (tc_target_state c)) t"
    and r: "gate_rejects c item g l l'"
  then have "has_work_item l (ge_work_item_id g)"
    by (auto simp: has_work_item_def list_ex_iff gate_row_of_def dest: row_with_Some)
  with r g show ?thesis unfolding gate_rejects_def
    by (elim exE conjE) (simp only:, rule Gate_Rejected, auto simp: gate_row_of_def)
qed

lemma apply_create_change:
  assumes "apply_create e cfg l p c oper = Inr (a, l')"
  shows "change l l'"
proof -
  from apply_create_effect [OF assms] consider "l' = l"
    | cr digest pid td as where "is_stable_id_str (ca_work_item_id a) ''work_item''"
      "\<not> has_work_item l (ca_work_item_id a)"
      "\<forall>r\<in>set as. ea_work_item_id r = ca_work_item_id a"
      "l' = l\<lparr>work_items := work_items l @ [new_work_item_row (ca_work_item_id a) cr digest oper pid (isoformat_utc e (e_now e))],
                 task_versions := task_versions l @ [task_version_row_of (ca_work_item_id a) 1 (cr_task cr) td
                                                      (pid @ '':task:1'') (isoformat_utc e (e_now e))],
                 external_associations := external_associations l @ as\<rparr>" by blast
  then show ?thesis
  proof cases
    case 1
    then show ?thesis by (simp add: Replay)
  next
    case (2 cr digest pid td as)
    have "change l (l\<lparr>work_items := work_items l @ [new_work_item_row (ca_work_item_id a) cr digest oper pid (isoformat_utc e (e_now e))],
                 task_versions := task_versions l @ [task_version_row_of (ca_work_item_id a) 1 (cr_task cr) td
                                                      (pid @ '':task:1'') (isoformat_utc e (e_now e))],
                 external_associations := external_associations l @ as\<rparr>)"
      by (rule New_Item [OF 2(2) _ _ _ _ _ _ 2(3,1)]) (simp_all add: new_work_item_row_def task_version_row_of_def)
    with 2(4) show ?thesis by simp
  qed
qed

lemma add_task_version_change:
  assumes "add_task_version e cfg l c = Inr ((row, idem), l')"
  shows "change l l'"
proof -
  from add_task_version_effect [OF assms] consider "l' = l"
    | w v item task digest key as where
      "row_with wi_id w (work_items l) = Some item" "wi_state item \<notin> set TERMINAL_WORK_ITEM_STATES"
      "wi_state item \<noteq> ''submitted''" "v = wi_current_task_version item + 1"
      "\<forall>a\<in>set as. ea_work_item_id a = w"
      "row = task_version_row_of w v task digest key (isoformat_utc e (e_now e))"
      "l' = l\<lparr>work_items := bump_task w v (isoformat_utc e (e_now e)) (work_items l),
                 task_versions := task_versions l @ [row], external_associations := external_associations l @ as\<rparr>"
    unfolding bump_task_def by blast
  then show ?thesis
  proof cases
    case 1
    then show ?thesis by (simp add: Replay)
  next
    case (2 w v item task digest key as)
    then show ?thesis
      by (simp only:) (rule New_Task, (assumption | simp add: task_version_row_of_def)+)
  qed
qed

lemma new_attempt_change:
  assumes "(replay \<and> l' = l \<and> row \<in> set (execution_attempts l))
    \<or> (\<not> replay \<and> new_attempt_effect l row ''claim'' l'
        \<and> at_kind row = ''runtime'' \<and> at_dispatch_authorized row \<and> at_status row \<in> {''claimed'', ''running''}
        \<and> at_completion_event_key row = None
        \<and> (\<exists>item. row_with wi_id (at_work_item_id row) (work_items l) = Some item
              \<and> wi_state item \<notin> set TERMINAL_WORK_ITEM_STATES \<and> wi_state item \<noteq> ''submitted''
              \<and> wi_current_task_version item = at_task_version row))"
  shows "change l l'"
  using assms Replay New_Runtime_Attempt by blast

lemma completion_change:
  assumes "completion_transaction e i status key md arts t l = Inr (a, l')"
    and st: "status \<in> {''completed'', ''failed'', ''cancelled''}"
  shows "change l l'"
  using completion_transaction_effect [OF assms(1)]
proof (elim disjE exE conjE)
  assume "l' = l"
  then show ?thesis by (simp add: Replay)
next
  fix attempt ev rows m
  assume a: "row_with at_id i (execution_attempts l) = Some attempt" "at_kind attempt = ''runtime''"
      "at_completion_event_key attempt = None"
    and l': "l' = l\<lparr>execution_attempts := update_where (\<lambda>r. at_id r = i \<and> at_completion_event_key r = None)
                    (complete_attempt_row status key t m) (execution_attempts l),
                 attempt_events := attempt_events l @ [ev], artifact_refs := artifact_refs l @ rows\<rparr>"
    and e: "ae_attempt_id ev = i" "ae_event_type ev = ''completion''" "ae_source_event_key ev = key"
      "\<forall>x\<in>set (attempt_events l). ae_source_event_key x \<noteq> key"
    and f: "\<forall>r\<in>set rows. artifact_fits (l\<lparr>execution_attempts := execution_attempts l'\<rparr>) r"
    and dd: "distinct (map ar_id (artifact_refs l)) \<longrightarrow> distinct (map ar_id (artifact_refs l @ rows))"
  have "\<forall>r\<in>set rows. has_task l (ar_work_item_id r) (ar_task_version r)
            \<and> (\<exists>item. row_with wi_id (ar_work_item_id r) (work_items l) = Some item
                    \<and> wi_state item \<notin> set TERMINAL_WORK_ITEM_STATES)"
    using f by (simp add: artifact_fits_def has_task_def)
  from Completion [OF a st e this dd] show ?thesis unfolding l' by simp
qed

lemma blocker_side: "blocker_transaction e c ty t l = Inr ((b, replay), l') \<Longrightarrow> side_effect_only l l'"
  by (drule blocker_transaction_effect) (elim disjE exE conjE, simp_all add: side_effect_only_def)

lemma receipt_side:
  "receipt_transaction e i sp w v dst dg key t l = Inr ((row, replay), l') \<Longrightarrow> side_effect_only l l'"
  by (drule receipt_transaction_effect) (elim disjE exE conjE, simp_all add: side_effect_only_def)

lemma retry_side: "retry_transaction e i key delivered err l = Inr ((row, replay), l') \<Longrightarrow> side_effect_only l l'"
  by (drule retry_transaction_effect)
    (elim disjE exE conjE, simp_all add: side_effect_only_def update_where_map)

lemma acknowledge_side: "acknowledge_transaction e i src key l = Inr ((row, replay), l') \<Longrightarrow> side_effect_only l l'"
  by (drule acknowledge_transaction_effect)
    (elim disjE exE conjE, simp_all add: side_effect_only_def update_where_map)

lemma outbox_result_side:
  "outbox_result_transaction e i key delivered err l = Inr ((row, replay), l') \<Longrightarrow> side_effect_only l l'"
  by (drule outbox_result_effect) (elim disjE exE conjE, simp_all add: side_effect_only_def update_where_map)

lemma outbox_recovery_side:
  "outbox_recovery_transaction e i key reason l = Inr ((row, replay), l') \<Longrightarrow> side_effect_only l l'"
  by (drule outbox_recovery_effect) (elim disjE exE conjE, simp_all add: side_effect_only_def update_where_map)

lemmas side_changes = blocker_side receipt_side retry_side acknowledge_side outbox_result_side outbox_recovery_side

definition side_operation :: "operation \<Rightarrow> bool" where
  "side_operation oper \<longleftrightarrow> (case oper of Apply_Blocker _ \<Rightarrow> True | Clear_Blocker _ \<Rightarrow> True
     | Create_Receipt _ \<Rightarrow> True | Retry_Delivery _ \<Rightarrow> True | Acknowledge_Delivery _ \<Rightarrow> True
     | Outbox_Result _ \<Rightarrow> True | Recover_Outbox _ \<Rightarrow> True | _ \<Rightarrow> False)"

lemma side_run:
  assumes "run e cfg l oper = Inr l'" "side_operation oper"
  shows "side_effect_only l l'"
  using assms
  by (cases oper)
    (auto simp: side_operation_def ledger_of_Inr apply_blocker_def clear_blocker_def record_blocker_event_def
      create_delivery_receipt_def retry_delivery_def acknowledge_delivery_def record_outbox_delivery_result_def
      recover_outbox_event_def split: if_split_asm intro: side_changes)

text \<open>In authoritative mode a transition command runs its transaction; otherwise it writes nothing.\<close>

lemma apply_transition_Inr:
  assumes "apply_work_item_transition e cfg l p pc = Inr (a, l')"
  shows "(\<not> authoritative_transitions cfg \<and> l' = l \<and> (\<exists>ev. a = Shadow_Evaluated ev))
    \<or> (authoritative_transitions cfg \<and> (\<exists>c gid pid dg g replay view verified.
        preview_verify e p ''work_item_transition'' = Inr verified
      \<and> verify_signed_transition_authority (preview_command verified) pc = Inr c
      \<and> transition_transaction e c gid pid dg (isoformat_utc e (e_now e)) l = Inr ((g, replay), l')
      \<and> a = Gate_Recorded g replay view))"
  using assms unfolding apply_work_item_transition_def Let_def
  by (auto split: if_split_asm)

theorem run_change:
  assumes d: "distinct (map wi_id (work_items l))" and r: "run e cfg l oper = Inr l'"
  shows "change l l'"
proof (cases "side_operation oper")
  case True
  then show ?thesis using side_run [OF r] Side by blast
next
  case False
  have at: "change l l'" if "create_execution_attempt e cfg l c = Inr ((row, replay), l')" for c row replay
    using create_attempt_effect [OF that] claim_transaction_effect new_attempt_change by blast
  have hist: "change l l'" if "bind_historical_execution_attempt e cfg l c = Inr ((row, replay), l')" for c row replay
    using bind_historical_effect [OF that] historical_transaction_effect Replay New_Historical_Attempt by metis
  have art: "change l l'" if "register_artifact_reference e cfg l c = Inr ((row, replay), l')" for c row replay
    using register_artifact_effect [OF that] Replay New_Artifact by blast
  have dec: "change l l'" if "record_review_decision e cfg l c pc = Inr ((row, replay), l')" for c pc row replay
  proof -
    from that obtain dc where "decision_transaction dc (isoformat_utc e (e_now e)) l = Inr ((row, replay), l')"
      by (auto simp: record_review_decision_def)
    from decision_transaction_effect [OF this] show ?thesis using Replay New_Decision by blast
  qed
  have tr: "change l l'" if "apply_work_item_transition e cfg l p pc = Inr (a, l')" for p pc a
    using apply_transition_Inr [OF that] transition_transaction_change [OF d] Replay by blast
  show ?thesis
    using r False at hist art dec tr
    by (cases oper)
      (auto simp: side_operation_def ledger_of_Inr apply_work_item_create_def apply_legacy_work_item_import_def
        dest: apply_create_change add_task_version_change complete_attempt_effect
        intro: completion_change)
qed

end
