(* ===== verification/LedgerInvariants.thy ===== *)
theory LedgerInvariants
  imports LedgerSystem
begin

text \<open>
  Invariants of every reachable ledger: keys are unique; the task versions of a work item are exactly
  1 up to its current one; the state of a work item is the replay of its applied gate events along
  allowed transitions; the state version counts gates and task versions; an accepted work item, and
  no other, has an acceptance manifest, and none of its current attempts is active.  Then the
  abstract machine \<open>item_step\<close> and the simulation.
\<close>

section \<open>Replaying the gate\<close>

fun replay :: "string \<Rightarrow> gate_row list \<Rightarrow> string option" where
  "replay s [] = Some s"
| "replay s (g # gs) =
     (if ge_from_state g = s \<and> can_transition s (ge_target_state g) then replay (ge_target_state g) gs else None)"

lemma replay_snoc: "replay s (gs @ [g]) = (case replay s gs of None \<Rightarrow> None
    | Some t \<Rightarrow> if ge_from_state g = t \<and> can_transition t (ge_target_state g) then Some (ge_target_state g) else None)"
  by (induction gs arbitrary: s) auto

definition applied_gates :: "ledger \<Rightarrow> string \<Rightarrow> gate_row list" where
  "applied_gates l w = filter (\<lambda>g. ge_work_item_id g = w \<and> applied g) (gate_events l)"

definition manifests_of :: "ledger \<Rightarrow> string \<Rightarrow> manifest_row list" where
  "manifests_of l w = filter (\<lambda>m. am_work_item_id m = w) (acceptance_manifests l)"

section \<open>The invariant\<close>

definition keys_ok :: "ledger \<Rightarrow> bool" where
  "keys_ok l \<longleftrightarrow> distinct (map wi_id (work_items l))
     \<and> distinct (map (\<lambda>t. (tv_work_item_id t, tv_task_version t)) (task_versions l))
     \<and> distinct (map at_id (execution_attempts l)) \<and> distinct (map ar_id (artifact_refs l))
     \<and> distinct (map dr_id (decision_records l)) \<and> distinct (map ge_id (gate_events l))
     \<and> distinct (map ge_preview_id (gate_events l)) \<and> distinct (map ae_source_event_key (attempt_events l))"

definition refs_ok :: "ledger \<Rightarrow> bool" where
  "refs_ok l \<longleftrightarrow> (\<forall>t\<in>set (task_versions l). has_work_item l (tv_work_item_id t))
     \<and> (\<forall>a\<in>set (execution_attempts l). has_task l (at_work_item_id a) (at_task_version a))
     \<and> (\<forall>a\<in>set (artifact_refs l). has_task l (ar_work_item_id a) (ar_task_version a))
     \<and> (\<forall>d\<in>set (decision_records l). has_task l (dr_work_item_id d) (dr_task_version d))
     \<and> (\<forall>g\<in>set (gate_events l). has_task l (ge_work_item_id g) (ge_task_version g))
     \<and> (\<forall>m\<in>set (acceptance_manifests l). has_task l (am_work_item_id m) (am_task_version m))
     \<and> (\<forall>ev\<in>set (attempt_events l). has_attempt l (ae_attempt_id ev))"

text \<open>A runtime attempt is active until its one completion event; a historical one never is.\<close>

definition attempt_ok :: "attempt_row \<Rightarrow> bool" where
  "attempt_ok a \<longleftrightarrow>
    (if at_kind a = ''runtime''
     then (at_completion_event_key a = None \<longleftrightarrow> at_status a \<in> {''claimed'', ''running''})
     else at_completion_event_key a = None \<and> at_status a \<notin> {''claimed'', ''running''})"

definition item_ok :: "ledger \<Rightarrow> work_item_row \<Rightarrow> bool" where
  "item_ok l r \<longleftrightarrow> 1 \<le> wi_current_task_version r
     \<and> (\<forall>v. has_task l (wi_id r) v \<longleftrightarrow> 1 \<le> v \<and> v \<le> wi_current_task_version r)
     \<and> replay ''proposed'' (applied_gates l (wi_id r)) = Some (wi_state r)
     \<and> wi_state_version r = int (length (applied_gates l (wi_id r))) + wi_current_task_version r - 1
     \<and> length (manifests_of l (wi_id r)) = (if wi_state r = ''accepted'' then 1 else 0)
     \<and> (\<forall>m\<in>set (manifests_of l (wi_id r)). am_task_version m = wi_current_task_version r
          \<and> am_accepted_state_version m = wi_state_version r)
     \<and> (wi_state r = ''accepted'' \<longrightarrow> active_attempts l (wi_id r) (wi_current_task_version r) = [])"

definition ledger_inv :: "ledger \<Rightarrow> bool" where
  "ledger_inv l \<longleftrightarrow> keys_ok l \<and> refs_ok l \<and> (\<forall>a\<in>set (execution_attempts l). attempt_ok a)
     \<and> (\<forall>r\<in>set (work_items l). item_ok l r)"

lemma inv_empty: "ledger_inv empty_ledger"
  by (simp add: ledger_inv_def keys_ok_def refs_ok_def empty_ledger_def)

section \<open>Lookups after an update\<close>

lemma has_task_append: "has_task (l\<lparr>task_versions := task_versions l @ [t]\<rparr>) w v \<longleftrightarrow>
    has_task l w v \<or> (tv_work_item_id t = w \<and> tv_task_version t = v)"
  by (auto simp: has_task_def)

lemma has_task_work_item: "refs_ok l \<Longrightarrow> has_task l w v \<Longrightarrow> has_work_item l w"
  by (auto simp: refs_ok_def has_task_def list_ex_iff)

lemma no_item_no_tasks: "refs_ok l \<Longrightarrow> \<not> has_work_item l w \<Longrightarrow> \<not> has_task l w v"
  using has_task_work_item by blast

lemma no_item_no_rows:
  assumes "refs_ok l" "\<not> has_work_item l w"
  shows "applied_gates l w = []" "manifests_of l w = []"
  using assms no_item_no_tasks [OF assms] unfolding refs_ok_def applied_gates_def manifests_of_def
  by (auto simp: filter_empty_conv)

lemma set_move_item:
  assumes "r' \<in> set (move_item w s t items)"
  shows "(r' \<in> set items \<and> wi_id r' \<noteq> w) \<or>
    (\<exists>r\<in>set items. wi_id r = w \<and> r' = r\<lparr>wi_state := s, wi_state_version := wi_state_version r + 1, wi_updated_at := t\<rparr>)"
  using assms by (auto simp: move_item_def set_update_where split: if_splits)

lemma set_bump_task:
  assumes "r' \<in> set (bump_task w v t items)"
  shows "(r' \<in> set items \<and> wi_id r' \<noteq> w) \<or>
    (\<exists>r\<in>set items. wi_id r = w \<and> r' = r\<lparr>wi_current_task_version := v, wi_state_version := wi_state_version r + 1, wi_updated_at := t\<rparr>)"
  using assms by (auto simp: bump_task_def set_update_where split: if_splits)

lemma ids_move_item [simp]: "map wi_id (move_item w s t items) = map wi_id items"
  by (simp add: move_item_def update_where_map)

lemma ids_bump_task [simp]: "map wi_id (bump_task w v t items) = map wi_id items"
  by (simp add: bump_task_def update_where_map)

lemma has_work_item_iff: "has_work_item l w \<longleftrightarrow> w \<in> set (map wi_id (work_items l))"
  by (auto simp: has_work_item_def list_ex_iff)

lemma has_attempt_iff: "has_attempt l i \<longleftrightarrow> i \<in> set (map at_id (execution_attempts l))"
  by (auto simp: has_attempt_def list_ex_iff)

lemma item_unique:
  "keys_ok l \<Longrightarrow> row_with wi_id w (work_items l) = Some item \<Longrightarrow> r \<in> set (work_items l) \<Longrightarrow> wi_id r = w \<Longrightarrow> r = item"
  unfolding keys_ok_def by (metis option.inject row_with_unique)

section \<open>Preservation\<close>

text \<open>Commands that touch none of the tables an item's conditions read.\<close>

lemma item_ok_cong:
  assumes "task_versions l' = task_versions l" "gate_events l' = gate_events l"
    "acceptance_manifests l' = acceptance_manifests l" "execution_attempts l' = execution_attempts l"
  shows "item_ok l' r \<longleftrightarrow> item_ok l r"
  by (simp add: item_ok_def has_task_def applied_gates_def manifests_of_def active_attempts_def assms)

lemma inv_cong:
  assumes "ledger_inv l" "work_items l' = work_items l" "task_versions l' = task_versions l"
    "gate_events l' = gate_events l" "acceptance_manifests l' = acceptance_manifests l"
    "execution_attempts l' = execution_attempts l" "artifact_refs l' = artifact_refs l"
    "decision_records l' = decision_records l" "attempt_events l' = attempt_events l"
  shows "ledger_inv l'"
  using assms item_ok_cong [of l' l]
  by (simp add: ledger_inv_def keys_ok_def refs_ok_def has_task_def has_work_item_def has_attempt_def)

lemma inv_new_item:
  assumes inv: "ledger_inv l" and new: "\<not> has_work_item l w" and r: "wi_id r = w" "wi_state r = ''proposed''"
    "wi_state_version r = 0" "wi_current_task_version r = 1" and t: "tv_work_item_id t = w" "tv_task_version t = 1"
  shows "ledger_inv (l\<lparr>work_items := work_items l @ [r], task_versions := task_versions l @ [t],
                    external_associations := x\<rparr>)" (is "ledger_inv ?l")
proof -
  have k: "keys_ok l" and f: "refs_ok l" using inv by (simp_all add: ledger_inv_def)
  have nt: "\<not> has_task l w v" for v using no_item_no_tasks [OF f new] .
  have ht: "has_task ?l w' v \<longleftrightarrow> has_task l w' v \<or> (w' = w \<and> v = 1)" for w' v
    using t by (auto simp: has_task_def)
  have hw: "has_work_item ?l w' \<longleftrightarrow> has_work_item l w' \<or> w' = w" for w'
    using r by (auto simp: has_work_item_def)
  have ha: "has_attempt ?l i = has_attempt l i" for i by (simp add: has_attempt_def)
  have keys: "keys_ok ?l"
    using k new nt [of 1] r t by (auto simp: keys_ok_def has_work_item_iff has_task_def list_ex_iff)
  have refs: "refs_ok ?l"
    using f t by (auto simp: refs_ok_def ht hw ha)
  have old: "item_ok ?l q" if q: "q \<in> set (work_items l)" for q
  proof -
    have "wi_id q \<noteq> w" using new q by (auto simp: has_work_item_iff)
    then have "item_ok ?l q \<longleftrightarrow> item_ok l q"
      by (simp add: item_ok_def ht applied_gates_def manifests_of_def active_attempts_def)
    with q inv show ?thesis by (simp add: ledger_inv_def)
  qed
  have "item_ok ?l r"
    using r no_item_no_rows [OF f new] nt
    by (auto simp: item_ok_def ht applied_gates_def manifests_of_def)
  with old keys refs inv show ?thesis by (auto simp: ledger_inv_def)
qed

lemma inv_new_task:
  assumes inv: "ledger_inv l" and item: "row_with wi_id w (work_items l) = Some item"
    and st: "wi_state item \<notin> set TERMINAL_WORK_ITEM_STATES"
    and v: "v = wi_current_task_version item + 1" and t: "tv_work_item_id t = w" "tv_task_version t = v"
  shows "ledger_inv (l\<lparr>work_items := bump_task w v at (work_items l), task_versions := task_versions l @ [t],
                    external_associations := x\<rparr>)" (is "ledger_inv ?l")
proof -
  have k: "keys_ok l" and f: "refs_ok l" using inv by (simp_all add: ledger_inv_def)
  have mem: "item \<in> set (work_items l)" "wi_id item = w" using item by (auto dest: row_with_Some)
  have io: "item_ok l item" using inv mem by (simp add: ledger_inv_def)
  have nt: "\<not> has_task l w v" using io mem v by (simp add: item_ok_def)
  have ht: "has_task ?l w' u \<longleftrightarrow> has_task l w' u \<or> (w' = w \<and> u = v)" for w' u
    using t by (auto simp: has_task_def)
  have hw: "has_work_item ?l w' \<longleftrightarrow> has_work_item l w'" for w'
    by (simp add: has_work_item_iff)
  have ha: "has_attempt ?l i = has_attempt l i" for i by (simp add: has_attempt_def)
  have ag: "applied_gates ?l u = applied_gates l u" "manifests_of ?l u = manifests_of l u" for u
    by (simp_all add: applied_gates_def manifests_of_def)
  have "has_work_item l w" using mem by (auto simp: has_work_item_iff)
  with f t have refs: "refs_ok ?l" by (auto simp: refs_ok_def ht hw ha)
  have keys: "keys_ok ?l" using k nt t by (auto simp: keys_ok_def has_task_def list_ex_iff)
  have "item_ok ?l q" if q: "q \<in> set (work_items ?l)" for q
  proof -
    from q have "q \<in> set (bump_task w v at (work_items l))" by simp
    from set_bump_task [OF this] show ?thesis
    proof
      assume a: "q \<in> set (work_items l) \<and> wi_id q \<noteq> w"
      then have "item_ok ?l q \<longleftrightarrow> item_ok l q"
        by (simp add: item_ok_def ht applied_gates_def manifests_of_def active_attempts_def)
      with a inv show ?thesis by (simp add: ledger_inv_def)
    next
      assume "\<exists>r\<in>set (work_items l). wi_id r = w \<and> q = r\<lparr>wi_current_task_version := v,
          wi_state_version := wi_state_version r + 1, wi_updated_at := at\<rparr>"
      then have qq: "q = item\<lparr>wi_current_task_version := v,
          wi_state_version := wi_state_version item + 1, wi_updated_at := at\<rparr>"
        using item_unique [OF k item] by blast
      have "wi_state item \<noteq> ''accepted''" using st by (auto simp: TERMINAL_WORK_ITEM_STATES_def)
      then show ?thesis
        using io mem v unfolding item_ok_def ht ag qq by (auto simp: active_attempts_def)
    qed
  qed
  with keys refs inv show ?thesis by (auto simp: ledger_inv_def)
qed

text \<open>New attempts: an accepted item gets no active one, since only open items start runtime attempts.\<close>

lemma active_attempts_Nil: "active_attempts l w v = [] \<longleftrightarrow>
    (\<forall>a\<in>set (execution_attempts l). at_work_item_id a = w \<longrightarrow> at_task_version a = v \<longrightarrow> at_kind a = ''runtime''
      \<longrightarrow> at_status a \<notin> {''claimed'', ''running''})"
proof -
  have "active_attempts l w v = [] \<longleftrightarrow> set (active_attempts l w v) = {}" by simp
  then show ?thesis by (auto simp: active_attempts_def simp del: set_empty)
qed

lemma inv_new_attempt:
  assumes inv: "ledger_inv l" and eff: "new_attempt_effect l row event l'" and ok: "attempt_ok row"
    and open_item: "at_kind row = ''runtime'' \<Longrightarrow>
      \<exists>item. row_with wi_id (at_work_item_id row) (work_items l) = Some item \<and> wi_state item \<noteq> ''accepted''"
  shows "ledger_inv l'"
proof -
  have k: "keys_ok l" and f: "refs_ok l" using inv by (simp_all add: ledger_inv_def)
  from eff obtain as ev where
    l': "l' = l\<lparr>execution_attempts := execution_attempts l @ [row],
                external_associations := external_associations l @ as, attempt_events := attempt_events l @ [ev]\<rparr>"
    and ev: "ae_attempt_id ev = at_id row" "\<forall>x\<in>set (attempt_events l). ae_source_event_key x \<noteq> ae_source_event_key ev"
    and task: "has_task l (at_work_item_id row) (at_task_version row)"
    and fresh: "\<forall>r\<in>set (execution_attempts l). at_id r \<noteq> at_id row"
    unfolding new_attempt_effect_def by blast
  have ht: "has_task l' w v = has_task l w v" "has_work_item l' w = has_work_item l w" for w v
    by (simp_all add: l' has_task_def has_work_item_def)
  have ha: "has_attempt l' i \<longleftrightarrow> has_attempt l i \<or> i = at_id row" for i by (auto simp: l' has_attempt_def)
  have keys: "keys_ok l'" using k fresh ev by (auto simp: keys_ok_def l')
  have "\<forall>ev\<in>set (attempt_events l'). has_attempt l' (ae_attempt_id ev)"
    using f ev by (auto simp: refs_ok_def ha) (auto simp: l')
  then have refs: "refs_ok l'" using f task unfolding refs_ok_def ht by (auto simp: l')
  have "item_ok l' q" if q: "q \<in> set (work_items l)" for q
  proof -
    have iq: "item_ok l q" using q inv by (simp add: ledger_inv_def)
    have "active_attempts l' (wi_id q) (wi_current_task_version q) = []" if acc: "wi_state q = ''accepted''"
    proof -
      have "\<not> (at_work_item_id row = wi_id q \<and> at_kind row = ''runtime'')"
      proof
        assume a: "at_work_item_id row = wi_id q \<and> at_kind row = ''runtime''"
        with open_item obtain item where "row_with wi_id (wi_id q) (work_items l) = Some item" "wi_state item \<noteq> ''accepted''"
          by auto
        with item_unique [OF k _ q refl] acc show False by blast
      qed
      with iq acc show ?thesis
        unfolding item_ok_def active_attempts_Nil by (auto simp: l')
    qed
    moreover have "applied_gates l' u = applied_gates l u" "manifests_of l' u = manifests_of l u" for u
      by (simp_all add: applied_gates_def manifests_of_def l')
    ultimately show ?thesis using iq unfolding item_ok_def ht by simp
  qed
  with keys refs inv ok show ?thesis by (auto simp: ledger_inv_def l')
qed

lemma inv_completion:
  assumes inv: "ledger_inv l" and attempt: "row_with at_id i (execution_attempts l) = Some attempt"
    and st: "status \<in> {''completed'', ''failed'', ''cancelled''}" and ev: "ae_attempt_id ev = i"
    "\<forall>x\<in>set (attempt_events l). ae_source_event_key x \<noteq> ae_source_event_key ev"
    and rows: "\<forall>r\<in>set rows. has_task l (ar_work_item_id r) (ar_task_version r)"
    and dd: "distinct (map ar_id (artifact_refs l)) \<longrightarrow> distinct (map ar_id (artifact_refs l @ rows))"
    and rt: "at_kind attempt = ''runtime''"
  shows "ledger_inv (l\<lparr>execution_attempts := update_where (\<lambda>r. at_id r = i \<and> at_completion_event_key r = None)
                    (complete_attempt_row status key t m) (execution_attempts l),
                 attempt_events := attempt_events l @ [ev], artifact_refs := artifact_refs l @ rows\<rparr>)" (is "ledger_inv ?l")
proof -
  have k: "keys_ok l" and f: "refs_ok l" using inv by (simp_all add: ledger_inv_def)
  let ?c = "complete_attempt_row status key t m"
  have same [simp]: "at_id (?c r) = at_id r" "at_work_item_id (?c r) = at_work_item_id r"
    "at_task_version (?c r) = at_task_version r" "at_kind (?c r) = at_kind r" "at_status (?c r) = status"
    "at_completion_event_key (?c r) = Some key" for r
    by (simp_all add: complete_attempt_row_def)
  have rows_c: "\<exists>r0\<in>set (execution_attempts l). r = r0 \<or> (r = ?c r0 \<and> at_id r0 = i)"
    if "r \<in> set (execution_attempts ?l)" for r
    using that by (auto simp: set_update_where split: if_splits)
  have mem: "attempt \<in> set (execution_attempts l)" "at_id attempt = i" using attempt by (auto dest: row_with_Some)
  have uniq: "r = attempt" if "r \<in> set (execution_attempts l)" "at_id r = i" for r
    using k attempt that unfolding keys_ok_def by (metis option.inject row_with_unique)
  have ht: "has_task ?l w v = has_task l w v" "has_work_item ?l w = has_work_item l w" for w v
    by (simp_all add: has_task_def has_work_item_def)
  have "map at_id (execution_attempts ?l) = map at_id (execution_attempts l)" by (simp add: update_where_map)
  then have ha: "has_attempt ?l j = has_attempt l j" for j
    by (simp only: has_attempt_iff)
  have keys: "keys_ok ?l" using k dd ev by (auto simp: keys_ok_def update_where_map)
  have "has_attempt l i" using mem by (auto simp: has_attempt_def list_ex_iff)
  then have "\<forall>x\<in>set (attempt_events ?l). has_attempt ?l (ae_attempt_id x)"
    using f ev unfolding refs_ok_def ha by simp
  moreover have "\<forall>a\<in>set (execution_attempts ?l). has_task l (at_work_item_id a) (at_task_version a)"
    using f rows_c unfolding refs_ok_def by fastforce
  ultimately have refs: "refs_ok ?l" using f rows unfolding refs_ok_def ht by auto
  have att: "\<forall>a\<in>set (execution_attempts ?l). attempt_ok a"
  proof
    fix a assume "a \<in> set (execution_attempts ?l)"
    from rows_c [OF this] obtain r0 where r0: "r0 \<in> set (execution_attempts l)" "a = r0 \<or> (a = ?c r0 \<and> at_id r0 = i)"
      by blast
    show "attempt_ok a"
    proof (cases "a = r0")
      case True
      then show ?thesis using r0 inv by (simp add: ledger_inv_def)
    next
      case False
      with r0 uniq have "a = ?c attempt" by auto
      then show ?thesis using rt st by (auto simp: attempt_ok_def)
    qed
  qed
  have ag: "applied_gates ?l u = applied_gates l u" "manifests_of ?l u = manifests_of l u" for u
    by (simp_all add: applied_gates_def manifests_of_def)
  have act: "active_attempts ?l w v = []" if "active_attempts l w v = []" for w v
    unfolding active_attempts_Nil
  proof (intro ballI impI)
    fix a assume a: "a \<in> set (execution_attempts ?l)" "at_work_item_id a = w" "at_task_version a = v" "at_kind a = ''runtime''"
    from rows_c [OF a(1)] obtain r0 where r0: "r0 \<in> set (execution_attempts l)" "a = r0 \<or> a = ?c r0" by blast
    from r0(2) show "at_status a \<notin> {''claimed'', ''running''}"
    proof
      assume "a = r0"
      with that [unfolded active_attempts_Nil, rule_format, OF r0(1)] a(2-4) show ?thesis by simp
    next
      assume "a = ?c r0"
      with st show ?thesis by auto
    qed
  qed
  have "item_ok ?l q" if q: "q \<in> set (work_items l)" for q
  proof -
    have "item_ok l q" using q inv by (simp add: ledger_inv_def)
    then show ?thesis using act unfolding item_ok_def ht ag by blast
  qed
  with keys refs att show ?thesis by (simp add: ledger_inv_def)
qed

lemma inv_gate_applied:
  assumes inv: "ledger_inv l" and item: "row_with wi_id (tc_work_item_id c) (work_items l) = Some item"
    and ok: "transition_ok l item c rq"
    and g: "ge_work_item_id g = tc_work_item_id c" "ge_task_version g = tc_task_version c"
      "ge_from_state g = wi_state item" "ge_target_state g = tc_target_state c" "ge_outcome g = ''transition_applied''"
    and fresh: "\<forall>g'\<in>set (gate_events l). ge_id g' \<noteq> ge_id g \<and> ge_preview_id g' \<noteq> ge_preview_id g"
    and task: "has_task l (tc_work_item_id c) (tc_task_version c)"
    and ms: "if tc_target_state c = ''accepted''
          then \<exists>m. ms = [m] \<and> manifest_for e c g l m
                 \<and> (\<forall>m'\<in>set (acceptance_manifests l). am_work_item_id m' \<noteq> tc_work_item_id c)
          else ms = []"
  shows "ledger_inv (l\<lparr>work_items := move_item (tc_work_item_id c) (tc_target_state c) t (work_items l),
                    gate_events := gate_events l @ [g], acceptance_manifests := acceptance_manifests l @ ms,
                    audit_events := au, outbox_events := ob\<rparr>)" (is "ledger_inv ?l")
proof -
  let ?w = "tc_work_item_id c"
  have k: "keys_ok l" and f: "refs_ok l" using inv by (simp_all add: ledger_inv_def)
  have mem: "item \<in> set (work_items l)" "wi_id item = ?w" using item by (auto dest: row_with_Some)
  have io: "item_ok l item" using inv mem by (simp add: ledger_inv_def)
  have ct: "can_transition (wi_state item) (tc_target_state c)"
    and sv: "wi_state_version item = tc_expected_state_version c" "wi_current_task_version item = tc_task_version c"
    and act: "tc_target_state c = ''accepted'' \<longrightarrow> active_attempts l ?w (tc_task_version c) = []"
    using ok unfolding transition_ok_def by blast+
  have ms_w: "\<forall>m\<in>set ms. am_work_item_id m = ?w \<and> am_task_version m = tc_task_version c
      \<and> am_accepted_state_version m = tc_expected_state_version c + 1"
    using ms by (auto simp: manifest_for_def split: if_splits)
  have ht: "has_task ?l w v = has_task l w v" "has_work_item ?l w = has_work_item l w" for w v
    by (simp_all add: has_task_def has_work_item_iff)
  have ha: "has_attempt ?l i = has_attempt l i" for i by (simp add: has_attempt_def)
  have aa: "active_attempts ?l w v = active_attempts l w v" for w v by (simp add: active_attempts_def)
  have ag: "applied_gates ?l w = (if w = ?w then applied_gates l w @ [g] else applied_gates l w)" for w
    using g by (simp add: applied_gates_def applied_def)
  have mo: "manifests_of ?l w = (if w = ?w then manifests_of l w @ ms else manifests_of l w)" for w
    using ms_w by (auto simp: manifests_of_def filter_empty_conv filter_id_conv)
  have keys: "keys_ok ?l" using k fresh by (auto simp: keys_ok_def)
  have refs: "refs_ok ?l" using f task g ms_w unfolding refs_ok_def ht ha by auto
  have old_accepted: "wi_state item \<noteq> ''accepted''" using ct by (auto simp: can_transition_iff)
  have "item_ok ?l q" if q: "q \<in> set (work_items ?l)" for q
  proof -
    from q have "q \<in> set (move_item ?w (tc_target_state c) t (work_items l))" by simp
    from set_move_item [OF this] show ?thesis
    proof
      assume a: "q \<in> set (work_items l) \<and> wi_id q \<noteq> ?w"
      moreover from this have "item_ok l q" using inv by (simp add: ledger_inv_def)
      ultimately show ?thesis unfolding item_ok_def ht ag mo aa by simp
    next
      assume "\<exists>r\<in>set (work_items l). wi_id r = ?w \<and> q = r\<lparr>wi_state := tc_target_state c,
          wi_state_version := wi_state_version r + 1, wi_updated_at := t\<rparr>"
      then have qq: "q = item\<lparr>wi_state := tc_target_state c,
          wi_state_version := wi_state_version item + 1, wi_updated_at := t\<rparr>"
        using item_unique [OF k item] by blast
      have "replay ''proposed'' (applied_gates l ?w @ [g]) = Some (tc_target_state c)"
        using io mem g ct by (simp add: item_ok_def replay_snoc)
      moreover have none: "manifests_of l ?w = []" using io mem old_accepted by (simp add: item_ok_def)
      moreover have "length ms = (if tc_target_state c = ''accepted'' then 1 else 0)" using ms by (auto split: if_splits)
      ultimately show ?thesis
        using io mem sv act ms_w unfolding item_ok_def ht ag mo aa qq by simp
    qed
  qed
  with keys refs inv show ?thesis by (simp add: ledger_inv_def)
qed

lemma inv_gate_rejected:
  assumes inv: "ledger_inv l" and g: "ge_outcome g = ''transition_rejected''"
    and fresh: "\<forall>g'\<in>set (gate_events l). ge_id g' \<noteq> ge_id g \<and> ge_preview_id g' \<noteq> ge_preview_id g"
    and task: "has_task l (ge_work_item_id g) (ge_task_version g)"
  shows "ledger_inv (l\<lparr>gate_events := gate_events l @ [g], audit_events := au, outbox_events := ob\<rparr>)" (is "ledger_inv ?l")
proof -
  have k: "keys_ok l" and f: "refs_ok l" using inv by (simp_all add: ledger_inv_def)
  have ht: "has_task ?l w v = has_task l w v" "has_work_item ?l w = has_work_item l w" for w v
    by (simp_all add: has_task_def has_work_item_def)
  have ha: "has_attempt ?l i = has_attempt l i" for i by (simp add: has_attempt_def)
  have ag: "applied_gates ?l w = applied_gates l w" "manifests_of ?l w = manifests_of l w"
    "active_attempts ?l w v = active_attempts l w v" for w v
    using g by (simp_all add: applied_gates_def applied_def manifests_of_def active_attempts_def)
  have "keys_ok ?l" using k fresh by (auto simp: keys_ok_def)
  moreover have "refs_ok ?l" using f task unfolding refs_ok_def ht ha by auto
  ultimately show ?thesis using inv unfolding ledger_inv_def item_ok_def ht ag by simp
qed

lemma inv_new_artifact:
  assumes inv: "ledger_inv l" and row: "artifact_fits l row" and fresh: "\<forall>r\<in>set (artifact_refs l). ar_id r \<noteq> ar_id row"
  shows "ledger_inv (l\<lparr>artifact_refs := artifact_refs l @ [row]\<rparr>)" (is "ledger_inv ?l")
proof -
  have io: "item_ok ?l q = item_ok l q" for q by (rule item_ok_cong) simp_all
  have ht: "has_task ?l w v = has_task l w v" "has_work_item ?l w = has_work_item l w" "has_attempt ?l i = has_attempt l i"
    for w v i by (simp_all add: has_task_def has_work_item_def has_attempt_def)
  show ?thesis
    using inv row fresh unfolding ledger_inv_def io keys_ok_def refs_ok_def ht by (auto simp: artifact_fits_def)
qed

lemma inv_new_decision:
  assumes inv: "ledger_inv l" and task: "has_task l (dr_work_item_id d) (dr_task_version d)"
    and fresh: "\<forall>x\<in>set (decision_records l). dr_id x \<noteq> dr_id d"
  shows "ledger_inv (l\<lparr>decision_records := decision_records l @ [d]\<rparr>)" (is "ledger_inv ?l")
proof -
  have io: "item_ok ?l q = item_ok l q" for q by (rule item_ok_cong) simp_all
  have ht: "has_task ?l w v = has_task l w v" "has_work_item ?l w = has_work_item l w" "has_attempt ?l i = has_attempt l i"
    for w v i by (simp_all add: has_task_def has_work_item_def has_attempt_def)
  show ?thesis
    using inv task fresh unfolding ledger_inv_def io keys_ok_def refs_ok_def ht by auto
qed

lemma attempt_ok_new:
  "at_kind r = ''runtime'' \<Longrightarrow> at_status r \<in> {''claimed'', ''running''} \<Longrightarrow> at_completion_event_key r = None \<Longrightarrow> attempt_ok r"
  "at_kind r = ''historical'' \<Longrightarrow> at_status r \<in> {''completed'', ''failed'', ''cancelled''}
    \<Longrightarrow> at_completion_event_key r = None \<Longrightarrow> attempt_ok r"
  by (auto simp: attempt_ok_def)

theorem change_keeps_inv: "change l l' \<Longrightarrow> ledger_inv l \<Longrightarrow> ledger_inv l'"
proof (induction rule: change.induct)
  case (New_Runtime_Attempt l row l' item)
  then have "wi_state item \<noteq> ''accepted''" by (auto simp: TERMINAL_WORK_ITEM_STATES_def)
  with New_Runtime_Attempt show ?case
    by (intro inv_new_attempt [OF _ New_Runtime_Attempt(1)] attempt_ok_new) auto
next
  case (New_Historical_Attempt l row l')
  then show ?case by (intro inv_new_attempt [OF _ New_Historical_Attempt(1)] attempt_ok_new) auto
next
  case (Completion i l attempt status ev key rows t m)
  then show ?case by (intro inv_completion) auto
next
  case (Side l l')
  then show ?case by (elim inv_cong) (auto simp: side_effect_only_def)
qed (blast intro: inv_new_item inv_new_task inv_gate_applied inv_gate_rejected inv_new_artifact inv_new_decision)+

theorem reachable_inv: "reachable l \<Longrightarrow> ledger_inv l"
proof (induction rule: reachable.induct)
  case reach_empty
  show ?case by (rule inv_empty)
next
  case (reach_step l l')
  then obtain e cfg oper where "run e cfg l oper = Inr l'" by (auto elim: stepE)
  with reach_step have "change l l'" by (auto simp: ledger_inv_def keys_ok_def intro: run_change)
  with reach_step show ?case using change_keeps_inv by blast
qed

lemma reachable_change: "reachable l \<Longrightarrow> step l l' \<Longrightarrow> change l l'"
  using reachable_inv by (auto simp: ledger_inv_def keys_ok_def elim!: stepE intro: run_change)

end
