(* ===== verification/LedgerSpec.thy ===== *)
theory LedgerSpec
  imports LedgerInvariants
begin

text \<open>
  The contract of the ledger, stated on an abstract machine that keeps of each work item its state,
  its state version and its current task version, and the simulation: every committed command is a
  step of that machine or leaves it unchanged.  The locale \<open>item_machine\<close> proves what a sequence of
  such steps can do (terminal states stay, versions only grow) once, for any system whose steps
  refine the machine; it is interpreted on the service.
\<close>

section \<open>The abstract machine\<close>

type_synonym item_abs = "string \<times> int \<times> int"
type_synonym items = "string \<Rightarrow> item_abs option"

inductive item_step :: "items \<Rightarrow> items \<Rightarrow> bool" where
  Keep: "item_step m m"
| Create: "m w = None \<Longrightarrow> item_step m (m(w \<mapsto> (''proposed'', 0, 1)))"
| Revise: "m w = Some (s, n, v) \<Longrightarrow> s \<notin> set TERMINAL_WORK_ITEM_STATES \<Longrightarrow> s \<noteq> ''submitted''
    \<Longrightarrow> item_step m (m(w \<mapsto> (s, n + 1, v + 1)))"
| Move: "m w = Some (s, n, v) \<Longrightarrow> can_transition s t \<Longrightarrow> item_step m (m(w \<mapsto> (t, n + 1, v)))"

inductive_simps item_step_simps: "item_step m m'"

definition items_of :: "ledger \<Rightarrow> items" where
  "items_of l = (\<lambda>w. map_option (\<lambda>r. (wi_state r, wi_state_version r, wi_current_task_version r))
     (row_with wi_id w (work_items l)))"

lemma items_of_cong: "work_items l' = work_items l \<Longrightarrow> items_of l' = items_of l"
  by (simp add: items_of_def)

lemma items_of_append:
  assumes "\<not> has_work_item l (wi_id r)"
  shows "items_of (l\<lparr>work_items := work_items l @ [r], task_versions := x, external_associations := y\<rparr>) =
    (items_of l)(wi_id r \<mapsto> (wi_state r, wi_state_version r, wi_current_task_version r))"
proof -
  have "row_with wi_id (wi_id r) (work_items l) = None"
    using assms by (auto simp: row_with_None has_work_item_def list_ex_iff)
  then show ?thesis
    by (auto simp: items_of_def row_with_append fun_eq_iff split: option.splits)
qed

lemma row_with_move: "row_with wi_id u (move_item w s t items) =
    map_option (\<lambda>r. if wi_id r = w then r\<lparr>wi_state := s, wi_state_version := wi_state_version r + 1, wi_updated_at := t\<rparr> else r)
      (row_with wi_id u items)"
  unfolding move_item_def by (rule row_with_update_where) simp

lemma row_with_bump: "row_with wi_id u (bump_task w v t items) =
    map_option (\<lambda>r. if wi_id r = w then r\<lparr>wi_current_task_version := v, wi_state_version := wi_state_version r + 1,
        wi_updated_at := t\<rparr> else r) (row_with wi_id u items)"
  unfolding bump_task_def by (rule row_with_update_where) simp

lemma change_simulates: "change l l' \<Longrightarrow> item_step (items_of l) (items_of l')"
proof (induction rule: change.induct)
  case (New_Item l w r t as)
  then have "items_of l w = None"
    by (auto simp: items_of_def row_with_None has_work_item_def list_ex_iff)
  then have "item_step (items_of l) ((items_of l)(w \<mapsto> (''proposed'', 0, 1)))" by (rule Create)
  moreover have "items_of (l\<lparr>work_items := work_items l @ [r], task_versions := task_versions l @ [t],
      external_associations := external_associations l @ as\<rparr>) = (items_of l)(w \<mapsto> (''proposed'', 0, 1))"
    using New_Item items_of_append [where l = l and r = r] by simp
  ultimately show ?case by (simp only:)
next
  case (New_Task w l item v t as at)
  then have i: "items_of l w = Some (wi_state item, wi_state_version item, wi_current_task_version item)"
    by (simp add: items_of_def)
  have "items_of (l\<lparr>work_items := bump_task w v at (work_items l), task_versions := task_versions l @ [t],
        external_associations := external_associations l @ as\<rparr>) =
      (items_of l)(w \<mapsto> (wi_state item, wi_state_version item + 1, wi_current_task_version item + 1))"
    using New_Task(1,4)
    by (auto simp: items_of_def row_with_bump fun_eq_iff option.map_comp comp_def
        split: option.splits dest: row_with_Some intro!: option.map_cong)
  then show ?case by (simp only:) (rule Revise [of "items_of l", OF i New_Task(2,3)])
next
  case (Gate_Applied c l item rq g ms e a x t)
  then have i: "items_of l (tc_work_item_id c) = Some (wi_state item, wi_state_version item, wi_current_task_version item)"
    by (simp add: items_of_def)
  have "items_of (l\<lparr>work_items := move_item (tc_work_item_id c) (tc_target_state c) t (work_items l),
        gate_events := gate_events l @ [g], acceptance_manifests := acceptance_manifests l @ ms,
        audit_events := audit_events l @ [a], outbox_events := outbox_events l @ [x]\<rparr>) =
      (items_of l)(tc_work_item_id c \<mapsto> (tc_target_state c, wi_state_version item + 1, wi_current_task_version item))"
    using Gate_Applied(1)
    by (auto simp: items_of_def row_with_move fun_eq_iff option.map_comp comp_def
        split: option.splits dest: row_with_Some intro!: option.map_cong)
  moreover have "can_transition (wi_state item) (tc_target_state c)"
    using Gate_Applied(2) unfolding transition_ok_def by blast
  ultimately show ?case by (simp only:) (rule Move [of "items_of l", OF i])
next
  case (New_Runtime_Attempt l row l' item)
  then show ?case by (auto simp: new_attempt_effect_def items_of_def intro: Keep)
next
  case (New_Historical_Attempt l row l')
  then show ?case by (auto simp: new_attempt_effect_def items_of_def intro: Keep)
next
  case (Side l l')
  then show ?case by (auto simp: side_effect_only_def items_of_def intro: Keep)
qed (auto simp: items_of_def intro: Keep)

section \<open>What any refinement of the machine guarantees\<close>

locale item_machine =
  fixes system_step :: "'s \<Rightarrow> 's \<Rightarrow> bool" and good :: "'s \<Rightarrow> bool" and abs :: "'s \<Rightarrow> items"
  assumes good_step: "good s \<Longrightarrow> system_step s s' \<Longrightarrow> good s'"
    and refines: "good s \<Longrightarrow> system_step s s' \<Longrightarrow> item_step (abs s) (abs s')"
begin

lemma good_steps: "system_step\<^sup>*\<^sup>* s s' \<Longrightarrow> good s \<Longrightarrow> good s'"
  by (induction rule: rtranclp_induct) (auto intro: good_step)

lemma terminal_step:
  assumes "good s" "system_step s s'" "abs s w = Some (st, n, v)" "st \<in> set TERMINAL_WORK_ITEM_STATES"
  shows "abs s' w = Some (st, n, v)"
  using refines [OF assms(1,2)] assms(3,4) terminal_no_transition
  by (cases rule: item_step.cases) (auto split: if_splits)

lemma terminal_forever:
  assumes "system_step\<^sup>*\<^sup>* s s'" "good s" "abs s w = Some (st, n, v)" "st \<in> set TERMINAL_WORK_ITEM_STATES"
  shows "abs s' w = Some (st, n, v)"
  using assms(1)
proof (induction rule: rtranclp_induct)
  case base
  show ?case by (rule assms(3))
next
  case (step y z)
  then show ?case using terminal_step good_steps assms(2,4) by blast
qed

lemma version_step:
  assumes "good s" "system_step s s'" "abs s w = Some (st, n, v)"
  shows "\<exists>st' n' v'. abs s' w = Some (st', n', v') \<and> n \<le> n' \<and> v \<le> v' \<and> v' - v \<le> n' - n
    \<and> (n' = n \<longrightarrow> st' = st \<and> v' = v)"
  using refines [OF assms(1,2)] assms(3)
  by (cases rule: item_step.cases) auto

lemma versions_grow:
  assumes "system_step\<^sup>*\<^sup>* s s'" "good s" "abs s w = Some (st, n, v)"
  shows "\<exists>st' n' v'. abs s' w = Some (st', n', v') \<and> n \<le> n' \<and> v \<le> v' \<and> v' - v \<le> n' - n
    \<and> (n' = n \<longrightarrow> st' = st \<and> v' = v)"
  using assms(1)
proof (induction rule: rtranclp_induct)
  case base
  show ?case using assms(3) by auto
next
  case (step y z)
  then obtain st1 n1 v1 where 1: "abs y w = Some (st1, n1, v1)" "n \<le> n1" "v \<le> v1" "v1 - v \<le> n1 - n"
    "n1 = n \<longrightarrow> st1 = st \<and> v1 = v" by blast
  have "good y" using good_steps step(1) assms(2) by blast
  from version_step [OF this step(2) 1(1)] obtain st2 n2 v2 where
    "abs z w = Some (st2, n2, v2)" "n1 \<le> n2" "v1 \<le> v2" "v2 - v1 \<le> n2 - n1" "n2 = n1 \<longrightarrow> st2 = st1 \<and> v2 = v1"
    by blast
  with 1 show ?case by (intro exI [of _ st2] exI [of _ n2] exI [of _ v2]) auto
qed

end

interpretation service: item_machine step reachable items_of
proof unfold_locales
  show "reachable s \<Longrightarrow> step s s' \<Longrightarrow> reachable s'" for s s' by (rule reach_step)
  show "item_step (items_of s) (items_of s')" if "reachable s" "step s s'" for s s'
    using reachable_change [OF that] by (rule change_simulates)
qed

section \<open>History\<close>

text \<open>The tables of facts only grow; a row once written is never changed.\<close>

definition history_extends :: "ledger \<Rightarrow> ledger \<Rightarrow> bool" where
  "history_extends l l' \<longleftrightarrow> extends (task_versions l) (task_versions l')
     \<and> extends (artifact_refs l) (artifact_refs l') \<and> extends (external_associations l) (external_associations l')
     \<and> extends (attempt_events l) (attempt_events l') \<and> extends (decision_records l) (decision_records l')
     \<and> extends (gate_events l) (gate_events l') \<and> extends (acceptance_manifests l) (acceptance_manifests l')
     \<and> extends (audit_events l) (audit_events l') \<and> extends (blocker_events l) (blocker_events l')
     \<and> extends (inbox_events l) (inbox_events l')
     \<and> extends (map at_id (execution_attempts l)) (map at_id (execution_attempts l'))"

lemma history_refl: "history_extends l l"
  by (simp add: history_extends_def)

lemma history_trans: "history_extends a b \<Longrightarrow> history_extends b c \<Longrightarrow> history_extends a c"
  unfolding history_extends_def by (elim conjE, intro conjI) (erule (1) extends_trans)+

lemma change_history: "change l l' \<Longrightarrow> history_extends l l'"
proof (induction rule: change.induct)
  case (New_Runtime_Attempt l row l' item)
  from New_Runtime_Attempt(1) show ?case
    unfolding new_attempt_effect_def history_extends_def by (elim exE conjE) simp
next
  case (New_Historical_Attempt l row l')
  from New_Historical_Attempt(1) show ?case
    unfolding new_attempt_effect_def history_extends_def by (elim exE conjE) simp
next
  case (Completion i l attempt status ev key rows t m)
  show ?case by (simp add: history_extends_def update_where_map complete_attempt_row_def)
qed (simp_all add: history_extends_def side_effect_only_def)

text \<open>A completed attempt is immutable.\<close>

lemma change_completed_attempt:
  assumes "change l l'" "a \<in> set (execution_attempts l)" "at_completion_event_key a \<noteq> None"
  shows "a \<in> set (execution_attempts l')"
  using assms
proof (induction rule: change.induct)
  case (Completion i l attempt status ev key rows t m)
  have "a \<in> set (update_where (\<lambda>r. at_id r = i \<and> at_completion_event_key r = None)
      (complete_attempt_row status key t m) (execution_attempts l))"
    unfolding set_update_where by (rule CollectI, rule bexI [of _ a]) (use Completion.prems in auto)
  then show ?case by simp
qed (auto simp: new_attempt_effect_def side_effect_only_def)

end
