(* ===== verification/TransitionRoundtrip.thy ===== *)
theory TransitionRoundtrip
  imports LedgerSpec
begin

text \<open>
  The way of a transition command from its preview to its apply: a normalised command is normalised
  to itself, and the command bound to a principal is accepted when the same principal applies it.
\<close>

lemma emap_require_id:
  assumes "emap (\<lambda>v. require_stable_id v kind) vs = Inr ids"
  shows "emap (\<lambda>v. require_stable_id v kind) (map PStr ids) = Inr ids"
  using assms
proof (induction vs arbitrary: ids)
  case (Cons v vs)
  then show ?case by (auto simp: require_stable_id_Inr)
qed simp

lemma normalize_id_list_again:
  "normalize_id_list v kind = Inr ids \<Longrightarrow> normalize_id_list (PList (map PStr ids)) kind = Inr ids"
  by (auto simp: normalize_id_list_def emap_require_id emap_Inr_length split: if_splits)

lemma normalize_transition_again:
  assumes "normalize_transition_command v = Inr c"
  shows "normalize_transition_command (PDict (transition_fields c)) = Inr c"
  using assms
  by (auto simp: normalize_transition_command_def transition_fields_def require_object_def AUTHORITY_FIELDS_def
      PUBLIC_FIELDS_def some_key_def only_keys_def keys_of_def dget_or_def one_of_Inr require_stable_id_Inr
      require_positive_Inr require_non_negative_Inr normalize_id_list_again optional_text_Inr optional_text_again
      Let_def split: if_splits)
lemma map_of_restrict: "distinct ks \<Longrightarrow> k \<in> set ks \<Longrightarrow> map_of (map (\<lambda>f. (f, g f)) ks) k = Some (g k)"
  by (induction ks) auto

lemma bound_fields_keys: "exact_keys (bound_fields c) (PUBLIC_FIELDS @ AUTHORITY_FIELDS)"
  by (simp add: bound_fields_def transition_fields_def exact_keys_def only_keys_def keys_of_def dhas_def
      PUBLIC_FIELDS_def AUTHORITY_FIELDS_def)

lemma bound_fields_public:
  "map (\<lambda>f. (f, dget (bound_fields c) f)) PUBLIC_FIELDS = transition_fields c"
  by (simp add: bound_fields_def transition_fields_def PUBLIC_FIELDS_def dget_or_def)

lemma bind_fields [simp]:
  "transition_fields (bind_authority n pj actor basis) = transition_fields n"
  "tc_authority_basis (bind_authority n pj actor basis) = basis"
  "tc_actor (bind_authority n pj actor basis) = actor"
  "tc_principal_context (bind_authority n pj actor basis) = pj"
  "tc_work_item_id (bind_authority n pj actor basis) = tc_work_item_id n"
  by (simp_all add: bind_authority_def transition.defs bound_transition.defs transition_fields_def)

lemma transition_extend_truncate: "transition.extend (n :: transition) m = transition.extend n' m \<longleftrightarrow> n = n'"
  by (cases n; cases n') (simp add: transition.defs)

text \<open>A command bound to a principal is accepted when the same principal applies it.\<close>

theorem verify_signed_roundtrip:
  assumes n: "normalize_transition_command v = Inr n"
    and b: "bind_transition_authority n pc s = Inr c"
  shows "verify_signed_transition_authority (PDict (bound_fields c)) pc = Inr c"
proof -
  let ?perm = "transition_permission s (tc_target_state n)"
  from b obtain pj actor basis where a: "authorize_principal pc ?perm = Inr (pj, actor, basis)"
    and c: "c = bind_authority n pj actor basis"
    by (auto simp: bind_transition_authority_def)
  have auth: "dget basis ''authority'' = PStr ?perm"
    using a by (auto simp: authorize_principal_Inr authority_basis_of_def dget_or_def)
  have "dget (bound_fields c) ''authority_basis'' = PDict basis"
    by (simp add: bound_fields_def transition_fields_def dget_or_def c)
  with auth have sa: "signed_authority (bound_fields c) = Inr ?perm"
    by (simp add: signed_authority_def)
  have nt: "normalize_transition_command (PDict (map (\<lambda>f. (f, dget (bound_fields c) f)) PUBLIC_FIELDS)) = Inr n"
    unfolding bound_fields_public c by (simp add: normalize_transition_again [OF n])
  have ne: "bound_fields c \<noteq> []" by (simp add: bound_fields_def)
  show ?thesis
    by (simp add: verify_signed_transition_authority_def require_object_def ne bound_fields_keys nt sa a c [symmetric])
qed

end
