(* ===== verification/Evaluation.thy ===== *)
theory Evaluation
  imports TransitionRoundtrip
begin

text \<open>
  What the simplifier needs to run a command on concrete input: rules that evaluate a computation from
  the outside (the continuation of \<open>ebind\<close> only once its value is known), and a bound on the size of
  the canonical text that is computed from the value, without rendering it.
\<close>

section \<open>The size of the canonical text\<close>

fun json_cost :: "py \<Rightarrow> nat" where
  "json_cost PNone = 4"
| "json_cost (PBool b) = 5"
| "json_cost (PInt i) = nat \<bar>i\<bar> + 2"
| "json_cost (PStr s) = 12 * length s + 2"
| "json_cost (PList xs) = 2 + sum_list (map (\<lambda>v. json_cost v + 1) xs)"
| "json_cost (PDict d) = 2 + sum_list (map (\<lambda>kv. 12 * length (fst kv) + json_cost (snd kv) + 4) d)"

lemma utf8_len_simps [simp]: "utf8_len [] = 0" "utf8_len (a @ b) = utf8_len a + utf8_len b"
  "utf8_len (c # cs) = (if (of_char c :: nat) < 128 then 1 else 2) + utf8_len cs"
  by (simp_all add: utf8_len_def)

lemma utf8_len_le: "utf8_len s \<le> 2 * length s"
  by (induction s) auto

lemma length_esc_char: "length (esc_char c) \<le> 6"
  by (simp add: esc_char_def Let_def)

lemma length_concat_le: "(\<And>x. length (f x) \<le> n) \<Longrightarrow> length (concat (map f xs)) \<le> n * length xs"
  by (induction xs) (auto simp: add_mono)

lemma utf8_render_str: "utf8_len (render_str s) \<le> 12 * length s + 2"
proof -
  have "utf8_len (concat (map esc_char s)) \<le> 2 * length (concat (map esc_char s))" by (rule utf8_len_le)
  also have "length (concat (map esc_char s)) \<le> 6 * length s" by (rule length_concat_le) (rule length_esc_char)
  finally show ?thesis by (simp add: render_str_def)
qed

lemma length_show_nat: "length (show_nat n) \<le> n + 1"
proof (induction n rule: show_nat.induct)
  case (1 n)
  then show ?case by (cases "n < 10") (auto simp: show_nat.simps [of n])
qed

lemma utf8_show_nat: "utf8_len (show_nat n) \<le> n + 1"
proof -
  have "utf8_len (show_nat n) = length (show_nat n)"
  proof (induction n rule: show_nat.induct)
    case (1 n)
    then show ?case by (cases "n < 10") (auto simp: show_nat.simps [of n])
  qed
  with length_show_nat show ?thesis by simp
qed

lemma utf8_join_with: "utf8_len (join_with '','' ss) \<le> sum_list (map (\<lambda>s. utf8_len s + 1) ss)"
  by (induction "'',''" ss rule: join_with.induct) auto

lemma utf8_render: "utf8_len (render v) \<le> json_cost v"
proof (induction v)
  case (PInt i)
  show ?case using utf8_show_nat [of "nat i"] utf8_show_nat [of "nat (- i)"] by (auto simp: show_int_def)
next
  case (PStr s)
  show ?case using utf8_render_str by simp
next
  case (PList xs)
  have "utf8_len (join_with '','' (map render xs)) \<le> sum_list (map (\<lambda>s. utf8_len s + 1) (map render xs))"
    by (rule utf8_join_with)
  also have "\<dots> \<le> sum_list (map (\<lambda>v. json_cost v + 1) xs)"
    using PList by (auto intro!: sum_list_mono simp: comp_def)
  finally show ?case by simp
next
  case (PDict d)
  have "utf8_len (join_with '','' (map (\<lambda>kv. render_str (fst kv) @ CHR '':'' # render (snd kv)) d))
      \<le> sum_list (map (\<lambda>s. utf8_len s + 1) (map (\<lambda>kv. render_str (fst kv) @ CHR '':'' # render (snd kv)) d))"
    by (rule utf8_join_with)
  also have "\<dots> = sum_list (map (\<lambda>kv. utf8_len (render_str (fst kv)) + utf8_len (render (snd kv)) + 2) d)"
    by (simp add: comp_def)
  also have "\<dots> \<le> sum_list (map (\<lambda>kv. 12 * length (fst kv) + json_cost (snd kv) + 4) d)"
  proof (rule sum_list_mono)
    fix kv assume kv: "kv \<in> set d"
    have "utf8_len (render (snd kv)) \<le> json_cost (snd kv)"
      using PDict [OF kv, of "snd kv"] by (cases kv) simp
    with utf8_render_str [of "fst kv"] show "utf8_len (render_str (fst kv)) + utf8_len (render (snd kv)) + 2
        \<le> 12 * length (fst kv) + json_cost (snd kv) + 4" by simp
  qed
  finally show ?case by simp
qed auto

lemma sum_list_sort_key: "sum_list (map f (sort_key k xs)) = (sum_list (map f xs) :: nat)"
  by (metis mset_map mset_sort sum_mset_sum_list)

lemma json_cost_jsort: "json_cost (jsort v) = json_cost v"
proof (induction v)
  case (PList xs)
  then show ?case by (simp add: comp_def cong: map_cong)
next
  case (PDict d)
  then have "map (\<lambda>kv. 12 * length (fst kv) + json_cost (jsort (snd kv)) + 4) d =
      map (\<lambda>kv. 12 * length (fst kv) + json_cost (snd kv) + 4) d"
    by (intro map_cong refl) (metis prod.collapse snds.intros)
  then show ?case by (simp add: sum_list_sort_key comp_def cong: map_cong)
qed simp_all

lemma canonical_json_small: "json_cost v \<le> max_json_bytes \<Longrightarrow> canonical_json v = Inr (render (jsort v))"
  using utf8_render [of "jsort v"] by (simp add: canonical_json_def canonical_json_max_def json_cost_jsort)

lemma json_column_small: "json_cost v \<le> max_json_bytes \<Longrightarrow> json_column v = Inr (jsort v)"
  by (simp add: json_column_def canonical_json_small)

lemma canonical_sha256_small: "json_cost v \<le> max_json_bytes \<Longrightarrow> canonical_sha256 H v = Inr (H (render (jsort v)))"
  by (simp add: canonical_sha256_def canonical_json_small)

section \<open>Evaluation from the outside\<close>

lemma ebind_weak_cong: "m = m' \<Longrightarrow> ebind m f = ebind m' f"
  by simp

lemmas weak_congs = ebind_weak_cong option.case_cong_weak sum.case_cong_weak list.case_cong_weak
  py.case_cong_weak prod.case_cong_weak if_weak_cong let_weak_cong

end
