(* ===== verification/Scenario_Base.thy ===== *)
theory Scenario_Base
  imports Evaluation
begin

text \<open>
  The concrete input of the witnesses: an environment (a constant digest and signature, decimal
  timestamps with their parser, numbered identifiers, one report file), a service configuration with
  authoritative gates, a trusted principal, and the facts the steps of \<open>Scenario\<close> share: a preview of
  this environment is accepted, and a transition command of this principal reaches its transaction.
\<close>

section \<open>Environment, settings and principal\<close>

definition sc_digest :: string where "sc_digest = replicate 64 (CHR ''a'')"

definition sc_id :: "string \<Rightarrow> nat \<Rightarrow> string" where
  "sc_id kind k = (case map_of ID_PREFIXES kind of
       Some p \<Rightarrow> p @ ''_00000000-0000-7000-8000-00000000000'' @ show_nat k
     | None \<Rightarrow> [])"

definition sc_parse :: "string \<Rightarrow> int option" where
  "sc_parse s = (case s of [] \<Rightarrow> None
     | c # cs \<Rightarrow> if c = CHR ''-'' then Some (- int (read_nat cs)) else Some (int (read_nat (c # cs))))"

definition sc_env :: "nat \<Rightarrow> env" where
  "sc_env k = \<lparr>e_sha = (\<lambda>s. sc_digest), e_mac = (\<lambda>key s. sc_digest), e_signing_key = Inr ''key'',
     e_project_binding = sc_digest, e_iso = show_int, e_parse = sc_parse,
     e_now = 0, e_fresh = (\<lambda>kind n. sc_id kind k), e_root = [''project''],
     e_resolve = (\<lambda>p. case p of Under_Root s \<Rightarrow> [''project'', s] | Bare_Path s \<Rightarrow> [s]),
     e_file_digest = (\<lambda>p. if p = [''project'', ''report.md''] then Some sc_digest else None)\<rparr>"

lemma sc_env_simps [simp]: "e_sha (sc_env k) s = sc_digest" "e_mac (sc_env k) key s = sc_digest"
  "e_signing_key (sc_env k) = Inr ''key''" "e_project_binding (sc_env k) = sc_digest"
  "e_iso (sc_env k) = show_int" "e_parse (sc_env k) = sc_parse" "e_now (sc_env k) = 0"
  "e_fresh (sc_env k) kind n = sc_id kind k"
  "e_root (sc_env k) = [''project'']" "e_resolve (sc_env k) (Under_Root s) = [''project'', s]"
  "e_file_digest (sc_env k) p = (if p = [''project'', ''report.md''] then Some sc_digest else None)"
  by (simp_all add: sc_env_def)

definition sc_cfg :: config where
  "sc_cfg = \<lparr>cf_enabled = True, cf_gate_mode = ''authoritative'', cf_canary_marked = False\<rparr>"

lemma sc_cfg_simps [simp]: "cf_enabled sc_cfg" "cf_gate_mode sc_cfg = ''authoritative''" "\<not> cf_canary_marked sc_cfg"
  "authoritative_transitions sc_cfg" "require_gate_enabled sc_cfg = Inr ()"
  by (simp_all add: sc_cfg_def authoritative_transitions_def require_gate_enabled_def)

definition sc_principal :: principal where
  "sc_principal = \<lparr>pr_id = ''alice'', pr_kind = ''human'', pr_authenticated_by = ''local_session'',
     pr_permissions = WORK_ITEM_PERMISSIONS, pr_session_ref = None, pr_display_name = None, pr_trusted = True\<rparr>"

lemma sc_digest_ok [simp]: "SHA256_PATTERN sc_digest" "length sc_digest = 64" "is_ascii sc_digest"
  by (simp_all add: sc_digest_def SHA256_PATTERN_def is_ascii_def numeral_eq_Suc Let_def)

lemma sc_parse_show [simp]: "sc_parse (show_int u) = Some u"
proof (cases "u < 0")
  case True
  then show ?thesis by (simp add: sc_parse_def show_int_def)
next
  case False
  obtain c cs where c: "show_nat (nat u) = c # cs" "is_digit c" using show_nat_head by blast
  then have "c \<noteq> CHR ''-''" by (auto simp: is_digit_def)
  with False c(1) read_show_nat [of "nat u"] show ?thesis by (simp add: sc_parse_def show_int_def)
qed

definition sc_preview :: "nat \<Rightarrow> string \<Rightarrow> dict \<Rightarrow> dict \<Rightarrow> dict" where
  "sc_preview k operation command ids =
    [(''schema_version'', PStr ''work_item_command_preview.v1''), (''preview_id'', PStr (sc_id ''preview'' k)),
     (''operation'', PStr operation), (''project_binding'', PStr sc_digest),
     (''issued_at'', PStr (show_int 0)), (''expires_at'', PStr (show_int 300000000)),
     (''ttl_seconds'', PInt 300), (''content_digest'', PStr sc_digest), (''command'', PDict command),
     (''generated_ids'', PDict ids), (''signature'', PStr sc_digest)]"

lemma length_show_int_le: "length (show_int 0) \<le> 2" "length (show_int 300000000) \<le> 10"
  by (simp_all add: show_int_def show_nat.simps cong: if_weak_cong)

lemma length_sc_id: "length (sc_id kind k) \<le> 60 + length (show_nat k)"
proof (cases "map_of ID_PREFIXES kind")
  case (Some p)
  have "list_all (\<lambda>x. length (snd x) \<le> 20) ID_PREFIXES" by (simp add: ID_PREFIXES_def)
  with map_of_SomeD [OF Some] have "length p \<le> 20" by (auto simp: list_all_iff)
  with Some show ?thesis by (simp add: sc_id_def)
qed (simp add: sc_id_def)

text \<open>A preview of the scenario is issued and accepted.\<close>

lemma sc_cost_preview:
  assumes "json_cost (PDict command) \<le> 100000" "json_cost (PDict ids) \<le> 1000" "k < 10" "length operation < 100"
  shows "json_cost (PDict (preview_unsigned (sc_preview k operation command ids))) \<le> max_json_bytes"
proof -
  have "length (sc_id ''preview'' k) \<le> 61"
    using length_sc_id [of "''preview''" k] assms(3) by (simp add: show_nat.simps cong: if_weak_cong)
  with assms length_show_int_le show ?thesis
    by (simp add: preview_unsigned_def sc_preview_def max_json_bytes_def)
qed

lemma sc_verify:
  assumes "json_cost (PDict command) \<le> 100000" "json_cost (PDict ids) \<le> 1000" "k < 10" "length operation < 100"
  shows "preview_verify (sc_env k) (PDict (sc_preview k operation command ids)) operation
    = Inr (sc_preview k operation command ids)"
proof -
  let ?p = "sc_preview k operation command ids"
  have sign: "preview_sign (sc_env k) ?p = Inr sc_digest"
    using sc_cost_preview [OF assms] by (simp add: preview_sign_def canonical_json_small del: json_cost.simps)
  have "canonical_sha256 (e_sha (sc_env k)) (PDict command) = Inr sc_digest"
    using assms(1) by (simp add: canonical_sha256_small max_json_bytes_def del: json_cost.simps)
  moreover have "exact_keys ?p PREVIEW_FIELDS"
    by (simp add: sc_preview_def exact_keys_def only_keys_def keys_of_def dhas_def PREVIEW_FIELDS_def)
  moreover have "dget ?p ''schema_version'' = PStr ''work_item_command_preview.v1''" "dget ?p ''operation'' = PStr operation"
    "dget ?p ''project_binding'' = PStr sc_digest" "dget ?p ''signature'' = PStr sc_digest"
    "dget ?p ''command'' = PDict command" "dget ?p ''content_digest'' = PStr sc_digest"
    "dget ?p ''issued_at'' = PStr (show_int 0)" "dget ?p ''expires_at'' = PStr (show_int 300000000)"
    "dget ?p ''ttl_seconds'' = PInt 300"
    by (simp_all add: sc_preview_def dget_or_def)
  ultimately show ?thesis
    using sign by (simp add: preview_verify_def compare_digest_def parse_timestamp_def ttl_valid_def MAX_PREVIEW_TTL_SECONDS_def)
qed

abbreviation sc_w :: string where "sc_w \<equiv> sc_id ''work_item'' 0"

lemma sc_ids [simp]:
  "k < 10 \<Longrightarrow> is_stable_id_str (sc_id ''work_item'' k) ''work_item''"
  "k < 10 \<Longrightarrow> is_stable_id_str (sc_id ''preview'' k) ''preview''"
  "k < 10 \<Longrightarrow> is_stable_id_str (sc_id ''gate_event'' k) ''gate_event''"
  "k < 10 \<Longrightarrow> is_stable_id_str (sc_id ''attempt'' k) ''attempt''"
  "k < 10 \<Longrightarrow> is_stable_id_str (sc_id ''artifact'' k) ''artifact''"
  "k < 10 \<Longrightarrow> is_stable_id_str (sc_id ''decision'' k) ''decision''"
  by (simp_all add: sc_id_def is_stable_id_str_def ID_PREFIXES_def show_nat.simps UUID7_PATTERN_def Let_def)

lemma sc_id_eq [simp]: "k < 10 \<Longrightarrow> j < 10 \<Longrightarrow> map_of ID_PREFIXES kind = Some p \<Longrightarrow> sc_id kind k = sc_id kind j \<longleftrightarrow> k = j"
  by (auto simp: sc_id_def) (metis read_show_nat)


lemma sc_preview_fields [simp]:
  "dget (sc_preview k op c ids) ''command'' = PDict c"
  "dget (sc_preview k op c ids) ''preview_id'' = PStr (sc_id ''preview'' k)"
  "dget_or (sc_preview k op c ids) ''generated_ids'' x = PDict ids"
  by (simp_all add: sc_preview_def dget_or_def)

lemma sc_enabled [simp]: "require_enabled sc_cfg = Inr ()"
  by (simp add: require_enabled_def)

lemma sc_len: "k < 10 \<Longrightarrow> length (sc_id kind k) \<le> 61"
  using length_sc_id [of kind k] by (simp add: show_nat.simps)

section \<open>A transition command\<close>

definition sc_bind :: "transition \<Rightarrow> string \<Rightarrow> bound_transition" where
  "sc_bind n perm = bind_authority n (principal_to_record sc_principal) (principal_actor_record sc_principal)
     (authority_basis_of sc_principal perm)"

definition sc_transition_preview :: "nat \<Rightarrow> bound_transition \<Rightarrow> py" where
  "sc_transition_preview k c = PDict (sc_preview k ''work_item_transition'' (bound_fields c)
     [(''gate_event_id'', PStr (sc_id ''gate_event'' k))])"

lemma sc_authorize [simp]:
  "perm \<in> set WORK_ITEM_PERMISSIONS \<Longrightarrow> authorize_principal (Some sc_principal) perm =
    Inr (principal_to_record sc_principal, principal_actor_record sc_principal, authority_basis_of sc_principal perm)"
  by (simp add: authorize_principal_def sc_principal_def)

lemma sc_principal_json: "principal_to_record sc_principal = PDict
    [(''principal_id'', PStr ''alice''), (''principal_kind'', PStr ''human''),
     (''authenticated_by'', PStr ''local_session''),
     (''granted_permissions'', PList (map PStr (sort WORK_ITEM_PERMISSIONS))), (''session_ref'', PNone)]"
  by (simp add: principal_to_record_def sc_principal_def)

lemma sc_cost_principal: "json_cost (principal_to_record sc_principal) \<le> 10000"
  by (simp add: sc_principal_json WORK_ITEM_PERMISSIONS_def)

lemma sc_transition:
  assumes n: "normalize_transition_command (PDict (transition_fields n)) = Inr n"
    and p: "transition_permission s (tc_target_state n) = perm" "perm \<in> set WORK_ITEM_PERMISSIONS"
    and k: "k < 10" and cost: "json_cost (PDict (bound_fields (sc_bind n perm))) \<le> 100000"
    and lease: "activation_leases l = []"
    and tx: "transition_transaction (sc_env k) (sc_bind n perm) (sc_id ''gate_event'' k) (sc_id ''preview'' k) sc_digest
        (show_int 0) l = Inr (r, l')"
  shows "run (sc_env k) sc_cfg l (Apply_Transition (sc_transition_preview k (sc_bind n perm)) (Some sc_principal)) = Inr l'"
proof -
  let ?c = "sc_bind n perm"
  let ?p = "sc_preview k ''work_item_transition'' (bound_fields ?c) [(''gate_event_id'', PStr (sc_id ''gate_event'' k))]"
  have v: "preview_verify (sc_env k) (sc_transition_preview k ?c) ''work_item_transition'' = Inr ?p"
    unfolding sc_transition_preview_def
    by (rule sc_verify) (use cost k sc_len [of k "''gate_event''"] in simp_all)
  have "bind_transition_authority n (Some sc_principal) s = Inr ?c"
    using p by (simp add: bind_transition_authority_def sc_bind_def)
  then have b: "verify_signed_transition_authority (PDict (bound_fields ?c)) (Some sc_principal) = Inr ?c"
    by (rule verify_signed_roundtrip [OF n])
  have g: "dget [(''gate_event_id'', PStr (sc_id ''gate_event'' k))] ''gate_event_id'' = PStr (sc_id ''gate_event'' k)"
    by (simp add: dget_or_def)
  have d: "canonical_sha256 (e_sha (sc_env k)) (PDict (bound_fields ?c)) = Inr sc_digest"
    using cost by (simp add: canonical_sha256_small max_json_bytes_def del: json_cost.simps)
  show ?thesis
    using k by (simp add: apply_work_item_transition_def v preview_command_def b generated_id_def g require_stable_id_def
        is_stable_id_def d write_transaction_def latest_activation_lease_def lease isoformat_utc_def tx
        catch_integrity_def ledger_of_def del: ebind_Inr_iff split: prod.splits)
qed

text \<open>The transaction of an eligible transition that is not an acceptance.\<close>

definition sc_gate :: "nat \<Rightarrow> bound_transition \<Rightarrow> string \<Rightarrow> gate_row" where
  "sc_gate k c s = gate_row_of (sc_id ''gate_event'' k) c s ''transition_applied'' ''ELIGIBLE'' sc_digest
     (sc_id ''preview'' k) (transition_result_of s (tc_target_state c)) (show_int 0)"

definition sc_audit :: "nat \<Rightarrow> gate_row \<Rightarrow> audit_row" where
  "sc_audit k g = \<lparr>au_id = sc_id ''audit_event'' k, au_work_item_id = sc_w, au_task_version = Some 1,
      au_event_type = ''transition_applied'', au_actor = jsort (actor_py (principal_actor_record sc_principal)),
      au_payload = jsort (gate_audit_payload g), au_source_event_key = ''gate:'' @ ge_id g, au_created_at = show_int 0\<rparr>"

definition sc_outbox :: "nat \<Rightarrow> gate_row \<Rightarrow> outbox_row" where
  "sc_outbox k g = \<lparr>ob_id = sc_id ''outbox_event'' k, ob_work_item_id = sc_w,
      ob_event_type = ''transition_applied'', ob_dedupe_key = ''gate:'' @ ge_id g,
      ob_payload = jsort (gate_outbox_payload g), ob_status = ''pending'', ob_attempt_count = 0,
      ob_next_attempt_at = None, ob_last_error = None, ob_created_at = show_int 0, ob_updated_at = show_int 0\<rparr>"

definition sc_applied :: "nat \<Rightarrow> bound_transition \<Rightarrow> work_item_row \<Rightarrow> ledger \<Rightarrow> ledger" where
  "sc_applied k c item l = (let g = sc_gate k c (wi_state item) in
     l\<lparr>work_items := [item\<lparr>wi_state := tc_target_state c, wi_state_version := wi_state_version item + 1,
          wi_updated_at := show_int 0\<rparr>],
       gate_events := gate_events l @ [g], audit_events := audit_events l @ [sc_audit k g],
       outbox_events := outbox_events l @ [sc_outbox k g]\<rparr>)"

definition sc_tc :: "string \<Rightarrow> int \<Rightarrow> string list \<Rightarrow> string list \<Rightarrow> transition" where
  "sc_tc target n ds as = \<lparr>tc_work_item_id = sc_w, tc_task_version = 1, tc_target_state = target,
     tc_expected_state_version = n, tc_decision_ids = ds, tc_evidence_artifact_ids = as, tc_idempotency_key = None\<rparr>"

abbreviation sc_artifact :: string where "sc_artifact \<equiv> sc_id ''artifact'' 5"

lemma sc_tc_fields [simp]:
  "tc_work_item_id (sc_bind (sc_tc t n ds as) perm) = sc_w" "tc_task_version (sc_bind (sc_tc t n ds as) perm) = 1"
  "tc_target_state (sc_bind (sc_tc t n ds as) perm) = t" "tc_expected_state_version (sc_bind (sc_tc t n ds as) perm) = n"
  "tc_decision_ids (sc_bind (sc_tc t n ds as) perm) = ds" "tc_evidence_artifact_ids (sc_bind (sc_tc t n ds as) perm) = as"
  "tc_idempotency_key (sc_bind (sc_tc t n ds as) perm) = None"
  "tc_authority_basis (sc_bind (sc_tc t n ds as) perm) = authority_basis_of sc_principal perm"
  "tc_principal_context (sc_bind (sc_tc t n ds as) perm) = principal_to_record sc_principal"
  "tc_actor (sc_bind (sc_tc t n ds as) perm) = principal_actor_record sc_principal"
  "tc_target_state (sc_tc t n ds as) = t"
  by (simp_all add: sc_bind_def bind_authority_def transition.defs bound_transition.defs sc_tc_def)

lemma sc_tc_ok:
  assumes "t \<in> set WORK_ITEM_STATES" "0 \<le> n" "n < 10" "ds = [] \<or> ds = [sc_id ''decision'' i]" "i < 10"
    "as = [] \<or> as = [sc_artifact]"
  shows "normalize_transition_command (PDict (transition_fields (sc_tc t n ds as))) = Inr (sc_tc t n ds as)"
proof -
  have "length t \<le> 20" using assms(1) by (auto simp: WORK_ITEM_STATES_def)
  then have "json_cost (PDict (transition_fields (sc_tc t n ds as))) \<le> max_json_bytes"
    using assms sc_len [of 0 "''work_item''"] sc_len [of i "''decision''"] sc_len [of 5 "''artifact''"]
    by (auto simp: transition_fields_def sc_tc_def max_json_bytes_def)
  then have "\<exists>x. canonical_json (PDict (transition_fields (sc_tc t n ds as))) = Inr x"
    by (simp add: canonical_json_small del: json_cost.simps)
  with assms show ?thesis
    by (auto simp: normalize_transition_command_def transition_fields_def sc_tc_def require_object_def AUTHORITY_FIELDS_def
      PUBLIC_FIELDS_def some_key_def only_keys_def keys_of_def dget_or_def one_of_def
      require_stable_id_def is_stable_id_def require_positive_integer_def require_non_negative_integer_def
      normalize_id_list_def bounded_list_def optional_text_def)
qed

lemma sc_bound_cost:
  assumes "t \<in> set WORK_ITEM_STATES" "perm \<in> set WORK_ITEM_PERMISSIONS" "0 \<le> n" "n < 10"
    "ds = [] \<or> ds = [sc_id ''decision'' i]" "i < 10" "as = [] \<or> as = [sc_artifact]"
  shows "json_cost (PDict (bound_fields (sc_bind (sc_tc t n ds as) perm))) \<le> 100000"
proof -
  have "length t \<le> 20" "length perm \<le> 50" using assms(1,2) by (auto simp: WORK_ITEM_STATES_def WORK_ITEM_PERMISSIONS_def)
  then show ?thesis
    using assms sc_len [of 0 "''work_item''"] sc_len [of i "''decision''"] sc_len [of 5 "''artifact''"] sc_cost_principal
    by (auto simp: bound_fields_def transition_fields_def actor_py_def principal_actor_record_def sc_principal_def
        authority_basis_of_def)
qed

lemma sc_authority_cost: "perm \<in> set WORK_ITEM_PERMISSIONS \<Longrightarrow>
    json_cost (PDict (authority_basis_of sc_principal perm)) \<le> max_json_bytes"
  by (auto simp: WORK_ITEM_PERMISSIONS_def authority_basis_of_def sc_principal_def max_json_bytes_def)

lemma sc_gate_fields [simp]: "ge_id (sc_gate k c s) = sc_id ''gate_event'' k"
  "ge_preview_id (sc_gate k c s) = sc_id ''preview'' k" "ge_created_at (sc_gate k c s) = show_int 0"
  "ge_outcome (sc_gate k c s) = ''transition_applied''" "ge_task_version (sc_gate k c s) = tc_task_version c"
  "ge_expected_state_version (sc_gate k c s) = tc_expected_state_version c" "ge_command_digest (sc_gate k c s) = sc_digest"
  "ge_idempotency_key (sc_gate k c s) = tc_idempotency_key c" "ge_work_item_id (sc_gate k c s) = tc_work_item_id c"
  "ge_transition_result (sc_gate k c s) = transition_result_of s (tc_target_state c)"
  "ge_from_state (sc_gate k c s) = s" "ge_target_state (sc_gate k c s) = tc_target_state c"
  "ge_reason_code (sc_gate k c s) = ''ELIGIBLE''"
  by (simp_all add: sc_gate_def gate_row_of_def)

lemma sc_payload_cost:
  assumes "k < 10" "t \<in> set WORK_ITEM_STATES" "s \<in> set WORK_ITEM_STATES"
  shows "json_cost (gate_audit_payload (sc_gate k (sc_bind (sc_tc t n ds as) perm) s)) \<le> max_json_bytes"
    "json_cost (gate_outbox_payload (sc_gate k (sc_bind (sc_tc t n ds as) perm) s)) \<le> max_json_bytes"
proof -
  have "length t \<le> 20" "length s \<le> 20" using assms(2,3) by (auto simp: WORK_ITEM_STATES_def)
  moreover have "length (transition_result_of s t) \<le> 30"
    by (auto simp: transition_result_of_def requirement_for_def TRANSITION_REQUIREMENTS_def cancel_requirement_def
        split: option.splits if_splits)
  ultimately show "json_cost (gate_audit_payload (sc_gate k (sc_bind (sc_tc t n ds as) perm) s)) \<le> max_json_bytes"
    "json_cost (gate_outbox_payload (sc_gate k (sc_bind (sc_tc t n ds as) perm) s)) \<le> max_json_bytes"
    using assms(1) sc_len [of k "''gate_event''"] sc_len [of 0 "''work_item''"]
    by (simp_all add: gate_audit_payload_def gate_outbox_payload_def max_json_bytes_def)
qed

definition sc_fresh :: "nat \<Rightarrow> ledger \<Rightarrow> bool" where
  "sc_fresh k l \<longleftrightarrow> (\<forall>g\<in>set (gate_events l). \<exists>j<10. j \<noteq> k \<and> ge_id g = sc_id ''gate_event'' j
        \<and> ge_preview_id g = sc_id ''preview'' j)
     \<and> (\<forall>a\<in>set (audit_events l). \<exists>j<10. j \<noteq> k \<and> au_id a = sc_id ''audit_event'' j
        \<and> au_source_event_key a = ''gate:'' @ sc_id ''gate_event'' j)
     \<and> (\<forall>x\<in>set (outbox_events l). \<exists>j<10. j \<noteq> k \<and> ob_id x = sc_id ''outbox_event'' j
        \<and> ob_dedupe_key x = ''gate:'' @ sc_id ''gate_event'' j)"

lemma sc_kinds: "map_of ID_PREFIXES ''gate_event'' = Some ''gate''" "map_of ID_PREFIXES ''preview'' = Some ''preview''"
  "map_of ID_PREFIXES ''audit_event'' = Some ''audit''" "map_of ID_PREFIXES ''outbox_event'' = Some ''outbox''"
  "map_of ID_PREFIXES ''decision'' = Some ''decision''"
  by (simp_all add: ID_PREFIXES_def)

lemma sc_write:
  fixes t s perm :: string and n :: int and ds as :: "string list"
  defines "c \<equiv> sc_bind (sc_tc t n ds as) perm"
  assumes k: "k < 10" and t: "t \<in> set WORK_ITEM_STATES" "s \<in> set WORK_ITEM_STATES" "t \<noteq> ''accepted''"
    and perm: "perm \<in> set WORK_ITEM_PERMISSIONS" and n: "0 \<le> n"
    and ids: "ds = [] \<or> ds = [sc_id ''decision'' i]" "i < 10" "as = [] \<or> as = [sc_artifact]"
    and fresh: "sc_fresh k l" and tasks: "has_task l sc_w 1" "has_work_item l sc_w"
  shows "write_gate_facts (sc_env k) c (sc_gate k c s) l = Inr (l\<lparr>gate_events := gate_events l @ [sc_gate k c s],
      audit_events := audit_events l @ [sc_audit k (sc_gate k c s)],
      outbox_events := outbox_events l @ [sc_outbox k (sc_gate k c s)]\<rparr>)"
proof -
  have tr: "transition_result_of s t \<in> {''state_advanced'', ''returned_for_revision''}"
    by (auto simp: transition_result_of_def requirement_for_def TRANSITION_REQUIREMENTS_def cancel_requirement_def
        split: option.splits if_splits)
  have g: "insert_gate (sc_gate k c s) l = Inr (l\<lparr>gate_events := gate_events l @ [sc_gate k c s]\<rparr>)"
    using fresh k tr n tasks sc_kinds
    by (auto simp: insert_gate_def constrained_def c_def unique_key_def unique_null_def list_all_iff sc_fresh_def)
  have a: "insert_audit (sc_audit k (sc_gate k c s)) (l\<lparr>gate_events := x\<rparr>) =
      Inr (l\<lparr>gate_events := x, audit_events := audit_events l @ [sc_audit k (sc_gate k c s)]\<rparr>)" for x
    using fresh k tasks sc_kinds
    by (auto simp: insert_audit_def constrained_def sc_audit_def unique_key_def list_all_iff sc_fresh_def has_work_item_def)
  have o: "insert_outbox (sc_outbox k (sc_gate k c s)) (l\<lparr>gate_events := x, audit_events := y\<rparr>) =
      Inr (l\<lparr>gate_events := x, audit_events := y, outbox_events := outbox_events l @ [sc_outbox k (sc_gate k c s)]\<rparr>)" for x y
    using fresh k tasks sc_kinds
    by (auto simp: insert_outbox_def constrained_def sc_outbox_def unique_key_def list_all_iff sc_fresh_def has_work_item_def)
  have j: "json_column (PList (map PStr ds)) = Inr (PList (map PStr ds))" "json_column (PList (map PStr as)) = Inr (PList (map PStr as))"
    "json_column (PDict (authority_basis_of sc_principal perm)) = Inr (jsort (PDict (authority_basis_of sc_principal perm)))"
    "json_column (principal_to_record sc_principal) = Inr (jsort (principal_to_record sc_principal))"
    "json_column (actor_py (principal_actor_record sc_principal)) = Inr (jsort (actor_py (principal_actor_record sc_principal)))"
    using ids sc_len [of i "''decision''"] sc_len [of 5 "''artifact''"] sc_authority_cost [OF perm] sc_cost_principal
    by (auto simp: json_column_small max_json_bytes_def actor_py_def principal_actor_record_def sc_principal_def)
  note p = sc_payload_cost [OF k t(1,2), of n ds as perm, folded c_def, THEN json_column_small]
  have f: "tc_decision_ids c = ds" "tc_evidence_artifact_ids c = as" "tc_authority_basis c = authority_basis_of sc_principal perm"
    "tc_principal_context c = principal_to_record sc_principal" "tc_target_state c = t" "tc_work_item_id c = sc_w"
    "tc_task_version c = 1" "tc_actor c = principal_actor_record sc_principal" by (simp_all add: c_def)
  have ab: "\<lparr>au_id = sc_id ''audit_event'' k, au_work_item_id = sc_w, au_task_version = Some 1,
      au_event_type = ''transition_applied'', au_actor = jsort (actor_py (principal_actor_record sc_principal)),
      au_payload = jsort (gate_audit_payload (sc_gate k c s)), au_source_event_key = ''gate:'' @ sc_id ''gate_event'' k, au_created_at = show_int 0\<rparr>
    = sc_audit k (sc_gate k c s)" by (simp add: sc_audit_def)
  have ob: "\<lparr>ob_id = sc_id ''outbox_event'' k, ob_work_item_id = sc_w,
      ob_event_type = ''transition_applied'', ob_dedupe_key = ''gate:'' @ sc_id ''gate_event'' k,
      ob_payload = jsort (gate_outbox_payload (sc_gate k c s)), ob_status = ''pending'', ob_attempt_count = 0,
      ob_next_attempt_at = None, ob_last_error = None, ob_created_at = show_int 0, ob_updated_at = show_int 0\<rparr>
    = sc_outbox k (sc_gate k c s)" by (simp add: sc_outbox_def)
  show ?thesis
    using t(3) ab ob
    by (simp add: write_gate_facts_def f j g insert_audit_event_def insert_outbox_event_def p a o
        del: ebind_Inr_iff append.simps)
qed

lemma sc_tx:
  fixes t perm :: string and n :: int and ds as :: "string list"
  defines "c \<equiv> sc_bind (sc_tc t n ds as) perm"
  assumes k: "k < 10" and items: "work_items l = [item]" "wi_id item = sc_w" "wi_state_version item = n"
      "wi_current_task_version item = 1"
    and el: "evaluate_transition l item c = Inr eligible"
    and t: "t \<in> set WORK_ITEM_STATES" "wi_state item \<in> set WORK_ITEM_STATES" "t \<noteq> ''accepted''"
    and perm: "perm \<in> set WORK_ITEM_PERMISSIONS" and n: "0 \<le> n"
    and ids: "ds = [] \<or> ds = [sc_id ''decision'' i]" "i < 10" "as = [] \<or> as = [sc_artifact]"
    and fresh: "sc_fresh k l" and tasks: "has_task l sc_w 1"
  shows "transition_transaction (sc_env k) c (sc_id ''gate_event'' k) (sc_id ''preview'' k) sc_digest (show_int 0) l
    = Inr ((sc_gate k c (wi_state item), False), sc_applied k c item l)"
proof -
  let ?l = "l\<lparr>work_items := [item\<lparr>wi_state := t, wi_state_version := n + 1, wi_updated_at := show_int 0\<rparr>]\<rparr>"
  have ex: "existing_gate l (sc_id ''preview'' k) c = None"
    using fresh k sc_kinds by (auto simp: existing_gate_def c_def sc_fresh_def row_with_None split: option.splits)
  have cas: "cas_state c (wi_state item) (show_int 0) l = (?l, True)"
    using items by (simp add: cas_state_def c_def update_where_def)
  have w: "write_gate_facts (sc_env k) c (sc_gate k c (wi_state item)) ?l = Inr (?l\<lparr>gate_events := gate_events ?l @ [sc_gate k c (wi_state item)],
      audit_events := audit_events ?l @ [sc_audit k (sc_gate k c (wi_state item))],
      outbox_events := outbox_events ?l @ [sc_outbox k (sc_gate k c (wi_state item))]\<rparr>)"
    unfolding c_def using k t perm n ids fresh tasks items
    by (intro sc_write [where i = i]) (simp_all add: sc_fresh_def has_task_def has_work_item_def)
  have r: "work_item_row_of l (tc_work_item_id c) = Inr item" using items by (simp add: c_def)
  have g: "gate_row_of (sc_id ''gate_event'' k) c (wi_state item) ''transition_applied'' ''ELIGIBLE'' sc_digest (sc_id ''preview'' k)
      (transition_result_of (wi_state item) t) (show_int 0) = sc_gate k c (wi_state item)"
    by (simp add: sc_gate_def c_def)
  have e: "ev_eligible eligible" "ev_reason_code eligible = ''ELIGIBLE''" by (simp_all add: eligible_def)
  have f: "tc_target_state c = t" by (simp add: c_def)
  show ?thesis
    using w by (simp add: transition_transaction_def ex r el cas e g sc_applied_def Let_def items(3) f del: ebind_Inr_iff)
qed

lemma sc_basis_ok [simp]:
  assumes "perm \<in> set WORK_ITEM_PERMISSIONS"
  shows "normalize_authority_basis (PDict (authority_basis_of sc_principal perm)) (Some perm) =
    Inr (authority_basis_of sc_principal perm)"
proof -
  have "perm \<noteq> []" using assms by (auto simp: WORK_ITEM_PERMISSIONS_def)
  then have "py_or (py_or (dget (authority_basis_of sc_principal perm) ''authority'')
      (dget (authority_basis_of sc_principal perm) ''permission'')) (dget (authority_basis_of sc_principal perm) ''kind'') = PStr perm"
    by (simp add: py_or_def authority_basis_of_def dget_or_def)
  moreover have "length (authority_basis_of sc_principal perm) = 5" "authority_basis_of sc_principal perm \<noteq> []"
    by (simp_all add: authority_basis_of_def)
  ultimately show ?thesis
    using sc_authority_cost [OF assms]
    by (simp add: normalize_authority_basis_def require_object_def Let_def canonical_json_small del: json_cost.simps)
qed

lemmas sc_eval = evaluate_transition_def TERMINAL_WORK_ITEM_STATES_def can_transition_def WORK_ITEM_TRANSITIONS_def
  requirement_for_def TRANSITION_REQUIREMENTS_def cancel_requirement_def catch_governance_def WORK_ITEM_PERMISSIONS_def
  evaluate_decisions_def assert_artifacts_def assert_decisions_def active_blocker_rows_def Let_def


lemma sc_applied_fields [simp]:
  "work_items (sc_applied k c item l) = [item\<lparr>wi_state := tc_target_state c, wi_state_version := wi_state_version item + 1,
          wi_updated_at := show_int 0\<rparr>]"
  "gate_events (sc_applied k c item l) = gate_events l @ [sc_gate k c (wi_state item)]"
  "audit_events (sc_applied k c item l) = audit_events l @ [sc_audit k (sc_gate k c (wi_state item))]"
  "outbox_events (sc_applied k c item l) = outbox_events l @ [sc_outbox k (sc_gate k c (wi_state item))]"
  "task_versions (sc_applied k c item l) = task_versions l" "activation_leases (sc_applied k c item l) = activation_leases l"
  "blocker_events (sc_applied k c item l) = blocker_events l" "execution_attempts (sc_applied k c item l) = execution_attempts l"
  "attempt_events (sc_applied k c item l) = attempt_events l" "artifact_refs (sc_applied k c item l) = artifact_refs l"
  "decision_records (sc_applied k c item l) = decision_records l"
  "acceptance_manifests (sc_applied k c item l) = acceptance_manifests l"
  "external_associations (sc_applied k c item l) = external_associations l"
  by (simp_all add: sc_applied_def Let_def)

lemma sc_side_fields [simp]: "au_id (sc_audit k g) = sc_id ''audit_event'' k" "au_source_event_key (sc_audit k g) = ''gate:'' @ ge_id g"
  "ob_id (sc_outbox k g) = sc_id ''outbox_event'' k" "ob_dedupe_key (sc_outbox k g) = ''gate:'' @ ge_id g"
  by (simp_all add: sc_audit_def sc_outbox_def)

lemma sc_fresh_snoc: "sc_fresh k l \<Longrightarrow> j < 10 \<Longrightarrow> j \<noteq> k \<Longrightarrow> sc_fresh k (sc_applied j c item l)"
  by (auto simp: sc_fresh_def)


end
