(* ===== verification/Scenario.thy ===== *)
theory Scenario
  imports Scenario_Base
begin

text \<open>
  The complete life of one work item, run in the kernel: creation, ready, delivery, a claimed and
  completed attempt with its report, the decision to submit, submission, the decision to accept and
  acceptance.  Each \<open>sc_run\<close> lemma is one command on the ledger before it; \<open>sc1\<close> to \<open>sc9\<close> are the
  ledgers after the commands, all reachable.  The witnesses of the properties use them.
\<close>

section \<open>Creation\<close>

definition sc_command1 :: create_command where
  "sc_command1 = \<lparr>cc_origin = \<lparr>or_kind = ''manual'', or_ref = None, or_snapshot_digest = sc_digest\<rparr>,
     cc_attributes = [(''title'', PStr ''t'')], cc_task = \<lparr>tk_objective_ref = None, tk_plan_version_refs = [],
     tk_artifact_contract = [], tk_approval_requirements = [], tk_reporting_destination = [],
     tk_expected_receipt_contract = [], tk_payload = []\<rparr>, cc_idempotency_key = None\<rparr>"

definition sc_item1 :: work_item_row where
  "sc_item1 = \<lparr>wi_id = sc_w, wi_state = ''proposed'', wi_state_version = 0, wi_origin = cc_origin sc_command1,
     wi_imported = False, wi_current_task_version = 1, wi_attributes = PDict [(''title'', PStr ''t'')],
     wi_content_digest = sc_digest, wi_creation_operation = ''create'', wi_creation_preview_id = sc_id ''preview'' 0,
     wi_idempotency_key = None, wi_created_at = show_int 0, wi_updated_at = show_int 0\<rparr>"

definition sc_task1 :: task_version_row where
  "sc_task1 = task_version_row_of sc_w 1 (cc_task sc_command1) sc_digest (sc_id ''preview'' 0 @ '':task:1'') (show_int 0)"

definition sc1 :: ledger where
  "sc1 = empty_ledger\<lparr>work_items := [sc_item1], task_versions := [sc_task1]\<rparr>"

lemma sc_create_ok: "create_ok False sc_command1"
  by (simp add: create_ok_def sc_command1_def origin_ok_def task_ok_def opt_text_ok_def ORIGIN_KINDS_def
     create_py_def origin_py_def task_py_def canonical_json_small max_json_bytes_def plain_keys
     sensitive_key_def SENSITIVE_KEY_FRAGMENTS_def py_lower_def py_lower_char_def MAX_TEXT_LENGTH_def)

definition sc_create :: py where "sc_create = create_py sc_command1"

definition sc_create_fields :: dict where
  "sc_create_fields = [(''origin'', origin_py (cc_origin sc_command1)), (''attributes'', PDict (cc_attributes sc_command1)),
     (''task'', task_py (cc_task sc_command1)), (''idempotency_key'', of_opt (cc_idempotency_key sc_command1))]"

lemma sc_create_fields: "create_py sc_command1 = PDict sc_create_fields"
  by (simp add: create_py_def sc_create_fields_def)

lemma sc_lease [simp]: "latest_activation_lease empty_ledger = None"
  by (simp add: latest_activation_lease_def empty_ledger_def)

definition sc_create_preview :: py where
  "sc_create_preview = PDict (sc_preview 0 ''work_item_create'' sc_create_fields [(''work_item_id'', PStr sc_w)])"

lemma sc_run1: "run (sc_env 0) sc_cfg empty_ledger (Apply_Create sc_create_preview) = Inr sc1"
proof -
  have cost: "json_cost (PDict sc_create_fields) \<le> 100000" "json_cost (PDict [(''work_item_id'', PStr sc_w)]) \<le> 1000"
    using sc_len [of 0 "''work_item''"]
    by (simp_all add: sc_create_fields_def sc_command1_def origin_py_def task_py_def)
  have v: "preview_verify (sc_env 0) sc_create_preview ''work_item_create'' =
      Inr (sc_preview 0 ''work_item_create'' sc_create_fields [(''work_item_id'', PStr sc_w)])"
    unfolding sc_create_preview_def by (rule sc_verify) (use cost in simp_all)
  have n: "normalize_create_command (PDict sc_create_fields) False = Inr sc_command1"
    using normalize_create_again [OF sc_create_ok] by (simp add: sc_create_fields)
  have t: "insert_task_version (sc_env 0) sc_w 1 (cc_task sc_command1) (sc_id ''preview'' 0 @ '':task:1'') (show_int 0)
      (empty_ledger\<lparr>work_items := [sc_item1]\<rparr>) = Inr sc1"
    by (simp add: insert_task_version_def sc_command1_def task_py_def canonical_sha256_small json_column_small max_json_bytes_def
        insert_task_version_row_def constrained_def task_version_row_of_def unique_key_def empty_ledger_def has_work_item_def
        sc_item1_def sc1_def sc_task1_def)
  have c: "canonical_sha256 (e_sha (sc_env 0)) (PDict sc_create_fields) = Inr sc_digest"
    using cost(1) by (simp add: canonical_sha256_small max_json_bytes_def del: json_cost.simps)
  have r: "new_work_item_row sc_w \<lparr>cr_origin = cc_origin sc_command1, cr_attributes = cc_attributes sc_command1,
      cr_task = cc_task sc_command1, cr_idempotency_key = cc_idempotency_key sc_command1,
      cr_content = PDict sc_create_fields\<rparr> sc_digest ''create'' (sc_id ''preview'' 0) (show_int 0) = sc_item1"
    by (simp add: new_work_item_row_def sc_item1_def sc_command1_def)
  have i: "insert_work_item sc_item1 empty_ledger = Inr (empty_ledger\<lparr>work_items := [sc_item1]\<rparr>)"
    by (simp add: insert_work_item_def constrained_def sc_item1_def sc_command1_def WORK_ITEM_STATES_def ORIGIN_KINDS_def
       unique_key_def unique_null_def empty_ledger_def)
  have a: "json_column (PDict (cc_attributes sc_command1)) = Inr (PDict [(''title'', PStr ''t'')])"
    by (simp add: sc_command1_def json_column_small max_json_bytes_def)
  have x: "existing_creation empty_ledger pid cr = None" for pid cr
    by (simp add: existing_creation_def empty_ledger_def split: option.splits)
  have g: "dget [(''work_item_id'', PStr sc_w)] ''work_item_id'' = PStr sc_w" by (simp add: dget_or_def)
  show ?thesis
    by (simp add: apply_work_item_create_def v preview_command_def n sc_create_fields apply_create_def
        normalize_creation_def generated_id_def g require_stable_id_def is_stable_id_def c r i t a x del: ebind_Inr_iff
        add: ledger_of_def write_transaction_def catch_integrity_def isoformat_utc_def)
qed

section \<open>Ready, and delivery starts\<close>

lemma sc1_fields [simp]: "work_items sc1 = [sc_item1]" "task_versions sc1 = [sc_task1]" "gate_events sc1 = []"
  "audit_events sc1 = []" "outbox_events sc1 = []" "activation_leases sc1 = []" "blocker_events sc1 = []"
  "execution_attempts sc1 = []" "attempt_events sc1 = []" "artifact_refs sc1 = []" "decision_records sc1 = []"
  "acceptance_manifests sc1 = []" "external_associations sc1 = []"
  by (simp_all add: sc1_def empty_ledger_def)

lemma sc_task1_fields [simp]: "tv_work_item_id sc_task1 = sc_w" "tv_task_version sc_task1 = 1"
  by (simp_all add: sc_task1_def task_version_row_of_def)

lemma sc_item1_fields [simp]: "wi_id sc_item1 = sc_w" "wi_state sc_item1 = ''proposed''" "wi_state_version sc_item1 = 0"
  "wi_current_task_version sc_item1 = 1"
  by (simp_all add: sc_item1_def)

abbreviation sc_c2 :: bound_transition where "sc_c2 \<equiv> sc_bind (sc_tc ''ready'' 0 [] []) ''work_item.ready''"

lemma ev2: "evaluate_transition sc1 sc_item1 sc_c2 = Inr eligible"
  by (simp add: sc_eval)

definition sc2 :: ledger where "sc2 = sc_applied 2 sc_c2 sc_item1 sc1"

lemma sc_run2: "run (sc_env 2) sc_cfg sc1 (Apply_Transition (sc_transition_preview 2 sc_c2) (Some sc_principal)) = Inr sc2"
proof -
  have "transition_transaction (sc_env 2) sc_c2 (sc_id ''gate_event'' 2) (sc_id ''preview'' 2) sc_digest (show_int 0) sc1
     = Inr ((sc_gate 2 sc_c2 (wi_state sc_item1), False), sc_applied 2 sc_c2 sc_item1 sc1)"
    using ev2 by (intro sc_tx [where i = 0])
      (simp_all add: sc_fresh_def WORK_ITEM_STATES_def WORK_ITEM_PERMISSIONS_def has_task_def)
  then show ?thesis unfolding sc2_def
    by (intro sc_transition [where s = "''proposed''"] sc_tc_ok [where i = 0] sc_bound_cost [where i = 0])
      (simp_all add: WORK_ITEM_STATES_def WORK_ITEM_PERMISSIONS_def transition_permission_def requirement_for_def TRANSITION_REQUIREMENTS_def)
qed

lemma sc_fresh1 [simp]: "sc_fresh k sc1"
  by (simp add: sc_fresh_def)

lemma sc_fresh_cong: "sc_fresh k l \<Longrightarrow> gate_events l' = gate_events l \<Longrightarrow> audit_events l' = audit_events l \<Longrightarrow>
    outbox_events l' = outbox_events l \<Longrightarrow> sc_fresh k l'"
  by (simp add: sc_fresh_def)

text \<open>Step 3: delivery starts.\<close>

abbreviation sc_c3 :: bound_transition where "sc_c3 \<equiv> sc_bind (sc_tc ''in_delivery'' 1 [] []) ''work_item.start_delivery''"

definition sc_item :: "string \<Rightarrow> int \<Rightarrow> work_item_row" where
  "sc_item s n = sc_item1\<lparr>wi_state := s, wi_state_version := n, wi_updated_at := show_int 0\<rparr>"

lemma sc_item_fields [simp]: "wi_id (sc_item s n) = sc_w" "wi_state (sc_item s n) = s" "wi_state_version (sc_item s n) = n"
  "wi_current_task_version (sc_item s n) = 1"
  by (simp_all add: sc_item_def)

lemma sc_item_update: "(sc_item s n)\<lparr>wi_state := t, wi_state_version := m, wi_updated_at := show_int 0\<rparr> = sc_item t m"
  "sc_item1\<lparr>wi_state := t, wi_state_version := m, wi_updated_at := show_int 0\<rparr> = sc_item t m"
  by (simp_all add: sc_item_def)

lemma sc2_items [simp]: "work_items sc2 = [sc_item ''ready'' 1]"
  by (simp add: sc2_def sc_item_update)

lemma sc2_fields [simp]: "task_versions sc2 = [sc_task1]" "activation_leases sc2 = []" "blocker_events sc2 = []"
  "execution_attempts sc2 = []" "attempt_events sc2 = []" "artifact_refs sc2 = []" "decision_records sc2 = []"
  "acceptance_manifests sc2 = []"
  by (simp_all add: sc2_def)

definition sc3 :: ledger where "sc3 = sc_applied 3 sc_c3 (sc_item ''ready'' 1) sc2"

lemma ev3: "evaluate_transition sc2 (sc_item ''ready'' 1) sc_c3 = Inr eligible"
  by (simp add: sc_eval)

lemmas sc_names = WORK_ITEM_STATES_def WORK_ITEM_PERMISSIONS_def transition_permission_def requirement_for_def
  TRANSITION_REQUIREMENTS_def

lemma sc_run3: "run (sc_env 3) sc_cfg sc2 (Apply_Transition (sc_transition_preview 3 sc_c3) (Some sc_principal)) = Inr sc3"
proof -
  have "sc_fresh 3 sc2" unfolding sc2_def by (rule sc_fresh_snoc) simp_all
  then have "transition_transaction (sc_env 3) sc_c3 (sc_id ''gate_event'' 3) (sc_id ''preview'' 3) sc_digest (show_int 0) sc2
     = Inr ((sc_gate 3 sc_c3 (wi_state (sc_item ''ready'' 1)), False), sc_applied 3 sc_c3 (sc_item ''ready'' 1) sc2)"
    using ev3 by (intro sc_tx [where i = 0]) (simp_all add: sc_names has_task_def)
  then show ?thesis unfolding sc3_def
    by (intro sc_transition [where s = "''ready''"] sc_tc_ok [where i = 0] sc_bound_cost [where i = 0]) (simp_all add: sc_names)
qed

lemma sc3_fields [simp]: "work_items sc3 = [sc_item ''in_delivery'' 2]" "task_versions sc3 = [sc_task1]"
  "activation_leases sc3 = []" "blocker_events sc3 = []" "execution_attempts sc3 = []" "attempt_events sc3 = []"
  "artifact_refs sc3 = []" "decision_records sc3 = []" "acceptance_manifests sc3 = []"
  by (simp_all add: sc3_def sc_item_update)

text \<open>Step 4: a runtime attempt is claimed.\<close>

abbreviation sc_attempt :: string where "sc_attempt \<equiv> sc_id ''attempt'' 4"

definition sc_claim :: py where
  "sc_claim = PDict [(''work_item_id'', PStr sc_w), (''task_version'', PInt 1), (''source_event_key'', PStr ''k4'')]"

definition sc_attempt_row :: attempt_row where
  "sc_attempt_row = runtime_attempt_row sc_attempt sc_w 1 ''claimed'' None (PDict []) ''k4'' (show_int 0)"

definition sc_claim_event :: attempt_event_row where
  "sc_claim_event = \<lparr>ae_id = sc_id ''attempt_event'' 4, ae_attempt_id = sc_attempt, ae_event_type = ''claim'',
     ae_source_event_key = ''k4'', ae_payload = jsort (claim_payload sc_w 1 None ''claimed'' None [] []),
     ae_created_at = show_int 0\<rparr>"

definition sc4 :: ledger where
  "sc4 = sc3\<lparr>execution_attempts := [sc_attempt_row], attempt_events := [sc_claim_event]\<rparr>"

lemma sc_text [simp]: "require_text (PStr ''k4'') 1024 = Inr ''k4''" "require_text (PStr ''k5'') 1024 = Inr ''k5''"
  "require_text (PStr ''a5'') 1024 = Inr ''a5''" "require_text (PStr ''k6'') 1024 = Inr ''k6''"
  "require_text (PStr ''k8'') 1024 = Inr ''k8''" "require_text (PStr ''ok'') MAX_TEXT_LENGTH = Inr ''ok''"
  "require_text (PStr ''r1'') MAX_URI_LENGTH = Inr ''r1''" "require_text (PStr ''report.md'') MAX_URI_LENGTH = Inr ''report.md''"
  by (simp_all add: require_text_def py_strip_def is_ws_def MAX_TEXT_LENGTH_def MAX_URI_LENGTH_def Let_def)

lemma sc_empty_json [simp]: "json_column (PDict []) = Inr (PDict [])"
  by (simp add: json_column_small max_json_bytes_def)

lemma sc_claim_payload_cost: "json_cost (claim_payload sc_w 1 None ''claimed'' None [] []) \<le> max_json_bytes"
  using sc_len [of 0 "''work_item''"] by (simp add: claim_payload_def max_json_bytes_def)

lemma sc_run4: "run (sc_env 4) sc_cfg sc3 (Create_Attempt sc_claim) = Inr sc4"
proof -
  have r: "require_stable_id (PStr sc_w) ''work_item'' = Inr sc_w" by (simp add: require_stable_id_def is_stable_id_def)
  have "claim_transaction (sc_env 4) sc_w 1 sc_attempt None ''claimed'' None [] ''k4'' [] (show_int 0) sc3
      = Inr ((sc_attempt_row, False), sc4)"
    using sc_claim_payload_cost
    by (simp add: claim_transaction_def work_item_row_of_def row_with_def TERMINAL_WORK_ITEM_STATES_def task_row_of_def
        json_column_small max_json_bytes_def insert_attempt_def constrained_def runtime_attempt_row_def unique_key_def
        unique_null_def has_task_def insert_attempt_event_def has_attempt_def attempt_of_def sc4_def sc_attempt_row_def
        sc_claim_event_def Let_def del: ebind_Inr_iff json_cost.simps)
  then show ?thesis
    by (simp add: create_execution_attempt_def sc_claim_def require_object_def only_keys_def keys_of_def dget_or_def r
        require_positive_integer_def id_or_fresh_def one_of_def require_metadata_object_def optional_text_def
        normalize_external_refs_def supplied_id_def isoformat_utc_def write_transaction_def latest_activation_lease_def
        catch_integrity_def ledger_of_def Let_def del: ebind_Inr_iff)
qed

section \<open>Completion and decisions\<close>

text \<open>Step 5: the attempt completes with its report.\<close>

definition sc_artifact_command :: py where
  "sc_artifact_command = PDict [(''work_item_id'', PStr sc_w), (''task_version'', PInt 1),
        (''attempt_id'', PStr sc_attempt), (''kind'', PStr ''report''), (''uri'', PStr ''report.md''),
        (''immutable_ref'', PStr ''r1''), (''digest'', PStr sc_digest), (''source_event_key'', PStr ''a5'')]"

definition sc_completion :: py where
  "sc_completion = PDict [(''attempt_id'', PStr sc_attempt), (''status'', PStr ''completed''),
     (''source_event_key'', PStr ''k5''), (''artifacts'', PList [sc_artifact_command])]"

definition sc_af :: artifact where
  "sc_af = \<lparr>af_id = sc_artifact, af_id_supplied = False, af_work_item_id = sc_w, af_task_version = 1,
     af_attempt_id = Some sc_attempt, af_kind = ''report'', af_uri = ''report.md'', af_immutable_ref = ''r1'',
     af_digest = sc_digest, af_metadata = [], af_source_event_key = ''a5''\<rparr>"

definition sc_artifact_row :: artifact_row where
  "sc_artifact_row = \<lparr>ar_id = sc_artifact, ar_work_item_id = sc_w, ar_task_version = 1, ar_attempt_id = Some sc_attempt,
     ar_kind = ''report'', ar_uri = ''report.md'', ar_immutable_ref = ''r1'', ar_digest = sc_digest, ar_metadata = PDict [],
     ar_source_event_key = ''a5'', ar_created_at = show_int 0\<rparr>"

definition sc_completed_row :: attempt_row where
  "sc_completed_row = complete_attempt_row ''completed'' ''k5'' (show_int 0) (PDict []) sc_attempt_row"

definition sc_completion_event :: attempt_event_row where
  "sc_completion_event = \<lparr>ae_id = sc_id ''attempt_event'' 5, ae_attempt_id = sc_attempt, ae_event_type = ''completion'',
     ae_source_event_key = ''k5'', ae_payload = jsort (completion_payload ''completed'' [] [sc_af]),
     ae_created_at = show_int 0\<rparr>"

definition sc5 :: ledger where
  "sc5 = sc4\<lparr>execution_attempts := [sc_completed_row], attempt_events := [sc_claim_event, sc_completion_event],
     artifact_refs := [sc_artifact_row]\<rparr>"

lemma sc4_fields [simp]: "work_items sc4 = [sc_item ''in_delivery'' 2]" "task_versions sc4 = [sc_task1]"
  "activation_leases sc4 = []" "blocker_events sc4 = []" "execution_attempts sc4 = [sc_attempt_row]"
  "attempt_events sc4 = [sc_claim_event]" "artifact_refs sc4 = []" "decision_records sc4 = []" "acceptance_manifests sc4 = []"
  by (simp_all add: sc4_def)

lemma sc_norm_artifact: "normalize_artifact_command (sc_env 5) 0 sc_artifact_command = Inr sc_af"
  by (simp add: normalize_artifact_command_def sc_artifact_command_def sc_af_def require_object_def only_keys_def
      keys_of_def dget_or_def ARTIFACT_FIELDS_def ARTIFACT_KINDS_def one_of_def require_sha256_def
      verify_local_artifact_digest_def local_artifact_path_def require_metadata_object_def require_stable_id_def
      is_stable_id_def require_positive_integer_def del: ebind_Inr_iff)

lemma sc_completion_cost: "json_cost (completion_payload ''completed'' [] [sc_af]) \<le> max_json_bytes"
  using sc_len [of 0 "''work_item''"] sc_len [of 4 "''attempt''"]
  by (simp add: completion_payload_def artifact_payload_def sc_af_def max_json_bytes_def)

lemma sc_attempt_event_ids: "sc_id ''attempt_event'' 4 \<noteq> sc_id ''attempt_event'' 5"
  by (simp add: sc_id_def ID_PREFIXES_def show_nat.simps)

lemma sc_run5: "run (sc_env 5) sc_cfg sc4 (Complete_Attempt sc_completion) = Inr sc5"
proof -
  have a: "at_id sc_attempt_row = sc_attempt" "at_kind sc_attempt_row = ''runtime''" "at_dispatch_authorized sc_attempt_row"
    "at_completion_event_key sc_attempt_row = None" "at_work_item_id sc_attempt_row = sc_w" "at_task_version sc_attempt_row = 1"
    by (simp_all add: sc_attempt_row_def runtime_attempt_row_def)
  have c: "at_id sc_completed_row = sc_attempt" "at_work_item_id sc_completed_row = sc_w" "at_task_version sc_completed_row = 1"
    by (simp_all add: sc_completed_row_def complete_attempt_row_def a)
  have f: "first_completion (sc_env 5) sc_attempt_row sc_attempt ''completed'' ''k5'' [] [sc_af] (show_int 0) sc4 = Inr (False, sc5)"
    using sc_completion_cost sc_attempt_event_ids
    by (simp add: first_completion_def a c assert_completion_artifact_def sc_af_def find_existing_artifact_def
        update_completion_def update_where_def insert_attempt_event_def constrained_def unique_key_def has_attempt_def
        sc_claim_event_def insert_artifact_def work_item_row_of_def row_with_def TERMINAL_WORK_ITEM_STATES_def task_row_of_def
        assert_artifact_attempt_def insert_artifact_row_def ARTIFACT_KINDS_def has_task_def json_column_small
        sc_completion_event_def sc_artifact_row_def sc5_def sc_completed_row_def [symmetric] Let_def
        del: ebind_Inr_iff json_cost.simps)
  have "completion_transaction (sc_env 5) sc_attempt ''completed'' ''k5'' [] [sc_af] (show_int 0) sc4 =
    Inr (\<lparr>co_attempt = sc_completed_row, co_artifacts = artifacts_of_attempt sc5 sc_attempt, co_idempotent_replay = False\<rparr>, sc5)"
    by (simp add: completion_transaction_def a c row_with_def sc_claim_event_def f attempt_of_def sc5_def del: ebind_Inr_iff)
  then show ?thesis
    by (simp add: complete_execution_attempt_def sc_completion_def require_object_def only_keys_def keys_of_def dget_or_def
        require_stable_id_def is_stable_id_def one_of_def require_metadata_object_def bounded_list_def sc_norm_artifact
        isoformat_utc_def write_transaction_def latest_activation_lease_def catch_integrity_def ledger_of_def Let_def
        del: ebind_Inr_iff)
qed

lemma sc5_fields [simp]: "work_items sc5 = [sc_item ''in_delivery'' 2]" "task_versions sc5 = [sc_task1]"
  "activation_leases sc5 = []" "blocker_events sc5 = []" "execution_attempts sc5 = [sc_completed_row]"
  "attempt_events sc5 = [sc_claim_event, sc_completion_event]" "artifact_refs sc5 = [sc_artifact_row]"
  "decision_records sc5 = []" "acceptance_manifests sc5 = []"
  by (simp_all add: sc5_def)

text \<open>Steps 6 and 8: decisions on the report.\<close>

definition sc_decide :: "string \<Rightarrow> string \<Rightarrow> py" where
  "sc_decide action key = PDict [(''work_item_id'', PStr sc_w), (''task_version'', PInt 1), (''action'', PStr action),
     (''evidence_artifact_ids'', PList [PStr sc_artifact]), (''reason'', PStr ''ok''), (''source_event_key'', PStr key)]"

definition sc_decision_command :: "nat \<Rightarrow> string \<Rightarrow> string \<Rightarrow> string \<Rightarrow> decision_command" where
  "sc_decision_command k action perm key = \<lparr>dc_id = sc_id ''decision'' k, dc_supplied = None, dc_work_item_id = sc_w,
     dc_task_version = 1, dc_action = action, dc_principal = principal_to_record sc_principal,
     dc_actor = principal_actor_record sc_principal, dc_authority_basis = authority_basis_of sc_principal perm,
     dc_evidence = [sc_artifact], dc_reason = ''ok'', dc_supersedes = None, dc_source_event_key = key\<rparr>"

definition sc_decision :: "nat \<Rightarrow> string \<Rightarrow> string \<Rightarrow> string \<Rightarrow> decision_row" where
  "sc_decision k action perm key = decision_row_of (sc_decision_command k action perm key) (show_int 0)"

lemma sc_artifact_row_id [simp]: "ar_id sc_artifact_row = sc_artifact" "ar_work_item_id sc_artifact_row = sc_w"
  "ar_task_version sc_artifact_row = 1"
  by (simp_all add: sc_artifact_row_def)

lemma sc_decision_fields [simp]: "dr_id (sc_decision k a p key) = sc_id ''decision'' k" "dr_action (sc_decision k a p key) = a"
  "dr_source_event_key (sc_decision k a p key) = key" "dr_work_item_id (sc_decision k a p key) = sc_w"
  "dr_task_version (sc_decision k a p key) = 1" "dr_supersedes (sc_decision k a p key) = None"
  "dr_evidence_artifact_ids (sc_decision k a p key) = [sc_artifact]"
  by (simp_all add: sc_decision_def sc_decision_command_def decision_row_of_def)

lemma sc_decide_run:
  assumes k: "k < 10" and action: "action \<in> set DECISION_ACTIONS" "permission_for_decision action = Inr perm" "perm \<in> set WORK_ITEM_PERMISSIONS"
    and key: "require_text (PStr key) 1024 = Inr key"
    and l: "work_items l = [item]" "wi_id item = sc_w" "wi_state item \<notin> set TERMINAL_WORK_ITEM_STATES" "wi_current_task_version item = 1"
      "artifact_refs l = [sc_artifact_row]" "has_task l sc_w 1" "activation_leases l = []"
    and fresh: "\<forall>d\<in>set (decision_records l). dr_id d \<noteq> sc_id ''decision'' k \<and> dr_source_event_key d \<noteq> key"
  shows "run (sc_env k) sc_cfg l (Record_Decision (sc_decide action key) (Some sc_principal)) =
    Inr (l\<lparr>decision_records := decision_records l @ [sc_decision k action perm key]\<rparr>)"
proof -
  let ?c = "sc_decision_command k action perm key"
  have n: "normalize_decision_command (sc_env k) (sc_decide action key) (Some sc_principal) = Inr ?c"
    using action key k
    by (simp add: normalize_decision_command_def sc_decide_def require_object_def some_key_def only_keys_def keys_of_def
        dget_or_def id_or_fresh_def require_stable_id_def is_stable_id_def require_positive_integer_def one_of_def
        normalize_id_list_def bounded_list_def normalize_supersedes_def supplied_id_def sc_decision_command_def
        del: ebind_Inr_iff)
  have j: "json_column (actor_py (dc_actor ?c)) = Inr (jsort (actor_py (dc_actor ?c)))"
    "json_column (PList (map PStr (dc_evidence ?c))) = Inr (jsort (PList (map PStr (dc_evidence ?c))))"
    "json_column (PDict (dc_authority_basis ?c)) = Inr (jsort (PDict (dc_authority_basis ?c)))"
    "json_column (dc_principal ?c) = Inr (jsort (dc_principal ?c))"
    using sc_len [of 5 "''artifact''"] sc_authority_cost [OF action(3)] sc_cost_principal
    by (simp_all add: sc_decision_command_def json_column_small max_json_bytes_def actor_py_def principal_actor_record_def
        sc_principal_def)
  have r: "row_with dr_source_event_key (dc_source_event_key ?c) (decision_records l) = None"
    using fresh by (auto simp: row_with_None sc_decision_command_def)
  have i: "insert_decision (decision_row_of ?c (show_int 0)) l = Inr (l\<lparr>decision_records := decision_records l @ [sc_decision k action perm key]\<rparr>)"
    using fresh action l by (auto simp: insert_decision_def constrained_def unique_key_def list_all_iff
        sc_decision_def [symmetric])
  have "decision_transaction ?c (show_int 0) l = Inr ((decision_row_of ?c (show_int 0), False),
      l\<lparr>decision_records := decision_records l @ [sc_decision k action perm key]\<rparr>)"
    unfolding decision_transaction_def r j i option.case ebind.simps
    using l by (simp add: work_item_row_of_def row_with_def assert_artifacts_def assert_artifact_def assert_superseded_def
        sc_decision_command_def)
  then show ?thesis
    using l by (simp add: record_review_decision_def n write_transaction_def latest_activation_lease_def isoformat_utc_def
        catch_integrity_def ledger_of_def del: ebind_Inr_iff)
qed

section \<open>Submission and acceptance\<close>

lemma sc_terminal: "''in_delivery'' \<notin> set TERMINAL_WORK_ITEM_STATES" "''submitted'' \<notin> set TERMINAL_WORK_ITEM_STATES"
  by (simp_all add: TERMINAL_WORK_ITEM_STATES_def)

lemma sc_permissions: "permission_for_decision ''submit'' = Inr ''work_item.submit''"
  "permission_for_decision ''accept'' = Inr ''work_item.accept''"
  by (simp_all add: permission_for_decision_def DECISION_PERMISSION_BY_ACTION_def)

abbreviation sc_submit :: decision_row where "sc_submit \<equiv> sc_decision 6 ''submit'' ''work_item.submit'' ''k6''"
abbreviation sc_accept :: decision_row where "sc_accept \<equiv> sc_decision 8 ''accept'' ''work_item.accept'' ''k8''"

definition sc6 :: ledger where "sc6 = sc5\<lparr>decision_records := [sc_submit]\<rparr>"

lemma sc_run6: "run (sc_env 6) sc_cfg sc5 (Record_Decision (sc_decide ''submit'' ''k6'') (Some sc_principal)) = Inr sc6"
proof -
  have "run (sc_env 6) sc_cfg sc5 (Record_Decision (sc_decide ''submit'' ''k6'') (Some sc_principal)) =
      Inr (sc5\<lparr>decision_records := decision_records sc5 @ [sc_submit]\<rparr>)"
    by (rule sc_decide_run [where item = "sc_item ''in_delivery'' 2"]) (simp_all add: sc_permissions DECISION_ACTIONS_def WORK_ITEM_PERMISSIONS_def sc_terminal has_task_def)
  then show ?thesis by (simp add: sc6_def)
qed

lemma sc6_fields [simp]: "work_items sc6 = [sc_item ''in_delivery'' 2]" "task_versions sc6 = [sc_task1]"
  "activation_leases sc6 = []" "blocker_events sc6 = []" "execution_attempts sc6 = [sc_completed_row]"
  "artifact_refs sc6 = [sc_artifact_row]" "decision_records sc6 = [sc_submit]" "acceptance_manifests sc6 = []"
  by (simp_all add: sc6_def)

lemma sc_trusted: "permission_for_decision a = Inr p \<Longrightarrow> decision_trusted (sc_decision k a p key) p = Inr True"
proof -
  have "pr_id sc_principal = ''alice''" by (simp add: sc_principal_def)
  then show ?thesis
    by (simp add: decision_trusted_def sc_decision_def sc_decision_command_def decision_row_of_def sc_principal_json
       authority_basis_of_def dget_or_def)
qed

text \<open>Step 7: submission.\<close>

abbreviation sc_c7 :: bound_transition where
  "sc_c7 \<equiv> sc_bind (sc_tc ''submitted'' 2 [sc_id ''decision'' 6] [sc_artifact]) ''work_item.submit''"

lemma ev7: "evaluate_transition sc6 (sc_item ''in_delivery'' 2) sc_c7 = Inr eligible"
  by (simp add: sc_eval assert_artifact_def assert_decision_def row_with_def sc_permissions sc_trusted)

definition sc7 :: ledger where "sc7 = sc_applied 7 sc_c7 (sc_item ''in_delivery'' 2) sc6"

lemma sc_fresh3: "j < 10 \<Longrightarrow> j \<noteq> 2 \<Longrightarrow> j \<noteq> 3 \<Longrightarrow> sc_fresh j sc3"
  unfolding sc3_def sc2_def by (intro sc_fresh_snoc) simp_all

lemma sc_fresh6: "j < 10 \<Longrightarrow> j \<noteq> 2 \<Longrightarrow> j \<noteq> 3 \<Longrightarrow> sc_fresh j sc6"
  by (rule sc_fresh_cong [OF sc_fresh3]) (simp_all add: sc6_def sc5_def sc4_def)

lemma sc_run7: "run (sc_env 7) sc_cfg sc6 (Apply_Transition (sc_transition_preview 7 sc_c7) (Some sc_principal)) = Inr sc7"
proof -
  have "transition_transaction (sc_env 7) sc_c7 (sc_id ''gate_event'' 7) (sc_id ''preview'' 7) sc_digest (show_int 0) sc6
     = Inr ((sc_gate 7 sc_c7 (wi_state (sc_item ''in_delivery'' 2)), False), sc_applied 7 sc_c7 (sc_item ''in_delivery'' 2) sc6)"
    using ev7 sc_fresh6 [of 7] by (intro sc_tx [where i = 6]) (simp_all add: sc_names has_task_def)
  then show ?thesis unfolding sc7_def
    by (intro sc_transition [where s = "''in_delivery''"] sc_tc_ok [where i = 6] sc_bound_cost [where i = 6]) (simp_all add: sc_names)
qed

lemma sc7_fields [simp]: "work_items sc7 = [sc_item ''submitted'' 3]" "task_versions sc7 = [sc_task1]"
  "activation_leases sc7 = []" "blocker_events sc7 = []" "execution_attempts sc7 = [sc_completed_row]"
  "artifact_refs sc7 = [sc_artifact_row]" "decision_records sc7 = [sc_submit]" "acceptance_manifests sc7 = []"
  by (simp_all add: sc7_def sc_item_update)

definition sc8 :: ledger where "sc8 = sc7\<lparr>decision_records := [sc_submit, sc_accept]\<rparr>"

lemma sc_run8: "run (sc_env 8) sc_cfg sc7 (Record_Decision (sc_decide ''accept'' ''k8'') (Some sc_principal)) = Inr sc8"
proof -
  have "run (sc_env 8) sc_cfg sc7 (Record_Decision (sc_decide ''accept'' ''k8'') (Some sc_principal)) =
      Inr (sc7\<lparr>decision_records := decision_records sc7 @ [sc_accept]\<rparr>)"
    by (rule sc_decide_run [where item = "sc_item ''submitted'' 3"]) (simp_all add: sc_permissions DECISION_ACTIONS_def WORK_ITEM_PERMISSIONS_def sc_terminal has_task_def
      sc_kinds)
  then show ?thesis by (simp add: sc8_def)
qed

lemma sc8_fields [simp]: "work_items sc8 = [sc_item ''submitted'' 3]" "task_versions sc8 = [sc_task1]"
  "activation_leases sc8 = []" "blocker_events sc8 = []" "execution_attempts sc8 = [sc_completed_row]"
  "artifact_refs sc8 = [sc_artifact_row]" "decision_records sc8 = [sc_submit, sc_accept]" "acceptance_manifests sc8 = []"
  by (simp_all add: sc8_def)

text \<open>Step 9: acceptance.\<close>

abbreviation sc_c9 :: bound_transition where
  "sc_c9 \<equiv> sc_bind (sc_tc ''accepted'' 3 [sc_id ''decision'' 8] [sc_artifact]) ''work_item.accept''"

lemma ev9: "evaluate_transition sc8 (sc_item ''submitted'' 3) sc_c9 = Inr eligible"
  by (simp add: sc_eval assert_artifact_def assert_decision_def row_with_def sc_permissions sc_trusted sc_kinds
     active_attempts_def sc_completed_row_def complete_attempt_row_def)

definition sc_manifest :: manifest_row where
  "sc_manifest = \<lparr>am_id = sc_id ''acceptance_manifest'' 9, am_work_item_id = sc_w, am_task_version = 1,
     am_gate_event_id = sc_id ''gate_event'' 9, am_accepted_state_version = 4, am_artifact_ids = [sc_artifact],
     am_artifact_manifest = jsort (PList [manifest_entry sc_artifact_row]), am_artifact_manifest_digest = sc_digest,
     am_decision_ids = [sc_id ''decision'' 8], am_principal = jsort (principal_to_record sc_principal),
     am_created_at = show_int 0\<rparr>"

definition sc9 :: ledger where
  "sc9 = sc_applied 9 sc_c9 (sc_item ''submitted'' 3) sc8\<lparr>acceptance_manifests := [sc_manifest]\<rparr>"


lemma sc_fresh8: "j < 10 \<Longrightarrow> j \<noteq> 2 \<Longrightarrow> j \<noteq> 3 \<Longrightarrow> j \<noteq> 7 \<Longrightarrow> sc_fresh j sc8"
  by (rule sc_fresh_cong [where l = sc7]) (auto simp: sc8_def sc7_def intro!: sc_fresh_snoc sc_fresh6)

lemma sc_run9: "run (sc_env 9) sc_cfg sc8 (Apply_Transition (sc_transition_preview 9 sc_c9) (Some sc_principal)) = Inr sc9"
proof -
  let ?item = "sc_item ''submitted'' 3"
  let ?g = "sc_gate 9 sc_c9 ''submitted''"
  let ?l = "sc8\<lparr>work_items := [sc_item ''accepted'' 4]\<rparr>"
  have fresh: "sc_fresh 9 sc8" by (rule sc_fresh8) simp_all
  have tr: "transition_result_of ''submitted'' ''accepted'' = ''state_advanced''"
    by (simp add: transition_result_of_def requirement_for_def TRANSITION_REQUIREMENTS_def)
  have ex: "existing_gate sc8 (sc_id ''preview'' 9) sc_c9 = None"
    using fresh sc_kinds by (auto simp: existing_gate_def sc_fresh_def row_with_None split: option.splits)
  have cas: "cas_state sc_c9 ''submitted'' (show_int 0) sc8 = (?l, True)"
    by (simp add: cas_state_def update_where_def sc_item_update)
  have g: "insert_gate ?g ?l = Inr (?l\<lparr>gate_events := gate_events sc8 @ [?g]\<rparr>)"
    using fresh sc_kinds tr
    by (auto simp: insert_gate_def constrained_def unique_key_def unique_null_def list_all_iff sc_fresh_def has_task_def)
  have m: "insert_acceptance_manifest (sc_env 9) (sc_id ''gate_event'' 9) sc_w 1 4 [sc_artifact] [sc_id ''decision'' 8]
      (principal_to_record sc_principal) (show_int 0) (?l\<lparr>gate_events := gate_events sc8 @ [?g]\<rparr>)
    = Inr (?l\<lparr>gate_events := gate_events sc8 @ [?g], acceptance_manifests := [sc_manifest]\<rparr>)"
  proof -
    have "json_cost (PList [manifest_entry sc_artifact_row]) \<le> max_json_bytes"
      "json_cost (principal_to_record sc_principal) \<le> max_json_bytes" "json_cost (PList [PStr sc_artifact]) \<le> max_json_bytes"
      "json_cost (PList [PStr (sc_id ''decision'' 8)]) \<le> max_json_bytes"
      using sc_len [of 5 "''artifact''"] sc_len [of 8 "''decision''"] sc_cost_principal
      by (simp_all add: manifest_entry_def sc_artifact_row_def max_json_bytes_def)
    then show ?thesis
      by (simp add: insert_acceptance_manifest_def assert_artifacts_def assert_artifact_def row_with_def
          json_column_small canonical_sha256_small insert_manifest_def constrained_def unique_key_def has_task_def
          sc_manifest_def del: ebind_Inr_iff json_cost.simps)
  qed
  have a: "insert_audit (sc_audit 9 ?g) (?l\<lparr>gate_events := x, acceptance_manifests := y\<rparr>) =
      Inr (?l\<lparr>gate_events := x, acceptance_manifests := y, audit_events := audit_events sc8 @ [sc_audit 9 ?g]\<rparr>)" for x y
    using fresh sc_kinds
    by (auto simp: insert_audit_def constrained_def sc_audit_def unique_key_def list_all_iff sc_fresh_def has_work_item_def)
  have o: "insert_outbox (sc_outbox 9 ?g) (?l\<lparr>gate_events := x, acceptance_manifests := y, audit_events := z\<rparr>) =
      Inr (?l\<lparr>gate_events := x, acceptance_manifests := y, audit_events := z, outbox_events := outbox_events sc8 @ [sc_outbox 9 ?g]\<rparr>)"
      for x y z
    using fresh sc_kinds
    by (auto simp: insert_outbox_def constrained_def sc_outbox_def unique_key_def list_all_iff sc_fresh_def has_work_item_def)
  have j: "json_column (PList [PStr (sc_id ''decision'' 8)]) = Inr (PList [PStr (sc_id ''decision'' 8)])"
    "json_column (PList [PStr sc_artifact]) = Inr (PList [PStr sc_artifact])"
    "json_column (PDict (authority_basis_of sc_principal ''work_item.accept'')) = Inr (jsort (PDict (authority_basis_of sc_principal ''work_item.accept'')))"
    "json_column (principal_to_record sc_principal) = Inr (jsort (principal_to_record sc_principal))"
    "json_column (actor_py (principal_actor_record sc_principal)) = Inr (jsort (actor_py (principal_actor_record sc_principal)))"
    using sc_len [of 8 "''decision''"] sc_len [of 5 "''artifact''"] sc_authority_cost [of "''work_item.accept''"] sc_cost_principal
    by (auto simp: json_column_small max_json_bytes_def actor_py_def principal_actor_record_def sc_principal_def
        WORK_ITEM_PERMISSIONS_def)
  have p: "json_column (gate_audit_payload ?g) = Inr (jsort (gate_audit_payload ?g))"
    "json_column (gate_outbox_payload ?g) = Inr (jsort (gate_outbox_payload ?g))"
    by (rule json_column_small, rule sc_payload_cost; simp add: WORK_ITEM_STATES_def)+
  have ab: "\<lparr>au_id = sc_id ''audit_event'' 9, au_work_item_id = sc_w, au_task_version = Some 1,
      au_event_type = ''transition_applied'', au_actor = jsort (actor_py (principal_actor_record sc_principal)),
      au_payload = jsort (gate_audit_payload ?g), au_source_event_key = ''gate:'' @ sc_id ''gate_event'' 9, au_created_at = show_int 0\<rparr>
    = sc_audit 9 ?g" by (simp add: sc_audit_def)
  have ob: "\<lparr>ob_id = sc_id ''outbox_event'' 9, ob_work_item_id = sc_w,
      ob_event_type = ''transition_applied'', ob_dedupe_key = ''gate:'' @ sc_id ''gate_event'' 9,
      ob_payload = jsort (gate_outbox_payload ?g), ob_status = ''pending'', ob_attempt_count = 0,
      ob_next_attempt_at = None, ob_last_error = None, ob_created_at = show_int 0, ob_updated_at = show_int 0\<rparr>
    = sc_outbox 9 ?g" by (simp add: sc_outbox_def)
  have w: "write_gate_facts (sc_env 9) sc_c9 ?g ?l = Inr sc9"
    by (simp add: write_gate_facts_def j g m insert_audit_event_def insert_outbox_event_def p a o ab ob sc9_def
        sc_applied_def Let_def sc_item_update del: ebind_Inr_iff append.simps)
  have gr: "gate_row_of (sc_id ''gate_event'' 9) sc_c9 ''submitted'' ''transition_applied'' ''ELIGIBLE'' sc_digest (sc_id ''preview'' 9)
      (transition_result_of ''submitted'' ''accepted'') (show_int 0) = ?g"
    by (simp add: sc_gate_def)
  have e: "ev_eligible eligible" "ev_reason_code eligible = ''ELIGIBLE''" by (simp_all add: eligible_def)
  have "transition_transaction (sc_env 9) sc_c9 (sc_id ''gate_event'' 9) (sc_id ''preview'' 9) sc_digest (show_int 0) sc8
     = Inr ((?g, False), sc9)"
    by (simp add: transition_transaction_def ex work_item_row_of_def row_with_def ev9 cas e gr w del: ebind_Inr_iff)
  then show ?thesis
    by (intro sc_transition [where s = "''submitted''"] sc_tc_ok [where i = 8] sc_bound_cost [where i = 8]) (simp_all add: sc_names)
qed

lemma sc_reachable: "reachable sc9" "reachable sc8" "reachable sc5" "reachable sc3" "reachable sc1"
  using sc_run1 sc_run2 sc_run3 sc_run4 sc_run5 sc_run6 sc_run7 sc_run8 sc_run9
  by (meson reach_empty reach_step step.step)+

end
