(* ===== verification/ServiceFacts.thy ===== *)
theory ServiceFacts
  imports Scenario
begin

text \<open>
  Facts about whole commands of the service, composed from the effects of their transactions: what an
  applied gate establishes, that a preview applied twice records one gate, which settings block every
  write, what a new runtime attempt is bound to, and when a blocker is active.
\<close>

lemma no_pair [simp]: "(\<forall>a b. x \<noteq> Some (a, b)) \<longleftrightarrow> x = None"
  by (cases x) auto

section \<open>Sequences of commands\<close>

lemma reachable_steps: "step\<^sup>*\<^sup>* l l' \<Longrightarrow> reachable l \<Longrightarrow> reachable l'"
  by (rule service.good_steps)

lemma reachable_distinct: "reachable l \<Longrightarrow> distinct (map wi_id (work_items l))"
  using reachable_inv by (simp add: ledger_inv_def keys_ok_def)

lemma history_steps:
  assumes "step\<^sup>*\<^sup>* l l'" "reachable l"
  shows "history_extends l l' \<and> (\<forall>a\<in>set (execution_attempts l). at_completion_event_key a \<noteq> None
    \<longrightarrow> a \<in> set (execution_attempts l'))"
  using assms(1)
proof (induction rule: rtranclp_induct)
  case base
  show ?case by (simp add: history_refl)
next
  case (step y z)
  have "reachable y" using reachable_steps step.hyps(1) assms(2) by blast
  then have "change y z" using step.hyps(2) by (rule reachable_change)
  then show ?case
    using step.IH change_history change_completed_attempt history_trans by blast
qed

section \<open>Transitions\<close>

lemma items_of_move:
  assumes "row_with wi_id w (work_items l) = Some item" "work_items l' = move_item w s t (work_items l)"
  shows "items_of l' = (items_of l)(w \<mapsto> (s, wi_state_version item + 1, wi_current_task_version item))"
proof
  fix u
  have "wi_id r = u" if "row_with wi_id u (work_items l) = Some r" for r using that by (auto dest: row_with_Some)
  then show "items_of l' u = ((items_of l)(w \<mapsto> (s, wi_state_version item + 1, wi_current_task_version item))) u"
    using assms by (cases "row_with wi_id u (work_items l)") (auto simp: items_of_def row_with_move)
qed

lemma items_of_gate:
  assumes "row_with wi_id (tc_work_item_id c) (work_items l) = Some item" "gate_applies e c item g t l l'"
  shows "items_of l' = (items_of l)(tc_work_item_id c \<mapsto>
    (tc_target_state c, wi_state_version item + 1, wi_current_task_version item))"
  using assms(2) unfolding gate_applies_def by (elim exE conjE, intro items_of_move [OF assms(1)]) simp

lemma verify_signed_Inr:
  assumes "verify_signed_transition_authority v pc = Inr c"
  shows "\<exists>p perm. pc = Some p \<and> pr_trusted p \<and> perm \<in> set (pr_permissions p)
    \<and> tc_principal_context c = principal_to_record p \<and> tc_actor c = principal_actor_record p
    \<and> tc_authority_basis c = authority_basis_of p perm \<and> py_eq (PDict (bound_fields c)) v"
  using assms by (auto simp: verify_signed_transition_authority_def authorize_principal_Inr require_object_Inr Let_def
      split: if_splits)

lemma basis_authority:
  assumes "normalize_authority_basis (PDict (authority_basis_of p perm)) (Some auth) = Inr b"
  shows "auth = perm"
  using assms by (auto simp: normalize_authority_basis_def require_object_def authority_basis_of_def py_or_def
      Let_def dget_or_def split: if_splits)

lemma apply_transition_recorded:
  assumes "apply_work_item_transition e cfg l p pc = Inr (Gate_Recorded g again view, l')"
  obtains c gid pid dg verified where "preview_verify e p ''work_item_transition'' = Inr verified"
    "verify_signed_transition_authority (preview_command verified) pc = Inr c"
    "transition_transaction e c gid pid dg (isoformat_utc e (e_now e)) l = Inr ((g, again), l')"
  using apply_transition_Inr [OF assms] by auto

lemma apply_transition_signed:
  assumes "apply_work_item_transition e cfg l p pc = Inr (Gate_Recorded g again view, l')"
  obtains c gid pid dg verified where "preview_verify e p ''work_item_transition'' = Inr verified"
    "dget verified ''preview_id'' = PStr pid"
    "verify_signed_transition_authority (preview_command verified) pc = Inr c"
    "transition_transaction e c gid pid dg (isoformat_utc e (e_now e)) l = Inr ((g, again), l')"
  using assms unfolding apply_work_item_transition_def Let_def
  by (auto simp: require_stable_id_Inr split: if_split_asm)

lemma applied_transition:
  assumes r: "reachable l" and a: "apply_work_item_transition e cfg l p pc = Inr (Gate_Recorded g False view, l')"
    and g: "ge_outcome g = ''transition_applied''"
  shows "\<exists>verified signer c item rq. preview_verify e p ''work_item_transition'' = Inr verified
    \<and> dget verified ''preview_id'' = PStr (ge_preview_id g)
    \<and> py_eq (PDict (bound_fields c)) (preview_command verified)
    \<and> pc = Some signer \<and> pr_trusted signer \<and> rq_authority rq \<in> set (pr_permissions signer)
    \<and> tc_principal_context c = principal_to_record signer \<and> tc_actor c = principal_actor_record signer
    \<and> tc_authority_basis c = authority_basis_of signer (rq_authority rq)
    \<and> ge_principal g = jsort (principal_to_record signer)
    \<and> row_with wi_id (ge_work_item_id g) (work_items l) = Some item
    \<and> tc_work_item_id c = ge_work_item_id g \<and> tc_target_state c = ge_target_state g \<and> transition_ok l item c rq
    \<and> items_of l' = (items_of l)(ge_work_item_id g \<mapsto>
         (ge_target_state g, wi_state_version item + 1, wi_current_task_version item))"
proof -
  from a obtain c gid pid dg verified where
    ver: "preview_verify e p ''work_item_transition'' = Inr verified" "dget verified ''preview_id'' = PStr pid"
    and sig: "verify_signed_transition_authority (preview_command verified) pc = Inr c"
    and tx: "transition_transaction e c gid pid dg (isoformat_utc e (e_now e)) l = Inr ((g, False), l')"
    by (rule apply_transition_signed)
  from transition_transaction_effect [OF reachable_distinct [OF r] tx] obtain item reason outcome where
    item: "row_with wi_id (tc_work_item_id c) (work_items l) = Some item"
    and row: "g = gate_row_of gid c (wi_state item) outcome reason dg pid
        (transition_result_of (wi_state item) (tc_target_state c)) (isoformat_utc e (e_now e))"
    and eff: "gate_applies e c item g (isoformat_utc e (e_now e)) l l' \<or> gate_rejects c item g l l'" by auto
  from row have ids: "ge_work_item_id g = tc_work_item_id c" "ge_target_state g = tc_target_state c"
    "ge_preview_id g = pid" "ge_principal g = jsort (tc_principal_context c)"
    by (simp_all add: gate_row_of_def)
  from eff g have ap: "gate_applies e c item g (isoformat_utc e (e_now e)) l l'" by (auto simp: gate_rejects_def)
  then obtain rq where ok: "transition_ok l item c rq" unfolding gate_applies_def by blast
  from verify_signed_Inr [OF sig] obtain signer perm where
    s: "pc = Some signer" "pr_trusted signer" "perm \<in> set (pr_permissions signer)"
      "tc_principal_context c = principal_to_record signer" "tc_authority_basis c = authority_basis_of signer perm"
      "tc_actor c = principal_actor_record signer" "py_eq (PDict (bound_fields c)) (preview_command verified)" by blast
  from ok s(5) have "rq_authority rq = perm" unfolding transition_ok_def using basis_authority by fastforce
  with s ver ok item ids items_of_gate [OF item ap] show ?thesis
    by (intro exI [of _ verified] exI [of _ signer] exI [of _ c] exI [of _ item] exI [of _ rq]) simp
qed

text \<open>A preview applied again finds its gate.\<close>

lemma recorded_gate_found:
  assumes d: "distinct (map wi_id (work_items l))"
    and tx: "transition_transaction e c gid pid dg t l = Inr ((g, again), l')"
  shows "existing_gate l' pid c = Some g \<and> ge_command_digest g = dg \<and> activation_leases l' = activation_leases l"
  using transition_transaction_effect [OF assms]
proof (elim disjE conjE exE)
  fix item reason outcome
  assume g: "g = gate_row_of gid c (wi_state item) outcome reason dg pid
      (transition_result_of (wi_state item) (tc_target_state c)) t"
    and "gate_applies e c item g t l l'"
  then show ?thesis
    by (auto simp: gate_applies_def existing_gate_def row_with_append gate_row_of_def row_with_None split: option.splits
        dest!: row_with_Some)
next
  fix item reason outcome
  assume g: "g = gate_row_of gid c (wi_state item) outcome reason dg pid
      (transition_result_of (wi_state item) (tc_target_state c)) t"
    and "gate_rejects c item g l l'"
  then show ?thesis
    by (auto simp: gate_rejects_def existing_gate_def row_with_append gate_row_of_def row_with_None split: option.splits
        dest!: row_with_Some)
qed auto

lemma transition_recorded_again:
  assumes "distinct (map wi_id (work_items l))" "transition_transaction e c gid pid dg t l = Inr ((g, again), l')"
  shows "transition_transaction e' c gid' pid dg t' l' = Inr ((g, True), l')"
  using recorded_gate_found [OF assms] by (simp add: transition_transaction_def)

lemma apply_transition_again:
  assumes r: "reachable l" and a: "apply_work_item_transition e cfg l p pc = Inr (Gate_Recorded g again view, l')"
    and v: "preview_verify e' p ''work_item_transition'' = Inr verified" and h: "e_sha e' = e_sha e"
  shows "\<exists>view'. apply_work_item_transition e' cfg l' p pc = Inr (Gate_Recorded g True view', l')"
proof -
  from a have a': "cf_enabled cfg" "require_gate_enabled cfg = Inr ()" "authoritative_transitions cfg"
    unfolding apply_work_item_transition_def by (auto simp: Let_def split: if_split_asm)
  from a obtain w c gid pid dg where
    w: "preview_verify e p ''work_item_transition'' = Inr w"
    and sig: "verify_signed_transition_authority (preview_command w) pc = Inr c"
    and ids: "generated_id w ''gate_event_id'' ''gate_event'' = Inr gid" "require_stable_id (dget w ''preview_id'') ''preview'' = Inr pid"
    and dg: "canonical_sha256 (e_sha e) (PDict (bound_fields c)) = Inr dg"
    and guard: "\<not> cf_canary_marked cfg" "latest_activation_lease l = None"
    and tx: "transition_transaction e c gid pid dg (isoformat_utc e (e_now e)) l = Inr ((g, again), l')"
    unfolding apply_work_item_transition_def by (auto simp: Let_def split: if_split_asm)
  have "w = verified" using preview_verify_Inr(1) [OF w] preview_verify_Inr(1) [OF v] by simp
  have again: "transition_transaction e' c gid pid dg t' l' = Inr ((g, True), l')" for t'
    by (rule transition_recorded_again [OF reachable_distinct [OF r] tx])
  have "latest_activation_lease l' = None"
    using recorded_gate_found [OF reachable_distinct [OF r] tx] guard(2) by (simp add: latest_activation_lease_def)
  then show ?thesis
    using a' v sig ids dg guard(1) again h \<open>w = verified\<close>
    by (simp add: apply_work_item_transition_def write_transaction_def catch_integrity_def
        require_enabled_def del: ebind_Inr_iff)
qed

section \<open>The guard of every write\<close>

lemma run_guarded:
  assumes "run e cfg l oper = Inr l'"
  shows "cf_enabled cfg \<and> (l' \<noteq> l \<longrightarrow> \<not> cf_canary_marked cfg \<and> latest_activation_lease l = None)"
  using assms
  by (cases oper)
    (auto simp: ledger_of_Inr apply_work_item_create_def apply_legacy_work_item_import_def apply_create_def
      add_task_version_def create_execution_attempt_def register_artifact_reference_def
      bind_historical_execution_attempt_def complete_execution_attempt_def record_review_decision_def
      apply_work_item_transition_def apply_blocker_def clear_blocker_def record_blocker_event_def
      create_delivery_receipt_def retry_delivery_def acknowledge_delivery_def record_outbox_delivery_result_def
      recover_outbox_event_def Let_def split: if_split_asm)

section \<open>Attempts\<close>

lemma created_attempt:
  assumes "create_execution_attempt e cfg l command = Inr ((row, False), l')"
  shows "at_kind row = ''runtime'' \<and> at_dispatch_authorized row \<and> at_status row \<in> {''claimed'', ''running''}
    \<and> at_completion_event_key row = None \<and> \<not> has_attempt l (at_id row)
    \<and> row_with at_id (at_id row) (execution_attempts l') = Some row
    \<and> (\<exists>item. row_with wi_id (at_work_item_id row) (work_items l') = Some item
          \<and> wi_state item \<notin> set TERMINAL_WORK_ITEM_STATES \<and> wi_state item \<noteq> ''submitted''
          \<and> wi_current_task_version item = at_task_version row)"
proof -
  from create_attempt_effect [OF assms] claim_transaction_effect obtain item where
    eff: "new_attempt_effect l row ''claim'' l'" and k: "at_kind row = ''runtime''" "at_dispatch_authorized row"
      "at_status row \<in> {''claimed'', ''running''}" "at_completion_event_key row = None"
    and i: "row_with wi_id (at_work_item_id row) (work_items l) = Some item"
      "wi_state item \<notin> set TERMINAL_WORK_ITEM_STATES" "wi_state item \<noteq> ''submitted''"
      "wi_current_task_version item = at_task_version row" by (metis (no_types, lifting))
  from eff have "work_items l' = work_items l" "\<not> has_attempt l (at_id row)"
    "execution_attempts l' = execution_attempts l @ [row]"
    by (auto simp: new_attempt_effect_def has_attempt_def list_ex_iff)
  with k i show ?thesis
    by (auto simp: row_with_append has_attempt_def list_ex_iff row_with_None split: option.splits dest!: row_with_Some)
qed

lemma dispatch_allowed:
  assumes "get_execution_attempt_dispatch_authority cfg l i w v = Inr (ok, reasons)"
  shows "ok \<longleftrightarrow> (\<exists>a item. i = PStr (at_id a) \<and> w = PStr (wi_id item) \<and> v = PInt (wi_current_task_version item)
    \<and> row_with at_id (at_id a) (execution_attempts l) = Some a \<and> row_with wi_id (wi_id item) (work_items l) = Some item
    \<and> at_work_item_id a = wi_id item \<and> at_task_version a = wi_current_task_version item
    \<and> at_kind a = ''runtime'' \<and> at_dispatch_authorized a \<and> at_status a \<in> {''claimed'', ''running''}
    \<and> wi_state item \<notin> set TERMINAL_WORK_ITEM_STATES \<and> wi_state item \<noteq> ''submitted'')"
proof -
  from assms obtain aid wid n a item where i: "i = PStr aid" "w = PStr wid" "v = PInt n"
    and a: "row_with at_id aid (execution_attempts l) = Some a"
    and it: "row_with wi_id wid (work_items l) = Some item" and ok: "ok = (dispatch_reasons a item wid n = [])"
    unfolding get_execution_attempt_dispatch_authority_def
    by (auto simp: require_stable_id_Inr require_positive_Inr Let_def split: option.splits)
  have "at_id a = aid" "wi_id item = wid" using a it by (auto dest: row_with_Some)
  note ids = this
  have ok': "ok \<longleftrightarrow> at_work_item_id a = wid \<and> at_task_version a = n \<and> at_kind a = ''runtime''
      \<and> at_dispatch_authorized a \<and> at_status a \<in> {''claimed'', ''running''}
      \<and> wi_state item \<notin> set TERMINAL_WORK_ITEM_STATES \<and> wi_state item \<noteq> ''submitted''
      \<and> wi_current_task_version item = n"
    unfolding ok dispatch_reasons_def by (simp only: append_is_Nil_conv split: if_split) auto
  show ?thesis (is "_ = ?R")
  proof
    assume ok
    with ok' i a it ids show ?R by (intro exI [of _ a] exI [of _ item]) simp
  next
    assume ?R
    with i a it show ok unfolding ok' by (elim exE conjE) simp
  qed
qed

section \<open>Blockers\<close>

definition blocker_active :: "ledger \<Rightarrow> string \<Rightarrow> string \<Rightarrow> bool" where
  "blocker_active l w b \<longleftrightarrow> b \<in> bl_blocker_id ` set (active_blocker_rows l w)"

lemma blocker_active_iff:
  "blocker_active l w b \<longleftrightarrow> (\<exists>ys r zs. filter (\<lambda>r. bl_work_item_id r = w) (blocker_events l) = ys @ r # zs
     \<and> bl_blocker_id r = b \<and> bl_event_type r = ''blocker_applied'' \<and> (\<forall>z\<in>set zs. bl_blocker_id z \<noteq> b))"
  by (auto simp: blocker_active_def active_blocker_rows_def latest_per_iff image_iff)

lemma blocker_active_append:
  assumes "blocker_events l' = blocker_events l @ [r]" "bl_work_item_id r = w" "bl_blocker_id r = b"
  shows "blocker_active l' w b \<longleftrightarrow> bl_event_type r = ''blocker_applied''"
proof -
  let ?f = "filter (\<lambda>r. bl_work_item_id r = w) (blocker_events l)"
  have f: "filter (\<lambda>r. bl_work_item_id r = w) (blocker_events l') = ?f @ [r]" using assms(1,2) by simp
  have "ys @ x # zs = ?f @ [r] \<Longrightarrow> \<forall>z\<in>set zs. bl_blocker_id z \<noteq> b \<Longrightarrow> x = r" for ys x zs
    using assms(3) by (cases zs rule: rev_cases) auto
  then show ?thesis unfolding blocker_active_iff f using assms(3) by (metis empty_iff list.set(1))
qed

lemma blocker_command_effect:
  assumes "record_blocker_event e cfg l command ty = Inr ((row, False), l')"
    and ty: "ty = ''blocker_applied'' \<or> ty = ''blocker_cleared''"
  shows "blocker_active l' (bl_work_item_id row) (bl_blocker_id row) = (ty = ''blocker_applied'')
    \<and> blocker_active l (bl_work_item_id row) (bl_blocker_id row) = (ty = ''blocker_cleared'')"
proof -
  from assms(1) obtain c t where "blocker_transaction e c ty t l = Inr ((row, False), l')"
    unfolding record_blocker_event_def by (auto simp: Let_def)
  from blocker_transaction_effect [OF this] obtain a where
    l': "blocker_events l' = blocker_events l @ [row]" and r: "bl_event_type row = ty"
    and id: "bl_work_item_id row = bc_work_item_id c" "bl_blocker_id row = bc_blocker_id c"
    and pre: "ty = ''blocker_applied'' \<longrightarrow> \<not> blocker_active l (bc_work_item_id c) (bc_blocker_id c)"
      "ty = ''blocker_cleared'' \<longrightarrow> blocker_active l (bc_work_item_id c) (bc_blocker_id c)"
    unfolding blocker_active_def by auto
  with ty show ?thesis using blocker_active_append [OF l' refl refl] by auto
qed

section \<open>Decisions\<close>

text \<open>A decision supersedes only decisions recorded before it, so a fresh one is never superseded.\<close>

definition supersedes_ok :: "ledger \<Rightarrow> bool" where
  "supersedes_ok l \<longleftrightarrow> (\<forall>d\<in>set (decision_records l).
     dr_supersedes d \<in> insert None (Some ` dr_id ` set (decision_records l)))"

lemma change_supersedes: "change l l' \<Longrightarrow> supersedes_ok l \<Longrightarrow> supersedes_ok l'"
  by (induction rule: change.induct)
    (auto simp: supersedes_ok_def new_attempt_effect_def side_effect_only_def)

lemma reachable_supersedes: "reachable l \<Longrightarrow> supersedes_ok l"
proof (induction rule: reachable.induct)
  case reach_empty
  show ?case by (simp add: supersedes_ok_def empty_ledger_def)
next
  case (reach_step l l')
  then show ?case using reachable_change change_supersedes by blast
qed

lemma recorded_decision:
  assumes r: "reachable l" and d: "record_review_decision e cfg l command pc = Inr ((d, False), l')"
  shows "(\<exists>signer perm. pc = Some signer \<and> pr_trusted signer \<and> permission_for_decision (dr_action d) = Inr perm
      \<and> perm \<in> set (pr_permissions signer))
    \<and> assert_decision l' (dr_work_item_id d) (dr_task_version d) (dr_id d) = Inr d"
proof -
  from d obtain c t where norm: "normalize_decision_command e command pc = Inr c"
    and tx: "decision_transaction c t l = Inr ((d, False), l')"
    unfolding record_review_decision_def by auto
  from norm obtain perm pj actor basis where perm: "permission_for_decision (dc_action c) = Inr perm"
    and auth: "authorize_principal pc perm = Inr (pj, actor, basis)"
    and fields: "dc_principal c = pj" "dc_authority_basis c = basis"
    unfolding normalize_decision_command_def by (auto split: if_split_asm)
  from decision_transaction_effect [OF tx] have row: "d = decision_row_of c t"
    and l': "decision_records l' = decision_records l @ [d]"
    and fresh: "\<forall>x\<in>set (decision_records l). dr_id x \<noteq> dr_id d"
    and sup: "dr_supersedes d \<in> insert None (Some ` dr_id ` set (decision_records l))" by auto
  have "decision_trusted d perm = Inr True"
    by (rule recorded_decision_trusted [OF auth]) (simp_all add: row decision_row_of_def fields)
  moreover have "dr_supersedes x \<noteq> Some (dr_id d)" if "x \<in> set (decision_records l')" for x
    using that reachable_supersedes [OF r] sup fresh unfolding l' supersedes_ok_def by fastforce
  moreover have "row_with dr_id (dr_id d) (decision_records l') = Some d"
    using fresh unfolding l' by (auto simp: row_with_append row_with_None split: option.splits dest!: row_with_Some)
  ultimately have "assert_decision l' (dr_work_item_id d) (dr_task_version d) (dr_id d) = Inr d"
    using perm by (simp add: assert_decision_Inr row decision_row_of_def)
  with auth perm show ?thesis by (auto simp: authorize_principal_Inr row decision_row_of_def)
qed

end
