(* ===== verification/Scenario_Effects.thy ===== *)
theory Scenario_Effects
  imports ServiceFacts
begin

text \<open>
  The commands of the scenario as the properties need them: its steps as a sequence, the answers of
  the acceptance, of the decision before it and of the claim, and a blocker raised after acceptance.
\<close>

section \<open>The steps of the scenario\<close>

lemma sc_step: "step sc1 sc2" "step sc2 sc3" "step sc3 sc4" "step sc4 sc5" "step sc5 sc6" "step sc6 sc7" "step sc7 sc8"
  "step sc8 sc9"
  using sc_run2 sc_run3 sc_run4 sc_run5 sc_run6 sc_run7 sc_run8 sc_run9 by (blast intro: step.step)+

lemma sc_steps: "step\<^sup>*\<^sup>* sc1 sc9" "step\<^sup>*\<^sup>* sc5 sc9"
  using sc_step by (meson converse_rtranclp_into_rtranclp rtranclp.rtrancl_refl)+

lemma gate_rejects_items: "gate_rejects c item g l l' \<Longrightarrow> work_items l' = work_items l"
  by (auto simp: gate_rejects_def)

lemma gate_applies_events:
  "gate_applies e c item g t l l' \<Longrightarrow> gate_events l' = gate_events l @ [g] \<and> ge_outcome g = ''transition_applied''"
  by (auto simp: gate_applies_def)

lemma sc_apply9: "\<exists>g view. apply_work_item_transition (sc_env 9) sc_cfg sc8 (sc_transition_preview 9 sc_c9) (Some sc_principal)
    = Inr (Gate_Recorded g False view, sc9) \<and> ge_outcome g = ''transition_applied'' \<and> ge_work_item_id g = sc_w
      \<and> ge_target_state g = ''accepted''"
proof -
  from sc_run9 obtain a where a: "apply_work_item_transition (sc_env 9) sc_cfg sc8 (sc_transition_preview 9 sc_c9)
      (Some sc_principal) = Inr (a, sc9)" by (auto simp: ledger_of_Inr)
  have "map wi_state (work_items sc9) \<noteq> map wi_state (work_items sc8)"
    by (simp add: sc9_def sc_item_update sc8_def sc7_def)
  then have moved: "work_items sc9 \<noteq> work_items sc8" by metis
  from apply_transition_Inr [OF a] moved obtain g again view c gid pid dg where
    a': "a = Gate_Recorded g again view" and
    tx: "transition_transaction (sc_env 9) c gid pid dg (isoformat_utc (sc_env 9) (e_now (sc_env 9))) sc8 = Inr ((g, again), sc9)"
    by auto
  from transition_transaction_effect [OF reachable_distinct [OF sc_reachable(2)] tx] moved obtain item reason outcome where
    na: "\<not> again" and g: "gate_applies (sc_env 9) c item g (isoformat_utc (sc_env 9) (e_now (sc_env 9))) sc8 sc9"
    and row: "g = gate_row_of gid c (wi_state item) outcome reason dg pid
        (transition_result_of (wi_state item) (tc_target_state c)) (isoformat_utc (sc_env 9) (e_now (sc_env 9)))"
    by (metis gate_rejects_items)
  from g have "gate_events sc9 = gate_events sc8 @ [g]" "ge_outcome g = ''transition_applied''"
    using gate_applies_events by blast+
  moreover have "gate_events sc9 = gate_events sc8 @ [sc_gate 9 sc_c9 ''submitted'']" by (simp add: sc9_def)
  ultimately show ?thesis using a a' na by auto
qed

lemma sc_decide8: "\<exists>d. record_review_decision (sc_env 8) sc_cfg sc7 (sc_decide ''accept'' ''k8'') (Some sc_principal)
    = Inr ((d, False), sc8)"
proof -
  from sc_run8 obtain d again where a: "record_review_decision (sc_env 8) sc_cfg sc7 (sc_decide ''accept'' ''k8'')
      (Some sc_principal) = Inr ((d, again), sc8)" by (auto simp: ledger_of_Inr)
  from a obtain c t where tx: "decision_transaction c t sc7 = Inr ((d, again), sc8)"
    by (auto simp: record_review_decision_def)
  have "length (decision_records sc8) \<noteq> length (decision_records sc7)" by (simp add: sc8_def)
  moreover have "again \<Longrightarrow> sc8 = sc7" using decision_transaction_effect [OF tx] by blast
  ultimately have "\<not> again" by metis
  with a show ?thesis by simp
qed

lemma sc_claim4: "create_execution_attempt (sc_env 4) sc_cfg sc3 sc_claim = Inr ((sc_attempt_row, False), sc4)"
proof -
  from sc_run4 obtain row again where a: "create_execution_attempt (sc_env 4) sc_cfg sc3 sc_claim = Inr ((row, again), sc4)"
    by (auto simp: ledger_of_Inr)
  have n: "execution_attempts sc4 = execution_attempts sc3 @ [sc_attempt_row]" by (simp add: sc4_def)
  from create_attempt_effect [OF a] claim_transaction_effect
  have e: "again \<and> sc4 = sc3 \<or> \<not> again \<and> new_attempt_effect sc3 row ''claim'' sc4" by meson
  have gen: "execution_attempts l' = execution_attempts l @ [r]" if "new_attempt_effect l r k l'" for l l' r k
    using that by (auto simp: new_attempt_effect_def)
  have "sc4 \<noteq> sc3" using n by (metis append_self_conv list.distinct(1))
  with e have "\<not> again" "new_attempt_effect sc3 row ''claim'' sc4" by blast+
  with gen [OF this(2)] n a show ?thesis by simp
qed

section \<open>A blocker\<close>

text \<open>A blocker raised after acceptance: it is recorded and moves nothing.\<close>

definition sc_block :: py where
  "sc_block = PDict [(''work_item_id'', PStr sc_w), (''task_version'', PInt 1), (''reason'', PStr ''ok''),
     (''actor'', PStr ''alice''), (''source_event_key'', PStr ''k1'')]"

definition sc_actor :: actor where
  "sc_actor = \<lparr>ac_id = ''alice'', ac_kind = ''user'', ac_display_name = None\<rparr>"

definition sc_blocker_row :: blocker_row where
  "sc_blocker_row = \<lparr>bl_event_id = sc_id ''blocker_event'' 5, bl_blocker_id = sc_id ''blocker'' 5,
     bl_work_item_id = sc_w, bl_task_version = 1, bl_event_type = ''blocker_applied'', bl_reason = ''ok'',
     bl_actor = jsort (actor_py sc_actor), bl_source_event_key = ''k1'', bl_created_at = show_int 0\<rparr>"

definition sc_blocker_audit :: audit_row where
  "sc_blocker_audit = \<lparr>au_id = sc_id ''audit_event'' 5, au_work_item_id = sc_w, au_task_version = Some 1,
     au_event_type = ''blocker_applied'', au_actor = jsort (actor_py sc_actor),
     au_payload = jsort (PDict [(''blocker_id'', PStr (sc_id ''blocker'' 5)), (''reason'', PStr ''ok'')]),
     au_source_event_key = ''audit:k1'', au_created_at = show_int 0\<rparr>"

definition sc10 :: ledger where
  "sc10 = sc9\<lparr>blocker_events := [sc_blocker_row], audit_events := audit_events sc9 @ [sc_blocker_audit]\<rparr>"

lemma sc9_fields: "work_items sc9 = [sc_item ''accepted'' 4]" "task_versions sc9 = [sc_task1]"
  "activation_leases sc9 = []" "blocker_events sc9 = []"
  by (simp_all add: sc9_def sc_item_update sc8_def sc7_def)

lemma sc9_audits: "audit_events sc9 = [sc_audit 2 (sc_gate 2 sc_c2 ''proposed''), sc_audit 3 (sc_gate 3 sc_c3 ''ready''),
    sc_audit 7 (sc_gate 7 sc_c7 ''in_delivery''), sc_audit 9 (sc_gate 9 sc_c9 ''submitted'')]"
  by (simp add: sc9_def sc8_def sc7_def sc6_def sc5_def sc4_def sc3_def sc2_def)

lemma sc_text_block [simp]: "require_text (PStr ''k1'') 1024 = Inr ''k1''" "require_text (PStr ''alice'') 512 = Inr ''alice''"
  "require_text (PStr ''user'') 128 = Inr ''user''"
  by (simp_all add: require_text_def py_strip_def is_ws_def MAX_TEXT_LENGTH_def Let_def)

lemma sc_apply_block: "apply_blocker (sc_env 5) sc_cfg sc9 sc_block = Inr ((sc_blocker_row, False), sc10)"
proof -
  have w: "require_stable_id (PStr sc_w) ''work_item'' = Inr sc_w" by (simp add: require_stable_id_def is_stable_id_def)
  have a: "json_column (actor_py sc_actor) = Inr (jsort (actor_py sc_actor))"
    by (rule json_column_small) (simp add: sc_actor_def actor_py_def max_json_bytes_def)
  have p: "json_column (PDict [(''blocker_id'', PStr (sc_id ''blocker'' 5)), (''reason'', PStr ''ok'')]) =
      Inr (jsort (PDict [(''blocker_id'', PStr (sc_id ''blocker'' 5)), (''reason'', PStr ''ok'')]))"
    using sc_len [of 5 "''blocker''"] by (intro json_column_small) (simp add: max_json_bytes_def)
  have n: "normalize_blocker_command (sc_env 5) sc_block ''blocker_applied'' = Inr
     \<lparr>bc_blocker_id = sc_id ''blocker'' 5, bc_supplied = False, bc_work_item_id = sc_w, bc_task_version = 1,
      bc_reason = ''ok'', bc_actor = sc_actor, bc_source_event_key = ''k1''\<rparr>"
    by (simp add: normalize_blocker_command_def sc_block_def require_object_def only_keys_def keys_of_def dget_or_def w
        id_or_fresh_def require_positive_integer_def normalize_actor_def optional_text_def sc_actor_def Let_def del: ebind_Inr_iff)
  have o: "bl_event_id sc_blocker_row = sc_id ''blocker_event'' 5" by (simp add: sc_blocker_row_def)
  have t: "blocker_transaction (sc_env 5) \<lparr>bc_blocker_id = sc_id ''blocker'' 5, bc_supplied = False, bc_work_item_id = sc_w,
      bc_task_version = 1, bc_reason = ''ok'', bc_actor = sc_actor, bc_source_event_key = ''k1''\<rparr> ''blocker_applied'' (show_int 0) sc9
    = Inr ((sc_blocker_row, False), sc10)"
    using sc_kinds
    by (simp add: blocker_transaction_def sc9_fields sc9_audits work_item_row_of_def row_with_def active_blocker_rows_def a p
        insert_blocker_def constrained_def unique_key_def has_task_def has_work_item_def insert_audit_event_def
        insert_audit_def sc10_def sc_blocker_row_def sc_blocker_audit_def Let_def del: ebind_Inr_iff)
  show ?thesis
    by (simp add: apply_blocker_def record_blocker_event_def assert_internal_activation_write_denied_def
        latest_activation_lease_def sc9_fields n t write_transaction_def catch_integrity_def isoformat_utc_def
        del: ebind_Inr_iff)
qed

lemma sc_run10: "run (sc_env 5) sc_cfg sc9 (Apply_Blocker sc_block) = Inr sc10"
  by (simp add: sc_apply_block ledger_of_def)

lemma sc_step10: "step sc9 sc10" "step\<^sup>*\<^sup>* sc9 sc10"
  using step.step [OF sc_run10] by auto

end
