(* ===== verification/LedgerConstraints.thy ===== *)
theory LedgerConstraints
  imports LedgerInvariants
begin

text \<open>
  The UNIQUE and FOREIGN KEY constraints of every table, as conditions on a whole ledger.  A statement
  is one INSERT or UPDATE that the engine accepted; a committed command is a sequence of statements,
  and every statement keeps the constraints, so they hold of every reachable ledger.
\<close>

section \<open>The constraints\<close>

text \<open>The keys of a nullable UNIQUE column: only values that are not NULL have to differ.\<close>

definition distinct_null :: "'k option list \<Rightarrow> bool" where
  "distinct_null ks = distinct (filter (\<lambda>k. k \<noteq> None) ks)"

definition unique_columns :: "ledger \<Rightarrow> bool" where
  "unique_columns l \<longleftrightarrow>
     distinct (map wi_id (work_items l)) \<and> distinct (map wi_creation_preview_id (work_items l))
   \<and> distinct_null (map wi_idempotency_key (work_items l))
   \<and> distinct (filter (\<lambda>x. or_ref x \<noteq> None) (map wi_origin (work_items l)))
   \<and> distinct (map (\<lambda>t. (tv_work_item_id t, tv_task_version t)) (task_versions l))
   \<and> distinct (map tv_source_event_key (task_versions l))
   \<and> distinct (map at_id (execution_attempts l)) \<and> distinct (map at_source_event_key (execution_attempts l))
   \<and> distinct_null (map at_completion_event_key (execution_attempts l))
   \<and> distinct (map ar_id (artifact_refs l)) \<and> distinct (map ar_source_event_key (artifact_refs l))
   \<and> distinct (map (\<lambda>a. (ar_work_item_id a, ar_kind a, ar_immutable_ref a)) (artifact_refs l))
   \<and> distinct (map (\<lambda>a. (ea_kind a, ea_ref a)) (external_associations l))
   \<and> distinct (map ea_source_event_key (external_associations l))
   \<and> distinct (map ae_id (attempt_events l)) \<and> distinct (map ae_source_event_key (attempt_events l))
   \<and> distinct (map dr_id (decision_records l)) \<and> distinct (map dr_source_event_key (decision_records l))
   \<and> distinct (map ge_id (gate_events l)) \<and> distinct (map ge_preview_id (gate_events l))
   \<and> distinct_null (map ge_idempotency_key (gate_events l))
   \<and> distinct (map am_id (acceptance_manifests l)) \<and> distinct (map am_work_item_id (acceptance_manifests l))
   \<and> distinct (map am_gate_event_id (acceptance_manifests l))
   \<and> distinct (map de_id (delivery_receipts l)) \<and> distinct (map de_idempotency_key (delivery_receipts l))
   \<and> distinct (map au_id (audit_events l)) \<and> distinct (map au_source_event_key (audit_events l))
   \<and> distinct (map ob_id (outbox_events l)) \<and> distinct (map ob_dedupe_key (outbox_events l))
   \<and> distinct (map ib_id (inbox_events l))
   \<and> distinct (map (\<lambda>i. (ib_source i, ib_source_event_key i)) (inbox_events l))
   \<and> distinct (map bl_event_id (blocker_events l)) \<and> distinct (map bl_source_event_key (blocker_events l))"

definition has_gate :: "ledger \<Rightarrow> string \<Rightarrow> bool" where
  "has_gate l i = list_ex (\<lambda>g. ge_id g = i) (gate_events l)"

definition has_decision :: "ledger \<Rightarrow> string \<Rightarrow> bool" where
  "has_decision l i = list_ex (\<lambda>d. dr_id d = i) (decision_records l)"

text \<open>A nullable reference.\<close>

definition null_or :: "(string \<Rightarrow> bool) \<Rightarrow> string option \<Rightarrow> bool" where
  "null_or P k = (case k of None \<Rightarrow> True | Some i \<Rightarrow> P i)"

text \<open>The references of the rows of one ledger resolve in another.\<close>

definition resolves_in :: "ledger \<Rightarrow> ledger \<Rightarrow> bool" where
  "resolves_in l m \<longleftrightarrow>
     (\<forall>t\<in>set (task_versions l). has_work_item m (tv_work_item_id t))
   \<and> (\<forall>a\<in>set (execution_attempts l). has_task m (at_work_item_id a) (at_task_version a))
   \<and> (\<forall>a\<in>set (artifact_refs l). has_task m (ar_work_item_id a) (ar_task_version a)
        \<and> null_or (has_attempt m) (ar_attempt_id a))
   \<and> (\<forall>a\<in>set (external_associations l). has_work_item m (ea_work_item_id a)
        \<and> null_or (has_attempt m) (ea_attempt_id a))
   \<and> (\<forall>x\<in>set (attempt_events l). has_attempt m (ae_attempt_id x))
   \<and> (\<forall>d\<in>set (decision_records l). has_task m (dr_work_item_id d) (dr_task_version d)
        \<and> null_or (has_decision m) (dr_supersedes d))
   \<and> (\<forall>g\<in>set (gate_events l). has_task m (ge_work_item_id g) (ge_task_version g))
   \<and> (\<forall>x\<in>set (acceptance_manifests l). has_task m (am_work_item_id x) (am_task_version x)
        \<and> has_gate m (am_gate_event_id x))
   \<and> (\<forall>r\<in>set (delivery_receipts l). has_task m (de_work_item_id r) (de_task_version r))
   \<and> (\<forall>x\<in>set (audit_events l). has_work_item m (au_work_item_id x))
   \<and> (\<forall>x\<in>set (outbox_events l). has_work_item m (ob_work_item_id x))
   \<and> (\<forall>b\<in>set (blocker_events l). has_task m (bl_work_item_id b) (bl_task_version b))"

definition foreign_keys :: "ledger \<Rightarrow> bool" where
  "foreign_keys l \<longleftrightarrow> resolves_in l l"

section \<open>Statements\<close>

definition item_keys :: "work_item_row \<Rightarrow> string \<times> string \<times> string option \<times> origin" where
  "item_keys r = (wi_id r, wi_creation_preview_id r, wi_idempotency_key r, wi_origin r)"

definition receipt_keys :: "delivery_row \<Rightarrow> string \<times> string \<times> string \<times> int" where
  "receipt_keys r = (de_id r, de_idempotency_key r, de_work_item_id r, de_task_version r)"

definition outbox_keys :: "outbox_row \<Rightarrow> string \<times> string \<times> string" where
  "outbox_keys r = (ob_id r, ob_dedupe_key r, ob_work_item_id r)"

text \<open>The statements the transactions are made of; an UPDATE other than the completion of an attempt
  leaves the key columns of its rows alone.\<close>

inductive statement :: "ledger \<Rightarrow> ledger \<Rightarrow> bool" where
  In_Item: "insert_work_item r l = Inr l' \<Longrightarrow> statement l l'"
| In_Task: "insert_task_version_row t l = Inr l' \<Longrightarrow> statement l l'"
| In_Attempt: "insert_attempt a l = Inr l' \<Longrightarrow> statement l l'"
| In_Artifact: "insert_artifact_row x l = Inr l' \<Longrightarrow> statement l l'"
| In_Association: "insert_association y l = Inr l' \<Longrightarrow> statement l l'"
| In_Attempt_Event: "insert_attempt_event v l = Inr l' \<Longrightarrow> statement l l'"
| In_Decision: "insert_decision d l = Inr l' \<Longrightarrow> statement l l'"
| In_Gate: "insert_gate g l = Inr l' \<Longrightarrow> statement l l'"
| In_Manifest: "insert_manifest m l = Inr l' \<Longrightarrow> statement l l'"
| In_Delivery: "insert_delivery q l = Inr l' \<Longrightarrow> statement l l'"
| In_Audit: "insert_audit u l = Inr l' \<Longrightarrow> statement l l'"
| In_Outbox: "insert_outbox w l = Inr l' \<Longrightarrow> statement l l'"
| In_Inbox: "insert_inbox i l = Inr l' \<Longrightarrow> statement l l'"
| In_Blocker: "insert_blocker b l = Inr l' \<Longrightarrow> statement l l'"
| Up_Attempt: "update_completion n s k t' md l = Inr l' \<Longrightarrow> statement l l'"
| Up_Items: "map item_keys rs = map item_keys (work_items l) \<Longrightarrow> statement l (l\<lparr>work_items := rs\<rparr>)"
| Up_Receipts: "map receipt_keys qs = map receipt_keys (delivery_receipts l)
    \<Longrightarrow> statement l (l\<lparr>delivery_receipts := qs\<rparr>)"
| Up_Outbox: "map outbox_keys ws = map outbox_keys (outbox_events l) \<Longrightarrow> statement l (l\<lparr>outbox_events := ws\<rparr>)"

lemmas statement_inserts = In_Item In_Task In_Attempt In_Artifact In_Association In_Attempt_Event In_Decision
  In_Gate In_Manifest In_Delivery In_Audit In_Outbox In_Inbox In_Blocker

section \<open>Every statement keeps the constraints\<close>

lemma map_keys: "map f xs = map f ys \<Longrightarrow> map (\<lambda>r. h (f r)) xs = map (\<lambda>r. h (f r)) ys"
  by (metis (mono_tags, lifting) list.map_comp map_eq_conv comp_apply)

lemma ball_keys:
  assumes "map f xs = map f ys" "\<And>r. P r = Q (f r)"
  shows "(\<forall>r\<in>set xs. P r) = (\<forall>r\<in>set ys. P r)"
proof -
  have "f ` set xs = f ` set ys" using arg_cong [OF assms(1), of set] by simp
  then have "(\<forall>x\<in>f ` set xs. Q x) = (\<forall>x\<in>f ` set ys. Q x)" by simp
  then show ?thesis by (simp add: assms(2))
qed

lemma has_item_keys: "map wi_id rs = map wi_id (work_items l) \<Longrightarrow> has_work_item (l\<lparr>work_items := rs\<rparr>) = has_work_item l"
  by (intro ext) (simp add: has_work_item_iff)

text \<open>A new key is not among the old ones.\<close>

lemma new_key: "unique_key f r t \<longleftrightarrow> f r \<notin> f ` set t"
  by (auto simp: unique_key_iff image_iff)

lemma new_null_key: "unique_null f r t \<longleftrightarrow> f r = None \<or> f r \<notin> f ` set t"
  by (auto simp: unique_null_def list_all_iff image_iff)

lemma distinct_null_snoc: "distinct_null (ks @ [k]) \<longleftrightarrow> distinct_null ks \<and> (k = None \<or> k \<notin> set ks)"
  by (auto simp: distinct_null_def)

lemma distinct_null_Cons: "distinct_null (k # ks) \<longleftrightarrow> distinct_null ks \<and> (k = None \<or> k \<notin> set ks)"
  by (auto simp: distinct_null_def)

text \<open>The completion key: one row takes it, and no other row had it.\<close>

lemma completion_keys:
  assumes "distinct (map at_id xs)" "distinct_null (map at_completion_event_key xs)"
    and "\<forall>r\<in>set xs. at_completion_event_key r = Some k \<longrightarrow> at_id r = i"
  shows "distinct_null (map at_completion_event_key
    (update_where (\<lambda>r. at_id r = i \<and> at_completion_event_key r = None) (complete_attempt_row s k t m) xs))"
    (is "distinct_null (map ?key (?up xs))")
  using assms
proof (induction xs)
  case Nil
  then show ?case by (simp add: update_where_def distinct_null_def)
next
  case (Cons r xs)
  have IH: "distinct_null (map ?key (?up xs))" using Cons by (auto simp: distinct_null_def split: if_splits)
  have keys: "?key ` set (?up ys) \<subseteq> insert (Some k) (?key ` set ys)" for ys
    by (auto simp: set_update_where complete_attempt_row_def)
  show ?case
  proof (cases "at_id r = i")
    case True
    then have other: "\<forall>r'\<in>set xs. at_id r' \<noteq> i" using Cons.prems(1) by (auto simp: image_iff)
    then have "?up xs = xs" unfolding update_where_def by (intro map_idI) auto
    moreover have "Some k \<notin> ?key ` set xs" using Cons.prems(3) other by (auto simp: image_iff)
    ultimately show ?thesis using Cons.prems(2) True
      by (auto simp: update_where_def distinct_null_def complete_attempt_row_def split: if_splits)
  next
    case False
    then have up: "?up (r # xs) = r # ?up xs" by (simp add: update_where_def)
    from Cons.prems(3) False have "?key r \<noteq> Some k" by auto
    moreover have "?key r = None \<or> ?key r \<notin> ?key ` set xs" using Cons.prems(2) by (simp add: distinct_null_Cons)
    ultimately have "?key r = None \<or> ?key r \<notin> ?key ` set (?up xs)" using keys [of xs] by blast
    then show ?thesis unfolding up using IH by (simp add: distinct_null_Cons)
  qed
qed

lemma statement_unique_columns: "statement l l' \<Longrightarrow> unique_columns l \<Longrightarrow> unique_columns l'"
proof (induction rule: statement.induct)
  case (Up_Attempt n s k t' md l l')
  then have u: "\<forall>r\<in>set (execution_attempts l). at_completion_event_key r = Some k \<longrightarrow> at_id r = n"
    and l': "l' = l\<lparr>execution_attempts := update_where (\<lambda>r. at_id r = n \<and> at_completion_event_key r = None)
         (complete_attempt_row s k t' md) (execution_attempts l)\<rparr>"
    by (auto simp: update_completion_def list_ex_iff split: if_splits)
  have "distinct_null (map at_completion_event_key (execution_attempts l'))"
    unfolding l' using Up_Attempt(2) u by (simp add: unique_columns_def completion_keys)
  with Up_Attempt(2) show ?case
    unfolding l' unique_columns_def by (simp add: update_where_map complete_attempt_row_def)
next
  case (Up_Items rs l)
  note e = map_keys [OF Up_Items(1)]
  have "map wi_id rs = map wi_id (work_items l)"
    "map wi_creation_preview_id rs = map wi_creation_preview_id (work_items l)"
    "map wi_idempotency_key rs = map wi_idempotency_key (work_items l)"
    "map wi_origin rs = map wi_origin (work_items l)"
    using e [of fst] e [of "\<lambda>(_, p, _). p"] e [of "\<lambda>(_, _, k, _). k"] e [of "\<lambda>(_, _, _, x). x"]
    by (simp_all add: item_keys_def)
  then show ?case using Up_Items(2) by (simp add: unique_columns_def)
next
  case (Up_Receipts qs l)
  note e = map_keys [OF Up_Receipts(1)]
  have "map de_id qs = map de_id (delivery_receipts l)"
    "map de_idempotency_key qs = map de_idempotency_key (delivery_receipts l)"
    using e [of fst] e [of "\<lambda>(_, k, _). k"] by (simp_all add: receipt_keys_def)
  then show ?case using Up_Receipts(2) by (simp add: unique_columns_def)
next
  case (Up_Outbox ws l)
  note e = map_keys [OF Up_Outbox(1)]
  have "map ob_id ws = map ob_id (outbox_events l)"
    "map ob_dedupe_key ws = map ob_dedupe_key (outbox_events l)"
    using e [of fst] e [of "\<lambda>(_, k, _). k"] by (simp_all add: outbox_keys_def)
  then show ?case using Up_Outbox(2) by (simp add: unique_columns_def)
qed (auto simp: unique_columns_def insert_defs new_key new_null_key distinct_null_snoc)

lemma null_or_mono: "null_or P k \<Longrightarrow> (\<And>i. P i \<Longrightarrow> Q i) \<Longrightarrow> null_or Q k"
  by (cases k) (auto simp: null_or_def)

text \<open>A ledger whose referred-to tables only grow, and whose referring rows resolve.\<close>

definition refers_more :: "ledger \<Rightarrow> ledger \<Rightarrow> bool" where
  "refers_more l l' \<longleftrightarrow> (\<forall>w. has_work_item l w \<longrightarrow> has_work_item l' w) \<and> (\<forall>w v. has_task l w v \<longrightarrow> has_task l' w v)
     \<and> (\<forall>i. has_attempt l i \<longrightarrow> has_attempt l' i) \<and> (\<forall>i. has_gate l i \<longrightarrow> has_gate l' i)
     \<and> (\<forall>i. has_decision l i \<longrightarrow> has_decision l' i)"

lemma statement_refers_more:
  assumes "statement l l'"
  shows "refers_more l l'"
  using assms
proof (induction rule: statement.induct)
  case (Up_Attempt n s k t' md l l')
  then have l': "l' = l\<lparr>execution_attempts := update_where (\<lambda>r. at_id r = n \<and> at_completion_event_key r = None)
         (complete_attempt_row s k t' md) (execution_attempts l)\<rparr>"
    by (auto simp: update_completion_def split: if_splits)
  have "map at_id (execution_attempts l') = map at_id (execution_attempts l)"
    by (simp add: l' update_where_map complete_attempt_row_def)
  then have "has_attempt l' = has_attempt l" by (intro ext) (simp only: has_attempt_iff)
  then show ?case
    by (simp add: refers_more_def has_work_item_def has_task_def has_gate_def has_decision_def l')
next
  case (Up_Items rs l)
  have "map wi_id rs = map wi_id (work_items l)"
    using map_keys [OF Up_Items(1), of fst] by (simp add: item_keys_def)
  from has_item_keys [OF this] show ?case
    by (simp add: refers_more_def has_task_def has_attempt_def has_gate_def has_decision_def)
qed (auto simp: refers_more_def insert_defs has_work_item_def has_task_def has_attempt_def has_gate_def has_decision_def)

lemma resolves_more: "refers_more m m' \<Longrightarrow> resolves_in l m \<Longrightarrow> resolves_in l m'"
  unfolding refers_more_def resolves_in_def by (meson null_or_mono)

lemma resolves_receipts:
  assumes "map receipt_keys qs = map receipt_keys rs"
  shows "(\<forall>r\<in>set qs. has_task m (de_work_item_id r) (de_task_version r))
    = (\<forall>r\<in>set rs. has_task m (de_work_item_id r) (de_task_version r))"
  by (rule ball_keys [OF assms, where Q = "\<lambda>(_, _, w, v). has_task m w v"]) (auto simp: receipt_keys_def)

lemma resolves_outbox:
  assumes "map outbox_keys ws = map outbox_keys xs"
  shows "(\<forall>x\<in>set ws. has_work_item m (ob_work_item_id x)) = (\<forall>x\<in>set xs. has_work_item m (ob_work_item_id x))"
  by (rule ball_keys [OF assms, where Q = "\<lambda>(_, _, w). has_work_item m w"]) (auto simp: outbox_keys_def)

lemma statement_foreign_keys:
  assumes st: "statement l l'" and fk: "foreign_keys l"
  shows "foreign_keys l'"
proof -
  have more: "refers_more l l'" using st by (rule statement_refers_more)
  with fk have old: "resolves_in l l'" unfolding foreign_keys_def by (rule resolves_more [rotated])
  from st more old have "resolves_in l' l'"
  proof (induction rule: statement.induct)
    case (In_Artifact x l l')
    then have "null_or (has_attempt l') (ar_attempt_id x)"
      by (auto simp: insert_defs refers_more_def null_or_def split: option.splits)
    with In_Artifact show ?case by (auto simp: resolves_in_def insert_defs refers_more_def)
  next
    case (In_Association y l l')
    then have "null_or (has_attempt l') (ea_attempt_id y)"
      by (auto simp: insert_defs refers_more_def null_or_def split: option.splits)
    with In_Association show ?case by (auto simp: resolves_in_def insert_defs refers_more_def)
  next
    case (In_Decision d l l')
    then have "null_or (has_decision l') (dr_supersedes d)"
      by (auto simp: insert_defs has_decision_def null_or_def split: option.splits)
    with In_Decision show ?case by (auto simp: resolves_in_def insert_defs refers_more_def)
  next
    case (In_Manifest m l l')
    then have "has_gate l' (am_gate_event_id m)"
      by (auto simp: insert_defs has_gate_def)
    with In_Manifest show ?case by (auto simp: resolves_in_def insert_defs refers_more_def)
  next
    case (Up_Attempt n s k t' md l l')
    then show ?case
      by (auto simp: resolves_in_def update_completion_def set_update_where complete_attempt_row_def split: if_splits)
  next
    case (Up_Items rs l)
    then show ?case by (simp add: resolves_in_def)
  next
    case (Up_Receipts qs l)
    with resolves_receipts [OF Up_Receipts(1)] show ?case by (simp add: resolves_in_def)
  next
    case (Up_Outbox ws l)
    with resolves_outbox [OF Up_Outbox(1)] show ?case by (simp add: resolves_in_def)
  qed (auto simp: resolves_in_def insert_defs refers_more_def)
  then show ?thesis by (simp add: foreign_keys_def)
qed

end
