(* ===== verification/LedgerStatements.thy ===== *)
theory LedgerStatements
  imports LedgerConstraints
begin

text \<open>
  Every committed command is a sequence of statements (\<open>run_statements\<close>), and so the UNIQUE and
  FOREIGN KEY constraints hold of every reachable ledger (\<open>reachable_constraints\<close>).
\<close>

abbreviation statements :: "ledger \<Rightarrow> ledger \<Rightarrow> bool" where
  "statements \<equiv> statement\<^sup>*\<^sup>*"

lemma one_statement: "statement l l' \<Longrightarrow> statements l l'"
  by simp

lemmas insert_is_statements = statement_inserts [THEN one_statement] Up_Attempt [THEN one_statement]

section \<open>The helpers\<close>

lemma plan_refs_statements: "insert_plan_refs w v key t i rs l = Inr l' \<Longrightarrow> statements l l'"
  by (induction rs arbitrary: i l) (auto intro: converse_rtranclp_into_rtranclp In_Association)

lemma external_refs_statements: "insert_external_refs w v n key t i rs l = Inr l' \<Longrightarrow> statements l l'"
  by (induction rs arbitrary: i l) (auto intro: converse_rtranclp_into_rtranclp In_Association)

lemma task_version_statements: "insert_task_version e w v task key t l = Inr l' \<Longrightarrow> statements l l'"
  unfolding insert_task_version_def
  by (auto intro: converse_rtranclp_into_rtranclp In_Task dest: plan_refs_statements)

lemma artifact_statements: "insert_artifact a t l = Inr ((row, rp), l') \<Longrightarrow> statements l l'"
  by (auto simp: insert_artifact_def Let_def split: option.splits if_split_asm dest: insert_is_statements)

lemma artifacts_statements: "insert_artifacts t as l = Inr l' \<Longrightarrow> statements l l'"
  by (induction as arbitrary: l) (auto intro: rtranclp_trans dest: artifact_statements)

lemma audit_statements: "insert_audit_event e w v ty ac pl key t l = Inr l' \<Longrightarrow> statements l l'"
  by (auto simp: insert_audit_event_def dest: insert_is_statements)

lemma outbox_statements: "insert_outbox_event e w ty key pl t l = Inr l' \<Longrightarrow> statements l l'"
  by (auto simp: insert_outbox_event_def dest: insert_is_statements)

lemma inbox_statements: "insert_inbox_event e src key pl t l = Inr l' \<Longrightarrow> statements l l'"
  by (auto simp: insert_inbox_event_def dest: insert_is_statements)

lemma manifest_statements: "insert_acceptance_manifest e g w v n as ds pj t l = Inr l' \<Longrightarrow> statements l l'"
  by (auto simp: insert_acceptance_manifest_def Let_def dest: insert_is_statements)

lemma statements_items_update:
  "statements l l' \<Longrightarrow> (\<And>r. P r \<Longrightarrow> item_keys (f r) = item_keys r)
    \<Longrightarrow> statements l (l'\<lparr>work_items := update_where P f (work_items l')\<rparr>)"
  by (erule rtranclp.rtrancl_into_rtrancl) (intro Up_Items update_where_map)

lemma receipt_update_statements:
  "statements (update_receipt i f l) l' \<Longrightarrow> (\<And>r. receipt_keys (f r) = receipt_keys r) \<Longrightarrow> statements l l'"
  unfolding update_receipt_def by (erule converse_rtranclp_into_rtranclp [rotated]) (intro Up_Receipts update_where_map)

lemma statements_receipt_update:
  "statements l l' \<Longrightarrow> (\<And>r. receipt_keys (f r) = receipt_keys r) \<Longrightarrow> statements l (update_receipt i f l')"
  unfolding update_receipt_def by (erule rtranclp.rtrancl_into_rtrancl) (intro Up_Receipts update_where_map)

lemma outbox_update_statements:
  "statements (update_outbox i f l) l' \<Longrightarrow> (\<And>r. outbox_keys (f r) = outbox_keys r) \<Longrightarrow> statements l l'"
  unfolding update_outbox_def by (erule converse_rtranclp_into_rtranclp [rotated]) (intro Up_Outbox update_where_map)

lemmas helper_statements = insert_is_statements task_version_statements external_refs_statements
  artifact_statements artifacts_statements audit_statements outbox_statements inbox_statements
  manifest_statements

section \<open>The transactions\<close>

lemma create_statements:
  assumes "apply_create e cfg l p c oper = Inr (a, l')"
  shows "statements l l'"
  using assms unfolding apply_create_def Let_def
  by (auto split: option.splits dest!: helper_statements intro: rtranclp_trans)

lemma claim_statements:
  assumes "claim_transaction e w v n supplied status objective md key refs t l = Inr ((row, rp), l')"
  shows "statements l l'"
  using assms unfolding claim_transaction_def Let_def
  by (auto split: option.splits if_split_asm dest!: helper_statements intro: rtranclp_trans)

lemma historical_statements:
  assumes "historical_transaction e w v n status objective md reason key refs pl t l = Inr ((row, rp), l')"
  shows "statements l l'"
  using assms unfolding historical_transaction_def
  by (auto split: option.splits if_split_asm dest!: helper_statements intro: rtranclp_trans)

lemma completion_statements:
  assumes "completion_transaction e n status key md arts t l = Inr (a, l')"
  shows "statements l l'"
  using assms unfolding completion_transaction_def first_completion_def
  by (auto split: option.splits if_split_asm dest!: helper_statements intro: rtranclp_trans)

lemma decision_statements: "decision_transaction c t l = Inr ((row, rp), l') \<Longrightarrow> statements l l'"
  unfolding decision_transaction_def
  by (auto split: option.splits if_split_asm dest!: helper_statements)

lemma gate_facts_statements: "write_gate_facts e c g l = Inr l' \<Longrightarrow> statements l l'"
  unfolding write_gate_facts_def
  by (auto split: if_split_asm dest!: helper_statements intro: rtranclp_trans)

lemma cas_statements: "cas_state c s t l = (l', matched) \<Longrightarrow> statements l l'"
  by (auto simp: cas_state_def Let_def item_keys_def intro!: statements_items_update)

lemma transition_statements:
  assumes "transition_transaction e c gid pid dg t l = Inr ((g, rp), l')"
  shows "statements l l'"
  using assms unfolding transition_transaction_def Let_def
  by (auto split: option.splits if_split_asm prod.splits dest!: gate_facts_statements dest: cas_statements
      intro: rtranclp_trans)

lemma blocker_statements: "blocker_transaction e c ty t l = Inr ((b, rp), l') \<Longrightarrow> statements l l'"
  unfolding blocker_transaction_def Let_def
  by (auto split: option.splits if_split_asm dest!: helper_statements intro: rtranclp_trans)

lemma new_receipt_statements:
  "receipt_transaction e i sp w v dst dg key t l = Inr ((row, rp), l') \<Longrightarrow> statements l l'"
  unfolding receipt_transaction_def Let_def
  by (auto split: option.splits if_split_asm dest!: helper_statements intro: rtranclp_trans)

lemma retry_statements: "retry_transaction e i key delivered err l = Inr ((row, rp), l') \<Longrightarrow> statements l l'"
  unfolding retry_transaction_def Let_def
  by (auto split: option.splits if_split_asm dest!: inbox_statements outbox_statements receipt_update_statements
      simp: receipt_keys_def intro: rtranclp_trans)

lemma acknowledge_statements: "acknowledge_transaction e i src key l = Inr ((row, rp), l') \<Longrightarrow> statements l l'"
  unfolding acknowledge_transaction_def Let_def
  by (auto split: option.splits if_split_asm dest!: inbox_statements simp: receipt_keys_def
      intro!: statements_receipt_update)

lemma outbox_result_statements:
  "outbox_result_transaction e i key delivered err l = Inr ((row, rp), l') \<Longrightarrow> statements l l'"
  unfolding outbox_result_transaction_def Let_def
  by (auto split: option.splits if_split_asm dest!: inbox_statements outbox_update_statements
      simp: outbox_keys_def)

lemma outbox_recovery_statements:
  "outbox_recovery_transaction e i key reason l = Inr ((row, rp), l') \<Longrightarrow> statements l l'"
  unfolding outbox_recovery_transaction_def Let_def
  by (auto split: option.splits if_split_asm dest!: inbox_statements outbox_update_statements
      simp: outbox_keys_def)

lemma new_task_statements:
  assumes "add_task_version e cfg l c = Inr ((row, rp), l')"
  shows "statements l l'"
  using assms unfolding add_task_version_def Let_def
  by (auto split: option.splits if_split_asm dest!: task_version_statements simp: item_keys_def
      intro!: statements_items_update)

lemmas command_statements = create_statements new_task_statements claim_statements historical_statements
  artifact_statements completion_statements decision_statements transition_statements blocker_statements
  new_receipt_statements retry_statements acknowledge_statements outbox_result_statements
  outbox_recovery_statements

section \<open>Reachable ledgers\<close>

theorem run_statements:
  assumes r: "run e cfg l oper = Inr l'"
  shows "statements l l'"
proof -
  have tr: "statements l l'" if "apply_work_item_transition e cfg l p pc = Inr (a, l')" for p pc a
    using apply_transition_Inr [OF that] transition_statements by auto
  have cmp: "statements l l'" if "complete_execution_attempt e cfg l c = Inr (a, l')" for c a
    using complete_attempt_effect [OF that] completion_statements by blast
  have at: "statements l l'" if "create_execution_attempt e cfg l c = Inr ((row, rp), l')" for c row rp
    using create_attempt_effect [OF that] claim_statements by blast
  have hist: "statements l l'" if "bind_historical_execution_attempt e cfg l c = Inr ((row, rp), l')" for c row rp
    using bind_historical_effect [OF that] historical_statements by blast
  show ?thesis
  proof (cases "side_operation oper")
    case True
    with r show ?thesis
      by (cases oper)
        (auto simp: side_operation_def ledger_of_Inr apply_blocker_def clear_blocker_def record_blocker_event_def
          create_delivery_receipt_def retry_delivery_def acknowledge_delivery_def record_outbox_delivery_result_def
          recover_outbox_event_def split: if_split_asm intro: command_statements)
  next
    case False
    with r tr cmp at hist show ?thesis
      by (cases oper)
        (auto simp: side_operation_def ledger_of_Inr apply_work_item_create_def apply_legacy_work_item_import_def
          record_review_decision_def register_artifact_reference_def intro: command_statements)
  qed
qed

lemma statements_keep: 
  assumes "statements l l'" "unique_columns l" "foreign_keys l"
  shows "unique_columns l' \<and> foreign_keys l'"
  using assms by (induction rule: rtranclp_induct) (auto intro: statement_unique_columns statement_foreign_keys)

lemma empty_constraints: "unique_columns empty_ledger \<and> foreign_keys empty_ledger"
  by (simp add: unique_columns_def distinct_null_def foreign_keys_def resolves_in_def empty_ledger_def)

theorem reachable_constraints: "reachable l \<Longrightarrow> unique_columns l \<and> foreign_keys l"
proof (induction rule: reachable.induct)
  case reach_empty
  show ?case by (rule empty_constraints)
next
  case (reach_step l l')
  then obtain e cfg oper where "run e cfg l oper = Inr l'" by (auto elim: stepE)
  with reach_step show ?case using run_statements statements_keep by blast
qed

end
