(* ===== verification/PathGlob.thy ===== *)
theory PathGlob
  imports Prelude
begin

text \<open>
  \<open>runner/path_glob.py\<close> and the parts of \<open>fnmatch\<close> and \<open>pathlib.PurePosixPath\<close> it and its callers
  use: path normalisation, one component against a shell pattern, and a path against a pattern whose
  \<open>**\<close> components stand for any number of components.  The matcher of the code backtracks over
  lists; \<open>glob_spec\<close> is its declarative meaning and the two agree.
\<close>

section \<open>Strings of paths\<close>

abbreviation slash :: char where "slash \<equiv> CHR ''/''"

definition to_slashes :: "string \<Rightarrow> string" where
  "to_slashes s = map (\<lambda>c. if c = CHR 0x5C then slash else c) s"

definition normalize :: "string \<Rightarrow> string" where
  "normalize path =
    (let normalized = to_slashes (py_strip path)
     in if starts_with normalized ''./'' then drop 2 normalized else normalized)"

text \<open>\<open>str.split('/')\<close> is \<open>split_on slash\<close>, \<open>'/'.join\<close> its inverse.\<close>

fun join_slash :: "string list \<Rightarrow> string" where
  "join_slash [] = []"
| "join_slash [p] = p"
| "join_slash (p # q # ps) = p @ slash # join_slash (q # ps)"

lemma join_slash_Cons: "ps \<noteq> [] \<Longrightarrow> join_slash (p # ps) = p @ slash # join_slash ps"
  by (cases ps) auto

lemma split_join: "ps \<noteq> [] \<Longrightarrow> \<forall>p\<in>set ps. slash \<notin> set p \<Longrightarrow> split_on slash (join_slash ps) = ps"
proof (induction ps rule: join_slash.induct)
  case (2 p)
  have "slash \<notin> set p \<Longrightarrow> split_on slash p = [p]" by (induction p) auto
  with 2 show ?case by simp
next
  case (3 p q ps)
  have "slash \<notin> set p \<Longrightarrow> split_on slash (p @ slash # t) = p # split_on slash t" for t
    by (induction p) auto
  with 3 show ?case by simp
qed simp

lemma join_split: "join_slash (split_on slash s) = s"
proof (induction s)
  case (Cons c s)
  obtain p ps where p: "split_on slash s = p # ps" by (cases "split_on slash s") auto
  with Cons show ?case by (cases ps) auto
qed simp

lemma split_no_slash: "p \<in> set (split_on slash s) \<Longrightarrow> slash \<notin> set p"
proof (induction s arbitrary: p)
  case (Cons c s)
  then show ?case by (cases "split_on slash s") (auto split: if_splits)
qed simp

section \<open>Shell patterns: \<open>fnmatch\<close> on a POSIX system\<close>

datatype tok =
    Any_Run                                    \<comment> \<open>\<open>*\<close>\<close>
  | Any_Char                                   \<comment> \<open>\<open>?\<close>\<close>
  | Lit char
  | Char_Class bool "(char \<times> char) list"       \<comment> \<open>negated?, ranges\<close>

definition find_dash :: "nat \<Rightarrow> string \<Rightarrow> nat option" where
  "find_dash n s = (let k = length (takeWhile (\<lambda>c. c \<noteq> CHR ''-'') (drop n s))
     in if n + k < length s then Some (n + k) else None)"

lemma find_dash_less: "find_dash n s = Some k \<Longrightarrow> k < length s"
  by (auto simp: find_dash_def Let_def split: if_splits)

function class_chunks :: "nat \<Rightarrow> string \<Rightarrow> string list" where
  "class_chunks n s =
    (case find_dash n s of
       None \<Rightarrow> [s]
     | Some k \<Rightarrow>
         (let rest = drop (Suc k) s
          in if rest = [] then [take k s @ ''-''] else take k s # class_chunks 2 rest))"
  by pat_completeness auto
termination
  by (relation "measure (\<lambda>(n, s). length s)") (auto dest: find_dash_less)

declare class_chunks.simps [simp del]

text \<open>Empty ranges are removed from the last to the first.\<close>

fun drop_empty_ranges :: "string list \<Rightarrow> string list" where
  "drop_empty_ranges [] = []"
| "drop_empty_ranges [c] = [c]"
| "drop_empty_ranges (c # d # ds) =
    (case drop_empty_ranges (d # ds) of
       [] \<Rightarrow> [c]
     | x # xs \<Rightarrow>
         if c \<noteq> [] \<and> x \<noteq> [] \<and> (of_char (last c) :: nat) > of_char (hd x) then (butlast c @ tl x) # xs
         else c # x # xs)"

fun chunk_ranges :: "string list \<Rightarrow> (char \<times> char) list" where
  "chunk_ranges [] = []"
| "chunk_ranges [c] = map (\<lambda>x. (x, x)) c"
| "chunk_ranges ([] # ds) = (CHR ''-'', CHR ''-'') # chunk_ranges ds"
| "chunk_ranges (c # [] # ds) = map (\<lambda>x. (x, x)) c @ chunk_ranges ([] # ds)"
| "chunk_ranges (c # (x # d) # ds) = map (\<lambda>x. (x, x)) (butlast c) @ (last c, x) # chunk_ranges (d # ds)"

definition class_of :: "string \<Rightarrow> tok" where
  "class_of stuff =
    (let chunks = drop_empty_ranges (class_chunks (if starts_with stuff ''!'' then 2 else 1) stuff)
     in case chunks of
          (CHR ''!'' # c) # cs \<Rightarrow> Char_Class True (chunk_ranges (c # cs))
        | cs \<Rightarrow> Char_Class False (chunk_ranges cs))"

text \<open>The text of a class up to its closing bracket, and what follows it.\<close>

definition bracket :: "string \<Rightarrow> (string \<times> string) option" where
  "bracket s =
    (let j = (if starts_with s ''!'' then 1 else 0);
         j2 = (if starts_with (drop j s) '']'' then j + 1 else j);
         k = j2 + length (takeWhile (\<lambda>c. c \<noteq> CHR '']'') (drop j2 s))
     in if k \<ge> length s then None else Some (take k s, drop (Suc k) s))"

lemma bracket_shorter: "bracket s = Some (a, b) \<Longrightarrow> length b < length s"
  by (auto simp: bracket_def Let_def split: if_splits)

function shell_toks :: "string \<Rightarrow> tok list" where
  "shell_toks [] = []"
| "shell_toks (c # s) =
    (if c = CHR ''*'' then Any_Run # shell_toks s
     else if c = CHR ''?'' then Any_Char # shell_toks s
     else if c = CHR ''['' then
       (case bracket s of
          None \<Rightarrow> Lit (CHR ''['') # shell_toks s
        | Some (stuff, rest) \<Rightarrow> class_of stuff # shell_toks rest)
     else Lit c # shell_toks s)"
  by pat_completeness auto
termination
  by (relation "measure length") (auto dest: bracket_shorter)

fun tok_char :: "tok \<Rightarrow> char \<Rightarrow> bool" where
  "tok_char Any_Run c = False"
| "tok_char Any_Char c = True"
| "tok_char (Lit d) c = (c = d)"
| "tok_char (Char_Class neg rs) c =
     (neg \<noteq> list_ex (\<lambda>(a, b). of_char a \<le> (of_char c :: nat) \<and> of_char c \<le> (of_char b :: nat)) rs)"

function toks_match :: "tok list \<Rightarrow> string \<Rightarrow> bool" where
  "toks_match [] s = (s = [])"
| "toks_match (t # ts) s =
    (if t = Any_Run then toks_match ts s \<or> (case s of [] \<Rightarrow> False | _ # cs \<Rightarrow> toks_match (t # ts) cs)
     else (case s of [] \<Rightarrow> False | c # cs \<Rightarrow> tok_char t c \<and> toks_match ts cs))"
  by pat_completeness auto
termination
  by (relation "measure (\<lambda>(ts, s). length ts + length s)") auto

declare toks_match.simps(2) [simp del]

definition fnmatch :: "string \<Rightarrow> string \<Rightarrow> bool" where
  "fnmatch name pat = toks_match (shell_toks pat) name"

lemma toks_match_run: "toks_match (Any_Run # ts) s \<longleftrightarrow> (\<exists>a b. s = a @ b \<and> toks_match ts b)"
proof (induction s)
  case Nil
  then show ?case by (simp add: toks_match.simps)
next
  case (Cons c s)
  have "toks_match (Any_Run # ts) (c # s) \<longleftrightarrow> toks_match ts (c # s) \<or> toks_match (Any_Run # ts) s"
    by (simp add: toks_match.simps)
  then show ?case unfolding Cons.IH by (metis Cons_eq_append_conv append_Cons)
qed

lemma toks_match_char: "t \<noteq> Any_Run \<Longrightarrow> toks_match (t # ts) s \<longleftrightarrow> (\<exists>c cs. s = c # cs \<and> tok_char t c \<and> toks_match ts cs)"
  by (cases s) (auto simp: toks_match.simps)

lemma toks_match_append:
  "toks_match (ts @ us) s \<longleftrightarrow> (\<exists>a b. s = a @ b \<and> toks_match ts a \<and> toks_match us b)"
proof (induction ts arbitrary: s)
  case (Cons t ts)
  show ?case
  proof (cases "t = Any_Run")
    case True
    then show ?thesis unfolding True append_Cons toks_match_run Cons.IH by (metis append_assoc)
  next
    case False
    then show ?thesis by (simp add: toks_match_char Cons.IH) (metis append_Cons)
  qed
qed simp

section \<open>Matching a path\<close>

function match_parts :: "string list \<Rightarrow> string list \<Rightarrow> bool" where
  "match_parts [] parts = (parts = [])"
| "match_parts (p # ps) parts =
    (if p = ''**'' then match_parts ps parts \<or> (case parts of [] \<Rightarrow> False | _ # rest \<Rightarrow> match_parts (p # ps) rest)
     else (case parts of [] \<Rightarrow> False | x # rest \<Rightarrow> fnmatch x p \<and> match_parts ps rest))"
  by pat_completeness auto
termination
  by (relation "measure (\<lambda>(ps, xs). length ps + length xs)") auto

declare match_parts.simps(2) [simp del]

definition glob_match :: "string \<Rightarrow> string \<Rightarrow> bool" where
  "glob_match pattern0 path0 =
    (let pat = normalize pattern0; path = normalize path0
     in if pat = [] \<or> path = [] then False else match_parts (split_on slash pat) (split_on slash path))"

definition match_any :: "string \<Rightarrow> string list \<Rightarrow> bool" where
  "match_any path patterns = (if patterns = [] then False else list_ex (\<lambda>p. glob_match p path) patterns)"

text \<open>The meaning of a pattern: \<open>**\<close> is any list of components, any other component a shell pattern.\<close>

inductive glob_spec :: "string list \<Rightarrow> string list \<Rightarrow> bool" where
  Glob_End: "glob_spec [] []"
| Glob_Skip: "glob_spec ps xs \<Longrightarrow> glob_spec (''**'' # ps) (skipped @ xs)"
| Glob_Part: "p \<noteq> ''**'' \<Longrightarrow> fnmatch x p \<Longrightarrow> glob_spec ps xs \<Longrightarrow> glob_spec (p # ps) (x # xs)"

inductive_cases glob_specE: "glob_spec (p # ps) xs"
inductive_simps glob_spec_simps: "glob_spec [] xs" "glob_spec (p # ps) xs"

lemma match_parts_spec: "match_parts ps xs \<longleftrightarrow> glob_spec ps xs"
proof (induction ps xs rule: match_parts.induct)
  case (1 parts)
  then show ?case by (simp add: glob_spec_simps)
next
  case (2 p ps parts)
  show ?case
  proof (cases "p = ''**''")
    case True
    have "match_parts (p # ps) parts \<longleftrightarrow> glob_spec ps parts \<or> (\<exists>x rest. parts = x # rest \<and> glob_spec (p # ps) rest)"
      using 2(1,2) [OF True] True by (subst match_parts.simps) (auto split: list.splits)
    also have "\<dots> \<longleftrightarrow> glob_spec (p # ps) parts"
      unfolding glob_spec_simps(2) [of p] using True
      by (auto simp: Cons_eq_append_conv) (metis append_Cons append_Nil neq_Nil_conv)+
    finally show ?thesis .
  next
    case False
    then show ?thesis
      using 2(3) [OF False] by (subst match_parts.simps) (auto simp: glob_spec_simps split: list.splits)
  qed
qed

lemma glob_spec_append: "glob_spec ps xs \<Longrightarrow> glob_spec qs ys \<Longrightarrow> glob_spec (ps @ qs) (xs @ ys)"
  by (induction rule: glob_spec.induct) (auto intro: glob_spec.intros)

lemma glob_spec_self:
  "\<forall>x\<in>set xs. x \<noteq> ''**'' \<and> fnmatch x x \<Longrightarrow> glob_spec xs xs"
  by (induction xs) (auto intro: glob_spec.intros)

text \<open>A pattern without wildcards matches only itself.\<close>

definition plain_chars :: "string \<Rightarrow> bool" where
  "plain_chars s \<longleftrightarrow> list_all (\<lambda>c. c \<noteq> CHR ''*'' \<and> c \<noteq> CHR ''?'' \<and> c \<noteq> CHR ''['') s"

lemma shell_toks_plain: "plain_chars p \<Longrightarrow> shell_toks (p @ q) = map Lit p @ shell_toks q"
  by (induction p) (auto simp: plain_chars_def)

lemma toks_match_lits: "toks_match (map Lit p @ ts) s \<longleftrightarrow> (\<exists>r. s = p @ r \<and> toks_match ts r)"
  by (induction p arbitrary: s) (auto simp: toks_match_char)

lemma fnmatch_plain [simp]: "plain_chars p \<Longrightarrow> fnmatch x p \<longleftrightarrow> x = p"
  using shell_toks_plain [of p "[]"] toks_match_lits [of p "[]" x] by (simp add: fnmatch_def)

lemma fnmatch_suffix: "plain_chars p \<Longrightarrow> fnmatch x (CHR ''*'' # p) \<longleftrightarrow> (\<exists>a. x = a @ p)"
  using shell_toks_plain [of p "[]"] toks_match_lits [of p "[]"]
  by (simp add: fnmatch_def toks_match_run)

lemma fnmatch_prefix: "plain_chars p \<Longrightarrow> fnmatch x (p @ ''*'') \<longleftrightarrow> (\<exists>b. x = p @ b)"
  by (simp add: fnmatch_def shell_toks_plain toks_match_lits toks_match_run)

lemma fnmatch_infix: "plain_chars p \<Longrightarrow> fnmatch x (CHR ''*'' # p @ ''*'') \<longleftrightarrow> (\<exists>a b. x = a @ p @ b)"
  by (simp add: fnmatch_def shell_toks_plain toks_match_lits toks_match_run) blast

lemma fnmatch_any [simp]: "fnmatch x ''*''"
  by (simp add: fnmatch_def toks_match_run)

end
