(* ===== verification/FilePolicyRules.thy ===== *)
theory FilePolicyRules
  imports Prelude
begin

text \<open>
  \<open>runner/file_policy_rules.py\<close> (and \<open>project_runner_dirnames\<close> of \<open>runner/runner_paths.py\<close>): the
  tables of path patterns behind the source and commit policies, in the order of the file.
\<close>

definition PRIMARY_PROJECT_RUNNER_DIRNAME :: string where
  "PRIMARY_PROJECT_RUNNER_DIRNAME = ''.colameta''"

definition project_runner_dirnames :: "string list" where
  "project_runner_dirnames = [PRIMARY_PROJECT_RUNNER_DIRNAME]"

definition runner_patterns :: "string list \<Rightarrow> string list" where
  "runner_patterns suffixes = concat (map (\<lambda>dirname. map (\<lambda>suffix. dirname @ ''/'' @ suffix) suffixes)
     project_runner_dirnames)"

definition TEXT_SOURCE_EXTENSIONS :: "string list" where
  "TEXT_SOURCE_EXTENSIONS =
    [''*.html'', ''**/*.html'', ''*.css'', ''**/*.css'', ''*.js'', ''**/*.js'', ''*.ts'', ''**/*.ts'',
     ''*.tsx'', ''**/*.tsx'', ''*.jsx'', ''**/*.jsx'', ''*.vue'', ''**/*.vue'', ''*.svelte'',
     ''**/*.svelte'', ''*.astro'', ''**/*.astro'', ''*.go'', ''**/*.go'', ''*.php'', ''**/*.php'',
     ''*.java'', ''**/*.java'', ''*.rs'', ''**/*.rs'', ''*.rb'', ''**/*.rb'', ''*.cs'', ''**/*.cs'',
     ''*.kt'', ''**/*.kt'', ''*.swift'', ''**/*.swift'', ''*.md'', ''*.mdx'']"

definition TEXT_SOURCE_ONLY_EXTENSIONS :: "string list" where
  "TEXT_SOURCE_ONLY_EXTENSIONS =
    [''*.py'', ''**/*.py'']"

definition TEXT_STATIC_ASSET_EXTENSIONS :: "string list" where
  "TEXT_STATIC_ASSET_EXTENSIONS =
    [''*.svg'', ''**/*.svg'']"

definition PROJECT_CONFIG_FILES :: "string list" where
  "PROJECT_CONFIG_FILES =
    [''README.md'', ''AGENTS.md'', ''.gitignore'', ''Makefile'', ''Dockerfile'', ''docker-compose.yml'',
     ''docker-compose.yaml'', ''.editorconfig'', ''.eslintrc'', ''.eslintrc.*'', ''.prettierrc'',
     ''.prettierrc.*'', ''pyproject.toml'', ''setup.cfg'', ''setup.py'', ''requirements.txt'',
     ''requirements*.txt'', ''package.json'', ''package-lock.json'', ''Package.swift'',
     ''Package.resolved'', ''pnpm-lock.yaml'', ''yarn.lock'', ''tsconfig.json'', ''tsconfig.*.json'',
     ''vite.config.*'', ''next.config.*'', ''nuxt.config.*'', ''go.mod'', ''go.sum'', ''Cargo.toml'',
     ''Cargo.lock'', ''pom.xml'', ''build.gradle'', ''build.gradle.kts'', ''settings.gradle'',
     ''settings.gradle.kts'', ''gradle.properties'', ''composer.json'', ''composer.lock'', ''deno.json'',
     ''deno.lock'', ''bun.lockb'', ''bun.lock'', ''eslint.config.*'', ''postcss.config.*'',
     ''tailwind.config.*'', ''svelte.config.*'', ''astro.config.*'']"

definition WEB_METADATA_FILES :: "string list" where
  "WEB_METADATA_FILES =
    [''manifest.json'', ''**/manifest.json'', ''*.webmanifest'', ''**/*.webmanifest'', ''robots.txt'',
     ''**/robots.txt'', ''sitemap.xml'', ''**/sitemap.xml'', ''browserconfig.xml'',
     ''**/browserconfig.xml'']"

definition COMMON_TEXT_DOC_NAMES :: "string list" where
  "COMMON_TEXT_DOC_NAMES =
    [''**/README.md'', ''**/README_EN.md'', ''**/CHANGELOG.md'', ''**/LICENSE'', ''**/LICENSE.*'',
     ''**/LICENSE-*'', ''**/NOTICE'', ''**/NOTICE.*'']"

definition GOVERNANCE_EVIDENCE_FILES :: "string list" where
  "GOVERNANCE_EVIDENCE_FILES =
    [''control-plane/registry/reports/*.yaml'', ''control-plane/registry/reports/**/*.yaml'',
     ''control-plane/registry/reports/*.md'', ''control-plane/registry/reports/**/*.md'',
     ''control-plane/registry/decisions/*.yaml'', ''control-plane/registry/decisions/**/*.yaml'',
     ''control-plane/registry/reviews/*.yaml'', ''control-plane/registry/reviews/**/*.yaml'',
     ''control-plane/registry/receipts/*.md'', ''control-plane/registry/receipts/**/*.md'']"

definition RUNNER_MANAGED_FILES :: "string list" where
  "RUNNER_MANAGED_FILES =
    runner_patterns
    [''plan.json'', ''todolist.json'', ''decisions.json'', ''memory.md'', ''project-context.md'',
     ''plans/*.yaml'', ''plans/**/*.yaml'', ''plans/*.yml'', ''plans/**/*.yml'', ''prompts/*.md'',
     ''prompts/**/*.md'', ''shared/*'', ''shared/**/*'', ''rules.md'']
    @ [''bin/colameta'']"

definition COMMIT_ONLY_BINARY_ASSET_EXTENSIONS :: "string list" where
  "COMMIT_ONLY_BINARY_ASSET_EXTENSIONS =
    [''*.png'', ''**/*.png'', ''*.jpg'', ''**/*.jpg'', ''*.jpeg'', ''**/*.jpeg'', ''*.gif'',
     ''**/*.gif'', ''*.webp'', ''**/*.webp'', ''*.ico'', ''**/*.ico'', ''*.avif'', ''**/*.avif'',
     ''*.bmp'', ''**/*.bmp'', ''*.woff'', ''**/*.woff'', ''*.woff2'', ''**/*.woff2'', ''*.ttf'',
     ''**/*.ttf'', ''*.otf'', ''**/*.otf'', ''*.eot'', ''**/*.eot'']"

definition LEGACY_SOURCE_DIR_ALLOW :: "string list" where
  "LEGACY_SOURCE_DIR_ALLOW =
    [''docs/*.md'', ''docs/**/*.md'', ''docs/**/*.mdx'', ''src/*'', ''src/**/*'', ''app/*'',
     ''app/**/*'', ''pages/*'', ''pages/**/*'', ''components/*'', ''components/**/*'', ''lib/*'',
     ''lib/**/*'', ''public/*'', ''public/**/*'', ''styles/*'', ''styles/**/*'', ''css/*'', ''css/**/*'',
     ''js/*'', ''js/**/*'', ''assets/*'', ''assets/**/*'', ''static/*'', ''static/**/*'', ''cmd/*'',
     ''cmd/**/*'', ''internal/*'', ''internal/**/*'', ''pkg/*'', ''pkg/**/*'', ''test/**'',
     ''tests/**/*'', ''tests/**/*.py'', ''__tests__/*'', ''__tests__/**/*'', ''scripts/*.py'',
     ''scripts/**/*.py'', ''Scripts/*'', ''Scripts/**/*'', ''adapters/*.py'', ''adapters/**/*.py'',
     ''schemas/*.py'', ''schemas/**/*.py'', ''runner/*.py'', ''runner/**/*.py'', ''Sources/*'',
     ''Sources/**/*'', ''Resources/*'', ''Resources/**/*'']"

definition LEGACY_COMMIT_DIR_ALLOW :: "string list" where
  "LEGACY_COMMIT_DIR_ALLOW =
    [''api/*'', ''api/**/*'', ''db/*'', ''db/**/*'', ''models/*'', ''models/**/*'', ''services/*'',
     ''services/**/*'', ''serverapp/*'', ''serverapp/**/*'', ''web/*'', ''web/**/*'', ''backend/*'',
     ''backend/**/*'', ''frontend/*'', ''frontend/**/*'', ''scripts/*'', ''scripts/**/*'', ''Scripts/*'',
     ''Scripts/**/*'', ''adapters/*'', ''adapters/**/*'', ''runner/*'', ''runner/**/*'', ''schemas/*'',
     ''schemas/**/*'', ''systemd/*'', ''systemd/**/*'', ''Sources/*'', ''Sources/**/*'', ''Resources/*'',
     ''Resources/**/*'', ''docs/DEV_REPORT_v*.md'']"

definition DENIED_SENSITIVE_PATTERNS :: "string list" where
  "DENIED_SENSITIVE_PATTERNS =
    [''.git/**'', ''.env'', ''.env.*'', ''**/.env'', ''**/.env.*'', ''*.pem'', ''*.key'', ''*.crt'',
     ''*.p12'', ''*.sqlite'', ''*.db'', ''*.log'', ''*.egg-info'', ''**/*.egg-info'', ''*.egg-info/**'',
     ''**/*.egg-info/**'', ''.DS_Store'', ''**/.DS_Store'', ''**/*.pyc'']"

definition DENIED_RUNTIME_PATTERNS :: "string list" where
  "DENIED_RUNTIME_PATTERNS =
    runner_patterns
    [''logs/**'', ''runtime/**'', ''local/**'', ''state.json'', ''review-state.json'', ''settings.json'',
     ''runner-settings.json'', ''executor-session.json'', ''tmp/**'', ''plan-patches/**'',
     ''reports/**'', ''audits/**'', ''pi-session.json'', ''pi-sessions/**'', ''executor-sessions/**'']"

definition DENIED_GENERATED_OR_VENDOR_PATTERNS :: "string list" where
  "DENIED_GENERATED_OR_VENDOR_PATTERNS =
    [''__pycache__/**'', ''.pytest_cache/**'', ''node_modules/**'', ''dist/**'', ''build/**'',
     ''.build'', ''.build/**'', ''**/.build'', ''**/.build/**'', ''coverage/**'', ''venv/**'',
     ''.venv/**'', ''env/**'', ''.opencode/**'', ''.opencode.json'', ''.opencode.local.json'']"

definition COMMIT_BLOCKED_PATTERNS :: "string list" where
  "COMMIT_BLOCKED_PATTERNS =
    [''.git/**'', ''.env'', ''.env.*'', ''**/.env'', ''**/.env.*'', ''*.pem'', ''**/*.pem'', ''*.key'',
     ''**/*.key'', ''*.crt'', ''**/*.crt'', ''*.p12'', ''**/*.p12'', ''**/*secret*'']"

definition COMMIT_EXCLUDED_PATTERNS :: "string list" where
  "COMMIT_EXCLUDED_PATTERNS =
    runner_patterns
    [''runtime/**'', ''logs/**'', ''reports/**'', ''audits/**'', ''local/**'', ''state.json'',
     ''review-state.json'', ''settings.json'', ''runner-settings.json'', ''executor-session.json'',
     ''tmp/**'', ''plan-patches/**'', ''pi-session.json'', ''pi-sessions/**'', ''executor-sessions/**'']
    @ [''node_modules/**'', ''dist/**'', ''build/**'', ''.build'', ''.build/**'', ''**/.build'',
     ''**/.build/**'', ''coverage/**'', ''venv/**'', ''.venv/**'', ''env/**'', ''__pycache__/**'',
     ''.pytest_cache/**'', ''.opencode/**'', ''.opencode.json'', ''.opencode.local.json'', ''.DS_Store'',
     ''**/.DS_Store'', ''*.pyc'', ''**/*.pyc'', ''*.sqlite'', ''**/*.sqlite'', ''*.db'', ''**/*.db'',
     ''*.log'', ''**/*.log'', ''*.egg-info'', ''**/*.egg-info'', ''*.egg-info/**'', ''**/*.egg-info/**'']"

definition DENIED_PATH_PART_NAMES :: "string list" where
  "DENIED_PATH_PART_NAMES =
    [''.git'', ''__pycache__'', ''.pytest_cache'', ''node_modules'', ''venv'', ''.venv'', ''env'',
     ''.opencode'']"

definition EXACT_ALLOWED_ROOT_FILES :: "string list" where
  "EXACT_ALLOWED_ROOT_FILES =
    [''README.md'', ''AGENTS.md'', ''.gitignore'', ''Makefile'', ''Dockerfile'', ''docker-compose.yml'',
     ''docker-compose.yaml'', ''.editorconfig'', ''.eslintrc'', ''.prettierrc'', ''pyproject.toml'',
     ''setup.cfg'', ''setup.py'', ''requirements.txt'', ''package.json'', ''package-lock.json'',
     ''pnpm-lock.yaml'', ''yarn.lock'', ''tsconfig.json'', ''go.mod'', ''go.sum'', ''Cargo.toml'',
     ''Cargo.lock'', ''pom.xml'', ''build.gradle'', ''build.gradle.kts'', ''settings.gradle'',
     ''settings.gradle.kts'', ''gradle.properties'']
    @ runner_patterns
    [''plan.json'', ''todolist.json'', ''decisions.json'', ''memory.md'', ''project-context.md'',
     ''rules.md'']
    @ [''bin/colameta'', ''manifest.json'', ''site.webmanifest'', ''robots.txt'', ''sitemap.xml'',
     ''browserconfig.xml'', ''composer.json'', ''composer.lock'', ''deno.json'', ''deno.lock'',
     ''bun.lockb'', ''bun.lock'']"

definition source_allowed_patterns :: "string list" where
  "source_allowed_patterns =
    PROJECT_CONFIG_FILES @ TEXT_SOURCE_EXTENSIONS @ TEXT_SOURCE_ONLY_EXTENSIONS @
    LEGACY_SOURCE_DIR_ALLOW @ RUNNER_MANAGED_FILES @ COMMON_TEXT_DOC_NAMES @
    GOVERNANCE_EVIDENCE_FILES @ WEB_METADATA_FILES @ TEXT_STATIC_ASSET_EXTENSIONS"

definition commit_allowed_patterns :: "string list" where
  "commit_allowed_patterns =
    PROJECT_CONFIG_FILES @ TEXT_SOURCE_EXTENSIONS @ LEGACY_SOURCE_DIR_ALLOW @ RUNNER_MANAGED_FILES @
    COMMON_TEXT_DOC_NAMES @ WEB_METADATA_FILES @ TEXT_STATIC_ASSET_EXTENSIONS @
    COMMIT_ONLY_BINARY_ASSET_EXTENSIONS @ LEGACY_COMMIT_DIR_ALLOW"

definition denied_source_patterns :: "string list" where
  "denied_source_patterns =
    DENIED_SENSITIVE_PATTERNS @ DENIED_GENERATED_OR_VENDOR_PATTERNS @ DENIED_RUNTIME_PATTERNS"

definition commit_blocked_patterns :: "string list" where
  "commit_blocked_patterns =
    COMMIT_BLOCKED_PATTERNS"

definition commit_excluded_patterns :: "string list" where
  "commit_excluded_patterns =
    COMMIT_EXCLUDED_PATTERNS"

end
