(* ===== verification/PathPolicy.thy ===== *)
theory PathPolicy
  imports PathGlob FilePolicyRules
begin

text \<open>
  \<open>runner/path_policy.py\<close> (\<open>RunnerPathPolicy\<close>), \<open>runner/plan_allowed_files.py\<close> and
  \<open>is_project_runner_path\<close>: which paths a run may write, which may be committed, and which the plan of
  the current version allows.  The JSON files of the plan are parameters (\<open>None\<close> when a file is
  missing or unreadable).
\<close>

section \<open>The path policy\<close>

text \<open>\<open>PurePosixPath(s).parts\<close>: the root of an absolute path, then the components that are neither empty
  nor a dot.\<close>

definition pure_rest :: "string \<Rightarrow> string list" where
  "pure_rest s = filter (\<lambda>p. p \<noteq> [] \<and> p \<noteq> ''.'') (split_on slash s)"

definition pure_root :: "string \<Rightarrow> string list" where
  "pure_root s =
    (if starts_with s ''//'' \<and> \<not> starts_with s ''///'' then [''//'']
     else if starts_with s ''/'' then [''/''] else [])"

definition pure_parts :: "string \<Rightarrow> string list" where
  "pure_parts s = pure_root s @ pure_rest s"

definition pure_str :: "string \<Rightarrow> string" where
  "pure_str s =
    (if pure_root s @ pure_rest s = [] then ''.'' else concat (pure_root s) @ join_slash (pure_rest s))"

definition matches_any :: "string \<Rightarrow> string list \<Rightarrow> bool" where
  "matches_any path patterns = list_ex (\<lambda>pat. glob_match pat path) patterns"

definition is_denied_source_path :: "string \<Rightarrow> bool" where
  "is_denied_source_path rel_path =
    (let normalized = normalize rel_path
     in if normalized = [] then True
        else if list_ex (\<lambda>part. part \<in> set DENIED_PATH_PART_NAMES) (pure_parts normalized) then True
        else matches_any normalized denied_source_patterns)"

definition is_allowed_source_path :: "string \<Rightarrow> bool" where
  "is_allowed_source_path rel_path =
    (let normalized = normalize rel_path
     in if normalized = [] then False
        else if is_denied_source_path normalized then False
        else if normalized \<in> set EXACT_ALLOWED_ROOT_FILES then True
        else matches_any normalized source_allowed_patterns)"

definition is_commit_blocked_path :: "string \<Rightarrow> bool" where
  "is_commit_blocked_path rel_path =
    (let normalized = normalize rel_path
     in if normalized = [] then True
        else matches_any (py_lower normalized) (map py_lower commit_blocked_patterns))"

definition is_commit_excluded_path :: "string \<Rightarrow> bool" where
  "is_commit_excluded_path rel_path =
    (let normalized = normalize rel_path
     in if normalized = [] then True
        else matches_any (py_lower normalized) (map py_lower commit_excluded_patterns))"

definition is_commit_allowed_path :: "string \<Rightarrow> bool" where
  "is_commit_allowed_path rel_path =
    (let normalized = normalize rel_path
     in if normalized = [] then False
        else if is_commit_blocked_path normalized then False
        else if is_commit_excluded_path normalized then False
        else matches_any normalized commit_allowed_patterns)"

definition is_untracked_expandable_path :: "string \<Rightarrow> bool" where
  "is_untracked_expandable_path rel_path = is_commit_allowed_path rel_path"

section \<open>Files of the plan\<close>

function strip_dot_slashes :: "string \<Rightarrow> string" where
  "strip_dot_slashes v = (if starts_with v ''./'' then strip_dot_slashes (drop 2 v) else v)"
  by pat_completeness auto
termination
  by (relation "measure length") (auto simp: starts_with_iff)

declare strip_dot_slashes.simps [simp del]

definition has_dot_part :: "string list \<Rightarrow> bool" where
  "has_dot_part ps = list_ex (\<lambda>p. p = [] \<or> p = ''.'' \<or> p = ''..'') ps"

definition normalize_repo_relative_path :: "string \<Rightarrow> string option" where
  "normalize_repo_relative_path raw_path =
    (let v = strip_dot_slashes (to_slashes (py_strip raw_path))
     in if v = [] then None
        else if pure_root v \<noteq> [] then None
        else if has_dot_part (pure_parts v) then None
        else Some (pure_str v))"

definition rstrip_slash :: "string \<Rightarrow> string" where
  "rstrip_slash s = rev (dropWhile (\<lambda>c. c = slash) (rev s))"

definition normalize_plan_allowed_pattern :: "py \<Rightarrow> string option" where
  "normalize_plan_allowed_pattern v =
    (case v of
       PStr s \<Rightarrow>
         if py_strip s = [] then None
         else
           let pat = strip_dot_slashes (to_slashes (py_strip s))
           in if pat = [] \<or> starts_with pat ''/'' then None
              else let pat2 = (if ends_with pat ''/'' then rstrip_slash pat @ ''/**'' else pat)
                   in if has_dot_part (pure_parts pat2) then None else Some pat2
     | _ \<Rightarrow> None)"

fun patterns_of_versions :: "string \<Rightarrow> py list \<Rightarrow> string list" where
  "patterns_of_versions current [] = []"
| "patterns_of_versions current (PDict spec # specs) =
     (if dget spec ''version'' \<noteq> PStr current then patterns_of_versions current specs
      else (case dget spec ''allowed_files'' of
              PList items \<Rightarrow> filter (\<lambda>p. p \<noteq> []) (List.map_filter normalize_plan_allowed_pattern items)
            | _ \<Rightarrow> []))"
| "patterns_of_versions current (_ # specs) = patterns_of_versions current specs"

definition current_plan_allowed_patterns :: "py option \<Rightarrow> py option \<Rightarrow> string list" where
  "current_plan_allowed_patterns plan_file state_file =
    (case (plan_file, state_file) of
       (Some plan_data, Some (PDict state_data)) \<Rightarrow>
         (case dget state_data ''current_version'' of
            PStr current_version \<Rightarrow>
              if py_strip current_version = [] then []
              else (case plan_data of
                      PDict plan \<Rightarrow>
                        (case dget plan ''versions'' of
                           PList versions \<Rightarrow> patterns_of_versions (py_strip current_version) versions
                         | _ \<Rightarrow> [])
                    | _ \<Rightarrow> [])
          | _ \<Rightarrow> [])
     | _ \<Rightarrow> [])"

definition is_allowed_by_current_plan ::
  "py option \<Rightarrow> py option \<Rightarrow> (string \<Rightarrow> bool) option \<Rightarrow> string \<Rightarrow> bool" where
  "is_allowed_by_current_plan plan_file state_file deny_predicate rel_path =
    (case normalize_repo_relative_path rel_path of
       None \<Rightarrow> False
     | Some normalized \<Rightarrow>
         if (case deny_predicate of None \<Rightarrow> False | Some deny \<Rightarrow> deny normalized) then False
         else list_ex (\<lambda>pat. glob_match pat normalized) (current_plan_allowed_patterns plan_file state_file))"

definition strip_slashes :: "string \<Rightarrow> string" where
  "strip_slashes s = rstrip_slash (dropWhile (\<lambda>c. c = slash) s)"

definition is_project_runner_path :: "string \<Rightarrow> bool" where
  "is_project_runner_path path =
    (let normalized = strip_slashes (to_slashes (py_strip path))
     in normalized = PRIMARY_PROJECT_RUNNER_DIRNAME
        \<or> starts_with normalized (PRIMARY_PROJECT_RUNNER_DIRNAME @ ''/''))"

end
