(* ===== verification/PolicyFacts.thy ===== *)
theory PolicyFacts
  imports PathPolicy
begin

text \<open>
  Facts about the path policy.  The code normalises a path again at every layer; \<open>again_parts\<close> says what
  a repeated normalisation does to its components, so that a component that the policy watches for is
  still there when the last layer looks.
\<close>

section \<open>Repeated normalisation\<close>

definition settled :: "string \<Rightarrow> bool" where
  "settled s \<longleftrightarrow> (s = [] \<or> \<not> is_ws (last s)) \<and> CHR 0x5C \<notin> set s"

lemma not_ws [simp]: "\<not> is_ws slash" "\<not> is_ws (CHR ''.'')"
  by (simp_all add: is_ws_def)

lemma to_slashes_id: "CHR 0x5C \<notin> set s \<Longrightarrow> to_slashes s = s"
  by (auto simp: to_slashes_def intro: map_idI)

lemma to_slashes_clean: "CHR 0x5C \<notin> set (to_slashes s)"
  by (auto simp: to_slashes_def)

lemma rstrip_idle: "s = [] \<or> \<not> is_ws (last s) \<Longrightarrow> rev (dropWhile is_ws (rev s)) = s"
  by (cases s rule: rev_cases) auto

lemma last_dropWhile: "dropWhile P s \<noteq> [] \<Longrightarrow> last (dropWhile P s) = last s"
  by (metis append_self_conv2 last_append takeWhile_dropWhile_id)

lemma py_strip_settled: "settled s \<Longrightarrow> py_strip s = dropWhile is_ws s"
  unfolding py_strip_def by (rule rstrip_idle) (metis settled_def dropWhile.simps(1) last_dropWhile)

lemma last_py_strip: "py_strip s = [] \<or> \<not> is_ws (last (py_strip s))"
  unfolding py_strip_def by (metis hd_dropWhile last_rev rev_is_Nil_conv)

lemma settled_drop2: "settled s \<Longrightarrow> settled (drop 2 s)"
  by (auto simp: settled_def last_drop dest: in_set_dropD)

lemma settled_normalize [simp]: "settled (normalize s)"
proof -
  have "settled (to_slashes (py_strip s))"
    using last_py_strip [of s] to_slashes_clean
    by (auto simp: settled_def to_slashes_def last_map split: if_splits)
  then show ?thesis by (simp add: normalize_def Let_def settled_drop2)
qed

lemma split_dropWhile: "split_on slash s = p # ps \<Longrightarrow> split_on slash (dropWhile is_ws s) = dropWhile is_ws p # ps"
  by (induction s arbitrary: p ps) (auto split: if_splits list.splits)

lemma split_dot_slash: "split_on slash s = p # ps \<Longrightarrow> starts_with s ''./'' \<longleftrightarrow> p = ''.'' \<and> ps \<noteq> []"
proof -
  assume a: "split_on slash s = p # ps"
  then have s: "s = (if ps = [] then p else p @ slash # join_slash ps)"
    using join_split [of s] by (cases ps) (auto simp: join_slash_Cons)
  have "slash \<notin> set p" using a split_no_slash by (metis list.set_intros(1))
  then show ?thesis unfolding s by (cases p; cases "tl p") auto
qed

lemma again_parts:
  assumes "settled s" "split_on slash s = p # ps"
  shows "split_on slash (normalize s) = (if dropWhile is_ws p = ''.'' \<and> ps \<noteq> [] then ps else dropWhile is_ws p # ps)"
proof -
  let ?t = "dropWhile is_ws s"
  have t: "to_slashes (py_strip s) = ?t"
    using assms(1) by (simp add: py_strip_settled) (auto simp: settled_def intro!: to_slashes_id dest: set_dropWhileD)
  have sp: "split_on slash ?t = dropWhile is_ws p # ps" by (rule split_dropWhile [OF assms(2)])
  show ?thesis
  proof (cases "dropWhile is_ws p = ''.'' \<and> ps \<noteq> []")
    case True
    then have "?t = CHR ''.'' # slash # join_slash ps"
      using join_split [of ?t] unfolding sp by (cases ps) auto
    moreover have "\<forall>q\<in>set ps. slash \<notin> set q" using assms(2) split_no_slash by (metis list.set_intros(2))
    ultimately show ?thesis using True by (simp add: normalize_def t split_join)
  next
    case False
    then have "\<not> starts_with ?t ''./''" using split_dot_slash [OF sp] by simp
    then show ?thesis using False by (simp add: normalize_def t sp)
  qed
qed

section \<open>Watched components\<close>

text \<open>A component that does not begin with white space and is not a dot survives.\<close>

lemma part_again:
  assumes "settled s" "c \<in> set (split_on slash s)" "c \<noteq> []" "\<not> is_ws (hd c)" "c \<noteq> ''.''"
  shows "c \<in> set (split_on slash (normalize s))"
proof -
  obtain p ps where sp: "split_on slash s = p # ps" by (cases "split_on slash s") auto
  have "dropWhile is_ws c = c" using assms(3,4) by (cases c) auto
  then show ?thesis using assms(2,5) unfolding again_parts [OF assms(1) sp] sp by auto
qed

lemma last_again:
  assumes "settled s"
  shows "last (split_on slash (normalize s)) = last (split_on slash s)
    \<or> last (split_on slash (normalize s)) = dropWhile is_ws (last (split_on slash s))"
proof -
  obtain p ps where sp: "split_on slash s = p # ps" by (cases "split_on slash s") auto
  show ?thesis unfolding again_parts [OF assms sp] sp by auto
qed

lemma denied_name_shape: "c \<in> set DENIED_PATH_PART_NAMES \<Longrightarrow> c \<noteq> [] \<and> \<not> is_ws (hd c) \<and> c \<noteq> ''.''"
  by (auto simp: DENIED_PATH_PART_NAMES_def is_ws_def)

lemma allowed_source_parts:
  assumes "is_allowed_source_path path" "c \<in> set (split_on slash (normalize path))"
  shows "c \<notin> set DENIED_PATH_PART_NAMES"
proof
  assume d: "c \<in> set DENIED_PATH_PART_NAMES"
  note shape = denied_name_shape [OF d]
  have "c \<in> set (split_on slash (normalize (normalize path)))"
    using part_again [OF settled_normalize assms(2)] shape by blast
  then have "c \<in> set (pure_parts (normalize (normalize path)))"
    using shape by (simp add: pure_parts_def pure_rest_def)
  then have "is_denied_source_path (normalize path)" using d by (auto simp: is_denied_source_path_def Let_def list_ex_iff)
  then show False using assms(1) by (simp add: is_allowed_source_path_def Let_def split: if_splits)
qed

section \<open>Secrets\<close>

lemma contains_str_iff: "contains_str s p \<longleftrightarrow> (\<exists>a b. s = a @ p @ b)"
proof (induction s)
  case Nil
  then show ?case by (cases p) auto
next
  case (Cons c s)
  have "contains_str (c # s) p \<longleftrightarrow> starts_with (c # s) p \<or> contains_str s p" by (cases p; cases s) auto
  then show ?case unfolding Cons.IH starts_with_iff by (metis Cons_eq_append_conv append_Cons append_Nil)
qed

lemma ends_with_iff: "ends_with s p \<longleftrightarrow> (\<exists>a. s = a @ p)"
  unfolding ends_with_def starts_with_iff by (metis rev_append rev_rev_ident)

definition secret_name :: "string \<Rightarrow> bool" where
  "secret_name c \<longleftrightarrow> c = ''.env'' \<or> starts_with c ''.env.'' \<or> ends_with c ''.pem'' \<or> ends_with c ''.key''
     \<or> ends_with c ''.crt'' \<or> ends_with c ''.p12'' \<or> contains_str c ''secret''"

lemma dropWhile_keeps:
  assumes "p \<noteq> []" "\<not> is_ws (hd p)"
  shows "dropWhile is_ws (a @ p @ b) = dropWhile is_ws a @ p @ b"
  using assms by (induction a) (auto simp: neq_Nil_conv)

lemma secret_name_again: "secret_name c \<Longrightarrow> secret_name (dropWhile is_ws c)"
proof -
  have e: "ends_with (dropWhile is_ws c) p" if "ends_with c p" "p \<noteq> []" "\<not> is_ws (hd p)" for p
    using that dropWhile_keeps [of p _ "[]"] unfolding ends_with_iff by auto
  have i: "contains_str (dropWhile is_ws c) p" if "contains_str c p" "p \<noteq> []" "\<not> is_ws (hd p)" for p
    using that dropWhile_keeps [of p] unfolding contains_str_iff by blast
  have s: "starts_with c ''.env.'' \<Longrightarrow> dropWhile is_ws c = c" by (auto simp: starts_with_iff)
  have "\<not> is_ws (CHR ''s'')" by (simp add: is_ws_def)
  then show "secret_name c \<Longrightarrow> secret_name (dropWhile is_ws c)"
    using s e [of "''.pem''"] e [of "''.key''"] e [of "''.crt''"] e [of "''.p12''"] i [of "''secret''"]
    unfolding secret_name_def by auto
qed

lemma glob_any_dir:
  assumes "normalize pat = ''**/'' @ q" "slash \<notin> set q" "q \<noteq> ''**''" "normalize path \<noteq> []"
    and "fnmatch (last (split_on slash (normalize path))) q"
  shows "glob_match pat path"
proof -
  have "split_on slash q = [q]" using assms(2) by (induction q) auto
  then have pp: "split_on slash (normalize pat) = [''**'', q]" by (simp add: assms(1))
  let ?xs = "split_on slash (normalize path)"
  have "glob_spec [q] [last ?xs]" using assms(3,5) by (auto intro: glob_spec.intros)
  then have "glob_spec [''**'', q] (butlast ?xs @ [last ?xs])" by (rule Glob_Skip)
  then show ?thesis using assms(1,4) pp by (simp add: glob_match_def Let_def match_parts_spec)
qed

definition upper_code :: "nat \<Rightarrow> bool" where
  "upper_code n \<longleftrightarrow> (65 \<le> n \<and> n \<le> 90) \<or> (192 \<le> n \<and> n \<le> 222 \<and> n \<noteq> 215)"

lemma of_char_lower: "(of_char (py_lower_char c) :: nat) = (if upper_code (of_char c) then of_char c + 32 else of_char c)"
  by (auto simp: py_lower_char_def upper_code_def Let_def)

lemma upper_code_lower: "upper_code n \<Longrightarrow> \<not> upper_code (n + 32)"
  by (auto simp: upper_code_def)

lemma char_eq_nat: "c = d \<longleftrightarrow> (of_char c :: nat) = of_char d"
  by (simp add: of_char_eq_iff)

lemma py_lower_fixed:
  assumes "(of_char d :: nat) < 65 \<or> of_char d = (92 :: nat)"
  shows "py_lower_char c = d \<longleftrightarrow> c = d"
  using assms unfolding char_eq_nat of_char_lower upper_code_def by (auto split: if_splits)

lemma py_lower_ws [simp]: "is_ws (py_lower_char c) = is_ws c"
proof (cases "upper_code (of_char c)")
  case True
  then show ?thesis unfolding is_ws_def of_char_lower Let_def by (auto simp: upper_code_def)
qed (simp add: is_ws_def of_char_lower Let_def)

lemma py_lower_char_twice [simp]: "py_lower_char (py_lower_char c) = py_lower_char c"
  unfolding char_eq_nat of_char_lower using upper_code_lower by auto

lemma py_lower_twice [simp]: "py_lower (py_lower s) = py_lower s"
  by (simp add: py_lower_def)

lemma py_lower_path [simp]:
  "py_lower_char c = slash \<longleftrightarrow> c = slash" "py_lower_char c = CHR ''.'' \<longleftrightarrow> c = CHR ''.''"
  "py_lower_char c = CHR 0x5C \<longleftrightarrow> c = CHR 0x5C"
  by (rule py_lower_fixed, simp)+

lemma py_lower_self [simp]: "py_lower_char slash = slash" "py_lower_char (CHR 0x5C) = CHR 0x5C"
  by (rule py_lower_path [THEN iffD2], rule refl)+

lemma py_lower_path_sym [simp]: "slash = py_lower_char c \<longleftrightarrow> c = slash"
  unfolding eq_commute [of slash] by (rule py_lower_path)

lemma py_lower_back_sym [simp]: "CHR 0x5C = py_lower_char c \<longleftrightarrow> c = CHR 0x5C"
  unfolding eq_commute [of "CHR 0x5C"] by (rule py_lower_path)

lemma split_lower: "split_on slash (py_lower s) = map py_lower (split_on slash s)"
  by (induction s) (auto simp: py_lower_def split: list.splits)

lemma settled_lower: "settled s \<Longrightarrow> settled (py_lower s)"
  by (auto simp: settled_def py_lower_def last_map)

lemma dropWhile_lower: "dropWhile is_ws (py_lower s) = py_lower (dropWhile is_ws s)"
  by (induction s) (auto simp: py_lower_def)

lemma normalize_lower: "normalize (py_lower s) = py_lower (normalize s)"
proof -
  have st: "py_strip (py_lower s) = py_lower (py_strip s)" for s
    unfolding py_strip_def dropWhile_lower by (simp add: py_lower_def rev_map dropWhile_lower [unfolded py_lower_def])
  have sl: "to_slashes (py_lower s) = py_lower (to_slashes s)" for s
    by (auto simp: to_slashes_def py_lower_def)
  have "starts_with (py_lower s) ''./'' = starts_with s ''./''" for s
    by (cases s; cases "tl s") (auto simp: py_lower_def)
  then show ?thesis by (simp add: normalize_def st sl Let_def) (simp add: py_lower_def drop_map)
qed

definition secret_path :: "string \<Rightarrow> bool" where
  "secret_path s \<longleftrightarrow> secret_name (last (split_on slash (py_lower s)))"

lemma secret_path_again: "settled s \<Longrightarrow> secret_path s \<Longrightarrow> secret_path (normalize s)"
  using last_again [of s] secret_name_again
  by (auto simp: secret_path_def split_lower last_map dropWhile_lower [symmetric])

lemma secret_path_lower [simp]: "secret_path (py_lower s) = secret_path s"
  by (simp add: secret_path_def)

lemma secret_path_nonempty: "secret_path s \<Longrightarrow> s \<noteq> []"
  by (auto simp: secret_path_def secret_name_def py_lower_def ends_with_def)

text \<open>The patterns that block secrets reach every directory.\<close>

lemma secret_blocked:
  assumes "settled s" "secret_path s" "py_lower s = s"
  shows "matches_any s (map py_lower commit_blocked_patterns)"
proof -
  have lo: "py_lower (normalize s) = normalize s"
    using normalize_lower [of s] assms(3) by simp
  define x where "x = last (split_on slash (normalize s))"
  have n: "secret_path (normalize s)" by (rule secret_path_again [OF assms(1,2)])
  then have x: "secret_name x" unfolding secret_path_def lo x_def .
  have ne: "normalize s \<noteq> []" by (rule secret_path_nonempty [OF n])
  have g: "glob_match pat s" if "normalize pat = ''**/'' @ q" "slash \<notin> set q" "q \<noteq> ''**''" "fnmatch x q" for pat q
    using glob_any_dir [OF that(1-3) ne] that(4) unfolding x_def .
  have sub: "{''**/.env'', ''**/.env.*'', ''**/*.pem'', ''**/*.key'', ''**/*.crt'', ''**/*.p12'', ''**/*secret*''}
      \<subseteq> set (map py_lower commit_blocked_patterns)"
    by (simp add: commit_blocked_patterns_def COMMIT_BLOCKED_PATTERNS_def py_lower_def py_lower_char_def)
  have x7: "fnmatch x ''.env'' \<or> fnmatch x ''.env.*'' \<or> fnmatch x ''*.pem'' \<or> fnmatch x ''*.key'' \<or> fnmatch x ''*.crt''
      \<or> fnmatch x ''*.p12'' \<or> fnmatch x ''*secret*''"
    using x unfolding secret_name_def
    using fnmatch_prefix [of "''.env.''" x] fnmatch_suffix [of "''.pem''" x] fnmatch_suffix [of "''.key''" x]
      fnmatch_suffix [of "''.crt''" x] fnmatch_suffix [of "''.p12''" x] fnmatch_infix [of "''secret''" x]
    by (simp add: plain_chars_def starts_with_iff ends_with_iff contains_str_iff)
  note dirs = normalize_def py_strip_def to_slashes_def is_ws_def
  have gs: "fnmatch x ''.env'' \<Longrightarrow> glob_match ''**/.env'' s" "fnmatch x ''.env.*'' \<Longrightarrow> glob_match ''**/.env.*'' s"
    "fnmatch x ''*.pem'' \<Longrightarrow> glob_match ''**/*.pem'' s" "fnmatch x ''*.key'' \<Longrightarrow> glob_match ''**/*.key'' s"
    "fnmatch x ''*.crt'' \<Longrightarrow> glob_match ''**/*.crt'' s" "fnmatch x ''*.p12'' \<Longrightarrow> glob_match ''**/*.p12'' s"
    "fnmatch x ''*secret*'' \<Longrightarrow> glob_match ''**/*secret*'' s"
    by (rule g, (simp add: dirs)+)+
  have "glob_match ''**/.env'' s \<or> glob_match ''**/.env.*'' s \<or> glob_match ''**/*.pem'' s \<or> glob_match ''**/*.key'' s
      \<or> glob_match ''**/*.crt'' s \<or> glob_match ''**/*.p12'' s \<or> glob_match ''**/*secret*'' s"
    using x7 gs by blast
  then show ?thesis using sub unfolding matches_any_def list_ex_iff by blast
qed

lemma secret_never_committed:
  assumes "secret_path (normalize path)"
  shows "is_commit_blocked_path path \<and> \<not> is_commit_allowed_path path"
proof -
  have b: "is_commit_blocked_path q" if "secret_path (normalize q)" for q
    using that secret_blocked [of "py_lower (normalize q)"] settled_lower [OF settled_normalize [of q]]
    by (simp add: is_commit_blocked_path_def Let_def)
  have "is_commit_blocked_path (normalize path)"
    by (rule b) (rule secret_path_again [OF settled_normalize assms])
  then show ?thesis using b [OF assms] by (simp add: is_commit_allowed_path_def Let_def)
qed

section \<open>Paths of the plan stay inside the repository\<close>

definition inside_repo :: "string \<Rightarrow> bool" where
  "inside_repo r \<longleftrightarrow> (\<forall>c\<in>set (split_on slash r). c \<noteq> [] \<and> c \<noteq> ''.'' \<and> c \<noteq> ''..'')"

lemma repo_path_inside:
  assumes "normalize_repo_relative_path raw = Some r"
  shows "r = ''.'' \<or> inside_repo r"
proof -
  from assms obtain v where v: "pure_root v = []" "\<not> has_dot_part (pure_parts v)" "r = pure_str v"
    by (auto simp: normalize_repo_relative_path_def Let_def split: if_splits)
  show ?thesis
  proof (cases "pure_rest v = []")
    case True
    then show ?thesis using v by (simp add: pure_str_def)
  next
    case False
    have "\<forall>p\<in>set (pure_rest v). slash \<notin> set p" using split_no_slash by (auto simp: pure_rest_def)
    then have "split_on slash r = pure_rest v" using False v by (simp add: pure_str_def split_join)
    moreover have "\<forall>c\<in>set (pure_rest v). c \<noteq> [] \<and> c \<noteq> ''.''" by (simp add: pure_rest_def)
    moreover have "\<forall>c\<in>set (pure_rest v). c \<noteq> ''..''"
      using v(2) by (auto simp: pure_parts_def has_dot_part_def list_ex_iff)
    ultimately show ?thesis by (simp add: inside_repo_def)
  qed
qed

lemma repo_path_dot: "normalize_repo_relative_path ''.'' = Some ''.''"
  by (simp add: normalize_repo_relative_path_def strip_dot_slashes.simps py_strip_def is_ws_def to_slashes_def pure_root_def
      pure_parts_def pure_rest_def has_dot_part_def pure_str_def)

lemma plan_allows:
  assumes "is_allowed_by_current_plan plan_file state_file deny path"
  shows "\<exists>r pat. normalize_repo_relative_path path = Some r \<and> (r = ''.'' \<or> inside_repo r)
    \<and> (case deny of None \<Rightarrow> True | Some d \<Rightarrow> \<not> d r)
    \<and> pat \<in> set (current_plan_allowed_patterns plan_file state_file) \<and> glob_match pat r"
proof -
  from assms obtain r where r: "normalize_repo_relative_path path = Some r"
    by (auto simp: is_allowed_by_current_plan_def split: option.splits)
  from assms show ?thesis unfolding is_allowed_by_current_plan_def
    using repo_path_inside [OF r] by (auto simp: r list_ex_iff split: if_splits option.splits)
qed

section \<open>Repeated dot prefixes\<close>

text \<open>Each layer removes one \<open>./\<close>; the deny check looks at the path after three removals, so a path with
  four of them reaches the allow patterns although the same file without them is denied.\<close>

section \<open>Repeated dot prefixes\<close>

text \<open>Each layer removes one \<open>./\<close>; the deny check looks at the path after three removals, so a path with
  four of them reaches the allow patterns although the same file without them is denied.\<close>

lemma dot_prefixes_allowed: "is_allowed_source_path ''././././.colameta/logs/x.py''"
  by code_simp

lemma dot_prefixes_denied: "\<not> is_allowed_source_path ''.colameta/logs/x.py''"
  by code_simp

end
