(* ===== verification/FileTransaction.thy ===== *)
theory FileTransaction
  imports Prelude
begin

text \<open>
  \<open>runner/file_transaction.py\<close>: a batch of file writes and deletions that is applied in order and rolled
  back when one of them fails.  The file system is a map from resolved paths to nodes; the faults of the
  operating system, and where in a write they strike, are a parameter.  \<open>read_text\<close> translates line ends, so the preimage of
  a file is its text with every CR LF and CR read as LF.
\<close>

section \<open>The file system\<close>

type_synonym path = "string list"

text \<open>A file has its text, unless it is not UTF-8, and its mode.\<close>

datatype node = File "string option" nat | Directory

type_synonym fs = "path \<Rightarrow> node option"

datatype fault = No_Fault | Before_Directories | Before_Replace | After_Replace

definition is_prefix :: "path \<Rightarrow> path \<Rightarrow> bool" where
  "is_prefix root p = (take (length root) p = root)"

text \<open>\<open>mkdir(parents=True, exist_ok=True)\<close>: fails when a file is in the way.\<close>

definition make_dirs :: "path \<Rightarrow> fs \<Rightarrow> fs option" where
  "make_dirs d fs =
    (if list_ex (\<lambda>n. case fs (take n d) of Some (File _ _) \<Rightarrow> True | _ \<Rightarrow> False) [0..<Suc (length d)] then None
     else Some (\<lambda>q. if fs q = None \<and> is_prefix q d then Some Directory else fs q))"

text \<open>\<open>_atomic_write_text\<close>: the new file appears complete or not at all.\<close>

definition atomic_write :: "fault \<Rightarrow> path \<Rightarrow> string \<Rightarrow> fs \<Rightarrow> fs \<times> bool" where
  "atomic_write flt p content fs =
    (if flt = Before_Directories then (fs, False)
     else case make_dirs (butlast p) fs of
       None \<Rightarrow> (fs, False)
     | Some fs1 \<Rightarrow>
         (case fs1 p of
            Some Directory \<Rightarrow> (fs1, False)
          | Some (File _ mode) \<Rightarrow> if flt = Before_Replace then (fs1, False) else (fs1(p \<mapsto> File (Some content) mode), True)
          | None \<Rightarrow> if flt = Before_Replace then (fs1, False) else (fs1(p \<mapsto> File (Some content) 384), True)))"

text \<open>Reading a text file: universal newlines.\<close>

fun universal_newlines :: "string \<Rightarrow> string" where
  "universal_newlines [] = []"
| "universal_newlines [c] = [if c = CHR 0x0D then CHR 0x0A else c]"
| "universal_newlines (c # d # s) =
     (if c = CHR 0x0D then (if d = CHR 0x0A then CHR 0x0A # universal_newlines s
                            else CHR 0x0A # universal_newlines (d # s))
      else c # universal_newlines (d # s))"

section \<open>The transaction\<close>

datatype operation_kind = Write_Text string | Delete_File

record ft_operation =
  op_kind :: operation_kind
  op_rel_path :: string
  op_abs_path :: path

datatype preimage = Absent | Present string nat

text \<open>\<open>_read_preimage\<close>: \<open>None\<close> when it raises (a directory, or a file that is not UTF-8).\<close>

definition read_preimage :: "fs \<Rightarrow> path \<Rightarrow> preimage option" where
  "read_preimage fs p =
    (case fs p of
       None \<Rightarrow> Some Absent
     | Some Directory \<Rightarrow> None
     | Some (File None mode) \<Rightarrow> None
     | Some (File (Some content) mode) \<Rightarrow> Some (Present (universal_newlines content) mode))"

definition unlink :: "fault \<Rightarrow> path \<Rightarrow> fs \<Rightarrow> fs \<times> bool" where
  "unlink flt p fs =
    (case fs p of
       Some (File _ _) \<Rightarrow> if flt = No_Fault \<or> flt = After_Replace then (fs(p := None), True) else (fs, False)
     | Some Directory \<Rightarrow> (fs, False)
     | None \<Rightarrow> (fs, True))"

definition apply_operation :: "fault \<Rightarrow> ft_operation \<Rightarrow> fs \<Rightarrow> fs \<times> bool" where
  "apply_operation flt oper fs =
    (case op_kind oper of
       Write_Text content \<Rightarrow> atomic_write flt (op_abs_path oper) content fs
     | Delete_File \<Rightarrow> unlink flt (op_abs_path oper) fs)"

type_synonym preimages = "(path \<times> preimage) list"

text \<open>The loop of \<open>commit\<close>: the file system, the preimages, the applied operations in reverse order, and
  whether every operation was applied.\<close>

fun apply_all :: "path \<Rightarrow> (nat \<Rightarrow> fault) \<Rightarrow> nat \<Rightarrow> ft_operation list \<Rightarrow> fs \<Rightarrow> preimages \<Rightarrow> ft_operation list
    \<Rightarrow> fs \<times> preimages \<times> ft_operation list \<times> bool" where
  "apply_all root flt k [] fs pre acc = (fs, pre, acc, True)"
| "apply_all root flt k (oper # opers) fs pre acc =
     (if \<not> is_prefix root (op_abs_path oper) then (fs, pre, acc, False)
      else case read_preimage fs (op_abs_path oper) of
        None \<Rightarrow> (fs, pre, acc, False)
      | Some img \<Rightarrow>
          (let pre1 = (if map_of pre (op_abs_path oper) = None then (op_abs_path oper, img) # pre else pre);
               (fs1, ok) = apply_operation (flt k) oper fs
           in if \<not> ok then (fs1, pre1, acc, False)
              else apply_all root flt (Suc k) opers fs1 pre1 (oper # acc)))"

text \<open>\<open>_rollback\<close>, over the applied operations from the last to the first.\<close>

definition restore :: "fault \<Rightarrow> path \<Rightarrow> preimage \<Rightarrow> fs \<Rightarrow> fs \<times> bool" where
  "restore flt p img fs =
    (case img of
       Present content mode \<Rightarrow>
         (let (fs1, ok) = atomic_write flt p content fs
          in if ok \<and> flt \<noteq> After_Replace then (fs1(p \<mapsto> File (Some content) mode), True) else (fs1, False))
     | Absent \<Rightarrow> unlink flt p fs)"

fun rollback :: "(nat \<Rightarrow> fault) \<Rightarrow> nat \<Rightarrow> preimages \<Rightarrow> ft_operation list \<Rightarrow> fs \<Rightarrow> fs \<times> bool" where
  "rollback flt k pre [] fs = (fs, True)"
| "rollback flt k pre (oper # opers) fs =
     (let img = (case map_of pre (op_abs_path oper) of Some i \<Rightarrow> i | None \<Rightarrow> Absent);
          (fs1, ok) = restore (flt k) (op_abs_path oper) img fs
      in if ok then rollback flt (Suc k) pre opers fs1 else (fs1, False))"

datatype ft_status = Committed | Rolled_Back | Rollback_Failed

record receipt =
  rc_status :: ft_status
  rc_operation_count :: nat
  rc_applied_count :: nat
  rc_paths :: "string list"
  rc_error_code :: string

text \<open>\<open>commit\<close>: a receipt with an error code is the one the exception carries.  The transaction id (a digest of
  the operations) and the label are left out.\<close>

definition commit ::
  "path \<Rightarrow> (nat \<Rightarrow> fault) \<Rightarrow> (nat \<Rightarrow> fault) \<Rightarrow> ft_operation list \<Rightarrow> fs \<Rightarrow> receipt \<times> fs" where
  "commit root flt back opers fs =
    (let (fs1, pre, acc, ok) = apply_all root flt 0 opers fs [] [] in
     if ok then (\<lparr>rc_status = Committed, rc_operation_count = length opers, rc_applied_count = length acc,
                 rc_paths = map op_rel_path opers, rc_error_code = []\<rparr>, fs1)
     else let (fs2, restored) = rollback back 0 pre acc fs1 in
          (\<lparr>rc_status = (if restored then Rolled_Back else Rollback_Failed), rc_operation_count = length opers,
            rc_applied_count = length acc, rc_paths = map op_rel_path opers,
            rc_error_code = ''FILE_TRANSACTION_APPLY_FAILED''\<rparr>, fs2))"

section \<open>Files and their changes\<close>

text \<open>What is compared: the file at a path; directories may be left behind.\<close>

definition file_at :: "fs \<Rightarrow> path \<Rightarrow> (string option \<times> nat) option" where
  "file_at fs p = (case fs p of Some (File c m) \<Rightarrow> Some (c, m) | _ \<Rightarrow> None)"

lemma file_at_upd [simp]: "file_at (fs(p \<mapsto> File c m)) q = (if q = p then Some (c, m) else file_at fs q)"
  "file_at (fs(p := None)) q = (if q = p then None else file_at fs q)"
  by (auto simp: file_at_def)

lemma make_dirs_files:
  assumes "make_dirs d fs = Some fs1"
  shows "file_at fs1 = file_at fs" "fs q = Some n \<Longrightarrow> fs1 q = Some n"
proof -
  from assms have fs1: "fs1 = (\<lambda>q. if fs q = None \<and> is_prefix q d then Some Directory else fs q)"
    by (simp add: make_dirs_def split: if_splits)
  then show "file_at fs1 = file_at fs" by (auto simp: file_at_def split: option.splits node.splits)
  show "fs q = Some n \<Longrightarrow> fs1 q = Some n" by (simp add: fs1)
qed

text \<open>Outside the target nothing but new directories on the way to it; directories stay.\<close>

definition only_target :: "path \<Rightarrow> fs \<Rightarrow> fs \<Rightarrow> bool" where
  "only_target p fs fs1 \<longleftrightarrow> (\<forall>q. q \<noteq> p \<longrightarrow> file_at fs1 q = file_at fs q)
     \<and> (\<forall>q. fs q = Some Directory \<longrightarrow> fs1 q = Some Directory)"

lemma atomic_write_effect:
  assumes "atomic_write flt p content fs = (fs1, ok)"
  shows "only_target p fs fs1 \<and> (if ok then fs p \<noteq> Some Directory \<and> (\<exists>mode. file_at fs1 p = Some (Some content, mode) \<and>
      (case file_at fs p of Some (_, m) \<Rightarrow> mode = m | None \<Rightarrow> mode = 384)) else file_at fs1 p = file_at fs p)"
proof (cases "flt = Before_Directories \<or> make_dirs (butlast p) fs = None")
  case True
  with assms show ?thesis by (auto simp: atomic_write_def only_target_def split: if_splits)
next
  case False
  then obtain fs0 where m0: "make_dirs (butlast p) fs = Some fs0" and "flt \<noteq> Before_Directories" by auto
  note w = assms [unfolded atomic_write_def, simplified m0 \<open>flt \<noteq> Before_Directories\<close>, simplified]
  have m: "file_at fs0 q = file_at fs q" "fs q = Some Directory \<Longrightarrow> fs0 q = Some Directory" for q
    using make_dirs_files [OF m0] by simp_all
  consider "fs0 p = Some Directory" | c n where "fs0 p = Some (File c n)" | "fs0 p = None"
    by (metis node.exhaust not_None_eq)
  then show ?thesis
  proof cases
    case 1
    with w m show ?thesis by (auto simp: only_target_def)
  next
    case 2
    then have "file_at fs p = Some (c, n)" "fs p \<noteq> Some Directory"
      using m(1) [of p] m(2) [of p] by (auto simp: file_at_def)
    with w 2 m show ?thesis by (auto simp: only_target_def split: if_splits)
  next
    case 3
    then have "file_at fs p = None" "fs p \<noteq> Some Directory"
      using m(1) [of p] m(2) [of p] by (auto simp: file_at_def)
    with w 3 m show ?thesis by (auto simp: only_target_def split: if_splits)
  qed
qed

lemma unlink_effect:
  assumes "unlink flt p fs = (fs1, ok)"
  shows "only_target p fs fs1 \<and> (if ok then file_at fs1 p = None else fs1 = fs)"
  using assms by (auto simp: unlink_def only_target_def file_at_def split: option.splits node.splits if_splits)

lemma restore_effect:
  assumes "restore flt p img fs = (fs1, ok)"
  shows "only_target p fs fs1 \<and> (ok \<longrightarrow> file_at fs1 p = (case img of Absent \<Rightarrow> None | Present c m \<Rightarrow> Some (Some c, m)))"
proof (cases img)
  case Absent
  then have "unlink flt p fs = (fs1, ok)" using assms by (simp add: restore_def)
  from unlink_effect [OF this] show ?thesis by (simp add: Absent)
next
  case (Present c m)
  obtain fs0 b where w: "atomic_write flt p c fs = (fs0, b)" by fastforce
  from assms Present w atomic_write_effect [OF w] show ?thesis
    by (auto simp: restore_def only_target_def split: if_splits)
qed

lemma apply_operation_effect:
  assumes "apply_operation flt oper fs = (fs1, ok)"
  shows "only_target (op_abs_path oper) fs fs1 \<and> (\<not> ok \<longrightarrow> file_at fs1 (op_abs_path oper) = file_at fs (op_abs_path oper))"
proof (cases "op_kind oper")
  case (Write_Text c)
  with assms have "atomic_write flt (op_abs_path oper) c fs = (fs1, ok)" by (simp add: apply_operation_def)
  from atomic_write_effect [OF this] show ?thesis by (auto simp: only_target_def)
next
  case Delete_File
  with assms have "unlink flt (op_abs_path oper) fs = (fs1, ok)" by (simp add: apply_operation_def)
  from unlink_effect [OF this] show ?thesis by auto
qed

section \<open>All or nothing\<close>

text \<open>What the loop keeps: the preimage of every path it reached is that of the start, and every path not
  among the applied operations is as at the start.\<close>

definition loop_inv :: "path \<Rightarrow> fs \<Rightarrow> fs \<Rightarrow> preimages \<Rightarrow> ft_operation list \<Rightarrow> bool" where
  "loop_inv root fs0 fs pre acc \<longleftrightarrow>
     (\<forall>q img. map_of pre q = Some img \<longrightarrow> read_preimage fs0 q = Some img)
   \<and> (\<forall>oper\<in>set acc. map_of pre (op_abs_path oper) \<noteq> None \<and> is_prefix root (op_abs_path oper))
   \<and> (\<forall>q. q \<notin> op_abs_path ` set acc \<longrightarrow> file_at fs q = file_at fs0 q)
   \<and> (\<forall>q. fs0 q = Some Directory \<longrightarrow> fs q = Some Directory)"

lemma read_preimage_cong:
  assumes "file_at fs q = file_at fs0 q" "read_preimage fs q = Some img" "fs0 q = Some Directory \<Longrightarrow> fs q = Some Directory"
  shows "read_preimage fs0 q = Some img"
  using assms by (auto simp: read_preimage_def file_at_def split: option.splits node.splits if_splits)

lemma loop_step:
  assumes inv: "loop_inv root fs0 fs pre acc" and root: "is_prefix root (op_abs_path oper)"
    and read: "read_preimage fs (op_abs_path oper) = Some img"
    and pre1: "pre1 = (if map_of pre (op_abs_path oper) = None then (op_abs_path oper, img) # pre else pre)"
    and app: "apply_operation flt oper fs = (fs1, ok)"
    and fresh: "map_of pre (op_abs_path oper) = None \<Longrightarrow> op_abs_path oper \<notin> op_abs_path ` set acc"
  shows "loop_inv root fs0 fs1 pre1 (if ok then oper # acc else acc)"
proof -
  note eff = apply_operation_effect [OF app]
  have "read_preimage fs0 (op_abs_path oper) = Some img" if "map_of pre (op_abs_path oper) = None"
    using read_preimage_cong [OF _ read] inv fresh [OF that] by (simp add: loop_inv_def)
  moreover have "file_at fs1 q = file_at fs q" if "\<not> ok \<or> q \<noteq> op_abs_path oper" for q
    using eff that by (cases "q = op_abs_path oper") (auto simp: only_target_def)
  ultimately show ?thesis
    using inv root eff unfolding loop_inv_def pre1 only_target_def by (auto split: if_splits)
qed

lemma apply_all_inv:
  assumes "apply_all root flt k opers fs pre acc = (fs1, pre1, acc1, ok)" "loop_inv root fs0 fs pre acc"
    and "\<forall>q. map_of pre q = None \<longrightarrow> q \<notin> op_abs_path ` set acc"
  shows "loop_inv root fs0 fs1 pre1 acc1"
  using assms
proof (induction opers arbitrary: k fs pre acc)
  case (Cons oper opers)
  show ?case
  proof (cases "is_prefix root (op_abs_path oper) \<and> read_preimage fs (op_abs_path oper) \<noteq> None")
    case False
    with Cons.prems show ?thesis by (auto split: option.splits)
  next
    case True
    then obtain img where img: "read_preimage fs (op_abs_path oper) = Some img" by auto
    define pre2 where "pre2 = (if map_of pre (op_abs_path oper) = None then (op_abs_path oper, img) # pre else pre)"
    obtain fs2 ok2 where ap: "apply_operation (flt k) oper fs = (fs2, ok2)" by fastforce
    have step: "loop_inv root fs0 fs2 pre2 (if ok2 then oper # acc else acc)"
      by (rule loop_step [OF Cons.prems(2) _ img pre2_def ap]) (use True Cons.prems(3) in auto)
    have fresh: "\<forall>q. map_of pre2 q = None \<longrightarrow> q \<notin> op_abs_path ` set (oper # acc)"
      using Cons.prems(3) by (auto simp: pre2_def)
    show ?thesis
    proof (cases ok2)
      case False
      with Cons.prems(1) True img ap step show ?thesis by (simp add: pre2_def [symmetric] Let_def)
    next
      case ok: True
      then have "apply_all root flt (Suc k) opers fs2 pre2 (oper # acc) = (fs1, pre1, acc1, ok)"
        using Cons.prems(1) True img ap by (simp add: pre2_def [symmetric] Let_def)
      from Cons.IH [OF this _ fresh] step ok show ?thesis by simp
    qed
  qed
qed simp

definition image_file :: "preimage \<Rightarrow> (string option \<times> nat) option" where
  "image_file img = (case img of Absent \<Rightarrow> None | Present c m \<Rightarrow> Some (Some c, m))"

lemma rollback_effect:
  assumes "rollback back k pre acc fs = (fs1, True)" "\<forall>oper\<in>set acc. map_of pre (op_abs_path oper) \<noteq> None"
  shows "file_at fs1 q = (if q \<in> op_abs_path ` set acc then image_file (the (map_of pre q)) else file_at fs q)"
  using assms
proof (induction acc arbitrary: k fs)
  case (Cons oper acc)
  obtain img where img: "map_of pre (op_abs_path oper) = Some img" using Cons.prems(2) by auto
  obtain fs2 ok where r: "restore (back k) (op_abs_path oper) img fs = (fs2, ok)" by fastforce
  from Cons.prems(1) img r have ok: ok and rb: "rollback back (Suc k) pre acc fs2 = (fs1, True)"
    by (auto simp: Let_def split: if_splits)
  have "file_at fs2 (op_abs_path oper) = image_file img" "q \<noteq> op_abs_path oper \<Longrightarrow> file_at fs2 q = file_at fs q"
    using restore_effect [OF r] ok by (auto simp: only_target_def image_file_def)
  then show ?case using Cons.IH [OF rb] Cons.prems(2) img by auto
qed simp

text \<open>A file whose text has no carriage return is read as it is.\<close>

definition plain_text :: "fs \<Rightarrow> path \<Rightarrow> bool" where
  "plain_text fs p \<longleftrightarrow> (case file_at fs p of Some (Some c, _) \<Rightarrow> CHR 0x0D \<notin> set c | _ \<Rightarrow> True)"

lemma universal_newlines_id: "CHR 0x0D \<notin> set s \<Longrightarrow> universal_newlines s = s"
  by (induction s rule: universal_newlines.induct) auto

lemma image_of_start: "read_preimage fs p = Some img \<Longrightarrow> plain_text fs p \<Longrightarrow> image_file img = file_at fs p"
  by (auto simp: read_preimage_def file_at_def image_file_def plain_text_def universal_newlines_id
      split: option.splits node.splits)

lemma apply_all_applied:
  "apply_all root flt k opers fs pre acc = (fs1, pre1, acc1, ok) \<Longrightarrow>
     (\<exists>n. n \<le> length opers \<and> acc1 = rev (take n opers) @ acc \<and> (ok \<longleftrightarrow> n = length opers))"
proof (induction opers arbitrary: k fs pre acc)
  case (Cons oper opers)
  show ?case
  proof (cases "is_prefix root (op_abs_path oper) \<and> read_preimage fs (op_abs_path oper) \<noteq> None \<and> snd (apply_operation (flt k) oper fs)")
    case False
    with Cons.prems have "acc1 = acc \<and> \<not> ok"
      by (auto simp: Let_def split: option.splits if_splits prod.splits)
    then show ?thesis by (intro exI [of _ 0]) simp
  next
    case True
    then obtain img fs2 where "read_preimage fs (op_abs_path oper) = Some img" "apply_operation (flt k) oper fs = (fs2, True)"
      by (cases "apply_operation (flt k) oper fs") auto
    with Cons.prems True obtain pre2 where
      "apply_all root flt (Suc k) opers fs2 pre2 (oper # acc) = (fs1, pre1, acc1, ok)"
      by (auto simp: Let_def)
    from Cons.IH [OF this] obtain n where "n \<le> length opers" "acc1 = rev (take n opers) @ oper # acc" "ok \<longleftrightarrow> n = length opers"
      by blast
    then show ?thesis by (intro exI [of _ "Suc n"]) simp
  qed
qed simp

lemma rolled_back_files:
  assumes c: "commit root flt back opers fs = (rc, fs')" and st: "rc_status rc = Rolled_Back"
    and plain: "\<forall>oper\<in>set opers. plain_text fs (op_abs_path oper)"
  shows "file_at fs' q = file_at fs q"
proof -
  obtain fs1 pre acc ok where a: "apply_all root flt 0 opers fs [] [] = (fs1, pre, acc, ok)" by (metis prod_cases4)
  have inv: "loop_inv root fs fs1 pre acc"
    by (rule apply_all_inv [OF a]) (simp_all add: loop_inv_def)
  from c st a have ok: "\<not> ok" and rb: "rollback back 0 pre acc fs1 = (fs', True)"
    by (auto simp: commit_def split: if_splits prod.splits)
  have sub: "op_abs_path ` set acc \<subseteq> op_abs_path ` set opers"
    using apply_all_applied [OF a] by (auto dest!: in_set_takeD)
  show ?thesis
  proof (cases "q \<in> op_abs_path ` set acc")
    case True
    then obtain img where img: "map_of pre q = Some img" using inv by (auto simp: loop_inv_def)
    then have "read_preimage fs q = Some img" using inv by (simp add: loop_inv_def)
    moreover have "plain_text fs q" using True sub plain by auto
    ultimately have "image_file img = file_at fs q" by (rule image_of_start)
    then show ?thesis using rollback_effect [OF rb, of q] inv True img by (auto simp: loop_inv_def)
  next
    case False
    then show ?thesis using rollback_effect [OF rb, of q] inv by (auto simp: loop_inv_def)
  qed
qed

text \<open>What a complete batch leaves at a path: the effect of the last operation on it.\<close>

definition applied_text :: "ft_operation list \<Rightarrow> fs \<Rightarrow> path \<Rightarrow> string option option" where
  "applied_text opers fs q =
     (case find (\<lambda>oper. op_abs_path oper = q) (rev opers) of
        None \<Rightarrow> map_option fst (file_at fs q)
      | Some oper \<Rightarrow> (case op_kind oper of Write_Text c \<Rightarrow> Some (Some c) | Delete_File \<Rightarrow> None))"

lemma last_operation_None:
  "find (\<lambda>oper. op_abs_path oper = q) (rev opers) = None \<longleftrightarrow> q \<notin> op_abs_path ` set opers"
  by (auto simp: find_None_iff)

lemma applied_text_Cons:
  "applied_text (oper # opers) fs q =
     (if q \<in> op_abs_path ` set opers then applied_text opers fs q
      else if op_abs_path oper = q then (case op_kind oper of Write_Text c \<Rightarrow> Some (Some c) | Delete_File \<Rightarrow> None)
      else map_option fst (file_at fs q))"
proof (cases "find (\<lambda>oper. op_abs_path oper = q) (rev opers)")
  case None
  with last_operation_None [of q opers] show ?thesis by (simp add: applied_text_def find_append)
next
  case (Some x)
  then have "q \<in> op_abs_path ` set opers" using last_operation_None [of q opers] by simp
  with Some show ?thesis by (simp add: applied_text_def find_append)
qed

lemma applied_text_none: "q \<notin> op_abs_path ` set opers \<Longrightarrow> applied_text opers fs q = map_option fst (file_at fs q)"
  using last_operation_None [of q opers] by (simp add: applied_text_def)

lemma applied_text_cong:
  "q \<in> op_abs_path ` set opers \<Longrightarrow> applied_text opers fs q = applied_text opers fs1 q"
  using last_operation_None [of q opers] by (auto simp: applied_text_def split: option.splits)

lemma apply_operation_text:
  assumes "apply_operation flt oper fs = (fs1, True)"
  shows "map_option fst (file_at fs1 (op_abs_path oper))
    = (case op_kind oper of Write_Text c \<Rightarrow> Some (Some c) | Delete_File \<Rightarrow> None)"
proof (cases "op_kind oper")
  case (Write_Text c)
  with assms have "atomic_write flt (op_abs_path oper) c fs = (fs1, True)" by (simp add: apply_operation_def)
  from atomic_write_effect [OF this] Write_Text show ?thesis by auto
next
  case Delete_File
  with assms have "unlink flt (op_abs_path oper) fs = (fs1, True)" by (simp add: apply_operation_def)
  from unlink_effect [OF this] Delete_File show ?thesis by auto
qed

lemma apply_all_text:
  "apply_all root flt k opers fs pre acc = (fs1, pre1, acc1, True) \<Longrightarrow>
     (\<forall>oper\<in>set opers. is_prefix root (op_abs_path oper)) \<and> map_option fst (file_at fs1 q) = applied_text opers fs q"
proof (induction opers arbitrary: k fs pre acc)
  case Nil
  then show ?case by (simp add: applied_text_def)
next
  case (Cons oper opers)
  then obtain img fs2 pre2 where root: "is_prefix root (op_abs_path oper)"
    and app: "apply_operation (flt k) oper fs = (fs2, True)"
    and rest: "apply_all root flt (Suc k) opers fs2 pre2 (oper # acc) = (fs1, pre1, acc1, True)"
    by (auto simp: Let_def split: option.splits if_splits prod.splits)
  note IH = Cons.IH [OF rest]
  show ?case
  proof (cases "q \<in> op_abs_path ` set opers")
    case True
    with IH root applied_text_cong [OF True, of fs2 fs] show ?thesis by (simp add: applied_text_Cons)
  next
    case False
    then have "applied_text opers fs2 q = map_option fst (file_at fs2 q)" by (rule applied_text_none)
    with IH root False app apply_operation_text [OF app] apply_operation_effect [OF app]
    show ?thesis by (auto simp: applied_text_Cons only_target_def)
  qed
qed

lemma commit_cases:
  assumes "commit root flt back opers fs = (rc, fs')"
  obtains (committed) pre acc where "apply_all root flt 0 opers fs [] [] = (fs', pre, acc, True)"
      "rc_status rc = Committed" "rc_applied_count rc = length acc"
  | (failed) fs1 pre acc restored where "apply_all root flt 0 opers fs [] [] = (fs1, pre, acc, False)"
      "rollback back 0 pre acc fs1 = (fs', restored)" "rc_status rc = (if restored then Rolled_Back else Rollback_Failed)"
      "rc_applied_count rc = length acc"
  using assms by (auto simp: commit_def Let_def split: if_splits prod.splits)

lemma committed_text:
  assumes "commit root flt back opers fs = (rc, fs')" "rc_status rc = Committed"
  shows "rc_applied_count rc = length opers \<and> (\<forall>oper\<in>set opers. is_prefix root (op_abs_path oper))
    \<and> map_option fst (file_at fs' q) = applied_text opers fs q"
  using assms(1)
proof (cases rule: commit_cases)
  case (committed pre acc)
  from apply_all_text [OF committed(1)] apply_all_applied [OF committed(1)] committed(3) show ?thesis by auto
next
  case (failed fs1 pre acc restored)
  with assms(2) show ?thesis by (simp split: if_splits)
qed

lemma rollback_only:
  "rollback back k pre acc fs = (fs1, ok) \<Longrightarrow> q \<notin> op_abs_path ` set acc \<Longrightarrow> file_at fs1 q = file_at fs q"
proof (induction acc arbitrary: k fs)
  case (Cons oper acc)
  obtain fs2 b where r: "restore (back k) (op_abs_path oper)
      (case map_of pre (op_abs_path oper) of Some i \<Rightarrow> i | None \<Rightarrow> Absent) fs = (fs2, b)" by fastforce
  from restore_effect [OF r] Cons.prems(2) have "file_at fs2 q = file_at fs q" by (auto simp: only_target_def)
  with Cons r show ?case by (auto simp: Let_def split: if_splits)
qed simp

text \<open>Whatever fails, and even when the rollback fails, no file outside the project root changes.\<close>

lemma outside_root_unchanged:
  assumes c: "commit root flt back opers fs = (rc, fs')" and out: "\<not> is_prefix root q"
  shows "file_at fs' q = file_at fs q"
proof -
  obtain fs1 pre acc ok where a: "apply_all root flt 0 opers fs [] [] = (fs1, pre, acc, ok)" by (metis prod_cases4)
  have inv: "loop_inv root fs fs1 pre acc"
    by (rule apply_all_inv [OF a]) (simp_all add: loop_inv_def)
  then have q: "q \<notin> op_abs_path ` set acc"
    using out by (auto simp: loop_inv_def)
  with inv have s: "file_at fs1 q = file_at fs q" by (simp add: loop_inv_def)
  from c a s rollback_only [OF _ q] show ?thesis
    by (auto simp: commit_def Let_def split: if_splits prod.splits)
qed

section \<open>Examples\<close>

text \<open>A batch of two operations whose second one fails on a directory; the first file has a CR LF line end.\<close>

definition ex_fs :: fs where
  "ex_fs = [[] \<mapsto> Directory, [''p''] \<mapsto> Directory, [''p'', ''d''] \<mapsto> Directory,
            [''p'', ''a''] \<mapsto> File (Some [CHR ''x'', CHR 0x0D, CHR 0x0A]) 420, [''p'', ''b''] \<mapsto> File (Some ''y'') 420]"

definition ex_write :: "string list \<Rightarrow> string \<Rightarrow> ft_operation" where
  "ex_write p c = \<lparr>op_kind = Write_Text c, op_rel_path = last p, op_abs_path = p\<rparr>"

definition ex_delete :: "string list \<Rightarrow> ft_operation" where
  "ex_delete p = \<lparr>op_kind = Delete_File, op_rel_path = last p, op_abs_path = p\<rparr>"

lemmas ex_defs = ex_fs_def ex_write_def ex_delete_def commit_def apply_operation_def atomic_write_def make_dirs_def
  read_preimage_def is_prefix_def unlink_def restore_def Let_def

lemma prefix_of_root: "take (length x) [r] = x \<longleftrightarrow> x = [] \<or> x = [r]"
  by (cases x) auto

text \<open>The rollback does not restore the bytes of a file with CR LF line ends.\<close>

lemma crlf_not_restored:
  "rc_status (fst (commit [''p''] (\<lambda>_. No_Fault) (\<lambda>_. No_Fault)
      [ex_write [''p'', ''a''] ''new'', ex_delete [''p'', ''d'']] ex_fs)) = Rolled_Back
   \<and> file_at (snd (commit [''p''] (\<lambda>_. No_Fault) (\<lambda>_. No_Fault)
      [ex_write [''p'', ''a''] ''new'', ex_delete [''p'', ''d'']] ex_fs)) [''p'', ''a'']
     = Some (Some [CHR ''x'', CHR 0x0A], 420)"
  by (simp add: ex_defs file_at_def)

lemma ex_rolled_back:
  "commit [''p''] (\<lambda>_. No_Fault) (\<lambda>_. No_Fault) [ex_write [''p'', ''b''] ''new'', ex_delete [''p'', ''d'']] ex_fs
    = (\<lparr>rc_status = Rolled_Back, rc_operation_count = 2, rc_applied_count = 1, rc_paths = [''b'', ''d''],
        rc_error_code = ''FILE_TRANSACTION_APPLY_FAILED''\<rparr>, ex_fs)"
  by (auto simp: ex_defs fun_eq_iff prefix_of_root)

lemma ex_committed:
  "commit [''p''] (\<lambda>_. No_Fault) (\<lambda>_. No_Fault) [ex_write [''p'', ''b''] ''new'', ex_delete [''p'', ''a'']] ex_fs
    = (\<lparr>rc_status = Committed, rc_operation_count = 2, rc_applied_count = 2, rc_paths = [''b'', ''a''],
        rc_error_code = []\<rparr>,
       (ex_fs([''p'', ''b''] \<mapsto> File (Some ''new'') 420)) ([''p'', ''a''] := None))"
  by (auto simp: ex_defs fun_eq_iff prefix_of_root)

end
