(* ===== verification/References.thy ===== *)
theory References
  imports Contracts
begin

text \<open>
  \<open>runner/work_item_governance/references.py\<close>: the optional binding of a plan, a plan version or a run
  record to a work item, a task version and an attempt.  A plan and a version are read through their
  three reference fields only, as a dict; a rejection is its code and its field.
\<close>

definition PLAN_WORK_ITEM_REFERENCE_FIELDS :: "string list" where
  "PLAN_WORK_ITEM_REFERENCE_FIELDS = [''work_item_id'', ''task_version'', ''attempt_id'']"

definition WORK_ITEM_REFERENCE_FIELDS :: "string list" where
  "WORK_ITEM_REFERENCE_FIELDS = [''work_item_id'', ''task_version'', ''attempt_id'', ''artifact_refs'']"

definition positive_int :: "py \<Rightarrow> bool" where
  "positive_int v = (case v of PInt n \<Rightarrow> 1 \<le> n | _ \<Rightarrow> False)"

text \<open>A dataclass instance has every field; a dict may miss some, which read as \<open>None\<close>.\<close>

definition optional_plan_work_item_reference_rejections :: "dict \<Rightarrow> (string \<times> string) list" where
  "optional_plan_work_item_reference_rejections v =
    (let w = dget v ''work_item_id''; t = dget v ''task_version''; a = dget v ''attempt_id'' in
     if w = PNone \<and> t = PNone \<and> a = PNone then []
     else (if is_stable_id w ''work_item'' then [] else [(''WORK_ITEM_ID_INVALID'', ''work_item_id'')])
        @ (if positive_int t then [] else [(''TASK_VERSION_INVALID'', ''task_version'')])
        @ (if a = PNone \<or> is_stable_id a ''attempt'' then [] else [(''ATTEMPT_ID_INVALID'', ''attempt_id'')]))"

definition reference_values :: "dict \<Rightarrow> dict" where
  "reference_values v = map (\<lambda>f. (f, dget v f)) PLAN_WORK_ITEM_REFERENCE_FIELDS"

text \<open>The first candidate with any field decides; an invalid one hides the next.\<close>

fun resolve_candidates :: "dict option list \<Rightarrow> dict" where
  "resolve_candidates [] = []"
| "resolve_candidates (None # cs) = resolve_candidates cs"
| "resolve_candidates (Some v # cs) =
     (let vals = reference_values v in
      if list_all (\<lambda>kv. snd kv = PNone) vals then resolve_candidates cs
      else if optional_plan_work_item_reference_rejections vals \<noteq> [] then []
      else filter (\<lambda>kv. snd kv \<noteq> PNone) vals)"

datatype version_argument = No_Version | Version_Name string | Version_Object dict

text \<open>\<open>versions\<close> are the plan's versions: the name and the reference fields of each.\<close>

definition resolve_plan_work_item_reference :: "dict \<Rightarrow> (string \<times> dict) list \<Rightarrow> version_argument \<Rightarrow> dict" where
  "resolve_plan_work_item_reference plan versions v =
    (let version_value = (case v of No_Version \<Rightarrow> None | Version_Name s \<Rightarrow> map_of versions s | Version_Object d \<Rightarrow> Some d)
     in resolve_candidates [version_value, Some plan])"

fun py_elems :: "py \<Rightarrow> py list" where
  "py_elems (PList xs) = xs"
| "py_elems _ = []"

definition optional_work_item_reference_rejections :: "py \<Rightarrow> (string \<times> string) list" where
  "optional_work_item_reference_rejections value =
    (case value of
       PDict d \<Rightarrow>
         (if \<not> list_ex (dhas d) WORK_ITEM_REFERENCE_FIELDS then []
          else let artifacts = dget_or d ''artifact_refs'' (PList []); xs = py_elems artifacts in
               (if is_stable_id (dget d ''work_item_id'') ''work_item'' then [] else [(''WORK_ITEM_ID_INVALID'', ''work_item_id'')])
             @ (if positive_int (dget d ''task_version'') then [] else [(''TASK_VERSION_INVALID'', ''task_version'')])
             @ (if is_stable_id (dget d ''attempt_id'') ''attempt'' then [] else [(''ATTEMPT_ID_INVALID'', ''attempt_id'')])
             @ (if \<not> is_list artifacts \<or> length xs > 1024 \<or> list_ex (\<lambda>x. \<not> is_stable_id x ''artifact'') xs
                   \<or> length (remdups xs) \<noteq> length xs
                then [(''ARTIFACT_REFS_INVALID'', ''artifact_refs'')] else []))
     | _ \<Rightarrow> [(''REFERENCE_CONTAINER_INVALID'', ''<record>'')])"

definition resolve_execution_attempt_binding :: "dict \<Rightarrow> (string \<times> dict) list \<Rightarrow> version_argument \<Rightarrow> dict" where
  "resolve_execution_attempt_binding plan versions v =
    (let reference = resolve_plan_work_item_reference plan versions v in
     if list_ex (\<lambda>f. dget reference f = PNone) PLAN_WORK_ITEM_REFERENCE_FIELDS then []
     else let binding = reference @ [(''artifact_refs'', PList [])] in
          if optional_work_item_reference_rejections (PDict binding) = [] then binding else [])"

definition optional_work_item_reference_projection :: "py \<Rightarrow> dict" where
  "optional_work_item_reference_projection value =
    (let record = (case value of PDict d \<Rightarrow> d | _ \<Rightarrow> []);
         bound = list_ex (dhas record) WORK_ITEM_REFERENCE_FIELDS;
         artifacts = dget_or record ''artifact_refs'' (PList [])
     in [(''work_item_id'', dget record ''work_item_id''), (''task_version'', dget record ''task_version''),
         (''attempt_id'', dget record ''attempt_id''),
         (''artifact_refs'', if is_list artifacts then artifacts else PList []),
         (''work_item_bound'', PBool (bound \<and> optional_work_item_reference_rejections (PDict record) = [])),
         (''creates_work_item'', PBool False), (''writes_delivery_state'', PBool False)])"

section \<open>What a resolved reference guarantees\<close>

lemma dget_filter_reference:
  "f \<in> set PLAN_WORK_ITEM_REFERENCE_FIELDS \<Longrightarrow> dget (filter (\<lambda>kv. snd kv \<noteq> PNone) (reference_values v)) f = dget v f"
  by (auto simp: reference_values_def PLAN_WORK_ITEM_REFERENCE_FIELDS_def dget_or_def)

lemma resolved_candidate:
  "resolve_candidates cs \<noteq> [] \<Longrightarrow> \<exists>v. Some v \<in> set cs
     \<and> resolve_candidates cs = filter (\<lambda>kv. snd kv \<noteq> PNone) (reference_values v)
     \<and> \<not> list_all (\<lambda>kv. snd kv = PNone) (reference_values v)
     \<and> optional_plan_work_item_reference_rejections (reference_values v) = []"
  by (induction cs rule: resolve_candidates.induct) (fastforce simp: Let_def split: if_splits)+

text \<open>A reference that is returned names a work item and a task version, and an attempt only as one.\<close>

lemma resolved_reference_valid:
  assumes "resolve_plan_work_item_reference plan versions v = r" "r \<noteq> []"
  shows "is_stable_id (dget r ''work_item_id'') ''work_item'' \<and> positive_int (dget r ''task_version'')
    \<and> (dget r ''attempt_id'' = PNone \<or> is_stable_id (dget r ''attempt_id'') ''attempt'')"
proof -
  from assms resolved_candidate obtain u where
    r: "r = filter (\<lambda>kv. snd kv \<noteq> PNone) (reference_values u)"
    and some: "\<not> list_all (\<lambda>kv. snd kv = PNone) (reference_values u)"
    and ok: "optional_plan_work_item_reference_rejections (reference_values u) = []"
    unfolding resolve_plan_work_item_reference_def Let_def by blast
  have g: "dget r f = dget u f" "dget (reference_values u) f = dget u f" if "f \<in> set PLAN_WORK_ITEM_REFERENCE_FIELDS" for f
    using dget_filter_reference [OF that, of u] that
    by (auto simp: r reference_values_def PLAN_WORK_ITEM_REFERENCE_FIELDS_def dget_or_def)
  have some: "\<not> (dget u ''work_item_id'' = PNone \<and> dget u ''task_version'' = PNone \<and> dget u ''attempt_id'' = PNone)"
    using some by (auto simp: reference_values_def PLAN_WORK_ITEM_REFERENCE_FIELDS_def)
  have f: "{''work_item_id'', ''task_version'', ''attempt_id''} \<subseteq> set PLAN_WORK_ITEM_REFERENCE_FIELDS"
    by (simp add: PLAN_WORK_ITEM_REFERENCE_FIELDS_def)
  from some ok show ?thesis
    using f unfolding optional_plan_work_item_reference_rejections_def Let_def
    by (simp add: g split: if_splits)
qed

lemma execution_binding_valid:
  assumes "resolve_execution_attempt_binding plan versions v = b" "b \<noteq> []"
  shows "optional_work_item_reference_rejections (PDict b) = []
    \<and> dget b ''work_item_id'' \<noteq> PNone \<and> dget b ''task_version'' \<noteq> PNone \<and> dget b ''attempt_id'' \<noteq> PNone"
proof -
  from assms have rej: "optional_work_item_reference_rejections (PDict b) = []"
    and b: "b = resolve_plan_work_item_reference plan versions v @ [(''artifact_refs'', PList [])]"
    by (auto simp: resolve_execution_attempt_binding_def Let_def split: if_splits)
  moreover have "dhas b ''artifact_refs''" by (simp add: b dhas_def)
  ultimately show ?thesis
    by (auto simp: optional_work_item_reference_rejections_def WORK_ITEM_REFERENCE_FIELDS_def Let_def
        is_stable_id_def positive_int_def split: if_splits py.splits)
qed

end
