(* ===== verification/RunnerState.thy ===== *)
theory RunnerState
  imports References "HOL-Library.Monad_Syntax"
begin

text \<open>
  The runner's plan and state (\<open>schemas/plan.py\<close>, \<open>schemas/state.py\<close>) and the state file
  (\<open>runner/state_store.py\<close>).  The records have the fields the modelled code reads or writes; the
  plan's prompts, model settings and descriptions are left out.  Statuses are strings, as in the code,
  which does not check them when it reads the file.
\<close>

section \<open>Plans\<close>

record acceptance_command =
  ac_command :: string
  ac_timeout_seconds :: int
  ac_continue_on_failure :: bool

record build_version =
  bv_version :: string
  bv_name :: string
  bv_enabled :: bool
  bv_allowed_files :: "string list"
  bv_forbidden_files :: "string list"
  bv_acceptance_commands :: "acceptance_command list"
  bv_reference :: dict   \<comment> \<open>\<open>work_item_id\<close>, \<open>task_version\<close> and \<open>attempt_id\<close>\<close>

record review_policy =
  rp_enabled :: bool
  rp_after_versions :: "string list"

record commit_policy =
  cp_enabled :: bool
  cp_require_commit_before_continue :: bool

record build_plan =
  bp_project_name :: string
  bp_max_fix_attempts :: int   \<comment> \<open>\<open>runner_policy.max_fix_attempts_per_version\<close>\<close>
  bp_versions :: "build_version list"
  bp_review_policy :: review_policy
  bp_commit_policy :: commit_policy
  bp_logs_dir :: string
  bp_runtime_dir :: string
  bp_reference :: dict

section \<open>States\<close>

record version_state =
  vs_version :: string
  vs_name :: string
  vs_status :: string
  vs_attempt :: int
  vs_started_at :: "string option"
  vs_completed_at :: "string option"
  vs_last_run_id :: "string option"
  vs_last_prompt_file :: "string option"
  vs_last_audit_file :: "string option"
  vs_commit_hash :: "string option"
  vs_committed_at :: "string option"
  vs_commit_message :: "string option"
  vs_commit_files :: "string list option"
  vs_metadata :: "dict option"
  vs_note :: "string option"

record runner_error =
  re_code :: string
  re_message :: string
  re_detail :: "string option"

record runner_state =
  rs_project_name :: string
  rs_status :: string
  rs_current_version :: "string option"
  rs_current_version_index :: int
  rs_attempt :: int
  rs_max_fix_attempts :: int
  rs_versions :: "version_state list"
  rs_started_at :: "string option"
  rs_updated_at :: "string option"
  rs_completed_at :: "string option"
  rs_last_prompt_file :: "string option"
  rs_last_generated_prompt_file :: "string option"
  rs_last_audit_file :: "string option"
  rs_last_log_file :: "string option"
  rs_last_error :: "runner_error option"

definition new_version_state :: "build_version \<Rightarrow> version_state" where
  "new_version_state v =
    \<lparr>vs_version = bv_version v, vs_name = bv_name v, vs_status = ''NOT_STARTED'', vs_attempt = 0,
     vs_started_at = None, vs_completed_at = None, vs_last_run_id = None, vs_last_prompt_file = None,
     vs_last_audit_file = None, vs_commit_hash = None, vs_committed_at = None, vs_commit_message = None,
     vs_commit_files = None, vs_metadata = None, vs_note = None\<rparr>"

text \<open>The first enabled version, with its index.\<close>

fun first_enabled :: "nat \<Rightarrow> build_version list \<Rightarrow> (string \<times> nat) option" where
  "first_enabled i [] = None"
| "first_enabled i (v # vs) = (if bv_enabled v then Some (bv_version v, i) else first_enabled (Suc i) vs)"

definition initialize_state :: "build_plan \<Rightarrow> string \<Rightarrow> runner_state" where
  "initialize_state plan now =
    (let first = first_enabled 0 (bp_versions plan) in
     \<lparr>rs_project_name = bp_project_name plan, rs_status = ''READY'',
      rs_current_version = map_option fst first,
      rs_current_version_index = (case first of Some (_, i) \<Rightarrow> int i | None \<Rightarrow> 0),
      rs_attempt = 1, rs_max_fix_attempts = bp_max_fix_attempts plan,
      rs_versions = map new_version_state (bp_versions plan),
      rs_started_at = Some now, rs_updated_at = Some now, rs_completed_at = None, rs_last_prompt_file = None,
      rs_last_generated_prompt_file = None, rs_last_audit_file = None, rs_last_log_file = None,
      rs_last_error = None\<rparr>)"

section \<open>The state file\<close>

fun of_opt_list :: "string list option \<Rightarrow> py" where
  "of_opt_list None = PNone"
| "of_opt_list (Some xs) = PList (map PStr xs)"

fun of_opt_dict :: "dict option \<Rightarrow> py" where
  "of_opt_dict None = PNone"
| "of_opt_dict (Some d) = PDict d"

definition serialize_version :: "version_state \<Rightarrow> dict" where
  "serialize_version v =
    [(''version'', PStr (vs_version v)), (''name'', PStr (vs_name v)), (''status'', PStr (vs_status v)),
     (''attempt'', PInt (vs_attempt v)), (''started_at'', of_opt (vs_started_at v)),
     (''completed_at'', of_opt (vs_completed_at v)), (''last_run_id'', of_opt (vs_last_run_id v)),
     (''last_prompt_file'', of_opt (vs_last_prompt_file v)), (''last_audit_file'', of_opt (vs_last_audit_file v)),
     (''commit_hash'', of_opt (vs_commit_hash v)), (''committed_at'', of_opt (vs_committed_at v)),
     (''commit_message'', of_opt (vs_commit_message v)), (''commit_files'', of_opt_list (vs_commit_files v)),
     (''metadata'', of_opt_dict (vs_metadata v)), (''note'', of_opt (vs_note v))]"

definition serialize_error :: "runner_error \<Rightarrow> dict" where
  "serialize_error e =
    [(''code'', PStr (re_code e)), (''message'', PStr (re_message e)), (''detail'', of_opt (re_detail e))]"

definition serialize_state :: "runner_state \<Rightarrow> dict" where
  "serialize_state s =
    [(''project_name'', PStr (rs_project_name s)), (''status'', PStr (rs_status s)),
     (''current_version'', of_opt (rs_current_version s)),
     (''current_version_index'', PInt (rs_current_version_index s)), (''attempt'', PInt (rs_attempt s)),
     (''max_fix_attempts_per_version'', PInt (rs_max_fix_attempts s)),
     (''versions'', PList (map (\<lambda>v. PDict (serialize_version v)) (rs_versions s))),
     (''started_at'', of_opt (rs_started_at s)), (''updated_at'', of_opt (rs_updated_at s)),
     (''completed_at'', of_opt (rs_completed_at s)), (''last_prompt_file'', of_opt (rs_last_prompt_file s)),
     (''last_generated_prompt_file'', of_opt (rs_last_generated_prompt_file s)),
     (''last_audit_file'', of_opt (rs_last_audit_file s)), (''last_log_file'', of_opt (rs_last_log_file s)),
     (''last_error'', (case rs_last_error s of None \<Rightarrow> PNone | Some e \<Rightarrow> PDict (serialize_error e)))]"

text \<open>
  Reading fields with their defaults.  The code does not check types; a value of another type than the
  dataclass declares has no place in the records, and the readers return \<open>None\<close> for it.
\<close>

definition get_str :: "dict \<Rightarrow> string \<Rightarrow> string \<Rightarrow> string option" where
  "get_str d k v = (case dget_or d k (PStr v) of PStr s \<Rightarrow> Some s | _ \<Rightarrow> None)"

definition get_int :: "dict \<Rightarrow> string \<Rightarrow> int \<Rightarrow> int option" where
  "get_int d k v = (case dget_or d k (PInt v) of PInt i \<Rightarrow> Some i | _ \<Rightarrow> None)"

definition get_opt_str :: "dict \<Rightarrow> string \<Rightarrow> string option option" where
  "get_opt_str d k = (case dget d k of PNone \<Rightarrow> Some None | PStr s \<Rightarrow> Some (Some s) | _ \<Rightarrow> None)"

fun str_items :: "py list \<Rightarrow> string list option" where
  "str_items [] = Some []"
| "str_items (PStr s # xs) = map_option (Cons s) (str_items xs)"
| "str_items (_ # xs) = None"

definition get_opt_list :: "dict \<Rightarrow> string \<Rightarrow> string list option option" where
  "get_opt_list d k = (case dget d k of PNone \<Rightarrow> Some None | PList xs \<Rightarrow> map_option Some (str_items xs) | _ \<Rightarrow> None)"

definition parse_version :: "py \<Rightarrow> version_state option" where
  "parse_version p = (case p of
     PDict d \<Rightarrow> do {
       version \<leftarrow> get_str d ''version'' [];
       name \<leftarrow> get_str d ''name'' [];
       status \<leftarrow> get_str d ''status'' ''NOT_STARTED'';
       attempt \<leftarrow> get_int d ''attempt'' 0;
       started \<leftarrow> get_opt_str d ''started_at'';
       completed \<leftarrow> get_opt_str d ''completed_at'';
       run_id \<leftarrow> get_opt_str d ''last_run_id'';
       prompt \<leftarrow> get_opt_str d ''last_prompt_file'';
       audit \<leftarrow> get_opt_str d ''last_audit_file'';
       commit_hash \<leftarrow> get_opt_str d ''commit_hash'';
       committed \<leftarrow> get_opt_str d ''committed_at'';
       message \<leftarrow> get_opt_str d ''commit_message'';
       files \<leftarrow> get_opt_list d ''commit_files'';
       note \<leftarrow> get_opt_str d ''note'';
       Some \<lparr>vs_version = version, vs_name = name, vs_status = status, vs_attempt = attempt,
             vs_started_at = started, vs_completed_at = completed, vs_last_run_id = run_id,
             vs_last_prompt_file = prompt, vs_last_audit_file = audit, vs_commit_hash = commit_hash,
             vs_committed_at = committed, vs_commit_message = message, vs_commit_files = files,
             vs_metadata = (case dget d ''metadata'' of PDict m \<Rightarrow> Some m | _ \<Rightarrow> None), vs_note = note\<rparr> }
   | _ \<Rightarrow> None)"

fun opt_all :: "('a \<Rightarrow> 'b option) \<Rightarrow> 'a list \<Rightarrow> 'b list option" where
  "opt_all f [] = Some []"
| "opt_all f (x # xs) = do { y \<leftarrow> f x; ys \<leftarrow> opt_all f xs; Some (y # ys) }"

definition parse_error :: "py \<Rightarrow> runner_error option option" where
  "parse_error p =
    (if \<not> truthy p then Some None
     else case p of
       PDict d \<Rightarrow> do {
         code \<leftarrow> get_str d ''code'' [];
         message \<leftarrow> get_str d ''message'' [];
         detail \<leftarrow> get_opt_str d ''detail'';
         Some (Some \<lparr>re_code = code, re_message = message, re_detail = detail\<rparr>) }
     | _ \<Rightarrow> None)"

definition parse_state :: "dict \<Rightarrow> runner_state option" where
  "parse_state d = do {
     versions \<leftarrow> (case dget_or d ''versions'' (PList []) of PList xs \<Rightarrow> opt_all parse_version xs | _ \<Rightarrow> None);
     err \<leftarrow> parse_error (dget d ''last_error'');
     project_name \<leftarrow> get_str d ''project_name'' [];
     status \<leftarrow> get_str d ''status'' ''READY'';
     current_version \<leftarrow> get_opt_str d ''current_version'';
     idx \<leftarrow> get_int d ''current_version_index'' 0;
     attempt \<leftarrow> get_int d ''attempt'' 1;
     max_fix \<leftarrow> get_int d ''max_fix_attempts_per_version'' 3;
     started \<leftarrow> get_opt_str d ''started_at'';
     updated \<leftarrow> get_opt_str d ''updated_at'';
     completed \<leftarrow> get_opt_str d ''completed_at'';
     prompt \<leftarrow> get_opt_str d ''last_prompt_file'';
     generated \<leftarrow> get_opt_str d ''last_generated_prompt_file'';
     audit \<leftarrow> get_opt_str d ''last_audit_file'';
     log \<leftarrow> get_opt_str d ''last_log_file'';
     Some \<lparr>rs_project_name = project_name, rs_status = status, rs_current_version = current_version,
           rs_current_version_index = idx, rs_attempt = attempt, rs_max_fix_attempts = max_fix,
           rs_versions = versions, rs_started_at = started, rs_updated_at = updated,
           rs_completed_at = completed, rs_last_prompt_file = prompt,
           rs_last_generated_prompt_file = generated, rs_last_audit_file = audit, rs_last_log_file = log,
           rs_last_error = err\<rparr> }"

section \<open>Reading back what was written\<close>

lemma opt_all_map: "(\<And>x. x \<in> set xs \<Longrightarrow> f (g x) = Some x) \<Longrightarrow> opt_all f (map g xs) = Some xs"
  by (induction xs) auto

lemma str_items_map [simp]: "str_items (map PStr xs) = Some xs"
  by (induction xs) auto

lemma read_opt [simp]: "(case of_opt x of PNone \<Rightarrow> Some None | PStr s \<Rightarrow> Some (Some s) | _ \<Rightarrow> None) = Some x"
  by (cases x) auto

lemma read_opt_list [simp]:
  "(case of_opt_list x of PNone \<Rightarrow> Some None | PList xs \<Rightarrow> map_option Some (str_items xs) | _ \<Rightarrow> None) = Some x"
  by (cases x) auto

lemma read_opt_dict [simp]: "(case of_opt_dict x of PDict m \<Rightarrow> Some m | _ \<Rightarrow> None) = x"
  by (cases x) auto

lemmas reader_defs = get_str_def get_int_def get_opt_str_def get_opt_list_def dget_or_def

lemma parse_serialized_version: "parse_version (PDict (serialize_version v)) = Some v"
  by (simp add: parse_version_def serialize_version_def reader_defs)

lemma parse_serialized_error:
  "parse_error (case e of None \<Rightarrow> PNone | Some x \<Rightarrow> PDict (serialize_error x)) = Some e"
  by (cases e) (simp_all add: parse_error_def serialize_error_def reader_defs)

lemma parse_serialized_state: "parse_state (serialize_state s) = Some s"
  by (simp add: parse_state_def serialize_state_def reader_defs opt_all_map parse_serialized_version
      parse_serialized_error)

end
