(* ===== verification/ScopeCheck.thy ===== *)
theory ScopeCheck
  imports PathPolicy
begin

text \<open>
  \<open>runner/scope_checker.py\<close>: the files a version changed, as git lists them, against the files its plan
  allows and forbids.  The answers of git are parameters; the texts of git that the result carries along
  for display are left out.
\<close>

record git_output =
  go_exit_code :: int
  go_stdout :: string

record scope_result =
  sc_status :: string
  sc_allowed_files :: "string list"
  sc_forbidden_files :: "string list"
  sc_raw_changed_files :: "string list"
  sc_ignored_runtime_files :: "string list"
  sc_scope_checked_files :: "string list"
  sc_outside_allowed_files :: "string list"
  sc_forbidden_changed_files :: "string list"
  sc_changed_files :: "string list"

text \<open>\<open>str.splitlines()\<close> on Latin-1 text: the line boundaries are LF, CR, CR LF, VT, FF, FS, GS, RS and NEL.\<close>

definition is_line_end :: "char \<Rightarrow> bool" where
  "is_line_end c = (let n = (of_char c :: nat) in (10 \<le> n \<and> n \<le> 13) \<or> (28 \<le> n \<and> n \<le> 30) \<or> n = 133)"

fun splitlines_from :: "string \<Rightarrow> string \<Rightarrow> string list" where
  "splitlines_from cur [] = (if cur = [] then [] else [rev cur])"
| "splitlines_from cur [c] = (if is_line_end c then [rev cur] else [rev (c # cur)])"
| "splitlines_from cur (c # d # s) =
     (if (of_char c :: nat) = 13 \<and> (of_char d :: nat) = 10 then rev cur # splitlines_from [] s
      else if is_line_end c then rev cur # splitlines_from [] (d # s)
      else splitlines_from (c # cur) (d # s))"

definition splitlines :: "string \<Rightarrow> string list" where
  "splitlines s = splitlines_from [] s"

definition split_runtime_files :: "string list \<Rightarrow> string list \<times> string list" where
  "split_runtime_files paths =
    (filter (\<lambda>p. is_project_runner_path (normalize p)) paths,
     filter (\<lambda>p. \<not> is_project_runner_path (normalize p)) paths)"

definition not_checked :: "string list \<Rightarrow> string list \<Rightarrow> scope_result" where
  "not_checked allowed forbidden =
    \<lparr>sc_status = ''NOT_CHECKED'', sc_allowed_files = allowed, sc_forbidden_files = forbidden,
     sc_raw_changed_files = [], sc_ignored_runtime_files = [], sc_scope_checked_files = [],
     sc_outside_allowed_files = [], sc_forbidden_changed_files = [], sc_changed_files = []\<rparr>"

definition check_scope ::
  "string list \<Rightarrow> string list \<Rightarrow> bool \<Rightarrow> git_output \<Rightarrow> git_output \<Rightarrow> scope_result" where
  "check_scope version_allowed version_forbidden is_git_repository name_only diff_stat =
    (let allowed = map normalize version_allowed; forbidden = map normalize version_forbidden in
     if \<not> is_git_repository then not_checked allowed forbidden
     else if go_exit_code name_only \<noteq> 0 \<or> go_exit_code diff_stat \<noteq> 0 then not_checked allowed forbidden
     else
       let raw = map normalize (filter (\<lambda>line. py_strip line \<noteq> []) (splitlines (go_stdout name_only)));
           (ignored, checked) = split_runtime_files raw;
           outside = filter (\<lambda>p. \<not> match_any p allowed) checked;
           hit = filter (\<lambda>p. match_any p forbidden) checked
       in \<lparr>sc_status = (if outside \<noteq> [] \<or> hit \<noteq> [] then ''FAILED'' else ''PASSED''),
           sc_allowed_files = allowed, sc_forbidden_files = forbidden, sc_raw_changed_files = raw,
           sc_ignored_runtime_files = ignored, sc_scope_checked_files = checked,
           sc_outside_allowed_files = outside, sc_forbidden_changed_files = hit, sc_changed_files = raw\<rparr>)"

section \<open>What a verdict means\<close>

text \<open>The changed files: the non-blank lines of \<open>git diff --name-only\<close>.\<close>

definition changed_files :: "git_output \<Rightarrow> string list" where
  "changed_files g = map normalize (filter (\<lambda>line. py_strip line \<noteq> []) (splitlines (go_stdout g)))"

definition in_scope :: "string list \<Rightarrow> string list \<Rightarrow> string \<Rightarrow> bool" where
  "in_scope version_allowed version_forbidden p \<longleftrightarrow>
     (\<exists>pat\<in>set version_allowed. glob_match (normalize pat) p)
   \<and> (\<forall>pat\<in>set version_forbidden. \<not> glob_match (normalize pat) p)"

lemma match_any_iff: "match_any p (map normalize ps) \<longleftrightarrow> (\<exists>pat\<in>set ps. glob_match (normalize pat) p)"
  by (auto simp: match_any_def list_ex_iff)

lemma scope_verdict:
  "sc_status (check_scope al fo git name_only diff_stat) =
    (if git \<and> go_exit_code name_only = 0 \<and> go_exit_code diff_stat = 0
     then if \<forall>p\<in>set (changed_files name_only). is_project_runner_path (normalize p) \<or> in_scope al fo p
          then ''PASSED'' else ''FAILED''
     else ''NOT_CHECKED'')"
  unfolding check_scope_def split_runtime_files_def not_checked_def Let_def match_any_iff changed_files_def in_scope_def
  by (auto simp: filter_empty_conv)

lemma splitlines_join: "\<forall>l\<in>set ls. \<not> list_ex is_line_end l \<Longrightarrow> splitlines (concat (map (\<lambda>l. l @ [CHR 0x0A]) ls)) = ls"
proof -
  have nl: "is_line_end (CHR 0x0A)" by (simp add: is_line_end_def)
  have one: "splitlines_from cur (l @ CHR 0x0A # s) = (rev cur @ l) # splitlines_from [] s"
    if "\<not> list_ex is_line_end l" for cur l s
    using that
  proof (induction l arbitrary: cur)
    case Nil
    then show ?case by (cases s) (auto simp: nl)
  next
    case (Cons c l)
    then have "\<not> is_line_end c" by simp
    moreover from this have "(of_char c :: nat) \<noteq> 13" by (auto simp: is_line_end_def)
    ultimately show ?case using Cons by (cases "l @ CHR 0x0A # s") auto
  qed
  show "\<forall>l\<in>set ls. \<not> list_ex is_line_end l \<Longrightarrow> ?thesis"
    unfolding splitlines_def by (induction ls) (simp_all add: one)
qed

end
