(* ===== verification/AcceptanceRun.thy ===== *)
theory AcceptanceRun
  imports RunnerState ScopeCheck
begin

text \<open>
  \<open>runner/acceptance_runner.py\<close>: the acceptance commands of a version, run in order until one fails
  that may not.  Rewriting \<open>python\<close> to the project's interpreter, splitting the command into arguments
  and running the process are the parameter \<open>shell\<close>, which gives the exit code of each command by its
  position and text (-1 on a time-out, -2 on any exception).
\<close>

record command_result =
  cr_command :: string
  cr_status :: string
  cr_exit_code :: int

record acceptance_result =
  ar_run_id :: string
  ar_version :: string
  ar_attempt :: int
  ar_status :: string
  ar_commands :: "command_result list"

type_synonym shell = "nat \<Rightarrow> string \<Rightarrow> int"

definition run_command :: "shell \<Rightarrow> nat \<Rightarrow> acceptance_command \<Rightarrow> command_result" where
  "run_command shell i c =
    (let code = shell i (ac_command c) in
     \<lparr>cr_command = ac_command c, cr_status = (if code = 0 then ''PASSED'' else ''FAILED''), cr_exit_code = code\<rparr>)"

text \<open>The loop over the commands; \<open>overall\<close> is \<open>overall_status\<close> so far.\<close>

fun run_commands :: "shell \<Rightarrow> nat \<Rightarrow> acceptance_command list \<Rightarrow> string \<Rightarrow> string \<times> command_result list" where
  "run_commands shell i [] overall = (overall, [])"
| "run_commands shell i (c # cs) overall =
     (let r = run_command shell i c in
      if cr_status r = ''FAILED'' then
        (if \<not> ac_continue_on_failure c then (''FAILED'', [r])
         else let (status, rs) = run_commands shell (Suc i) cs ''FAILED'' in (status, r # rs))
      else let (status, rs) = run_commands shell (Suc i) cs overall in (status, r # rs))"

definition run_acceptance :: "shell \<Rightarrow> string \<Rightarrow> build_version \<Rightarrow> acceptance_result" where
  "run_acceptance shell run_id v =
    (let (overall, results) = run_commands shell 0 (bv_acceptance_commands v) ''PASSED'';
         status = (if bv_acceptance_commands v = [] then ''PASSED'' else overall)
     in \<lparr>ar_run_id = run_id, ar_version = bv_version v, ar_attempt = 1, ar_status = status, ar_commands = results\<rparr>)"

section \<open>What a verdict means\<close>

definition succeeds :: "shell \<Rightarrow> acceptance_command list \<Rightarrow> nat \<Rightarrow> bool" where
  "succeeds shell cs i \<longleftrightarrow> shell i (ac_command (cs ! i)) = 0"

text \<open>The command after which the loop stops: the first failing one that may not fail.\<close>

fun commands_run :: "shell \<Rightarrow> nat \<Rightarrow> acceptance_command list \<Rightarrow> nat" where
  "commands_run shell i [] = 0"
| "commands_run shell i (c # cs) =
     (if shell i (ac_command c) \<noteq> 0 \<and> \<not> ac_continue_on_failure c then 1 else Suc (commands_run shell (Suc i) cs))"

lemma run_commands_results:
  "snd (run_commands shell i cs overall)
    = map (\<lambda>k. run_command shell (i + k) (cs ! k)) [0..<commands_run shell i cs]"
proof (induction cs arbitrary: i overall)
  case (Cons c cs)
  have "map (\<lambda>k. run_command shell (i + k) ((c # cs) ! k)) [0..<Suc n]
      = run_command shell i c # map (\<lambda>k. run_command shell (Suc i + k) (cs ! k)) [0..<n]" for n
    by (subst upt_conv_Cons) (simp_all add: map_Suc_upt [symmetric] comp_def del: upt_Suc map_Suc_upt)
  with Cons show ?case
    by (simp add: run_command_def Let_def split_def del: upt_Suc)
qed simp

lemma run_commands_status:
  "fst (run_commands shell i cs overall)
    = (if \<forall>k<length cs. shell (i + k) (ac_command (cs ! k)) = 0 then overall else ''FAILED'')"
proof (induction cs arbitrary: i overall)
  case (Cons c cs)
  have split: "(\<forall>k<length (c # cs). shell (i + k) (ac_command ((c # cs) ! k)) = 0)
      \<longleftrightarrow> shell i (ac_command c) = 0 \<and> (\<forall>k<length cs. shell (Suc i + k) (ac_command (cs ! k)) = 0)"
    by (auto simp: less_Suc_eq_0_disj)
  show ?case
    unfolding split using Cons [of "Suc i" overall] Cons [of "Suc i" "''FAILED''"]
    by (auto simp: run_command_def Let_def split_def)
qed simp

lemma acceptance_verdict:
  "ar_status (run_acceptance shell run_id v)
    = (if \<forall>i<length (bv_acceptance_commands v). succeeds shell (bv_acceptance_commands v) i
       then ''PASSED'' else ''FAILED'')"
  using run_commands_status [of shell 0 "bv_acceptance_commands v" "''PASSED''"]
  by (auto simp: run_acceptance_def Let_def split_def succeeds_def)

lemma acceptance_results:
  "ar_commands (run_acceptance shell run_id v)
    = map (\<lambda>k. run_command shell k (bv_acceptance_commands v ! k))
        [0..<commands_run shell 0 (bv_acceptance_commands v)]"
  using run_commands_results [of shell 0 "bv_acceptance_commands v"]
  by (simp add: run_acceptance_def Let_def split_def)

lemma commands_run_le: "commands_run shell i cs \<le> length cs"
  by (induction cs arbitrary: i) auto

end
