(* ===== verification/RunnerMachine.thy ===== *)
theory RunnerMachine
  imports AcceptanceRun
begin

text \<open>
  \<open>runner/state_machine.py\<close>: the operations that move a runner state through the versions of its plan.
  Each takes the environment (clock, files, git, processes) and the state in memory, and returns the
  value or the exception together with the state it leaves, also when it raises.  Audit reports and
  prompts are written to files whose text is not modelled.
\<close>

record machine_env =
  me_clock :: "nat \<Rightarrow> string"              \<comment> \<open>the readings of \<open>_now()\<close> within one operation\<close>
  me_run_id :: string
  me_shell :: shell
  me_git :: "bool \<times> git_output \<times> git_output"
  me_exists :: "string \<Rightarrow> bool"
  me_read :: "string \<Rightarrow> string option"      \<comment> \<open>\<open>None\<close> when reading the file raises\<close>
  me_write :: "string \<Rightarrow> bool"              \<comment> \<open>false when writing the file raises\<close>

type_synonym 'a outcome = "(py_error + 'a) \<times> runner_state"

text \<open>\<open>os.path.join(a, b)\<close>.\<close>

definition path_join :: "string \<Rightarrow> string \<Rightarrow> string" where
  "path_join a b =
    (if starts_with b ''/'' then b else if a = [] \<or> ends_with a ''/'' then a @ b else a @ CHR ''/'' # b)"

text \<open>The position a Python index denotes; negative ones count from the end.\<close>

definition py_pos :: "nat \<Rightarrow> int \<Rightarrow> nat option" where
  "py_pos n i = (if 0 \<le> i \<and> i < int n then Some (nat i)
                 else if - int n \<le> i \<and> i < 0 then Some (nat (i + int n)) else None)"

definition upd_version :: "nat \<Rightarrow> (version_state \<Rightarrow> version_state) \<Rightarrow> runner_state \<Rightarrow> runner_state" where
  "upd_version k f st = st\<lparr>rs_versions := (rs_versions st)[k := f (rs_versions st ! k)]\<rparr>"

text \<open>\<open>not self.state.current_version\<close>\<close>

definition no_current :: "runner_state \<Rightarrow> bool" where
  "no_current st \<longleftrightarrow> rs_current_version st = None \<or> rs_current_version st = Some []"

definition audit_path :: "build_plan \<Rightarrow> string \<Rightarrow> string" where
  "audit_path plan version = path_join (bp_logs_dir plan) (version @ ''-audit.md'')"

text \<open>\<open>_build_acceptance_audit\<close>: \<open>None\<close> when reading the prompt or writing the report raises.\<close>

definition build_acceptance_audit :: "machine_env \<Rightarrow> build_plan \<Rightarrow> build_version \<Rightarrow> nat \<Rightarrow> runner_state
    \<Rightarrow> (string \<times> runner_state) option" where
  "build_acceptance_audit env plan v k st =
    (let prompt = path_join (bp_runtime_dir plan) ''current-prompt.md''; path = audit_path plan (bv_version v) in
     if me_exists env prompt \<and> me_read env prompt = None then None
     else if \<not> me_write env path then None
     else Some (path, upd_version k (vs_last_audit_file_update (\<lambda>_. Some path)) (st\<lparr>rs_last_audit_file := Some path\<rparr>)))"

record version_run_result =
  rr_run_id :: string
  rr_version :: string
  rr_attempt :: int
  rr_status :: string
  rr_acceptance :: acceptance_result
  rr_scope_status :: string
  rr_changed_files :: "string list"
  rr_audit_file :: "string option"
  rr_reference :: dict

definition os_error :: py_error where "os_error = Py_Exc ''OSError''"
definition value_error :: py_error where "value_error = Py_Exc ''ValueError''"
definition index_error :: py_error where "index_error = Py_Exc ''IndexError''"

text \<open>The part of \<open>_run_acceptance\<close> after the commands: the scope check and the verdict.\<close>

definition max_attempts_reached :: "bool \<Rightarrow> string \<Rightarrow> runner_state \<Rightarrow> bool" where
  "max_attempts_reached is_fix previous st \<longleftrightarrow>
     (is_fix \<or> previous = ''BLOCKED_BY_MAX_FIX_ATTEMPTS'') \<and> rs_max_fix_attempts st \<le> rs_attempt st"

definition settle_passed :: "machine_env \<Rightarrow> build_plan \<Rightarrow> build_version \<Rightarrow> nat \<Rightarrow> scope_result \<Rightarrow> runner_state
    \<Rightarrow> (string \<times> string option) outcome" where
  "settle_passed env plan v k scope st =
    (if sc_status scope = ''FAILED'' then
       (case build_acceptance_audit env plan v k st of
          None \<Rightarrow> (Inl os_error, st)
        | Some (path, st1) \<Rightarrow>
            (Inr (''FAILED'', Some path),
             upd_version k (vs_status_update (\<lambda>_. ''BLOCKED'')) (st1\<lparr>rs_status := ''BLOCKED_BY_SCOPE_VIOLATION''\<rparr>)))
     else (Inr (''PASSED'', None),
           upd_version k (\<lambda>s. s\<lparr>vs_status := ''PASSED'', vs_completed_at := Some (me_clock env 0), vs_last_audit_file := None\<rparr>)
             (st\<lparr>rs_status := ''VERSION_PASSED'', rs_last_audit_file := None, rs_last_error := None\<rparr>)))"

definition settle_failed :: "machine_env \<Rightarrow> build_plan \<Rightarrow> build_version \<Rightarrow> nat \<Rightarrow> bool \<Rightarrow> string \<Rightarrow> string \<Rightarrow> runner_state
    \<Rightarrow> (string \<times> string option) outcome" where
  "settle_failed env plan v k is_fix previous status st =
    (case build_acceptance_audit env plan v k st of
       None \<Rightarrow> (Inl os_error, st)
     | Some (path, st1) \<Rightarrow>
         (Inr (status, Some path),
          if max_attempts_reached is_fix previous st1
          then upd_version k (vs_status_update (\<lambda>_. ''BLOCKED'')) (st1\<lparr>rs_status := ''BLOCKED_BY_MAX_FIX_ATTEMPTS''\<rparr>)
          else upd_version k (vs_status_update (\<lambda>_. ''FAILED_BLOCKED''))
                 (st1\<lparr>rs_status := ''BLOCKED_BY_ACCEPTANCE_FAILURE''\<rparr>)))"

definition scope_of :: "machine_env \<Rightarrow> build_version \<Rightarrow> scope_result" where
  "scope_of env v = (case me_git env of (repo, names, stat) \<Rightarrow>
     check_scope (bv_allowed_files v) (bv_forbidden_files v) repo names stat)"

definition plan_references :: "build_plan \<Rightarrow> (string \<times> dict) list" where
  "plan_references plan = map (\<lambda>v. (bv_version v, bv_reference v)) (bp_versions plan)"

definition run_acceptance_step :: "bool \<Rightarrow> machine_env \<Rightarrow> build_plan \<Rightarrow> runner_state \<Rightarrow> version_run_result outcome" where
  "run_acceptance_step is_fix env plan st =
    (if no_current st then (Inl value_error, st)
     else case (py_pos (length (rs_versions st)) (rs_current_version_index st),
                py_pos (length (bp_versions plan)) (rs_current_version_index st)) of
       (Some k, Some j) \<Rightarrow>
         (let v = bp_versions plan ! j;
              st1 = upd_version k (vs_status_update (\<lambda>_. if is_fix then ''FIX_ACCEPTANCE_RUNNING'' else ''ACCEPTANCE_RUNNING''))
                      (st\<lparr>rs_status := (if is_fix then ''RUNNING_FIX_ACCEPTANCE'' else ''RUNNING_ACCEPTANCE'')\<rparr>);
              acc = (run_acceptance (me_shell env) (me_run_id env) v)\<lparr>ar_attempt := rs_attempt st\<rparr>;
              scope = (if ar_status acc = ''PASSED'' then scope_of env v else not_checked [] []);
              (res, st2) = (if ar_status acc = ''PASSED'' then settle_passed env plan v k scope st1
                            else settle_failed env plan v k is_fix (rs_status st) (ar_status acc) st1)
          in case res of
               Inl e \<Rightarrow> (Inl e, st2)
             | Inr (status, audit) \<Rightarrow>
                 (Inr \<lparr>rr_run_id = me_run_id env, rr_version = bv_version v, rr_attempt = rs_attempt st2, rr_status = status,
                       rr_acceptance = acc, rr_scope_status = sc_status scope, rr_changed_files = sc_changed_files scope,
                       rr_audit_file = audit,
                       rr_reference = resolve_plan_work_item_reference (bp_reference plan) (plan_references plan)
                         (Version_Object (bv_reference v))\<rparr>,
                  upd_version k (vs_last_run_id_update (\<lambda>_. Some (me_run_id env)))
                    (st2\<lparr>rs_updated_at := Some (me_clock env 1)\<rparr>)))
     | _ \<Rightarrow> (Inl index_error, st))"

section \<open>Blocks, audits and fix prompts\<close>

record no_changes_evidence =
  ev_mode :: py
  ev_provider :: py
  ev_version :: py
  ev_executor_changed_files :: "py list option"
  ev_validation_commands :: "py list option"

definition no_changes_record :: "no_changes_evidence \<Rightarrow> string \<Rightarrow> py" where
  "no_changes_record ev at = PDict
    [(''mode'', ev_mode ev), (''provider'', ev_provider ev), (''version'', ev_version ev),
     (''executor_changed_files'', PList (case ev_executor_changed_files ev of None \<Rightarrow> [] | Some xs \<Rightarrow> xs)),
     (''validation_commands'', PList (case ev_validation_commands ev of None \<Rightarrow> [] | Some xs \<Rightarrow> xs)),
     (''recorded_at'', PStr at)]"

definition mark_blocked_by_no_changes ::
  "machine_env \<Rightarrow> int \<Rightarrow> no_changes_evidence \<Rightarrow> string option \<Rightarrow> runner_state \<Rightarrow> unit outcome" where
  "mark_blocked_by_no_changes env i ev recorded st =
    (if i < 0 \<or> int (length (rs_versions st)) \<le> i then (Inl value_error, st)
     else let at = (case recorded of None \<Rightarrow> me_clock env 0 | Some t \<Rightarrow> if t = [] then me_clock env 0 else t);
              meta = (case vs_metadata (rs_versions st ! nat i) of None \<Rightarrow> [] | Some m \<Rightarrow> m)
          in (Inr (), upd_version (nat i) (\<lambda>s. s\<lparr>vs_status := ''FAILED_BLOCKED'', vs_attempt := rs_attempt st, vs_completed_at := None,
                vs_note := Some ''executor_no_changes: acceptance passed but no allowed_files diff was produced.'',
                vs_metadata := Some (dset ''executor_no_changes_blocked'' (no_changes_record ev at) meta)\<rparr>)
              (st\<lparr>rs_status := ''BLOCKED_BY_MODEL_FAILURE'', rs_updated_at := Some at\<rparr>)))"

definition truthy_path :: "string option \<Rightarrow> string list" where
  "truthy_path p = (case p of None \<Rightarrow> [] | Some s \<Rightarrow> if s = [] then [] else [s])"

definition audit_candidates :: "build_plan \<Rightarrow> runner_state \<Rightarrow> string list" where
  "audit_candidates plan st =
    (let i = rs_current_version_index st in
     truthy_path (rs_last_audit_file st)
     @ (if 0 \<le> i \<and> i < int (length (rs_versions st))
        then truthy_path (vs_last_audit_file (rs_versions st ! nat i)) else [])
     @ (if no_current st then [] else [audit_path plan (the (rs_current_version st))]))"

definition get_current_audit_file :: "machine_env \<Rightarrow> build_plan \<Rightarrow> runner_state \<Rightarrow> string option" where
  "get_current_audit_file env plan st = find (me_exists env) (audit_candidates plan st)"

definition or_empty :: "string option \<Rightarrow> string" where
  "or_empty s = (case s of None \<Rightarrow> [] | Some t \<Rightarrow> t)"

definition manual_fix_path :: "build_plan \<Rightarrow> string \<Rightarrow> int \<Rightarrow> string" where
  "manual_fix_path plan version attempt =
    path_join (bp_runtime_dir plan) (''manual-fix-'' @ version @ ''-attempt-'' @ show_int attempt @ ''.md'')"

definition attempts_exhausted :: "runner_state \<Rightarrow> bool" where
  "attempts_exhausted st \<longleftrightarrow> (if 0 < rs_max_fix_attempts st then rs_max_fix_attempts st \<le> rs_attempt st else True)"

text \<open>The writing part of \<open>paste_manual_fix_prompt\<close>; the prompt text it returns and writes is not modelled.\<close>

definition fix_prompt_ready :: "machine_env \<Rightarrow> string option \<Rightarrow> nat \<Rightarrow> runner_state \<Rightarrow> runner_state" where
  "fix_prompt_ready env audit k st =
    (let st2 = upd_version k (vs_status_update (\<lambda>_. ''FIX_PROMPT_READY'')) (st\<lparr>rs_status := ''FIX_PROMPT_READY''\<rparr>);
         st3 = (if or_empty audit \<noteq> []
                then upd_version k (vs_last_audit_file_update (\<lambda>_. audit)) (st2\<lparr>rs_last_audit_file := audit\<rparr>)
                else st2)
     in st3\<lparr>rs_updated_at := Some (me_clock env 0)\<rparr>)"

definition write_fix_prompt ::
  "machine_env \<Rightarrow> build_plan \<Rightarrow> string option \<Rightarrow> nat \<Rightarrow> build_version \<Rightarrow> runner_state \<Rightarrow> unit outcome" where
  "write_fix_prompt env plan audit k v st =
    (let n = rs_attempt st + 1;
         st1 = upd_version k (vs_attempt_update (\<lambda>_. n)) (st\<lparr>rs_attempt := n\<rparr>)
     in if \<not> me_write env (manual_fix_path plan (bv_version v) n) then (Inl os_error, st1)
        else if \<not> me_write env (path_join (bp_runtime_dir plan) ''current-fix-prompt.md'') then (Inl os_error, st1)
        else (Inr (), fix_prompt_ready env audit k st1))"

definition paste_manual_fix_prompt ::
  "machine_env \<Rightarrow> build_plan \<Rightarrow> string \<Rightarrow> string option \<Rightarrow> string option \<Rightarrow> bool \<Rightarrow> runner_state \<Rightarrow> unit outcome" where
  "paste_manual_fix_prompt env plan content audit_override markdown_override allow_recovery st =
    (if rs_status st = ''BLOCKED_BY_MAX_FIX_ATTEMPTS'' \<and> (attempts_exhausted st \<or> \<not> allow_recovery) then (Inl value_error, st)
     else let audit = (if or_empty audit_override \<noteq> [] then audit_override else get_current_audit_file env plan st);
              markdown = or_empty markdown_override in
       if or_empty audit = [] \<and> py_strip markdown = [] then (Inl value_error, st)
       else if py_strip content = [] then (Inl value_error, st)
       else if no_current st then (Inl value_error, st)
       else case (py_pos (length (rs_versions st)) (rs_current_version_index st),
                  py_pos (length (bp_versions plan)) (rs_current_version_index st)) of
         (Some k, Some j) \<Rightarrow>
           if py_strip markdown = [] \<and> me_read env (or_empty audit) = None then (Inl os_error, st)
           else write_fix_prompt env plan audit k (bp_versions plan ! j) st
       | _ \<Rightarrow> (Inl index_error, st))"

definition reset_current_attempt :: "machine_env \<Rightarrow> build_plan \<Rightarrow> runner_state \<Rightarrow> unit outcome" where
  "reset_current_attempt env plan st =
    (if no_current st then (Inl value_error, st)
     else case py_pos (length (rs_versions st)) (rs_current_version_index st) of
       None \<Rightarrow> (Inl index_error, st)
     | Some k \<Rightarrow>
         (let st1 = upd_version k (vs_attempt_update (\<lambda>_. 0)) (st\<lparr>rs_attempt := 1\<rparr>);
              st2 = (if get_current_audit_file env plan st1 \<noteq> None
                     then upd_version k (vs_status_update (\<lambda>_. ''FAILED_BLOCKED'')) (st1\<lparr>rs_status := ''BLOCKED_BY_ACCEPTANCE_FAILURE''\<rparr>)
                     else upd_version k (vs_status_update (\<lambda>_. ''NOT_STARTED'')) (st1\<lparr>rs_status := ''READY''\<rparr>))
          in (Inr (), st2\<lparr>rs_updated_at := Some (me_clock env 0)\<rparr>)))"

section \<open>Moving to the next version\<close>

text \<open>\<open>_ensure_state_versions_aligned\<close>: the dict of runtimes by version, of which the last one of a name
  counts, and \<open>pop\<close>, so that a second plan version of the same name starts anew.\<close>

fun align_versions :: "version_state list \<Rightarrow> build_version list \<Rightarrow> version_state list" where
  "align_versions old [] = []"
| "align_versions old (v # vs) =
     (case find (\<lambda>s. vs_version s = bv_version v) (rev old) of
        None \<Rightarrow> new_version_state v
      | Some s \<Rightarrow> s\<lparr>vs_name := bv_name v\<rparr>)
     # align_versions (filter (\<lambda>s. vs_version s \<noteq> bv_version v) old) vs"

definition ensure_state_versions_aligned :: "build_plan \<Rightarrow> runner_state \<Rightarrow> runner_state" where
  "ensure_state_versions_aligned plan st = st\<lparr>rs_versions := align_versions (rs_versions st) (bp_versions plan)\<rparr>"

definition enabled_after :: "build_plan \<Rightarrow> int \<Rightarrow> bool" where
  "enabled_after plan i \<longleftrightarrow> list_ex (\<lambda>j. bv_enabled (bp_versions plan ! nat j)) [i + 1 .. int (length (bp_versions plan)) - 1]"

definition reopen_completed_state_if_pending :: "build_plan \<Rightarrow> runner_state \<Rightarrow> bool \<times> runner_state" where
  "reopen_completed_state_if_pending plan st =
    (let i = rs_current_version_index st in
     if rs_status st \<noteq> ''COMPLETED'' \<or> i < 0 \<or> int (length (rs_versions st)) \<le> i
        \<or> vs_status (rs_versions st ! nat i) \<noteq> ''PASSED'' then (False, st)
     else if enabled_after plan i then (True, st\<lparr>rs_status := ''VERSION_PASSED'', rs_completed_at := None\<rparr>)
     else (False, st))"

definition normalize_passed_current_version_status :: "runner_state \<Rightarrow> runner_state" where
  "normalize_passed_current_version_status st =
    (let i = rs_current_version_index st in
     if no_current st \<or> i < 0 \<or> int (length (rs_versions st)) \<le> i then st
     else if vs_status (rs_versions st ! nat i) = ''PASSED''
             \<and> rs_status st \<in> {''READY'', ''BLOCKED_BY_MAX_FIX_ATTEMPTS''}
     then st\<lparr>rs_status := ''VERSION_PASSED''\<rparr> else st)"

text \<open>The loop that looks for the next version; indices may be negative as in Python.  The error is an
  index out of range.\<close>

fun find_next :: "build_version list \<Rightarrow> version_state list \<Rightarrow> int list \<Rightarrow> py_error + int option" where
  "find_next pvs svs [] = Inr None"
| "find_next pvs svs (i # is) =
     (case py_pos (length pvs) i of
        None \<Rightarrow> Inl index_error
      | Some j \<Rightarrow>
          if \<not> bv_enabled (pvs ! j) then find_next pvs svs is
          else case py_pos (length svs) i of
                 None \<Rightarrow> Inl index_error
               | Some k \<Rightarrow> if vs_status (svs ! k) = ''PASSED'' then find_next pvs svs is else Inr (Some i))"

definition continue_next_version :: "machine_env \<Rightarrow> build_plan \<Rightarrow> runner_state \<Rightarrow> unit outcome" where
  "continue_next_version env plan st0 =
    (let st1 = normalize_passed_current_version_status st0 in
     if rs_status st1 \<noteq> ''VERSION_PASSED'' then (Inl value_error, st1)
     else let st = ensure_state_versions_aligned plan st1 in
       case find_next (bp_versions plan) (rs_versions st)
              [rs_current_version_index st + 1 .. int (length (bp_versions plan)) - 1] of
         Inl e \<Rightarrow> (Inl e, st)
       | Inr None \<Rightarrow>
           (Inr (), st\<lparr>rs_status := ''COMPLETED'', rs_completed_at := Some (me_clock env 0), rs_updated_at := Some (me_clock env 0)\<rparr>)
       | Inr (Some i) \<Rightarrow>
           (let k = the (py_pos (length (rs_versions st)) i); v = bp_versions plan ! the (py_pos (length (bp_versions plan)) i)
            in (Inr (), upd_version k (\<lambda>s. s\<lparr>vs_status := (if vs_status s = [] then ''NOT_STARTED'' else vs_status s),
                    vs_version := bv_version v, vs_name := bv_name v\<rparr>)
                 (st\<lparr>rs_current_version_index := i, rs_current_version := Some (bv_version v), rs_attempt := 1,
                     rs_status := ''READY'', rs_last_error := None, rs_last_log_file := None,
                     rs_updated_at := Some (me_clock env 0)\<rparr>))))"

end
