(* ===== verification/RunnerFacts.thy ===== *)
theory RunnerFacts
  imports RunnerMachine
begin

text \<open>
  What the operations of the runner's state machine do: the verdict of an acceptance run, the choice of
  the next version, and the invariant of the states they reach, whose main consequence is that a
  completed run has passed every enabled version.
\<close>

lemma py_pos_nonneg [simp]: "0 \<le> i \<Longrightarrow> i < int n \<Longrightarrow> py_pos n i = Some (nat i)"
  by (simp add: py_pos_def)

lemma py_pos_less: "py_pos n i = Some k \<Longrightarrow> k < n"
  by (auto simp: py_pos_def split: if_splits)

lemma py_pos_Some_nonneg: "py_pos n i = Some k \<Longrightarrow> 0 \<le> i \<Longrightarrow> k = nat i \<and> i < int n"
  by (auto simp: py_pos_def split: if_splits)

lemma upd_version_fields [simp]:
  "rs_status (upd_version k f st) = rs_status st" "rs_current_version (upd_version k f st) = rs_current_version st"
  "rs_current_version_index (upd_version k f st) = rs_current_version_index st"
  "rs_attempt (upd_version k f st) = rs_attempt st" "rs_max_fix_attempts (upd_version k f st) = rs_max_fix_attempts st"
  "rs_versions (upd_version k f st) = (rs_versions st)[k := f (rs_versions st ! k)]"
  "no_current (upd_version k f st) = no_current st"
  by (simp_all add: upd_version_def no_current_def)

lemma no_current_cong: "rs_current_version st' = rs_current_version st \<Longrightarrow> no_current st' = no_current st"
  by (simp add: no_current_def)

section \<open>Acceptance runs\<close>

text \<open>The fields of the state after the audit was written.\<close>

lemma build_acceptance_audit_fields:
  assumes "build_acceptance_audit env plan v k st = Some (path, st1)"
  shows "rs_status st1 = rs_status st" "rs_current_version st1 = rs_current_version st"
    "rs_current_version_index st1 = rs_current_version_index st" "rs_attempt st1 = rs_attempt st"
    "rs_max_fix_attempts st1 = rs_max_fix_attempts st"
    "rs_versions st1 = (rs_versions st)[k := (rs_versions st ! k)\<lparr>vs_last_audit_file := Some path\<rparr>]"
    "path = audit_path plan (bv_version v)"
  using assms by (auto simp: build_acceptance_audit_def Let_def upd_version_def split: if_splits)

text \<open>The verdict on a version: the statuses of the runner and of the version.\<close>

definition verdict :: "bool \<Rightarrow> machine_env \<Rightarrow> build_version \<Rightarrow> runner_state \<Rightarrow> string \<times> string" where
  "verdict is_fix env v st =
    (if \<forall>i<length (bv_acceptance_commands v). succeeds (me_shell env) (bv_acceptance_commands v) i
     then (if sc_status (scope_of env v) = ''FAILED'' then (''BLOCKED_BY_SCOPE_VIOLATION'', ''BLOCKED'')
           else (''VERSION_PASSED'', ''PASSED''))
     else if max_attempts_reached is_fix (rs_status st) st then (''BLOCKED_BY_MAX_FIX_ATTEMPTS'', ''BLOCKED'')
     else (''BLOCKED_BY_ACCEPTANCE_FAILURE'', ''FAILED_BLOCKED''))"

text \<open>Every run, also one that raises, changes the current version only and keeps the place in the plan.\<close>

definition same_place :: "runner_state \<Rightarrow> runner_state \<Rightarrow> bool" where
  "same_place st st' \<longleftrightarrow> rs_current_version st' = rs_current_version st
     \<and> rs_current_version_index st' = rs_current_version_index st
     \<and> rs_attempt st' = rs_attempt st \<and> rs_max_fix_attempts st' = rs_max_fix_attempts st"

definition changes_only :: "nat \<Rightarrow> runner_state \<Rightarrow> runner_state \<Rightarrow> bool" where
  "changes_only k st st' \<longleftrightarrow> (\<exists>s. rs_versions st' = (rs_versions st)[k := s] \<and> vs_version s = vs_version (rs_versions st ! k))"

lemma changes_only_refl [simp]: "changes_only k st st"
  unfolding changes_only_def by (rule exI [of _ "rs_versions st ! k"]) simp

lemma settle_passed_effect:
  assumes "settle_passed env plan v k scope st = (res, st')" "k < length (rs_versions st)"
  shows "same_place st st' \<and> changes_only k st st'
    \<and> (case res of Inl e \<Rightarrow> st' = st
       | Inr _ \<Rightarrow> (rs_status st', vs_status (rs_versions st' ! k)) =
           (if sc_status scope = ''FAILED'' then (''BLOCKED_BY_SCOPE_VIOLATION'', ''BLOCKED'') else (''VERSION_PASSED'', ''PASSED'')))"
proof (cases "sc_status scope = ''FAILED''")
  case True
  show ?thesis
  proof (cases "build_acceptance_audit env plan v k st")
    case None
    with assms True show ?thesis by (auto simp: settle_passed_def same_place_def)
  next
    case (Some r)
    obtain path st1 where r: "r = (path, st1)" by fastforce
    note fields = build_acceptance_audit_fields [OF Some [unfolded r]]
    from assms True Some r show ?thesis
      by (auto simp: settle_passed_def same_place_def changes_only_def fields)
  qed
next
  case False
  with assms show ?thesis by (auto simp: settle_passed_def same_place_def changes_only_def)
qed

lemma settle_failed_effect:
  assumes "settle_failed env plan v k is_fix previous status st = (res, st')" "k < length (rs_versions st)"
  shows "same_place st st' \<and> changes_only k st st'
    \<and> (case res of Inl e \<Rightarrow> st' = st
       | Inr _ \<Rightarrow> (rs_status st', vs_status (rs_versions st' ! k)) =
           (if max_attempts_reached is_fix previous st then (''BLOCKED_BY_MAX_FIX_ATTEMPTS'', ''BLOCKED'')
            else (''BLOCKED_BY_ACCEPTANCE_FAILURE'', ''FAILED_BLOCKED'')))"
proof (cases "build_acceptance_audit env plan v k st")
  case None
  with assms show ?thesis by (auto simp: settle_failed_def same_place_def)
next
  case (Some r)
  obtain path st1 where r: "r = (path, st1)" by fastforce
  note fields = build_acceptance_audit_fields [OF Some [unfolded r]]
  have m: "max_attempts_reached is_fix previous st1 = max_attempts_reached is_fix previous st"
    by (simp add: max_attempts_reached_def fields)
  from assms Some r show ?thesis
    by (auto simp: settle_failed_def same_place_def changes_only_def fields m)
qed

lemma changes_only_trans: "changes_only k st st1 \<Longrightarrow> changes_only k st1 st2 \<Longrightarrow> k < length (rs_versions st) \<Longrightarrow> changes_only k st st2"
  by (auto simp: changes_only_def)

lemma same_place_trans: "same_place st st1 \<Longrightarrow> same_place st1 st2 \<Longrightarrow> same_place st st2"
  by (simp add: same_place_def)

text \<open>The whole operation.  \<open>k\<close> and \<open>j\<close> are the positions of the current version in the state and the plan.\<close>

lemma run_acceptance_step_effect:
  assumes run: "run_acceptance_step is_fix env plan st = (res, st')"
    and cur: "\<not> no_current st" and k: "py_pos (length (rs_versions st)) (rs_current_version_index st) = Some k"
    and j: "py_pos (length (bp_versions plan)) (rs_current_version_index st) = Some j"
  shows "same_place st st' \<and> changes_only k st st'
    \<and> (case res of
         Inl e \<Rightarrow> rs_status st' = (if is_fix then ''RUNNING_FIX_ACCEPTANCE'' else ''RUNNING_ACCEPTANCE'')
           \<and> vs_status (rs_versions st' ! k) = (if is_fix then ''FIX_ACCEPTANCE_RUNNING'' else ''ACCEPTANCE_RUNNING'')
       | Inr r \<Rightarrow> (rs_status st', vs_status (rs_versions st' ! k)) = verdict is_fix env (bp_versions plan ! j) st
           \<and> (rr_status r = ''PASSED'' \<longleftrightarrow> rs_status st' = ''VERSION_PASSED'')
           \<and> rr_acceptance r = (run_acceptance (me_shell env) (me_run_id env) (bp_versions plan ! j))\<lparr>ar_attempt := rs_attempt st\<rparr>)"
proof -
  define v where "v = bp_versions plan ! j"
  define st1 where "st1 = upd_version k (vs_status_update (\<lambda>_. if is_fix then ''FIX_ACCEPTANCE_RUNNING'' else ''ACCEPTANCE_RUNNING''))
                      (st\<lparr>rs_status := (if is_fix then ''RUNNING_FIX_ACCEPTANCE'' else ''RUNNING_ACCEPTANCE'')\<rparr>)"
  define acc where "acc = (run_acceptance (me_shell env) (me_run_id env) v)\<lparr>ar_attempt := rs_attempt st\<rparr>"
  define scope where "scope = (if ar_status acc = ''PASSED'' then scope_of env v else not_checked [] [])"
  define settle where "settle = (if ar_status acc = ''PASSED'' then settle_passed env plan v k scope st1
                            else settle_failed env plan v k is_fix (rs_status st) (ar_status acc) st1)"
  obtain r2 st2 where settle2: "settle = (r2, st2)" by fastforce
  have klen: "k < length (rs_versions st)" using k by (rule py_pos_less)
  have st1: "same_place st st1 \<and> changes_only k st st1" "k < length (rs_versions st1)"
    using klen by (auto simp: st1_def same_place_def changes_only_def)
  have acc_status: "ar_status acc = (if \<forall>i<length (bv_acceptance_commands v). succeeds (me_shell env) (bv_acceptance_commands v) i
       then ''PASSED'' else ''FAILED'')"
    using acceptance_verdict by (simp add: acc_def)
  have max: "max_attempts_reached is_fix (rs_status st) st1 = max_attempts_reached is_fix (rs_status st) st"
    by (simp add: max_attempts_reached_def st1_def)
  have eff: "same_place st1 st2 \<and> changes_only k st1 st2
    \<and> (case r2 of Inl e \<Rightarrow> st2 = st1 | Inr _ \<Rightarrow> (rs_status st2, vs_status (rs_versions st2 ! k)) = verdict is_fix env v st)"
  proof (cases "ar_status acc = ''PASSED''")
    case True
    with settle2 have "settle_passed env plan v k scope st1 = (r2, st2)" by (simp add: settle_def)
    from settle_passed_effect [OF this st1(2)] True acc_status show ?thesis
      by (auto simp: verdict_def scope_def split: sum.splits if_splits)
  next
    case False
    with settle2 have "settle_failed env plan v k is_fix (rs_status st) (ar_status acc) st1 = (r2, st2)" by (simp add: settle_def)
    from settle_failed_effect [OF this st1(2)] False acc_status max show ?thesis
      by (auto simp: verdict_def split: sum.splits if_splits)
  qed
  have rr: "(status = ''PASSED'') = (rs_status st2 = ''VERSION_PASSED'')" if "r2 = Inr (status, audit)" for status audit
    using that settle2 eff acc_status
    by (auto simp: settle_def settle_passed_def settle_failed_def verdict_def scope_def split: if_splits option.splits)
  have place: "same_place st st2" "changes_only k st st2"
    using eff st1 same_place_trans changes_only_trans klen by blast+
  show ?thesis
  proof (cases r2)
    case (Inl e)
    then have "res = Inl e" "st' = st2"
      using run cur k j settle2 unfolding run_acceptance_step_def v_def st1_def acc_def scope_def settle_def
      by (auto simp: Let_def)
    with Inl eff place klen show ?thesis by (simp add: st1_def)
  next
    case (Inr sa)
    obtain status audit where sa: "sa = (status, audit)" by fastforce
    have res: "\<exists>r. res = Inr r \<and> rr_status r = status \<and> rr_acceptance r = acc"
      and st': "st' = upd_version k (vs_last_run_id_update (\<lambda>_. Some (me_run_id env))) (st2\<lparr>rs_updated_at := Some (me_clock env 1)\<rparr>)"
      using run cur k j settle2 Inr sa unfolding run_acceptance_step_def v_def st1_def acc_def scope_def settle_def
      by (auto simp: Let_def)
    have k2: "k < length (rs_versions st2)" using place(2) klen by (auto simp: changes_only_def)
    have "same_place st2 st'" "changes_only k st2 st'" by (auto simp: st' same_place_def changes_only_def)
    with place have "same_place st st'" "changes_only k st st'"
      using same_place_trans changes_only_trans klen by blast+
    moreover have "vs_status (rs_versions st' ! k) = vs_status (rs_versions st2 ! k)" "rs_status st' = rs_status st2"
      using k2 by (simp_all add: st')
    ultimately show ?thesis using res eff Inr sa rr [of status audit] by (auto simp: v_def acc_def)
  qed
qed

lemma run_acceptance_step_raises:
  assumes "no_current st \<or> py_pos (length (rs_versions st)) (rs_current_version_index st) = None
      \<or> py_pos (length (bp_versions plan)) (rs_current_version_index st) = None"
  shows "\<exists>e. run_acceptance_step is_fix env plan st = (Inl e, st)"
  using assms by (auto simp: run_acceptance_step_def split: option.splits)

end
