(* ===== verification/RunnerInvariants.thy ===== *)
theory RunnerInvariants
  imports RunnerFacts
begin

text \<open>
  The states a runner reaches from \<open>initialize_state\<close> on a fixed plan whose versions have distinct names.
  Every operation of the machine is a step, with any environment and also when it raises.
\<close>

section \<open>Aligned versions\<close>

definition aligned :: "build_plan \<Rightarrow> runner_state \<Rightarrow> bool" where
  "aligned plan st \<longleftrightarrow> map vs_version (rs_versions st) = map bv_version (bp_versions plan)"

lemma align_versions_id:
  "map vs_version svs = map bv_version pvs \<Longrightarrow> distinct (map bv_version pvs) \<Longrightarrow>
     align_versions svs pvs = map2 (\<lambda>s v. s\<lparr>vs_name := bv_name v\<rparr>) svs pvs"
proof (induction pvs arbitrary: svs)
  case (Cons v pvs)
  then obtain s ss where svs: "svs = s # ss" "vs_version s = bv_version v" "map vs_version ss = map bv_version pvs"
    by (cases svs) auto
  have no: "\<forall>x\<in>set ss. vs_version x \<noteq> bv_version v"
    using Cons.prems(2) svs(3) by (metis distinct.simps(2) image_eqI list.simps(9) set_map)
  then have "find (\<lambda>s. vs_version s = bv_version v) (rev ss) = None" by (auto simp: find_None_iff)
  moreover have "filter (\<lambda>s. vs_version s \<noteq> bv_version v) ss = ss" using no by (simp add: filter_id_conv)
  ultimately show ?case using Cons svs by (simp add: find_append)
qed simp

lemma aligned_versions:
  assumes "aligned plan st" "distinct (map bv_version (bp_versions plan))"
  defines "st1 \<equiv> ensure_state_versions_aligned plan st"
  shows "aligned plan st1" "length (rs_versions st1) = length (bp_versions plan)"
    "\<And>j. j < length (bp_versions plan) \<Longrightarrow> vs_status (rs_versions st1 ! j) = vs_status (rs_versions st ! j)"
    "\<And>j. j < length (bp_versions plan) \<Longrightarrow> vs_version (rs_versions st1 ! j) = bv_version (bp_versions plan ! j)"
proof -
  have m: "map vs_version (rs_versions st) = map bv_version (bp_versions plan)" using assms(1) by (simp add: aligned_def)
  then have len: "length (rs_versions st) = length (bp_versions plan)" by (metis length_map)
  have v: "vs_version (rs_versions st ! j) = bv_version (bp_versions plan ! j)" if "j < length (bp_versions plan)" for j
    using m that len by (metis nth_map)
  have e: "rs_versions st1 = map2 (\<lambda>s v. s\<lparr>vs_name := bv_name v\<rparr>) (rs_versions st) (bp_versions plan)"
    using align_versions_id [OF m assms(2)] by (simp add: st1_def ensure_state_versions_aligned_def)
  show "length (rs_versions st1) = length (bp_versions plan)" by (simp add: e len)
  show "\<And>j. j < length (bp_versions plan) \<Longrightarrow> vs_status (rs_versions st1 ! j) = vs_status (rs_versions st ! j)"
    by (simp add: e len)
  show n: "\<And>j. j < length (bp_versions plan) \<Longrightarrow> vs_version (rs_versions st1 ! j) = bv_version (bp_versions plan ! j)"
    by (simp add: e len v)
  show "aligned plan st1"
    unfolding aligned_def by (rule nth_equalityI) (simp_all add: e len v)
qed

section \<open>The search for the next version\<close>

definition version_settled :: "build_version list \<Rightarrow> version_state list \<Rightarrow> int \<Rightarrow> bool" where
  "version_settled pvs svs j \<longleftrightarrow> (bv_enabled (pvs ! nat j) \<longrightarrow> vs_status (svs ! nat j) = ''PASSED'')"

lemma find_next_spec:
  assumes "length svs = length pvs"
  shows "sorted is \<Longrightarrow> \<forall>j\<in>set is. 0 \<le> j \<and> j < int (length pvs) \<Longrightarrow>
    (case find_next pvs svs is of
       Inl e \<Rightarrow> False
     | Inr None \<Rightarrow> \<forall>j\<in>set is. version_settled pvs svs j
     | Inr (Some i) \<Rightarrow> i \<in> set is \<and> \<not> version_settled pvs svs i \<and> (\<forall>j\<in>set is. j < i \<longrightarrow> version_settled pvs svs j))"
proof (induction "is")
  case (Cons i "is")
  then have "i < int (length pvs)" "0 \<le> i" by auto
  then have pos: "py_pos (length pvs) i = Some (nat i)" "py_pos (length svs) i = Some (nat i)"
    using assms by auto
  show ?case
  proof (cases "version_settled pvs svs i")
    case True
    then have "find_next pvs svs (i # is) = find_next pvs svs is" using pos by (auto simp: version_settled_def)
    with Cons True show ?thesis by (auto split: sum.splits option.splits)
  next
    case False
    then have "find_next pvs svs (i # is) = Inr (Some i)" using pos by (auto simp: version_settled_def)
    with Cons False show ?thesis by auto
  qed
qed simp

text \<open>What \<open>continue_next_version\<close> does to an aligned state: it moves to the next version that is enabled
  and not passed, or completes when there is none.\<close>

lemma continue_next_version_spec:
  assumes al: "aligned plan st" and di: "distinct (map bv_version (bp_versions plan))"
    and idx: "0 \<le> rs_current_version_index st"
    and passed: "rs_status (normalize_passed_current_version_status st) = ''VERSION_PASSED''"
    and c: "continue_next_version env plan st = (res, st')"
  shows "res = Inr () \<and> aligned plan st' \<and>
    (\<forall>j<length (bp_versions plan). vs_status (rs_versions st' ! j) = vs_status (rs_versions st ! j)
       \<or> vs_status (rs_versions st ! j) = [] \<and> vs_status (rs_versions st' ! j) = ''NOT_STARTED'') \<and>
    (if \<forall>j. rs_current_version_index st < j \<and> j < int (length (bp_versions plan)) \<longrightarrow> version_settled (bp_versions plan) (rs_versions st) j
     then rs_status st' = ''COMPLETED'' \<and> rs_current_version_index st' = rs_current_version_index st
        \<and> rs_current_version st' = rs_current_version st \<and> (\<forall>j<length (bp_versions plan). vs_status (rs_versions st' ! j) = vs_status (rs_versions st ! j))
     else rs_status st' = ''READY'' \<and> rs_attempt st' = 1
        \<and> rs_current_version_index st < rs_current_version_index st' \<and> rs_current_version_index st' < int (length (bp_versions plan))
        \<and> \<not> version_settled (bp_versions plan) (rs_versions st) (rs_current_version_index st')
        \<and> rs_current_version st' = Some (bv_version (bp_versions plan ! nat (rs_current_version_index st')))
        \<and> (\<forall>j. rs_current_version_index st < j \<and> j < rs_current_version_index st' \<longrightarrow> version_settled (bp_versions plan) (rs_versions st) j))"
proof -
  define st1 where "st1 = normalize_passed_current_version_status st"
  define st2 where "st2 = ensure_state_versions_aligned plan st1"
  define i where "i = rs_current_version_index st"
  define n where "n = length (bp_versions plan)"
  have norm: "rs_versions st1 = rs_versions st" "rs_current_version st1 = rs_current_version st"
    "rs_current_version_index st1 = i"
    by (auto simp: st1_def i_def normalize_passed_current_version_status_def Let_def)
  have st2f: "rs_current_version st2 = rs_current_version st" "rs_current_version_index st2 = i"
    by (simp_all add: st2_def ensure_state_versions_aligned_def norm)
  have al1: "aligned plan st1" using al by (simp add: aligned_def norm)
  note A = aligned_versions [OF al1 di, folded st2_def n_def, unfolded norm]
  have set_eq: "version_settled (bp_versions plan) (rs_versions st2) j = version_settled (bp_versions plan) (rs_versions st) j"
    if "0 \<le> j" "j < int n" for j
    using A(3) [of "nat j"] that by (simp add: version_settled_def)
  define fnd where "fnd = find_next (bp_versions plan) (rs_versions st2) [i + 1 .. int n - 1]"
  have spec: "case fnd of Inl e \<Rightarrow> False
     | Inr None \<Rightarrow> \<forall>j\<in>set [i + 1 .. int n - 1]. version_settled (bp_versions plan) (rs_versions st2) j
     | Inr (Some m) \<Rightarrow> m \<in> set [i + 1 .. int n - 1] \<and> \<not> version_settled (bp_versions plan) (rs_versions st2) m
        \<and> (\<forall>j\<in>set [i + 1 .. int n - 1]. j < m \<longrightarrow> version_settled (bp_versions plan) (rs_versions st2) j)"
    unfolding fnd_def by (rule find_next_spec) (use A(2) idx in \<open>auto simp: i_def n_def\<close>)
  have range: "set [i + 1 .. int n - 1] = {j. i < j \<and> j < int n}" by auto
  note c' = c [unfolded continue_next_version_def Let_def, folded st1_def, folded st2_def,
      unfolded st2f, folded n_def, folded fnd_def]
  show ?thesis
  proof (cases fnd)
    case (Inl e)
    with spec show ?thesis by simp
  next
    case (Inr r)
    show ?thesis
    proof (cases r)
      case None
      with spec Inr idx have all: "\<forall>j. i < j \<and> j < int n \<longrightarrow> version_settled (bp_versions plan) (rs_versions st) j"
        unfolding range by (auto simp: i_def set_eq)
      from c' passed Inr None have res: "res = Inr ()"
        and st': "st' = st2\<lparr>rs_status := ''COMPLETED'', rs_completed_at := Some (me_clock env 0), rs_updated_at := Some (me_clock env 0)\<rparr>"
        by (simp_all add: st1_def)
      from all res st' A(1) A(3) st2f show ?thesis
        unfolding n_def [symmetric] i_def [symmetric] by (simp add: aligned_def)
    next
      case (Some m)
      with spec Inr have m: "i < m" "m < int n" "\<not> version_settled (bp_versions plan) (rs_versions st2) m"
        and before: "\<forall>j. i < j \<and> j < m \<longrightarrow> version_settled (bp_versions plan) (rs_versions st2) j"
        unfolding range by auto
      have m0: "0 \<le> m" using m(1) idx by (simp add: i_def)
      have pos: "py_pos (length (rs_versions st2)) m = Some (nat m)" "py_pos n m = Some (nat m)"
        using m m0 A(2) by simp_all
      have not_all: "\<not> (\<forall>j. i < j \<and> j < int n \<longrightarrow> version_settled (bp_versions plan) (rs_versions st) j)"
        using m set_eq [OF m0 m(2)] by blast
      have before': "\<forall>j. i < j \<and> j < m \<longrightarrow> version_settled (bp_versions plan) (rs_versions st) j"
        using before set_eq m idx by (auto simp: i_def)
      define v where "v = bp_versions plan ! nat m"
      define g where "g = (\<lambda>s :: version_state. s\<lparr>vs_status := (if vs_status s = [] then ''NOT_STARTED'' else vs_status s),
                    vs_version := bv_version v, vs_name := bv_name v\<rparr>)"
      from c' passed Inr Some pos have res: "res = Inr ()"
        and st': "st' = upd_version (nat m) g
                 (st2\<lparr>rs_current_version_index := m, rs_current_version := Some (bv_version v), rs_attempt := 1,
                     rs_status := ''READY'', rs_last_error := None, rs_last_log_file := None,
                     rs_updated_at := Some (me_clock env 0)\<rparr>)"
        by (simp_all add: st1_def v_def n_def g_def)
      have len: "nat m < length (rs_versions st2)" using m m0 A(2) by simp
      have versions: "rs_versions st' = (rs_versions st2)[nat m := g (rs_versions st2 ! nat m)]" by (simp add: st')
      have al': "aligned plan st'"
        unfolding aligned_def versions
        by (rule nth_equalityI) (use A(2) A(4) len in \<open>auto simp: n_def nth_list_update g_def v_def\<close>)
      have keep: "vs_status (rs_versions st' ! j) = vs_status (rs_versions st ! j)
          \<or> vs_status (rs_versions st ! j) = [] \<and> vs_status (rs_versions st' ! j) = ''NOT_STARTED''"
        if "j < n" for j
        using that A(3) [of j] A(2) by (cases "j = nat m") (auto simp: versions g_def)
      have keep': "\<forall>j<n. vs_status (rs_versions st' ! j) = vs_status (rs_versions st ! j)
          \<or> vs_status (rs_versions st ! j) = [] \<and> vs_status (rs_versions st' ! j) = ''NOT_STARTED''"
        using keep by blast
      have f: "rs_status st' = ''READY''" "rs_attempt st' = 1" "rs_current_version_index st' = m"
        "rs_current_version st' = Some (bv_version (bp_versions plan ! nat m))"
        by (simp_all add: st' v_def)
      have ns: "\<not> version_settled (bp_versions plan) (rs_versions st) m" using m(3) set_eq [OF m0 m(2)] by simp
      show ?thesis
        unfolding n_def [symmetric] i_def [symmetric] if_not_P [OF not_all] f
        by (intro conjI res al' keep' m(1) m(2) ns before') (rule refl)+
    qed
  qed
qed

section \<open>Fix prompts\<close>

lemma write_fix_prompt_effect:
  assumes "write_fix_prompt env plan audit k v st = (res, st')" "k < length (rs_versions st)"
  shows "(res = Inl os_error \<and> st' = upd_version k (vs_attempt_update (\<lambda>_. rs_attempt st + 1)) (st\<lparr>rs_attempt := rs_attempt st + 1\<rparr>))
    \<or> (res = Inr () \<and> changes_only k st st' \<and> rs_current_version st' = rs_current_version st
         \<and> rs_current_version_index st' = rs_current_version_index st \<and> rs_status st' = ''FIX_PROMPT_READY''
         \<and> rs_attempt st' = rs_attempt st + 1 \<and> vs_status (rs_versions st' ! k) = ''FIX_PROMPT_READY'')"
  using assms by (auto simp: write_fix_prompt_def fix_prompt_ready_def Let_def changes_only_def split: if_splits)

lemma paste_effect:
  assumes "paste_manual_fix_prompt env plan content audit markdown allow st = (res, st')"
  shows "(st' = st \<and> (\<exists>e. res = Inl e))
    \<or> (\<exists>k. \<not> no_current st \<and> py_pos (length (rs_versions st)) (rs_current_version_index st) = Some k \<and> res = Inl os_error
         \<and> st' = upd_version k (vs_attempt_update (\<lambda>_. rs_attempt st + 1)) (st\<lparr>rs_attempt := rs_attempt st + 1\<rparr>))
    \<or> (\<exists>k. \<not> no_current st \<and> py_pos (length (rs_versions st)) (rs_current_version_index st) = Some k \<and> res = Inr ()
         \<and> changes_only k st st' \<and> rs_current_version st' = rs_current_version st
         \<and> rs_current_version_index st' = rs_current_version_index st \<and> rs_status st' = ''FIX_PROMPT_READY''
         \<and> rs_attempt st' = rs_attempt st + 1 \<and> vs_status (rs_versions st' ! k) = ''FIX_PROMPT_READY'')"
proof -
  from assms have "(st' = st \<and> (\<exists>e. res = Inl e)) \<or> (\<exists>k v a. \<not> no_current st
      \<and> py_pos (length (rs_versions st)) (rs_current_version_index st) = Some k \<and> write_fix_prompt env plan a k v st = (res, st'))"
    by (auto simp: paste_manual_fix_prompt_def Let_def split: if_splits option.splits)
  then show ?thesis using write_fix_prompt_effect py_pos_less by blast
qed

section \<open>Steps and reachable states\<close>

inductive machine_step :: "build_plan \<Rightarrow> runner_state \<Rightarrow> runner_state \<Rightarrow> bool" for plan where
  acceptance: "machine_step plan st (snd (run_acceptance_step is_fix env plan st))"
| no_changes: "machine_step plan st (snd (mark_blocked_by_no_changes env (rs_current_version_index st) ev recorded st))"
| fix_prompt: "machine_step plan st (snd (paste_manual_fix_prompt env plan content audit markdown allow st))"
| reset: "machine_step plan st (snd (reset_current_attempt env plan st))"
| reopen: "machine_step plan st (snd (reopen_completed_state_if_pending plan st))"
| normalise: "machine_step plan st (normalize_passed_current_version_status st)"
| continue: "machine_step plan st (snd (continue_next_version env plan st))"

inductive machine_reachable :: "build_plan \<Rightarrow> runner_state \<Rightarrow> bool" for plan where
  start: "machine_reachable plan (initialize_state plan now)"
| step: "machine_reachable plan st \<Longrightarrow> machine_step plan st st' \<Longrightarrow> machine_reachable plan st'"

text \<open>The current version is a version of the plan, every enabled version before it has passed, and the
  runner counts a version as passed only when it has.\<close>

definition current_ok :: "build_plan \<Rightarrow> runner_state \<Rightarrow> bool" where
  "current_ok plan st \<longleftrightarrow> 0 \<le> rs_current_version_index st
     \<and> (rs_current_version st \<noteq> None \<longrightarrow> rs_current_version_index st < int (length (bp_versions plan))
          \<and> rs_current_version st = Some (bv_version (bp_versions plan ! nat (rs_current_version_index st))))
     \<and> (\<forall>j. 0 \<le> j \<and> j < rs_current_version_index st \<longrightarrow> version_settled (bp_versions plan) (rs_versions st) j)
     \<and> (rs_current_version st = None \<longrightarrow> rs_current_version_index st = 0)"

definition passed_ok :: "build_plan \<Rightarrow> runner_state \<Rightarrow> bool" where
  "passed_ok plan st \<longleftrightarrow>
     (rs_status st \<in> {''VERSION_PASSED'', ''COMPLETED''} \<longrightarrow>
        rs_current_version st \<noteq> None \<and> vs_status (rs_versions st ! nat (rs_current_version_index st)) = ''PASSED'')
   \<and> (rs_status st = ''COMPLETED'' \<longrightarrow>
        (\<forall>j. rs_current_version_index st < j \<and> j < int (length (bp_versions plan)) \<longrightarrow> version_settled (bp_versions plan) (rs_versions st) j))"

definition machine_inv :: "build_plan \<Rightarrow> runner_state \<Rightarrow> bool" where
  "machine_inv plan st \<longleftrightarrow> aligned plan st \<and> current_ok plan st \<and> passed_ok plan st"

lemma machine_inv_length: "machine_inv plan st \<Longrightarrow> length (rs_versions st) = length (bp_versions plan)"
  by (metis aligned_def length_map machine_inv_def)

lemma first_enabled_spec:
  "first_enabled i pvs = Some (s, k) \<Longrightarrow> i \<le> k \<and> k < i + length pvs \<and> s = bv_version (pvs ! (k - i))
     \<and> (\<forall>j. i \<le> j \<and> j < k \<longrightarrow> \<not> bv_enabled (pvs ! (j - i)))"
proof (induction pvs arbitrary: i)
  case (Cons v pvs)
  show ?case
  proof (cases "bv_enabled v")
    case False
    with Cons.prems have "first_enabled (Suc i) pvs = Some (s, k)" by simp
    from Cons.IH [OF this] have IH: "Suc i \<le> k" "k < Suc i + length pvs" "s = bv_version (pvs ! (k - Suc i))"
      "\<forall>j. Suc i \<le> j \<and> j < k \<longrightarrow> \<not> bv_enabled (pvs ! (j - Suc i))" by simp_all
    have "\<not> bv_enabled ((v # pvs) ! (j - i))" if "i \<le> j" "j < k" for j
      using IH(4) that False by (cases "j = i") (auto simp: nth_Cons' Suc_diff_le)
    moreover have "k - i = Suc (k - Suc i)" using IH(1) by simp
    ultimately show ?thesis using IH(1-3) by simp
  qed (use Cons in auto)
qed simp

lemma machine_inv_start: "machine_inv plan (initialize_state plan now)"
proof -
  have s: "rs_status (initialize_state plan now) = ''READY''"
    "rs_versions (initialize_state plan now) = map new_version_state (bp_versions plan)"
    by (simp_all add: initialize_state_def Let_def)
  have "current_ok plan (initialize_state plan now)"
  proof (cases "first_enabled 0 (bp_versions plan)")
    case None
    then show ?thesis by (auto simp: current_ok_def initialize_state_def)
  next
    case (Some r)
    obtain v k where r: "r = (v, k)" by fastforce
    from first_enabled_spec [OF Some [unfolded r]] Some r show ?thesis
      by (auto simp: current_ok_def initialize_state_def version_settled_def nat_less_iff)
  qed
  then show ?thesis
    by (simp add: machine_inv_def aligned_def passed_ok_def s comp_def new_version_state_def)
qed

text \<open>An operation that stays at its version, changes no other version and claims nothing it did not check.\<close>

lemma machine_inv_local:
  assumes inv: "machine_inv plan st"
    and place: "rs_current_version st' = rs_current_version st" "rs_current_version_index st' = rs_current_version_index st"
    and ch: "changes_only (nat (rs_current_version_index st)) st st'"
    and claim: "rs_status st' \<noteq> ''COMPLETED''"
      "rs_status st' = ''VERSION_PASSED'' \<Longrightarrow>
         rs_current_version st \<noteq> None \<and> vs_status (rs_versions st' ! nat (rs_current_version_index st)) = ''PASSED''"
  shows "machine_inv plan st'"
proof -
  obtain s where v: "rs_versions st' = (rs_versions st)[nat (rs_current_version_index st) := s]"
    and s: "vs_version s = vs_version (rs_versions st ! nat (rs_current_version_index st))"
    using ch by (auto simp: changes_only_def)
  have "map vs_version (rs_versions st') = map vs_version (rs_versions st)"
    by (simp add: v map_update s) (metis list_update_id map_update nth_map list_update_beyond not_le_imp_less)
  then have "aligned plan st'" using inv by (simp add: machine_inv_def aligned_def)
  moreover have "current_ok plan st'"
    using inv place by (auto simp: machine_inv_def current_ok_def version_settled_def v)
  moreover have "passed_ok plan st'" using claim place by (auto simp: passed_ok_def)
  ultimately show ?thesis by (simp add: machine_inv_def)
qed

lemma machine_inv_same:
  assumes inv: "machine_inv plan st" and same: "rs_current_version st' = rs_current_version st"
    "rs_current_version_index st' = rs_current_version_index st" "rs_status st' = rs_status st"
    "map vs_version (rs_versions st') = map vs_version (rs_versions st)"
    "map vs_status (rs_versions st') = map vs_status (rs_versions st)"
  shows "machine_inv plan st'"
proof -
  have len: "length (rs_versions st') = length (bp_versions plan)" "length (rs_versions st) = length (bp_versions plan)"
    using machine_inv_length [OF inv] same(5) by (metis length_map)+
  have s: "vs_status (rs_versions st' ! j) = vs_status (rs_versions st ! j)" if "j < length (bp_versions plan)" for j
    using same(5) that len by (metis nth_map)
  have st: "version_settled (bp_versions plan) (rs_versions st') j = version_settled (bp_versions plan) (rs_versions st) j"
    if "0 \<le> j" "j < int (length (bp_versions plan))" for j
    using that s by (simp add: version_settled_def nat_less_iff)
  have c: "0 \<le> rs_current_version_index st"
    "rs_current_version st \<noteq> None \<longrightarrow> rs_current_version_index st < int (length (bp_versions plan))
       \<and> rs_current_version st = Some (bv_version (bp_versions plan ! nat (rs_current_version_index st)))"
    "\<forall>j. 0 \<le> j \<and> j < rs_current_version_index st \<longrightarrow> version_settled (bp_versions plan) (rs_versions st) j"
    "rs_current_version st = None \<longrightarrow> rs_current_version_index st = 0"
    using inv unfolding machine_inv_def current_ok_def by blast+
  have p: "rs_status st \<in> {''VERSION_PASSED'', ''COMPLETED''} \<Longrightarrow>
        rs_current_version st \<noteq> None \<and> vs_status (rs_versions st ! nat (rs_current_version_index st)) = ''PASSED''"
    "rs_status st = ''COMPLETED'' \<Longrightarrow>
        \<forall>j. rs_current_version_index st < j \<and> j < int (length (bp_versions plan)) \<longrightarrow> version_settled (bp_versions plan) (rs_versions st) j"
    using inv unfolding machine_inv_def passed_ok_def by blast+
  have i: "rs_current_version st \<noteq> None \<Longrightarrow> nat (rs_current_version_index st) < length (bp_versions plan)"
    using c(1,2) by (simp add: nat_less_iff)
  have "aligned plan st'" using inv same(4) by (simp add: machine_inv_def aligned_def)
  moreover have "current_ok plan st'"
    unfolding current_ok_def same(1,2)
  proof (intro conjI allI impI)
    fix j assume j: "0 \<le> j \<and> j < rs_current_version_index st"
    then have "j < int (length (bp_versions plan))" using c by linarith
    moreover have "version_settled (bp_versions plan) (rs_versions st) j" using c j by blast
    ultimately show "version_settled (bp_versions plan) (rs_versions st') j" using st j by blast
  qed (use c in blast)+
  moreover have "passed_ok plan st'"
    unfolding passed_ok_def same(1-3)
  proof (intro conjI allI impI)
    assume "rs_status st \<in> {''VERSION_PASSED'', ''COMPLETED''}"
    then show "rs_current_version st \<noteq> None" using p by blast
  next
    assume "rs_status st \<in> {''VERSION_PASSED'', ''COMPLETED''}"
    then have "rs_current_version st \<noteq> None" "vs_status (rs_versions st ! nat (rs_current_version_index st)) = ''PASSED''" using p by blast+
    then show "vs_status (rs_versions st' ! nat (rs_current_version_index st)) = ''PASSED''" using s i by simp
  next
    fix j assume "rs_status st = ''COMPLETED''" "rs_current_version_index st < j \<and> j < int (length (bp_versions plan))"
    moreover from this have "version_settled (bp_versions plan) (rs_versions st) j" using p by blast
    ultimately show "version_settled (bp_versions plan) (rs_versions st') j" using st [of j] c by linarith
  qed
  ultimately show ?thesis by (simp add: machine_inv_def)
qed

lemma current_position:
  assumes "machine_inv plan st" "\<not> no_current st"
  shows "py_pos (length (rs_versions st)) (rs_current_version_index st) = Some (nat (rs_current_version_index st))"
    "py_pos (length (bp_versions plan)) (rs_current_version_index st) = Some (nat (rs_current_version_index st))"
    "rs_current_version st \<noteq> None" "nat (rs_current_version_index st) < length (rs_versions st)"
    "0 \<le> rs_current_version_index st"
proof -
  show cur: "rs_current_version st \<noteq> None" using assms(2) by (auto simp: no_current_def)
  note len = machine_inv_length [OF assms(1)]
  have "0 \<le> rs_current_version_index st" "rs_current_version_index st < int (length (bp_versions plan))"
    using assms(1) cur unfolding machine_inv_def current_ok_def by blast+
  then show "0 \<le> rs_current_version_index st" "nat (rs_current_version_index st) < length (rs_versions st)"
    "py_pos (length (rs_versions st)) (rs_current_version_index st) = Some (nat (rs_current_version_index st))"
    "py_pos (length (bp_versions plan)) (rs_current_version_index st) = Some (nat (rs_current_version_index st))"
    by (simp_all add: len nat_less_iff)
qed

lemma machine_inv_acceptance:
  assumes inv: "machine_inv plan st" and run: "run_acceptance_step is_fix env plan st = (res, st')"
  shows "machine_inv plan st'"
proof (cases "no_current st")
  case True
  then show ?thesis using run_acceptance_step_raises [of st plan is_fix env] run inv by auto
next
  case False
  note pos = current_position [OF inv False]
  note eff = run_acceptance_step_effect [OF run False pos(1,2)]
  show ?thesis
    by (rule machine_inv_local [OF inv])
      (use eff pos(3) in \<open>auto simp: same_place_def verdict_def split: sum.splits if_splits\<close>)
qed

lemma machine_inv_continue:
  assumes inv: "machine_inv plan st" and di: "distinct (map bv_version (bp_versions plan))"
    and c: "continue_next_version env plan st = (res, st')"
  shows "machine_inv plan st'"
proof (cases "rs_status (normalize_passed_current_version_status st) = ''VERSION_PASSED''")
  case False
  then have "st' = normalize_passed_current_version_status st"
    using c by (simp add: continue_next_version_def Let_def)
  with False have "st' = st" by (auto simp: normalize_passed_current_version_status_def Let_def split: if_splits)
  with inv show ?thesis by simp
next
  case True
  have al: "aligned plan st" and idx: "0 \<le> rs_current_version_index st"
    using inv by (auto simp: machine_inv_def current_ok_def)
  have cur: "rs_current_version st \<noteq> None" "vs_status (rs_versions st ! nat (rs_current_version_index st)) = ''PASSED''"
    using inv True
    by (auto simp: machine_inv_def passed_ok_def normalize_passed_current_version_status_def Let_def no_current_def split: if_splits)
  note spec = continue_next_version_spec [OF al di idx True c]
  have kept: "\<forall>j<length (bp_versions plan). vs_status (rs_versions st' ! j) = vs_status (rs_versions st ! j)
       \<or> vs_status (rs_versions st ! j) = [] \<and> vs_status (rs_versions st' ! j) = ''NOT_STARTED''"
    using spec by blast
  have keep: "version_settled (bp_versions plan) (rs_versions st') j"
    if "version_settled (bp_versions plan) (rs_versions st) j" "0 \<le> j" "j < int (length (bp_versions plan))" for j
    using that kept [rule_format, of "nat j"] by (auto simp: version_settled_def nat_less_iff)
  have bound: "rs_current_version_index st < int (length (bp_versions plan))"
    using inv cur(1) by (simp add: machine_inv_def current_ok_def)
  have before: "version_settled (bp_versions plan) (rs_versions st') j" if "0 \<le> j" "j \<le> rs_current_version_index st" for j
    using that keep [of j] inv cur(2) bound
    by (cases "j = rs_current_version_index st") (auto simp: machine_inv_def current_ok_def version_settled_def [of _ "rs_versions st"])
  show ?thesis
  proof (cases "\<forall>j. rs_current_version_index st < j \<and> j < int (length (bp_versions plan)) \<longrightarrow> version_settled (bp_versions plan) (rs_versions st) j")
    case all: True
    with spec have f: "rs_status st' = ''COMPLETED''" "rs_current_version_index st' = rs_current_version_index st"
      "rs_current_version st' = rs_current_version st" "aligned plan st'"
      "vs_status (rs_versions st' ! nat (rs_current_version_index st)) = ''PASSED''"
      using bound idx cur(2) by (auto simp: nat_less_iff)
    show ?thesis
      using inv f before all keep idx cur(1) by (auto simp: machine_inv_def current_ok_def passed_ok_def)
  next
    case not_all: False
    with spec have f: "rs_status st' = ''READY''" "rs_current_version_index st < rs_current_version_index st'"
      "rs_current_version_index st' < int (length (bp_versions plan))" "aligned plan st'"
      "rs_current_version st' = Some (bv_version (bp_versions plan ! nat (rs_current_version_index st')))"
      "\<forall>j. rs_current_version_index st < j \<and> j < rs_current_version_index st' \<longrightarrow> version_settled (bp_versions plan) (rs_versions st) j"
      by auto
    have "version_settled (bp_versions plan) (rs_versions st') j" if "0 \<le> j" "j < rs_current_version_index st'" for j
      using that before [of j] keep [of j] f(3,6) by (cases "j \<le> rs_current_version_index st") auto
    with f idx show ?thesis by (auto simp: machine_inv_def current_ok_def passed_ok_def)
  qed
qed

lemma machine_inv_step:
  assumes "machine_step plan st st'" "machine_inv plan st" "distinct (map bv_version (bp_versions plan))"
  shows "machine_inv plan st'"
  using assms(1)
proof cases
  case (acceptance is_fix env)
  then show ?thesis using machine_inv_acceptance [OF assms(2)] by (metis prod.collapse)
next
  case (no_changes env ev recorded)
  show ?thesis
  proof (cases "int (length (rs_versions st)) \<le> rs_current_version_index st \<or> rs_current_version_index st < 0")
    case True
    with no_changes assms(2) show ?thesis by (auto simp: mark_blocked_by_no_changes_def)
  next
    case False
    with no_changes show ?thesis
      by (intro machine_inv_local [OF assms(2)]) (auto simp: mark_blocked_by_no_changes_def Let_def changes_only_def)
  qed
next
  case (continue env)
  then show ?thesis using machine_inv_continue [OF assms(2,3)] by (metis prod.collapse)
next
  case reopen
  show ?thesis
  proof (cases "st' = st")
    case False
    with reopen have "st' = st\<lparr>rs_status := ''VERSION_PASSED'', rs_completed_at := None\<rparr>" "rs_status st = ''COMPLETED''"
      by (auto simp: reopen_completed_state_if_pending_def Let_def split: if_splits)
    with assms(2) show ?thesis by (intro machine_inv_local [OF assms(2)]) (auto simp: machine_inv_def passed_ok_def changes_only_def
          intro: exI [of _ "rs_versions st ! nat (rs_current_version_index st)"])
  qed (use assms(2) in simp)
next
  case normalise
  show ?thesis
  proof (cases "st' = st")
    case False
    with normalise have "st' = st\<lparr>rs_status := ''VERSION_PASSED''\<rparr>" "\<not> no_current st"
      "vs_status (rs_versions st ! nat (rs_current_version_index st)) = ''PASSED''"
      by (auto simp: normalize_passed_current_version_status_def Let_def split: if_splits)
    then show ?thesis by (intro machine_inv_local [OF assms(2)]) (auto simp: changes_only_def no_current_def
          intro: exI [of _ "rs_versions st ! nat (rs_current_version_index st)"])
  qed (use assms(2) in simp)
next
  case (reset env)
  show ?thesis
  proof (cases "no_current st")
    case True
    with reset assms(2) show ?thesis by (simp add: reset_current_attempt_def)
  next
    case False
    note pos = current_position [OF assms(2) False]
      have "changes_only (nat (rs_current_version_index st)) st st' \<and> rs_current_version st' = rs_current_version st
        \<and> rs_current_version_index st' = rs_current_version_index st \<and> rs_status st' \<in> {''BLOCKED_BY_ACCEPTANCE_FAILURE'', ''READY''}"
      unfolding reset reset_current_attempt_def using False pos
      by (cases "get_current_audit_file env plan (upd_version (nat (rs_current_version_index st))
                     (vs_attempt_update (\<lambda>_. 0)) (st\<lparr>rs_attempt := 1\<rparr>))")
        (auto simp: Let_def changes_only_def)
    then show ?thesis by (intro machine_inv_local [OF assms(2)]) auto
  qed
next
  case (fix_prompt env content audit markdown allow)
  obtain res where p: "paste_manual_fix_prompt env plan content audit markdown allow st = (res, st')"
    using fix_prompt by (metis prod.collapse)
  from paste_effect [OF p] show ?thesis
  proof (elim disjE exE conjE)
    assume "st' = st" with assms(2) show ?thesis by simp
  next
    fix k
    assume "\<not> no_current st" "py_pos (length (rs_versions st)) (rs_current_version_index st) = Some k"
      and st': "st' = upd_version k (vs_attempt_update (\<lambda>_. rs_attempt st + 1)) (st\<lparr>rs_attempt := rs_attempt st + 1\<rparr>)"
    then show ?thesis
      by (intro machine_inv_same [OF assms(2)]) (auto simp: map_update list_update_same_conv dest: py_pos_less)
  next
    fix k
    assume "\<not> no_current st" "py_pos (length (rs_versions st)) (rs_current_version_index st) = Some k"
      and "changes_only k st st'" "rs_current_version st' = rs_current_version st"
      "rs_current_version_index st' = rs_current_version_index st" "rs_status st' = ''FIX_PROMPT_READY''"
    then show ?thesis using current_position [OF assms(2)]
      by (intro machine_inv_local [OF assms(2)]) auto
  qed
qed

text \<open>The states of a run: a completed one has passed every enabled version.\<close>

lemma machine_reachable_inv:
  assumes "machine_reachable plan st" "distinct (map bv_version (bp_versions plan))"
  shows "machine_inv plan st"
  using assms by induction (auto intro: machine_inv_start machine_inv_step)

lemma completed_all_passed:
  assumes "machine_reachable plan st" "distinct (map bv_version (bp_versions plan))" "rs_status st = ''COMPLETED''"
    and "j < length (bp_versions plan)" "bv_enabled (bp_versions plan ! j)"
  shows "vs_version (rs_versions st ! j) = bv_version (bp_versions plan ! j) \<and> vs_status (rs_versions st ! j) = ''PASSED''"
proof -
  have inv: "machine_inv plan st" by (rule machine_reachable_inv [OF assms(1,2)])
  have v: "vs_version (rs_versions st ! j) = bv_version (bp_versions plan ! j)"
    using inv assms(4) machine_inv_length [OF inv] by (metis aligned_def machine_inv_def nth_map)
  have "version_settled (bp_versions plan) (rs_versions st) (int j) \<or> int j = rs_current_version_index st"
    using inv assms(3,4) unfolding machine_inv_def current_ok_def passed_ok_def by (metis linorder_neqE_linordered_idom of_nat_0_le_iff of_nat_less_iff)
  moreover have "vs_status (rs_versions st ! nat (rs_current_version_index st)) = ''PASSED''"
    using inv assms(3) by (simp add: machine_inv_def passed_ok_def)
  ultimately have "vs_status (rs_versions st ! j) = ''PASSED''"
    using assms(5) unfolding version_settled_def by (metis nat_int)
  with v show ?thesis by simp
qed

section \<open>Passing\<close>

lemma changes_only_other: "changes_only k st st' \<Longrightarrow> j \<noteq> k \<Longrightarrow> rs_versions st' ! j = rs_versions st ! j"
  by (auto simp: changes_only_def)

text \<open>A step leaves a version's status, or makes it something else than passed, or is an acceptance run.\<close>

lemma not_passing_step:
  assumes "machine_step plan st st'" "machine_inv plan st" "distinct (map bv_version (bp_versions plan))"
    and "j < length (bp_versions plan)"
  shows "vs_status (rs_versions st' ! j) = vs_status (rs_versions st ! j) \<or> vs_status (rs_versions st' ! j) \<noteq> ''PASSED''
    \<or> (\<exists>is_fix env. st' = snd (run_acceptance_step is_fix env plan st))"
  using assms(1)
proof cases
  case (no_changes env ev recorded)
  then show ?thesis
    using machine_inv_length [OF assms(2)] assms(4)
    by (cases "j = nat (rs_current_version_index st)") (auto simp: mark_blocked_by_no_changes_def Let_def)
next
  case (fix_prompt env content audit markdown allow)
  obtain res where p: "paste_manual_fix_prompt env plan content audit markdown allow st = (res, st')"
    using fix_prompt by (metis prod.collapse)
  have len: "length (rs_versions st) = length (bp_versions plan)" using machine_inv_length [OF assms(2)] .
  from paste_effect [OF p] show ?thesis
  proof (elim disjE exE conjE)
    fix k assume "py_pos (length (rs_versions st)) (rs_current_version_index st) = Some k"
      "st' = upd_version k (vs_attempt_update (\<lambda>_. rs_attempt st + 1)) (st\<lparr>rs_attempt := rs_attempt st + 1\<rparr>)"
    then show ?thesis using assms(4) len by (cases "j = k") auto
  next
    fix k assume "changes_only k st st'" "vs_status (rs_versions st' ! k) = ''FIX_PROMPT_READY''"
    then show ?thesis by (cases "j = k") (auto dest: changes_only_other)
  qed simp
next
  case (reset env)
  show ?thesis
  proof (cases "no_current st")
    case True
    with reset show ?thesis by (simp add: reset_current_attempt_def)
  next
    case False
    note pos = current_position [OF assms(2) False]
    show ?thesis
      unfolding reset reset_current_attempt_def using False pos
      by (cases "j = nat (rs_current_version_index st)") (auto simp: Let_def)
  qed
next
  case reopen
  then show ?thesis by (auto simp: reopen_completed_state_if_pending_def Let_def)
next
  case normalise
  then show ?thesis by (auto simp: normalize_passed_current_version_status_def Let_def)
next
  case (continue env)
  then obtain res where c: "continue_next_version env plan st = (res, st')" by (metis prod.collapse)
  show ?thesis
  proof (cases "rs_status (normalize_passed_current_version_status st) = ''VERSION_PASSED''")
    case False
    then have "st' = normalize_passed_current_version_status st"
      using c by (simp add: continue_next_version_def Let_def)
    then show ?thesis by (auto simp: normalize_passed_current_version_status_def Let_def)
  next
    case True
    have "aligned plan st" "0 \<le> rs_current_version_index st"
      using assms(2) unfolding machine_inv_def current_ok_def by blast+
    from continue_next_version_spec [OF this(1) assms(3) this(2) True c]
    have "\<forall>j<length (bp_versions plan). vs_status (rs_versions st' ! j) = vs_status (rs_versions st ! j)
       \<or> vs_status (rs_versions st ! j) = [] \<and> vs_status (rs_versions st' ! j) = ''NOT_STARTED''" by blast
    from this [rule_format, OF assms(4)] show ?thesis by auto
  qed
qed auto

text \<open>A version becomes passed only by an acceptance run of the current version whose commands all succeed
  and whose changed files were not found out of scope.\<close>

lemma passed_only_by_acceptance:
  assumes "machine_step plan st st'" "machine_reachable plan st" "distinct (map bv_version (bp_versions plan))"
    and "j < length (bp_versions plan)"
    and "vs_status (rs_versions st' ! j) = ''PASSED''" "vs_status (rs_versions st ! j) \<noteq> ''PASSED''"
  shows "int j = rs_current_version_index st \<and> (\<exists>is_fix env. st' = snd (run_acceptance_step is_fix env plan st)
    \<and> (\<forall>i<length (bv_acceptance_commands (bp_versions plan ! j)).
         succeeds (me_shell env) (bv_acceptance_commands (bp_versions plan ! j)) i)
    \<and> sc_status (scope_of env (bp_versions plan ! j)) \<noteq> ''FAILED'')"
proof -
  have inv: "machine_inv plan st" by (rule machine_reachable_inv [OF assms(2,3)])
  obtain is_fix env where st': "st' = snd (run_acceptance_step is_fix env plan st)"
    using not_passing_step [OF assms(1) inv assms(3,4)] assms(5,6) by auto
  obtain res where run: "run_acceptance_step is_fix env plan st = (res, st')" using st' by (metis prod.collapse)
  have cur: "\<not> no_current st"
    using run_acceptance_step_raises [of st plan is_fix env] run assms(5,6) by auto
  note pos = current_position [OF inv cur]
  note eff = run_acceptance_step_effect [OF run cur pos(1,2)]
  have j: "j = nat (rs_current_version_index st)"
    using eff assms(5,6) changes_only_other by metis
  with eff assms(5) have "verdict is_fix env (bp_versions plan ! j) st = (''VERSION_PASSED'', ''PASSED'')"
    by (auto simp: verdict_def split: sum.splits if_splits)
  then have "(\<forall>i<length (bv_acceptance_commands (bp_versions plan ! j)).
         succeeds (me_shell env) (bv_acceptance_commands (bp_versions plan ! j)) i)
    \<and> sc_status (scope_of env (bp_versions plan ! j)) \<noteq> ''FAILED''"
    by (auto simp: verdict_def split: if_splits)
  with st' j pos(5) show ?thesis by auto
qed

section \<open>The limit on fixes\<close>

text \<open>When a fix fails at the limit the version is blocked; a fix prompt is then refused, and another
  failing run keeps the block.\<close>

lemma failed_fix_at_limit:
  assumes "machine_reachable plan st" "distinct (map bv_version (bp_versions plan))"
    and run: "run_acceptance_step True env plan st = (Inr r, st')"
    and failed: "ar_status (rr_acceptance r) = ''FAILED''" and limit: "rs_max_fix_attempts st \<le> rs_attempt st"
  shows "rs_status st' = ''BLOCKED_BY_MAX_FIX_ATTEMPTS''
    \<and> paste_manual_fix_prompt env2 plan content audit markdown allow st' = (Inl value_error, st')
    \<and> (\<forall>is_fix env3 r3 st3. run_acceptance_step is_fix env3 plan st' = (Inr r3, st3) \<longrightarrow> ar_status (rr_acceptance r3) = ''FAILED''
         \<longrightarrow> rs_status st3 = ''BLOCKED_BY_MAX_FIX_ATTEMPTS'' \<and> rs_attempt st3 = rs_attempt st')"
proof -
  have inv: "machine_inv plan st" by (rule machine_reachable_inv [OF assms(1,2)])
  have blocked: "rs_status st1' = ''BLOCKED_BY_MAX_FIX_ATTEMPTS'' \<and> same_place st1 st1'"
    if inv1: "machine_inv plan st1" and run1: "run_acceptance_step is_fix env1 plan st1 = (Inr r1, st1')"
      and f1: "ar_status (rr_acceptance r1) = ''FAILED''"
      and m1: "max_attempts_reached is_fix (rs_status st1) st1" for st1 st1' is_fix env1 r1
  proof -
    have cur: "\<not> no_current st1" using run_acceptance_step_raises [of st1 plan is_fix env1] run1 by auto
    note pos = current_position [OF inv1 cur]
    define v where "v = bp_versions plan ! nat (rs_current_version_index st1)"
    note eff = run_acceptance_step_effect [OF run1 cur pos(1,2), folded v_def]
    then have "ar_status (run_acceptance (me_shell env1) (me_run_id env1) v) = ''FAILED''"
      using f1 by simp
    moreover have "''FAILED'' \<noteq> (''PASSED'' :: string)" by simp
    moreover have "ar_status (run_acceptance (me_shell env1) (me_run_id env1) v) = ''PASSED''"
      if "\<forall>i<length (bv_acceptance_commands v). succeeds (me_shell env1) (bv_acceptance_commands v) i"
      unfolding acceptance_verdict using that by (rule if_P)
    ultimately have "\<not> (\<forall>i<length (bv_acceptance_commands v). succeeds (me_shell env1) (bv_acceptance_commands v) i)"
      by metis
    then have "verdict is_fix env1 v st1 = (''BLOCKED_BY_MAX_FIX_ATTEMPTS'', ''BLOCKED'')"
      unfolding verdict_def by (simp only: m1 if_False if_True)
    with eff show ?thesis by simp
  qed
  have m: "max_attempts_reached True (rs_status st) st" using limit by (simp add: max_attempts_reached_def)
  note b = blocked [OF inv run failed m]
  have inv': "machine_inv plan st'" using machine_inv_acceptance [OF inv run] .
  have ex: "attempts_exhausted st'" using b limit by (simp add: attempts_exhausted_def same_place_def)
  have m': "max_attempts_reached is_fix (rs_status st') st'" for is_fix
    using b limit by (simp add: max_attempts_reached_def same_place_def)
  have "paste_manual_fix_prompt env2 plan content audit markdown allow st' = (Inl value_error, st')"
    using b ex by (simp add: paste_manual_fix_prompt_def)
  moreover have "rs_status st3 = ''BLOCKED_BY_MAX_FIX_ATTEMPTS'' \<and> rs_attempt st3 = rs_attempt st'"
    if "run_acceptance_step is_fix env3 plan st' = (Inr r3, st3)" "ar_status (rr_acceptance r3) = ''FAILED''" for is_fix env3 r3 st3
    using blocked [OF inv' that m'] by (simp add: same_place_def)
  ultimately show ?thesis using b by blast
qed

section \<open>Progress\<close>

lemma continue_progress:
  assumes inv: "machine_inv plan st" and di: "distinct (map bv_version (bp_versions plan))"
    and passed: "rs_status (normalize_passed_current_version_status st) = ''VERSION_PASSED''"
  shows "\<exists>st'. continue_next_version env plan st = (Inr (), st') \<and>
    (if \<forall>j. rs_current_version_index st < j \<and> j < int (length (bp_versions plan)) \<longrightarrow> version_settled (bp_versions plan) (rs_versions st) j
     then rs_status st' = ''COMPLETED''
     else rs_status st' = ''READY'' \<and> rs_attempt st' = 1 \<and> rs_current_version_index st < rs_current_version_index st'
        \<and> \<not> version_settled (bp_versions plan) (rs_versions st) (rs_current_version_index st')
        \<and> (\<forall>j. rs_current_version_index st < j \<and> j < rs_current_version_index st' \<longrightarrow> version_settled (bp_versions plan) (rs_versions st) j))"
proof -
  obtain res st' where c: "continue_next_version env plan st = (res, st')" by fastforce
  have al: "aligned plan st" and idx: "0 \<le> rs_current_version_index st"
    using inv unfolding machine_inv_def current_ok_def by blast+
  note spec = continue_next_version_spec [OF al di idx passed c]
  then have c': "continue_next_version env plan st = (Inr (), st')" using c by blast
  show ?thesis
  proof (cases "\<forall>j. rs_current_version_index st < j \<and> j < int (length (bp_versions plan)) \<longrightarrow> version_settled (bp_versions plan) (rs_versions st) j")
    case True
    have "rs_status st' = ''COMPLETED''" using spec unfolding if_P [OF True] by blast
    with c' show ?thesis unfolding if_P [OF True] by blast
  next
    case False
    show ?thesis unfolding if_not_P [OF False]
      by (rule exI [of _ st']) (use spec [unfolded if_not_P [OF False]] c' in blast)
  qed
qed

end
