(* ===== verification/PyCollections.thy ===== *)
theory PyCollections
  imports Prelude
begin

text \<open>
  Lists without duplicates in the order of the first occurrence: the idiom \<open>if x not in items:
  items.append(x)\<close>, sorting in descending order, and the protocols of Python values that several
  components use on JSON values of any type.
\<close>

definition append_unique :: "'a list \<Rightarrow> 'a \<Rightarrow> 'a list" where
  "append_unique items x = (if x \<in> set items then items else items @ [x])"

lemma set_append_unique [simp]: "set (append_unique xs x) = insert x (set xs)"
  by (auto simp: append_unique_def)

lemma distinct_append_unique [simp]: "distinct (append_unique xs x) = distinct xs"
  by (simp add: append_unique_def)

lemma append_unique_extends [simp, intro]: "extends xs (append_unique xs x)"
  by (simp add: append_unique_def)

text \<open>\<open>list(dict.fromkeys(xs))\<close>\<close>

definition unique_in_order :: "'a list \<Rightarrow> 'a list" where
  "unique_in_order xs = foldl append_unique [] xs"

lemma set_foldl_append_unique [simp]: "set (foldl append_unique acc xs) = set acc \<union> set xs"
  by (induction xs arbitrary: acc) auto

lemma distinct_foldl_append_unique [simp]: "distinct (foldl append_unique acc xs) = distinct acc"
  by (induction xs arbitrary: acc) auto

lemma foldl_append_unique_extends: "extends acc (foldl append_unique acc xs)"
  by (induction xs arbitrary: acc) (auto intro: extends_trans)

lemma set_unique_in_order [simp]: "set (unique_in_order xs) = set xs"
  by (simp add: unique_in_order_def)

lemma distinct_unique_in_order [simp]: "distinct (unique_in_order xs)"
  by (simp add: unique_in_order_def)

lemma two_members: "distinct xs \<Longrightarrow> 1 < length xs \<longleftrightarrow> (\<exists>a\<in>set xs. \<exists>b\<in>set xs. a \<noteq> b)"
proof -
  assume d: "distinct xs"
  have "1 < card (set xs) \<longleftrightarrow> (\<exists>a\<in>set xs. \<exists>b\<in>set xs. a \<noteq> b)"
    by (metis One_nat_def card_1_singleton_iff card_gt_0_iff card_le_Suc0_iff_eq finite_set leD leI)
  with d show ?thesis by (simp add: distinct_card)
qed

text \<open>\<open>xs.sort(key=f, reverse=True)\<close> keeps the order of equal elements.\<close>

definition sort_reverse :: "('a \<Rightarrow> 'k :: linorder) \<Rightarrow> 'a list \<Rightarrow> 'a list" where
  "sort_reverse f xs = rev (sort_key f (rev xs))"

lemma set_sort_reverse [simp]: "set (sort_reverse f xs) = set xs"
  by (simp add: sort_reverse_def)

lemma length_sort_reverse [simp]: "length (sort_reverse f xs) = length xs"
  by (simp add: sort_reverse_def)

lemma sorted_sort_reverse: "sorted_wrt (\<lambda>x y. f y \<le> f x) (sort_reverse f xs)"
  using sorted_sort_key [of f "rev xs"]
  by (simp add: sort_reverse_def sorted_wrt_rev sorted_wrt_map)

lemma sort_reverse_stable: "filter (\<lambda>x. f x = k) (sort_reverse f xs) = filter (\<lambda>x. f x = k) xs"
proof -
  have "filter (\<lambda>x. f x = k) (sort_reverse f xs) = rev (filter (\<lambda>x. f x = k) (sort_key f (rev xs)))"
    by (simp only: sort_reverse_def rev_filter)
  also have "\<dots> = filter (\<lambda>x. f x = k) xs" by (simp only: sort_key_stable rev_filter rev_rev_ident)
  finally show ?thesis .
qed

text \<open>\<open>d.pop(k, None)\<close>, then \<open>d.get\<close>.\<close>

lemma dget_delete [simp]: "dget_or (AList.delete k d) k' v = (if k = k' then v else dget_or d k' v)"
  by (simp add: dget_or_def delete_conv')

section \<open>Protocols of values\<close>

text \<open>Iteration over \<open>v\<close>, \<open>len(v)\<close>, and what \<open>v.get\<close> needs.\<close>

definition py_items :: "py \<Rightarrow> py list result" where
  "py_items v =
    (case v of
       PList xs \<Rightarrow> Inr xs
     | PStr s \<Rightarrow> Inr (map (\<lambda>c. PStr [c]) s)
     | PDict d \<Rightarrow> Inr (map (PStr \<circ> fst) d)
     | _ \<Rightarrow> Inl (Py_Exc ''TypeError''))"

definition py_len :: "py \<Rightarrow> nat result" where
  "py_len v = ebind (py_items v) (\<lambda>xs. Inr (length xs))"

definition as_dict :: "py \<Rightarrow> dict result" where
  "as_dict v = (case v of PDict d \<Rightarrow> Inr d | _ \<Rightarrow> Inl (Py_Exc ''AttributeError''))"

text \<open>\<open>x in v\<close> on any JSON value.\<close>

definition py_in :: "py \<Rightarrow> py \<Rightarrow> bool result" where
  "py_in x v =
    (case v of
       PList xs \<Rightarrow> Inr (list_ex (\<lambda>y. py_eq y x) xs)
     | PStr s \<Rightarrow> (case x of PStr t \<Rightarrow> Inr (contains_str s t) | _ \<Rightarrow> Inl (Py_Exc ''TypeError''))
     | PDict d \<Rightarrow> if hashable x then Inr (case x of PStr k \<Rightarrow> dhas d k | _ \<Rightarrow> False) else Inl (Py_Exc ''TypeError'')
     | _ \<Rightarrow> Inl (Py_Exc ''TypeError''))"

text \<open>\<open>v.append(x)\<close>\<close>

definition py_append :: "py \<Rightarrow> py \<Rightarrow> py result" where
  "py_append v x = (case v of PList xs \<Rightarrow> Inr (PList (xs @ [x])) | _ \<Rightarrow> Inl (Py_Exc ''AttributeError''))"

text \<open>
  \<open>int(x)\<close> of a value: a text is a decimal number with an optional sign, single underscores between the
  digits and spaces around it, of at most 4300 digits.  None is a TypeError or a ValueError.
\<close>

definition int_space :: "char \<Rightarrow> bool" where
  "int_space c = (let n = (of_char c :: nat) in (9 \<le> n \<and> n \<le> 13) \<or> n = 32 \<or> n = 133 \<or> n = 160)"

definition int_digit :: "char \<Rightarrow> bool" where
  "int_digit c = (let n = (of_char c :: nat) in 48 \<le> n \<and> n \<le> 57)"

definition int_of_digits :: "string \<Rightarrow> int" where
  "int_of_digits s = foldl (\<lambda>acc c. 10 * acc + (of_char c - 48)) 0 s"

definition int_of_str :: "string \<Rightarrow> int option" where
  "int_of_str s =
    (let t = rev (dropWhile int_space (rev (dropWhile int_space s)));
         negative = starts_with t ''-'';
         groups = split_on (CHR ''_'') (if negative \<or> starts_with t ''+'' then tl t else t)
     in if list_all (\<lambda>g. g \<noteq> [] \<and> list_all int_digit g) groups \<and> length (concat groups) \<le> 4300
        then Some (if negative then - int_of_digits (concat groups) else int_of_digits (concat groups)) else None)"

definition int_of_py :: "py \<Rightarrow> int option" where
  "int_of_py v =
    (case v of PInt i \<Rightarrow> Some i | PBool b \<Rightarrow> Some (if b then 1 else 0) | PStr s \<Rightarrow> int_of_str s | _ \<Rightarrow> None)"

text \<open>\<open>s.split()\<close>: the words between white space, and \<open>' '.join(ws)\<close>.\<close>

definition split_ws :: "string \<Rightarrow> string list" where
  "split_ws s = filter (\<lambda>w. w \<noteq> []) (split_on (CHR '' '') (map (\<lambda>c. if is_ws c then CHR '' '' else c) s))"

fun join_ws :: "string list \<Rightarrow> string" where
  "join_ws [] = []" | "join_ws [w] = w" | "join_ws (w # ws) = w @ CHR '' '' # join_ws ws"

section \<open>Files\<close>

text \<open>A file is missing, not JSON (with its bytes), or a JSON value.\<close>

datatype json_file = Absent | Garbage string | Json py

end
