(* ===== verification/RunnerServices.thy ===== *)
theory RunnerServices
  imports RunnerInvariants PyCollections
begin

text \<open>
  The services around the state machine that read and write the state file:
  \<open>runner/state_mutation_gateway.py\<close> (the stale check before a save), \<open>runner/continue_version_workflow.py\<close>,
  \<open>runner/acceptance_workflow.py\<close>, the state repair of \<open>runner/plan_reload_workflow.py\<close>, and the plan
  check of \<open>runner/plan_loader.py\<close>.  A state file is the JSON value it holds, \<open>None\<close> when it does not
  exist; the plan is the one that was loaded.
\<close>

section \<open>The state file behind its gateway\<close>

type_synonym state_file = "py option"

definition stale :: py_error where "stale = Py_Exc ''StaleStateError''"

text \<open>\<open>_check_stale\<close>; \<open>hash_of\<close> is the SHA-256 of the value's sorted JSON text.\<close>

definition check_stale :: "(py \<Rightarrow> string) \<Rightarrow> state_file \<Rightarrow> string option \<Rightarrow> string option \<Rightarrow> py_error option" where
  "check_stale hash_of file expected_updated_at expected_hash =
    (if expected_updated_at = None \<and> expected_hash = None then None
     else case file of
       None \<Rightarrow> Some stale
     | Some current \<Rightarrow>
         (let actual = (case current of PDict d \<Rightarrow> dget d ''updated_at'' | _ \<Rightarrow> PNone) in
          if (case expected_updated_at of None \<Rightarrow> False | Some t \<Rightarrow> actual \<noteq> PStr t) then Some stale
          else if (case expected_hash of None \<Rightarrow> False | Some h \<Rightarrow> hash_of current \<noteq> h) then Some stale
          else None))"

text \<open>A save is two steps with no lock around them: the check, and the replacement, which does not look at
  the file again.  \<open>others\<close> is what other processes do to the file between the two.\<close>

definition gateway_replace :: "dict \<Rightarrow> state_file \<Rightarrow> state_file" where
  "gateway_replace d current = Some (PDict d)"

definition gateway_save_between ::
  "(state_file \<Rightarrow> state_file) \<Rightarrow> (py \<Rightarrow> string) \<Rightarrow> dict \<Rightarrow> string option \<Rightarrow> string option \<Rightarrow> state_file
    \<Rightarrow> (py_error + unit) \<times> state_file" where
  "gateway_save_between others hash_of d expected_updated_at expected_hash file =
    (case check_stale hash_of file expected_updated_at expected_hash of
       Some e \<Rightarrow> (Inl e, file)
     | None \<Rightarrow> (Inr (), gateway_replace d (others file)))"

text \<open>The services below are modelled one at a time, so nothing comes between; \<open>VersionedStore\<close> interleaves the
  two steps of several services.\<close>

definition gateway_save_raw ::
  "(py \<Rightarrow> string) \<Rightarrow> dict \<Rightarrow> string option \<Rightarrow> string option \<Rightarrow> state_file \<Rightarrow> (py_error + unit) \<times> state_file" where
  "gateway_save_raw = gateway_save_between (\<lambda>file. file)"

definition gateway_save ::
  "(py \<Rightarrow> string) \<Rightarrow> runner_state \<Rightarrow> string option \<Rightarrow> string option \<Rightarrow> state_file \<Rightarrow> (py_error + unit) \<times> state_file" where
  "gateway_save hash_of st expected_updated_at expected_hash file =
    gateway_save_raw hash_of (serialize_state st) expected_updated_at expected_hash file"

lemmas [simp] = gateway_save_between_def gateway_replace_def

text \<open>\<open>StateStore.load_state\<close>.  A file with a field of a type the dataclass does not declare is outside
  the model, which reads it as a type error.\<close>

definition load_state :: "state_file \<Rightarrow> py_error + runner_state" where
  "load_state file =
    (case file of
       None \<Rightarrow> Inl (Py_Exc ''FileNotFoundError'')
     | Some (PDict d) \<Rightarrow> (case parse_state d of None \<Rightarrow> Inl (Py_Exc ''TypeError'') | Some st \<Rightarrow> Inr st)
     | Some _ \<Rightarrow> Inl (Py_Exc ''AttributeError''))"

section \<open>The plan check\<close>

definition validate_plan :: "build_plan \<Rightarrow> py_error + unit" where
  "validate_plan plan =
    (if optional_plan_work_item_reference_rejections (bp_reference plan) \<noteq> []
        \<or> list_ex (\<lambda>v. optional_plan_work_item_reference_rejections (bv_reference v) \<noteq> []) (bp_versions plan)
     then Inl value_error
     else if bp_versions plan \<noteq> [] \<and> \<not> list_ex bv_enabled (bp_versions plan) then Inl value_error
     else Inr ())"

section \<open>Continuing and rerunning\<close>

record service_reply =
  sv_ok :: bool
  sv_error_code :: "string option"
  sv_current_version :: "string option"
  sv_runner_status :: string

definition refusal :: "string \<Rightarrow> runner_state \<Rightarrow> service_reply" where
  "refusal code st = \<lparr>sv_ok = False, sv_error_code = Some code, sv_current_version = rs_current_version st,
     sv_runner_status = rs_status st\<rparr>"

definition accepted :: "runner_state \<Rightarrow> service_reply" where
  "accepted st = \<lparr>sv_ok = True, sv_error_code = None, sv_current_version = rs_current_version st,
     sv_runner_status = rs_status st\<rparr>"

text \<open>\<open>commit_hash\<close> is missing for the current version, where the plan requires a commit.\<close>

definition commit_missing :: "build_plan \<Rightarrow> runner_state \<Rightarrow> bool" where
  "commit_missing plan st \<longleftrightarrow>
     cp_enabled (bp_commit_policy plan) \<and> cp_require_commit_before_continue (bp_commit_policy plan)
   \<and> \<not> no_current st \<and> 0 \<le> rs_current_version_index st \<and> rs_current_version_index st < int (length (rs_versions st))
   \<and> or_empty (vs_commit_hash (rs_versions st ! nat (rs_current_version_index st))) = []"

definition review_checkpoint :: "build_plan \<Rightarrow> runner_state \<Rightarrow> bool" where
  "review_checkpoint plan st \<longleftrightarrow> \<not> no_current st \<and> rp_enabled (bp_review_policy plan)
     \<and> the (rs_current_version st) \<in> set (rp_after_versions (bp_review_policy plan))"

text \<open>The review file names the version and a review that exists.  A file that cannot be read is no review; one
  that holds another value than an object raises, as \<open>.get\<close> does.\<close>

definition is_version_reviewed :: "(string \<Rightarrow> bool) \<Rightarrow> json_file \<Rightarrow> string \<Rightarrow> bool result" where
  "is_version_reviewed path_exists review_file version =
    (if version = [] then Inr False
     else case review_file of
       Json v \<Rightarrow> ebind (as_dict v) (\<lambda>d. Inr (dget d ''last_reviewed_version'' = PStr version
           \<and> (case dget d ''last_review_file'' of PStr f \<Rightarrow> f \<noteq> [] \<and> path_exists f | _ \<Rightarrow> False)))
     | _ \<Rightarrow> Inr False)"

definition review_done :: "(string \<Rightarrow> bool) \<Rightarrow> json_file \<Rightarrow> build_plan \<Rightarrow> runner_state \<Rightarrow> bool result" where
  "review_done path_exists review_file plan st =
    (if review_checkpoint plan st then is_version_reviewed path_exists review_file (the (rs_current_version st)) else Inr True)"

definition continue_service ::
  "machine_env \<Rightarrow> build_plan \<Rightarrow> (string \<Rightarrow> bool) \<Rightarrow> json_file \<Rightarrow> state_file \<Rightarrow> (py_error + service_reply) \<times> state_file" where
  "continue_service env plan path_exists review_file file =
    (case ebind (validate_plan plan) (\<lambda>_. load_state file) of
       Inl e \<Rightarrow> (Inl e, file)
     | Inr st0 \<Rightarrow>
         (let st = normalize_passed_current_version_status (snd (reopen_completed_state_if_pending plan st0)) in
          if rs_status st \<noteq> ''VERSION_PASSED'' then (Inr (refusal ''CONTINUE_BLOCKED'' st), file)
          else if commit_missing plan st then (Inr (refusal ''COMMIT_REQUIRED'' st), file)
          else case review_done path_exists review_file plan st of
            Inl e \<Rightarrow> (Inl e, file)
          | Inr reviewed \<Rightarrow>
              if \<not> reviewed then (Inr (refusal ''REVIEW_REQUIRED'' st), file)
              else case continue_next_version env plan st of
                (Inl e, st1) \<Rightarrow> (Inr (refusal ''CONTINUE_BLOCKED'' st1), file)
              | (Inr _, st1) \<Rightarrow>
                  (case gateway_save (\<lambda>_. []) st1 (rs_updated_at st) None file of
                     (Inl e, file1) \<Rightarrow> (Inl e, file1)
                   | (Inr _, file1) \<Rightarrow> (Inr (accepted st1), file1))))"

definition rerun_acceptance_service ::
  "machine_env \<Rightarrow> build_plan \<Rightarrow> state_file \<Rightarrow> (py_error + service_reply) \<times> state_file" where
  "rerun_acceptance_service env plan file =
    (case ebind (validate_plan plan) (\<lambda>_. load_state file) of
       Inl e \<Rightarrow> (Inl e, file)
     | Inr st \<Rightarrow>
         (let i = rs_current_version_index st in
          if i < 0 \<or> int (length (bp_versions plan)) \<le> i then (Inr (refusal ''NO_CURRENT_VERSION'' st), file)
          else if bv_acceptance_commands (bp_versions plan ! nat i) = [] then (Inr (refusal ''NO_ACCEPTANCE_COMMANDS'' st), file)
          else case run_acceptance_step False env plan st of
            (Inl e, st1) \<Rightarrow> (Inr (refusal ''ACCEPTANCE_FAILED'' st1), file)
          | (Inr r, st1) \<Rightarrow>
              (case gateway_save (\<lambda>_. []) st1 (rs_updated_at st) None file of
                 (Inl e, file1) \<Rightarrow> (Inl e, file1)
               | (Inr _, file1) \<Rightarrow> (Inr (accepted st1), file1))))"

section \<open>Reloading a plan\<close>

text \<open>\<open>_reconcile_state_with_reloaded_plan\<close>.  Plan versions of the same name share one runtime, whose
  name is that of the last of them.\<close>

definition repair_current :: "build_plan \<Rightarrow> runner_state \<Rightarrow> runner_state" where
  "repair_current plan st =
    (if no_current st \<or> the (rs_current_version st) \<in> set (map bv_version (bp_versions plan)) then st
     else let i = rs_current_version_index st in
       if 0 \<le> i \<and> i < int (length (bp_versions plan))
       then st\<lparr>rs_current_version := Some (bv_version (bp_versions plan ! nat i))\<rparr>
       else st\<lparr>rs_current_version := None, rs_current_version_index := 0\<rparr>)"

definition sync_versions :: "build_plan \<Rightarrow> version_state list \<Rightarrow> version_state list" where
  "sync_versions plan old =
    map (\<lambda>v. case find (\<lambda>s. vs_version s = bv_version v) (rev old) of
               None \<Rightarrow> new_version_state v
             | Some s \<Rightarrow> s\<lparr>vs_name := bv_name (the (find (\<lambda>w. bv_version w = bv_version v) (rev (bp_versions plan))))\<rparr>)
      (bp_versions plan)"

fun index_of_version :: "string \<Rightarrow> nat \<Rightarrow> build_version list \<Rightarrow> nat option" where
  "index_of_version s i [] = None"
| "index_of_version s i (v # vs) = (if bv_version v = s then Some i else index_of_version s (Suc i) vs)"

definition select_current :: "build_plan \<Rightarrow> runner_state \<Rightarrow> runner_state" where
  "select_current plan st =
    (if \<not> no_current st then
       (case index_of_version (the (rs_current_version st)) 0 (bp_versions plan) of
          None \<Rightarrow> st | Some i \<Rightarrow> st\<lparr>rs_current_version_index := int i\<rparr>)
     else (case first_enabled 0 (bp_versions plan) of
             None \<Rightarrow> st
           | Some (v, i) \<Rightarrow> st\<lparr>rs_current_version := Some v, rs_current_version_index := int i\<rparr>))"

definition reconcile_state_with_reloaded_plan :: "build_plan \<Rightarrow> runner_state \<Rightarrow> runner_state" where
  "reconcile_state_with_reloaded_plan plan st =
    (let st1 = repair_current plan st;
         st2 = st1\<lparr>rs_versions := sync_versions plan (rs_versions st1)\<rparr>
     in select_current plan (snd (reopen_completed_state_if_pending plan st2)))"

definition reload_plan_service ::
  "string \<Rightarrow> build_plan \<Rightarrow> state_file \<Rightarrow> (py_error + service_reply) \<times> state_file" where
  "reload_plan_service now plan file =
    (case validate_plan plan of
       Inl e \<Rightarrow> (Inr \<lparr>sv_ok = False, sv_error_code = Some ''PLAN_VALIDATION_FAILED'', sv_current_version = None, sv_runner_status = []\<rparr>, file)
     | Inr _ \<Rightarrow>
         (case load_state file of
            Inl e \<Rightarrow> (Inr \<lparr>sv_ok = False, sv_error_code = Some ''STATE_LOAD_FAILED'', sv_current_version = None, sv_runner_status = []\<rparr>, file)
          | Inr st \<Rightarrow>
              (let st1 = (reconcile_state_with_reloaded_plan plan st)\<lparr>rs_updated_at := Some now\<rparr> in
               case gateway_save (\<lambda>_. []) st1 (rs_updated_at st) None file of
                 (Inl e, file1) \<Rightarrow> (Inl e, file1)
               | (Inr _, file1) \<Rightarrow> (Inr (accepted st1), file1))))"

section \<open>What the gateway guarantees\<close>

lemma updated_at_serialized: "dget (serialize_state st) ''updated_at'' = of_opt (rs_updated_at st)"
  by (simp add: serialize_state_def dget_or_def)

lemma load_serialized [simp]: "load_state (Some (PDict (serialize_state st))) = Inr st"
  by (simp add: load_state_def parse_serialized_state)

text \<open>A save against the version that was read succeeds; a second writer that read the same version is
  refused once the first has changed the time of the update, and the file keeps the first one's state.\<close>

lemma gateway_refuses_stale_writer:
  fixes hash_of :: "py \<Rightarrow> string" and st1 st2 :: runner_state
  assumes "load_state file = Inr st" "file = Some (PDict (serialize_state st))" "rs_updated_at st = Some t"
    and "rs_updated_at st1 \<noteq> Some t"
  defines "file1 \<equiv> snd (gateway_save hash_of st1 (rs_updated_at st) None file)"
  shows "fst (gateway_save hash_of st1 (rs_updated_at st) None file) = Inr ()" "load_state file1 = Inr st1"
    "gateway_save hash_of st2 (rs_updated_at st) None file1 = (Inl stale, file1)"
proof -
  have "check_stale hash_of file (rs_updated_at st) None = None"
    by (simp add: check_stale_def assms(2,3) updated_at_serialized)
  then have g: "gateway_save hash_of st1 (rs_updated_at st) None file = (Inr (), Some (PDict (serialize_state st1)))"
    by (simp add: gateway_save_def gateway_save_raw_def)
  then show "fst (gateway_save hash_of st1 (rs_updated_at st) None file) = Inr ()" "load_state file1 = Inr st1"
    by (simp_all add: file1_def)
  have f1: "file1 = Some (PDict (serialize_state st1))" by (simp add: file1_def g)
  have "of_opt (rs_updated_at st1) \<noteq> PStr t" using assms(4) by (cases "rs_updated_at st1") auto
  then show "gateway_save hash_of st2 (rs_updated_at st) None file1 = (Inl stale, file1)"
    by (simp add: f1 gateway_save_def gateway_save_raw_def check_stale_def assms(3) updated_at_serialized)
qed

text \<open>An accepted save overwrites whatever was written since its check.\<close>

lemma save_overwrites_between:
  "fst (gateway_save_between others hash_of d t h file) = Inr ()
    \<Longrightarrow> snd (gateway_save_between others hash_of d t h file) = Some (PDict d)"
  by (simp split: option.splits)

text \<open>A state without a time is saved unchecked.\<close>

lemma unchecked_without_time: "check_stale hash_of file None None = None"
  by (simp add: check_stale_def)

section \<open>What the services guarantee\<close>

lemma rs_updated_at_upd: "rs_updated_at (upd_version k f st) = rs_updated_at st"
  by (simp add: upd_version_def)

text \<open>\<open>continue\<close> changes the file only through a successful move of a state that has passed and needs no
  commit and no review.\<close>

lemma continue_service_moves:
  assumes "continue_service env plan path_exists review_file file = (res, file')" "file' \<noteq> file"
  shows "\<exists>st st1. load_state file = Inr st \<and> load_state file' = Inr st1 \<and> res = Inr (accepted st1) \<and>
    (let st0 = normalize_passed_current_version_status (snd (reopen_completed_state_if_pending plan st)) in
       continue_next_version env plan st0 = (Inr (), st1) \<and> rs_status st0 = ''VERSION_PASSED''
     \<and> \<not> commit_missing plan st0 \<and> review_done path_exists review_file plan st0 = Inr True)"
proof (cases "ebind (validate_plan plan) (\<lambda>_. load_state file)")
  case (Inl e)
  with assms show ?thesis by (simp add: continue_service_def)
next
  case (Inr st)
  define st0 where "st0 = normalize_passed_current_version_status (snd (reopen_completed_state_if_pending plan st))"
  from Inr have l: "load_state file = Inr st" by (cases "validate_plan plan") auto
  obtain r st1 where c: "continue_next_version env plan st0 = (r, st1)" by fastforce
  from assms have r: "r = Inr ()" and ok: "rs_status st0 = ''VERSION_PASSED''" "\<not> commit_missing plan st0"
      "review_done path_exists review_file plan st0 = Inr True"
    and res: "res = Inr (accepted st1)" "file' = Some (PDict (serialize_state st1))"
    unfolding continue_service_def Inr st0_def [symmetric]
    by (auto simp: Let_def st0_def [symmetric] c gateway_save_def gateway_save_raw_def
        split: if_splits sum.splits option.splits)
  show ?thesis
    using l c r ok res by (intro exI [of _ st] exI [of _ st1]) (simp add: st0_def [symmetric] Let_def)
qed

end
