(* ===== verification/VersionedStore.thy ===== *)
theory VersionedStore
  imports RunnerServices
begin

text \<open>
  Several services read the state file, compute, and save against the time they read.  A save is a check
  and a later replacement, without a lock.  The locale \<open>versioned_store\<close> states what such a store promises
  its writers; in it: a save is computed from the version the file had at its check, so what it overwrites
  unseen is exactly what was written between its check and its replacement.  It is interpreted on the
  gateway of the state file.
\<close>

section \<open>Interleaved writers\<close>

text \<open>The steps of a writer; a check says what is to be written, the replacement writes what was accepted.\<close>

datatype 'v access = Read nat | Check nat 'v | Replace nat

text \<open>A replacement: what its writer had read, what it wrote, what it overwrote, and how many replacements
  had happened when its check was made.\<close>

record 'v replacement =
  lg_base :: 'v
  lg_new :: 'v
  lg_replaced :: 'v
  lg_seen :: nat

record ('f, 'v) store =
  so_file :: 'f
  so_read :: "nat \<Rightarrow> 'v option"
  so_accepted :: "nat \<Rightarrow> ('v \<times> 'v \<times> nat) option"
  so_log :: "'v replacement list"

definition start_store :: "'f \<Rightarrow> ('f, 'v) store" where
  "start_store f = \<lparr>so_file = f, so_read = (\<lambda>_. None), so_accepted = (\<lambda>_. None), so_log = []\<rparr>"

fun store_step :: "('f \<Rightarrow> 'v) \<Rightarrow> ('v \<Rightarrow> 'k option) \<Rightarrow> ('k option \<Rightarrow> 'f \<Rightarrow> bool) \<Rightarrow> ('v \<Rightarrow> 'f \<Rightarrow> 'f)
    \<Rightarrow> 'v access \<Rightarrow> ('f, 'v) store \<Rightarrow> ('f, 'v) store" where
  "store_step view key check put (Read w) s = s\<lparr>so_read := (so_read s)(w := Some (view (so_file s)))\<rparr>"
| "store_step view key check put (Check w v) s =
     (case so_read s w of
        None \<Rightarrow> s
      | Some base \<Rightarrow> s\<lparr>so_accepted := (so_accepted s)(w :=
          if check (key base) (so_file s) then Some (base, v, length (so_log s)) else None)\<rparr>)"
| "store_step view key check put (Replace w) s =
     (case so_accepted s w of
        None \<Rightarrow> s
      | Some (base, v, n) \<Rightarrow> s\<lparr>so_file := put v (so_file s), so_accepted := (so_accepted s)(w := None),
          so_log := so_log s @ [\<lparr>lg_base = base, lg_new = v, lg_replaced = view (so_file s), lg_seen = n\<rparr>]\<rparr>)"

definition store_run :: "('f \<Rightarrow> 'v) \<Rightarrow> ('v \<Rightarrow> 'k option) \<Rightarrow> ('k option \<Rightarrow> 'f \<Rightarrow> bool) \<Rightarrow> ('v \<Rightarrow> 'f \<Rightarrow> 'f)
    \<Rightarrow> 'v access list \<Rightarrow> 'f \<Rightarrow> ('f, 'v) store" where
  "store_run view key check put es f = fold (store_step view key check put) es (start_store f)"

text \<open>The values the file has had: the first one, and what each replacement wrote.\<close>

definition history :: "'v \<Rightarrow> 'v replacement list \<Rightarrow> 'v list" where
  "history v log = v # map lg_new log"

lemma history_snoc: "history v (log @ [r]) = history v log @ [lg_new r]"
  by (simp add: history_def)

lemma length_history [simp]: "length (history v log) = Suc (length log)"
  by (simp add: history_def)

lemma last_history: "last (history v log) = history v log ! length log" "last (history v log) \<in> set (history v log)"
proof -
  have "history v log \<noteq> []" by (simp add: history_def)
  then show "last (history v log) = history v log ! length log" "last (history v log) \<in> set (history v log)"
    by (simp_all add: last_conv_nth)
qed

locale versioned_store =
  fixes view :: "'f \<Rightarrow> 'v" and key :: "'v \<Rightarrow> 'k option" and check :: "'k option \<Rightarrow> 'f \<Rightarrow> bool"
    and put :: "'v \<Rightarrow> 'f \<Rightarrow> 'f" and valid :: "'f \<Rightarrow> bool"
  assumes check_accepts: "valid f \<Longrightarrow> k \<noteq> None \<Longrightarrow> check k f = (key (view f) = k)"
    and put_writes: "valid f \<Longrightarrow> view (put v f) = v \<and> valid (put v f)"
begin

abbreviation (input) reached :: "'v access list \<Rightarrow> 'f \<Rightarrow> ('f, 'v) store" where
  "reached \<equiv> store_run view key check put"

definition consistent :: "'v \<Rightarrow> ('f, 'v) store \<Rightarrow> bool" where
  "consistent v0 s \<longleftrightarrow> valid (so_file s) \<and> view (so_file s) = last (history v0 (so_log s))
     \<and> (\<forall>w v. so_read s w = Some v \<longrightarrow> v \<in> set (history v0 (so_log s)))
     \<and> (\<forall>w base v n. so_accepted s w = Some (base, v, n) \<longrightarrow>
          n \<le> length (so_log s) \<and> history v0 (so_log s) ! n = base)
     \<and> (\<forall>i<length (so_log s). lg_seen (so_log s ! i) \<le> i
          \<and> lg_base (so_log s ! i) = history v0 (so_log s) ! lg_seen (so_log s ! i)
          \<and> lg_replaced (so_log s ! i) = history v0 (so_log s) ! i)"

lemma consistentD:
  assumes "consistent v0 s"
  shows "valid (so_file s)" "view (so_file s) = last (history v0 (so_log s))"
    and "so_read s w = Some v \<Longrightarrow> v \<in> set (history v0 (so_log s))"
    and "so_accepted s w = Some (base, v, n) \<Longrightarrow> n \<le> length (so_log s) \<and> history v0 (so_log s) ! n = base"
    and "i < length (so_log s) \<Longrightarrow> lg_seen (so_log s ! i) \<le> i
      \<and> lg_base (so_log s ! i) = history v0 (so_log s) ! lg_seen (so_log s ! i)
      \<and> lg_replaced (so_log s ! i) = history v0 (so_log s) ! i"
  using assms by (auto simp: consistent_def)

text \<open>An accepted check found the version its writer had read.\<close>

lemma accepted_is_last:
  assumes c: "consistent v0 s" and r: "so_read s w = Some base" and a: "check (key base) (so_file s)"
    and d: "distinct (map key (history v0 (so_log s)))" "None \<notin> set (map key (history v0 (so_log s)))"
  shows "history v0 (so_log s) ! length (so_log s) = base"
proof -
  have base: "base \<in> set (history v0 (so_log s))" using consistentD(3) [OF c r] .
  then have "key base \<noteq> None" using d(2) by force
  then have "key (last (history v0 (so_log s))) = key base"
    using a consistentD(1,2) [OF c] check_accepts by auto
  then have "base = last (history v0 (so_log s))"
    using base d(1) last_history(2) by (metis distinct_map inj_onD)
  then show ?thesis by (simp add: last_history(1))
qed

lemma entries_after_replacement:
  assumes c: "consistent v0 s" and a: "so_accepted s w = Some (base, v, n)"
    and r: "r = \<lparr>lg_base = base, lg_new = v, lg_replaced = view (so_file s), lg_seen = n\<rparr>" and k: "k \<le> length (so_log s)"
  shows "lg_seen ((so_log s @ [r]) ! k) \<le> k
    \<and> lg_base ((so_log s @ [r]) ! k) = history v0 (so_log s @ [r]) ! lg_seen ((so_log s @ [r]) ! k)
    \<and> lg_replaced ((so_log s @ [r]) ! k) = history v0 (so_log s @ [r]) ! k"
proof (cases "k = length (so_log s)")
  case True
  with consistentD(2) [OF c] consistentD(4) [OF c a] show ?thesis
    by (simp add: r history_snoc nth_append last_history(1))
next
  case False
  with k consistentD(5) [OF c, of k] show ?thesis by (simp add: history_snoc nth_append)
qed

lemma replace_consistent:
  assumes c: "consistent v0 s" and a: "so_accepted s w = Some (base, v, n)"
  shows "consistent v0 (store_step view key check put (Replace w) s)"
proof -
  define r where "r = \<lparr>lg_base = base, lg_new = v, lg_replaced = view (so_file s), lg_seen = n\<rparr>"
  have acc: "m \<le> Suc (length (so_log s)) \<and> history v0 (so_log s @ [r]) ! m = b" if "so_accepted s u = Some (b, x, m)" for u b x m
    using consistentD(4) [OF c that] by (simp add: history_snoc nth_append)
  have "store_step view key check put (Replace w) s = s\<lparr>so_file := put v (so_file s),
      so_accepted := (so_accepted s)(w := None), so_log := so_log s @ [r]\<rparr>" by (simp add: a r_def)
  with c put_writes [OF consistentD(1) [OF c], of v] acc entries_after_replacement [OF c a r_def] show ?thesis
    by (auto simp: consistent_def history_snoc r_def less_Suc_eq_le)
qed

lemma step_consistent:
  assumes c: "consistent v0 s"
    and d: "distinct (map key (history v0 (so_log s)))" "None \<notin> set (map key (history v0 (so_log s)))"
  shows "consistent v0 (store_step view key check put e s)"
proof (cases e)
  case (Read w)
  with c show ?thesis using last_history(2) [of v0 "so_log s"] by (auto simp: consistent_def)
next
  case (Check w v)
  with c accepted_is_last [OF c _ _ d, of w] show ?thesis by (auto simp: consistent_def split: option.splits)
next
  case (Replace w)
  show ?thesis
  proof (cases "so_accepted s w")
    case (Some p)
    then show ?thesis using replace_consistent [OF c] by (cases p) (auto simp: Replace)
  qed (use c in \<open>simp add: Replace\<close>)
qed

lemma log_grows: "\<exists>more. so_log (store_step view key check put e s) = so_log s @ more"
  by (cases e) (auto split: option.splits)

lemma run_consistent:
  assumes "valid f" "distinct (map key (history (view f) (so_log (reached es f))))"
    and "None \<notin> set (map key (history (view f) (so_log (reached es f))))"
  shows "consistent (view f) (reached es f)"
  using assms
proof (induction es rule: rev_induct)
  case Nil
  then show ?case by (simp add: store_run_def start_store_def consistent_def history_def)
next
  case (snoc e es)
  have s: "reached (es @ [e]) f = store_step view key check put e (reached es f)" by (simp add: store_run_def)
  obtain more where "so_log (reached (es @ [e]) f) = so_log (reached es f) @ more" using log_grows s by metis
  then have h: "history (view f) (so_log (reached (es @ [e]) f)) =
      history (view f) (so_log (reached es f)) @ map lg_new more" by (simp add: history_def)
  have d: "distinct (map key (history (view f) (so_log (reached es f))))"
    "None \<notin> set (map key (history (view f) (so_log (reached es f))))"
    using snoc.prems(2,3) unfolding h by auto
  then show ?case unfolding s by (intro step_consistent snoc.IH [OF snoc.prems(1)])
qed

text \<open>What a save overwrites: the version it was computed from, if and only if nothing was written between
  its check and its replacement.\<close>

lemma save_overwrites:
  assumes "valid f" "distinct (map key (history (view f) (so_log (reached es f))))"
    and "None \<notin> set (map key (history (view f) (so_log (reached es f))))"
    and "i < length (so_log (reached es f))" "r = so_log (reached es f) ! i"
  shows "lg_seen r \<le> i \<and> lg_base r = history (view f) (so_log (reached es f)) ! lg_seen r
    \<and> lg_replaced r = history (view f) (so_log (reached es f)) ! i \<and> (lg_replaced r = lg_base r \<longleftrightarrow> lg_seen r = i)"
proof -
  let ?h = "history (view f) (so_log (reached es f))"
  have c: "lg_seen r \<le> i" "lg_base r = ?h ! lg_seen r" "lg_replaced r = ?h ! i"
    using run_consistent [OF assms(1-3)] assms(4,5) by (auto simp: consistent_def)
  have "distinct ?h" using assms(2) by (simp add: distinct_map)
  then have "?h ! i = ?h ! lg_seen r \<longleftrightarrow> i = lg_seen r" using c(1) assms(4) by (intro nth_eq_iff_index_eq) auto
  with c show ?thesis by auto
qed

lemma final_version:
  assumes "valid f" "distinct (map key (history (view f) (so_log (reached es f))))"
    and "None \<notin> set (map key (history (view f) (so_log (reached es f))))"
  shows "view (so_file (reached es f)) = last (history (view f) (so_log (reached es f)))"
  using run_consistent [OF assms] by (simp add: consistent_def)

end

section \<open>The gateway as a versioned store\<close>

definition file_view :: "state_file \<Rightarrow> runner_state" where
  "file_view file = projr (load_state file)"

definition file_valid :: "state_file \<Rightarrow> bool" where
  "file_valid file \<longleftrightarrow> (\<exists>st. file = Some (PDict (serialize_state st)))"

definition check_state :: "string option \<Rightarrow> state_file \<Rightarrow> bool" where
  "check_state expected file \<longleftrightarrow> check_stale (\<lambda>_. []) file expected None = None"

definition put_state :: "runner_state \<Rightarrow> state_file \<Rightarrow> state_file" where
  "put_state st file = gateway_replace (serialize_state st) file"

lemma of_opt_eq_PStr: "of_opt x = PStr t \<longleftrightarrow> x = Some t"
  by (cases x) auto

interpretation state_gateway: versioned_store file_view rs_updated_at check_state put_state file_valid
  by unfold_locales
    (auto simp: file_valid_def file_view_def put_state_def check_state_def check_stale_def
      updated_at_serialized of_opt_eq_PStr split: option.splits if_splits)

text \<open>The gateway's save is these two steps, with any steps of others in between.\<close>

lemma save_is_check_then_replace:
  "gateway_save_between others (\<lambda>_. []) (serialize_state st) t None file =
    (if check_state t file then (Inr (), put_state st (others file)) else (Inl stale, file))"
  by (auto simp: check_state_def put_state_def check_stale_def Let_def split: option.splits if_splits)

end
