(* ===== verification/RunnerScenario.thy ===== *)
theory RunnerScenario
  imports VersionedStore
begin

text \<open>
  A concrete plan and its runs: two versions pass one after the other until the plan is completed; a fix
  that fails at the limit; and two runs that show where the limit and the passed status do not hold.
\<close>

definition rn_version :: "string \<Rightarrow> bool \<Rightarrow> build_version" where
  "rn_version v enabled = \<lparr>bv_version = v, bv_name = v, bv_enabled = enabled, bv_allowed_files = [''a.py''],
     bv_forbidden_files = [], bv_acceptance_commands = [\<lparr>ac_command = ''pytest'', ac_timeout_seconds = 600, ac_continue_on_failure = False\<rparr>],
     bv_reference = []\<rparr>"

definition rn_plan_of :: "string \<Rightarrow> build_plan" where
  "rn_plan_of v = \<lparr>bp_project_name = ''p'', bp_max_fix_attempts = 1,
     bp_versions = [rn_version v True, rn_version ''v2'' False, rn_version ''v3'' True],
     bp_review_policy = \<lparr>rp_enabled = False, rp_after_versions = []\<rparr>,
     bp_commit_policy = \<lparr>cp_enabled = False, cp_require_commit_before_continue = False\<rparr>,
     bp_logs_dir = ''l'', bp_runtime_dir = ''r'', bp_reference = []\<rparr>"

definition rn_plan :: build_plan where "rn_plan = rn_plan_of ''v1''"

text \<open>The environment: every command exits with this code, one allowed file changed, files can be written
  and audits exist.\<close>

definition rn_env :: "int \<Rightarrow> machine_env" where
  "rn_env code = \<lparr>me_clock = (\<lambda>n. ''t''), me_run_id = ''run'', me_shell = (\<lambda>i c. code),
     me_git = (True, \<lparr>go_exit_code = 0, go_stdout = ''a.py''\<rparr>, \<lparr>go_exit_code = 0, go_stdout = []\<rparr>),
     me_exists = (\<lambda>p. True), me_read = (\<lambda>p. Some ''text''), me_write = (\<lambda>p. True)\<rparr>"

definition rn0 :: runner_state where "rn0 = initialize_state rn_plan ''t0''"
definition rn1 :: runner_state where "rn1 = snd (run_acceptance_step False (rn_env 0) rn_plan rn0)"
definition rn2 :: runner_state where "rn2 = snd (continue_next_version (rn_env 0) rn_plan rn1)"
definition rn3 :: runner_state where "rn3 = snd (run_acceptance_step False (rn_env 0) rn_plan rn2)"
definition rn4 :: runner_state where "rn4 = snd (continue_next_version (rn_env 0) rn_plan rn3)"
definition rn_failed :: runner_state where "rn_failed = snd (run_acceptance_step True (rn_env 1) rn_plan rn0)"

lemma rn_reachable:
  "machine_reachable rn_plan rn0" "machine_reachable rn_plan rn1" "machine_reachable rn_plan rn2"
  "machine_reachable rn_plan rn3" "machine_reachable rn_plan rn4" "machine_reachable rn_plan rn_failed"
proof -
  show r0: "machine_reachable rn_plan rn0" unfolding rn0_def by (rule machine_reachable.start)
  show r1: "machine_reachable rn_plan rn1" unfolding rn1_def by (rule machine_reachable.step [OF r0 machine_step.acceptance])
  show r2: "machine_reachable rn_plan rn2" unfolding rn2_def by (rule machine_reachable.step [OF r1 machine_step.continue])
  show r3: "machine_reachable rn_plan rn3" unfolding rn3_def by (rule machine_reachable.step [OF r2 machine_step.acceptance])
  show "machine_reachable rn_plan rn4" unfolding rn4_def by (rule machine_reachable.step [OF r3 machine_step.continue])
  show "machine_reachable rn_plan rn_failed" unfolding rn_failed_def by (rule machine_reachable.step [OF r0 machine_step.acceptance])
qed

lemma rn_distinct: "distinct (map bv_version (bp_versions rn_plan))"
  by (simp add: rn_plan_def rn_plan_of_def rn_version_def)

lemma rn_versions: "length (bp_versions rn_plan) = 3" "bv_enabled (bp_versions rn_plan ! 0)" "bv_enabled (bp_versions rn_plan ! 2)"
  "bp_versions rn_plan ! 0 = rn_version ''v1'' True"
  by (simp_all add: rn_plan_def rn_plan_of_def rn_version_def)

lemma rn1_fields: "rs_status rn1 = ''VERSION_PASSED'' \<and> map vs_status (rs_versions rn1) = [''PASSED'', ''NOT_STARTED'', ''NOT_STARTED'']
    \<and> rs_current_version_index rn1 = 0"
  by code_simp

lemma rn2_fields: "rs_status rn2 = ''READY'' \<and> rs_current_version_index rn2 = 2 \<and> rs_current_version rn2 = Some ''v3''"
  by code_simp

lemma rn4_fields: "rs_status rn4 = ''COMPLETED'' \<and> map vs_status (rs_versions rn4) = [''PASSED'', ''NOT_STARTED'', ''PASSED'']"
  by code_simp

definition rn_failed_result :: version_run_result where
  "rn_failed_result = projr (fst (run_acceptance_step True (rn_env 1) rn_plan rn0))"

lemma rn_failed_run:
  "run_acceptance_step True (rn_env 1) rn_plan rn0 = (Inr rn_failed_result, rn_failed)"
  "ar_status (rr_acceptance rn_failed_result) = ''FAILED''" "rs_max_fix_attempts rn0 \<le> rs_attempt rn0"
  by code_simp+

section \<open>Where the limit and the status do not hold\<close>

text \<open>A failing run that is not a fix run unblocks pasting: with a limit of one, three fix prompts in a row
  are accepted when the acceptance is rerun between them.\<close>

definition rn_paste :: "runner_state \<Rightarrow> runner_state" where
  "rn_paste st = snd (paste_manual_fix_prompt (rn_env 1) rn_plan ''fix'' None None False st)"

definition rn_rerun :: "runner_state \<Rightarrow> runner_state" where
  "rn_rerun st = snd (run_acceptance_step False (rn_env 1) rn_plan st)"

lemma rerun_evades_fix_limit:
  "(let st = rn_paste (rn_rerun (rn_paste (rn_rerun (rn_paste (rn_rerun rn0))))) in
     rs_status st = ''FIX_PROMPT_READY'' \<and> rs_attempt st = 4 \<and> rs_max_fix_attempts st = 1)"
  by code_simp

text \<open>Reloading a plan that renames the passed current version keeps the runner's passed status for a
  version that was never run, and continuing then skips it.\<close>

definition rn_reloaded :: runner_state where
  "rn_reloaded = reconcile_state_with_reloaded_plan (rn_plan_of ''v1b'') rn1"

lemma reload_passes_unrun_version:
  "rs_status rn_reloaded = ''VERSION_PASSED'' \<and> rs_current_version rn_reloaded = Some ''v1b''
   \<and> map vs_status (rs_versions rn_reloaded) = [''NOT_STARTED'', ''NOT_STARTED'', ''NOT_STARTED'']
   \<and> rs_current_version (snd (continue_next_version (rn_env 0) (rn_plan_of ''v1b'') rn_reloaded)) = Some ''v3''"
  by code_simp

text \<open>The plan loader accepts two versions of one name.  Their runtimes are realigned by name before each
  move, the last one first: after both have passed, the run is completed with the second not started.\<close>

definition rn_twice :: build_plan where
  "rn_twice = rn_plan\<lparr>bp_versions := [rn_version ''v1'' True, rn_version ''v1'' True]\<rparr>"

definition rn_pass_and_continue :: "runner_state \<Rightarrow> runner_state" where
  "rn_pass_and_continue st = snd (continue_next_version (rn_env 0) rn_twice (snd (run_acceptance_step False (rn_env 0) rn_twice st)))"

lemma repeated_name_misplaces_passed:
  "(let st = rn_pass_and_continue (rn_pass_and_continue (initialize_state rn_twice ''t0''))
    in rs_status st = ''COMPLETED'' \<and> map vs_status (rs_versions st) = [''PASSED'', ''NOT_STARTED''])"
  by code_simp

section \<open>Concrete facts\<close>

lemma rn_step1: "machine_step rn_plan rn0 rn1"
  unfolding rn1_def by (rule machine_step.acceptance)

lemma rn0_status: "vs_status (rs_versions rn0 ! 0) = ''NOT_STARTED''"
  by code_simp

lemma rn1_status: "vs_status (rs_versions rn1 ! 0) = ''PASSED''"
  by code_simp

lemma rn1_passed: "rs_status (normalize_passed_current_version_status rn1) = ''VERSION_PASSED''"
  by code_simp

text \<open>Two services read the initial state.  When the first has saved before the second checks, the second
  save is refused; when both check before either writes, the second overwrites the update of the first.\<close>

abbreviation rn_saved :: "string \<Rightarrow> runner_state" where
  "rn_saved t \<equiv> rn0\<lparr>rs_updated_at := Some t\<rparr>"

abbreviation rn_run :: "runner_state access list \<Rightarrow> (state_file, runner_state) store" where
  "rn_run es \<equiv> store_run file_view rs_updated_at check_state put_state es (Some (PDict (serialize_state rn0)))"

definition rn_serial :: "runner_state access list" where
  "rn_serial = [Read 1, Read 2, Check 1 (rn_saved ''t1''), Replace 1, Check 2 (rn_saved ''t2''), Replace 2]"

definition rn_race :: "runner_state access list" where
  "rn_race = [Read 1, Read 2, Check 1 (rn_saved ''t1''), Check 2 (rn_saved ''t2''), Replace 1, Replace 2]"

lemma rn0_time: "rs_updated_at rn0 = Some ''t0''"
  by (simp add: rn0_def initialize_state_def Let_def)

lemmas rn_run_simps = store_run_def start_store_def check_state_def put_state_def file_view_def check_stale_def
  updated_at_serialized rn0_time

lemma second_save_refused: "so_log (rn_run rn_serial) =
    [\<lparr>lg_base = rn0, lg_new = rn_saved ''t1'', lg_replaced = rn0, lg_seen = 0\<rparr>]"
  by (simp add: rn_serial_def rn_run_simps)

lemma interleaved_save_overwrites_update:
  "so_log (rn_run rn_race) =
     [\<lparr>lg_base = rn0, lg_new = rn_saved ''t1'', lg_replaced = rn0, lg_seen = 0\<rparr>,
      \<lparr>lg_base = rn0, lg_new = rn_saved ''t2'', lg_replaced = rn_saved ''t1'', lg_seen = 0\<rparr>]
   \<and> file_view (so_file (rn_run rn_race)) = rn_saved ''t2''"
  by (simp add: rn_race_def rn_run_simps)

end
