(* ===== verification/StateWriters.thy ===== *)
theory StateWriters
  imports RunnerScenario
begin

text \<open>
  The services that write results of other workflows into the state file:
  \<open>runner/commit_state_workflow.py\<close> (the commit of a version) and \<open>runner/state_mutation.py\<close> (a passed manual
  validation, a resolved scope mismatch, a rechecked report, the state after an executor run).  Each
  changes the runner status and one runtime of a state that its caller has loaded, and saves it through
  the gateway against the time it was loaded with; \<open>k\<close> is the position of that runtime.
\<close>

section \<open>Recording a commit\<close>

record commit_reply =
  cr_ok :: bool
  cr_skipped :: bool
  cr_reason :: "string option"
  cr_version :: "string option"

definition skipped :: "string \<Rightarrow> string option \<Rightarrow> commit_reply" where
  "skipped reason v = \<lparr>cr_ok = True, cr_skipped = True, cr_reason = Some reason, cr_version = v\<rparr>"

fun first_named :: "string \<Rightarrow> nat \<Rightarrow> version_state list \<Rightarrow> nat option" where
  "first_named v i [] = None"
| "first_named v i (s # ss) = (if vs_version s = v then Some i else first_named v (Suc i) ss)"

definition requested :: "string option \<Rightarrow> string" where
  "requested version = py_strip (or_empty version)"

text \<open>The runtime the commit belongs to, and its name: the requested version or the current one.\<close>

definition commit_target :: "string option \<Rightarrow> runner_state \<Rightarrow> commit_reply + nat \<times> string option" where
  "commit_target version st =
    (let i = rs_current_version_index st in
     if requested version \<noteq> [] then
       (case first_named (requested version) 0 (rs_versions st) of
          None \<Rightarrow> Inl (skipped ''version_not_found'' (Some (requested version)))
        | Some k \<Rightarrow> Inr (k, Some (requested version)))
     else if no_current st \<or> i < 0 \<or> int (length (rs_versions st)) \<le> i then Inl (skipped ''no_current_version'' None)
     else Inr (nat i, rs_current_version st))"

definition with_commit :: "string \<Rightarrow> string \<Rightarrow> string \<Rightarrow> string list \<Rightarrow> version_state \<Rightarrow> version_state" where
  "with_commit now commit_hash message files s =
    s\<lparr>vs_commit_hash := Some commit_hash, vs_committed_at := Some now, vs_commit_message := Some message,
      vs_commit_files := Some files, vs_status := (if vs_status s = ''NOT_STARTED'' then ''PASSED'' else vs_status s)\<rparr>"

definition record_commit_metadata ::
  "(nat \<Rightarrow> string) \<Rightarrow> string \<Rightarrow> string \<Rightarrow> string list \<Rightarrow> string option \<Rightarrow> state_file \<Rightarrow> commit_reply \<times> state_file" where
  "record_commit_metadata clock commit_hash message files version file =
    (if file = None then (skipped ''runner_state_missing'' None, file)
     else case load_state file of
       Inl e \<Rightarrow> (skipped ''state_load_failed'' None, file)
     | Inr st \<Rightarrow>
         (case commit_target version st of
            Inl reply \<Rightarrow> (reply, file)
          | Inr (k, name) \<Rightarrow>
              (let st1 = (upd_version k (with_commit (clock 0) commit_hash message files) st)\<lparr>rs_updated_at := Some (clock 1)\<rparr> in
               case gateway_save (\<lambda>_. []) st1 (rs_updated_at st) None file of
                 (Inl e, file1) \<Rightarrow> (\<lparr>cr_ok = False, cr_skipped = True, cr_reason = Some ''state_save_failed'', cr_version = None\<rparr>, file1)
               | (Inr _, file1) \<Rightarrow> (\<lparr>cr_ok = True, cr_skipped = False, cr_reason = None, cr_version = name\<rparr>, file1))))"

section \<open>Mutations by other workflows\<close>

record manual_validation =
  mv_runner_status_to :: string
  mv_version_status_to :: string
  mv_validation_run_id :: string
  mv_commands :: "string list"
  mv_current_head :: string
  mv_reason :: string
  mv_recorded_at :: string
  mv_note :: string

definition add_metadata :: "string \<Rightarrow> py \<Rightarrow> version_state \<Rightarrow> version_state" where
  "add_metadata key v s = s\<lparr>vs_metadata := Some (dset key v (case vs_metadata s of None \<Rightarrow> [] | Some m \<Rightarrow> m))\<rparr>"

definition or_value :: "string option \<Rightarrow> string \<Rightarrow> string option" where
  "or_value a b = (if or_empty a = [] then Some b else a)"

definition validated_runtime :: "manual_validation \<Rightarrow> version_state \<Rightarrow> version_state" where
  "validated_runtime m s =
    add_metadata ''manual_validation_passed''
      (PDict [(''validation_run_id'', PStr (mv_validation_run_id m)), (''commands'', PList (map PStr (mv_commands m))),
              (''current_head'', PStr (mv_current_head m)), (''reason'', PStr (mv_reason m)), (''recorded_at'', PStr (mv_recorded_at m))])
      (s\<lparr>vs_status := mv_version_status_to m, vs_completed_at := or_value (vs_completed_at s) (mv_recorded_at m),
         vs_commit_hash := (if mv_current_head m = [] then vs_commit_hash s else Some (mv_current_head m)),
         vs_note := Some (mv_note m)\<rparr>)"

record mutation_reply =
  mr_runner_status :: string
  mr_version_status :: string

text \<open>The part the mutations share: the runner status, one runtime, the time, and the save.\<close>

definition mutate_and_save ::
  "string \<Rightarrow> (version_state \<Rightarrow> version_state) \<Rightarrow> string \<Rightarrow> nat \<Rightarrow> runner_state \<Rightarrow> state_file \<Rightarrow> mutation_reply result \<times> state_file" where
  "mutate_and_save status f now k st file =
    (let st1 = (upd_version k f st)\<lparr>rs_status := status, rs_updated_at := Some now\<rparr> in
     case gateway_save (\<lambda>_. []) st1 (rs_updated_at st) None file of
       (Inl e, file1) \<Rightarrow> (Inl e, file1)
     | (Inr _, file1) \<Rightarrow> (Inr \<lparr>mr_runner_status = status, mr_version_status = vs_status (rs_versions st1 ! k)\<rparr>, file1))"

definition apply_manual_validation_pass ::
  "manual_validation \<Rightarrow> nat \<Rightarrow> runner_state \<Rightarrow> state_file \<Rightarrow> mutation_reply result \<times> state_file" where
  "apply_manual_validation_pass m = mutate_and_save (mv_runner_status_to m) (validated_runtime m) (mv_recorded_at m)"

record scope_resolution =
  sm_runner_status_to :: string
  sm_version_status_to :: string
  sm_note :: string
  sm_metadata :: dict
  sm_recorded_at :: string

definition apply_scope_mismatch_resolution ::
  "scope_resolution \<Rightarrow> nat \<Rightarrow> runner_state \<Rightarrow> state_file \<Rightarrow> mutation_reply result \<times> state_file" where
  "apply_scope_mismatch_resolution m =
    mutate_and_save (sm_runner_status_to m)
      (\<lambda>s. add_metadata ''scope_mismatch_resolution'' (PDict (sm_metadata m)) (s\<lparr>vs_status := sm_version_status_to m, vs_note := Some (sm_note m)\<rparr>))
      (sm_recorded_at m)"

definition apply_recheck_report_state_refresh ::
  "string \<Rightarrow> string \<Rightarrow> string \<Rightarrow> nat \<Rightarrow> runner_state \<Rightarrow> state_file \<Rightarrow> mutation_reply result \<times> state_file" where
  "apply_recheck_report_state_refresh runner_status version_status now =
    mutate_and_save runner_status
      (\<lambda>s. s\<lparr>vs_status := version_status, vs_completed_at := or_value (vs_completed_at s) now\<rparr>) now"

text \<open>The state after an executor run is saved as the caller has changed it; without a baseline the save is
  not checked.\<close>

definition persist_executor_run_state :: "string option \<Rightarrow> runner_state \<Rightarrow> state_file \<Rightarrow> runner_state result \<times> state_file" where
  "persist_executor_run_state baseline st file =
    (case gateway_save (\<lambda>_. []) st baseline None file of
       (Inl e, file1) \<Rightarrow> (Inl e, file1)
     | (Inr _, file1) \<Rightarrow> (Inr st, file1))"

section \<open>What the writers change\<close>

lemma gateway_save_state:
  "gateway_save hash_of st expected eh file = (r, file1) \<Longrightarrow>
    (r = Inr () \<and> load_state file1 = Inr st) \<or> (file1 = file \<and> (\<exists>e. r = Inl e))"
  by (auto simp: gateway_save_def gateway_save_raw_def split: option.splits)

lemma first_named_Some:
  "first_named v i ss = Some k \<Longrightarrow> i \<le> k \<and> k < i + length ss \<and> vs_version (ss ! (k - i)) = v"
proof (induction ss arbitrary: i)
  case (Cons s ss)
  show ?case
  proof (cases "vs_version s = v")
    case False
    with Cons.prems have "first_named v (Suc i) ss = Some k" by simp
    from Cons.IH [OF this] have l: "Suc i \<le> k" "k < Suc i + length ss" "vs_version (ss ! (k - Suc i)) = v" by auto
    moreover from l(1) have "k - i = Suc (k - Suc i)" by simp
    ultimately show ?thesis by simp
  qed (use Cons.prems in auto)
qed simp

lemma commit_target_position: "commit_target version st = Inr (k, name) \<Longrightarrow> k < length (rs_versions st)"
  by (auto simp: commit_target_def Let_def nat_less_iff dest!: first_named_Some split: if_splits option.splits)

text \<open>A recorded commit is the commit of one runtime; every other runtime and the runner status stay, and
  the status of the runtime stays unless it had not started.\<close>

lemma recorded_commit:
  assumes "record_commit_metadata clock commit_hash message files version file = (r, file')" "\<not> cr_skipped r"
  shows "\<exists>st k name. load_state file = Inr st \<and> commit_target version st = Inr (k, name) \<and> k < length (rs_versions st)
    \<and> load_state file' = Inr ((upd_version k (with_commit (clock 0) commit_hash message files) st)\<lparr>rs_updated_at := Some (clock 1)\<rparr>)"
proof -
  from assms obtain st where st: "load_state file = Inr st"
    by (cases "load_state file") (auto simp: record_commit_metadata_def skipped_def split: if_splits)
  have f: "file \<noteq> None"
  proof
    assume "file = None"
    with st show False by (simp add: load_state_def)
  qed
  show ?thesis
  proof (cases "commit_target version st")
    case (Inl reply)
    then have "cr_skipped reply" by (auto simp: commit_target_def Let_def skipped_def split: if_splits option.splits)
    with assms st f Inl show ?thesis by (auto simp: record_commit_metadata_def)
  next
    case (Inr kn)
    obtain k name where kn: "kn = (k, name)" by fastforce
    define st1 where "st1 = (upd_version k (with_commit (clock 0) commit_hash message files) st)\<lparr>rs_updated_at := Some (clock 1)\<rparr>"
    obtain g file1 where g: "gateway_save (\<lambda>_. []) st1 (rs_updated_at st) None file = (g, file1)" by fastforce
    have "(r, file') = (case (g, file1) of
          (Inl e, file1) \<Rightarrow> (\<lparr>cr_ok = False, cr_skipped = True, cr_reason = Some ''state_save_failed'', cr_version = None\<rparr>, file1)
        | (Inr _, file1) \<Rightarrow> (\<lparr>cr_ok = True, cr_skipped = False, cr_reason = None, cr_version = name\<rparr>, file1))"
      unfolding assms(1) [symmetric] g [symmetric] st1_def by (simp add: record_commit_metadata_def f st Inr kn)
    with assms(2) have "g = Inr () \<and> file1 = file'" by (cases g) auto
    with gateway_save_state [OF g] have "load_state file' = Inr st1" by auto
    with st Inr kn commit_target_position show ?thesis by (auto simp: st1_def)
  qed
qed

lemma commit_target_version:
  assumes "commit_target version st = Inr (k, name)"
  shows "if requested version = [] then int k = rs_current_version_index st
    else vs_version (rs_versions st ! k) = requested version"
  using assms by (auto simp: commit_target_def Let_def dest!: first_named_Some split: if_splits option.splits)

lemma recorded_commit_effect:
  assumes "record_commit_metadata clock commit_hash message files version file = (r, file')" "\<not> cr_skipped r"
  shows "\<exists>st k. load_state file = Inr st \<and> k < length (rs_versions st)
    \<and> (if requested version = [] then int k = rs_current_version_index st
       else vs_version (rs_versions st ! k) = requested version)
    \<and> load_state file' = Inr (st\<lparr>rs_versions := (rs_versions st)[k := (rs_versions st ! k)
         \<lparr>vs_commit_hash := Some commit_hash, vs_committed_at := Some (clock 0), vs_commit_message := Some message,
          vs_commit_files := Some files,
          vs_status := (if vs_status (rs_versions st ! k) = ''NOT_STARTED'' then ''PASSED'' else vs_status (rs_versions st ! k))\<rparr>],
         rs_updated_at := Some (clock 1)\<rparr>)"
proof -
  from recorded_commit [OF assms] obtain st k name where st: "load_state file = Inr st" "commit_target version st = Inr (k, name)"
    "k < length (rs_versions st)"
    "load_state file' = Inr ((upd_version k (with_commit (clock 0) commit_hash message files) st)\<lparr>rs_updated_at := Some (clock 1)\<rparr>)"
    by blast
  show ?thesis
    by (intro exI [of _ st] exI [of _ k] conjI commit_target_version [OF st(2)] st(1,3))
      (simp add: st(4) upd_version_def with_commit_def)
qed

lemma mutation_saved:
  assumes "mutate_and_save status f now k st file = (Inr r, file')"
  shows "load_state file' = Inr ((upd_version k f st)\<lparr>rs_status := status, rs_updated_at := Some now\<rparr>)"
proof -
  define st1 where "st1 = (upd_version k f st)\<lparr>rs_status := status, rs_updated_at := Some now\<rparr>"
  obtain g file1 where g: "gateway_save (\<lambda>_. []) st1 (rs_updated_at st) None file = (g, file1)" by fastforce
  from assms have "g = Inr () \<and> file1 = file'" by (cases g) (auto simp: mutate_and_save_def st1_def [symmetric] g Let_def)
  with gateway_save_state [OF g] show ?thesis by (auto simp: st1_def)
qed

text \<open>Recording a commit passes a version that has never run.\<close>

lemma commit_passes_unrun_version:
  "map_sum id (map vs_status \<circ> rs_versions)
     (load_state (snd (record_commit_metadata (\<lambda>n. ''t'') ''c'' ''m'' [] None (Some (PDict (serialize_state rn0))))))
   = Inr [''PASSED'', ''NOT_STARTED'', ''NOT_STARTED'']"
  by code_simp

end
