(* ===== verification/StateDicts.thy ===== *)
theory StateDicts
  imports RunnerServices
begin

text \<open>
  What \<open>runner/state_lineage_reconciliation.py\<close> and \<open>runner/final_version_closeout.py\<close> share: both read
  the plan and the state file as plain JSON values, propose a new state in a preview and write it when
  it is applied.  The two files have the same helper functions.
\<close>

section \<open>Cleaning of inputs\<close>

definition clean_str :: "py \<Rightarrow> string" where
  "clean_str v = (case v of PStr s \<Rightarrow> py_strip s | _ \<Rightarrow> [])"

definition str_list :: "py \<Rightarrow> string list" where
  "str_list v =
    (case v of
       PList xs \<Rightarrow> List.map_filter (\<lambda>x. case x of PStr s \<Rightarrow> if py_strip s = [] then None else Some (py_strip s) | _ \<Rightarrow> None) xs
     | PStr s \<Rightarrow> if py_strip s = [] then [] else [py_strip s]
     | _ \<Rightarrow> [])"

text \<open>The output of \<open>git status --short\<close>, as one text or as lines.\<close>

datatype git_status = Status_Text string | Status_Lines "string list"

definition status_lines :: "git_status \<Rightarrow> string list" where
  "status_lines v = filter (\<lambda>l. l \<noteq> []) (map py_strip (case v of Status_Lines ls \<Rightarrow> ls | Status_Text s \<Rightarrow> splitlines s))"

definition hex_char :: "char \<Rightarrow> bool" where
  "hex_char c = (let n = (of_char c :: nat) in (48 \<le> n \<and> n \<le> 57) \<or> (97 \<le> n \<and> n \<le> 102) \<or> (65 \<le> n \<and> n \<le> 70))"

definition looks_like_commit :: "string \<Rightarrow> bool" where
  "looks_like_commit s \<longleftrightarrow> length s = 40 \<and> list_all hex_char s"

section \<open>Versions by name\<close>

text \<open>\<open>_version_index\<close>: the named versions with their positions in the list.\<close>

fun named_from :: "nat \<Rightarrow> py list \<Rightarrow> (string \<times> nat) list" where
  "named_from i [] = []"
| "named_from i (x # xs) =
     (case x of
        PDict d \<Rightarrow> if clean_str (dget d ''version'') \<noteq> [] then (clean_str (dget d ''version''), i) # named_from (Suc i) xs
                   else named_from (Suc i) xs
      | _ \<Rightarrow> named_from (Suc i) xs)"

definition version_index :: "py \<Rightarrow> (string \<times> nat) list" where
  "version_index items = (case items of PList xs \<Rightarrow> named_from 0 xs | _ \<Rightarrow> [])"

text \<open>The dict of the positions: the last one of a name counts.\<close>

definition lookup_index :: "(string \<times> nat) list \<Rightarrow> string \<Rightarrow> nat option" where
  "lookup_index vs = map_of (rev vs)"

definition state_runtime_at :: "dict \<Rightarrow> nat option \<Rightarrow> dict option" where
  "state_runtime_at state idx =
    (case (idx, dget state ''versions'') of
       (Some i, PList xs) \<Rightarrow> if i < length xs then (case xs ! i of PDict d \<Rightarrow> Some d | _ \<Rightarrow> None) else None
     | _ \<Rightarrow> None)"

definition runtime_status :: "dict option \<Rightarrow> string" where
  "runtime_status runtime = (case runtime of Some d \<Rightarrow> if d = [] then [] else clean_str (dget d ''status'') | None \<Rightarrow> [])"

definition position_of :: "dict \<Rightarrow> string \<Rightarrow> nat option" where
  "position_of d = lookup_index (version_index (dget d ''versions''))"

definition order_of :: "dict \<Rightarrow> string list" where
  "order_of d = map fst (version_index (dget d ''versions''))"

section \<open>Summaries\<close>

definition summary_item :: "dict \<Rightarrow> dict" where
  "summary_item d = [(''version'', dget d ''version''), (''status'', dget d ''status''),
     (''commit_hash'', dget d ''commit_hash''), (''commit_message'', dget d ''commit_message'')]"

definition summary_items :: "dict \<Rightarrow> dict list result" where
  "summary_items state = ebind (list_or_empty (dget state ''versions'')) (\<lambda>xs.
     Inr (List.map_filter (\<lambda>x. case x of PDict d \<Rightarrow> Some (summary_item d) | _ \<Rightarrow> None) xs))"

definition state_summary :: "dict \<Rightarrow> dict list \<Rightarrow> dict" where
  "state_summary state items =
    [(''runner_status'', dget state ''status''), (''current_version'', dget state ''current_version''),
     (''current_version_index'', dget state ''current_version_index''), (''versions'', PList (map PDict items))]"

text \<open>\<open>_versions_to_update\<close>, on the items of two summaries.  A list or a dict cannot be a key.\<close>

definition previous_item :: "dict list \<Rightarrow> py \<Rightarrow> dict" where
  "previous_item items v = (case find (\<lambda>d. py_eq (dget d ''version'') v) (rev items) of Some d \<Rightarrow> d | None \<Rightarrow> [])"

definition versions_to_update :: "dict list \<Rightarrow> dict list \<Rightarrow> py list result" where
  "versions_to_update before after =
    (if \<not> list_all (\<lambda>d. hashable (dget d ''version'')) (before @ after) then Inl (Py_Exc ''TypeError'')
     else Inr (List.map_filter (\<lambda>d. let old = previous_item before (dget d ''version'') in
             if py_eq (PDict d) (PDict old) then None
             else Some (PDict [(''version'', dget d ''version''), (''before'', PDict old), (''after'', PDict d)])) after))"

section \<open>Previews and their application\<close>

abbreviation strs :: "string list \<Rightarrow> py" where
  "strs xs \<equiv> PList (map PStr xs)"

definition list_of :: "py \<Rightarrow> py list" where
  "list_of v = (case v of PList xs \<Rightarrow> xs | _ \<Rightarrow> [])"

text \<open>What git knows of commits: which exist, and their subjects (none for an unknown one).\<close>

record commit_facts =
  cf_exists :: "string \<Rightarrow> bool"
  cf_subject :: "string \<Rightarrow> string"

definition head_blockers :: "string \<Rightarrow> string \<Rightarrow> string list" where
  "head_blockers expected current =
    (if expected = [] then [''EXPECTED_HEAD_REQUIRED''] else if current \<noteq> expected then [''HEAD_MISMATCH''] else [])"

definition branch_blockers :: "string \<Rightarrow> string \<Rightarrow> string list" where
  "branch_blockers expected current =
    (if expected \<noteq> [] \<and> current \<noteq> [] \<and> current \<noteq> expected then [''BRANCH_MISMATCH''] else [])"

definition with_metadata :: "string \<Rightarrow> py \<Rightarrow> string \<Rightarrow> dict \<Rightarrow> dict" where
  "with_metadata k v note runtime =
    dset ''note'' (PStr note)
      (dset ''metadata'' (PDict (dset k v (case dget runtime ''metadata'' of PDict m \<Rightarrow> m | _ \<Rightarrow> []))) runtime)"

text \<open>The part the two previews share: a runtime becomes passed by a commit.\<close>

definition pass_runtime :: "string \<Rightarrow> string \<Rightarrow> string \<Rightarrow> string list \<Rightarrow> dict \<Rightarrow> dict" where
  "pass_runtime now commit subject files r0 =
    (let r1 = dset ''status'' (PStr ''PASSED'') r0;
         r2 = dset ''completed_at'' (py_or (dget r1 ''completed_at'') (PStr now)) r1;
         r3 = dset ''committed_at'' (py_or (dget r2 ''committed_at'') (PStr now)) r2;
         r4 = dset ''commit_message'' (PStr subject) (dset ''commit_hash'' (PStr commit) r3)
     in if files = [] then r4 else dset ''commit_files'' (PList (map PStr files)) r4)"

text \<open>Updating the runtime at a position, where there is one.\<close>

definition upd_runtime :: "nat option \<Rightarrow> (dict \<Rightarrow> dict) \<Rightarrow> py list \<Rightarrow> py list" where
  "upd_runtime pos f versions =
    (case pos of
       None \<Rightarrow> versions
     | Some i \<Rightarrow> if length versions \<le> i then versions
                else (case versions ! i of PDict d \<Rightarrow> versions[i := PDict (f d)] | _ \<Rightarrow> versions))"

lemma upd_runtime_length [simp]: "length (upd_runtime pos f vs) = length vs"
  by (simp add: upd_runtime_def split: option.splits py.splits)

lemma upd_runtime_other: "pos \<noteq> Some i \<Longrightarrow> upd_runtime pos f vs ! i = vs ! i"
  by (auto simp: upd_runtime_def nth_list_update split: option.splits py.splits)

lemma upd_runtime_hit: "i < length vs \<Longrightarrow> vs ! i = PDict d \<Longrightarrow> upd_runtime (Some i) f vs = vs[i := PDict (f d)]"
  by (simp add: upd_runtime_def)

definition APPLY_TOUCHES :: "string list" where
  "APPLY_TOUCHES = [''.colameta/state.json'', ''.colameta/runtime/executor-workflow-previews/<preview_id>.json'']"

record apply_facts =
  af_current_head :: string
  af_current_branch :: string
  af_git_status :: git_status
  af_git :: commit_facts

text \<open>The guards of the two applies that come first: identity and kind of the preview, head, branch,
  worktree and state.  The first failed one is the error.\<close>

definition apply_guard :: "(py \<Rightarrow> string) \<Rightarrow> string \<Rightarrow> dict \<Rightarrow> dict \<Rightarrow> string \<Rightarrow> apply_facts \<Rightarrow> string option" where
  "apply_guard hash_of kind artifact state preview_id facts =
    (let expected_branch = clean_str (dget artifact ''expected_branch'') in
     if preview_id = [] then Some ''PREVIEW_ID_REQUIRED''
     else if dget artifact ''preview_id'' \<noteq> PStr preview_id then Some ''PREVIEW_ID_MISMATCH''
     else if dget artifact ''artifact_kind'' \<noteq> PStr kind then Some ''PREVIEW_KIND_MISMATCH''
     else if \<not> truthy (dget artifact ''can_apply'') then Some ''PREVIEW_BLOCKED''
     else if py_strip (af_current_head facts) \<noteq> clean_str (dget artifact ''expected_head'') then Some ''HEAD_CHANGED_SINCE_PREVIEW''
     else if branch_blockers expected_branch (af_current_branch facts) \<noteq> [] then Some ''BRANCH_CHANGED_SINCE_PREVIEW''
     else if status_lines (af_git_status facts) \<noteq> [] then Some ''WORKTREE_DIRTY''
     else if hash_of (PDict state) \<noteq> clean_str (dget artifact ''state_hash'') then Some ''STATE_CHANGED_SINCE_PREVIEW''
     else None)"

definition applied_reply :: "string \<Rightarrow> string list \<Rightarrow> dict \<Rightarrow> dict \<Rightarrow> dict result" where
  "applied_reply action forbidden state new_state =
    ebind (summary_items state) (\<lambda>before. ebind (summary_items new_state) (\<lambda>after.
      ebind (versions_to_update before after) (\<lambda>updates. Inr
        [(''ok'', PBool True), (''action'', PStr action), (''status'', PStr ''succeeded''), (''updated_state'', PDict new_state),
         (''before_state_summary'', PDict (state_summary state before)), (''after_state_summary'', PDict (state_summary new_state after)),
         (''versions_updated'', PList updates), (''files_touched'', strs APPLY_TOUCHES),
         (''forbidden_side_effects'', strs forbidden)])))"

text \<open>The write: the gateway compares the hash of the state file, which may have changed since it was read.\<close>

definition save_updated_state :: "(py \<Rightarrow> string) \<Rightarrow> dict \<Rightarrow> (string + dict) result \<Rightarrow> state_file \<Rightarrow> (string + dict) result \<times> state_file" where
  "save_updated_state hash_of artifact reply file =
    (case reply of
       Inr (Inr r) \<Rightarrow>
         (case dget r ''updated_state'' of
            PDict new_state \<Rightarrow>
              (case gateway_save_raw hash_of new_state None (Some (clean_str (dget artifact ''state_hash''))) file of
                 (Inl e, file1) \<Rightarrow> (Inr (Inl ''STATE_SAVE_FAILED''), file1)
               | (Inr _, file1) \<Rightarrow> (reply, file1))
          | _ \<Rightarrow> (reply, file))
     | _ \<Rightarrow> (reply, file))"

section \<open>Facts of the index\<close>

lemma named_from_sound:
  "(s, k) \<in> set (named_from i xs) \<Longrightarrow>
    i \<le> k \<and> k < i + length xs \<and> s \<noteq> [] \<and> (\<exists>d. xs ! (k - i) = PDict d \<and> clean_str (dget d ''version'') = s)"
proof (induction xs arbitrary: i)
  case (Cons x xs)
  from Cons.prems consider
      (here) d where "x = PDict d" "s = clean_str (dget d ''version'')" "k = i" "s \<noteq> []"
    | (later) "(s, k) \<in> set (named_from (Suc i) xs)"
    by (cases x) (auto split: if_splits)
  then show ?case
  proof cases
    case later
    from Cons.IH [OF this] have l: "Suc i \<le> k" "k < Suc i + length xs" "s \<noteq> []"
      "\<exists>d. xs ! (k - Suc i) = PDict d \<and> clean_str (dget d ''version'') = s" by auto
    from l(1) have "k - i = Suc (k - Suc i)" by simp
    with l show ?thesis by auto
  qed auto
qed simp

lemma named_from_complete:
  "xs ! k = PDict d \<Longrightarrow> k < length xs \<Longrightarrow> clean_str (dget d ''version'') \<noteq> []
    \<Longrightarrow> (clean_str (dget d ''version''), i + k) \<in> set (named_from i xs)"
proof (induction xs arbitrary: i k)
  case (Cons x xs)
  show ?case
  proof (cases k)
    case 0
    with Cons.prems show ?thesis by auto
  next
    case (Suc n)
    with Cons.prems Cons.IH [of n "Suc i"] have "(clean_str (dget d ''version''), Suc i + n) \<in> set (named_from (Suc i) xs)" by simp
    then show ?thesis using Suc by (cases x) auto
  qed
qed simp

text \<open>A named version, by its position.\<close>

definition version_at :: "dict \<Rightarrow> nat \<Rightarrow> string \<Rightarrow> dict \<Rightarrow> bool" where
  "version_at state k s d \<longleftrightarrow> state_runtime_at state (Some k) = Some d \<and> clean_str (dget d ''version'') = s"

lemma lookup_index_sound:
  assumes "lookup_index (version_index (dget state ''versions'')) s = Some k"
  shows "s \<noteq> [] \<and> (\<exists>d. version_at state k s d)"
proof -
  from assms have "(s, k) \<in> set (version_index (dget state ''versions''))"
    by (auto simp: lookup_index_def dest: map_of_SomeD)
  then obtain xs where xs: "dget state ''versions'' = PList xs" "(s, k) \<in> set (named_from 0 xs)"
    by (cases "dget state ''versions''") (auto simp: version_index_def)
  from named_from_sound [OF xs(2)] xs(1) show ?thesis
    by (auto simp: version_at_def state_runtime_at_def)
qed

lemma position_sound:
  "position_of state s = Some k \<Longrightarrow> s \<noteq> [] \<and> (\<exists>d. version_at state k s d)"
  by (simp add: position_of_def lookup_index_sound)

lemma position_inj: "position_of state s = Some k \<Longrightarrow> position_of state t = Some k \<Longrightarrow> s = t"
  by (auto dest!: position_sound simp: version_at_def)

text \<open>A version that a runtime has is not the empty dict.\<close>

lemma version_at_nonempty: "version_at state k s d \<Longrightarrow> s \<noteq> [] \<Longrightarrow> d \<noteq> []"
  by (auto simp: version_at_def clean_str_def dget_or_def)

lemma version_at_list:
  "version_at state k s d \<longleftrightarrow> (\<exists>xs. dget state ''versions'' = PList xs \<and> k < length xs \<and> xs ! k = PDict d)
     \<and> clean_str (dget d ''version'') = s"
  by (auto simp: version_at_def state_runtime_at_def split: py.splits if_splits)

lemma status_set: "d \<noteq> [] \<Longrightarrow> runtime_status (Some (dset ''status'' (PStr s) d)) = py_strip s"
  by (auto simp: runtime_status_def clean_str_def)

lemma pass_runtime_status: "dget (pass_runtime now commit subject files r) ''status'' = PStr ''PASSED''"
  by (simp add: pass_runtime_def Let_def)

lemma pass_runtime_nonempty: "pass_runtime now commit subject files r \<noteq> []"
proof
  assume "pass_runtime now commit subject files r = []"
  with pass_runtime_status [of now commit subject files r] show False by (simp add: dget_or_def)
qed

lemma pass_runtime_passed [simp]: "runtime_status (Some (pass_runtime now commit subject files r)) = ''PASSED''"
proof -
  have "py_strip ''PASSED'' = ''PASSED''" by code_simp
  then show ?thesis by (simp add: runtime_status_def pass_runtime_nonempty pass_runtime_status clean_str_def)
qed

section \<open>What an accepted apply wrote\<close>

lemma applied_reply_state: "applied_reply action forbidden st new = Inr r \<Longrightarrow> dget r ''updated_state'' = PDict new"
  by (auto simp: applied_reply_def dget_or_def)

lemma saved_reply:
  assumes "save_updated_state hash_of art reply file = (Inr (Inr r), file')"
  shows "reply = Inr (Inr r)"
    "dget r ''updated_state'' = PDict new \<Longrightarrow> file' = Some (PDict new)"
    "dget r ''updated_state'' = PDict new \<Longrightarrow>
      \<exists>current. file = Some current \<and> hash_of current = clean_str (dget art ''state_hash'')"
proof -
  from assms show rr: "reply = Inr (Inr r)" by (auto simp: save_updated_state_def split: sum.splits py.splits prod.splits)
  assume u: "dget r ''updated_state'' = PDict new"
  have "gateway_save_raw hash_of new None (Some (clean_str (dget art ''state_hash''))) file = (Inr (), file')"
    using assms by (auto simp: rr save_updated_state_def u split: sum.splits prod.splits)
  then show "file' = Some (PDict new)" "\<exists>current. file = Some current \<and> hash_of current = clean_str (dget art ''state_hash'')"
    by (auto simp: gateway_save_raw_def check_stale_def split: option.splits if_splits)
qed

text \<open>The artifact the service stores: the preview with its id and expiry.\<close>

definition stored_artifact :: "string \<Rightarrow> string \<Rightarrow> dict \<Rightarrow> dict" where
  "stored_artifact preview_id expires_at a = dset ''expires_at'' (PStr expires_at) (dset ''preview_id'' (PStr preview_id) a)"

lemma stored_artifact_get [simp]:
  "k \<noteq> ''expires_at'' \<Longrightarrow> k \<noteq> ''preview_id'' \<Longrightarrow> dget (stored_artifact pid ex a) k = dget a k"
  "dget (stored_artifact pid ex a) ''preview_id'' = PStr pid"
  by (simp_all add: stored_artifact_def)

end
