(* ===== verification/LineageReconciliation.thy ===== *)
theory LineageReconciliation
  imports StateDicts
begin

text \<open>
  \<open>runner/state_lineage_reconciliation.py\<close>: binding versions that were completed outside the runner to
  the commits that completed them.  The preview checks the bindings and proposes a state; the apply
  checks that nothing moved since and hands the proposed state to the gateway.  Messages are left out;
  the blockers of a preview keep their codes and order.
\<close>

section \<open>Bindings\<close>

text \<open>\<open>str.upper()\<close> on Latin-1; the two letters whose upper case is outside Latin-1 stay.\<close>

definition py_upper :: "string \<Rightarrow> string" where
  "py_upper s = concat (map (\<lambda>c. let n = (of_char c :: nat) in
     if n = 223 then ''SS''
     else if (97 \<le> n \<and> n \<le> 122) \<or> (224 \<le> n \<and> n \<le> 254 \<and> n \<noteq> 247) then [char_of (n - 32)] else [c]) s)"

definition PASSED_ALIASES :: "string list" where
  "PASSED_ALIASES = [''pass'', ''passed'', ''complete'', ''completed'', ''success'', ''succeeded'']"

definition NOT_STARTED_ALIASES :: "string list" where
  "NOT_STARTED_ALIASES = [''not_started'', ''not-started'', ''not started'', ''next_runnable'']"

definition normalize_status :: "py \<Rightarrow> string" where
  "normalize_status v =
    (let lowered = py_lower (clean_str v) in
     if lowered \<in> set PASSED_ALIASES then ''PASSED''
     else if lowered \<in> set NOT_STARTED_ALIASES then ''NOT_STARTED''
     else py_upper (clean_str v))"

record binding =
  bd_version :: string
  bd_target_status :: string
  bd_accepted_commit :: string
  bd_accepted_commit_subject :: string
  bd_commit_files :: "string list"
  bd_evidence_refs :: "string list"
  bd_evidence_summary :: string
  bd_reason :: string

definition normalize_binding :: "py \<Rightarrow> binding" where
  "normalize_binding raw0 =
    (let raw = (case raw0 of PDict d \<Rightarrow> d | _ \<Rightarrow> []) in
     \<lparr>bd_version = clean_str (dget raw ''version''),
      bd_target_status = normalize_status (py_or (dget raw ''target_status'') (dget raw ''status'')),
      bd_accepted_commit = clean_str (py_or (dget raw ''accepted_commit'') (dget raw ''commit_hash'')),
      bd_accepted_commit_subject = clean_str (py_or (py_or (dget raw ''accepted_commit_subject'')
        (dget raw ''commit_subject'')) (dget raw ''commit_message'')),
      bd_commit_files = str_list (dget raw ''commit_files''),
      bd_evidence_refs = str_list (dget raw ''evidence_refs''),
      bd_evidence_summary = clean_str (py_or (py_or (dget raw ''evidence_summary'') (dget raw ''receipt'')) (dget raw ''evidence'')),
      bd_reason = clean_str (dget raw ''reason'')\<rparr>)"

text \<open>The binding as the dict of the code.\<close>

definition binding_dict :: "binding \<Rightarrow> dict" where
  "binding_dict b =
    [(''version'', PStr (bd_version b)), (''target_status'', PStr (bd_target_status b)),
     (''accepted_commit'', PStr (bd_accepted_commit b)), (''accepted_commit_subject'', PStr (bd_accepted_commit_subject b)),
     (''commit_files'', PList (map PStr (bd_commit_files b))), (''evidence_refs'', PList (map PStr (bd_evidence_refs b))),
     (''evidence_summary'', PStr (bd_evidence_summary b)), (''reason'', PStr (bd_reason b))]"

definition validate_binding :: "commit_facts \<Rightarrow> binding \<Rightarrow> string list" where
  "validate_binding git b =
    (if bd_target_status b \<notin> {''PASSED'', ''NOT_STARTED''} then [''UNSUPPORTED_TARGET_STATUS''] else [])
    @ (if bd_reason b = [] then [''REASON_REQUIRED''] else [])
    @ (if bd_evidence_refs b = [] \<and> bd_evidence_summary b = [] then [''EVIDENCE_REQUIRED''] else [])
    @ (if bd_target_status b \<noteq> ''PASSED'' then []
       else if \<not> looks_like_commit (bd_accepted_commit b) then [''ACCEPTED_COMMIT_REQUIRED'']
       else (if bd_accepted_commit_subject b = [] then [''ACCEPTED_COMMIT_SUBJECT_REQUIRED''] else [])
         @ (if \<not> cf_exists git (bd_accepted_commit b) then [''ACCEPTED_COMMIT_MISSING'']
            else if py_strip (cf_subject git (bd_accepted_commit b)) \<noteq> bd_accepted_commit_subject b
            then [''ACCEPTED_COMMIT_SUBJECT_MISMATCH''] else []))"

text \<open>The loop over the bindings: the blockers and the normalised bindings that name a version.\<close>

fun read_bindings :: "commit_facts \<Rightarrow> (string \<Rightarrow> nat option) \<Rightarrow> (string \<Rightarrow> nat option) \<Rightarrow> string list \<Rightarrow> py list
    \<Rightarrow> string list \<times> binding list" where
  "read_bindings git plan_lookup state_lookup seen [] = ([], [])"
| "read_bindings git plan_lookup state_lookup seen (raw # raws) =
     (let b = normalize_binding raw; v = bd_version b in
      if v = [] then
        (let (bl, bs) = read_bindings git plan_lookup state_lookup seen raws in (''BINDING_VERSION_REQUIRED'' # bl, bs))
      else
        (let (bl, bs) = read_bindings git plan_lookup state_lookup (v # seen) raws in
         ((if v \<in> set seen then [''DUPLICATE_BINDING''] else [])
          @ (if plan_lookup v = None then [''VERSION_MISSING_FROM_PLAN''] else [])
          @ (if state_lookup v = None then [''VERSION_MISSING_FROM_STATE''] else [])
          @ validate_binding git b @ bl, b # bs)))"

definition binding_of :: "binding list \<Rightarrow> string \<Rightarrow> binding option" where
  "binding_of bs v = find (\<lambda>b. bd_version b = v) (rev bs)"

section \<open>The proposed state\<close>

definition lineage_note :: string where
  "lineage_note = ''state_lineage_reconciliation: manually controlled completion bound to Runner state.''"

definition lineage_record :: "string \<Rightarrow> binding \<Rightarrow> py" where
  "lineage_record now b = PDict
    [(''target_status'', PStr (bd_target_status b)), (''accepted_commit'', PStr (bd_accepted_commit b)),
     (''accepted_commit_subject'', PStr (bd_accepted_commit_subject b)),
     (''evidence_refs'', PList (map PStr (bd_evidence_refs b))), (''evidence_summary'', PStr (bd_evidence_summary b)),
     (''reason'', PStr (bd_reason b)), (''recorded_at'', PStr now)]"

definition bind_runtime :: "string \<Rightarrow> binding \<Rightarrow> dict \<Rightarrow> dict" where
  "bind_runtime now b runtime =
    (let r = with_metadata ''state_lineage_reconciliation'' (lineage_record now b) lineage_note runtime in
     if bd_target_status b = ''PASSED''
     then pass_runtime now (bd_accepted_commit b) (bd_accepted_commit_subject b) (bd_commit_files b) r
     else if bd_target_status b = ''NOT_STARTED'' then dset ''status'' (PStr ''NOT_STARTED'') r
     else r)"

definition apply_binding :: "(string \<Rightarrow> nat option) \<Rightarrow> string \<Rightarrow> py list \<Rightarrow> binding \<Rightarrow> py list" where
  "apply_binding state_lookup now versions b = upd_runtime (state_lookup (bd_version b)) (bind_runtime now b) versions"

definition build_proposed_state :: "dict \<Rightarrow> binding list \<Rightarrow> (string \<Rightarrow> nat option) \<Rightarrow> string \<Rightarrow> int \<Rightarrow> string \<Rightarrow> dict" where
  "build_proposed_state state bs state_lookup target target_index now =
    dset ''updated_at'' (PStr now) (dset ''current_version_index'' (PInt target_index)
      (dset ''current_version'' (PStr target) (dset ''status'' (PStr ''READY'')
        (dset ''versions'' (PList (foldl (apply_binding state_lookup now) (list_of (dget state ''versions'')) bs)) state))))"

section \<open>The preview\<close>

record lineage_request =
  lr_plan :: dict
  lr_state :: dict
  lr_bindings :: py
  lr_expected_head :: string
  lr_current_head :: string
  lr_git_status :: git_status
  lr_target_next_version :: string
  lr_now :: string
  lr_state_file :: string
  lr_project_root :: string
  lr_expected_branch :: string
  lr_current_branch :: string

definition earlier_blockers :: "dict \<Rightarrow> dict \<Rightarrow> binding list \<Rightarrow> nat \<Rightarrow> string list" where
  "earlier_blockers plan state bs target_idx =
    concat (map (\<lambda>v.
      if runtime_status (state_runtime_at state (position_of state v)) = ''PASSED'' then []
      else case binding_of bs v of
             Some b \<Rightarrow> if bd_target_status b \<noteq> ''PASSED'' then [''UNRESOLVED_EARLIER_VERSION''] else []
           | None \<Rightarrow> [''UNRESOLVED_EARLIER_VERSION'']) (take target_idx (order_of plan)))"

definition future_blockers :: "dict \<Rightarrow> binding list \<Rightarrow> nat \<Rightarrow> string list" where
  "future_blockers plan bs target_idx =
    concat (map (\<lambda>b. case position_of plan (bd_version b) of
       Some i \<Rightarrow> if target_idx \<le> i \<and> bd_target_status b = ''PASSED'' then [''FUTURE_VERSION_COMPLETION_NOT_ALLOWED''] else []
     | None \<Rightarrow> []) bs)"

definition target_blockers :: "dict \<Rightarrow> binding list \<Rightarrow> string \<Rightarrow> string list" where
  "target_blockers state bs target =
    (case state_runtime_at state (position_of state target) of
       Some (x # d) \<Rightarrow>
         if target \<noteq> [] \<and> clean_str (dget (x # d) ''status'') \<noteq> ''NOT_STARTED''
            \<and> (case binding_of bs target of Some b \<Rightarrow> bd_target_status b \<noteq> ''NOT_STARTED'' | None \<Rightarrow> True)
         then [''TARGET_NEXT_VERSION_NOT_NOT_STARTED''] else []
     | _ \<Rightarrow> [])"

definition read_request_bindings :: "commit_facts \<Rightarrow> lineage_request \<Rightarrow> string list \<times> binding list" where
  "read_request_bindings git q =
    read_bindings git (position_of (lr_plan q)) (position_of (lr_state q)) [] (list_of (lr_bindings q))"

definition lineage_blockers :: "commit_facts \<Rightarrow> lineage_request \<Rightarrow> string list" where
  "lineage_blockers git q =
    (let target = py_strip (lr_target_next_version q);
         (binding_blockers, bs) = read_request_bindings git q
     in head_blockers (py_strip (lr_expected_head q)) (py_strip (lr_current_head q))
        @ branch_blockers (lr_expected_branch q) (lr_current_branch q)
        @ (if status_lines (lr_git_status q) \<noteq> [] then [''WORKTREE_DIRTY''] else [])
        @ (if target = [] then [''TARGET_NEXT_VERSION_REQUIRED''] else [])
        @ (if target \<noteq> [] \<and> position_of (lr_plan q) target = None then [''TARGET_NEXT_VERSION_MISSING_FROM_PLAN''] else [])
        @ (if target \<noteq> [] \<and> position_of (lr_state q) target = None then [''TARGET_NEXT_VERSION_MISSING_FROM_STATE''] else [])
        @ binding_blockers
        @ (if bs = [] then [''BINDINGS_REQUIRED''] else [])
        @ (case position_of (lr_plan q) target of
             None \<Rightarrow> []
           | Some i \<Rightarrow> earlier_blockers (lr_plan q) (lr_state q) bs i @ future_blockers (lr_plan q) bs i)
        @ target_blockers (lr_state q) bs target)"

definition proposed_of :: "commit_facts \<Rightarrow> lineage_request \<Rightarrow> dict" where
  "proposed_of git q =
    (let target = py_strip (lr_target_next_version q) in
     build_proposed_state (lr_state q) (snd (read_request_bindings git q)) (position_of (lr_state q)) target
       (case position_of (lr_plan q) target of None \<Rightarrow> - 1 | Some i \<Rightarrow> int i) (lr_now q))"


definition FORBIDDEN_SIDE_EFFECTS :: "string list" where
  "FORBIDDEN_SIDE_EFFECTS = [''executor_run'', ''git_fetch'', ''git_pull'', ''git_push'', ''git_tag'', ''git_release'',
     ''restart'', ''reload'', ''kill'', ''source_file_mutation'', ''plan_file_mutation'', ''prompt_file_mutation'']"

definition commit_bindings :: "binding list \<Rightarrow> py list" where
  "commit_bindings bs = map (\<lambda>b. PDict [(''version'', PStr (bd_version b)), (''accepted_commit'', PStr (bd_accepted_commit b)),
     (''accepted_commit_subject'', PStr (bd_accepted_commit_subject b))]) (filter (\<lambda>b. bd_target_status b = ''PASSED'') bs)"

definition evidence_refs :: "binding list \<Rightarrow> py list" where
  "evidence_refs bs = map (\<lambda>b. PDict [(''version'', PStr (bd_version b)), (''evidence_refs'', strs (bd_evidence_refs b)),
     (''evidence_summary'', PStr (bd_evidence_summary b))]) bs"

text \<open>\<open>hash_of\<close> is the digest of the sorted JSON text, as in the gateway.\<close>

definition lineage_artifact ::
  "(py \<Rightarrow> string) \<Rightarrow> commit_facts \<Rightarrow> lineage_request \<Rightarrow> dict list \<Rightarrow> dict list \<Rightarrow> py list \<Rightarrow> dict" where
  "lineage_artifact hash_of git q before after updates =
    (let bl = lineage_blockers git q; bs = snd (read_request_bindings git q) in
     [(''ok'', PBool True), (''action'', PStr ''state_lineage_reconciliation_preview''),
      (''artifact_kind'', PStr ''state_lineage_reconciliation''),
      (''status'', PStr (if bl = [] then ''preview_ready'' else ''blocked'')),
      (''risk_level'', PStr (if bl = [] then ''preview'' else ''blocked'')), (''can_apply'', PBool (bl = [])),
      (''blockers'', PList (map (\<lambda>c. PDict [(''code'', PStr c)]) bl)), (''warnings'', PList []),
      (''project_root'', PStr (lr_project_root q)), (''state_file'', PStr (lr_state_file q)),
      (''expected_head'', PStr (py_strip (lr_expected_head q))), (''current_head'', PStr (py_strip (lr_current_head q))),
      (''expected_branch'', PStr (lr_expected_branch q)), (''current_branch'', PStr (lr_current_branch q)),
      (''target_next_version'', PStr (py_strip (lr_target_next_version q))),
      (''plan_order'', strs (order_of (lr_plan q))), (''state_order'', strs (order_of (lr_state q))),
      (''state_hash'', PStr (hash_of (PDict (lr_state q)))),
      (''before_state_summary'', PDict (state_summary (lr_state q) before)),
      (''proposed_after_state_summary'', PDict (state_summary (proposed_of git q) after)),
      (''versions_to_update'', PList updates), (''commit_bindings'', PList (commit_bindings bs)),
      (''evidence_refs'', PList (evidence_refs bs)), (''files_apply_would_touch'', strs APPLY_TOUCHES),
      (''forbidden_side_effects'', strs FORBIDDEN_SIDE_EFFECTS),
      (''bindings'', PList (map (PDict \<circ> binding_dict) bs)),
      (''proposed_state'', if bl = [] then PDict (proposed_of git q) else PNone), (''created_at'', PStr (lr_now q))])"

definition build_state_lineage_reconciliation_preview ::
  "(py \<Rightarrow> string) \<Rightarrow> commit_facts \<Rightarrow> lineage_request \<Rightarrow> dict result" where
  "build_state_lineage_reconciliation_preview hash_of git q =
    ebind (summary_items (lr_state q)) (\<lambda>before. ebind (summary_items (proposed_of git q)) (\<lambda>after.
      ebind (versions_to_update before after) (\<lambda>updates. Inr (lineage_artifact hash_of git q before after updates))))"

section \<open>Applying a preview\<close>

fun check_bindings :: "commit_facts \<Rightarrow> py list \<Rightarrow> string option" where
  "check_bindings git [] = None"
| "check_bindings git (raw # raws) =
     (let b = normalize_binding raw in
      if bd_target_status b \<noteq> ''PASSED'' then check_bindings git raws
      else if \<not> cf_exists git (bd_accepted_commit b) then Some ''ACCEPTED_COMMIT_MISSING''
      else if py_strip (cf_subject git (bd_accepted_commit b)) \<noteq> bd_accepted_commit_subject b
      then Some ''ACCEPTED_COMMIT_SUBJECT_MISMATCH''
      else check_bindings git raws)"

text \<open>A blocked apply is its error code.\<close>

definition apply_state_lineage_reconciliation_artifact ::
  "(py \<Rightarrow> string) \<Rightarrow> dict \<Rightarrow> dict \<Rightarrow> string \<Rightarrow> apply_facts \<Rightarrow> (string + dict) result" where
  "apply_state_lineage_reconciliation_artifact hash_of artifact state preview_id facts =
    (case apply_guard hash_of ''state_lineage_reconciliation'' artifact state preview_id facts of
       Some code \<Rightarrow> Inr (Inl code)
     | None \<Rightarrow> ebind (list_or_empty (dget artifact ''bindings'')) (\<lambda>raws.
         case check_bindings (af_git facts) raws of
           Some code \<Rightarrow> Inr (Inl code)
         | None \<Rightarrow> (case dget artifact ''proposed_state'' of
             PDict new_state \<Rightarrow> ebind (applied_reply ''state_lineage_reconciliation_apply'' FORBIDDEN_SIDE_EFFECTS state new_state) (\<lambda>r. Inr (Inr r))
           | _ \<Rightarrow> Inr (Inl ''PREVIEW_CORRUPTED''))))"

section \<open>What a preview without blockers proposes\<close>

lemma apply_binding_length [simp]: "length (apply_binding lk now vs b) = length vs"
  by (simp add: apply_binding_def)

lemma apply_bindings_length [simp]: "length (foldl (apply_binding lk now) vs bs) = length vs"
  by (induction bs arbitrary: vs) auto

lemma apply_binding_other: "lk (bd_version b) \<noteq> Some i \<Longrightarrow> apply_binding lk now vs b ! i = vs ! i"
  by (simp add: apply_binding_def upd_runtime_other)

lemma apply_bindings_other:
  "\<forall>b\<in>set bs. lk (bd_version b) \<noteq> Some i \<Longrightarrow> foldl (apply_binding lk now) vs bs ! i = vs ! i"
  by (induction bs arbitrary: vs) (auto simp: apply_binding_other)

lemma apply_binding_hit:
  "lk (bd_version b) = Some i \<Longrightarrow> i < length vs \<Longrightarrow> vs ! i = PDict d
    \<Longrightarrow> apply_binding lk now vs b ! i = PDict (bind_runtime now b d)"
  by (simp add: apply_binding_def upd_runtime_hit)

text \<open>Bindings of different versions write different runtimes, so each one is applied exactly once.\<close>

lemma apply_bindings_hit:
  assumes inj: "\<And>s t k. lk s = Some k \<Longrightarrow> lk t = Some k \<Longrightarrow> s = t"
    and "distinct (map bd_version bs)" "b \<in> set bs" "lk (bd_version b) = Some i" "i < length vs" "vs ! i = PDict d"
  shows "foldl (apply_binding lk now) vs bs ! i = PDict (bind_runtime now b d)"
  using assms(2-)
proof (induction bs arbitrary: vs)
  case (Cons c bs)
  show ?case
  proof (cases "c = b")
    case True
    with Cons.prems have "lk (bd_version x) \<noteq> Some i" if "x \<in> set bs" for x
      using inj [of "bd_version x" i "bd_version b"] that by (auto simp: image_iff)
    with True Cons.prems show ?thesis by (simp add: apply_bindings_other apply_binding_hit)
  next
    case False
    with Cons.prems have "bd_version c \<noteq> bd_version b" by auto
    then have "lk (bd_version c) \<noteq> Some i" using inj Cons.prems(3) by blast
    with Cons.prems False show ?thesis by (simp add: apply_binding_other Cons.IH)
  qed
qed simp

lemma bind_runtime_status:
  "bd_target_status b = ''PASSED'' \<Longrightarrow> runtime_status (Some (bind_runtime now b d)) = ''PASSED''"
  "bd_target_status b = ''NOT_STARTED'' \<Longrightarrow> runtime_status (Some (bind_runtime now b d)) = ''NOT_STARTED''"
proof -
  show "bd_target_status b = ''PASSED'' \<Longrightarrow> runtime_status (Some (bind_runtime now b d)) = ''PASSED''"
    by (simp add: bind_runtime_def Let_def)
next
  assume n: "bd_target_status b = ''NOT_STARTED''"
  have "with_metadata k v t d \<noteq> []" for k v t
    by (auto simp: with_metadata_def dest!: arg_cong [where f = "\<lambda>x. dget x ''note''"])
  moreover have "py_strip ''NOT_STARTED'' = ''NOT_STARTED''" by code_simp
  ultimately show "runtime_status (Some (bind_runtime now b d)) = ''NOT_STARTED''"
    using n by (simp add: bind_runtime_def Let_def status_set)
qed

text \<open>Bindings that raised no blocker.\<close>

definition binding_ok :: "commit_facts \<Rightarrow> (string \<Rightarrow> nat option) \<Rightarrow> (string \<Rightarrow> nat option) \<Rightarrow> binding \<Rightarrow> bool" where
  "binding_ok git plan_lookup state_lookup b \<longleftrightarrow>
     bd_version b \<noteq> [] \<and> plan_lookup (bd_version b) \<noteq> None \<and> state_lookup (bd_version b) \<noteq> None
   \<and> bd_target_status b \<in> {''PASSED'', ''NOT_STARTED''} \<and> bd_reason b \<noteq> []
   \<and> (bd_evidence_refs b \<noteq> [] \<or> bd_evidence_summary b \<noteq> [])
   \<and> (bd_target_status b = ''PASSED'' \<longrightarrow> looks_like_commit (bd_accepted_commit b) \<and> bd_accepted_commit_subject b \<noteq> []
        \<and> cf_exists git (bd_accepted_commit b) \<and> py_strip (cf_subject git (bd_accepted_commit b)) = bd_accepted_commit_subject b)"

lemma validate_binding_ok:
  "validate_binding git b = [] \<longleftrightarrow>
     bd_target_status b \<in> {''PASSED'', ''NOT_STARTED''} \<and> bd_reason b \<noteq> []
   \<and> (bd_evidence_refs b \<noteq> [] \<or> bd_evidence_summary b \<noteq> [])
   \<and> (bd_target_status b = ''PASSED'' \<longrightarrow> looks_like_commit (bd_accepted_commit b) \<and> bd_accepted_commit_subject b \<noteq> []
        \<and> cf_exists git (bd_accepted_commit b) \<and> py_strip (cf_subject git (bd_accepted_commit b)) = bd_accepted_commit_subject b)"
  by (auto simp: validate_binding_def)

lemma read_bindings_ok:
  assumes "read_bindings git pl sl seen raws = ([], bs)"
  shows "(\<forall>b\<in>set bs. binding_ok git pl sl b) \<and> distinct (map bd_version bs) \<and> set (map bd_version bs) \<inter> set seen = {}"
  using assms
proof (induction raws arbitrary: seen bs)
  case (Cons raw raws)
  define b where "b = normalize_binding raw"
  obtain bl bs1 where rec: "read_bindings git pl sl (bd_version b # seen) raws = (bl, bs1)" by fastforce
  have v: "bd_version b \<noteq> []"
    using Cons.prems by (auto simp: b_def Let_def split: if_splits prod.splits)
  with Cons.prems rec have n: "bl = []" "bs = b # bs1" "bd_version b \<notin> set seen" "pl (bd_version b) \<noteq> None"
      "sl (bd_version b) \<noteq> None" "validate_binding git b = []"
    by (auto simp: b_def [symmetric] Let_def split: if_splits)
  from Cons.IH [OF rec [unfolded n(1)]] n(2-5) v n(6) [unfolded validate_binding_ok] show ?case
    by (auto simp: binding_ok_def)
qed simp

lemma binding_of_Some: "binding_of bs v = Some b \<Longrightarrow> b \<in> set bs \<and> bd_version b = v"
  by (auto simp: binding_of_def find_Some_iff) (metis nth_mem set_rev length_rev)

lemma binding_of_None: "binding_of bs v = None \<longleftrightarrow> v \<notin> set (map bd_version bs)"
  by (auto simp: binding_of_def find_None_iff)


lemma proposed_fields:
  "dget (proposed_of git q) ''status'' = PStr ''READY''"
  "dget (proposed_of git q) ''current_version'' = PStr (py_strip (lr_target_next_version q))"
  "position_of (lr_plan q) (py_strip (lr_target_next_version q)) = Some i
    \<Longrightarrow> dget (proposed_of git q) ''current_version_index'' = PInt (int i)"
  "dget (proposed_of git q) ''versions'' = PList (foldl (apply_binding (position_of (lr_state q)) (lr_now q))
     (list_of (dget (lr_state q) ''versions'')) (snd (read_request_bindings git q)))"
  by (simp_all add: proposed_of_def build_proposed_state_def Let_def)

lemma runtime_at_list:
  "dget state ''versions'' = PList xs \<Longrightarrow>
    state_runtime_at state (Some k) = (if k < length xs then (case xs ! k of PDict d \<Rightarrow> Some d | _ \<Rightarrow> None) else None)"
  by (simp add: state_runtime_at_def)

lemma proposed_unbound:
  assumes "\<forall>b\<in>set (snd (read_request_bindings git q)). position_of (lr_state q) (bd_version b) \<noteq> Some k"
  shows "state_runtime_at (proposed_of git q) (Some k) = state_runtime_at (lr_state q) (Some k)"
proof (cases "\<exists>xs. dget (lr_state q) ''versions'' = PList xs")
  case True
  then obtain xs where xs: "dget (lr_state q) ''versions'' = PList xs" by blast
  with apply_bindings_other [OF assms] show ?thesis
    by (simp add: runtime_at_list [OF proposed_fields(4)] runtime_at_list [OF xs] list_of_def)
next
  case False
  then have "list_of (dget (lr_state q) ''versions'') = []" "state_runtime_at (lr_state q) (Some k) = None"
    by (auto simp: list_of_def state_runtime_at_def split: py.splits)
  then show ?thesis by (simp add: runtime_at_list [OF proposed_fields(4)])
qed

lemma proposed_bound:
  assumes "distinct (map bd_version bs)" "b \<in> set bs" "position_of (lr_state q) (bd_version b) = Some k"
    and "bs = snd (read_request_bindings git q)"
  shows "\<exists>d. state_runtime_at (lr_state q) (Some k) = Some d
    \<and> state_runtime_at (proposed_of git q) (Some k) = Some (bind_runtime (lr_now q) b d)"
proof -
  from position_sound [OF assms(3)] obtain d xs where d: "dget (lr_state q) ''versions'' = PList xs" "k < length xs" "xs ! k = PDict d"
    by (auto simp: version_at_list)
  have "foldl (apply_binding (position_of (lr_state q)) (lr_now q)) xs bs ! k = PDict (bind_runtime (lr_now q) b d)"
    by (rule apply_bindings_hit [where lk = "position_of (lr_state q)", OF _ assms(1,2,3) d(2,3)]) (rule position_inj)
  with d show ?thesis
    by (simp add: runtime_at_list [OF proposed_fields(4)] runtime_at_list [OF d(1)] list_of_def assms(4))
qed

text \<open>A preview without blockers, blocker by blocker.\<close>

lemma lineage_unblocked:
  assumes "lineage_blockers git q = []" "read_request_bindings git q = (bl, bs)"
  defines "target \<equiv> py_strip (lr_target_next_version q)"
  shows "bl = []" "bs \<noteq> []" "target \<noteq> []" "position_of (lr_plan q) target \<noteq> None" "position_of (lr_state q) target \<noteq> None"
    "head_blockers (py_strip (lr_expected_head q)) (py_strip (lr_current_head q)) = []"
    "branch_blockers (lr_expected_branch q) (lr_current_branch q) = []" "status_lines (lr_git_status q) = []"
    "position_of (lr_plan q) target = Some i \<Longrightarrow> earlier_blockers (lr_plan q) (lr_state q) bs i = []"
    "position_of (lr_plan q) target = Some i \<Longrightarrow> future_blockers (lr_plan q) bs i = []"
    "target_blockers (lr_state q) bs target = []"
proof -
  note all = assms(1) [unfolded lineage_blockers_def Let_def assms(2) prod.case append_is_Nil_conv, folded target_def]
  from all show "target \<noteq> []" by (simp split: if_splits)
  with all show "position_of (lr_plan q) target \<noteq> None" "position_of (lr_state q) target \<noteq> None"
    by (auto split: if_splits)
  from all show "bl = []" "target_blockers (lr_state q) bs target = []"
    "head_blockers (py_strip (lr_expected_head q)) (py_strip (lr_current_head q)) = []"
    "branch_blockers (lr_expected_branch q) (lr_current_branch q) = []" by blast+
  from all show "bs \<noteq> []" "status_lines (lr_git_status q) = []" by (auto split: if_splits)
  assume "position_of (lr_plan q) target = Some i"
  with all show "earlier_blockers (lr_plan q) (lr_state q) bs i = []" "future_blockers (lr_plan q) bs i = []"
    by simp_all
qed

lemma unblocked_bindings:
  assumes "lineage_blockers git q = []"
  defines "bs \<equiv> snd (read_request_bindings git q)"
  shows "bs \<noteq> []" "distinct (map bd_version bs)"
    "\<forall>b\<in>set bs. binding_ok git (position_of (lr_plan q)) (position_of (lr_state q)) b"
proof -
  obtain bl where r: "read_request_bindings git q = (bl, bs)" by (cases "read_request_bindings git q") (simp add: bs_def)
  note n = lineage_unblocked(1,2) [OF assms(1) r]
  then show "bs \<noteq> []" "distinct (map bd_version bs)"
    "\<forall>b\<in>set bs. binding_ok git (position_of (lr_plan q)) (position_of (lr_state q)) b"
    using n read_bindings_ok r by (auto simp: read_request_bindings_def)
qed

lemma earlier_blockers_none:
  assumes "earlier_blockers plan state bs i = []" "v \<in> set (take i (order_of plan))"
  shows "runtime_status (state_runtime_at state (position_of state v)) = ''PASSED''
    \<or> (\<exists>c. binding_of bs v = Some c \<and> bd_target_status c = ''PASSED'')"
proof (rule ccontr)
  assume n: "\<not> ?thesis"
  define f where "f = (\<lambda>v. if runtime_status (state_runtime_at state (position_of state v)) = ''PASSED'' then []
      else case binding_of bs v of
             Some b \<Rightarrow> if bd_target_status b \<noteq> ''PASSED'' then [''UNRESOLVED_EARLIER_VERSION''] else []
           | None \<Rightarrow> [''UNRESOLVED_EARLIER_VERSION''])"
  have "f v \<noteq> []" using n by (cases "binding_of bs v") (simp_all add: f_def)
  moreover have "f v = []"
    using assms unfolding earlier_blockers_def f_def [symmetric] concat_eq_Nil_conv by simp
  ultimately show False by simp
qed

text \<open>A version before the target is passed in the proposed state, unless a binding sends it back.\<close>

lemma earlier_versions_passed:
  assumes ok: "lineage_blockers git q = []"
    and i: "position_of (lr_plan q) (py_strip (lr_target_next_version q)) = Some i"
    and v: "v \<in> set (take i (order_of (lr_plan q)))"
  shows "(\<exists>k. position_of (lr_state q) v = Some k \<and> runtime_status (state_runtime_at (proposed_of git q) (Some k)) = ''PASSED'')
    \<or> (\<exists>b\<in>set (snd (read_request_bindings git q)). bd_version b = v \<and> bd_target_status b = ''NOT_STARTED'')"
proof -
  define bs where "bs = snd (read_request_bindings git q)"
  note b = unblocked_bindings [OF ok, folded bs_def]
  have r: "read_request_bindings git q = (fst (read_request_bindings git q), bs)" by (simp add: bs_def)
  have "earlier_blockers (lr_plan q) (lr_state q) bs i = []" by (rule lineage_unblocked(9) [OF ok r i])
  then have e: "runtime_status (state_runtime_at (lr_state q) (position_of (lr_state q) v)) = ''PASSED''
      \<or> (\<exists>c. binding_of bs v = Some c \<and> bd_target_status c = ''PASSED'')"
    by (rule earlier_blockers_none [OF _ v])
  show ?thesis
  proof (cases "binding_of bs v")
    case (Some c)
    then have c: "c \<in> set bs" "bd_version c = v" by (auto dest: binding_of_Some)
    with b(3) obtain k where k: "position_of (lr_state q) v = Some k" by (auto simp: binding_ok_def)
    show ?thesis
    proof (cases "bd_target_status c = ''PASSED''")
      case True
      from proposed_bound [OF b(2) c(1) _ bs_def] c(2) k obtain d where
        "state_runtime_at (proposed_of git q) (Some k) = Some (bind_runtime (lr_now q) c d)" by auto
      with True k show ?thesis by (auto simp: bind_runtime_status(1))
    next
      case False
      with b(3) c have "bd_target_status c = ''NOT_STARTED''" by (auto simp: binding_ok_def)
      with c show ?thesis by (auto simp: bs_def)
    qed
  next
    case None
    with e have p: "runtime_status (state_runtime_at (lr_state q) (position_of (lr_state q) v)) = ''PASSED''" by auto
    then obtain k where k: "position_of (lr_state q) v = Some k"
      by (cases "position_of (lr_state q) v") (auto simp: state_runtime_at_def runtime_status_def)
    have "position_of (lr_state q) (bd_version c) \<noteq> Some k" if "c \<in> set bs" for c
      using None that k position_inj [of "lr_state q" "bd_version c" k v] by (auto simp: binding_of_None)
    then have "state_runtime_at (proposed_of git q) (Some k) = state_runtime_at (lr_state q) (Some k)"
      by (intro proposed_unbound) (auto simp: bs_def)
    with p k show ?thesis by auto
  qed
qed

lemma target_not_started:
  assumes ok: "lineage_blockers git q = []"
  defines "target \<equiv> py_strip (lr_target_next_version q)"
  shows "\<exists>i k. position_of (lr_plan q) target = Some i \<and> position_of (lr_state q) target = Some k
    \<and> runtime_status (state_runtime_at (proposed_of git q) (Some k)) = ''NOT_STARTED''"
proof -
  define bs where "bs = snd (read_request_bindings git q)"
  note b = unblocked_bindings [OF ok, folded bs_def]
  have rr: "read_request_bindings git q = (fst (read_request_bindings git q), bs)" by (simp add: bs_def)
  note u = lineage_unblocked [OF ok rr, folded target_def]
  from u(4,5) obtain i k where i: "position_of (lr_plan q) target = Some i" and k: "position_of (lr_state q) target = Some k" by blast
  note t = u(11) u(10) [OF i] u(3)
  from position_sound [OF k] obtain d where d: "version_at (lr_state q) k target d" by blast
  then have r: "state_runtime_at (lr_state q) (Some k) = Some d" "d \<noteq> []"
    using version_at_nonempty t(3) by (auto simp: version_at_def)
  have "runtime_status (state_runtime_at (proposed_of git q) (Some k)) = ''NOT_STARTED''"
  proof (cases "binding_of bs target")
    case (Some c)
    then have c: "c \<in> set bs" "bd_version c = target" by (auto dest: binding_of_Some)
    with t(2) i have "bd_target_status c \<noteq> ''PASSED''" by (fastforce simp: future_blockers_def split: if_splits)
    with b(3) c have n: "bd_target_status c = ''NOT_STARTED''" by (auto simp: binding_ok_def)
    from proposed_bound [OF b(2) c(1) _ bs_def] c(2) k obtain d' where
      "state_runtime_at (proposed_of git q) (Some k) = Some (bind_runtime (lr_now q) c d')" by auto
    with n show ?thesis by (simp add: bind_runtime_status(2))
  next
    case None
    with t(1,3) k r have "clean_str (dget d ''status'') = ''NOT_STARTED''"
      by (cases d) (auto simp: target_blockers_def split: if_splits)
    moreover have "position_of (lr_state q) (bd_version c) \<noteq> Some k" if "c \<in> set bs" for c
      using None that k position_inj [of "lr_state q" "bd_version c" k target] by (auto simp: binding_of_None)
    then have "state_runtime_at (proposed_of git q) (Some k) = Some d"
      using r(1) proposed_unbound [of git q k] by (auto simp: bs_def)
    ultimately show ?thesis using r(2) by (simp add: runtime_status_def)
  qed
  with i k show ?thesis by blast
qed

section \<open>From the preview to the state file\<close>

lemma read_bindings_normalized:
  "read_bindings git pl sl seen raws = (bl, bs) \<Longrightarrow> b \<in> set bs \<Longrightarrow> \<exists>raw. b = normalize_binding raw"
proof (induction raws arbitrary: seen bl bs)
  case (Cons raw raws)
  obtain bl1 bs1 where "read_bindings git pl sl (bd_version (normalize_binding raw) # seen) raws = (bl1, bs1)" by fastforce
  moreover obtain bl2 bs2 where "read_bindings git pl sl seen raws = (bl2, bs2)" by fastforce
  ultimately show ?case using Cons by (auto simp: Let_def split: if_splits)
qed simp

lemma clean_str_again [simp]: "py_strip (clean_str v) = clean_str v" "clean_str (PStr (clean_str v)) = clean_str v"
proof -
  have e: "py_strip [] = []" by (simp add: py_strip_def)
  show s: "py_strip (clean_str v) = clean_str v" by (cases v) (simp_all add: clean_str_def e)
  show "clean_str (PStr (clean_str v)) = clean_str v" using s by (simp add: clean_str_def [of "PStr (clean_str v)"])
qed

lemma clean_or_none [simp]:
  "clean_str (py_or (PStr (clean_str v)) PNone) = clean_str v"
  "clean_str (py_or (py_or (PStr (clean_str v)) PNone) PNone) = clean_str v"
  by (cases "clean_str v = []"; simp add: py_or_def; simp add: clean_str_def)+

lemma normalize_status_again:
  "normalize_status (py_or (PStr s) PNone) = s" if "s \<in> {''PASSED'', ''NOT_STARTED''}"
proof -
  have "normalize_status (py_or (PStr ''PASSED'') PNone) = ''PASSED''"
    "normalize_status (py_or (PStr ''NOT_STARTED'') PNone) = ''NOT_STARTED''" by code_simp+
  with that show ?thesis by blast
qed

lemma normalize_binding_again:
  assumes "b = normalize_binding raw" "bd_target_status b \<in> {''PASSED'', ''NOT_STARTED''}"
  defines "c \<equiv> normalize_binding (PDict (binding_dict b))"
  shows "bd_target_status c = bd_target_status b" "bd_accepted_commit c = bd_accepted_commit b"
    "bd_accepted_commit_subject c = bd_accepted_commit_subject b"
proof -
  have d: "dget (binding_dict b) ''target_status'' = PStr (bd_target_status b)" "dget (binding_dict b) ''status'' = PNone"
    "dget (binding_dict b) ''accepted_commit'' = PStr (bd_accepted_commit b)" "dget (binding_dict b) ''commit_hash'' = PNone"
    "dget (binding_dict b) ''accepted_commit_subject'' = PStr (bd_accepted_commit_subject b)"
    "dget (binding_dict b) ''commit_subject'' = PNone" "dget (binding_dict b) ''commit_message'' = PNone"
    by (simp_all add: binding_dict_def dget_or_def)
  show "bd_target_status c = bd_target_status b"
    using normalize_status_again [OF assms(2)] by (simp add: c_def normalize_binding_def Let_def d)
  obtain v w where "bd_accepted_commit b = clean_str v" "bd_accepted_commit_subject b = clean_str w"
    by (simp add: assms(1) normalize_binding_def Let_def)
  then show "bd_accepted_commit c = bd_accepted_commit b" "bd_accepted_commit_subject c = bd_accepted_commit_subject b"
    by (simp_all add: c_def normalize_binding_def Let_def d)
qed

text \<open>The commits of the passed bindings are as the bindings say.\<close>

definition commits_confirmed :: "commit_facts \<Rightarrow> binding list \<Rightarrow> bool" where
  "commits_confirmed git bs \<longleftrightarrow> (\<forall>b\<in>set bs. bd_target_status b = ''PASSED'' \<longrightarrow>
     cf_exists git (bd_accepted_commit b) \<and> py_strip (cf_subject git (bd_accepted_commit b)) = bd_accepted_commit_subject b)"

lemma check_bindings_iff:
  assumes "\<forall>b\<in>set bs. \<exists>raw. b = normalize_binding raw" "\<forall>b\<in>set bs. bd_target_status b \<in> {''PASSED'', ''NOT_STARTED''}"
  shows "check_bindings git (map (PDict \<circ> binding_dict) bs) = None \<longleftrightarrow> commits_confirmed git bs"
  using assms
proof (induction bs)
  case (Cons b bs)
  then obtain raw where "b = normalize_binding raw" by auto
  note n = normalize_binding_again [OF this]
  show ?case using Cons n by (auto simp: commits_confirmed_def Let_def)
qed (simp add: commits_confirmed_def)

lemma artifact_fields:
  fixes hash_of :: "py \<Rightarrow> string" and before after :: "dict list" and updates :: "py list"
  assumes "lineage_blockers git q = []"
  defines "a \<equiv> lineage_artifact hash_of git q before after updates"
  shows "dget a ''artifact_kind'' = PStr ''state_lineage_reconciliation''" "dget a ''can_apply'' = PBool True"
    "dget a ''expected_head'' = PStr (py_strip (lr_expected_head q))" "dget a ''expected_branch'' = PStr (lr_expected_branch q)"
    "dget a ''state_hash'' = PStr (hash_of (PDict (lr_state q)))"
    "dget a ''bindings'' = PList (map (PDict \<circ> binding_dict) (snd (read_request_bindings git q)))"
    "dget a ''proposed_state'' = PDict (proposed_of git q)"
  by (simp_all add: a_def lineage_artifact_def Let_def assms(1) dget_or_def)

lemma can_apply_iff: "dget (lineage_artifact hash_of git q before after updates) ''can_apply'' = PBool (lineage_blockers git q = [])"
  by (simp add: lineage_artifact_def Let_def dget_or_def)

lemma apply_guard_stored:
  assumes ok: "lineage_blockers git q = []" and hash: "\<And>v. py_strip (hash_of v) = hash_of v" and "preview_id \<noteq> []"
  shows "apply_guard hash_of ''state_lineage_reconciliation''
      (stored_artifact preview_id ex (lineage_artifact hash_of git q before after updates)) st preview_id facts = None \<longleftrightarrow>
    py_strip (af_current_head facts) = py_strip (lr_expected_head q)
    \<and> branch_blockers (py_strip (lr_expected_branch q)) (af_current_branch facts) = []
    \<and> status_lines (af_git_status facts) = [] \<and> hash_of (PDict st) = hash_of (PDict (lr_state q))"
  by (simp add: apply_guard_def artifact_fields [OF ok] clean_str_def hash assms(3))


text \<open>What the write establishes: nothing that the preview relied on has changed, and the state file is the
  proposed state.\<close>

lemma applied_is_the_preview:
  assumes pre: "build_state_lineage_reconciliation_preview hash_of git q = Inr a" "dget a ''can_apply'' = PBool True"
    and hash: "\<And>v. py_strip (hash_of v) = hash_of v"
    and wr: "save_updated_state hash_of (stored_artifact pid ex a)
      (apply_state_lineage_reconciliation_artifact hash_of (stored_artifact pid ex a) st pid facts) file = (Inr (Inr r), file')"
  shows "file' = Some (PDict (proposed_of git q))" "\<exists>current. file = Some current \<and> hash_of current = hash_of (PDict (lr_state q))"
    "py_strip (af_current_head facts) = py_strip (lr_expected_head q)" "status_lines (af_git_status facts) = []"
    "commits_confirmed (af_git facts) (snd (read_request_bindings git q))"
proof -
  from pre(1) obtain before after updates where a: "a = lineage_artifact hash_of git q before after updates"
    by (auto simp: build_state_lineage_reconciliation_preview_def)
  with pre(2) have ok: "lineage_blockers git q = []" by (simp add: can_apply_iff)
  define bs where "bs = snd (read_request_bindings git q)"
  define art where "art = stored_artifact pid ex a"
  note f = artifact_fields [OF ok, of hash_of before after updates, folded a bs_def]
  have g: "dget art ''bindings'' = PList (map (PDict \<circ> binding_dict) bs)" "dget art ''proposed_state'' = PDict (proposed_of git q)"
    "dget art ''state_hash'' = PStr (hash_of (PDict (lr_state q)))"
    by (simp_all add: art_def f)
  define reply where "reply = apply_state_lineage_reconciliation_artifact hash_of art st pid facts"
  from wr have wr': "save_updated_state hash_of art reply file = (Inr (Inr r), file')" by (simp add: reply_def art_def)
  note rr = saved_reply(1) [OF wr']
  then have guard: "apply_guard hash_of ''state_lineage_reconciliation'' art st pid facts = None"
    by (auto simp: reply_def apply_state_lineage_reconciliation_artifact_def split: option.splits)
  have lb: "list_or_empty (dget art ''bindings'') = Inr (map (PDict \<circ> binding_dict) bs)"
    by (auto simp: list_or_empty_def g)
  from rr guard lb have cb: "check_bindings (af_git facts) (map (PDict \<circ> binding_dict) bs) = None"
    by (auto simp: reply_def apply_state_lineage_reconciliation_artifact_def split: option.splits)
  from rr guard lb cb g have "applied_reply ''state_lineage_reconciliation_apply'' FORBIDDEN_SIDE_EFFECTS st (proposed_of git q) = Inr r"
    by (auto simp: reply_def apply_state_lineage_reconciliation_artifact_def)
  note u = applied_reply_state [OF this]
  have h: "clean_str (dget art ''state_hash'') = hash_of (PDict (lr_state q))" by (simp add: g clean_str_def hash)
  show "file' = Some (PDict (proposed_of git q))" by (rule saved_reply(2) [OF wr' u])
  show "\<exists>current. file = Some current \<and> hash_of current = hash_of (PDict (lr_state q))"
    using saved_reply(3) [OF wr' u] by (simp add: h)
  have pid: "pid \<noteq> []" using guard by (auto simp: apply_guard_def Let_def split: if_splits)
  from guard [unfolded art_def a apply_guard_stored [OF ok hash pid]]
  show "py_strip (af_current_head facts) = py_strip (lr_expected_head q)" "status_lines (af_git_status facts) = []" by auto
  have "\<forall>b\<in>set bs. \<exists>raw. b = normalize_binding raw"
    using read_bindings_normalized by (metis bs_def prod.collapse read_request_bindings_def)
  moreover have "\<forall>b\<in>set bs. bd_target_status b \<in> {''PASSED'', ''NOT_STARTED''}"
    using unblocked_bindings(3) [OF ok] by (auto simp: bs_def binding_ok_def)
  ultimately show "commits_confirmed (af_git facts) (snd (read_request_bindings git q))"
    using cb check_bindings_iff by (simp add: bs_def)
qed


text \<open>While nothing changes, the preview applies.\<close>

lemma unchanged_preview_applies:
  assumes pre: "build_state_lineage_reconciliation_preview hash_of git q = Inr a" "dget a ''can_apply'' = PBool True"
    and hash: "\<And>v. py_strip (hash_of v) = hash_of v" and pid: "pid \<noteq> []"
    and facts: "py_strip (af_current_head facts) = py_strip (lr_expected_head q)"
      "branch_blockers (py_strip (lr_expected_branch q)) (af_current_branch facts) = []"
      "status_lines (af_git_status facts) = []" "commits_confirmed (af_git facts) (snd (read_request_bindings git q))"
  shows "\<exists>r. save_updated_state hash_of (stored_artifact pid ex a)
      (apply_state_lineage_reconciliation_artifact hash_of (stored_artifact pid ex a) (lr_state q) pid facts)
      (Some (PDict (lr_state q))) = (Inr (Inr r), Some (PDict (proposed_of git q)))"
proof -
  from pre(1) obtain before after updates where a: "a = lineage_artifact hash_of git q before after updates"
    and s: "summary_items (lr_state q) = Inr before" "summary_items (proposed_of git q) = Inr after"
      "versions_to_update before after = Inr updates"
    by (auto simp: build_state_lineage_reconciliation_preview_def)
  with pre(2) have ok: "lineage_blockers git q = []" by (simp add: can_apply_iff)
  define bs where "bs = snd (read_request_bindings git q)"
  define art where "art = stored_artifact pid ex a"
  note f = artifact_fields [OF ok, of hash_of before after updates, folded a bs_def]
  have g: "dget art ''bindings'' = PList (map (PDict \<circ> binding_dict) bs)" "dget art ''proposed_state'' = PDict (proposed_of git q)"
    "dget art ''state_hash'' = PStr (hash_of (PDict (lr_state q)))"
    by (simp_all add: art_def f)
  have guard: "apply_guard hash_of ''state_lineage_reconciliation'' art (lr_state q) pid facts = None"
    unfolding art_def a apply_guard_stored [OF ok hash pid] using facts by simp
  have "\<forall>b\<in>set bs. \<exists>raw. b = normalize_binding raw"
    using read_bindings_normalized by (metis bs_def prod.collapse read_request_bindings_def)
  moreover have "\<forall>b\<in>set bs. bd_target_status b \<in> {''PASSED'', ''NOT_STARTED''}"
    using unblocked_bindings(3) [OF ok] by (auto simp: bs_def binding_ok_def)
  ultimately have cb: "check_bindings (af_git facts) (map (PDict \<circ> binding_dict) bs) = None"
    using facts(4) check_bindings_iff by (simp add: bs_def)
  have lb: "list_or_empty (dget art ''bindings'') = Inr (map (PDict \<circ> binding_dict) bs)"
    by (auto simp: list_or_empty_def g)
  obtain r where r: "applied_reply ''state_lineage_reconciliation_apply'' FORBIDDEN_SIDE_EFFECTS (lr_state q) (proposed_of git q) = Inr r"
    "dget r ''updated_state'' = PDict (proposed_of git q)"
    using s by (auto simp: applied_reply_def dget_or_def)
  have "apply_state_lineage_reconciliation_artifact hash_of art (lr_state q) pid facts = Inr (Inr r)"
    by (simp add: apply_state_lineage_reconciliation_artifact_def guard lb [unfolded g(1)] cb g r(1))
  moreover have "clean_str (dget art ''state_hash'') = hash_of (PDict (lr_state q))" by (simp add: g clean_str_def hash)
  then have "gateway_save_raw hash_of (proposed_of git q) None (Some (clean_str (dget art ''state_hash''))) (Some (PDict (lr_state q)))
      = (Inr (), Some (PDict (proposed_of git q)))"
    by (simp add: gateway_save_raw_def check_stale_def)
  ultimately show ?thesis unfolding art_def [symmetric] by (simp add: save_updated_state_def r(2))
qed

text \<open>The proposal of an applicable preview, as a whole.\<close>

lemma consistent_proposal:
  assumes pre: "build_state_lineage_reconciliation_preview hash_of git q = Inr a" "dget a ''can_apply'' = PBool True"
  defines "target \<equiv> py_strip (lr_target_next_version q)" and "bs \<equiv> snd (read_request_bindings git q)"
  shows "\<exists>new i k. dget a ''proposed_state'' = PDict new \<and> dget new ''current_version'' = PStr target
    \<and> position_of (lr_plan q) target = Some i \<and> dget new ''current_version_index'' = PInt (int i)
    \<and> position_of (lr_state q) target = Some k \<and> runtime_status (state_runtime_at new (Some k)) = ''NOT_STARTED''
    \<and> (\<forall>v\<in>set (take i (order_of (lr_plan q))).
         (\<exists>j. position_of (lr_state q) v = Some j \<and> runtime_status (state_runtime_at new (Some j)) = ''PASSED'')
         \<or> (\<exists>b\<in>set bs. bd_version b = v \<and> bd_target_status b = ''NOT_STARTED''))
    \<and> (\<forall>j. (\<forall>b\<in>set bs. position_of (lr_state q) (bd_version b) \<noteq> Some j) \<longrightarrow>
         state_runtime_at new (Some j) = state_runtime_at (lr_state q) (Some j))
    \<and> commits_confirmed git bs"
proof -
  from pre(1) obtain before after updates where a: "a = lineage_artifact hash_of git q before after updates"
    by (auto simp: build_state_lineage_reconciliation_preview_def)
  with pre(2) have ok: "lineage_blockers git q = []" by (simp add: can_apply_iff)
  from target_not_started [OF ok] obtain i k where i: "position_of (lr_plan q) target = Some i"
    and k: "position_of (lr_state q) target = Some k" "runtime_status (state_runtime_at (proposed_of git q) (Some k)) = ''NOT_STARTED''"
    by (auto simp: target_def)
  have e: "\<forall>v\<in>set (take i (order_of (lr_plan q))).
         (\<exists>j. position_of (lr_state q) v = Some j \<and> runtime_status (state_runtime_at (proposed_of git q) (Some j)) = ''PASSED'')
         \<or> (\<exists>b\<in>set bs. bd_version b = v \<and> bd_target_status b = ''NOT_STARTED'')"
    using earlier_versions_passed [OF ok i [unfolded target_def]] by (simp add: bs_def)
  have u: "\<forall>j. (\<forall>b\<in>set bs. position_of (lr_state q) (bd_version b) \<noteq> Some j) \<longrightarrow>
         state_runtime_at (proposed_of git q) (Some j) = state_runtime_at (lr_state q) (Some j)"
    using proposed_unbound by (simp add: bs_def)
  have c: "commits_confirmed git bs"
    using unblocked_bindings(3) [OF ok] by (auto simp: bs_def commits_confirmed_def binding_ok_def)
  have p: "dget a ''proposed_state'' = PDict (proposed_of git q)" by (simp add: a artifact_fields [OF ok])
  show ?thesis
    by (rule exI [of _ "proposed_of git q"], rule exI [of _ i], rule exI [of _ k], intro conjI,
      rule p, simp add: proposed_fields target_def, rule i, rule proposed_fields(3) [OF i [unfolded target_def]],
      rule k(1), rule k(2), rule e, rule u, rule c)
qed

section \<open>A concrete preview\<close>

definition ex_version :: "string \<Rightarrow> string \<Rightarrow> py" where
  "ex_version v s = PDict [(''version'', PStr v), (''status'', PStr s)]"

definition ex_commit :: string where
  "ex_commit = replicate 40 (CHR ''a'')"

definition ex_git :: commit_facts where
  "ex_git = \<lparr>cf_exists = (\<lambda>c. c = ex_commit), cf_subject = (\<lambda>c. ''done'')\<rparr>"

definition ex_binding :: "string \<Rightarrow> py" where
  "ex_binding target = PDict [(''version'', PStr ''v1''), (''target_status'', PStr target), (''accepted_commit'', PStr ex_commit),
     (''commit_subject'', PStr ''done''), (''evidence'', PStr ''e''), (''reason'', PStr ''r'')]"

definition ex_lineage :: "string \<Rightarrow> string \<Rightarrow> lineage_request" where
  "ex_lineage status target =
    \<lparr>lr_plan = [(''versions'', PList [PDict [(''version'', PStr ''v1'')], PDict [(''version'', PStr ''v2'')]])],
     lr_state = [(''status'', PStr ''READY''), (''versions'', PList [ex_version ''v1'' status, ex_version ''v2'' ''NOT_STARTED''])],
     lr_bindings = PList [ex_binding target], lr_expected_head = ''h'', lr_current_head = ''h'', lr_git_status = Status_Text [],
     lr_target_next_version = ''v2'', lr_now = ''t'', lr_state_file = ''s'', lr_project_root = [], lr_expected_branch = [],
     lr_current_branch = []\<rparr>"

lemma ex_lineage_unblocked: "lineage_blockers ex_git (ex_lineage ''READY'' ''passed'') = []"
  by code_simp

lemma ex_lineage_preview:
  "\<exists>a. build_state_lineage_reconciliation_preview (\<lambda>v. ''h'') ex_git (ex_lineage ''READY'' ''passed'') = Inr a
    \<and> dget a ''can_apply'' = PBool True"
proof -
  have "(case build_state_lineage_reconciliation_preview (\<lambda>v. ''h'') ex_git (ex_lineage ''READY'' ''passed'') of
      Inl e \<Rightarrow> PNone | Inr a \<Rightarrow> dget a ''can_apply'') = PBool True"
    by code_simp
  then show ?thesis by (auto split: sum.splits)
qed

definition ex_facts :: apply_facts where
  "ex_facts = \<lparr>af_current_head = ''h'', af_current_branch = [], af_git_status = Status_Text [], af_git = ex_git\<rparr>"

lemma ex_facts_hold:
  "py_strip (af_current_head ex_facts) = py_strip (lr_expected_head (ex_lineage ''READY'' ''passed''))"
  "branch_blockers (py_strip (lr_expected_branch (ex_lineage ''READY'' ''passed''))) (af_current_branch ex_facts) = []"
  "status_lines (af_git_status ex_facts) = []"
  "commits_confirmed (af_git ex_facts) (snd (read_request_bindings ex_git (ex_lineage ''READY'' ''passed'')))"
proof -
  show "py_strip (af_current_head ex_facts) = py_strip (lr_expected_head (ex_lineage ''READY'' ''passed''))" by code_simp
  show "branch_blockers (py_strip (lr_expected_branch (ex_lineage ''READY'' ''passed''))) (af_current_branch ex_facts) = []" by code_simp
  show "status_lines (af_git_status ex_facts) = []" by code_simp
  have "list_all (\<lambda>b. bd_target_status b = ''PASSED'' \<longrightarrow> cf_exists (af_git ex_facts) (bd_accepted_commit b)
      \<and> py_strip (cf_subject (af_git ex_facts) (bd_accepted_commit b)) = bd_accepted_commit_subject b)
    (snd (read_request_bindings ex_git (ex_lineage ''READY'' ''passed'')))" by code_simp
  then show "commits_confirmed (af_git ex_facts) (snd (read_request_bindings ex_git (ex_lineage ''READY'' ''passed'')))"
    by (auto simp: commits_confirmed_def list_all_iff)
qed

text \<open>A version that has passed can be sent back by its binding while the runner moves on behind it: the
  check of the earlier versions looks at the state, not at the binding.\<close>

lemma earlier_version_sent_back:
  "lineage_blockers ex_git (ex_lineage ''PASSED'' ''not started'') = []
   \<and> dget (proposed_of ex_git (ex_lineage ''PASSED'' ''not started'')) ''current_version'' = PStr ''v2''
   \<and> runtime_status (state_runtime_at (proposed_of ex_git (ex_lineage ''PASSED'' ''not started'')) (Some 0)) = ''NOT_STARTED''"
proof (intro conjI)
  show "lineage_blockers ex_git (ex_lineage ''PASSED'' ''not started'') = []" by code_simp
  show "dget (proposed_of ex_git (ex_lineage ''PASSED'' ''not started'')) ''current_version'' = PStr ''v2''" by code_simp
  show "runtime_status (state_runtime_at (proposed_of ex_git (ex_lineage ''PASSED'' ''not started'')) (Some 0)) = ''NOT_STARTED''"
    by code_simp
qed

end
