(* ===== verification/FinalCloseout.thy ===== *)
theory FinalCloseout
  imports LineageReconciliation
begin

text \<open>
  \<open>runner/final_version_closeout.py\<close>: completing a run whose last version was finished outside the runner.
  The preview checks the versions, the commit and the evidence and proposes the completed state; the
  apply checks that nothing moved since, the evidence files included.  Reading an evidence file below
  the project root is a parameter.
\<close>

section \<open>Evidence\<close>

datatype evidence_file = Outside_Project | Not_A_File | Evidence_File int string  \<comment> \<open>size and SHA-256\<close>

type_synonym evidence_reader = "string \<Rightarrow> string \<Rightarrow> evidence_file"  \<comment> \<open>root and path\<close>

definition evidence_ref_path :: "string \<Rightarrow> string" where
  "evidence_ref_path value =
    (let t = py_strip value in
     if starts_with t ''path:'' then py_strip (drop 5 t)
     else if starts_with t ''file:'' then py_strip (drop 5 t)
     else if starts_with t ''.colameta/'' \<or> starts_with t ''/'' then t
     else [])"

definition evidence_file_fingerprint :: "string \<Rightarrow> string \<Rightarrow> int \<Rightarrow> string \<Rightarrow> py" where
  "evidence_file_fingerprint ref p n sha =
    PDict [(''ref'', PStr ref), (''path'', PStr p), (''size_bytes'', PInt n), (''sha256'', PStr sha)]"

text \<open>\<open>_local_evidence_facts\<close>: the blockers and the fingerprints of the files.\<close>

fun evidence_facts :: "(string \<Rightarrow> evidence_file) \<Rightarrow> string list \<Rightarrow> string list \<times> py list" where
  "evidence_facts rd [] = ([], [])"
| "evidence_facts rd (ref # refs) =
     (let (bl, files) = evidence_facts rd refs; p = evidence_ref_path ref in
      if p = [] then (bl, files)
      else case rd p of
        Outside_Project \<Rightarrow> (''EVIDENCE_PATH_OUTSIDE_PROJECT'' # bl, files)
      | Not_A_File \<Rightarrow> (''EVIDENCE_PATH_NOT_FOUND'' # bl, files)
      | Evidence_File n sha \<Rightarrow> (bl, evidence_file_fingerprint ref p n sha # files))"

definition local_evidence_facts :: "evidence_reader \<Rightarrow> string \<Rightarrow> string list \<Rightarrow> string list \<times> py list" where
  "local_evidence_facts rd root refs = (if root = [] then ([], []) else evidence_facts (rd root) refs)"

fun is_int :: "py \<Rightarrow> bool" where
  "is_int (PInt _) = True" | "is_int (PBool _) = True" | "is_int _ = False"

fun check_fingerprints :: "(string \<Rightarrow> evidence_file) \<Rightarrow> py list \<Rightarrow> string option" where
  "check_fingerprints rd [] = None"
| "check_fingerprints rd (item # items) =
     (case item of
        PDict d \<Rightarrow>
          (let p = clean_str (dget d ''path''); sha = clean_str (dget d ''sha256''); expected = dget d ''size_bytes'' in
           if p = [] \<or> sha = [] \<or> \<not> is_int expected then Some ''EVIDENCE_FINGERPRINTS_INVALID''
           else case rd p of
             Outside_Project \<Rightarrow> Some ''EVIDENCE_PATH_OUTSIDE_PROJECT''
           | Not_A_File \<Rightarrow> Some ''EVIDENCE_PATH_NOT_FOUND''
           | Evidence_File n s \<Rightarrow>
               if \<not> py_eq (PInt n) expected \<or> s \<noteq> sha then Some ''EVIDENCE_FINGERPRINT_MISMATCH''
               else check_fingerprints rd items)
      | _ \<Rightarrow> Some ''EVIDENCE_FINGERPRINTS_INVALID'')"

definition verify_evidence_file_fingerprints :: "evidence_reader \<Rightarrow> py \<Rightarrow> string \<Rightarrow> string option" where
  "verify_evidence_file_fingerprints rd value root =
    (case value of
       PNone \<Rightarrow> None
     | PList items \<Rightarrow>
         if items = [] then None
         else if root = [] then Some ''PROJECT_ROOT_REQUIRED_FOR_EVIDENCE''
         else check_fingerprints (rd root) items
     | _ \<Rightarrow> Some ''EVIDENCE_FINGERPRINTS_INVALID'')"

section \<open>The preview\<close>

record closeout_request =
  cq_plan :: dict
  cq_state :: dict
  cq_target_version :: string
  cq_accepted_commit :: string
  cq_accepted_commit_subject :: string
  cq_expected_head :: string
  cq_current_head :: string
  cq_git_status :: git_status
  cq_now :: string
  cq_state_file :: string
  cq_project_root :: string
  cq_expected_branch :: string
  cq_current_branch :: string
  cq_commit_exists :: bool
  cq_commit_subject :: string
  cq_commit_files :: py
  cq_evidence_refs :: py
  cq_evidence_summary :: string
  cq_reason :: string

definition closeout_forbidden :: "string list" where
  "closeout_forbidden = FORBIDDEN_SIDE_EFFECTS @ [''review_decision_write'', ''gate_event_write'', ''delivery_state_accepted_write'']"

definition closeout_note :: string where
  "closeout_note = ''final_version_closeout: manually controlled final version completion bound to Runner state.''"

definition closeout_files :: "evidence_reader \<Rightarrow> closeout_request \<Rightarrow> string list \<times> py list" where
  "closeout_files rd q = local_evidence_facts rd (cq_project_root q) (str_list (cq_evidence_refs q))"

definition commit_blockers :: "closeout_request \<Rightarrow> string list" where
  "commit_blockers q =
    (if \<not> looks_like_commit (py_strip (cq_accepted_commit q)) then [''ACCEPTED_COMMIT_REQUIRED'']
     else (if \<not> cq_commit_exists q then [''ACCEPTED_COMMIT_MISSING''] else [])
       @ (if py_strip (cq_accepted_commit_subject q) = [] then [''ACCEPTED_COMMIT_SUBJECT_REQUIRED'']
          else if py_strip (cq_commit_subject q) \<noteq> py_strip (cq_accepted_commit_subject q)
          then [''ACCEPTED_COMMIT_SUBJECT_MISMATCH''] else []))"

text \<open>The checks of the versions: the target is the last one of plan and state, and it alone is open.\<close>

definition final_blockers :: "dict \<Rightarrow> dict \<Rightarrow> string \<Rightarrow> string list" where
  "final_blockers plan state target =
    (if target \<noteq> [] \<and> position_of plan target = None then [''TARGET_VERSION_MISSING_FROM_PLAN''] else [])
    @ (if target \<noteq> [] \<and> position_of state target = None then [''TARGET_VERSION_MISSING_FROM_STATE''] else [])
    @ (case position_of plan target of
         Some i \<Rightarrow> if int i \<noteq> int (length (order_of plan)) - 1 then [''TARGET_VERSION_NOT_FINAL''] else []
       | None \<Rightarrow> [])
    @ (case position_of state target of
         Some k \<Rightarrow> if int k \<noteq> int (length (order_of state)) - 1 then [''TARGET_STATE_VERSION_NOT_FINAL''] else []
       | None \<Rightarrow> [])
    @ (case state_runtime_at state (position_of state target) of
         Some (x # d) \<Rightarrow> if clean_str (dget (x # d) ''status'') \<notin> {''NOT_STARTED'', ''READY''}
           then [''TARGET_VERSION_STATUS_UNSUPPORTED''] else []
       | _ \<Rightarrow> [])
    @ (if clean_str (dget state ''status'') \<notin> {''VERSION_PASSED'', ''READY''} then [''RUNNER_STATUS_UNSUPPORTED''] else [])
    @ (case position_of state target of
         Some k \<Rightarrow> concat (map (\<lambda>(v, i). if runtime_status (state_runtime_at state (Some i)) \<noteq> ''PASSED''
           then [''EARLIER_VERSION_NOT_PASSED''] else []) (take k (version_index (dget state ''versions''))))
       | None \<Rightarrow> [])"

definition closeout_blockers :: "evidence_reader \<Rightarrow> closeout_request \<Rightarrow> string list" where
  "closeout_blockers rd q =
    (let target = py_strip (cq_target_version q) in
     (if target = [] then [''TARGET_VERSION_REQUIRED''] else [])
     @ head_blockers (py_strip (cq_expected_head q)) (py_strip (cq_current_head q))
     @ branch_blockers (py_strip (cq_expected_branch q)) (py_strip (cq_current_branch q))
     @ (if status_lines (cq_git_status q) \<noteq> [] then [''WORKTREE_DIRTY''] else [])
     @ (if py_strip (cq_reason q) = [] then [''REASON_REQUIRED''] else [])
     @ (if str_list (cq_evidence_refs q) = [] \<and> py_strip (cq_evidence_summary q) = [] then [''EVIDENCE_REQUIRED''] else [])
     @ fst (closeout_files rd q)
     @ final_blockers (cq_plan q) (cq_state q) target
     @ commit_blockers q)"

section \<open>The proposed state\<close>

definition closeout_record :: "evidence_reader \<Rightarrow> closeout_request \<Rightarrow> py" where
  "closeout_record rd q = PDict
    [(''target_status'', PStr ''PASSED''), (''accepted_commit'', PStr (py_strip (cq_accepted_commit q))),
     (''accepted_commit_subject'', PStr (py_strip (cq_accepted_commit_subject q))),
     (''evidence_refs'', strs (str_list (cq_evidence_refs q))), (''evidence_file_fingerprints'', PList (snd (closeout_files rd q))),
     (''evidence_summary'', PStr (py_strip (cq_evidence_summary q))), (''reason'', PStr (py_strip (cq_reason q))),
     (''recorded_at'', PStr (cq_now q)), (''forbidden_side_effects'', strs closeout_forbidden)]"

definition close_runtime :: "evidence_reader \<Rightarrow> closeout_request \<Rightarrow> dict \<Rightarrow> dict" where
  "close_runtime rd q d =
    pass_runtime (cq_now q) (py_strip (cq_accepted_commit q)) (py_strip (cq_accepted_commit_subject q))
      (str_list (cq_commit_files q)) (with_metadata ''final_version_closeout'' (closeout_record rd q) closeout_note d)"

definition closed_state :: "evidence_reader \<Rightarrow> closeout_request \<Rightarrow> dict" where
  "closed_state rd q =
    (let target = py_strip (cq_target_version q); pos = position_of (cq_state q) target; vs = list_of (dget (cq_state q) ''versions'');
         vs1 = upd_runtime pos (close_runtime rd q) vs
     in dset ''updated_at'' (PStr (cq_now q))
          (dset ''current_version_index'' (PInt (case pos of None \<Rightarrow> - 1 | Some k \<Rightarrow> int k))
            (dset ''current_version'' (PStr target) (dset ''status'' (PStr ''COMPLETED'')
              (dset ''versions'' (PList vs1) (cq_state q))))))"

definition closeout_artifact ::
  "(py \<Rightarrow> string) \<Rightarrow> evidence_reader \<Rightarrow> closeout_request \<Rightarrow> dict list \<Rightarrow> dict list \<Rightarrow> py list \<Rightarrow> dict" where
  "closeout_artifact hash_of rd q before after updates =
    (let bl = closeout_blockers rd q in
     [(''ok'', PBool True), (''action'', PStr ''final_version_closeout_preview''),
      (''artifact_kind'', PStr ''final_version_closeout''),
      (''status'', PStr (if bl = [] then ''preview_ready'' else ''blocked'')),
      (''risk_level'', PStr (if bl = [] then ''preview'' else ''blocked'')), (''can_apply'', PBool (bl = [])),
      (''blockers'', PList (map (\<lambda>c. PDict [(''code'', PStr c)]) bl)), (''warnings'', PList []),
      (''project_root'', PStr (cq_project_root q)), (''state_file'', PStr (cq_state_file q)),
      (''expected_head'', PStr (py_strip (cq_expected_head q))), (''current_head'', PStr (py_strip (cq_current_head q))),
      (''expected_branch'', PStr (py_strip (cq_expected_branch q))), (''current_branch'', PStr (py_strip (cq_current_branch q))),
      (''target_version'', PStr (py_strip (cq_target_version q))),
      (''plan_order'', strs (order_of (cq_plan q))), (''state_order'', strs (order_of (cq_state q))),
      (''state_hash'', PStr (hash_of (PDict (cq_state q)))),
      (''before_state_summary'', PDict (state_summary (cq_state q) before)),
      (''proposed_after_state_summary'', PDict (state_summary (closed_state rd q) after)),
      (''versions_to_update'', PList updates), (''accepted_commit'', PStr (py_strip (cq_accepted_commit q))),
      (''accepted_commit_subject'', PStr (py_strip (cq_accepted_commit_subject q))),
      (''commit_files'', strs (str_list (cq_commit_files q))), (''evidence_refs'', strs (str_list (cq_evidence_refs q))),
      (''evidence_summary'', PStr (py_strip (cq_evidence_summary q))),
      (''evidence_file_fingerprints'', PList (snd (closeout_files rd q))), (''reason'', PStr (py_strip (cq_reason q))),
      (''files_apply_would_touch'', strs APPLY_TOUCHES), (''forbidden_side_effects'', strs closeout_forbidden),
      (''proposed_state'', if bl = [] then PDict (closed_state rd q) else PNone), (''created_at'', PStr (cq_now q))])"

definition build_final_version_closeout_preview :: "(py \<Rightarrow> string) \<Rightarrow> evidence_reader \<Rightarrow> closeout_request \<Rightarrow> dict result" where
  "build_final_version_closeout_preview hash_of rd q =
    ebind (summary_items (cq_state q)) (\<lambda>before. ebind (summary_items (closed_state rd q)) (\<lambda>after.
      ebind (versions_to_update before after) (\<lambda>updates. Inr (closeout_artifact hash_of rd q before after updates))))"

section \<open>Applying it\<close>

text \<open>\<open>af_git\<close> of the facts answers for the accepted commit of the artifact.\<close>

definition apply_final_version_closeout_artifact ::
  "(py \<Rightarrow> string) \<Rightarrow> evidence_reader \<Rightarrow> dict \<Rightarrow> dict \<Rightarrow> string \<Rightarrow> apply_facts \<Rightarrow> (string + dict) result" where
  "apply_final_version_closeout_artifact hash_of rd artifact state preview_id facts =
    (let commit = clean_str (dget artifact ''accepted_commit'') in
     case apply_guard hash_of ''final_version_closeout'' artifact state preview_id facts of
       Some code \<Rightarrow> Inr (Inl code)
     | None \<Rightarrow>
         (case verify_evidence_file_fingerprints rd (dget artifact ''evidence_file_fingerprints'') (clean_str (dget artifact ''project_root'')) of
            Some code \<Rightarrow> Inr (Inl code)
          | None \<Rightarrow>
              if \<not> cf_exists (af_git facts) commit then Inr (Inl ''ACCEPTED_COMMIT_MISSING'')
              else if py_strip (cf_subject (af_git facts) commit) \<noteq> clean_str (dget artifact ''accepted_commit_subject'')
              then Inr (Inl ''ACCEPTED_COMMIT_SUBJECT_MISMATCH'')
              else if \<not> looks_like_commit commit then Inr (Inl ''ACCEPTED_COMMIT_REQUIRED'')
              else (case dget artifact ''proposed_state'' of
                PDict new_state \<Rightarrow> ebind (applied_reply ''final_version_closeout_apply'' closeout_forbidden state new_state) (\<lambda>r. Inr (Inr r))
              | _ \<Rightarrow> Inr (Inl ''PREVIEW_CORRUPTED''))))"

section \<open>A run that is closed has passed\<close>

lemma closed_fields:
  "dget (closed_state rd q) ''status'' = PStr ''COMPLETED''"
  "dget (closed_state rd q) ''current_version'' = PStr (py_strip (cq_target_version q))"
  by (simp_all add: closed_state_def Let_def)

lemma closed_target:
  assumes "position_of (cq_state q) (py_strip (cq_target_version q)) = Some k"
  shows "\<exists>d. state_runtime_at (cq_state q) (Some k) = Some d
    \<and> state_runtime_at (closed_state rd q) (Some k) = Some (close_runtime rd q d)"
proof -
  from position_sound [OF assms] obtain d xs where d: "dget (cq_state q) ''versions'' = PList xs" "k < length xs" "xs ! k = PDict d"
    by (auto simp: version_at_list)
  then have "dget (closed_state rd q) ''versions'' = PList (xs[k := PDict (close_runtime rd q d)])"
    by (simp add: closed_state_def Let_def assms list_of_def upd_runtime_hit)
  from runtime_at_list [OF this] runtime_at_list [OF d(1)] d show ?thesis by simp
qed

lemma closed_other:
  assumes "position_of (cq_state q) (py_strip (cq_target_version q)) \<noteq> Some i"
  shows "state_runtime_at (closed_state rd q) (Some i) = state_runtime_at (cq_state q) (Some i)"
proof (cases "\<exists>xs. dget (cq_state q) ''versions'' = PList xs")
  case True
  then obtain xs where xs: "dget (cq_state q) ''versions'' = PList xs" by blast
  then obtain ys where ys: "dget (closed_state rd q) ''versions'' = PList ys" "length ys = length xs" "ys ! i = xs ! i"
    using assms by (simp add: closed_state_def Let_def list_of_def upd_runtime_other)
  show ?thesis by (simp add: runtime_at_list [OF ys(1)] runtime_at_list [OF xs] ys)
next
  case False
  then have n: "list_of (dget (cq_state q) ''versions'') = []" "state_runtime_at (cq_state q) (Some i) = None"
    by (auto simp: list_of_def state_runtime_at_def split: py.splits)
  then have "dget (closed_state rd q) ''versions'' = PList []"
    by (simp add: closed_state_def Let_def upd_runtime_def split: option.splits)
  with n show ?thesis by (simp add: runtime_at_list)
qed

text \<open>A preview without blockers, blocker by blocker.\<close>

lemma closeout_unblocked:
  assumes "closeout_blockers rd q = []"
  defines "target \<equiv> py_strip (cq_target_version q)"
  shows "target \<noteq> []" "final_blockers (cq_plan q) (cq_state q) target = []" "commit_blockers q = []"
    "py_strip (cq_current_head q) = py_strip (cq_expected_head q)" "status_lines (cq_git_status q) = []"
    "py_strip (cq_reason q) \<noteq> []" "fst (closeout_files rd q) = []"
proof -
  note all = assms(1) [unfolded closeout_blockers_def Let_def append_is_Nil_conv, folded target_def]
  from all show "target \<noteq> []" "final_blockers (cq_plan q) (cq_state q) target = []" "commit_blockers q = []"
    "status_lines (cq_git_status q) = []" "py_strip (cq_reason q) \<noteq> []" "fst (closeout_files rd q) = []"
    by (simp_all split: if_splits)
  from all have "head_blockers (py_strip (cq_expected_head q)) (py_strip (cq_current_head q)) = []" by blast
  then show "py_strip (cq_current_head q) = py_strip (cq_expected_head q)"
    by (simp add: head_blockers_def split: if_splits)
qed

lemma final_unblocked:
  assumes "final_blockers plan state target = []" "target \<noteq> []"
  obtains i k where "position_of plan target = Some i" "int i = int (length (order_of plan)) - 1"
    "position_of state target = Some k" "int k = int (length (order_of state)) - 1"
    "\<And>d. state_runtime_at state (Some k) = Some d \<Longrightarrow> d \<noteq> [] \<Longrightarrow> clean_str (dget d ''status'') \<in> {''NOT_STARTED'', ''READY''}"
    "\<And>v j. (v, j) \<in> set (take k (version_index (dget state ''versions''))) \<Longrightarrow> runtime_status (state_runtime_at state (Some j)) = ''PASSED''"
proof -
  note all = assms(1) [unfolded final_blockers_def append_is_Nil_conv]
  from all assms(2) obtain i k where p: "position_of plan target = Some i" "position_of state target = Some k"
    by (auto split: if_splits)
  have e: "concat (map (\<lambda>(v, i). if runtime_status (state_runtime_at state (Some i)) \<noteq> ''PASSED''
           then [''EARLIER_VERSION_NOT_PASSED''] else []) (take k (version_index (dget state ''versions'')))) = []"
    using all p by simp
  have "runtime_status (state_runtime_at state (Some j)) = ''PASSED''"
    if "(v, j) \<in> set (take k (version_index (dget state ''versions'')))" for v j
    using e [unfolded concat_eq_Nil_conv] that by (force split: if_splits)
  moreover have "clean_str (dget d ''status'') \<in> {''NOT_STARTED'', ''READY''}" if "state_runtime_at state (Some k) = Some d" "d \<noteq> []" for d
    using all p that by (cases d) (auto split: if_splits)
  moreover have "int i = int (length (order_of plan)) - 1" "int k = int (length (order_of state)) - 1"
    using all p by (auto split: if_splits)
  ultimately show thesis using that p by blast
qed

lemma index_runtime:
  assumes "(v, j) \<in> set (version_index (dget state ''versions''))"
  shows "v \<noteq> [] \<and> (\<exists>d. version_at state j v d)"
proof -
  from assms obtain xs where xs: "dget state ''versions'' = PList xs" "(v, j) \<in> set (named_from 0 xs)"
    by (cases "dget state ''versions''") (auto simp: version_index_def)
  from named_from_sound [OF xs(2)] xs(1) show ?thesis by (auto simp: version_at_list)
qed

lemma closed_all_passed:
  assumes ok: "closeout_blockers rd q = []" and v: "(v, j) \<in> set (version_index (dget (cq_state q) ''versions''))"
  shows "runtime_status (state_runtime_at (closed_state rd q) (Some j)) = ''PASSED''"
proof -
  define target where "target = py_strip (cq_target_version q)"
  define vi where "vi = version_index (dget (cq_state q) ''versions'')"
  note u = closeout_unblocked [OF ok, folded target_def]
  obtain i k where k: "position_of (cq_state q) target = Some k" "int k = int (length (order_of (cq_state q))) - 1"
    and open_status: "\<And>d. state_runtime_at (cq_state q) (Some k) = Some d \<Longrightarrow> d \<noteq> [] \<Longrightarrow> clean_str (dget d ''status'') \<in> {''NOT_STARTED'', ''READY''}"
    and earlier: "\<And>v j. (v, j) \<in> set (take k vi) \<Longrightarrow> runtime_status (state_runtime_at (cq_state q) (Some j)) = ''PASSED''"
    using final_unblocked [OF u(2,1)] unfolding vi_def by metis
  have len: "length vi = Suc k" using k(2) by (simp add: order_of_def vi_def)
  from closed_target [OF k(1) [unfolded target_def]] obtain d where
    d: "state_runtime_at (cq_state q) (Some k) = Some d" "state_runtime_at (closed_state rd q) (Some k) = Some (close_runtime rd q d)"
    by blast
  have n: "runtime_status (state_runtime_at (cq_state q) (Some k)) \<noteq> ''PASSED''"
    using d(1) open_status [OF d(1)] by (auto simp: runtime_status_def)
  show ?thesis
  proof (cases "j = k")
    case True
    with d(2) show ?thesis by (simp add: close_runtime_def)
  next
    case False
    have "(target, k) \<in> set vi" using k(1) by (auto simp: position_of_def lookup_index_def vi_def dest: map_of_SomeD)
    then obtain m where m: "m < length vi" "vi ! m = (target, k)" by (auto simp: in_set_conv_nth)
    have "m = k"
    proof (rule ccontr)
      assume "m \<noteq> k"
      with m len have "m < k" by simp
      with m len have "(target, k) \<in> set (take k vi)" by (metis in_set_conv_nth length_take min_less_iff_conj nth_take)
      with earlier n show False by blast
    qed
    moreover from v obtain l where l: "l < length vi" "vi ! l = (v, j)" by (auto simp: vi_def in_set_conv_nth)
    moreover have "l \<noteq> k" using False m l \<open>m = k\<close> by auto
    ultimately have "(v, j) \<in> set (take k vi)"
      using len by (metis in_set_conv_nth length_take less_antisym min_less_iff_conj nth_take)
    from earlier [OF this] closed_other [of q j rd] False k(1) show ?thesis by (simp add: target_def)
  qed
qed

text \<open>The apply writes what was previewed, and only while head, worktree, state, commit and evidence are
  as they were.\<close>

lemma closeout_fields:
  fixes hash_of :: "py \<Rightarrow> string" and before after :: "dict list" and updates :: "py list"
  assumes "closeout_blockers rd q = []"
  defines "a \<equiv> closeout_artifact hash_of rd q before after updates"
  shows "dget a ''artifact_kind'' = PStr ''final_version_closeout''" "dget a ''can_apply'' = PBool True"
    "dget a ''expected_head'' = PStr (py_strip (cq_expected_head q))"
    "dget a ''state_hash'' = PStr (hash_of (PDict (cq_state q)))"
    "dget a ''evidence_file_fingerprints'' = PList (snd (closeout_files rd q))" "dget a ''project_root'' = PStr (cq_project_root q)"
    "dget a ''accepted_commit'' = PStr (py_strip (cq_accepted_commit q))"
    "dget a ''accepted_commit_subject'' = PStr (py_strip (cq_accepted_commit_subject q))"
    "dget a ''proposed_state'' = PDict (closed_state rd q)"
  by (simp_all add: a_def closeout_artifact_def Let_def assms(1) dget_or_def)

lemma closeout_can_apply:
  "dget (closeout_artifact hash_of rd q before after updates) ''can_apply'' = PBool (closeout_blockers rd q = [])"
  by (simp add: closeout_artifact_def Let_def dget_or_def)

lemma closeout_applicable:
  assumes "build_final_version_closeout_preview hash_of rd q = Inr a" "dget a ''can_apply'' = PBool True"
  shows "closeout_blockers rd q = []"
  using assms by (auto simp: build_final_version_closeout_preview_def closeout_can_apply)

lemma applied_closeout:
  assumes pre: "build_final_version_closeout_preview hash_of rd q = Inr a" "dget a ''can_apply'' = PBool True"
    and hash: "\<And>v. py_strip (hash_of v) = hash_of v"
    and wr: "save_updated_state hash_of (stored_artifact pid ex a)
      (apply_final_version_closeout_artifact hash_of rd2 (stored_artifact pid ex a) st pid facts) file = (Inr (Inr r), file')"
  shows "file' = Some (PDict (closed_state rd q))" "\<exists>current. file = Some current \<and> hash_of current = hash_of (PDict (cq_state q))"
    "py_strip (af_current_head facts) = py_strip (cq_expected_head q)" "cf_exists (af_git facts) (py_strip (cq_accepted_commit q))"
    "verify_evidence_file_fingerprints rd2 (PList (snd (closeout_files rd q))) (py_strip (cq_project_root q)) = None"
proof -
  from pre(1) obtain before after updates where a: "a = closeout_artifact hash_of rd q before after updates"
    by (auto simp: build_final_version_closeout_preview_def)
  note ok = closeout_applicable [OF pre]
  define art where "art = stored_artifact pid ex a"
  note f = closeout_fields [OF ok, of hash_of before after updates, folded a]
  have g: "dget art ''proposed_state'' = PDict (closed_state rd q)" "dget art ''state_hash'' = PStr (hash_of (PDict (cq_state q)))"
    "dget art ''evidence_file_fingerprints'' = PList (snd (closeout_files rd q))" "dget art ''project_root'' = PStr (cq_project_root q)"
    "dget art ''accepted_commit'' = PStr (py_strip (cq_accepted_commit q))" "dget art ''expected_head'' = PStr (py_strip (cq_expected_head q))"
    by (simp_all add: art_def f)
  define reply where "reply = apply_final_version_closeout_artifact hash_of rd2 art st pid facts"
  from wr have wr': "save_updated_state hash_of art reply file = (Inr (Inr r), file')" by (simp add: reply_def art_def)
  note rr = saved_reply(1) [OF wr']
  have guard: "apply_guard hash_of ''final_version_closeout'' art st pid facts = None"
    and ev: "verify_evidence_file_fingerprints rd2 (PList (snd (closeout_files rd q))) (py_strip (cq_project_root q)) = None"
    and ex: "cf_exists (af_git facts) (py_strip (cq_accepted_commit q))"
    and ap: "applied_reply ''final_version_closeout_apply'' closeout_forbidden st (closed_state rd q) = Inr r"
    using rr by (auto simp: reply_def apply_final_version_closeout_artifact_def Let_def g clean_str_def split: option.splits if_splits)
  note u = applied_reply_state [OF ap]
  show "file' = Some (PDict (closed_state rd q))" by (rule saved_reply(2) [OF wr' u])
  show "\<exists>current. file = Some current \<and> hash_of current = hash_of (PDict (cq_state q))"
    using saved_reply(3) [OF wr' u] by (simp add: g clean_str_def hash)
  show "cf_exists (af_git facts) (py_strip (cq_accepted_commit q))"
    "verify_evidence_file_fingerprints rd2 (PList (snd (closeout_files rd q))) (py_strip (cq_project_root q)) = None"
    by (fact ex ev)+
  from guard show "py_strip (af_current_head facts) = py_strip (cq_expected_head q)"
    by (auto simp: apply_guard_def Let_def g clean_str_def split: if_splits)
qed

section \<open>Concrete closeouts\<close>

definition ex_closeout :: "py list \<Rightarrow> py list \<Rightarrow> closeout_request" where
  "ex_closeout plan_versions state_versions =
    \<lparr>cq_plan = [(''versions'', PList plan_versions)],
     cq_state = [(''status'', PStr ''READY''), (''versions'', PList state_versions)],
     cq_target_version = ''v2'', cq_accepted_commit = ex_commit, cq_accepted_commit_subject = ''done'',
     cq_expected_head = ''h'', cq_current_head = ''h'', cq_git_status = Status_Text [], cq_now = ''t'', cq_state_file = ''s'',
     cq_project_root = [], cq_expected_branch = [], cq_current_branch = [], cq_commit_exists = True, cq_commit_subject = ''done'',
     cq_commit_files = PNone, cq_evidence_refs = PNone, cq_evidence_summary = ''e'', cq_reason = ''r''\<rparr>"

definition ex_no_files :: evidence_reader where
  "ex_no_files root p = Not_A_File"

lemma ex_closeout_unblocked:
  "closeout_blockers ex_no_files (ex_closeout [ex_version ''v1'' [], ex_version ''v2'' []]
     [ex_version ''v1'' ''PASSED'', ex_version ''v2'' ''NOT_STARTED'']) = []"
  by code_simp

definition ex_closing :: closeout_request where
  "ex_closing = ex_closeout [ex_version ''v1'' [], ex_version ''v2'' []] [ex_version ''v1'' ''PASSED'', ex_version ''v2'' ''NOT_STARTED'']"

text \<open>The preview, its apply with the facts unchanged, and the state file after it.\<close>

lemma ex_closing_applied:
  "\<exists>a r. build_final_version_closeout_preview (\<lambda>v. ''h'') ex_no_files ex_closing = Inr a \<and> dget a ''can_apply'' = PBool True
    \<and> save_updated_state (\<lambda>v. ''h'') (stored_artifact ''p1'' ''t9'' a)
        (apply_final_version_closeout_artifact (\<lambda>v. ''h'') ex_no_files (stored_artifact ''p1'' ''t9'' a) (cq_state ex_closing) ''p1'' ex_facts)
        (Some (PDict (cq_state ex_closing))) = (Inr (Inr r), Some (PDict (closed_state ex_no_files ex_closing)))"
proof -
  define go where "go = (\<lambda>a. save_updated_state (\<lambda>v. ''h'') (stored_artifact ''p1'' ''t9'' a)
        (apply_final_version_closeout_artifact (\<lambda>v. ''h'') ex_no_files (stored_artifact ''p1'' ''t9'' a) (cq_state ex_closing) ''p1'' ex_facts)
        (Some (PDict (cq_state ex_closing))))"
  have "(case build_final_version_closeout_preview (\<lambda>v. ''h'') ex_no_files ex_closing of
      Inl e \<Rightarrow> False | Inr a \<Rightarrow> dget a ''can_apply'' = PBool True \<and> (case fst (go a) of Inr (Inr r) \<Rightarrow> True | _ \<Rightarrow> False))"
    unfolding go_def by code_simp
  then obtain a r where a: "build_final_version_closeout_preview (\<lambda>v. ''h'') ex_no_files ex_closing = Inr a"
    "dget a ''can_apply'' = PBool True" "fst (go a) = Inr (Inr r)"
    by (auto split: sum.splits)
  then have s: "go a = (Inr (Inr r), snd (go a))" by (cases "go a") simp
  have h: "py_strip ''h'' = ''h''" by code_simp
  from applied_closeout(1) [OF a(1,2) _ s [unfolded go_def]] have "snd (go a) = Some (PDict (closed_state ex_no_files ex_closing))"
    by (simp add: h go_def)
  with a s show ?thesis by (metis go_def)
qed

text \<open>A plan version that the state file does not have is not noticed: the run is completed without it.\<close>

lemma closeout_misses_plan_version:
  "closeout_blockers ex_no_files (ex_closeout [ex_version ''v1'' [], ex_version ''v2'' []] [ex_version ''v2'' ''NOT_STARTED'']) = []
   \<and> dget (closed_state ex_no_files (ex_closeout [ex_version ''v1'' [], ex_version ''v2'' []] [ex_version ''v2'' ''NOT_STARTED'']))
       ''status'' = PStr ''COMPLETED''"
proof
  show "closeout_blockers ex_no_files (ex_closeout [ex_version ''v1'' [], ex_version ''v2'' []] [ex_version ''v2'' ''NOT_STARTED'']) = []"
    by code_simp
qed (rule closed_fields)

end
