(* ===== verification/ConfirmationGuard.thy ===== *)
theory ConfirmationGuard
  imports Canonical
begin

text \<open>
  \<open>runner/dangerous_action_guard.py\<close>: a dangerous action is first previewed, which issues a confirmation
  bound to the action, its surface, the project and its signatures and the digest of the payload; the
  confirmation is good for one use before it expires.  SHA-256, the clock and the source of
  confirmation ids are parameters; times are whole numbers.
\<close>

section \<open>Previews\<close>

text \<open>\<open>payload_digest\<close>: the confirmation id itself does not count.\<close>

definition payload_text :: "dict \<Rightarrow> string" where
  "payload_text payload = render (jsort (PDict (filter (\<lambda>kv. fst kv \<noteq> ''confirmation_id'') payload)))"

definition payload_digest :: "(string \<Rightarrow> string) \<Rightarrow> dict option \<Rightarrow> string" where
  "payload_digest H payload = H (payload_text (case payload of None \<Rightarrow> [] | Some p \<Rightarrow> p))"

text \<open>What is confirmed, as it is given to \<open>create_preview\<close> and again to \<open>confirm\<close>.\<close>

record dangerous_action =
  da_action_type :: string
  da_surface :: string
  da_route :: string
  da_project_root :: "string option"
  da_current_head :: "string option"
  da_state_signature :: "string option"
  da_plan_signature :: "string option"
  da_patch_signature :: "string option"
  da_registry_signature :: "string option"
  da_payload :: "dict option"

record preview_details =
  pd_risk_class :: string
  pd_project_id :: "string option"
  pd_project_name :: "string option"
  pd_target_summary :: "dict option"
  pd_display_summary :: "dict option"

record action_preview =
  pv_confirmation_id :: string
  pv_action_type :: string
  pv_surface :: string
  pv_route :: string
  pv_risk_class :: string
  pv_project_root :: "string option"
  pv_project_id :: "string option"
  pv_project_name :: "string option"
  pv_current_head :: "string option"
  pv_state_signature :: "string option"
  pv_plan_signature :: "string option"
  pv_patch_signature :: "string option"
  pv_registry_signature :: "string option"
  pv_payload_digest :: string
  pv_target_summary :: dict
  pv_created_at :: int
  pv_expires_at :: int
  pv_used :: bool
  pv_display_summary :: dict

definition or_dict :: "dict option \<Rightarrow> dict" where
  "or_dict d = (case d of None \<Rightarrow> [] | Some x \<Rightarrow> x)"

definition or_blank :: "string option \<Rightarrow> string" where
  "or_blank s = (case s of None \<Rightarrow> [] | Some x \<Rightarrow> x)"

text \<open>The guard: its time to live and the previews by confirmation id.\<close>

record guard =
  gd_ttl_seconds :: int
  gd_previews :: "string \<rightharpoonup> action_preview"

definition create_preview ::
  "(string \<Rightarrow> string) \<Rightarrow> int \<Rightarrow> string \<Rightarrow> dangerous_action \<Rightarrow> preview_details \<Rightarrow> guard \<Rightarrow> action_preview \<times> guard" where
  "create_preview H now new_id a d g =
    (let p = \<lparr>pv_confirmation_id = new_id, pv_action_type = da_action_type a, pv_surface = da_surface a,
              pv_route = da_route a, pv_risk_class = pd_risk_class d, pv_project_root = da_project_root a,
              pv_project_id = pd_project_id d, pv_project_name = pd_project_name d,
              pv_current_head = da_current_head a, pv_state_signature = da_state_signature a,
              pv_plan_signature = da_plan_signature a, pv_patch_signature = da_patch_signature a,
              pv_registry_signature = da_registry_signature a, pv_payload_digest = payload_digest H (da_payload a),
              pv_target_summary = or_dict (pd_target_summary d), pv_created_at = now,
              pv_expires_at = now + gd_ttl_seconds g, pv_used = False,
              pv_display_summary = or_dict (pd_display_summary d)\<rparr>
     in (p, g\<lparr>gd_previews := (gd_previews g)(new_id \<mapsto> p)\<rparr>))"

section \<open>Confirming\<close>

text \<open>\<open>receipt_for\<close>\<close>

definition rollback_guidance :: "dict \<Rightarrow> string" where
  "rollback_guidance display =
    (case dget display ''rollback_guidance'' of
       PStr s \<Rightarrow> if py_strip s \<noteq> [] then py_strip s
                 else ''Review the action result and reverse the specific registry, project identity, or settings change if needed.''
     | _ \<Rightarrow> ''Review the action result and reverse the specific registry, project identity, or settings change if needed.'')"

definition receipt_for :: "action_preview \<Rightarrow> dict" where
  "receipt_for p =
    [(''action_type'', PStr (pv_action_type p)), (''surface'', PStr (pv_surface p)), (''route'', PStr (pv_route p)),
     (''risk_class'', PStr (pv_risk_class p)),
     (''project_summary'', PDict [(''project_id'', of_opt (pv_project_id p)), (''project_name'', of_opt (pv_project_name p)),
                                  (''project_root'', of_opt (pv_project_root p))]),
     (''current_head'', PStr (or_blank (pv_current_head p))), (''target_summary'', PDict (pv_target_summary p)),
     (''confirmation_validated'', PBool True), (''confirmation_id'', PStr ''REDACTED''),
     (''rollback_guidance'', PStr (rollback_guidance (pv_display_summary p)))]"

text \<open>The comparison with what was previewed, in the code's order: the first mismatch.\<close>

definition mismatch :: "(string \<Rightarrow> string) \<Rightarrow> action_preview \<Rightarrow> dangerous_action \<Rightarrow> string option" where
  "mismatch H p a =
    (if pv_action_type p \<noteq> da_action_type a then Some ''DANGEROUS_CONFIRMATION_ACTION_MISMATCH''
     else if pv_surface p \<noteq> da_surface a then Some ''DANGEROUS_CONFIRMATION_SURFACE_MISMATCH''
     else if pv_route p \<noteq> da_route a then Some ''DANGEROUS_CONFIRMATION_ROUTE_MISMATCH''
     else if or_blank (pv_project_root p) \<noteq> or_blank (da_project_root a) then Some ''DANGEROUS_CONFIRMATION_PROJECT_MISMATCH''
     else if or_blank (pv_current_head p) \<noteq> or_blank (da_current_head a) then Some ''DANGEROUS_CONFIRMATION_HEAD_MISMATCH''
     else if or_blank (pv_state_signature p) \<noteq> or_blank (da_state_signature a) then Some ''DANGEROUS_CONFIRMATION_STATE_MISMATCH''
     else if or_blank (pv_plan_signature p) \<noteq> or_blank (da_plan_signature a) then Some ''DANGEROUS_CONFIRMATION_PLAN_MISMATCH''
     else if or_blank (pv_patch_signature p) \<noteq> or_blank (da_patch_signature a) then Some ''DANGEROUS_CONFIRMATION_PATCH_MISMATCH''
     else if or_blank (pv_registry_signature p) \<noteq> or_blank (da_registry_signature a) then Some ''DANGEROUS_CONFIRMATION_REGISTRY_MISMATCH''
     else if pv_payload_digest p \<noteq> payload_digest H (da_payload a) then Some ''DANGEROUS_CONFIRMATION_PAYLOAD_MISMATCH''
     else None)"

definition mark_used :: "string \<Rightarrow> guard \<Rightarrow> guard" where
  "mark_used i g = g\<lparr>gd_previews := (gd_previews g)(i := map_option (pv_used_update (\<lambda>_. True)) (gd_previews g i))\<rparr>"

definition confirm :: "(string \<Rightarrow> string) \<Rightarrow> int \<Rightarrow> py \<Rightarrow> dangerous_action \<Rightarrow> guard \<Rightarrow> (string + dict) \<times> guard" where
  "confirm H now confirmation_id a g =
    (case confirmation_id of
       PStr i \<Rightarrow>
         if py_strip i = [] then (Inl ''DANGEROUS_CONFIRMATION_REQUIRED'', g)
         else (case gd_previews g i of
            None \<Rightarrow> (Inl ''DANGEROUS_CONFIRMATION_NOT_FOUND'', g)
          | Some p \<Rightarrow>
              if pv_used p then (Inl ''DANGEROUS_CONFIRMATION_REUSED'', g)
              else if pv_expires_at p < now then (Inl ''DANGEROUS_CONFIRMATION_EXPIRED'', mark_used i g)
              else (case mismatch H p a of
                 Some code \<Rightarrow> (Inl code, g)
               | None \<Rightarrow> (Inr (receipt_for p), mark_used i g)))
     | _ \<Rightarrow> (Inl ''DANGEROUS_CONFIRMATION_REQUIRED'', g))"

section \<open>What a confirmation proves\<close>

text \<open>The action agrees with the previewed one.\<close>

definition same_action :: "(string \<Rightarrow> string) \<Rightarrow> action_preview \<Rightarrow> dangerous_action \<Rightarrow> bool" where
  "same_action H p a \<longleftrightarrow>
     pv_action_type p = da_action_type a \<and> pv_surface p = da_surface a \<and> pv_route p = da_route a
   \<and> or_blank (pv_project_root p) = or_blank (da_project_root a)
   \<and> or_blank (pv_current_head p) = or_blank (da_current_head a)
   \<and> or_blank (pv_state_signature p) = or_blank (da_state_signature a)
   \<and> or_blank (pv_plan_signature p) = or_blank (da_plan_signature a)
   \<and> or_blank (pv_patch_signature p) = or_blank (da_patch_signature a)
   \<and> or_blank (pv_registry_signature p) = or_blank (da_registry_signature a)
   \<and> pv_payload_digest p = payload_digest H (da_payload a)"

lemma mismatch_None: "mismatch H p a = None \<longleftrightarrow> same_action H p a"
  by (simp add: mismatch_def same_action_def)

lemma confirm_accepts:
  "(\<exists>r. fst (confirm H now c a g) = Inr r) \<longleftrightarrow>
     (\<exists>i p. c = PStr i \<and> py_strip i \<noteq> [] \<and> gd_previews g i = Some p \<and> \<not> pv_used p \<and> now \<le> pv_expires_at p \<and> same_action H p a)"
  by (cases c) (auto simp: confirm_def mismatch_None [symmetric] split: option.splits)

lemma confirm_receipt:
  "fst (confirm H now (PStr i) a g) = Inr r \<Longrightarrow> \<exists>p. gd_previews g i = Some p \<and> r = receipt_for p \<and> snd (confirm H now (PStr i) a g) = mark_used i g"
  by (auto simp: confirm_def split: option.splits if_splits)

lemma same_digest_same_payload:
  assumes "payload_digest H (Some p) = payload_digest H (Some q)"
    and "H (payload_text p) = H (payload_text q) \<Longrightarrow> payload_text p = payload_text q"
  shows "jsort (PDict (filter (\<lambda>kv. fst kv \<noteq> ''confirmation_id'') p)) = jsort (PDict (filter (\<lambda>kv. fst kv \<noteq> ''confirmation_id'') q))"
proof -
  have "payload_text p = payload_text q" using assms by (simp add: payload_digest_def)
  then show ?thesis unfolding payload_text_def by (rule render_inj)
qed

section \<open>One use\<close>

datatype guard_event =
    Create int string dangerous_action preview_details
  | Confirm int py dangerous_action

definition guard_step :: "(string \<Rightarrow> string) \<Rightarrow> guard_event \<Rightarrow> guard \<Rightarrow> (string + dict) option \<times> guard" where
  "guard_step H e g = (case e of
     Create now i a d \<Rightarrow> (None, snd (create_preview H now i a d g))
   | Confirm now c a \<Rightarrow> (let (r, g1) = confirm H now c a g in (Some r, g1)))"

text \<open>The answers of a sequence of calls, each with the call.\<close>

fun guard_run :: "(string \<Rightarrow> string) \<Rightarrow> guard_event list \<Rightarrow> guard \<Rightarrow> (guard_event \<times> (string + dict) option) list" where
  "guard_run H [] g = []"
| "guard_run H (e # es) g = (let (r, g1) = guard_step H e g in (e, r) # guard_run H es g1)"

fun creates :: "string \<Rightarrow> guard_event \<Rightarrow> bool" where
  "creates i (Create now j a d) = (i = j)"
| "creates i (Confirm now c a) = False"

definition confirmed :: "string \<Rightarrow> guard_event \<times> (string + dict) option \<Rightarrow> bool" where
  "confirmed i er = (case er of (Confirm _ c _, Some (Inr _)) \<Rightarrow> c = PStr i | _ \<Rightarrow> False)"

definition spent :: "string \<Rightarrow> guard \<Rightarrow> nat" where
  "spent i g = (case gd_previews g i of Some p \<Rightarrow> if pv_used p then 0 else 1 | None \<Rightarrow> 0)"

lemma spent_confirm:
  "spent i (snd (confirm H now c a g)) + (if c = PStr i \<and> (\<exists>r. fst (confirm H now c a g) = Inr r) then 1 else 0) \<le> spent i g"
  by (cases c) (auto simp: confirm_def spent_def mark_used_def split: option.splits if_splits)

lemma guard_step_budget:
  assumes "guard_step H e g = (r, g1)"
  shows "spent i g1 + (if confirmed i (e, r) then 1 else 0) \<le> spent i g + (if creates i e then 1 else 0)"
proof (cases e)
  case (Create now j a d)
  with assms show ?thesis
    by (cases "i = j") (auto simp: guard_step_def create_preview_def Let_def spent_def confirmed_def)
next
  case (Confirm now c a)
  then have "r = Some (fst (confirm H now c a g))" "g1 = snd (confirm H now c a g)"
    using assms by (auto simp: guard_step_def split: prod.splits)
  with spent_confirm [of i H now c a g] Confirm show ?thesis
    by (auto simp: confirmed_def split: sum.splits)
qed

text \<open>However the calls are ordered, a confirmation id is accepted at most once for each time it is issued.\<close>

lemma accepted_at_most_once_per_issue:
  "length (filter (confirmed i) (guard_run H es g)) \<le> spent i g + length (filter (creates i) es)"
proof (induction es arbitrary: g)
  case (Cons e es)
  obtain r g1 where s: "guard_step H e g = (r, g1)" by fastforce
  from guard_step_budget [OF s, of i] Cons.IH [of g1] s show ?case by auto
qed simp

end
