(* ===== verification/OperationLease.thy ===== *)
theory OperationLease
  imports Prelude "HOL-Library.Word"
begin

unbundle bit_operations_syntax

text \<open>
  \<open>runner/project_operation_lease.py\<close>: non-blocking leases on a project, held as POSIX locks on the
  project directory.  A lease is an object of the program; the kernel keeps the locks by open file
  description.  What the system calls answer is a parameter of each operation.
\<close>

section \<open>The kernel's locks\<close>

datatype lock_mode = Lock_Shared | Lock_Exclusive

type_synonym lock_table = "(nat \<times> lock_mode) list"

text \<open>\<open>flock(fd, mode | LOCK_NB)\<close> on a new description: granted when no lock of another one conflicts.\<close>

definition compatible :: "lock_mode \<Rightarrow> lock_mode \<Rightarrow> bool" where
  "compatible a b \<longleftrightarrow> a = Lock_Shared \<and> b = Lock_Shared"

definition grantable :: "lock_mode \<Rightarrow> lock_table \<Rightarrow> bool" where
  "grantable m locks \<longleftrightarrow> list_all (\<lambda>fm. compatible m (snd fm)) locks"

section \<open>Leases\<close>

record lease =
  le_shared :: bool
  le_status :: string
  le_error_code :: string
  le_fd :: "nat option"
  le_has_root :: bool   \<comment> \<open>\<open>canonical_project_root\<close> is not None\<close>

record lease_system =
  ls_leases :: "lease list"
  ls_locks :: lock_table
  ls_next_fd :: nat

definition new_lease :: "bool \<Rightarrow> bool \<Rightarrow> lease" where
  "new_lease shared root_ok =
    \<lparr>le_shared = shared, le_status = (if root_ok then ''new'' else ''unavailable''),
     le_error_code = (if root_ok then [] else ''PROJECT_OPERATION_LEASE_UNAVAILABLE''), le_fd = None, le_has_root = root_ok\<rparr>"

definition held :: "lease \<Rightarrow> bool" where
  "held l \<longleftrightarrow> le_status l = ''acquired'' \<and> le_fd l \<noteq> None"

definition unavailable :: "lease \<Rightarrow> lease" where
  "unavailable l = l\<lparr>le_status := ''unavailable'', le_error_code := ''PROJECT_OPERATION_LEASE_UNAVAILABLE'', le_fd := None\<rparr>"

definition lock_mode_of :: "lease \<Rightarrow> lock_mode" where
  "lock_mode_of l = (if le_shared l then Lock_Shared else Lock_Exclusive)"

text \<open>What the system answers while a lease is acquired.\<close>

record acquire_env =
  ae_posix :: bool                \<comment> \<open>POSIX with \<open>fcntl\<close> and the needed flags\<close>
  ae_open_ok :: bool              \<comment> \<open>\<open>os.open\<close>, \<open>set_inheritable\<close> and \<open>fstat\<close> do not raise\<close>
  ae_is_directory :: bool
  ae_owned :: bool                \<comment> \<open>owned by the effective user\<close>
  ae_mode :: "12 word"            \<comment> \<open>permission bits of the directory\<close>
  ae_flock_fails :: bool          \<comment> \<open>\<open>flock\<close> raises for another reason than a conflict\<close>

definition usable :: "acquire_env \<Rightarrow> bool" where
  "usable env \<longleftrightarrow> ae_posix env \<and> ae_open_ok env \<and> ae_is_directory env \<and> ae_owned env
     \<and> ae_mode env AND 18 = 0 \<and> \<not> ae_flock_fails env"

text \<open>\<open>acquire\<close>\<close>

definition acquire_lease :: "acquire_env \<Rightarrow> lease \<Rightarrow> nat \<Rightarrow> lock_table \<Rightarrow> lease \<times> lock_table" where
  "acquire_lease env l fd locks =
    (if held l then (l, locks)
     else if \<not> le_has_root l then (unavailable l, locks)
     else if \<not> ae_posix env then (unavailable l, locks)
     else if \<not> ae_open_ok env then (unavailable l, locks)
     else if \<not> ae_is_directory env then (unavailable l, locks)
     else if \<not> ae_owned env then (unavailable l, locks)
     else if ae_mode env AND 18 \<noteq> 0 then (unavailable l, locks)
     else if ae_flock_fails env then (unavailable l, locks)
     else if \<not> grantable (lock_mode_of l) locks then
       (l\<lparr>le_status := ''busy'', le_error_code := ''PROJECT_OPERATION_BUSY''\<rparr>, locks)
     else (l\<lparr>le_status := ''acquired'', le_error_code := [], le_fd := Some fd\<rparr>, (fd, lock_mode_of l) # locks))"

text \<open>\<open>release\<close>: the lock goes when it is undone or when its description is closed.\<close>

definition release_lease :: "bool \<Rightarrow> bool \<Rightarrow> lease \<Rightarrow> lock_table \<Rightarrow> lease \<times> lock_table" where
  "release_lease unlock_ok close_ok l locks =
    (case le_fd l of
       None \<Rightarrow> (l, locks)
     | Some fd \<Rightarrow>
         (l\<lparr>le_fd := None, le_status := (if close_ok then ''released'' else ''unavailable''),
            le_error_code := (if close_ok then [] else ''PROJECT_OPERATION_LEASE_UNAVAILABLE'')\<rparr>,
          if unlock_ok \<or> close_ok then filter (\<lambda>fm. fst fm \<noteq> fd) locks else locks))"

definition public_status :: "lease \<Rightarrow> dict" where
  "public_status l =
    [(''status'', PStr (le_status l)), (''held'', PBool (held l)), (''shared'', PBool (le_shared l)),
     (''error_code'', if le_error_code l = [] then PNone else PStr (le_error_code l))]"

text \<open>\<open>probe_project_operation_lease\<close>\<close>

definition probe :: "acquire_env \<Rightarrow> bool \<Rightarrow> bool \<Rightarrow> bool \<Rightarrow> nat \<Rightarrow> lock_table \<Rightarrow> dict \<times> lock_table" where
  "probe env root_ok unlock_ok close_ok fd locks =
    (let (l, locks1) = acquire_lease env (new_lease False root_ok) fd locks in
     if held l then
       ([(''status'', PStr ''free''), (''held'', PBool False), (''shared'', PBool False), (''error_code'', PNone)],
        snd (release_lease unlock_ok close_ok l locks1))
     else (public_status l, locks1))"

section \<open>The system of leases\<close>

definition acquire_step :: "acquire_env \<Rightarrow> nat \<Rightarrow> lease_system \<Rightarrow> lease_system" where
  "acquire_step env i s =
    (let (l, locks) = acquire_lease env (ls_leases s ! i) (ls_next_fd s) (ls_locks s)
     in s\<lparr>ls_leases := (ls_leases s)[i := l], ls_locks := locks, ls_next_fd := Suc (ls_next_fd s)\<rparr>)"

definition release_step :: "bool \<Rightarrow> bool \<Rightarrow> nat \<Rightarrow> lease_system \<Rightarrow> lease_system" where
  "release_step unlock_ok close_ok i s =
    (let (l, locks) = release_lease unlock_ok close_ok (ls_leases s ! i) (ls_locks s)
     in s\<lparr>ls_leases := (ls_leases s)[i := l], ls_locks := locks\<rparr>)"

text \<open>\<open>clean\<close>: no release fails to undo its lock.\<close>

inductive lease_reachable :: "bool \<Rightarrow> lease_system \<Rightarrow> bool" for clean where
  start: "lease_reachable clean \<lparr>ls_leases = [], ls_locks = [], ls_next_fd = n\<rparr>"
| new: "lease_reachable clean s \<Longrightarrow> lease_reachable clean (s\<lparr>ls_leases := ls_leases s @ [new_lease shared root_ok]\<rparr>)"
| acquire: "lease_reachable clean s \<Longrightarrow> i < length (ls_leases s) \<Longrightarrow> lease_reachable clean (acquire_step env i s)"
| release: "lease_reachable clean s \<Longrightarrow> i < length (ls_leases s) \<Longrightarrow> (clean \<Longrightarrow> unlock_ok \<or> close_ok)
    \<Longrightarrow> lease_reachable clean (release_step unlock_ok close_ok i s)"

section \<open>The invariant\<close>

definition locks_ok :: "lock_table \<Rightarrow> nat \<Rightarrow> bool" where
  "locks_ok locks n \<longleftrightarrow> distinct (map fst locks) \<and> (\<forall>fm\<in>set locks. fst fm < n)
     \<and> (\<forall>a\<in>set locks. \<forall>b\<in>set locks. fst a \<noteq> fst b \<longrightarrow> compatible (snd a) (snd b))"

definition lease_ok :: "lock_table \<Rightarrow> lease \<Rightarrow> bool" where
  "lease_ok locks l \<longleftrightarrow> (\<forall>fd. le_fd l = Some fd \<longrightarrow> (fd, lock_mode_of l) \<in> set locks \<and> le_status l = ''acquired'')"

definition system_ok :: "bool \<Rightarrow> lease_system \<Rightarrow> bool" where
  "system_ok clean s \<longleftrightarrow> locks_ok (ls_locks s) (ls_next_fd s)
     \<and> (\<forall>l\<in>set (ls_leases s). lease_ok (ls_locks s) l)
     \<and> (\<forall>i<length (ls_leases s). \<forall>j<length (ls_leases s). i \<noteq> j \<longrightarrow> le_fd (ls_leases s ! i) \<noteq> None
          \<longrightarrow> le_fd (ls_leases s ! i) \<noteq> le_fd (ls_leases s ! j))
     \<and> (clean \<longrightarrow> (\<forall>fm\<in>set (ls_locks s). \<exists>l\<in>set (ls_leases s). le_fd l = Some (fst fm)))"

lemma acquire_lease_eq:
  "acquire_lease env l fd locks =
    (if held l then (l, locks)
     else if \<not> (le_has_root l \<and> usable env) then (unavailable l, locks)
     else if \<not> grantable (lock_mode_of l) locks then
       (l\<lparr>le_status := ''busy'', le_error_code := ''PROJECT_OPERATION_BUSY''\<rparr>, locks)
     else (l\<lparr>le_status := ''acquired'', le_error_code := [], le_fd := Some fd\<rparr>, (fd, lock_mode_of l) # locks))"
  unfolding acquire_lease_def usable_def by simp

lemma lease_ok_fields:
  assumes "lease_ok locks l" "\<not> held l"
  shows "le_fd l = None"
  using assms by (auto simp: lease_ok_def held_def)

lemma lease_ok_mono: "lease_ok locks l \<Longrightarrow> set locks \<subseteq> set locks' \<Longrightarrow> lease_ok locks' l"
  by (auto simp: lease_ok_def)

lemma lease_fd_less: "lease_ok locks l \<Longrightarrow> locks_ok locks n \<Longrightarrow> le_fd l = Some fd \<Longrightarrow> fd < n"
  by (auto simp: lease_ok_def locks_ok_def)

lemma grant_locks_ok:
  assumes "locks_ok locks n" "grantable m locks"
  shows "locks_ok ((n, m) # locks) (Suc n)"
  using assms by (auto simp: locks_ok_def grantable_def list_all_iff compatible_def less_Suc_eq)

lemma locks_ok_Suc: "locks_ok locks n \<Longrightarrow> locks_ok locks (Suc n)"
  by (auto simp: locks_ok_def)

lemma locks_ok_filter: "locks_ok locks n \<Longrightarrow> locks_ok (filter P locks) n"
  by (auto simp: locks_ok_def distinct_map_filter)

lemma system_ok_distinct:
  "system_ok clean s \<Longrightarrow> j < length (ls_leases s) \<Longrightarrow> k < length (ls_leases s) \<Longrightarrow> j \<noteq> k
    \<Longrightarrow> le_fd (ls_leases s ! j) \<noteq> None \<Longrightarrow> le_fd (ls_leases s ! j) \<noteq> le_fd (ls_leases s ! k)"
  unfolding system_ok_def by blast

lemma system_ok_update:
  assumes ok: "system_ok clean s" and i: "i < length (ls_leases s)"
    and locks: "locks_ok locks n"
    and l: "lease_ok locks l"
    and others: "\<And>j. j < length (ls_leases s) \<Longrightarrow> j \<noteq> i \<Longrightarrow> lease_ok locks (ls_leases s ! j)"
    and fresh: "le_fd l \<noteq> None \<Longrightarrow> le_fd l = le_fd (ls_leases s ! i) \<or> (\<forall>j<length (ls_leases s). le_fd l \<noteq> le_fd (ls_leases s ! j))"
    and owned: "\<And>fm. clean \<Longrightarrow> fm \<in> set locks \<Longrightarrow> le_fd l = Some (fst fm) \<or> (\<exists>j<length (ls_leases s). j \<noteq> i \<and> le_fd (ls_leases s ! j) = Some (fst fm))"
  shows "system_ok clean (s\<lparr>ls_leases := (ls_leases s)[i := l], ls_locks := locks, ls_next_fd := n\<rparr>)"
proof -
  have d: "le_fd (ls_leases s ! j) \<noteq> le_fd (ls_leases s ! k)"
    if "j < length (ls_leases s)" "k < length (ls_leases s)" "j \<noteq> k" "le_fd (ls_leases s ! j) \<noteq> None" for j k
    by (rule system_ok_distinct [OF ok that])
  have "lease_ok locks m" if "m \<in> set ((ls_leases s)[i := l])" for m
  proof -
    from that obtain k where k: "k < length (ls_leases s)" "m = (ls_leases s)[i := l] ! k" by (auto simp: in_set_conv_nth)
    show ?thesis
    proof (cases "k = i")
      case True
      with k l show ?thesis by simp
    next
      case False
      with k others [OF k(1) False] show ?thesis by simp
    qed
  qed
  moreover have "le_fd ((ls_leases s)[i := l] ! j) \<noteq> le_fd ((ls_leases s)[i := l] ! k)"
    if "j < length (ls_leases s)" "k < length (ls_leases s)" "j \<noteq> k" "le_fd ((ls_leases s)[i := l] ! j) \<noteq> None" for j k
  proof -
    consider "j = i" | "k = i" "j \<noteq> i" | "j \<noteq> i" "k \<noteq> i" by blast
    then show ?thesis
    proof cases
      case 1
      with that fresh d [of i k] show ?thesis by auto
    next
      case 2
      have j: "(ls_leases s)[i := l] ! j = ls_leases s ! j" "(ls_leases s)[i := l] ! k = l" using 2 i by simp_all
      show ?thesis
      proof (cases "le_fd l = None")
        case True
        with that(4) j show ?thesis by auto
      next
        case False
        from fresh [OF False] show ?thesis
        proof
          assume "le_fd l = le_fd (ls_leases s ! i)"
          with d [of j i] that j 2 i show ?thesis by simp
        next
          assume "\<forall>j<length (ls_leases s). le_fd l \<noteq> le_fd (ls_leases s ! j)"
          with that(1) j show ?thesis by metis
        qed
      qed
    next
      case 3
      with that d [of j k] show ?thesis by auto
    qed
  qed
  moreover have "\<exists>m\<in>set ((ls_leases s)[i := l]). le_fd m = Some (fst fm)" if "clean" "fm \<in> set locks" for fm
    using owned [OF that]
  proof
    assume "le_fd l = Some (fst fm)"
    then show ?thesis using i by (intro bexI [of _ l]) (auto simp: set_update_memI)
  next
    assume "\<exists>j<length (ls_leases s). j \<noteq> i \<and> le_fd (ls_leases s ! j) = Some (fst fm)"
    then obtain j where "j < length (ls_leases s)" "j \<noteq> i" "le_fd (ls_leases s ! j) = Some (fst fm)" by blast
    then show ?thesis
      by (intro bexI [of _ "ls_leases s ! j"]) (auto simp: in_set_conv_nth intro!: exI [of _ j])
  qed
  ultimately show ?thesis using locks by (auto simp: system_ok_def)
qed

lemma system_ok_parts:
  assumes "system_ok clean s" "i < length (ls_leases s)"
  shows "locks_ok (ls_locks s) (ls_next_fd s)" "lease_ok (ls_locks s) (ls_leases s ! i)"
  using assms by (auto simp: system_ok_def)

lemma system_ok_owner:
  assumes "system_ok clean s" "clean" "fm \<in> set (ls_locks s)"
  obtains j where "j < length (ls_leases s)" "le_fd (ls_leases s ! j) = Some (fst fm)"
proof -
  from assms obtain l where "l \<in> set (ls_leases s)" "le_fd l = Some (fst fm)" unfolding system_ok_def by blast
  with that show ?thesis by (metis in_set_conv_nth)
qed

lemma system_ok_owned:
  assumes "system_ok clean s" "clean" "fm \<in> set (ls_locks s)" "i < length (ls_leases s)"
  shows "le_fd (ls_leases s ! i) = Some (fst fm) \<or> (\<exists>j<length (ls_leases s). j \<noteq> i \<and> le_fd (ls_leases s ! j) = Some (fst fm))"
  using system_ok_owner [OF assms(1-3)] by metis

lemma system_ok_acquire:
  assumes ok: "system_ok clean s" and i: "i < length (ls_leases s)"
  shows "system_ok clean (acquire_step env i s)"
proof -
  define l where "l = ls_leases s ! i"
  obtain l' locks' where a: "acquire_lease env l (ls_next_fd s) (ls_locks s) = (l', locks')" by fastforce
  have step: "acquire_step env i s = s\<lparr>ls_leases := (ls_leases s)[i := l'], ls_locks := locks', ls_next_fd := Suc (ls_next_fd s)\<rparr>"
    using a by (simp add: acquire_step_def l_def)
  note parts = system_ok_parts [OF ok i, folded l_def]
  have others: "lease_ok (ls_locks s) (ls_leases s ! j)" if "j < length (ls_leases s)" for j
    using system_ok_parts [OF ok that] by simp
  have less: "le_fd (ls_leases s ! j) \<noteq> Some (ls_next_fd s)" if "j < length (ls_leases s)" for j
    using lease_fd_less [OF others [OF that] parts(1)] by blast
  show ?thesis
  proof (cases "locks' = ls_locks s")
    case True
    have fd: "le_fd l' = le_fd l" and ok': "lease_ok locks' l'"
      using a True parts lease_ok_fields [OF parts(2)]
      by (auto simp: acquire_lease_eq unavailable_def lease_ok_def split: if_splits)
    show ?thesis
      unfolding step
      by (rule system_ok_update [OF ok i])
        (use True fd ok' parts others system_ok_owned [OF ok _ _ i] in \<open>auto simp: locks_ok_Suc l_def\<close>)
  next
    case False
    then have g: "locks' = (ls_next_fd s, lock_mode_of l) # ls_locks s" "grantable (lock_mode_of l) (ls_locks s)" "\<not> held l"
      and l': "l' = l\<lparr>le_status := ''acquired'', le_error_code := [], le_fd := Some (ls_next_fd s)\<rparr>"
      using a by (auto simp: acquire_lease_eq split: if_splits)
    have "le_fd l = None" by (rule lease_ok_fields [OF parts(2) g(3)])
    show ?thesis
      unfolding step
    proof (rule system_ok_update [OF ok i])
      show "locks_ok locks' (Suc (ls_next_fd s))" unfolding g(1) by (rule grant_locks_ok [OF parts(1) g(2)])
      show "lease_ok locks' l'" by (simp add: lease_ok_def g(1) l' lock_mode_of_def)
      show "lease_ok locks' (ls_leases s ! j)" if "j < length (ls_leases s)" for j
        by (rule lease_ok_mono [OF others [OF that]]) (auto simp: g(1))
      show "le_fd l' = le_fd (ls_leases s ! i) \<or> (\<forall>j<length (ls_leases s). le_fd l' \<noteq> le_fd (ls_leases s ! j))"
        using less by (simp add: l') (metis less)
      fix fm assume "clean" "fm \<in> set locks'"
      then show "le_fd l' = Some (fst fm) \<or> (\<exists>j<length (ls_leases s). j \<noteq> i \<and> le_fd (ls_leases s ! j) = Some (fst fm))"
        using system_ok_owned [OF ok _ _ i, of fm] \<open>le_fd l = None\<close> by (auto simp: g(1) l' l_def)
    qed
  qed
qed

lemma system_ok_release:
  assumes ok: "system_ok clean s" and i: "i < length (ls_leases s)" and undone: "clean \<Longrightarrow> unlock_ok \<or> close_ok"
  shows "system_ok clean (release_step unlock_ok close_ok i s)"
proof -
  define l where "l = ls_leases s ! i"
  obtain l' locks' where r: "release_lease unlock_ok close_ok l (ls_locks s) = (l', locks')" by fastforce
  have step: "release_step unlock_ok close_ok i s = s\<lparr>ls_leases := (ls_leases s)[i := l'], ls_locks := locks', ls_next_fd := ls_next_fd s\<rparr>"
    using r by (simp add: release_step_def l_def)
  note parts = system_ok_parts [OF ok i, folded l_def]
  have others: "lease_ok (ls_locks s) (ls_leases s ! j)" if "j < length (ls_leases s)" for j
    using system_ok_parts [OF ok that] by simp
  show ?thesis
  proof (cases "le_fd l")
    case None
    with r have "l' = l" "locks' = ls_locks s" by (simp_all add: release_lease_def)
    then have "release_step unlock_ok close_ok i s = s" by (simp add: step l_def)
    with ok show ?thesis by simp
  next
    case (Some fd)
    have l': "le_fd l' = None" and locks': "locks' = (if unlock_ok \<or> close_ok then filter (\<lambda>fm. fst fm \<noteq> fd) (ls_locks s) else ls_locks s)"
      using r Some by (auto simp: release_lease_def)
    have dist: "le_fd (ls_leases s ! j) \<noteq> Some fd" if "j < length (ls_leases s)" "j \<noteq> i" for j
      using system_ok_distinct [OF ok i that(1)] that(2) Some by (auto simp: l_def)
    show ?thesis
      unfolding step
    proof (rule system_ok_update [OF ok i])
      show "locks_ok locks' (ls_next_fd s)" using parts(1) by (simp add: locks' locks_ok_filter)
      show "lease_ok locks' l'" by (simp add: lease_ok_def l')
      show "lease_ok locks' (ls_leases s ! j)" if "j < length (ls_leases s)" "j \<noteq> i" for j
        using others [OF that(1)] dist [OF that] by (auto simp: lease_ok_def locks')
      show "le_fd l' \<noteq> None \<Longrightarrow> le_fd l' = le_fd (ls_leases s ! i) \<or> (\<forall>j<length (ls_leases s). le_fd l' \<noteq> le_fd (ls_leases s ! j))"
        by (simp add: l')
      fix fm assume c: "clean" and "fm \<in> set locks'"
      then have "fm \<in> set (ls_locks s)" "fst fm \<noteq> fd" using undone [OF c] by (auto simp: locks')
      then show "le_fd l' = Some (fst fm) \<or> (\<exists>j<length (ls_leases s). j \<noteq> i \<and> le_fd (ls_leases s ! j) = Some (fst fm))"
        using system_ok_owned [OF ok c _ i, of fm] Some by (auto simp: l_def)
    qed
  qed
qed

lemma system_ok_new:
  assumes ok: "system_ok clean s"
  shows "system_ok clean (s\<lparr>ls_leases := ls_leases s @ [new_lease shared root_ok]\<rparr>)"
proof -
  have fd: "le_fd (new_lease shared root_ok) = None" by (simp add: new_lease_def)
  have "le_fd ((ls_leases s @ [new_lease shared root_ok]) ! i) \<noteq> le_fd ((ls_leases s @ [new_lease shared root_ok]) ! j)"
    if "i < Suc (length (ls_leases s))" "j < Suc (length (ls_leases s))" "i \<noteq> j"
      "le_fd ((ls_leases s @ [new_lease shared root_ok]) ! i) \<noteq> None" for i j
  proof (cases "i < length (ls_leases s) \<and> j < length (ls_leases s)")
    case True
    with that system_ok_distinct [OF ok, of i j] show ?thesis by (simp add: nth_append)
  next
    case False
    with that fd show ?thesis by (auto simp: nth_append less_Suc_eq)
  qed
  moreover have "lease_ok (ls_locks s) (new_lease shared root_ok)" by (simp add: lease_ok_def fd)
  ultimately show ?thesis using ok unfolding system_ok_def by auto
qed

lemma lease_reachable_ok: "lease_reachable clean s \<Longrightarrow> system_ok clean s"
proof (induction rule: lease_reachable.induct)
  case (start n)
  then show ?case by (simp add: system_ok_def locks_ok_def)
qed (auto intro: system_ok_new system_ok_acquire system_ok_release)

section \<open>What the leases guarantee\<close>

text \<open>Two leases held at the same time are both shared, even when releases fail.\<close>

lemma held_leases_shared:
  assumes r: "lease_reachable clean s" and ij: "i < length (ls_leases s)" "j < length (ls_leases s)" "i \<noteq> j"
    and h: "held (ls_leases s ! i)" "held (ls_leases s ! j)"
  shows "le_shared (ls_leases s ! i) \<and> le_shared (ls_leases s ! j)"
proof -
  note ok = lease_reachable_ok [OF r]
  obtain a b where ab: "le_fd (ls_leases s ! i) = Some a" "le_fd (ls_leases s ! j) = Some b" using h by (auto simp: held_def)
  have "a \<noteq> b" using system_ok_distinct [OF ok ij] ab by simp
  moreover have "(a, lock_mode_of (ls_leases s ! i)) \<in> set (ls_locks s)" "(b, lock_mode_of (ls_leases s ! j)) \<in> set (ls_locks s)"
    using system_ok_parts(2) [OF ok ij(1)] system_ok_parts(2) [OF ok ij(2)] ab by (auto simp: lease_ok_def)
  moreover have "locks_ok (ls_locks s) (ls_next_fd s)" using ok by (simp add: system_ok_def)
  ultimately have "compatible (lock_mode_of (ls_leases s ! i)) (lock_mode_of (ls_leases s ! j))"
    by (fastforce simp: locks_ok_def)
  then show ?thesis by (auto simp: compatible_def lock_mode_of_def split: if_splits)
qed

text \<open>When releases do not fail, acquiring on a usable directory succeeds exactly when every lease held by
  others is shared and so is this one; otherwise it reports busy, and holds nothing.\<close>

lemma acquire_decides:
  assumes r: "lease_reachable True s" and i: "i < length (ls_leases s)" and root: "le_has_root (ls_leases s ! i)"
    and env: "usable env" and free: "\<not> held (ls_leases s ! i)"
  shows "(let l = ls_leases (acquire_step env i s) ! i in
    if \<forall>j<length (ls_leases s). held (ls_leases s ! j) \<longrightarrow> le_shared (ls_leases s ! j) \<and> le_shared (ls_leases s ! i)
    then held l \<and> le_status l = ''acquired'' else \<not> held l \<and> le_status l = ''busy'')"
proof -
  note ok = lease_reachable_ok [OF r]
  define l where "l = ls_leases s ! i"
  have nofd: "le_fd l = None" using lease_ok_fields system_ok_parts(2) [OF ok i] free by (auto simp: l_def)
  have g: "grantable (lock_mode_of l) (ls_locks s)
      \<longleftrightarrow> (\<forall>j<length (ls_leases s). held (ls_leases s ! j) \<longrightarrow> le_shared (ls_leases s ! j) \<and> le_shared l)"
  proof
    assume gr: "grantable (lock_mode_of l) (ls_locks s)"
    show "\<forall>j<length (ls_leases s). held (ls_leases s ! j) \<longrightarrow> le_shared (ls_leases s ! j) \<and> le_shared l"
    proof (intro allI impI)
      fix j assume j: "j < length (ls_leases s)" "held (ls_leases s ! j)"
      then obtain b where "le_fd (ls_leases s ! j) = Some b" by (auto simp: held_def)
      then have "(b, lock_mode_of (ls_leases s ! j)) \<in> set (ls_locks s)"
        using system_ok_parts(2) [OF ok j(1)] by (auto simp: lease_ok_def)
      with gr show "le_shared (ls_leases s ! j) \<and> le_shared l"
        by (auto simp: grantable_def list_all_iff compatible_def lock_mode_of_def split: if_splits)
    qed
  next
    assume all: "\<forall>j<length (ls_leases s). held (ls_leases s ! j) \<longrightarrow> le_shared (ls_leases s ! j) \<and> le_shared l"
    have "compatible (lock_mode_of l) (snd fm)" if fm: "fm \<in> set (ls_locks s)" for fm
    proof -
      obtain j where j: "j < length (ls_leases s)" "le_fd (ls_leases s ! j) = Some (fst fm)"
        using system_ok_owner [OF ok _ fm] by blast
      have lo: "lease_ok (ls_locks s) (ls_leases s ! j)" by (rule system_ok_parts(2) [OF ok j(1)])
      then have "held (ls_leases s ! j)" "(fst fm, lock_mode_of (ls_leases s ! j)) \<in> set (ls_locks s)"
        using j(2) by (auto simp: lease_ok_def held_def)
      moreover have "distinct (map fst (ls_locks s))" using ok by (simp add: system_ok_def locks_ok_def)
      ultimately have "snd fm = lock_mode_of (ls_leases s ! j)"
        using fm by (metis eq_key_imp_eq_value prod.collapse)
      with all j(1) \<open>held (ls_leases s ! j)\<close> show ?thesis by (auto simp: compatible_def lock_mode_of_def)
    qed
    then show "grantable (lock_mode_of l) (ls_locks s)" by (simp add: grantable_def list_all_iff)
  qed
  show ?thesis
    using free root env i nofd g unfolding acquire_step_def acquire_lease_eq
    by (auto simp: l_def held_def Let_def)
qed

section \<open>Examples\<close>

text \<open>Two readers hold the project; a third lease, for writing, does not get it.\<close>

definition ex_env :: acquire_env where
  "ex_env = \<lparr>ae_posix = True, ae_open_ok = True, ae_is_directory = True, ae_owned = True, ae_mode = 493, ae_flock_fails = False\<rparr>"

lemma ex_env_usable: "usable ex_env"
  by (simp add: usable_def ex_env_def)

definition ex_start :: lease_system where
  "ex_start = \<lparr>ls_leases = [new_lease True True, new_lease True True], ls_locks = [], ls_next_fd = 3\<rparr>"

definition ex_two_readers :: lease_system where
  "ex_two_readers = acquire_step ex_env 1 (acquire_step ex_env 0 ex_start)"

definition ex_three :: lease_system where
  "ex_three = ex_two_readers\<lparr>ls_leases := ls_leases ex_two_readers @ [new_lease False True]\<rparr>"

definition ex_reader :: "nat \<Rightarrow> lease" where
  "ex_reader fd = \<lparr>le_shared = True, le_status = ''acquired'', le_error_code = [], le_fd = Some fd, le_has_root = True\<rparr>"

lemma ex_two_readers_eq:
  "ex_two_readers = \<lparr>ls_leases = [ex_reader 3, ex_reader 4], ls_locks = [(4, Lock_Shared), (3, Lock_Shared)], ls_next_fd = 5\<rparr>"
  using ex_env_usable
  by (simp add: ex_two_readers_def ex_start_def acquire_step_def acquire_lease_eq new_lease_def held_def ex_reader_def
      grantable_def compatible_def lock_mode_of_def)

lemma ex_three_eq:
  "ls_leases ex_three = [ex_reader 3, ex_reader 4, new_lease False True]"
  by (simp add: ex_three_def ex_two_readers_eq)

lemma ex_start_reachable: "lease_reachable clean ex_start"
proof -
  have "lease_reachable clean \<lparr>ls_leases = [], ls_locks = [], ls_next_fd = 3\<rparr>" by (rule lease_reachable.start)
  from lease_reachable.new [OF lease_reachable.new [OF this, of True True], of True True]
  show ?thesis by (simp add: ex_start_def)
qed

lemma ex_two_readers_reachable: "lease_reachable clean ex_two_readers"
  unfolding ex_two_readers_def
  by (intro lease_reachable.acquire ex_start_reachable) (simp_all add: ex_start_def acquire_step_def split_def Let_def)

lemma ex_three_reachable: "lease_reachable clean ex_three"
  unfolding ex_three_def by (rule lease_reachable.new [OF ex_two_readers_reachable])

end
