(* ===== verification/RunClaims.thy ===== *)
theory RunClaims
  imports References
begin

text \<open>
  \<open>runner/executor_run_claims.py\<close>: the claim an executor run takes on a preview, a JSON file created
  exclusively, kept alive by heartbeats and closed by a final status.  The directory of claims is a map
  from preview ids to the JSON values of their files; it holds no symbolic links.  The clock, the process
  id and the faults of the file system are parameters.
\<close>

section \<open>Values\<close>

text \<open>\<open>str(x or "")\<close> for the strings, numbers and nulls a claim holds.\<close>

definition text_of :: "py \<Rightarrow> string" where
  "text_of v = (case v of PStr s \<Rightarrow> s | PInt i \<Rightarrow> if i = 0 then [] else show_int i
     | PBool b \<Rightarrow> if b then ''True'' else [] | _ \<Rightarrow> [])"

text \<open>\<open>int(s)\<close>: decimal digits, with single underscores between them, a sign and surrounding white space.\<close>

definition all_digits :: "string \<Rightarrow> bool" where
  "all_digits s \<longleftrightarrow> s \<noteq> [] \<and> list_all (\<lambda>c. let n = (of_char c :: nat) in 48 \<le> n \<and> n \<le> 57) s"

definition decimal :: "string \<Rightarrow> int" where
  "decimal s = foldl (\<lambda>n c. 10 * n + (of_char c - 48)) 0 s"

definition unsigned_int :: "string \<Rightarrow> int option" where
  "unsigned_int s = (let ps = split_on (CHR ''_'') s in if list_all all_digits ps then Some (decimal (concat ps)) else None)"

definition int_of_string :: "string \<Rightarrow> int option" where
  "int_of_string s =
    (case py_strip s of
       [] \<Rightarrow> None
     | c # t \<Rightarrow> if c = CHR ''-'' then map_option uminus (unsigned_int t)
                else if c = CHR ''+'' then unsigned_int t else unsigned_int (c # t))"

definition coerce_int :: "py \<Rightarrow> int \<Rightarrow> int" where
  "coerce_int v d =
    (case v of PInt i \<Rightarrow> i | PBool b \<Rightarrow> (if b then 1 else 0)
     | PStr s \<Rightarrow> (case int_of_string s of Some i \<Rightarrow> i | None \<Rightarrow> d) | _ \<Rightarrow> d)"

section \<open>The store\<close>

record claim_config =
  cc_project_root :: string
  cc_interval :: int
  cc_stale_multiplier :: int
  cc_stale_min :: int

type_synonym claim_files = "string \<rightharpoonup> py"

text \<open>\<open>^[A-Za-z0-9_.-]+$\<close> with \<open>re.match\<close>: the \<open>$\<close> also matches before a final line feed.\<close>

definition id_char :: "char \<Rightarrow> bool" where
  "id_char c = (let n = (of_char c :: nat) in (48 \<le> n \<and> n \<le> 57) \<or> (65 \<le> n \<and> n \<le> 90) \<or> (97 \<le> n \<and> n \<le> 122)
     \<or> n = 95 \<or> n = 46 \<or> n = 45)"

definition safe_id :: "string \<Rightarrow> bool" where
  "safe_id s \<longleftrightarrow> (s \<noteq> [] \<and> list_all id_char s)
     \<or> (s \<noteq> [] \<and> last s = CHR 0x0A \<and> butlast s \<noteq> [] \<and> list_all id_char (butlast s))"

definition heartbeat_timeout_seconds :: "claim_config \<Rightarrow> int \<Rightarrow> int" where
  "heartbeat_timeout_seconds cfg interval = max (cc_stale_min cfg) (interval * cc_stale_multiplier cfg)"

definition read_claim :: "string \<Rightarrow> claim_files \<Rightarrow> dict option" where
  "read_claim i files = (if \<not> safe_id i then None else case files i of Some (PDict d) \<Rightarrow> Some d | _ \<Rightarrow> None)"

text \<open>\<open>write_claim\<close>: raises for an unsafe id, or when the file cannot be written.\<close>

definition write_claim :: "bool \<Rightarrow> string \<Rightarrow> dict \<Rightarrow> claim_files \<Rightarrow> (py_error + unit) \<times> claim_files" where
  "write_claim io_ok i d files =
    (if \<not> safe_id i then (Inl (Py_Exc ''ValueError''), files)
     else if \<not> io_ok then (Inl (Py_Exc ''OSError''), files)
     else (Inr (), files(i \<mapsto> PDict d)))"

record acquire_request =
  aq_artifact :: dict
  aq_provider :: string
  aq_execution_mode :: string
  aq_profile_id :: "string option"
  aq_executor_authority_id :: "string option"
  aq_admission_sha256 :: "string option"

record claim_env =
  ce_run_id :: string
  ce_now :: string
  ce_pid :: int
  ce_open_fails :: bool      \<comment> \<open>\<open>os.open\<close> raises for another reason than an existing file\<close>
  ce_write_fails :: bool

datatype acquire_reply =
    Binding_Invalid "(string \<times> string) list"
  | Claim_Exists dict
  | Claim_Failed
  | Claim_Acquired string dict

definition work_item_binding :: "dict \<Rightarrow> dict result" where
  "work_item_binding artifact =
    (if list_ex (dhas artifact) WORK_ITEM_REFERENCE_FIELDS then
       ebind (list_or_empty (dget artifact ''artifact_refs'')) (\<lambda>refs.
         Inr [(''work_item_id'', dget artifact ''work_item_id''), (''task_version'', dget artifact ''task_version''),
              (''attempt_id'', dget artifact ''attempt_id''), (''artifact_refs'', PList refs)])
     else Inr [])"

definition stripped_field :: "string \<Rightarrow> string option \<Rightarrow> dict" where
  "stripped_field k s = (case s of None \<Rightarrow> [] | Some t \<Rightarrow> if py_strip t = [] then [] else [(k, PStr (py_strip t))])"

definition none_if_empty :: "string \<Rightarrow> py" where
  "none_if_empty s = (if s = [] then PNone else PStr s)"

definition claim_record :: "claim_config \<Rightarrow> claim_env \<Rightarrow> string \<Rightarrow> acquire_request \<Rightarrow> dict \<Rightarrow> dict" where
  "claim_record cfg env i q binding =
    (let a = aq_artifact q;
         profile = py_strip (case aq_profile_id q of
           None \<Rightarrow> text_of (dget a ''profile_id'') | Some p \<Rightarrow> if p = [] then text_of (dget a ''profile_id'') else p)
     in [(''preview_id'', PStr i), (''run_id'', PStr (ce_run_id env)), (''artifact_kind'', PStr (text_of (dget a ''artifact_kind''))),
         (''project_root'', PStr (cc_project_root cfg)), (''provider'', PStr (aq_provider q)),
         (''execution_mode'', PStr (aq_execution_mode q)), (''current_version'', PStr (text_of (dget a ''current_version''))),
         (''current_head'', PStr (text_of (dget a ''current_head''))), (''claimed_at'', PStr (ce_now env)),
         (''status'', PStr ''RUNNING''), (''model'', none_if_empty (py_strip (text_of (dget a ''model'')))),
         (''model_source'', none_if_empty (py_strip (text_of (dget a ''model_source'')))), (''worker_pid'', PInt (ce_pid env)),
         (''worker_started_at'', PStr (ce_now env)), (''thread_started_at'', PStr []), (''last_heartbeat_at'', PStr (ce_now env)),
         (''heartbeat_interval_seconds'', PInt (cc_interval cfg)),
         (''heartbeat_timeout_seconds'', PInt (heartbeat_timeout_seconds cfg (cc_interval cfg))),
         (''original_preview_created_at'', PStr (text_of (dget a ''created_at''))),
         (''original_preview_expires_at'', PStr (text_of (dget a ''expires_at'')))]
        @ stripped_field ''executor_authority_id'' (aq_executor_authority_id q)
        @ stripped_field ''admission_sha256'' (aq_admission_sha256 q)
        @ (if profile = [] then [] else [(''profile_id'', PStr profile)])
        @ binding)"

definition acquire_claim :: "claim_config \<Rightarrow> claim_env \<Rightarrow> string \<Rightarrow> acquire_request \<Rightarrow> claim_files
    \<Rightarrow> acquire_reply result \<times> claim_files" where
  "acquire_claim cfg env i q files =
    (if \<not> safe_id i then (Inl (Py_Exc ''ValueError''), files)
     else case work_item_binding (aq_artifact q) of
       Inl e \<Rightarrow> (Inl e, files)
     | Inr binding \<Rightarrow>
         (let rejections = (if binding = [] then [] else optional_work_item_reference_rejections (PDict binding)) in
          if rejections \<noteq> [] then (Inr (Binding_Invalid rejections), files)
          else if files i \<noteq> None then
            (Inr (Claim_Exists (case read_claim i files of None \<Rightarrow> [] | Some d \<Rightarrow> d)), files)
          else if ce_open_fails env \<or> ce_write_fails env then (Inr Claim_Failed, files)
          else let d = claim_record cfg env i q binding in (Inr (Claim_Acquired (ce_run_id env) d), files(i \<mapsto> PDict d))))"

text \<open>\<open>run_id and str(claim.get("run_id") or "") and ... != run_id\<close>\<close>

definition other_run :: "dict \<Rightarrow> string \<Rightarrow> bool" where
  "other_run claim run_id \<longleftrightarrow> run_id \<noteq> [] \<and> text_of (dget claim ''run_id'') \<noteq> [] \<and> text_of (dget claim ''run_id'') \<noteq> run_id"

record final_report =
  fr_status :: string
  fr_report_id :: string
  fr_error_code :: string
  fr_message :: string
  fr_exception_type :: string
  fr_blockers :: "string list"
  fr_warnings :: "string list"

definition set_if :: "string \<Rightarrow> string \<Rightarrow> dict \<Rightarrow> dict" where
  "set_if k s d = (if s = [] then d else dset k (PStr s) d)"

definition set_list_if :: "string \<Rightarrow> string list \<Rightarrow> dict \<Rightarrow> dict" where
  "set_list_if k xs d = (if xs = [] then d else dset k (PList (map PStr xs)) d)"

definition finalize_claim :: "bool \<Rightarrow> string \<Rightarrow> string \<Rightarrow> string \<Rightarrow> final_report \<Rightarrow> claim_files \<Rightarrow> (py_error + unit) \<times> claim_files" where
  "finalize_claim io_ok now i run_id r files =
    (case read_claim i files of
       None \<Rightarrow> (Inr (), files)
     | Some claim \<Rightarrow>
         if other_run claim run_id then (Inr (), files)
         else write_claim io_ok i
           (set_list_if ''warnings'' (fr_warnings r) (set_list_if ''blockers'' (fr_blockers r)
             (set_if ''exception_type'' (fr_exception_type r) (set_if ''error_message'' (fr_message r)
               (set_if ''error_code'' (fr_error_code r) (set_if ''report_id'' (fr_report_id r)
                 (dset ''last_heartbeat_at'' (PStr now) (dset ''finished_at'' (PStr now)
                   (dset ''status'' (PStr (fr_status r)) claim))))))))) files)"

definition mark_worker_started ::
  "claim_config \<Rightarrow> bool \<Rightarrow> string \<Rightarrow> string \<Rightarrow> string \<Rightarrow> int \<Rightarrow> int \<Rightarrow> claim_files \<Rightarrow> (py_error + unit) \<times> claim_files" where
  "mark_worker_started cfg io_ok i run_id started pid interval files =
    (case read_claim i files of
       None \<Rightarrow> (Inr (), files)
     | Some claim \<Rightarrow>
         if other_run claim run_id then (Inr (), files)
         else write_claim io_ok i
           (dset ''heartbeat_timeout_seconds'' (PInt (heartbeat_timeout_seconds cfg (max 1 interval)))
             (dset ''heartbeat_interval_seconds'' (PInt (max 1 interval)) (dset ''last_heartbeat_at'' (PStr started)
               (dset ''thread_started_at'' (PStr started) (dset ''worker_started_at'' (PStr started)
                 (dset ''worker_pid'' (PInt pid) claim)))))) files)"

definition refresh_heartbeat ::
  "claim_config \<Rightarrow> bool \<Rightarrow> string \<Rightarrow> string \<Rightarrow> string \<Rightarrow> claim_files \<Rightarrow> bool \<times> claim_files" where
  "refresh_heartbeat cfg io_ok now i run_id files =
    (case read_claim i files of
       None \<Rightarrow> (False, files)
     | Some claim \<Rightarrow>
         if other_run claim run_id then (False, files)
         else if text_of (dget claim ''status'') \<noteq> ''RUNNING'' then (False, files)
         else let interval = max 1 (coerce_int (dget claim ''heartbeat_interval_seconds'') (cc_interval cfg));
                  (r, files1) = write_claim io_ok i
                    (dset ''heartbeat_timeout_seconds'' (PInt (heartbeat_timeout_seconds cfg interval))
                      (dset ''heartbeat_interval_seconds'' (PInt interval) (dset ''last_heartbeat_at'' (PStr now) claim))) files
              in (r = Inr (), files1))"

definition release_claim :: "bool \<Rightarrow> string \<Rightarrow> claim_files \<Rightarrow> claim_files" where
  "release_claim io_ok i files = (if safe_id i \<and> io_ok then files(i := None) else files)"

section \<open>Finding claims and judging them\<close>

text \<open>\<open>ids\<close> are the names of the directory's files without \<open>.json\<close>, in the order it lists them.\<close>

definition find_claim_by_run_id :: "string list \<Rightarrow> string \<Rightarrow> claim_files \<Rightarrow> dict option" where
  "find_claim_by_run_id ids run_id files =
    List.find (\<lambda>d. text_of (dget d ''run_id'') = run_id) (List.map_filter (\<lambda>i. read_claim i files) ids)"

definition listed_claims :: "string list \<Rightarrow> string option \<Rightarrow> claim_files \<Rightarrow> dict list" where
  "listed_claims ids status files =
    filter (\<lambda>d. case status of None \<Rightarrow> True | Some s \<Rightarrow> text_of (dget d ''status'') = s)
      (List.map_filter (\<lambda>i. read_claim i files) ids)"

text \<open>\<open>list_claims\<close> sorts by the first time it finds, the latest first; the sort is stable.\<close>

definition claim_time :: "dict \<Rightarrow> string" where
  "claim_time d = text_of (py_or (py_or (dget d ''claimed_at'') (dget d ''worker_started_at'')) (dget d ''last_heartbeat_at''))"

definition list_claims :: "string list \<Rightarrow> string option \<Rightarrow> claim_files \<Rightarrow> dict list" where
  "list_claims ids status files = rev (sort_key claim_time (rev (listed_claims ids status files)))"

definition find_active_claim :: "string list \<Rightarrow> string \<Rightarrow> claim_files \<Rightarrow> dict option" where
  "find_active_claim ids status files =
    (case list_claims ids (Some status) files of [] \<Rightarrow> None | d # ds \<Rightarrow> Some d)"

lemma list_claims_set: "set (list_claims ids status files) = set (listed_claims ids status files)"
  by (simp add: list_claims_def)

text \<open>The active claim is a running one that no other started after.\<close>

lemma find_active_claim_latest:
  assumes "find_active_claim ids status files = Some d"
  shows "d \<in> set (listed_claims ids (Some status) files)
    \<and> (\<forall>c\<in>set (listed_claims ids (Some status) files). claim_time c \<le> claim_time d)"
proof -
  define xs where "xs = rev (listed_claims ids (Some status) files)"
  from assms obtain ds where l: "rev (sort_key claim_time xs) = d # ds"
    by (auto simp: find_active_claim_def list_claims_def xs_def split: list.splits)
  then have s: "sort_key claim_time xs = rev ds @ [d]" by (metis rev.simps(2) rev_rev_ident)
  have "set (rev ds @ [d]) = set xs" by (metis s set_sort)
  moreover have "sorted (map claim_time (rev ds @ [d]))" by (metis s sorted_sort_key)
  ultimately show ?thesis by (auto simp: sorted_append xs_def)
qed

datatype orphan_verdict = Not_Orphaned | Orphaned string

text \<open>Times are microseconds; \<open>parse\<close> reads an ISO time.\<close>

definition evaluate_orphaned_claim :: "claim_config \<Rightarrow> (string \<Rightarrow> int option) \<Rightarrow> int \<Rightarrow> dict \<Rightarrow> orphan_verdict" where
  "evaluate_orphaned_claim cfg parse now claim =
    (if text_of (dget claim ''status'') \<noteq> ''RUNNING'' then Not_Orphaned
     else if dget claim ''heartbeat_interval_seconds'' = PNone then Not_Orphaned
     else let timeout = heartbeat_timeout_seconds cfg
                (max 1 (coerce_int (dget claim ''heartbeat_interval_seconds'') (cc_interval cfg)));
              raw = py_strip (text_of (dget claim ''last_heartbeat_at''))
          in if raw = [] then Not_Orphaned
             else case parse raw of
               None \<Rightarrow> Orphaned ''CLAIM_HEARTBEAT_INVALID''
             | Some t \<Rightarrow> if now - t \<le> timeout * 1000000 then Not_Orphaned else Orphaned ''EXECUTOR_RUN_ORPHANED'')"

section \<open>Sequences of calls\<close>

datatype claim_event =
    Acquire claim_env string acquire_request
  | Finalize bool string string string final_report
  | Started bool string string string int int
  | Heartbeat bool string string string
  | Release bool string

definition claim_step :: "claim_config \<Rightarrow> claim_event \<Rightarrow> claim_files \<Rightarrow> acquire_reply option \<times> claim_files" where
  "claim_step cfg e files =
    (case e of
       Acquire env i q \<Rightarrow> (case acquire_claim cfg env i q files of (Inl _, f) \<Rightarrow> (None, f) | (Inr r, f) \<Rightarrow> (Some r, f))
     | Finalize ok now i run_id r \<Rightarrow> (None, snd (finalize_claim ok now i run_id r files))
     | Started ok i run_id started pid interval \<Rightarrow> (None, snd (mark_worker_started cfg ok i run_id started pid interval files))
     | Heartbeat ok now i run_id \<Rightarrow> (None, snd (refresh_heartbeat cfg ok now i run_id files))
     | Release ok i \<Rightarrow> (None, release_claim ok i files))"

fun claim_run :: "claim_config \<Rightarrow> claim_event list \<Rightarrow> claim_files \<Rightarrow> (claim_event \<times> acquire_reply option) list \<times> claim_files" where
  "claim_run cfg [] files = ([], files)"
| "claim_run cfg (e # es) files =
     (let (r, f1) = claim_step cfg e files; (log, f2) = claim_run cfg es f1 in ((e, r) # log, f2))"

definition wins :: "string \<Rightarrow> claim_event \<times> acquire_reply option \<Rightarrow> bool" where
  "wins i er = (case er of (Acquire _ j _, Some (Claim_Acquired _ _)) \<Rightarrow> i = j | _ \<Rightarrow> False)"

fun releases :: "string \<Rightarrow> claim_event \<Rightarrow> bool" where
  "releases i (Release ok j) = (i = j)"
| "releases i _ = False"

definition vacant :: "string \<Rightarrow> claim_files \<Rightarrow> nat" where
  "vacant i files = (if files i = None then 1 else 0)"

lemma write_claim_keeps: "snd (write_claim ok j d files) i = (if i = j \<and> safe_id j \<and> ok then Some (PDict d) else files i)"
  by (simp add: write_claim_def)

lemma vacant_write: "read_claim j files = Some c \<Longrightarrow> vacant i (snd (write_claim ok j d files)) = vacant i files"
  by (auto simp: vacant_def write_claim_keeps read_claim_def split: if_splits option.splits)

lemma claim_step_budget:
  assumes "claim_step cfg e files = (r, files1)"
  shows "vacant i files1 + (if wins i (e, r) then 1 else 0) \<le> vacant i files + (if releases i e then 1 else 0)"
proof (cases e)
  case (Acquire env j q)
  with assms show ?thesis
    by (cases "i = j") (auto simp: claim_step_def acquire_claim_def vacant_def wins_def Let_def split: if_splits sum.splits)
next
  case (Finalize ok now j run_id r')
  with assms show ?thesis
    by (auto simp: claim_step_def finalize_claim_def wins_def vacant_write split: option.splits)
next
  case (Started ok j run_id started pid interval)
  with assms show ?thesis
    by (auto simp: claim_step_def mark_worker_started_def wins_def vacant_write split: option.splits)
next
  case (Heartbeat ok now j run_id)
  with assms show ?thesis
    by (auto simp: claim_step_def refresh_heartbeat_def wins_def vacant_write Let_def split_def split: option.splits)
next
  case (Release ok j)
  with assms show ?thesis
    by (auto simp: claim_step_def release_claim_def wins_def vacant_def)
qed

text \<open>A preview has at most one winner until its claim is released.\<close>

lemma one_winner_per_release:
  "claim_run cfg es files = (log, files1) \<Longrightarrow>
     length (filter (wins i) log) \<le> vacant i files + length (filter (releases i) es)"
proof (induction es arbitrary: files log)
  case (Cons e es)
  obtain r f1 where s: "claim_step cfg e files = (r, f1)" by fastforce
  obtain log1 where l: "claim_run cfg es f1 = (log1, files1)" "log = (e, r) # log1"
    using Cons.prems s by (auto split: prod.splits)
  from claim_step_budget [OF s, of i] Cons.IH [OF l(1)] l(2) show ?case by auto
qed simp

section \<open>Runs and their claims\<close>

text \<open>A call in the name of another run changes nothing.\<close>

lemma other_run_changes_nothing:
  assumes "read_claim i files = Some claim" "other_run claim run_id"
  shows "finalize_claim ok now i run_id r files = (Inr (), files)"
    "mark_worker_started cfg ok i run_id started pid interval files = (Inr (), files)"
    "refresh_heartbeat cfg ok now i run_id files = (False, files)"
  using assms by (simp_all add: finalize_claim_def mark_worker_started_def refresh_heartbeat_def)

definition finished :: "string \<Rightarrow> claim_files \<Rightarrow> bool" where
  "finished i files \<longleftrightarrow> (\<exists>d. files i = Some (PDict d) \<and> text_of (dget d ''status'') \<noteq> ''RUNNING'')"

fun reopens :: "string \<Rightarrow> claim_event \<Rightarrow> bool" where
  "reopens i (Release ok j) = (i = j)"
| "reopens i (Finalize ok now j run_id r) = (i = j \<and> fr_status r = ''RUNNING'')"
| "reopens i _ = False"

lemma finished_step:
  assumes "finished i files" "\<not> reopens i e"
  shows "finished i (snd (claim_step cfg e files))"
proof -
  from assms(1) obtain d where d: "files i = Some (PDict d)" "text_of (dget d ''status'') \<noteq> ''RUNNING''"
    by (auto simp: finished_def)
  show ?thesis
  proof (cases e)
    case (Acquire env j q)
    with d show ?thesis
      by (auto simp: claim_step_def acquire_claim_def finished_def Let_def split: sum.splits)
  next
    case (Finalize ok now j run_id r)
    with d assms(2) show ?thesis
      by (cases "i = j") (auto simp: claim_step_def finalize_claim_def finished_def write_claim_def read_claim_def
          set_if_def set_list_if_def text_of_def split: option.splits py.splits)
  next
    case (Started ok j run_id started pid interval)
    with d show ?thesis
      by (cases "i = j") (auto simp: claim_step_def mark_worker_started_def finished_def write_claim_def read_claim_def
          split: option.splits py.splits)
  next
    case (Heartbeat ok now j run_id)
    with d show ?thesis
      by (cases "i = j") (auto simp: claim_step_def refresh_heartbeat_def finished_def write_claim_def read_claim_def Let_def
          split: option.splits py.splits)
  next
    case (Release ok j)
    with d assms(2) show ?thesis by (auto simp: claim_step_def release_claim_def finished_def)
  qed
qed

text \<open>A finished claim stays finished until it is released, whatever heartbeats arrive late.\<close>

lemma finished_stays:
  "finished i files \<Longrightarrow> \<forall>e\<in>set es. \<not> reopens i e \<Longrightarrow> finished i (snd (claim_run cfg es files))"
proof (induction es arbitrary: files)
  case (Cons e es)
  obtain r f1 where s: "claim_step cfg e files = (r, f1)" by fastforce
  with finished_step [OF Cons.prems(1), of e cfg] Cons.prems(2) have "finished i f1" by simp
  with Cons.IH [of f1] Cons.prems(2) s show ?case by (auto split: prod.splits)
qed simp

section \<open>Examples\<close>

definition ex_cfg :: claim_config where
  "ex_cfg = \<lparr>cc_project_root = ''/p'', cc_interval = 10, cc_stale_multiplier = 3, cc_stale_min = 60\<rparr>"

definition ex_claim_env :: "string \<Rightarrow> claim_env" where
  "ex_claim_env run = \<lparr>ce_run_id = run, ce_now = ''t0'', ce_pid = 7, ce_open_fails = False, ce_write_fails = False\<rparr>"

definition ex_request :: acquire_request where
  "ex_request = \<lparr>aq_artifact = [], aq_provider = ''codex'', aq_execution_mode = ''run_once'', aq_profile_id = None,
     aq_executor_authority_id = None, aq_admission_sha256 = None\<rparr>"

end
