(* ===== verification/PosixPaths.thy ===== *)
theory PosixPaths
  imports PathGlob
begin

text \<open>
  The functions of \<open>os.path\<close> on a POSIX system that \<open>runner/stage_parallel_plan.py\<close> builds worktree paths
  with, and what it asks the file system.  The path operations are those of the standard library,
  the answers of the system are a parameter.
\<close>

section \<open>Path strings\<close>

fun posix_join :: "string \<Rightarrow> string list \<Rightarrow> string" where
  "posix_join a [] = a"
| "posix_join a (b # bs) =
     posix_join (if starts_with b ''/'' then b
                else if a = [] \<or> ends_with a ''/'' then a @ b
                else a @ slash # b) bs"

text \<open>The loop of \<open>normpath\<close>: \<open>.\<close> and empty components go, \<open>..\<close> takes the component before it along.\<close>

definition norm_step :: "bool \<Rightarrow> string list \<Rightarrow> string \<Rightarrow> string list" where
  "norm_step rooted comps c =
    (if c = [] \<or> c = ''.'' then comps
     else if c \<noteq> ''..'' \<or> (\<not> rooted \<and> comps = []) \<or> (comps \<noteq> [] \<and> last comps = ''..'') then comps @ [c]
     else butlast comps)"

definition norm_comps :: "bool \<Rightarrow> string list \<Rightarrow> string list" where
  "norm_comps rooted cs = foldl (norm_step rooted) [] cs"

definition normpath :: "string \<Rightarrow> string" where
  "normpath path =
    (if path = [] then ''.''
     else let rooted = starts_with path ''/'';
              slashes = (if \<not> rooted then [] else if starts_with path ''//'' \<and> \<not> starts_with path ''///'' then ''//'' else ''/'');
              result = slashes @ join_slash (norm_comps rooted (split_on slash path))
          in if result = [] then ''.'' else result)"

fun common_prefix :: "'a list \<Rightarrow> 'a list \<Rightarrow> 'a list" where
  "common_prefix (x # xs) (y # ys) = (if x = y then x # common_prefix xs ys else [])"
| "common_prefix _ _ = []"

text \<open>\<open>commonpath\<close> of two paths: None when one is absolute and the other is not (a ValueError).\<close>

definition real_parts :: "string \<Rightarrow> string list" where
  "real_parts p = filter (\<lambda>c. c \<noteq> [] \<and> c \<noteq> ''.'') (split_on slash p)"

definition commonpath :: "string \<Rightarrow> string \<Rightarrow> string option" where
  "commonpath a b =
    (if starts_with a ''/'' \<noteq> starts_with b ''/'' then None
     else Some ((if starts_with a ''/'' then ''/'' else []) @ join_slash (common_prefix (real_parts a) (real_parts b))))"

definition path_head :: "string \<Rightarrow> string" where
  "path_head p = rev (dropWhile (\<lambda>c. c \<noteq> slash) (rev p))"

definition dirname :: "string \<Rightarrow> string" where
  "dirname p = (if list_all (\<lambda>c. c = slash) (path_head p) then path_head p
                else rev (dropWhile (\<lambda>c. c = slash) (rev (path_head p))))"

section \<open>The system\<close>

text \<open>The working directory, the expansion of paths that begin with a tilde, and what exists.\<close>

record system_view =
  sv_cwd :: string
  sv_home :: "string \<Rightarrow> string"
  sv_exists :: "string \<Rightarrow> bool"
  sv_is_dir :: "string \<Rightarrow> bool"

definition expanduser :: "system_view \<Rightarrow> string \<Rightarrow> string" where
  "expanduser sys p = (if starts_with p ''~'' then sv_home sys p else p)"

definition abspath :: "system_view \<Rightarrow> string \<Rightarrow> string" where
  "abspath sys p = normpath (if starts_with p ''/'' then p else posix_join (sv_cwd sys) [p])"

section \<open>Facts about paths\<close>

definition proper :: "string \<Rightarrow> bool" where
  "proper c \<longleftrightarrow> c \<noteq> [] \<and> c \<noteq> ''.'' \<and> c \<noteq> ''..'' \<and> slash \<notin> set c"

lemma norm_step_proper: "proper c \<Longrightarrow> norm_step rooted comps c = comps @ [c]"
  by (simp add: norm_step_def proper_def)

lemma split_on_append_sep: "split_on c (s @ c # t) = split_on c s @ split_on c t"
  by (induction s) (auto split: list.splits)

lemma split_on_no_sep: "c \<notin> set s \<Longrightarrow> split_on c s = [s]"
  by (induction s) auto

lemma norm_comps_snoc: "norm_comps rooted (cs @ [c]) = norm_step rooted (norm_comps rooted cs) c"
  by (simp add: norm_comps_def)

lemma join_slash_snoc: "join_slash (cs @ [c]) = (if cs = [] then c else join_slash cs @ slash # c)"
  by (induction cs rule: join_slash.induct) auto

text \<open>A proper last component stays the last component.\<close>

lemma normpath_last:
  assumes "proper c"
  shows "\<exists>p. normpath (a @ slash # c) = p @ c \<and> (p = [] \<or> last p = slash)"
proof -
  let ?q = "a @ slash # c"
  define rooted where "rooted = starts_with ?q ''/''"
  define cs where "cs = norm_comps rooted (split_on slash a)"
  have parts: "norm_comps rooted (split_on slash ?q) = cs @ [c]"
    using assms by (simp add: split_on_append_sep split_on_no_sep proper_def norm_comps_snoc norm_step_proper cs_def)
  define sl where "sl = (if \<not> rooted then [] else if starts_with ?q ''//'' \<and> \<not> starts_with ?q ''///'' then ''//'' else ''/'')"
  have ne: "join_slash (cs @ [c]) \<noteq> []" using assms by (simp add: proper_def join_slash_snoc)
  have sl: "normpath ?q = sl @ join_slash (cs @ [c])"
    unfolding normpath_def Let_def rooted_def [symmetric] parts sl_def [symmetric] using ne by simp
  have slash_end: "sl = [] \<or> last sl = slash" by (simp add: sl_def)
  show ?thesis
  proof (cases "cs = []")
    case True
    with sl slash_end show ?thesis by (intro exI [of _ sl]) (simp add: join_slash_snoc)
  next
    case False
    with sl show ?thesis by (intro exI [of _ "sl @ join_slash cs @ [slash]"]) (simp add: join_slash_snoc)
  qed
qed

lemma same_last:
  assumes "p @ c = q @ d" "p = [] \<or> last p = slash" "q = [] \<or> last q = slash" "slash \<notin> set c" "slash \<notin> set d"
  shows "c = d"
proof -
  have *: "p = [] \<or> last p = slash \<Longrightarrow> slash \<notin> set c \<Longrightarrow> rev (takeWhile (\<lambda>x. x \<noteq> slash) (rev (p @ c))) = c" for p c
  proof -
    assume a: "p = [] \<or> last p = slash" "slash \<notin> set c"
    have t: "takeWhile (\<lambda>x. x \<noteq> slash) (rev c @ t) = rev c @ takeWhile (\<lambda>x. x \<noteq> slash) t" for t
      using a(2) by (intro takeWhile_append2) auto
    have "takeWhile (\<lambda>x. x \<noteq> slash) (rev p) = []"
      using a(1) by (cases p rule: rev_cases) simp_all
    then show ?thesis by (simp only: rev_append t append_Nil2 rev_rev_ident)
  qed
  have "c = rev (takeWhile (\<lambda>x. x \<noteq> slash) (rev (p @ c)))" using * [OF assms(2,4)] by (rule sym)
  also have "\<dots> = d" unfolding assms(1) by (rule * [OF assms(3,5)])
  finally show ?thesis .
qed

lemma normpath_distinct:
  assumes "proper c" "proper d" "c \<noteq> d"
  shows "normpath (a @ slash # c) \<noteq> normpath (b @ slash # d)"
proof
  assume e: "normpath (a @ slash # c) = normpath (b @ slash # d)"
  obtain p q where p: "normpath (a @ slash # c) = p @ c" "p = [] \<or> last p = slash"
    and q: "normpath (b @ slash # d) = q @ d" "q = [] \<or> last q = slash"
    using normpath_last [OF assms(1)] normpath_last [OF assms(2)] by metis
  from e p(1) q(1) have "p @ c = q @ d" by simp
  from same_last [OF this p(2) q(2)] assms show False by (simp add: proper_def)
qed

lemma normpath_rooted: "starts_with p ''/'' \<Longrightarrow> starts_with (normpath p) ''/''"
  by (cases p) (auto simp: normpath_def Let_def)

lemma common_prefix_eq: "common_prefix xs ys = ys \<longleftrightarrow> (\<exists>zs. xs = ys @ zs)"
  by (induction xs ys rule: common_prefix.induct) auto

lemma real_parts_join:
  assumes "\<forall>c\<in>set cs. c \<noteq> [] \<and> c \<noteq> ''.'' \<and> slash \<notin> set c"
  shows "real_parts ((if r then ''/'' else []) @ join_slash cs) = cs"
proof -
  have j: "real_parts (join_slash cs) = cs"
  proof (cases "cs = []")
    case False
    with assms show ?thesis by (simp add: real_parts_def split_join filter_id_conv)
  qed (simp add: real_parts_def)
  then show ?thesis by (cases r) (simp_all add: real_parts_def)
qed

lemma common_prefix_is_prefix: "\<exists>zs. xs = common_prefix xs ys @ zs"
  by (induction xs ys rule: common_prefix.induct) auto

lemma commonpath_parts:
  assumes "commonpath path parent = Some whole"
  shows "\<exists>zs. real_parts path = real_parts whole @ zs"
proof -
  let ?cp = "common_prefix (real_parts path) (real_parts parent)"
  obtain zs where zs: "real_parts path = ?cp @ zs" using common_prefix_is_prefix by blast
  have "\<forall>c\<in>set (real_parts path). c \<noteq> [] \<and> c \<noteq> ''.'' \<and> slash \<notin> set c"
    by (auto simp: real_parts_def dest: split_no_slash)
  with zs have "\<forall>c\<in>set ?cp. c \<noteq> [] \<and> c \<noteq> ''.'' \<and> slash \<notin> set c" by (metis Un_iff set_append)
  then have "real_parts ((if starts_with path ''/'' then ''/'' else []) @ join_slash ?cp) = ?cp"
    by (rule real_parts_join)
  moreover have "whole = (if starts_with path ''/'' then ''/'' else []) @ join_slash ?cp"
    using assms unfolding commonpath_def by (metis option.distinct(1) option.inject)
  ultimately have "real_parts whole = ?cp" by (simp only:)
  with zs show ?thesis by metis
qed

lemma starts_with_slash: "starts_with p ''/'' \<longleftrightarrow> (\<exists>t. p = slash # t)"
  by (auto simp: starts_with_iff)

lemma path_join_rooted: "starts_with b ''/'' \<Longrightarrow> starts_with (posix_join b bs) ''/''"
  by (induction bs arbitrary: b) (auto simp: starts_with_slash)

lemma abspath_rooted: "starts_with (sv_cwd sys) ''/'' \<Longrightarrow> starts_with (abspath sys p) ''/''"
  unfolding abspath_def by (auto intro!: normpath_rooted path_join_rooted simp del: posix_join.simps)

text \<open>The components of a normalised path.\<close>

lemma norm_comps_filter: "norm_comps rooted cs = norm_comps rooted (filter (\<lambda>c. c \<noteq> [] \<and> c \<noteq> ''.'') cs)"
proof -
  have "foldl (norm_step rooted) acc cs = foldl (norm_step rooted) acc (filter (\<lambda>c. c \<noteq> [] \<and> c \<noteq> ''.'') cs)" for acc
    by (induction cs arbitrary: acc) (simp_all add: norm_step_def)
  then show ?thesis by (simp add: norm_comps_def)
qed

lemma norm_comps_proper: "\<forall>c\<in>set cs. slash \<notin> set c \<Longrightarrow> \<forall>c\<in>set (norm_comps True cs). proper c"
proof (induction cs rule: rev_induct)
  case (snoc c cs)
  then have "\<forall>d\<in>set (norm_comps True cs). proper d" by simp
  moreover from this have "norm_comps True cs \<noteq> [] \<longrightarrow> last (norm_comps True cs) \<noteq> ''..''"
    by (auto simp: proper_def dest: last_in_set)
  ultimately show ?case using snoc.prems
    by (auto simp: norm_comps_snoc norm_step_def proper_def dest: in_set_butlastD)
qed (simp add: norm_comps_def)

lemma norm_comps_id: "\<forall>c\<in>set cs. proper c \<Longrightarrow> norm_comps True cs = cs"
  by (induction cs rule: rev_induct) (simp_all add: norm_comps_def norm_step_proper)

lemma real_parts_no_slash: "c \<in> set (real_parts p) \<Longrightarrow> slash \<notin> set c"
  by (auto simp: real_parts_def dest: split_no_slash)

lemma real_parts_normpath:
  assumes "starts_with p ''/''"
  shows "real_parts (normpath p) = norm_comps True (real_parts p)"
proof -
  let ?cs = "norm_comps True (split_on slash p)"
  have eq: "?cs = norm_comps True (real_parts p)" unfolding real_parts_def by (rule norm_comps_filter)
  have "\<forall>c\<in>set ?cs. proper c" by (rule norm_comps_proper) (auto dest: split_no_slash)
  then have j: "real_parts ((if r then ''/'' else []) @ join_slash ?cs) = ?cs" for r
    by (intro real_parts_join) (auto simp: proper_def)
  have s: "real_parts (''//'' @ x) = real_parts (''/'' @ x)" for x by (simp add: real_parts_def)
  have "p \<noteq> []" using assms by auto
  with assms j [of True] s [of "join_slash ?cs"] show ?thesis
    unfolding eq [symmetric] by (auto simp: normpath_def Let_def)
qed

lemma real_parts_join_proper:
  assumes "proper c" "a \<noteq> []"
  shows "real_parts (posix_join a [c]) = real_parts a @ [c]"
proof -
  have c: "\<not> starts_with c ''/''" using assms(1) by (cases c) (auto simp: proper_def)
  have s: "split_on slash (a @ slash # c) = split_on slash a @ [c]"
    using assms(1) by (simp add: split_on_append_sep split_on_no_sep proper_def)
  show ?thesis
  proof (cases "ends_with a ''/''")
    case True
    then obtain b where b: "a = b @ [slash]" by (auto simp: ends_with_def starts_with_iff intro: rev_cases [of a])
    then have "split_on slash (a @ c) = split_on slash b @ [c]" "split_on slash a = split_on slash b @ [[]]"
      using assms(1) by (simp_all add: split_on_append_sep split_on_no_sep proper_def)
    with True c assms show ?thesis by (simp add: real_parts_def proper_def)
  next
    case False
    with c assms s show ?thesis by (simp add: real_parts_def proper_def)
  qed
qed

end
