(* ===== verification/ParallelPlan.thy ===== *)
theory ParallelPlan
  imports PosixPaths PyCollections
begin

text \<open>
  The first half of \<open>runner/stage_parallel_plan.py\<close>: cleaning of the task intents a caller provides, the
  shards of the plan preview with their file overlaps and risk, and the run preview that gives every
  shard a branch and a worktree.  Inputs are arbitrary Python values, the packets the code builds are
  records; every function is pure.  The SHA-256 digest in hexadecimal is a parameter.
\<close>

section \<open>Cleaning\<close>

definition clean_text :: "py \<Rightarrow> string option" where
  "clean_text v = (case v of PStr s \<Rightarrow> if py_strip s = [] then None else Some (py_strip s) | _ \<Rightarrow> None)"

definition clean_string_list :: "py \<Rightarrow> string list" where
  "clean_string_list v =
    (case v of
       PList xs \<Rightarrow> foldl (\<lambda>acc x. case clean_text x of None \<Rightarrow> acc | Some s \<Rightarrow> append_unique acc s) [] xs
     | _ \<Rightarrow> [])"

definition SURFACES :: "string list" where
  "SURFACES = [''MCP'', ''Web'', ''CLI'', ''docs'', ''tests'', ''Git'', ''CI'', ''runtime'']"

definition surface_names :: "(string \<times> string) list" where
  "surface_names = [(''mcp'', ''MCP''), (''web'', ''Web''), (''cli'', ''CLI''), (''doc'', ''docs''), (''docs'', ''docs''),
     (''test'', ''tests''), (''tests'', ''tests''), (''git'', ''Git''), (''ci'', ''CI''), (''runtime'', ''runtime'')]"

definition clean_surface :: "string \<Rightarrow> string option" where
  "clean_surface item = map_of surface_names (if item \<in> set SURFACES then item else py_lower (py_strip item))"

definition clean_surface_list :: "py \<Rightarrow> string list" where
  "clean_surface_list v =
    foldl (\<lambda>acc s. case clean_surface s of None \<Rightarrow> acc | Some m \<Rightarrow> append_unique acc m) [] (clean_string_list v)"

definition clean_risk_level :: "py \<Rightarrow> string option" where
  "clean_risk_level v =
    (case clean_text v of
       Some s \<Rightarrow> if s \<in> set [''none'', ''low'', ''moderate'', ''high'', ''blocked''] then Some s else None
     | None \<Rightarrow> None)"

definition slug_char :: "char \<Rightarrow> bool" where
  "slug_char c = (let n = (of_char c :: nat) in (97 \<le> n \<and> n \<le> 122) \<or> (48 \<le> n \<and> n \<le> 57) \<or> n = 95)"

text \<open>Every run of other characters becomes one underscore.\<close>

fun squash_runs :: "bool \<Rightarrow> string \<Rightarrow> string" where
  "squash_runs in_run [] = []"
| "squash_runs in_run (c # cs) =
     (if slug_char c then c # squash_runs False cs
      else if in_run then squash_runs True cs else CHR ''_'' # squash_runs True cs)"

definition strip_char :: "char \<Rightarrow> string \<Rightarrow> string" where
  "strip_char c s = rev (dropWhile (\<lambda>x. x = c) (rev (dropWhile (\<lambda>x. x = c) s)))"

definition slugify :: "string \<Rightarrow> string" where
  "slugify s = (let slug = strip_char (CHR ''_'') (squash_runs False (py_lower (py_strip s)))
                in if slug = [] then ''parallel_task'' else slug)"

definition clean_provider :: "py \<Rightarrow> string" where
  "clean_provider v =
    (case clean_text v of Some s \<Rightarrow> if s \<in> set [''codex'', ''opencode'', ''pi''] then s else ''codex'' | None \<Rightarrow> ''codex'')"

definition branch_char :: "char \<Rightarrow> bool" where
  "branch_char c = (let n = (of_char c :: nat) in
     (65 \<le> n \<and> n \<le> 90) \<or> (97 \<le> n \<and> n \<le> 122) \<or> (45 \<le> n \<and> n \<le> 57) \<or> n = 95)"

definition clean_branch :: "py \<Rightarrow> string option" where
  "clean_branch v =
    (case clean_text v of
       Some s \<Rightarrow> if length s \<le> 120 \<and> list_all branch_char s then Some s else None
     | None \<Rightarrow> None)"

section \<open>The limit\<close>

definition DEFAULT_MAX_PARALLEL_TASKS :: int where "DEFAULT_MAX_PARALLEL_TASKS = 3"
definition MAX_PARALLEL_TASKS_LIMIT :: int where "MAX_PARALLEL_TASKS_LIMIT = 8"

definition bounded_parallel_limit :: "py \<Rightarrow> int" where
  "bounded_parallel_limit v =
    (let candidate = (if v = PNone then DEFAULT_MAX_PARALLEL_TASKS
                      else case int_of_py v of Some i \<Rightarrow> i | None \<Rightarrow> DEFAULT_MAX_PARALLEL_TASKS)
     in min MAX_PARALLEL_TASKS_LIMIT (max 1 candidate))"

section \<open>Task intents and shards\<close>

record task_intent =
  ti_task_id :: "string option"
  ti_title :: string
  ti_description :: "string option"
  ti_allowed_files :: "string list"
  ti_surfaces :: "string list"
  ti_risk_level :: "string option"

definition or_else :: "'a option \<Rightarrow> 'a option \<Rightarrow> 'a option" where
  "or_else a b = (case a of Some x \<Rightarrow> Some x | None \<Rightarrow> b)"

definition task_of_item :: "py \<Rightarrow> task_intent option" where
  "task_of_item item =
    (case item of
       PDict d \<Rightarrow>
         (case or_else (clean_text (dget d ''title'')) (clean_text (dget d ''task_id'')) of
            None \<Rightarrow> None
          | Some title \<Rightarrow> Some \<lparr>ti_task_id = clean_text (dget d ''task_id''), ti_title = title,
              ti_description = clean_text (dget d ''description''),
              ti_allowed_files = clean_string_list (dget d ''allowed_files''),
              ti_surfaces = clean_surface_list (dget d ''surfaces''),
              ti_risk_level = clean_risk_level (dget d ''risk_level'')\<rparr>)
     | _ \<Rightarrow> None)"

definition normalize_task_intents :: "py \<Rightarrow> task_intent list" where
  "normalize_task_intents v = (case v of PList xs \<Rightarrow> List.map_filter task_of_item xs | _ \<Rightarrow> [])"

definition default_automation_task_intents :: "task_intent list" where
  "default_automation_task_intents =
    [\<lparr>ti_task_id = Some ''parallel_plan_preview'', ti_title = ''Define stage parallel plan preview'',
      ti_description = Some ''Expose read-only task sharding, file-boundary, and risk evidence.'',
      ti_allowed_files = [''runner/stage_parallel_plan.py'', ''runner/mcp_server.py'', ''tests/test_stage_parallel_plan.py''],
      ti_surfaces = [''MCP'', ''tests''], ti_risk_level = Some ''low''\<rparr>,
     \<lparr>ti_task_id = Some ''parallel_status_packet'', ti_title = ''Design parallel group status packet'',
      ti_description = Some ''Prepare aggregation shape for future executor run groups.'',
      ti_allowed_files = [''runner/stage_parallel_status.py'', ''tests/test_stage_parallel_status.py''],
      ti_surfaces = [''MCP'', ''tests''], ti_risk_level = Some ''low''\<rparr>,
     \<lparr>ti_task_id = Some ''parallel_docs'', ti_title = ''Document stage parallel automation path'',
      ti_description = Some ''Clarify preview-first boundaries and stable replacement separation.'',
      ti_allowed_files = [''docs/USAGE.md'', ''docs/USAGE.zh-CN.md''],
      ti_surfaces = [''docs''], ti_risk_level = Some ''low''\<rparr>]"

record task_shard =
  sh_task_id :: string
  sh_title :: string
  sh_description :: string
  sh_allowed_files :: "string list"
  sh_surfaces :: "string list"
  sh_risk_level :: string
  sh_executor_assignment :: "(string \<times> string) list"
  sh_status :: string
  sh_read_only :: bool

definition infer_surfaces_from_file :: "string list \<Rightarrow> string \<Rightarrow> string list" where
  "infer_surfaces_from_file surfaces path =
    (let lowered = to_slashes (py_lower path);
         s1 = (if starts_with lowered ''runner/mcp_'' \<or> lowered = ''runner/mcp_server.py'' then append_unique surfaces ''MCP'' else surfaces);
         s2 = (if starts_with lowered ''runner/web_'' \<or> starts_with lowered ''runner/web_console'' then append_unique s1 ''Web'' else s1);
         s3 = (if starts_with lowered ''scripts/'' \<or> starts_with lowered ''bin/'' then append_unique s2 ''CLI'' else s2);
         s4 = (if starts_with lowered ''docs/'' then append_unique s3 ''docs'' else s3)
     in if starts_with lowered ''tests/'' then append_unique s4 ''tests'' else s4)"

definition infer_surfaces_from_files :: "string list \<Rightarrow> string list" where
  "infer_surfaces_from_files paths = foldl infer_surfaces_from_file [] paths"

definition infer_task_risk :: "string list \<Rightarrow> string list \<Rightarrow> string" where
  "infer_task_risk paths surfaces =
    (if list_ex (\<lambda>p. starts_with p ''.github/'') paths then ''moderate''
     else if 4 \<le> length surfaces then ''moderate'' else ''low'')"

definition str_list_py :: "string list \<Rightarrow> py" where
  "str_list_py xs = PList (map PStr xs)"

definition build_task_shard :: "task_intent \<Rightarrow> nat \<Rightarrow> task_shard" where
  "build_task_shard task index =
    (let task_id = (case clean_text (of_opt (ti_task_id task)) of
            Some t \<Rightarrow> t
          | None \<Rightarrow> slugify (case clean_text (PStr (ti_title task)) of Some t \<Rightarrow> t | None \<Rightarrow> ''task_'' @ show_nat index));
         allowed_files = clean_string_list (str_list_py (ti_allowed_files task));
         cleaned = clean_surface_list (str_list_py (ti_surfaces task));
         surfaces = (if cleaned = [] then infer_surfaces_from_files allowed_files else cleaned)
     in \<lparr>sh_task_id = task_id,
         sh_title = (case clean_text (PStr (ti_title task)) of Some t \<Rightarrow> t | None \<Rightarrow> task_id),
         sh_description = (case clean_text (of_opt (ti_description task)) of Some t \<Rightarrow> t | None \<Rightarrow> []),
         sh_allowed_files = allowed_files, sh_surfaces = surfaces,
         sh_risk_level = (case clean_risk_level (of_opt (ti_risk_level task)) of Some r \<Rightarrow> r | None \<Rightarrow> infer_task_risk allowed_files surfaces),
         sh_executor_assignment = [(''strategy'', ''isolated_worktree_required''), (''provider_preference'', ''codex''), (''session_mode'', ''start_new'')],
         sh_status = ''candidate'', sh_read_only = True\<rparr>)"

section \<open>Overlaps, surfaces, risk\<close>

text \<open>\<open>owners.setdefault(path, []).append(task_id)\<close>\<close>

definition add_owner :: "string \<Rightarrow> (string \<times> string list) list \<Rightarrow> string \<Rightarrow> (string \<times> string list) list" where
  "add_owner task_id owners path =
    AList.update path ((case map_of owners path of None \<Rightarrow> [] | Some ts \<Rightarrow> ts) @ [task_id]) owners"

definition file_owners :: "task_shard list \<Rightarrow> (string \<times> string list) list" where
  "file_owners shards =
    foldl (\<lambda>owners shard. foldl (add_owner (sh_task_id shard)) owners (clean_string_list (str_list_py (sh_allowed_files shard)))) [] shards"

record file_overlap =
  fo_path :: string
  fo_task_ids :: "string list"
  fo_risk :: string

definition file_overlaps :: "task_shard list \<Rightarrow> file_overlap list" where
  "file_overlaps shards =
    List.map_filter (\<lambda>(path, ts). if 1 < length (unique_in_order ts)
        then Some \<lparr>fo_path = path, fo_task_ids = unique_in_order ts, fo_risk = ''write_conflict''\<rparr> else None)
      (sort_key fst (file_owners shards))"

definition surface_summary :: "task_shard list \<Rightarrow> (string \<times> string list) list" where
  "surface_summary shards =
    sort_key fst (foldl (\<lambda>summary shard. foldl (add_owner (sh_task_id shard)) summary (clean_surface_list (str_list_py (sh_surfaces shard)))) [] shards)"

definition plan_risk :: "file_overlap list \<Rightarrow> task_shard list \<Rightarrow> nat \<Rightarrow> string" where
  "plan_risk overlaps shards skipped =
    (if overlaps \<noteq> [] then ''blocked''
     else if 0 < skipped then ''moderate''
     else if list_ex (\<lambda>s. sh_risk_level s = ''high'') shards then ''high''
     else if list_ex (\<lambda>s. sh_risk_level s = ''moderate'') shards then ''moderate''
     else if shards \<noteq> [] then ''low'' else ''none'')"

definition overlap_blocking_reasons :: "file_overlap list \<Rightarrow> dict list" where
  "overlap_blocking_reasons overlaps =
    (if overlaps = [] then []
     else [[(''code'', PStr ''PARALLEL_FILE_BOUNDARY_OVERLAP''),
            (''message'', PStr ''One or more candidate tasks share writable file paths.''),
            (''overlap_count'', PInt (int (length overlaps)))]])"

definition plan_safe_next_actions :: "string \<Rightarrow> (string \<times> string) list" where
  "plan_safe_next_actions suggested =
    (if suggested = ''refine_task_boundaries'' then [(''refine_parallel_task_boundaries'', ''Refine task allowed_files until overlap risks are empty.'')]
     else if suggested = ''ready_for_parallel_run_preview'' then
       [(''build_stage_parallel_run_preview'', ''Generate a future run preview with isolated worktree assignments before any executor starts.'')]
     else [(''keep_planning'', ''Add task_intents before parallel execution planning.'')])"

section \<open>The plan preview\<close>

text \<open>
  What every packet has.  \<open>pk_authority\<close> is the authority boundary, \<open>pk_safe\<close> the safe next actions as
  pairs of their id and label.
\<close>

record packet =
  pk_ok :: bool
  pk_source :: string
  pk_scope :: string
  pk_read_only :: bool
  pk_side_effects :: bool
  pk_status :: string
  pk_project_root :: string
  pk_project_name :: "string option"
  pk_stage_id :: string
  pk_blocking_reasons :: "dict list"
  pk_risk_level :: string
  pk_suggested_next_action :: string
  pk_authority :: "(string \<times> bool) list"
  pk_safe :: "(string \<times> string) list"

record plan_packet = packet +
  pp_task_source :: string
  pp_requested_max :: py
  pp_effective_max :: int
  pp_candidate_count :: nat
  pp_planned_count :: nat
  pp_skipped_count :: nat
  pp_task_shards :: "task_shard list"
  pp_file_overlaps :: "file_overlap list"
  pp_surface_summary :: "(string \<times> string list) list"
  pp_automation_stage :: string
  pp_next_steps :: "string list"

definition PLAN_AUTHORITY :: "string list" where
  "PLAN_AUTHORITY = [''does_not_authorize_executor_run'', ''does_not_create_executor_preview'',
     ''does_not_create_branch_or_worktree'', ''does_not_merge_parallel_results'', ''does_not_commit'', ''does_not_push'',
     ''does_not_replace_stable_service'', ''does_not_write_delivery_accepted'', ''does_not_create_review_decision'', ''does_not_emit_gate_event'']"

definition RUN_AUTHORITY :: "string list" where
  "RUN_AUTHORITY = [''does_not_authorize_executor_run'', ''does_not_create_executor_preview'',
     ''does_not_create_branch_or_worktree'', ''does_not_start_background_worker'', ''does_not_merge_parallel_results'',
     ''does_not_commit'', ''does_not_push'', ''does_not_replace_stable_service'', ''does_not_write_delivery_accepted'',
     ''does_not_create_review_decision'', ''does_not_emit_gate_event'']"

definition boundary :: "string list \<Rightarrow> (string \<times> bool) list" where
  "boundary ks = map (\<lambda>k. (k, True)) ks"

definition planned_tasks :: "py \<Rightarrow> task_intent list" where
  "planned_tasks task_intents =
    (if normalize_task_intents task_intents = [] then default_automation_task_intents else normalize_task_intents task_intents)"

definition plan_shards :: "py \<Rightarrow> py \<Rightarrow> task_shard list" where
  "plan_shards task_intents max_parallel_tasks =
    map (\<lambda>(i, task). build_task_shard task (i + 1))
      (List.enumerate 0 (take (nat (bounded_parallel_limit max_parallel_tasks)) (planned_tasks task_intents)))"

definition plan_next_action :: "task_shard list \<Rightarrow> string" where
  "plan_next_action shards =
    (if file_overlaps shards \<noteq> [] then ''refine_task_boundaries''
     else if shards \<noteq> [] then ''ready_for_parallel_run_preview'' else ''keep_planning'')"

text \<open>The arguments the seven builders share.\<close>

record stage_request =
  sq_project_root :: string
  sq_project_name :: "string option"
  sq_stage_id :: py
  sq_task_intents :: py
  sq_max_parallel_tasks :: py
  sq_provider :: py
  sq_base_branch :: py

definition stage_of :: "stage_request \<Rightarrow> string" where
  "stage_of q = (case clean_text (sq_stage_id q) of Some s \<Rightarrow> s | None \<Rightarrow> ''stage_parallel_automation'')"

definition root_of :: "system_view \<Rightarrow> stage_request \<Rightarrow> string" where
  "root_of sys q = abspath sys (expanduser sys (sq_project_root q))"

definition build_stage_parallel_plan_preview :: "system_view \<Rightarrow> stage_request \<Rightarrow> plan_packet" where
  "build_stage_parallel_plan_preview sys q =
    (let shards = plan_shards (sq_task_intents q) (sq_max_parallel_tasks q);
         tasks = planned_tasks (sq_task_intents q);
         skipped = length tasks - length shards;
         overlaps = file_overlaps shards;
         suggested = plan_next_action shards
     in \<lparr>pk_ok = True, pk_source = ''stage_parallel_plan_preview'', pk_scope = ''mcp:read'', pk_read_only = True, pk_side_effects = False,
         pk_status = (if shards \<noteq> [] then ''preview_ready'' else ''empty''),
         pk_project_root = root_of sys q, pk_project_name = sq_project_name q, pk_stage_id = stage_of q,
         pk_blocking_reasons = overlap_blocking_reasons overlaps,
         pk_risk_level = plan_risk overlaps shards skipped, pk_suggested_next_action = suggested,
         pk_authority = boundary PLAN_AUTHORITY, pk_safe = plan_safe_next_actions suggested,
         pp_task_source = (if normalize_task_intents (sq_task_intents q) = [] then ''default_automation_roadmap'' else ''provided_task_intents''),
         pp_requested_max = sq_max_parallel_tasks q, pp_effective_max = bounded_parallel_limit (sq_max_parallel_tasks q),
         pp_candidate_count = length tasks, pp_planned_count = length shards, pp_skipped_count = skipped,
         pp_task_shards = shards, pp_file_overlaps = overlaps, pp_surface_summary = surface_summary shards,
         pp_automation_stage = ''parallel_plan_preview_only'',
         pp_next_steps = [''stage_parallel_run_preview'', ''stage_parallel_worktree_assignment_preview'', ''stage_parallel_shard_input_preview'',
           ''stage_parallel_executor_group_preview'', ''parallel_group_status'', ''stage_parallel_merge_preview'', ''stage_closeout_packet'']\<rparr>)"

section \<open>The run preview\<close>

record run_shard =
  rs_task_id :: string
  rs_title :: string
  rs_allowed_files :: "string list"
  rs_surfaces :: "string list"
  rs_risk_level :: string
  rs_isolation_strategy :: string
  rs_worktree_path :: string
  rs_base_branch :: string
  rs_branch_name :: string
  rs_created :: bool
  rs_executor_preview_request :: dict
  rs_merge_policy :: "(string \<times> bool) list"

definition parallel_group_id :: "(string \<Rightarrow> string) \<Rightarrow> string option \<Rightarrow> string \<Rightarrow> task_shard list \<Rightarrow> string" where
  "parallel_group_id sha256 project_name stage_id shards =
    (let task_ids = filter (\<lambda>t. t \<noteq> []) (map sh_task_id shards);
         raw = foldl (\<lambda>acc t. acc @ ''|'' @ t) (case project_name of Some n \<Rightarrow> n | None \<Rightarrow> []) (stage_id # task_ids)
     in ''parallel_group_'' @ slugify stage_id @ ''_'' @ take 10 (sha256 raw))"

definition parallel_branch_name :: "string \<Rightarrow> string \<Rightarrow> string" where
  "parallel_branch_name stage_id task_id = ''colameta/'' @ slugify stage_id @ ''/'' @ slugify task_id"

definition build_run_shard ::
  "system_view \<Rightarrow> task_shard \<Rightarrow> stage_request \<Rightarrow> string \<Rightarrow> string \<Rightarrow> string \<Rightarrow> string \<Rightarrow> run_shard" where
  "build_run_shard sys shard q stage_id group_id provider base_branch =
    (let task_id = (case clean_text (PStr (sh_task_id shard)) of Some t \<Rightarrow> t | None \<Rightarrow> ''parallel_task'');
         title = (case clean_text (PStr (sh_title shard)) of Some t \<Rightarrow> t | None \<Rightarrow> task_id)
     in \<lparr>rs_task_id = task_id, rs_title = title,
         rs_allowed_files = clean_string_list (str_list_py (sh_allowed_files shard)),
         rs_surfaces = clean_surface_list (str_list_py (sh_surfaces shard)),
         rs_risk_level = (case clean_risk_level (PStr (sh_risk_level shard)) of Some r \<Rightarrow> r | None \<Rightarrow> ''low''),
         rs_isolation_strategy = ''git_worktree_required'',
         rs_worktree_path = posix_join (root_of sys q) [''.colameta'', ''runtime'', ''parallel-worktrees'', group_id, task_id],
         rs_base_branch = base_branch, rs_branch_name = parallel_branch_name stage_id task_id, rs_created = False,
         rs_executor_preview_request =
           [(''status'', PStr ''not_created''), (''tool'', PStr ''manage_executor_workflow''),
            (''arguments'', PDict [(''action'', PStr ''run_once_preview''),
               (''project_name'', PStr (case sq_project_name q of Some n \<Rightarrow> if n = [] then ''<registered project_name>'' else n | None \<Rightarrow> ''<registered project_name>'')),
               (''provider'', PStr provider), (''executor_session_mode'', PStr ''start_new''), (''execution_mode'', PStr ''run''),
               (''reason'', PStr (group_id @ ''/'' @ task_id @ '': '' @ title))])],
         rs_merge_policy = [(''merge_into_main_allowed'', False), (''requires_stage_parallel_merge_preview'', True), (''requires_validation_after_merge'', True)]\<rparr>)"

record run_packet = packet +
  rp_group_id :: string
  rp_base_branch :: string
  rp_provider :: string
  rp_plan_status :: string
  rp_plan_risk :: string
  rp_plan_next :: string
  rp_plan_count :: nat
  rp_planned_count :: nat
  rp_max_concurrency :: nat
  rp_requirements :: "(string \<times> bool) list"
  rp_run_shards :: "run_shard list"
  rp_next_steps :: "string list"

definition run_preview_risk :: "string \<Rightarrow> nat \<Rightarrow> string" where
  "run_preview_risk plan_risk_level shard_count =
    (let r = (case clean_risk_level (PStr plan_risk_level) of Some r \<Rightarrow> r | None \<Rightarrow> ''unknown'')
     in if r \<in> set [''high'', ''moderate''] then r
        else if 4 < shard_count then ''moderate'' else if 0 < shard_count then ''low'' else ''none'')"

definition run_preview_safe_next_actions :: "bool \<Rightarrow> dict list \<Rightarrow> (string \<times> string) list" where
  "run_preview_safe_next_actions preview_ready blocking =
    (if blocking \<noteq> [] then [(''refine_parallel_task_boundaries'', ''Resolve overlap blockers before any parallel run preview can be applied.'')]
     else if preview_ready then
       [(''create_isolated_worktree_preview'', ''Preview isolated worktree creation for each shard before executor previews are created.'')]
     else [(''keep_planning'', ''Add task_intents before building a run preview.'')])"

definition NEXT_AFTER_RUN :: "string list" where
  "NEXT_AFTER_RUN = [''stage_parallel_worktree_assignment_preview'', ''stage_parallel_shard_input_preview'',
     ''stage_parallel_executor_group_preview'', ''parallel_group_status'', ''stage_parallel_merge_preview'', ''stage_closeout_packet'']"

definition build_stage_parallel_run_preview :: "(string \<Rightarrow> string) \<Rightarrow> system_view \<Rightarrow> stage_request \<Rightarrow> run_packet" where
  "build_stage_parallel_run_preview sha256 sys q =
    (let plan = build_stage_parallel_plan_preview sys q;
         stage = (case clean_text (sq_stage_id q) of Some s \<Rightarrow> s
                  | None \<Rightarrow> if pk_stage_id plan = [] then ''stage_parallel_automation'' else pk_stage_id plan);
         provider = clean_provider (sq_provider q);
         base = (case clean_branch (sq_base_branch q) of Some b \<Rightarrow> b | None \<Rightarrow> ''main'');
         shards = pp_task_shards plan;
         group = parallel_group_id sha256 (sq_project_name q) stage shards;
         blocking = pk_blocking_reasons plan;
         preview_ready = (shards \<noteq> [] \<and> blocking = []);
         run_shards = map (\<lambda>s. build_run_shard sys s q stage group provider base) shards
     in \<lparr>pk_ok = True, pk_source = ''stage_parallel_run_preview'', pk_scope = ''mcp:read'', pk_read_only = True, pk_side_effects = False,
         pk_status = (if preview_ready then ''preview_ready'' else if blocking \<noteq> [] then ''blocked'' else ''empty''),
         pk_project_root = root_of sys q, pk_project_name = sq_project_name q, pk_stage_id = stage,
         pk_blocking_reasons = blocking,
         pk_risk_level = (if blocking \<noteq> [] then ''blocked'' else run_preview_risk (pk_risk_level plan) (length run_shards)),
         pk_suggested_next_action = (if preview_ready then ''create_isolated_worktree_preview''
           else if blocking \<noteq> [] then ''refine_task_boundaries'' else ''keep_planning''),
         pk_authority = boundary RUN_AUTHORITY, pk_safe = run_preview_safe_next_actions preview_ready blocking,
         rp_group_id = group, rp_base_branch = base, rp_provider = provider,
         rp_plan_status = pk_status plan, rp_plan_risk = pk_risk_level plan, rp_plan_next = pk_suggested_next_action plan,
         rp_plan_count = pp_planned_count plan,
         rp_planned_count = length run_shards, rp_max_concurrency = (if preview_ready then length run_shards else 0),
         rp_requirements = boundary [''requires_isolated_worktrees'', ''requires_start_new_executor_sessions'', ''requires_merge_preview_before_main''],
         rp_run_shards = run_shards, rp_next_steps = NEXT_AFTER_RUN\<rparr>)"

end
