(* ===== verification/ParallelGroup.thy ===== *)
theory ParallelGroup
  imports ParallelPlan
begin

text \<open>
  The second half of \<open>runner/stage_parallel_plan.py\<close>: assignment of worktrees, the group of executor
  previews, the status of the group under the results a caller reports, the merge preview and the
  closeout packet.  Each builder calls the one before it, as in the code.
\<close>

section \<open>Worktree assignment\<close>

record worktree_assignment =
  wa_task_id :: string
  wa_title :: string
  wa_worktree_path :: string
  wa_parent_path :: string
  wa_worktree_root :: string
  wa_branch_name :: string
  wa_base_branch :: string
  wa_path_exists :: bool
  wa_parent_exists :: bool
  wa_path_within :: bool
  wa_branch_valid :: bool
  wa_status :: string
  wa_blocking_reasons :: "dict list"
  wa_creates_worktree :: bool
  wa_creates_branch :: bool

definition path_is_within :: "system_view \<Rightarrow> string \<Rightarrow> string \<Rightarrow> bool" where
  "path_is_within sys path parent = (commonpath path parent = Some (abspath sys parent))"

definition blocker :: "string \<Rightarrow> string \<Rightarrow> dict" where
  "blocker code message = [(''code'', PStr code), (''message'', PStr message)]"

definition assignment_blockers :: "bool \<Rightarrow> bool \<Rightarrow> bool \<Rightarrow> dict list" where
  "assignment_blockers within existing valid =
    (if \<not> within then [blocker ''WORKTREE_PATH_OUTSIDE_PROJECT_RUNTIME''
        ''The suggested worktree path is outside the project runtime worktree root.''] else [])
    @ (if existing then [blocker ''WORKTREE_PATH_ALREADY_EXISTS''
        ''The suggested worktree path already exists and must be inspected before reuse.''] else [])
    @ (if \<not> valid then [blocker ''INVALID_PARALLEL_BRANCH_NAME''
        ''The suggested branch name is not a safe Git branch name.''] else [])"

definition build_worktree_assignment :: "system_view \<Rightarrow> run_shard \<Rightarrow> string \<Rightarrow> worktree_assignment" where
  "build_worktree_assignment sys run_shard runtime_root =
    (let task_id = (case clean_text (PStr (rs_task_id run_shard)) of Some t \<Rightarrow> t | None \<Rightarrow> ''parallel_task'');
         branch = rs_branch_name run_shard;
         path = abspath sys (expanduser sys (rs_worktree_path run_shard));
         valid = (clean_branch (PStr branch) = Some branch);
         within = path_is_within sys path runtime_root;
         existing = sv_exists sys path;
         blockers = assignment_blockers within existing valid
     in \<lparr>wa_task_id = task_id,
         wa_title = (case clean_text (PStr (rs_title run_shard)) of Some t \<Rightarrow> t | None \<Rightarrow> task_id),
         wa_worktree_path = path, wa_parent_path = dirname path, wa_worktree_root = runtime_root,
         wa_branch_name = branch, wa_base_branch = rs_base_branch run_shard,
         wa_path_exists = existing, wa_parent_exists = sv_is_dir sys (dirname path), wa_path_within = within,
         wa_branch_valid = valid, wa_status = (if blockers \<noteq> [] then ''blocked'' else ''assignable''),
         wa_blocking_reasons = blockers, wa_creates_worktree = False, wa_creates_branch = False\<rparr>)"

definition worktree_assignment_blockers :: "dict list \<Rightarrow> worktree_assignment list \<Rightarrow> dict list" where
  "worktree_assignment_blockers run_blockers assignments =
    run_blockers @ concat (map (\<lambda>a. map (dset ''task_id'' (PStr (wa_task_id a))) (wa_blocking_reasons a)) assignments)"

definition worktree_assignment_risk :: "worktree_assignment list \<Rightarrow> string" where
  "worktree_assignment_risk assignments =
    (if assignments = [] then ''none'' else if 4 < length assignments then ''moderate'' else ''low'')"

definition worktree_assignment_safe_next_actions :: "string \<Rightarrow> (string \<times> string) list" where
  "worktree_assignment_safe_next_actions status =
    (if status = ''preview_ready'' then [(''materialize_shard_inputs_preview'', ''Preview shard runner input materialization for each assignable worktree.'')]
     else if status = ''blocked'' then [(''resolve_worktree_assignment_blockers'', ''Inspect path or branch blockers before any worktree is created.'')]
     else [(''keep_planning'', ''Add task_intents before assigning worktrees.'')])"

record assignment_packet = packet +
  ap_group_id :: string
  ap_base_branch :: string
  ap_provider :: string
  ap_worktree_root :: string
  ap_run_status :: string
  ap_run_risk :: string
  ap_run_next :: string
  ap_planned_count :: nat
  ap_assignable_count :: nat
  ap_blocked_count :: nat
  ap_creates_worktrees :: bool
  ap_creates_branches :: bool
  ap_assignments :: "worktree_assignment list"
  ap_next_steps :: "string list"

definition runtime_root_of :: "system_view \<Rightarrow> stage_request \<Rightarrow> string" where
  "runtime_root_of sys q = posix_join (root_of sys q) [''.colameta'', ''runtime'', ''parallel-worktrees'']"

definition build_stage_parallel_worktree_assignment_preview :: "(string \<Rightarrow> string) \<Rightarrow> system_view \<Rightarrow> stage_request \<Rightarrow> assignment_packet" where
  "build_stage_parallel_worktree_assignment_preview sha256 sys q =
    (let run = build_stage_parallel_run_preview sha256 sys q;
         runtime_root = runtime_root_of sys q;
         assignments = map (\<lambda>s. build_worktree_assignment sys s runtime_root) (rp_run_shards run);
         blocking = worktree_assignment_blockers (pk_blocking_reasons run) assignments;
         assignable = length (filter (\<lambda>a. wa_status a = ''assignable'') assignments);
         status = (if assignments \<noteq> [] \<and> blocking = [] then ''preview_ready'' else if blocking \<noteq> [] then ''blocked'' else ''empty'')
     in \<lparr>pk_ok = True, pk_source = ''stage_parallel_worktree_assignment_preview'', pk_scope = ''mcp:read'', pk_read_only = True, pk_side_effects = False,
         pk_status = status, pk_project_root = root_of sys q, pk_project_name = sq_project_name q, pk_stage_id = pk_stage_id run,
         pk_blocking_reasons = blocking,
         pk_risk_level = (if blocking \<noteq> [] then ''blocked'' else worktree_assignment_risk assignments),
         pk_suggested_next_action = (if status = ''preview_ready'' then ''materialize_shard_inputs_preview''
           else if status = ''blocked'' then ''resolve_worktree_assignment_blockers'' else ''keep_planning''),
         pk_authority = boundary RUN_AUTHORITY, pk_safe = worktree_assignment_safe_next_actions status,
         ap_group_id = rp_group_id run, ap_base_branch = rp_base_branch run, ap_provider = rp_provider run,
         ap_worktree_root = runtime_root, ap_run_status = pk_status run, ap_run_risk = pk_risk_level run,
         ap_run_next = pk_suggested_next_action run,
         ap_planned_count = length assignments, ap_assignable_count = assignable,
         ap_blocked_count = length assignments - assignable, ap_creates_worktrees = False, ap_creates_branches = False,
         ap_assignments = assignments,
         ap_next_steps = [''stage_parallel_shard_input_preview'', ''executor_preview_group'', ''parallel_group_status'',
           ''stage_parallel_merge_preview'', ''stage_closeout_packet'']\<rparr>)"

section \<open>The executor preview group\<close>

text \<open>The last shard of a task id counts.\<close>

definition items_by_task_id :: "run_shard list \<Rightarrow> (string \<times> run_shard) list" where
  "items_by_task_id shards =
    foldl (\<lambda>m s. case clean_text (PStr (rs_task_id s)) of None \<Rightarrow> m | Some t \<Rightarrow> AList.update t s m) [] shards"

record executor_preview =
  ep_task_id :: string
  ep_title :: "string option"
  ep_preview_status :: string
  ep_executor_provider :: string
  ep_worktree_path :: string
  ep_branch_name :: string
  ep_requires_status :: string
  ep_assignment_status :: string
  ep_future_request :: dict

definition executor_preview_of :: "run_packet \<Rightarrow> worktree_assignment \<Rightarrow> executor_preview" where
  "executor_preview_of run a =
    (let shard = map_of (items_by_task_id (rp_run_shards run)) (wa_task_id a)
     in \<lparr>ep_task_id = wa_task_id a, ep_title = map_option rs_title shard, ep_preview_status = ''not_created'',
         ep_executor_provider = rp_provider run, ep_worktree_path = wa_worktree_path a, ep_branch_name = wa_branch_name a,
         ep_requires_status = ''assignable'', ep_assignment_status = wa_status a,
         ep_future_request = (case shard of Some s \<Rightarrow> rs_executor_preview_request s | None \<Rightarrow> [])\<rparr>)"

record executor_group_packet = packet +
  gp_group_id :: string
  gp_assignment_status :: string
  gp_assignment_risk :: string
  gp_assignment_count :: nat
  gp_planned_count :: nat
  gp_created_count :: nat
  gp_starts_executor_runs :: bool
  gp_requires_apply :: bool
  gp_executor_previews :: "executor_preview list"
  gp_next_steps :: "string list"

definition executor_group_safe_next_actions :: "string \<Rightarrow> (string \<times> string) list" where
  "executor_group_safe_next_actions status =
    (if status = ''preview_ready'' then [(''preview_executor_run_group'', ''Preview the executor run group after run_once_preview artifacts exist.'')]
     else worktree_assignment_safe_next_actions status)"

definition build_stage_parallel_executor_group_preview :: "(string \<Rightarrow> string) \<Rightarrow> system_view \<Rightarrow> stage_request \<Rightarrow> executor_group_packet" where
  "build_stage_parallel_executor_group_preview sha256 sys q =
    (let assignment = build_stage_parallel_worktree_assignment_preview sha256 sys q;
         run = build_stage_parallel_run_preview sha256 sys q;
         previews = map (executor_preview_of run) (ap_assignments assignment);
         assignment_status = (if pk_status assignment = [] then ''empty'' else pk_status assignment);
         status = (if assignment_status = ''preview_ready'' then ''preview_ready'' else assignment_status)
     in \<lparr>pk_ok = True, pk_source = ''stage_parallel_executor_group_preview'', pk_scope = ''mcp:read'', pk_read_only = True, pk_side_effects = False,
         pk_status = status, pk_project_root = pk_project_root assignment, pk_project_name = sq_project_name q,
         pk_stage_id = pk_stage_id assignment, pk_blocking_reasons = pk_blocking_reasons assignment,
         pk_risk_level = pk_risk_level assignment,
         pk_suggested_next_action = (if status = ''preview_ready'' then ''preview_executor_run_group'' else pk_suggested_next_action assignment),
         pk_authority = boundary RUN_AUTHORITY, pk_safe = executor_group_safe_next_actions status,
         gp_group_id = ap_group_id assignment, gp_assignment_status = assignment_status,
         gp_assignment_risk = pk_risk_level assignment, gp_assignment_count = ap_planned_count assignment,
         gp_planned_count = length previews, gp_created_count = 0, gp_starts_executor_runs = False, gp_requires_apply = True,
         gp_executor_previews = previews,
         gp_next_steps = [''executor_run_group_preview'', ''parallel_group_status'', ''stage_parallel_merge_preview'', ''stage_closeout_packet'']\<rparr>)"

section \<open>Results of the executors\<close>

record executor_result =
  er_task_id :: string
  er_status :: string
  er_validation_status :: string
  er_head :: "string option"
  er_changed_files :: "string list"
  er_summary :: string

definition clean_executor_status :: "py \<Rightarrow> string" where
  "clean_executor_status v =
    (case clean_text v of
       Some s \<Rightarrow> if s \<in> set [''planned'', ''running'', ''succeeded'', ''failed'', ''blocked''] then s else ''unknown''
     | None \<Rightarrow> ''unknown'')"

definition clean_validation_status :: "py \<Rightarrow> string" where
  "clean_validation_status v =
    (case clean_text v of
       Some s \<Rightarrow> if s \<in> set [''not_run'', ''running'', ''passed'', ''failed'', ''blocked''] then s else ''unknown''
     | None \<Rightarrow> ''unknown'')"

definition result_of_item :: "py \<Rightarrow> executor_result option" where
  "result_of_item item =
    (case item of
       PDict d \<Rightarrow>
         (case clean_text (dget d ''task_id'') of
            None \<Rightarrow> None
          | Some t \<Rightarrow> Some \<lparr>er_task_id = t, er_status = clean_executor_status (dget d ''status''),
              er_validation_status = clean_validation_status (dget d ''validation_status''),
              er_head = clean_text (dget d ''head''), er_changed_files = clean_string_list (dget d ''changed_files''),
              er_summary = (case clean_text (dget d ''summary'') of Some s \<Rightarrow> s | None \<Rightarrow> [])\<rparr>)
     | _ \<Rightarrow> None)"

definition normalize_executor_results :: "py \<Rightarrow> (string \<times> executor_result) list" where
  "normalize_executor_results v =
    (case v of
       PList xs \<Rightarrow> foldl (\<lambda>m x. case result_of_item x of None \<Rightarrow> m | Some r \<Rightarrow> AList.update (er_task_id r) r m) [] xs
     | _ \<Rightarrow> [])"

text \<open>The keys \<open>head\<close> and \<open>summary\<close> are absent (None) for a shard without a result.\<close>

record shard_status =
  ss_task_id :: string
  ss_title :: string
  ss_status :: string
  ss_validation_status :: string
  ss_worktree_path :: string
  ss_branch_name :: string
  ss_head :: "string option"
  ss_changed_files :: "string list"
  ss_summary :: "string option"
  ss_merge_candidate :: bool

definition title_of :: "executor_preview \<Rightarrow> string" where
  "title_of p = (case ep_title p of Some t \<Rightarrow> if t = [] then ep_task_id p else t | None \<Rightarrow> ep_task_id p)"

definition build_parallel_shard_status :: "executor_preview \<Rightarrow> executor_result option \<Rightarrow> shard_status" where
  "build_parallel_shard_status p result =
    (case result of
       None \<Rightarrow> \<lparr>ss_task_id = ep_task_id p, ss_title = title_of p, ss_status = ''planned'', ss_validation_status = ''not_run'',
          ss_worktree_path = ep_worktree_path p, ss_branch_name = ep_branch_name p, ss_head = None,
          ss_changed_files = [], ss_summary = None, ss_merge_candidate = False\<rparr>
     | Some r \<Rightarrow>
         (let status = (if er_status r = [] then ''unknown'' else er_status r);
              validation = (if er_validation_status r = [] then ''unknown'' else er_validation_status r)
          in \<lparr>ss_task_id = ep_task_id p, ss_title = title_of p, ss_status = status, ss_validation_status = validation,
          ss_worktree_path = ep_worktree_path p, ss_branch_name = ep_branch_name p, ss_head = er_head r,
          ss_changed_files = clean_string_list (str_list_py (er_changed_files r)), ss_summary = Some (er_summary r),
          ss_merge_candidate = (status = ''succeeded'' \<and> validation = ''passed'')\<rparr>))"

definition STATUSES :: "string list" where
  "STATUSES = [''planned'', ''running'', ''succeeded'', ''failed'', ''blocked'', ''unknown'']"

definition count_status :: "(string \<times> nat) list \<Rightarrow> shard_status \<Rightarrow> (string \<times> nat) list" where
  "count_status counts item =
    (let status = (if ss_status item \<in> set (map fst counts) then ss_status item else ''unknown'')
     in AList.update status (Suc (case map_of counts status of Some n \<Rightarrow> n | None \<Rightarrow> 0)) counts)"

definition parallel_status_counts :: "shard_status list \<Rightarrow> (string \<times> nat) list" where
  "parallel_status_counts shards =
    AList.update ''total'' (length shards) (foldl count_status (map (\<lambda>s. (s, 0)) STATUSES) shards)"

definition shard_blockers :: "shard_status \<Rightarrow> dict list" where
  "shard_blockers item =
    (if ss_status item \<in> set [''failed'', ''blocked''] then
       [blocker ''PARALLEL_SHARD_NOT_SUCCESSFUL'' ''A parallel shard did not finish successfully.''
        @ [(''task_id'', PStr (ss_task_id item)), (''status'', PStr (ss_status item))]]
     else if ss_status item = ''succeeded'' \<and> ss_validation_status item \<noteq> ''passed'' then
       [blocker ''PARALLEL_SHARD_VALIDATION_NOT_PASSED'' ''A parallel shard succeeded without passed validation evidence.''
        @ [(''task_id'', PStr (ss_task_id item)), (''validation_status'', PStr (ss_validation_status item))]]
     else if ss_status item \<notin> set [''succeeded'', ''planned'', ''running''] then
       [blocker ''PARALLEL_SHARD_STATUS_UNKNOWN'' ''A parallel shard has an unknown status.''
        @ [(''task_id'', PStr (ss_task_id item)), (''status'', PStr (ss_status item))]]
     else [])"

definition parallel_result_blockers :: "shard_status list \<Rightarrow> dict list" where
  "parallel_result_blockers shards = concat (map shard_blockers shards)"

text \<open>Once there are results, a worktree that exists is expected.\<close>

definition parallel_group_blockers_for_results :: "dict list \<Rightarrow> bool \<Rightarrow> dict list" where
  "parallel_group_blockers_for_results blockers has_results =
    (if \<not> has_results then blockers
     else filter (\<lambda>b. dget b ''code'' \<noteq> PStr ''WORKTREE_PATH_ALREADY_EXISTS'') blockers)"

definition parallel_group_status_risk :: "string \<Rightarrow> dict list \<Rightarrow> string" where
  "parallel_group_status_risk status blockers =
    (if blockers \<noteq> [] \<or> status = ''blocked'' then ''blocked''
     else if status \<in> set [''merge_ready'', ''waiting_for_executor_results''] then ''moderate''
     else if status = ''preview_ready'' then ''low'' else ''none'')"

definition parallel_group_status_safe_next_actions :: "string \<Rightarrow> (string \<times> string) list" where
  "parallel_group_status_safe_next_actions status =
    (if status = ''merge_ready'' then [(''build_stage_parallel_merge_preview'', ''Preview merge order and validation before applying parallel results.'')]
     else if status = ''waiting_for_executor_results'' then [(''wait_for_executor_results'', ''Collect executor result summaries before merge preview.'')]
     else if status = ''blocked'' then [(''resolve_parallel_group_blockers'', ''Fix failed, blocked, or unvalidated shard results before merge preview.'')]
     else [(''keep_planning'', ''Add task_intents before tracking a parallel group.'')])"

section \<open>Status of the group\<close>

record group_status_packet = packet +
  sp_group_id :: string
  sp_group_preview_status :: string
  sp_group_preview_count :: nat
  sp_result_source :: string
  sp_status_counts :: "(string \<times> nat) list"
  sp_shard_statuses :: "shard_status list"
  sp_ready :: bool
  sp_all_succeeded :: bool
  sp_all_validated :: bool
  sp_requires_merge_preview :: bool
  sp_next_steps :: "string list"

definition shard_statuses_of :: "executor_group_packet \<Rightarrow> (string \<times> executor_result) list \<Rightarrow> shard_status list" where
  "shard_statuses_of grp results =
    map (\<lambda>p. build_parallel_shard_status p (map_of results (ep_task_id p))) (gp_executor_previews grp)"

definition group_blockers :: "executor_group_packet \<Rightarrow> (string \<times> executor_result) list \<Rightarrow> dict list" where
  "group_blockers grp results =
    parallel_group_blockers_for_results (pk_blocking_reasons grp) (results \<noteq> [])
    @ (if results \<noteq> [] then parallel_result_blockers (shard_statuses_of grp results) else [])"

definition build_stage_parallel_group_status :: "(string \<Rightarrow> string) \<Rightarrow> system_view \<Rightarrow> stage_request \<Rightarrow> py \<Rightarrow> group_status_packet" where
  "build_stage_parallel_group_status sha256 sys q executor_results =
    (let grp = build_stage_parallel_executor_group_preview sha256 sys q;
         results = normalize_executor_results executor_results;
         shards = shard_statuses_of grp results;
         has_results = (results \<noteq> []);
         all_succeeded = (shards \<noteq> [] \<and> list_all (\<lambda>s. ss_status s = ''succeeded'') shards);
         all_validated = (shards \<noteq> [] \<and> list_all (\<lambda>s. ss_validation_status s = ''passed'') shards);
         incomplete = list_ex (\<lambda>s. ss_status s \<in> set [''planned'', ''running'']) shards;
         blockers = group_blockers grp results;
         status = (if has_results \<and> all_succeeded \<and> all_validated \<and> blockers = [] then ''merge_ready''
                   else if (has_results \<and> incomplete \<and> blockers = []) \<or> (pk_status grp = ''preview_ready'' \<and> \<not> has_results)
                     then ''waiting_for_executor_results''
                   else if blockers \<noteq> [] then ''blocked''
                   else if pk_status grp = [] then ''empty'' else pk_status grp)
     in \<lparr>pk_ok = True, pk_source = ''stage_parallel_group_status'', pk_scope = ''mcp:read'', pk_read_only = True, pk_side_effects = False,
         pk_status = status, pk_project_root = pk_project_root grp, pk_project_name = sq_project_name q,
         pk_stage_id = pk_stage_id grp, pk_blocking_reasons = blockers,
         pk_risk_level = parallel_group_status_risk status blockers,
         pk_suggested_next_action = (if status = ''merge_ready'' then ''build_stage_parallel_merge_preview''
           else if status = ''waiting_for_executor_results'' then ''wait_for_executor_results''
           else if status = ''blocked'' then ''resolve_parallel_group_blockers'' else ''keep_planning''),
         pk_authority = boundary RUN_AUTHORITY, pk_safe = parallel_group_status_safe_next_actions status,
         sp_group_id = gp_group_id grp, sp_group_preview_status = pk_status grp, sp_group_preview_count = gp_planned_count grp,
         sp_result_source = (if has_results then ''provided_executor_results'' else ''planned_no_executor_results''),
         sp_status_counts = parallel_status_counts shards, sp_shard_statuses = shards,
         sp_ready = (status = ''merge_ready''), sp_all_succeeded = all_succeeded, sp_all_validated = all_validated,
         sp_requires_merge_preview = True, sp_next_steps = [''stage_parallel_merge_preview'', ''stage_closeout_packet'']\<rparr>)"

section \<open>Merge preview and closeout\<close>

record merge_step =
  ms_order :: nat
  ms_task_id :: string
  ms_source_branch :: string
  ms_source_worktree_path :: string
  ms_head :: "string option"
  ms_changed_files :: "string list"
  ms_command_preview :: string

definition build_merge_sequence :: "shard_status list \<Rightarrow> merge_step list" where
  "build_merge_sequence shards =
    map (\<lambda>(i, s). \<lparr>ms_order = i, ms_task_id = ss_task_id s, ms_source_branch = ss_branch_name s,
        ms_source_worktree_path = ss_worktree_path s, ms_head = ss_head s,
        ms_changed_files = clean_string_list (str_list_py (ss_changed_files s)),
        ms_command_preview = ''git merge --no-ff <source_branch>''\<rparr>) (List.enumerate 1 shards)"

definition merge_preview_blockers :: "group_status_packet \<Rightarrow> dict list" where
  "merge_preview_blockers grp =
    (if pk_blocking_reasons grp \<noteq> [] then pk_blocking_reasons grp
     else [blocker ''PARALLEL_GROUP_NOT_MERGE_READY'' ''The parallel group is not merge-ready yet.''
           @ [(''group_status'', PStr (pk_status grp))]])"

definition default_parallel_validation_commands :: "string list" where
  "default_parallel_validation_commands =
    [''python3 -m py_compile runner/stage_parallel_plan.py runner/mcp_server.py runner/web_console.py'',
     ''.venv/bin/python -m pytest tests/test_stage_parallel_plan.py tests/test_mcp_runtime_observability.py tests/test_web_console_security.py -q'',
     ''.venv/bin/python -m pytest -q'']"

definition merge_preview_safe_next_actions :: "bool \<Rightarrow> (string \<times> string) list" where
  "merge_preview_safe_next_actions merge_ready =
    (if merge_ready then [(''prepare_stage_closeout_packet'', ''Prepare a closeout packet for human review before any merge apply.'')]
     else [(''complete_parallel_group_before_merge_preview'', ''Provide succeeded and validated executor results before merge preview.'')])"

record merge_plan =
  mg_strategy :: string
  mg_target_branch :: string
  mg_merge_sequence :: "merge_step list"
  mg_merge_allowed_now :: bool
  mg_requires_clean_target :: bool
  mg_requires_validation :: bool
  mg_validation_commands :: "string list"

record merge_packet = packet +
  mp_group_id :: string
  mp_group_status :: string
  mp_group_source :: string
  mp_group_ready :: bool
  mp_merge_plan :: merge_plan
  mp_next_steps :: "string list"

definition build_stage_parallel_merge_preview :: "(string \<Rightarrow> string) \<Rightarrow> system_view \<Rightarrow> stage_request \<Rightarrow> py \<Rightarrow> merge_packet" where
  "build_stage_parallel_merge_preview sha256 sys q executor_results =
    (let grp = build_stage_parallel_group_status sha256 sys q executor_results;
         ready = (pk_status grp = ''merge_ready'')
     in \<lparr>pk_ok = True, pk_source = ''stage_parallel_merge_preview'', pk_scope = ''mcp:read'', pk_read_only = True, pk_side_effects = False,
         pk_status = (if ready then ''preview_ready'' else ''blocked''), pk_project_root = pk_project_root grp,
         pk_project_name = sq_project_name q, pk_stage_id = pk_stage_id grp,
         pk_blocking_reasons = (if ready then [] else merge_preview_blockers grp),
         pk_risk_level = (if ready then ''moderate'' else ''blocked''),
         pk_suggested_next_action = (if ready then ''prepare_stage_closeout_packet'' else ''complete_parallel_group_before_merge_preview''),
         pk_authority = boundary RUN_AUTHORITY, pk_safe = merge_preview_safe_next_actions ready,
         mp_group_id = sp_group_id grp, mp_group_status = pk_status grp, mp_group_source = sp_result_source grp,
         mp_group_ready = sp_ready grp,
         mp_merge_plan = \<lparr>mg_strategy = ''sequential_worktree_merge_after_explicit_authorization'',
           mg_target_branch = (case clean_branch (sq_base_branch q) of Some b \<Rightarrow> b | None \<Rightarrow> ''main''),
           mg_merge_sequence = (if ready then build_merge_sequence (sp_shard_statuses grp) else []),
           mg_merge_allowed_now = False, mg_requires_clean_target = True, mg_requires_validation = True,
           mg_validation_commands = default_parallel_validation_commands\<rparr>,
         mp_next_steps = [''stage_closeout_packet'']\<rparr>)"

record closeout_packet = packet +
  cp_group_id :: string
  cp_packet_ready :: bool
  cp_merge_preview_ready :: bool
  cp_requires_human_review :: bool
  cp_stable_replacement :: bool
  cp_reviewed_by :: "(string \<times> string) list"
  cp_group_status :: "string \<times> string \<times> bool"
  cp_merge_plan :: merge_plan
  cp_required_validation :: "string list"

definition closeout_safe_next_actions :: "bool \<Rightarrow> (string \<times> string) list" where
  "closeout_safe_next_actions ready =
    (if ready then [(''human_review_parallel_closeout'', ''Review the closeout packet; it still does not authorize merge, commit, push, or stable replacement.'')]
     else [(''continue_parallel_group_execution_or_review_blockers'', ''Complete executor results and merge preview evidence before closeout review.'')])"

definition build_stage_parallel_closeout_packet :: "(string \<Rightarrow> string) \<Rightarrow> system_view \<Rightarrow> stage_request \<Rightarrow> py \<Rightarrow> closeout_packet" where
  "build_stage_parallel_closeout_packet sha256 sys q executor_results =
    (let merge = build_stage_parallel_merge_preview sha256 sys q executor_results;
         ready = (pk_status merge = ''preview_ready'')
     in \<lparr>pk_ok = True, pk_source = ''stage_parallel_closeout_packet'', pk_scope = ''mcp:read'', pk_read_only = True, pk_side_effects = False,
         pk_status = (if ready then ''ready_for_human_review'' else ''not_ready''), pk_project_root = pk_project_root merge,
         pk_project_name = sq_project_name q, pk_stage_id = pk_stage_id merge,
         pk_blocking_reasons = pk_blocking_reasons merge, pk_risk_level = (if ready then ''moderate'' else ''blocked''),
         pk_suggested_next_action = (if ready then ''human_review_parallel_closeout'' else ''continue_parallel_group_execution_or_review_blockers''),
         pk_authority = boundary RUN_AUTHORITY, pk_safe = closeout_safe_next_actions ready,
         cp_group_id = mp_group_id merge, cp_packet_ready = True, cp_merge_preview_ready = ready, cp_requires_human_review = True,
         cp_stable_replacement = False,
         cp_reviewed_by = [(''worktree_assignment'', ''reviewed_by_stage_parallel_worktree_assignment_preview''),
           (''executor_group'', ''reviewed_by_stage_parallel_executor_group_preview'')],
         cp_group_status = (mp_group_status merge, mp_group_source merge, mp_group_ready merge),
         cp_merge_plan = mp_merge_plan merge,
         cp_required_validation = default_parallel_validation_commands\<rparr>)"

end
