(* ===== verification/ParallelFacts.thy ===== *)
theory ParallelFacts
  imports ParallelGroup
begin

text \<open>
  What the previews of parallel stages promise: cleaned lists are stable, the overlaps are exactly the
  files two tasks share, worktrees are inside the runtime directory and apart from each other, and a
  group is ready to merge exactly when every shard succeeded with passed validation.
\<close>

section \<open>Cleaned lists\<close>

definition clean_list :: "string list \<Rightarrow> bool" where
  "clean_list xs \<longleftrightarrow> distinct xs \<and> (\<forall>s\<in>set xs. s \<noteq> [] \<and> py_strip s = s)"

lemma clean_text_Some: "clean_text v = Some s \<Longrightarrow> s \<noteq> [] \<and> py_strip s = s"
  by (auto simp: clean_text_def split: py.splits if_splits)

lemma clean_text_clean [simp]: "s \<noteq> [] \<Longrightarrow> py_strip s = s \<Longrightarrow> clean_text (PStr s) = Some s"
  by (simp add: clean_text_def)

lemma clean_list_append_unique:
  "clean_list acc \<Longrightarrow> s \<noteq> [] \<Longrightarrow> py_strip s = s \<Longrightarrow> clean_list (append_unique acc s)"
  by (simp add: clean_list_def)

lemma foldl_clean:
  "clean_list acc \<Longrightarrow>
    clean_list (foldl (\<lambda>acc x. case clean_text x of None \<Rightarrow> acc | Some s \<Rightarrow> append_unique acc s) acc xs)"
  by (induction xs arbitrary: acc)
     (auto split: option.splits intro: clean_list_append_unique dest: clean_text_Some)

lemma clean_string_list_clean [simp]: "clean_list (clean_string_list v)"
proof (cases v)
  case (PList xs)
  have "clean_list []" by (simp add: clean_list_def)
  with PList show ?thesis by (simp add: clean_string_list_def foldl_clean)
qed (simp_all add: clean_string_list_def clean_list_def)

lemma foldl_clean_again:
  "clean_list (acc @ xs) \<Longrightarrow>
    foldl (\<lambda>acc x. case clean_text x of None \<Rightarrow> acc | Some s \<Rightarrow> append_unique acc s) acc (map PStr xs) = acc @ xs"
proof (induction xs arbitrary: acc)
  case (Cons x xs)
  then have "clean_text (PStr x) = Some x" "x \<notin> set acc" by (auto simp: clean_list_def)
  with Cons show ?case by (simp add: append_unique_def)
qed simp

lemma clean_string_list_again [simp]: "clean_list xs \<Longrightarrow> clean_string_list (str_list_py xs) = xs"
  using foldl_clean_again [of "[]" xs] by (simp add: clean_string_list_def str_list_py_def)

section \<open>Owners and overlaps\<close>

definition owners_of :: "string \<Rightarrow> task_shard list \<Rightarrow> string list" where
  "owners_of p shards = map sh_task_id (filter (\<lambda>s. p \<in> set (sh_allowed_files s)) shards)"

definition some_list :: "'a list \<Rightarrow> 'a list option" where
  "some_list xs = (if xs = [] then None else Some xs)"

definition lookup_owners :: "(string \<times> string list) list \<Rightarrow> string \<Rightarrow> string list" where
  "lookup_owners m p = (case map_of m p of None \<Rightarrow> [] | Some ts \<Rightarrow> ts)"

lemma lookup_add_owner: "lookup_owners (add_owner t m p) q = lookup_owners m q @ (if p = q then [t] else [])"
  by (simp add: lookup_owners_def add_owner_def update_conv' split: option.splits)

lemma lookup_add_owners:
  "distinct ps \<Longrightarrow> lookup_owners (foldl (add_owner t) m ps) q = lookup_owners m q @ (if q \<in> set ps then [t] else [])"
  by (induction ps arbitrary: m) (auto simp: lookup_add_owner)

lemma keys_add_owners: "fst ` set (foldl (add_owner t) m ps) = fst ` set m \<union> set ps"
proof (induction ps arbitrary: m)
  case (Cons p ps)
  have "fst ` set (add_owner t m p) = insert p (fst ` set m)"
    by (simp add: add_owner_def dom_update)
  with Cons show ?case by simp
qed simp

lemma distinct_add_owners: "distinct (map fst m) \<Longrightarrow> distinct (map fst (foldl (add_owner t) m ps))"
  by (induction ps arbitrary: m) (auto simp: add_owner_def distinct_update)

lemma owners_fold:
  assumes "\<forall>s\<in>set shards. clean_list (sh_allowed_files s)"
  shows "lookup_owners (foldl (\<lambda>owners shard. foldl (add_owner (sh_task_id shard)) owners
      (clean_string_list (str_list_py (sh_allowed_files shard)))) m shards) p
    = lookup_owners m p @ owners_of p shards"
  using assms
proof (induction shards arbitrary: m)
  case (Cons s shards)
  then have "distinct (sh_allowed_files s)" by (simp add: clean_list_def)
  with Cons show ?case by (simp add: lookup_add_owners owners_of_def)
qed (simp add: owners_of_def)

lemma file_owners_lookup:
  "\<forall>s\<in>set shards. clean_list (sh_allowed_files s) \<Longrightarrow> lookup_owners (file_owners shards) p = owners_of p shards"
  unfolding file_owners_def by (subst owners_fold) (simp_all add: lookup_owners_def)

lemma distinct_file_owners: "distinct (map fst (file_owners shards))"
proof -
  have "distinct (map fst m) \<Longrightarrow> distinct (map fst (foldl (\<lambda>owners shard. foldl (add_owner (sh_task_id shard)) owners
      (clean_string_list (str_list_py (sh_allowed_files shard)))) m shards))" for m
    by (induction shards arbitrary: m) (auto simp: distinct_add_owners)
  from this [of "[]"] show ?thesis by (simp add: file_owners_def)
qed

text \<open>A path is reported exactly when two shards of different task ids may write it.\<close>

theorem file_overlaps_exact:
  assumes clean: "\<forall>s\<in>set shards. clean_list (sh_allowed_files s)"
  shows "p \<in> fo_path ` set (file_overlaps shards) \<longleftrightarrow>
    (\<exists>s\<in>set shards. \<exists>t\<in>set shards. p \<in> set (sh_allowed_files s) \<and> p \<in> set (sh_allowed_files t) \<and> sh_task_id s \<noteq> sh_task_id t)"
proof -
  have "p \<in> fo_path ` set (file_overlaps shards) \<longleftrightarrow> (\<exists>ts. (p, ts) \<in> set (file_owners shards) \<and> 1 < length (unique_in_order ts))"
    by (force simp: file_overlaps_def map_filter_def split: if_splits)
  also have "\<dots> \<longleftrightarrow> 1 < length (unique_in_order (lookup_owners (file_owners shards) p))"
  proof -
    have "(p, ts) \<in> set (file_owners shards) \<longleftrightarrow> map_of (file_owners shards) p = Some ts" for ts
      using distinct_file_owners [of shards] by simp
    then show ?thesis by (auto simp: lookup_owners_def unique_in_order_def split: option.splits)
  qed
  also have "\<dots> \<longleftrightarrow> (\<exists>a\<in>set (owners_of p shards). \<exists>b\<in>set (owners_of p shards). a \<noteq> b)"
    using clean by (simp add: file_owners_lookup two_members del: One_nat_def)
  finally show ?thesis by (auto simp: owners_of_def)
qed

section \<open>The shards of a plan\<close>

lemma build_task_shard_clean [simp]: "clean_list (sh_allowed_files (build_task_shard t i))"
  by (simp add: build_task_shard_def Let_def)

lemma plan_shards_clean: "\<forall>s\<in>set (plan_shards v m). clean_list (sh_allowed_files s)"
  by (auto simp: plan_shards_def)

lemma planned_tasks_not_Nil [simp]: "planned_tasks v \<noteq> []"
  by (simp add: planned_tasks_def default_automation_task_intents_def)

lemma bounded_parallel_limit_bounds: "1 \<le> bounded_parallel_limit v \<and> bounded_parallel_limit v \<le> 8"
  by (simp add: bounded_parallel_limit_def MAX_PARALLEL_TASKS_LIMIT_def Let_def)

lemma length_plan_shards:
  "length (plan_shards v m) = min (length (planned_tasks v)) (nat (bounded_parallel_limit m))"
  by (simp add: plan_shards_def)

lemma plan_shards_not_Nil [simp]: "plan_shards v m \<noteq> []"
proof -
  have "0 < length (plan_shards v m)"
    using bounded_parallel_limit_bounds [of m] by (simp add: length_plan_shards)
  then show ?thesis by simp
qed

definition shards_of :: "stage_request \<Rightarrow> task_shard list" where
  "shards_of q = plan_shards (sq_task_intents q) (sq_max_parallel_tasks q)"

text \<open>The tasks a request asks for: its intents that have a title or an id, or the default roadmap.\<close>

definition requested_tasks :: "stage_request \<Rightarrow> task_intent list" where
  "requested_tasks q =
    (let given = (case sq_task_intents q of PList xs \<Rightarrow> List.map_filter task_of_item xs | _ \<Rightarrow> [])
     in if given = [] then default_automation_task_intents else given)"

lemma planned_requested: "planned_tasks (sq_task_intents q) = requested_tasks q"
  by (simp add: planned_tasks_def requested_tasks_def normalize_task_intents_def Let_def)

definition clean_intent :: "task_intent \<Rightarrow> bool" where
  "clean_intent t \<longleftrightarrow> clean_text (PStr (ti_title t)) = Some (ti_title t) \<and> clean_list (ti_allowed_files t)"

lemma task_of_item_clean: "task_of_item item = Some t \<Longrightarrow> clean_intent t"
  by (auto simp: task_of_item_def clean_intent_def or_else_def split: py.splits option.splits dest!: clean_text_Some)

lemma default_clean: "\<forall>t\<in>set default_automation_task_intents. clean_intent t"
  by (auto simp: default_automation_task_intents_def clean_intent_def clean_list_def; code_simp)

lemma requested_clean: "\<forall>t\<in>set (requested_tasks q). clean_intent t"
proof -
  have "\<forall>t\<in>set (List.map_filter task_of_item xs). clean_intent t" for xs
    by (auto simp: List.map_filter_def intro: task_of_item_clean)
  with default_clean show ?thesis by (auto simp: requested_tasks_def Let_def split: py.splits)
qed

text \<open>The shards are the first of them, in order.\<close>

definition first_tasks :: "stage_request \<Rightarrow> task_intent list" where
  "first_tasks q = take (nat (bounded_parallel_limit (sq_max_parallel_tasks q))) (requested_tasks q)"

lemma enumerate_Suc_map: "map (\<lambda>(i, t). f t (i + 1)) (List.enumerate n ts) = map (\<lambda>(i, t). f t i) (List.enumerate (Suc n) ts)"
  by (induction ts arbitrary: n) simp_all

lemma shards_in_order: "shards_of q = map (\<lambda>(i, t). build_task_shard t i) (List.enumerate 1 (first_tasks q))"
  using enumerate_Suc_map [of build_task_shard 0]
  by (simp add: shards_of_def plan_shards_def planned_requested first_tasks_def)

lemma map_enumerate: "(\<And>i t. t \<in> set ts \<Longrightarrow> f (i, t) = g t) \<Longrightarrow> map f (List.enumerate n ts) = map g ts"
  by (induction ts arbitrary: n) simp_all

lemma shard_titles_and_files:
  "map sh_title (shards_of q) = map ti_title (first_tasks q)"
  "map sh_allowed_files (shards_of q) = map ti_allowed_files (first_tasks q)"
proof -
  have c: "clean_intent t" if "t \<in> set (first_tasks q)" for t
    using that requested_clean [of q] by (auto simp: first_tasks_def dest: in_set_takeD)
  show "map sh_title (shards_of q) = map ti_title (first_tasks q)"
    "map sh_allowed_files (shards_of q) = map ti_allowed_files (first_tasks q)"
    unfolding shards_in_order map_map
    by (rule map_enumerate, use c in \<open>auto simp: build_task_shard_def Let_def clean_intent_def\<close>)+
qed

lemma shards_of_not_Nil [simp]: "shards_of q \<noteq> []"
  by (simp add: shards_of_def)

lemma plan_task_shards [simp]: "pp_task_shards (build_stage_parallel_plan_preview sys q) = shards_of q"
  by (simp add: build_stage_parallel_plan_preview_def shards_of_def Let_def)

definition disjoint_tasks :: "task_shard list \<Rightarrow> bool" where
  "disjoint_tasks shards \<longleftrightarrow>
    (\<forall>s\<in>set shards. \<forall>t\<in>set shards. sh_task_id s \<noteq> sh_task_id t \<longrightarrow> set (sh_allowed_files s) \<inter> set (sh_allowed_files t) = {})"

lemma no_overlaps_iff: "file_overlaps (shards_of q) = [] \<longleftrightarrow> disjoint_tasks (shards_of q)"
proof -
  have "file_overlaps (shards_of q) = [] \<longleftrightarrow> (\<forall>p. p \<notin> fo_path ` set (file_overlaps (shards_of q)))"
    by (cases "file_overlaps (shards_of q)") auto
  also have "\<dots> \<longleftrightarrow> disjoint_tasks (shards_of q)"
    unfolding file_overlaps_exact [OF plan_shards_clean [of "sq_task_intents q" "sq_max_parallel_tasks q", folded shards_of_def]]
      disjoint_tasks_def by blast
  finally show ?thesis .
qed

lemma overlap_blocking_Nil [simp]: "overlap_blocking_reasons os = [] \<longleftrightarrow> os = []"
  by (simp add: overlap_blocking_reasons_def)

lemma overlap_blocking_code: "b \<in> set (overlap_blocking_reasons os) \<Longrightarrow> dget b ''code'' = PStr ''PARALLEL_FILE_BOUNDARY_OVERLAP''"
  by (auto simp: overlap_blocking_reasons_def dget_or_def split: if_splits)

lemma plan_blocking [simp]:
  "pk_blocking_reasons (build_stage_parallel_plan_preview sys q) = overlap_blocking_reasons (file_overlaps (shards_of q))"
  by (simp add: build_stage_parallel_plan_preview_def shards_of_def Let_def)

lemma run_blocking [simp]:
  "pk_blocking_reasons (build_stage_parallel_run_preview h sys q) = overlap_blocking_reasons (file_overlaps (shards_of q))"
  by (simp add: build_stage_parallel_run_preview_def Let_def)

text \<open>The two previews are ready exactly when no file is shared.\<close>

lemma plan_suggestion:
  "pk_suggested_next_action (build_stage_parallel_plan_preview sys q) = ''ready_for_parallel_run_preview'' \<longleftrightarrow> disjoint_tasks (shards_of q)"
  using no_overlaps_iff [of q] shards_of_not_Nil [of q]
  by (simp add: build_stage_parallel_plan_preview_def Let_def plan_next_action_def flip: shards_of_def)

lemma run_preview_status:
  "pk_status (build_stage_parallel_run_preview h sys q) = ''preview_ready'' \<longleftrightarrow> disjoint_tasks (shards_of q)"
proof -
  have "pk_status (build_stage_parallel_run_preview h sys q) =
    (if overlap_blocking_reasons (file_overlaps (shards_of q)) = [] then ''preview_ready'' else ''blocked'')"
    unfolding build_stage_parallel_run_preview_def Let_def by simp
  then show ?thesis by (simp add: no_overlaps_iff)
qed

section \<open>Surfaces\<close>

text \<open>The canonical names are not keys of the table, so cleaning a cleaned list loses all but three of them.\<close>

lemma clean_surface_canonical: "m \<in> set SURFACES \<Longrightarrow> clean_surface m = Some n \<Longrightarrow> n \<in> {''docs'', ''tests'', ''runtime''}"
  by (auto simp: clean_surface_def SURFACES_def surface_names_def)

lemma clean_surface_SURFACES: "clean_surface s = Some m \<Longrightarrow> m \<in> set SURFACES"
  unfolding clean_surface_def by (drule map_of_SomeD) (auto simp: surface_names_def SURFACES_def)

lemma set_clean_surface_list: "m \<in> set (clean_surface_list v) \<Longrightarrow> \<exists>s\<in>set (clean_string_list v). clean_surface s = Some m"
proof -
  have "m \<in> set (foldl (\<lambda>acc s. case clean_surface s of None \<Rightarrow> acc | Some m \<Rightarrow> append_unique acc m) acc ss) \<Longrightarrow>
      m \<in> set acc \<or> (\<exists>s\<in>set ss. clean_surface s = Some m)" for acc ss
    by (induction ss arbitrary: acc) (fastforce split: option.splits)+
  then show "m \<in> set (clean_surface_list v) \<Longrightarrow> ?thesis" unfolding clean_surface_list_def by fastforce
qed

lemma set_infer_surfaces: "set (infer_surfaces_from_files ps) \<subseteq> set SURFACES"
proof -
  have "set acc \<subseteq> set SURFACES \<Longrightarrow> set (foldl infer_surfaces_from_file acc ps) \<subseteq> set SURFACES" for acc
  proof (induction ps arbitrary: acc)
    case (Cons p ps)
    then have "set (infer_surfaces_from_file acc p) \<subseteq> set SURFACES"
      by (auto simp: infer_surfaces_from_file_def Let_def SURFACES_def)
    from Cons.IH [OF this] show ?case by simp
  qed simp
  from this [of "[]"] show ?thesis by (simp add: infer_surfaces_from_files_def)
qed

lemma strings_are_strings: "s \<in> set (clean_string_list (str_list_py xs)) \<Longrightarrow> \<exists>x\<in>set xs. s = py_strip x"
proof -
  have "s \<in> set (foldl (\<lambda>acc x. case clean_text x of None \<Rightarrow> acc | Some s \<Rightarrow> append_unique acc s) acc (map PStr xs)) \<Longrightarrow>
      s \<in> set acc \<or> (\<exists>x\<in>set xs. s = py_strip x)" for acc
    by (induction xs arbitrary: acc) (fastforce simp: clean_text_def split: if_splits)+
  from this [of "[]"] show "s \<in> set (clean_string_list (str_list_py xs)) \<Longrightarrow> ?thesis"
    by (simp add: clean_string_list_def str_list_py_def)
qed

lemma strip_SURFACES: "s \<in> set SURFACES \<Longrightarrow> py_strip s = s"
  by (auto simp: SURFACES_def py_strip_def is_ws_def)

lemma clean_surfaces_again:
  assumes "set xs \<subseteq> set SURFACES" "m \<in> set (clean_surface_list (str_list_py xs))"
  shows "m \<in> {''docs'', ''tests'', ''runtime''}"
proof -
  obtain s where s: "s \<in> set (clean_string_list (str_list_py xs))" "clean_surface s = Some m"
    using set_clean_surface_list [OF assms(2)] by blast
  obtain x where "x \<in> set xs" "s = py_strip x" using strings_are_strings [OF s(1)] by blast
  with assms(1) strip_SURFACES have "s \<in> set SURFACES" by auto
  with s(2) show ?thesis by (blast dest: clean_surface_canonical)
qed

lemma shard_surfaces: "set (sh_surfaces (build_task_shard t i)) \<subseteq> set SURFACES"
  using set_infer_surfaces
  by (auto simp: build_task_shard_def Let_def dest: set_clean_surface_list clean_surface_SURFACES)

lemma surface_summary_keys:
  assumes "\<forall>s\<in>set shards. set (sh_surfaces s) \<subseteq> set SURFACES"
  shows "fst ` set (surface_summary shards) \<subseteq> {''docs'', ''tests'', ''runtime''}"
proof -
  have "\<forall>s\<in>set shards. set (sh_surfaces s) \<subseteq> set SURFACES \<Longrightarrow> fst ` set m \<subseteq> {''docs'', ''tests'', ''runtime''} \<Longrightarrow>
    fst ` set (foldl (\<lambda>summary shard. foldl (add_owner (sh_task_id shard)) summary
      (clean_surface_list (str_list_py (sh_surfaces shard)))) m shards) \<subseteq> {''docs'', ''tests'', ''runtime''}" for m
  proof (induction shards arbitrary: m)
    case (Cons s shards)
    have "fst ` set (foldl (add_owner (sh_task_id s)) m (clean_surface_list (str_list_py (sh_surfaces s)))) \<subseteq> {''docs'', ''tests'', ''runtime''}"
      using Cons.prems clean_surfaces_again [of "sh_surfaces s"] unfolding keys_add_owners by auto
    with Cons show ?case by simp
  qed simp
  from this [of "[]"] assms show ?thesis by (simp add: surface_summary_def)
qed

lemma plan_surfaces_lost:
  "fst ` set (pp_surface_summary (build_stage_parallel_plan_preview sys q)) \<subseteq> {''docs'', ''tests'', ''runtime''}"
proof -
  have "\<forall>s\<in>set (shards_of q). set (sh_surfaces s) \<subseteq> set SURFACES"
    using shard_surfaces by (auto simp: shards_of_def plan_shards_def)
  from surface_summary_keys [OF this] show ?thesis
    by (simp add: build_stage_parallel_plan_preview_def shards_of_def Let_def)
qed

end
