(* ===== verification/ParallelGroupFacts.thy ===== *)
theory ParallelGroupFacts
  imports ParallelFacts
begin

text \<open>
  Facts about the packets built on a plan: the assignments of the worktrees and their blockers, when a
  group of parallel shards is ready to merge, and what the checks of the code do not see.
\<close>

section \<open>Assignments\<close>

definition assignments_of :: "(string \<Rightarrow> string) \<Rightarrow> system_view \<Rightarrow> stage_request \<Rightarrow> worktree_assignment list" where
  "assignments_of h sys q = ap_assignments (build_stage_parallel_worktree_assignment_preview h sys q)"

definition run_shard_of :: "(string \<Rightarrow> string) \<Rightarrow> system_view \<Rightarrow> stage_request \<Rightarrow> task_shard \<Rightarrow> run_shard" where
  "run_shard_of h sys q s =
    build_run_shard sys s q (stage_of q) (parallel_group_id h (sq_project_name q) (stage_of q) (shards_of q))
      (clean_provider (sq_provider q)) (case clean_branch (sq_base_branch q) of Some b \<Rightarrow> b | None \<Rightarrow> ''main'')"

definition assignment_of :: "(string \<Rightarrow> string) \<Rightarrow> system_view \<Rightarrow> stage_request \<Rightarrow> task_shard \<Rightarrow> worktree_assignment" where
  "assignment_of h sys q s = build_worktree_assignment sys (run_shard_of h sys q s) (runtime_root_of sys q)"

lemma plan_stage: "pk_stage_id (build_stage_parallel_plan_preview sys q) = stage_of q"
  by (simp add: build_stage_parallel_plan_preview_def Let_def)

lemma run_stage: "(case clean_text (sq_stage_id q) of Some s \<Rightarrow> s
    | None \<Rightarrow> if stage_of q = [] then ''stage_parallel_automation'' else stage_of q) = stage_of q"
  by (simp add: stage_of_def split: option.splits)

lemma run_shards_eq: "rp_run_shards (build_stage_parallel_run_preview h sys q) = map (run_shard_of h sys q) (shards_of q)"
  unfolding build_stage_parallel_run_preview_def Let_def plan_stage run_stage by (simp add: run_shard_of_def)

lemma assignments_eq: "assignments_of h sys q = map (assignment_of h sys q) (shards_of q)"
  by (simp add: assignments_of_def build_stage_parallel_worktree_assignment_preview_def Let_def run_shards_eq assignment_of_def)

lemma assignments_not_Nil [simp]: "assignments_of h sys q \<noteq> []"
  by (simp add: assignments_eq)

lemma assignment_blocking:
  "pk_blocking_reasons (build_stage_parallel_worktree_assignment_preview h sys q)
    = worktree_assignment_blockers (overlap_blocking_reasons (file_overlaps (shards_of q))) (assignments_of h sys q)"
  by (simp add: assignments_of_def build_stage_parallel_worktree_assignment_preview_def Let_def)

lemma assignment_status:
  "pk_status (build_stage_parallel_worktree_assignment_preview h sys q)
    = (if pk_blocking_reasons (build_stage_parallel_worktree_assignment_preview h sys q) = [] then ''preview_ready'' else ''blocked'')"
proof -
  have "assignments_of h sys q \<noteq> []" by simp
  then show ?thesis
    unfolding assignments_of_def by (simp add: build_stage_parallel_worktree_assignment_preview_def Let_def)
qed

lemma built_blocking [simp]:
  "wa_blocking_reasons (build_worktree_assignment sys r root) =
    assignment_blockers (wa_path_within (build_worktree_assignment sys r root))
      (wa_path_exists (build_worktree_assignment sys r root)) (wa_branch_valid (build_worktree_assignment sys r root))"
  by (simp add: build_worktree_assignment_def Let_def)

definition sound_place :: "worktree_assignment \<Rightarrow> bool" where
  "sound_place a \<longleftrightarrow> wa_path_within a \<and> wa_branch_valid a"

text \<open>The codes of blockers decide what is left of them once there are results.\<close>

definition expected_only :: "dict list \<Rightarrow> bool" where
  "expected_only bs \<longleftrightarrow> (\<forall>b\<in>set bs. dget b ''code'' = PStr ''WORKTREE_PATH_ALREADY_EXISTS'')"

lemma expected_only_append [simp]: "expected_only (xs @ ys) \<longleftrightarrow> expected_only xs \<and> expected_only ys"
  by (auto simp: expected_only_def)

lemma expected_only_concat [simp]: "expected_only (concat xss) \<longleftrightarrow> (\<forall>xs\<in>set xss. expected_only xs)"
  by (auto simp: expected_only_def)

lemma expected_only_place: "expected_only (assignment_blockers within existing valid) \<longleftrightarrow> within \<and> valid"
proof -
  have one: "expected_only (blocker c m # bs) \<longleftrightarrow> c = ''WORKTREE_PATH_ALREADY_EXISTS'' \<and> expected_only bs" for c m bs
    by (simp add: expected_only_def blocker_def dget_or_def)
  have none: "expected_only []" by (simp add: expected_only_def)
  show ?thesis unfolding assignment_blockers_def by (cases within; cases existing; cases valid) (simp_all add: one none)
qed

lemma expected_only_task: "expected_only (map (dset ''task_id'' v) bs) \<longleftrightarrow> expected_only bs"
  by (simp add: expected_only_def)

lemma expected_only_overlap: "expected_only (overlap_blocking_reasons os) \<longleftrightarrow> os = []"
proof (cases "os = []")
  case False
  then obtain b where b: "b \<in> set (overlap_blocking_reasons os)" by (cases "overlap_blocking_reasons os") auto
  from overlap_blocking_code [OF b] have "dget b ''code'' \<noteq> PStr ''WORKTREE_PATH_ALREADY_EXISTS''" by simp
  with b False show ?thesis by (auto simp: expected_only_def)
qed (simp add: expected_only_def overlap_blocking_reasons_def)

lemma assignments_expected_only:
  "expected_only (pk_blocking_reasons (build_stage_parallel_worktree_assignment_preview h sys q)) \<longleftrightarrow>
    disjoint_tasks (shards_of q) \<and> (\<forall>a\<in>set (assignments_of h sys q). sound_place a)"
  unfolding assignment_blocking worktree_assignment_blockers_def
  by (simp add: expected_only_overlap no_overlaps_iff expected_only_task expected_only_place
      assignments_eq assignment_of_def sound_place_def)

lemma assignments_unblocked:
  "pk_blocking_reasons (build_stage_parallel_worktree_assignment_preview h sys q) = [] \<longleftrightarrow>
    disjoint_tasks (shards_of q) \<and> (\<forall>a\<in>set (assignments_of h sys q). sound_place a \<and> \<not> wa_path_exists a)"
proof -
  have "assignment_blockers w e v = [] \<longleftrightarrow> w \<and> v \<and> \<not> e" for w e v by (auto simp: assignment_blockers_def)
  then show ?thesis
    unfolding assignment_blocking worktree_assignment_blockers_def
    by (simp add: no_overlaps_iff assignments_eq assignment_of_def sound_place_def conj_assoc)
qed

section \<open>Places of worktrees\<close>

lemma slugify_not_Nil [simp]: "slugify s \<noteq> []"
  by (simp add: slugify_def Let_def)

lemma squash_chars: "set (squash_runs r s) \<subseteq> {c. slug_char c}"
  by (induction r s rule: squash_runs.induct) (auto simp: slug_char_def)

lemma set_strip_char: "set (strip_char c s) \<subseteq> set s"
  unfolding strip_char_def by (metis dual_order.trans set_dropWhileD set_rev subsetI)

lemma slugify_chars: "set (slugify s) \<subseteq> {c. slug_char c}"
proof -
  have "set (strip_char (CHR ''_'') (squash_runs False t)) \<subseteq> {c. slug_char c}" for t
    using set_strip_char squash_chars by blast
  then show ?thesis by (simp add: slugify_def Let_def slug_char_def)
qed

lemma squash_slug: "set s \<subseteq> {c. slug_char c} \<Longrightarrow> squash_runs r s = s"
  by (induction s arbitrary: r) auto

lemma slug_lower: "set s \<subseteq> {c. slug_char c} \<Longrightarrow> py_lower s = s"
  by (induction s) (auto simp: py_lower_def py_lower_char_def slug_char_def Let_def)

text \<open>A task id of lower case letters, digits and inner underscores is its own slug.\<close>

definition slug_id :: "string \<Rightarrow> bool" where
  "slug_id s \<longleftrightarrow> s \<noteq> [] \<and> list_all slug_char s \<and> hd s \<noteq> CHR ''_'' \<and> last s \<noteq> CHR ''_''"

lemma slug_not_ws: "slug_char c \<Longrightarrow> \<not> is_ws c"
  by (auto simp: slug_char_def is_ws_def Let_def)

lemma strip_ends:
  assumes "s \<noteq> []" "\<not> P (hd s)" "\<not> P (last s)"
  shows "rev (dropWhile P (rev (dropWhile P s))) = s"
proof -
  have "dropWhile P s = s" using assms by (simp add: dropWhile_not_head)
  moreover have "dropWhile P (rev s) = rev s" using assms by (simp add: dropWhile_not_head hd_rev)
  ultimately show ?thesis by simp
qed

lemma slug_id_strip: "slug_id s \<Longrightarrow> py_strip s = s"
  unfolding py_strip_def
  by (rule strip_ends) (auto simp: slug_id_def list_all_iff slug_not_ws)

lemma slugify_slug: "slug_id s \<Longrightarrow> slugify s = s"
proof -
  assume s: "slug_id s"
  then have sub: "set s \<subseteq> {c. slug_char c}" by (auto simp: slug_id_def list_all_iff)
  have "strip_char (CHR ''_'') s = s"
    unfolding strip_char_def using s by (intro strip_ends) (auto simp: slug_id_def)
  with s sub show ?thesis
    by (simp add: slugify_def Let_def slug_id_strip slug_lower squash_slug) (simp add: slug_id_def)
qed

lemma slug_id_proper: "slug_id s \<Longrightarrow> proper s"
proof -
  assume s: "slug_id s"
  then have sub: "\<forall>c\<in>set s. slug_char c" by (simp add: slug_id_def list_all_iff)
  have "\<not> slug_char slash" "\<not> slug_char (CHR ''.'')" by (simp_all add: slug_char_def)
  with sub s show ?thesis by (auto simp: proper_def slug_id_def)
qed

lemma slug_id_clean [simp]: "slug_id s \<Longrightarrow> clean_text (PStr s) = Some s"
  by (simp add: clean_text_def slug_id_strip) (simp add: slug_id_def)

lemma assignment_branch:
  "slug_id (sh_task_id s) \<Longrightarrow>
    wa_branch_name (assignment_of h sys q s) = ''colameta/'' @ slugify (stage_of q) @ ''/'' @ sh_task_id s"
  by (simp add: assignment_of_def run_shard_of_def build_worktree_assignment_def build_run_shard_def Let_def
      parallel_branch_name_def slugify_slug)

lemma path_join_snoc: "posix_join b (bs @ [c]) = posix_join (posix_join b bs) [c]"
  by (induction bs arbitrary: b) simp_all

lemma ends_with_slash: "ends_with a ''/'' \<Longrightarrow> \<exists>x. a = x @ [slash]"
  by (cases a rule: rev_cases) (auto simp: ends_with_def)

lemma path_join_relative:
  assumes "\<not> starts_with c ''/''" "b \<noteq> []"
  shows "\<exists>x. posix_join b [c] = x @ slash # c"
  using assms ends_with_slash [of b] by auto

lemma assignment_path:
  assumes "slug_id (sh_task_id s)" "starts_with (sv_cwd sys) ''/''"
  shows "\<exists>a. wa_worktree_path (assignment_of h sys q s) = normpath (a @ slash # sh_task_id s)"
proof -
  define base where "base = posix_join (root_of sys q) [''.colameta'', ''runtime'', ''parallel-worktrees'',
    parallel_group_id h (sq_project_name q) (stage_of q) (shards_of q)]"
  have rooted: "starts_with base ''/''"
    unfolding base_def root_of_def by (intro path_join_rooted abspath_rooted assms(2))
  have "\<not> starts_with (sh_task_id s) ''/''"
    using slug_id_proper [OF assms(1)] by (auto simp: proper_def starts_with_slash)
  moreover have "base \<noteq> []" using rooted by auto
  ultimately obtain x where x: "posix_join base [sh_task_id s] = x @ slash # sh_task_id s"
    using path_join_relative by blast
  have "starts_with (posix_join base [sh_task_id s]) ''/''" using rooted by (rule path_join_rooted)
  with x have r: "starts_with (x @ slash # sh_task_id s) ''/''" by simp
  have "rs_worktree_path (run_shard_of h sys q s) = x @ slash # sh_task_id s"
    using assms(1) x path_join_snoc [of "root_of sys q" "[''.colameta'', ''runtime'', ''parallel-worktrees'',
      parallel_group_id h (sq_project_name q) (stage_of q) (shards_of q)]" "sh_task_id s"]
    unfolding base_def [symmetric]
    by (simp add: run_shard_of_def build_run_shard_def Let_def del: posix_join.simps)
  moreover have "expanduser sys (x @ slash # sh_task_id s) = x @ slash # sh_task_id s"
    using r by (auto simp: expanduser_def starts_with_slash)
  ultimately have "wa_worktree_path (assignment_of h sys q s) = normpath (x @ slash # sh_task_id s)"
    using r by (simp add: assignment_of_def build_worktree_assignment_def Let_def abspath_def)
  then show ?thesis by blast
qed

text \<open>What the test of the code for a path inside the runtime directory means.\<close>

lemma path_is_within_parts:
  assumes "path_is_within sys path parent"
  shows "\<exists>zs. real_parts path = real_parts (abspath sys parent) @ zs"
  using assms unfolding path_is_within_def by (rule commonpath_parts)

text \<open>Worktrees and branches of tasks with different slugs are apart.\<close>

lemma places_apart:
  assumes "slug_id (sh_task_id s)" "slug_id (sh_task_id t)" "sh_task_id s \<noteq> sh_task_id t" "starts_with (sv_cwd sys) ''/''"
  shows "wa_worktree_path (assignment_of h sys q s) \<noteq> wa_worktree_path (assignment_of h sys q t)"
    and "wa_branch_name (assignment_of h sys q s) \<noteq> wa_branch_name (assignment_of h sys q t)"
proof -
  show "wa_worktree_path (assignment_of h sys q s) \<noteq> wa_worktree_path (assignment_of h sys q t)"
    using assignment_path [OF assms(1,4)] assignment_path [OF assms(2,4)]
      normpath_distinct [OF slug_id_proper [OF assms(1)] slug_id_proper [OF assms(2)] assms(3)] by metis
  show "wa_branch_name (assignment_of h sys q s) \<noteq> wa_branch_name (assignment_of h sys q t)"
    using assms by (simp add: assignment_branch)
qed

lemma assignment_within:
  "wa_path_within (assignment_of h sys q s) = path_is_within sys (wa_worktree_path (assignment_of h sys q s)) (runtime_root_of sys q)"
  "wa_path_exists (assignment_of h sys q s) = sv_exists sys (wa_worktree_path (assignment_of h sys q s))"
  by (simp_all add: assignment_of_def build_worktree_assignment_def Let_def)

lemma ready_assignment:
  assumes "pk_status (build_stage_parallel_worktree_assignment_preview h sys q) = ''preview_ready''"
  shows "disjoint_tasks (shards_of q)" "a \<in> set (assignments_of h sys q) \<Longrightarrow> sound_place a \<and> \<not> wa_path_exists a"
  using assms assignments_unblocked [of h sys q] unfolding assignment_status by (simp_all split: if_splits)

lemma ready_disjoint:
  "pk_status (build_stage_parallel_worktree_assignment_preview h sys q) = ''preview_ready'' \<Longrightarrow> s \<in> set (shards_of q) \<Longrightarrow> t \<in> set (shards_of q) \<Longrightarrow>
    sh_task_id s \<noteq> sh_task_id t \<Longrightarrow> set (sh_allowed_files s) \<inter> set (sh_allowed_files t) = {}"
  using ready_assignment(1) by (simp add: disjoint_tasks_def)

lemma ready_place:
  assumes "pk_status (build_stage_parallel_worktree_assignment_preview h sys q) = ''preview_ready''" "s \<in> set (shards_of q)"
  shows "\<not> sv_exists sys (wa_worktree_path (assignment_of h sys q s))"
    and "\<exists>zs. real_parts (wa_worktree_path (assignment_of h sys q s)) = real_parts (abspath sys (runtime_root_of sys q)) @ zs"
proof -
  have "sound_place (assignment_of h sys q s) \<and> \<not> wa_path_exists (assignment_of h sys q s)"
    by (rule ready_assignment(2) [OF assms(1)]) (simp add: assignments_eq assms(2))
  then have "path_is_within sys (wa_worktree_path (assignment_of h sys q s)) (runtime_root_of sys q)"
    and "\<not> sv_exists sys (wa_worktree_path (assignment_of h sys q s))"
    unfolding sound_place_def assignment_within by auto
  then show "\<not> sv_exists sys (wa_worktree_path (assignment_of h sys q s))"
    and "\<exists>zs. real_parts (wa_worktree_path (assignment_of h sys q s)) = real_parts (abspath sys (runtime_root_of sys q)) @ zs"
    by (simp, metis path_is_within_parts)
qed

section \<open>The group\<close>

lemma group_previews: "gp_executor_previews (build_stage_parallel_executor_group_preview h sys q)
    = map (executor_preview_of (build_stage_parallel_run_preview h sys q)) (assignments_of h sys q)"
  by (simp add: build_stage_parallel_executor_group_preview_def assignments_of_def Let_def)

lemma group_preview_blocking [simp]:
  "pk_blocking_reasons (build_stage_parallel_executor_group_preview h sys q)
    = pk_blocking_reasons (build_stage_parallel_worktree_assignment_preview h sys q)"
  by (simp add: build_stage_parallel_executor_group_preview_def Let_def)

lemma group_preview_status:
  "pk_status (build_stage_parallel_executor_group_preview h sys q)
    = (if pk_blocking_reasons (build_stage_parallel_worktree_assignment_preview h sys q) = [] then ''preview_ready'' else ''blocked'')"
  by (simp add: build_stage_parallel_executor_group_preview_def Let_def assignment_status)

definition statuses_of :: "(string \<Rightarrow> string) \<Rightarrow> system_view \<Rightarrow> stage_request \<Rightarrow> (string \<times> executor_result) list \<Rightarrow> shard_status list" where
  "statuses_of h sys q results = shard_statuses_of (build_stage_parallel_executor_group_preview h sys q) results"

lemma statuses_of_eq: "statuses_of h sys q results =
    map (\<lambda>a. build_parallel_shard_status (executor_preview_of (build_stage_parallel_run_preview h sys q) a) (map_of results (wa_task_id a)))
      (assignments_of h sys q)"
  by (simp add: statuses_of_def shard_statuses_of_def group_previews executor_preview_of_def Let_def)

lemma statuses_of_not_Nil [simp]: "statuses_of h sys q results \<noteq> []"
  by (simp add: statuses_of_eq)

definition settled_shard :: "shard_status \<Rightarrow> bool" where
  "settled_shard s \<longleftrightarrow> ss_status s = ''succeeded'' \<and> ss_validation_status s = ''passed''"

definition passed_result :: "(string \<times> executor_result) list \<Rightarrow> string \<Rightarrow> bool" where
  "passed_result results t \<longleftrightarrow>
    (\<exists>r. map_of results t = Some r \<and> er_status r = ''succeeded'' \<and> er_validation_status r = ''passed'')"

lemma built_status_settled [simp]:
  "settled_shard (build_parallel_shard_status p (map_of results t)) \<longleftrightarrow> passed_result results t"
  by (simp add: settled_shard_def build_parallel_shard_status_def passed_result_def Let_def split: option.splits)

lemma shard_blockers_settled: "settled_shard s \<Longrightarrow> shard_blockers s = []"
  by (simp add: settled_shard_def shard_blockers_def)

lemma shard_blockers_Nil: "shard_blockers s = [] \<Longrightarrow> settled_shard s \<or> ss_status s \<in> {''planned'', ''running''}"
  by (auto simp: shard_blockers_def settled_shard_def split: if_splits)

lemma left_blockers: "parallel_group_blockers_for_results bs True = [] \<longleftrightarrow> expected_only bs"
  by (auto simp: parallel_group_blockers_for_results_def expected_only_def filter_empty_conv)

text \<open>The status as a function of the blockers of the assignments and of the shards.\<close>

lemma group_status_cases:
  fixes h :: "string \<Rightarrow> string" and sys :: system_view and q :: stage_request and v :: py
  defines "results \<equiv> normalize_executor_results v"
  defines "bs \<equiv> pk_blocking_reasons (build_stage_parallel_worktree_assignment_preview h sys q)"
  shows "pk_status (build_stage_parallel_group_status h sys q v) =
    (if results = [] then (if bs = [] then ''waiting_for_executor_results'' else ''blocked'')
     else if \<not> expected_only bs \<or> parallel_result_blockers (statuses_of h sys q results) \<noteq> [] then ''blocked''
     else if list_all settled_shard (statuses_of h sys q results) then ''merge_ready'' else ''waiting_for_executor_results'')"
proof -
  let ?ss = "statuses_of h sys q results"
  let ?G = "build_stage_parallel_executor_group_preview h sys q"
  have blockers: "group_blockers ?G results = [] \<longleftrightarrow>
      (if results = [] then bs = [] else expected_only bs \<and> parallel_result_blockers ?ss = [])"
    using left_blockers [of bs]
    by (simp add: group_blockers_def statuses_of_def bs_def parallel_group_blockers_for_results_def)
  have settled: "list_all settled_shard ?ss \<longleftrightarrow>
      list_all (\<lambda>s. ss_status s = ''succeeded'') ?ss \<and> list_all (\<lambda>s. ss_validation_status s = ''passed'') ?ss"
    by (auto simp: list_all_iff settled_shard_def)
  have open_shards: "parallel_result_blockers ?ss = [] \<Longrightarrow> \<not> list_all settled_shard ?ss \<Longrightarrow>
      list_ex (\<lambda>s. ss_status s \<in> set [''planned'', ''running'']) ?ss"
    using shard_blockers_Nil by (fastforce simp: parallel_result_blockers_def list_all_iff list_ex_iff)
  have ne: "shard_statuses_of ?G results \<noteq> []" using statuses_of_not_Nil unfolding statuses_of_def .
  have status: "pk_status (build_stage_parallel_group_status h sys q v) =
    (if results \<noteq> [] \<and> list_all settled_shard ?ss \<and> group_blockers ?G results = [] then ''merge_ready''
     else if (results \<noteq> [] \<and> list_ex (\<lambda>s. ss_status s \<in> set [''planned'', ''running'']) ?ss \<and> group_blockers ?G results = [])
        \<or> (pk_status ?G = ''preview_ready'' \<and> results = []) then ''waiting_for_executor_results''
     else if group_blockers ?G results \<noteq> [] then ''blocked'' else if pk_status ?G = [] then ''empty'' else pk_status ?G)"
    using ne settled [unfolded statuses_of_def]
    unfolding build_stage_parallel_group_status_def Let_def results_def [symmetric] statuses_of_def
    by (simp only: packet.select_convs simp_thms conj_ac)
  define P where "P = list_all settled_shard ?ss"
  define R where "R = list_ex (\<lambda>s. ss_status s \<in> set [''planned'', ''running'']) ?ss"
  define B where "B = (parallel_result_blockers ?ss = [])"
  have "B \<Longrightarrow> \<not> P \<Longrightarrow> R" using open_shards unfolding B_def P_def R_def .
  then show ?thesis
    unfolding status blockers group_preview_status bs_def [symmetric] P_def [symmetric] R_def [symmetric] B_def [symmetric]
    by (cases "results = []"; cases "bs = []"; cases "expected_only bs"; cases B; cases P) simp_all
qed

text \<open>Ready to merge: no file is shared, every place is sound, every shard has a passed result.\<close>

lemma all_settled: "list_all settled_shard (statuses_of h sys q results) \<longleftrightarrow>
    (\<forall>a\<in>set (assignments_of h sys q). passed_result results (wa_task_id a))"
  by (simp add: statuses_of_eq list_all_iff)

lemma no_result_blockers: "list_all settled_shard ss \<Longrightarrow> parallel_result_blockers ss = []"
  by (simp add: parallel_result_blockers_def list_all_iff shard_blockers_settled)

lemma group_merge_ready:
  "pk_status (build_stage_parallel_group_status h sys q v) = ''merge_ready'' \<longleftrightarrow>
    disjoint_tasks (shards_of q)
    \<and> (\<forall>a\<in>set (assignments_of h sys q). sound_place a \<and> passed_result (normalize_executor_results v) (wa_task_id a))"
proof -
  let ?r = "normalize_executor_results v"
  obtain a where a: "a \<in> set (assignments_of h sys q)" using assignments_not_Nil by (meson last_in_set)
  have "?r = [] \<Longrightarrow> \<not> passed_result ?r (wa_task_id a)" by (simp add: passed_result_def)
  with a show ?thesis
    unfolding group_status_cases using no_result_blockers [of "statuses_of h sys q ?r"]
    by (auto simp: all_settled assignments_expected_only)
qed

lemma merge_preview_group:
  "pk_status (build_stage_parallel_merge_preview h sys q v) =
    (if pk_status (build_stage_parallel_group_status h sys q v) = ''merge_ready'' then ''preview_ready'' else ''blocked'')"
  by (simp add: build_stage_parallel_merge_preview_def Let_def)

lemma group_shard_statuses:
  "sp_shard_statuses (build_stage_parallel_group_status h sys q v) = statuses_of h sys q (normalize_executor_results v)"
  by (simp add: build_stage_parallel_group_status_def statuses_of_def Let_def)

lemma merge_sequence:
  "mg_merge_sequence (mp_merge_plan (build_stage_parallel_merge_preview h sys q v)) =
    (if pk_status (build_stage_parallel_group_status h sys q v) = ''merge_ready''
     then build_merge_sequence (statuses_of h sys q (normalize_executor_results v)) else [])"
  by (simp add: build_stage_parallel_merge_preview_def Let_def group_shard_statuses)

lemma built_status_place [simp]:
  "ss_branch_name (build_parallel_shard_status p r) = ep_branch_name p"
  "ss_worktree_path (build_parallel_shard_status p r) = ep_worktree_path p"
  "ss_task_id (build_parallel_shard_status p r) = ep_task_id p"
  by (simp_all add: build_parallel_shard_status_def Let_def split: option.splits)

lemma preview_place [simp]:
  "ep_branch_name (executor_preview_of run a) = wa_branch_name a"
  "ep_worktree_path (executor_preview_of run a) = wa_worktree_path a"
  "ep_task_id (executor_preview_of run a) = wa_task_id a"
  by (simp_all add: executor_preview_of_def Let_def)

lemma merge_sequence_sources:
  "map (\<lambda>m. (ms_task_id m, ms_source_branch m, ms_source_worktree_path m)) (build_merge_sequence (statuses_of h sys q r))
    = map (\<lambda>a. (wa_task_id a, wa_branch_name a, wa_worktree_path a)) (assignments_of h sys q)"
  by (simp add: build_merge_sequence_def statuses_of_eq case_prod_beta comp_def map_snd_enumerate
      flip: map_map [of "\<lambda>s. (ss_task_id s, ss_branch_name s, ss_worktree_path s)" snd, unfolded comp_def])

lemma merge_sequence_order: "map ms_order (build_merge_sequence ss) = [1..<Suc (length ss)]"
  by (simp add: build_merge_sequence_def case_prod_beta comp_def flip: map_fst_enumerate [of 1 ss])

lemma merge_sequence_entries:
  "map (\<lambda>m. (ms_order m, ms_task_id m, ms_source_branch m, ms_source_worktree_path m)) (build_merge_sequence (statuses_of h sys q r))
    = map (\<lambda>(i, a). (i, wa_task_id a, wa_branch_name a, wa_worktree_path a)) (List.enumerate 1 (assignments_of h sys q))"
  by (simp add: build_merge_sequence_def statuses_of_eq enumerate_eq_zip zip_map2 comp_def case_prod_beta)

section \<open>Reported results\<close>

text \<open>Of several results for a task the last one counts.\<close>

lemma map_of_fold_update:
  "map_of (foldl (\<lambda>m x. case f x of None \<Rightarrow> m | Some r \<Rightarrow> AList.update (k r) r m) m xs) t =
    (case find (\<lambda>r. k r = t) (rev (List.map_filter f xs)) of Some r \<Rightarrow> Some r | None \<Rightarrow> map_of m t)"
proof (induction xs arbitrary: m)
  case (Cons x xs)
  then show ?case
    by (cases "f x") (auto simp: find_append update_conv' split: option.splits)
qed simp

lemma last_result_counts:
  "map_of (normalize_executor_results (PList xs)) t = find (\<lambda>r. er_task_id r = t) (rev (List.map_filter result_of_item xs))"
  by (simp add: normalize_executor_results_def map_of_fold_update split: option.splits)

section \<open>What the checks do not see\<close>

definition ex_view :: system_view where
  "ex_view = \<lparr>sv_cwd = ''/w'', sv_home = (\<lambda>p. p), sv_exists = (\<lambda>p. False), sv_is_dir = (\<lambda>p. False)\<rparr>"

definition ex_hash :: "string \<Rightarrow> string" where
  "ex_hash s = ''0123456789ab''"

definition ex_stage :: "py list \<Rightarrow> stage_request" where
  "ex_stage tasks = \<lparr>sq_project_root = ''/w/p'', sq_project_name = Some ''p'', sq_stage_id = PStr ''s1'',
     sq_task_intents = PList tasks, sq_max_parallel_tasks = PNone, sq_provider = PNone, sq_base_branch = PNone\<rparr>"

definition ex_task :: "string \<Rightarrow> string \<Rightarrow> py" where
  "ex_task title file_name = PDict [(''title'', PStr title), (''allowed_files'', PList [PStr file_name])]"

definition ex_done :: "string \<Rightarrow> string \<Rightarrow> py" where
  "ex_done task file_name = PDict [(''task_id'', PStr task), (''status'', PStr ''succeeded''), (''validation_status'', PStr ''passed''),
     (''changed_files'', PList [PStr file_name])]"

text \<open>
  Two tasks of the same title get the same task id: the file they share is no overlap, and they are
  assigned the same worktree and branch.
\<close>

lemma twin_tasks_share_a_worktree:
  defines "q \<equiv> ex_stage [ex_task ''Same'' ''a.py'', ex_task ''Same'' ''a.py'']"
  shows "pk_status (build_stage_parallel_worktree_assignment_preview ex_hash ex_view q) = ''preview_ready''"
    and "map wa_worktree_path (assignments_of ex_hash ex_view q) =
      replicate 2 ''/w/p/.colameta/runtime/parallel-worktrees/parallel_group_s1_0123456789/same''"
    and "map wa_branch_name (assignments_of ex_hash ex_view q) = replicate 2 ''colameta/s1/same''"
  unfolding q_def by code_simp+

text \<open>Two spellings of one file are two files.\<close>

lemma spellings_are_no_overlap:
  "file_overlaps (shards_of (ex_stage [ex_task ''one'' ''a.py'', ex_task ''two'' ''./a.py''])) = []"
  by code_simp

text \<open>The files a shard really changed are listed in the merge plan and compared with nothing.\<close>

lemma changes_outside_are_ready:
  "pk_status (build_stage_parallel_merge_preview ex_hash ex_view (ex_stage [ex_task ''one'' ''a.py''])
      (PList [ex_done ''one'' ''b.py''])) = ''preview_ready''"
  by code_simp

end
