(* ===== verification/WorkflowRecords.thy ===== *)
theory WorkflowRecords
  imports StateDicts PyCollections
begin

text \<open>
  \<open>runner/workflow_records.py\<close>: the store of workflow run records, one JSON file per run.  The directory is
  a list of its entries in the order the system lists them; a record is read back as the JSON value it
  was written as.  Identifiers, times, write faults and the digest are parameters.
\<close>

section \<open>Identifiers and files\<close>

definition SENSITIVE_FIELD_KEYS :: "string list" where
  "SENSITIVE_FIELD_KEYS = [''old_text'', ''new_text'', ''patch_text'', ''spec_json'', ''plan_json'', ''prompt'',
     ''first_version_prompt'', ''markdown'', ''content'', ''report'', ''new_content'', ''section_content'']"

datatype wf_error = Empty_Id | Unsafe_Id | Dotdot_Id | Separator_Id | Traversal | Not_Found | Write_Failed string

definition run_id_char :: "char \<Rightarrow> bool" where
  "run_id_char c = (let n = (of_char c :: nat) in
     (97 \<le> n \<and> n \<le> 122) \<or> (65 \<le> n \<and> n \<le> 90) \<or> (48 \<le> n \<and> n \<le> 57) \<or> n = 95 \<or> n = 45)"

text \<open>None: the identifier is accepted.\<close>

definition validate_workflow_id :: "py \<Rightarrow> wf_error option" where
  "validate_workflow_id v =
    (case v of
       PStr s \<Rightarrow>
         if py_strip s = [] then Some Empty_Id
         else if \<not> (1 \<le> length s \<and> length s \<le> 64 \<and> list_all run_id_char s) then Some Unsafe_Id
         else if contains_str s ''..'' then Some Dotdot_Id
         else if contains_str s ''/'' \<or> CHR 0x5C \<in> set s then Some Separator_Id
         else None
     | _ \<Rightarrow> Some Empty_Id)"

text \<open>A directory entry: a directory, a file that cannot be parsed, or a file with a JSON value.\<close>

datatype wf_entry = Subdirectory | Damaged | Parsed py

text \<open>\<open>wd_escapes\<close> are the entries that resolve to a place outside the directory.\<close>

record wf_dir =
  wd_exists :: bool
  wd_entries :: "(string \<times> wf_entry) list"
  wd_escapes :: "string list"

definition record_file :: "string \<Rightarrow> string" where
  "record_file workflow_id = workflow_id @ ''.json''"

text \<open>\<open>_read_json_safe\<close>: None also for a file that holds null.\<close>

definition read_json_safe :: "wf_dir \<Rightarrow> string \<Rightarrow> py option" where
  "read_json_safe dir fname =
    (case map_of (wd_entries dir) fname of
       Some (Parsed v) \<Rightarrow> if v = PNone then None else Some v
     | _ \<Rightarrow> None)"

text \<open>A fault strikes when the directory is made and before the file is replaced.\<close>

definition atomic_write_json :: "string option \<Rightarrow> string \<Rightarrow> py \<Rightarrow> wf_dir \<Rightarrow> (wf_error + unit) \<times> wf_dir" where
  "atomic_write_json fault fname data dir =
    (let made = dir\<lparr>wd_exists := True\<rparr>
     in case fault of
          Some e \<Rightarrow> (Inl (Write_Failed e), made)
        | None \<Rightarrow>
            if map_of (wd_entries dir) fname = Some Subdirectory then (Inl (Write_Failed ''IsADirectoryError''), made)
            else (Inr (), made\<lparr>wd_entries := AList.update fname (Parsed data) (wd_entries dir), wd_escapes := removeAll fname (wd_escapes dir)\<rparr>))"

section \<open>Merging\<close>

text \<open>\<open>for x in new: if x not in existing: existing.append(x)\<close>\<close>

fun merge_new :: "py \<Rightarrow> py list \<Rightarrow> py result" where
  "merge_new existing [] = Inr existing"
| "merge_new existing (x # xs) =
     ebind (py_in x existing) (\<lambda>present.
       if present then merge_new existing xs
       else ebind (py_append existing x) (\<lambda>e. merge_new e xs))"

section \<open>Masking\<close>

definition mask_of :: "(string \<Rightarrow> string) \<Rightarrow> string \<Rightarrow> string \<Rightarrow> py" where
  "mask_of sha256 key s = PDict [(''present'', PBool True), (''length'', PInt (int (length s))), (''sha256'', PStr (sha256 s)), (''kind'', PStr key)]"

definition masked_field :: "string \<Rightarrow> py \<Rightarrow> bool" where
  "masked_field key v \<longleftrightarrow> key \<in> set SENSITIVE_FIELD_KEYS \<and> (case v of PStr s \<Rightarrow> s \<noteq> [] | _ \<Rightarrow> False)"

fun text_payload :: "py \<Rightarrow> string" where
  "text_payload (PStr s) = s" | "text_payload _ = []"

fun deep_sanitize_summary :: "(string \<Rightarrow> string) \<Rightarrow> py \<Rightarrow> py" where
  "deep_sanitize_summary sha256 (PDict d) =
     PDict (map (\<lambda>kv. (fst kv, if masked_field (fst kv) (snd kv) then mask_of sha256 (fst kv) (text_payload (snd kv))
                               else deep_sanitize_summary sha256 (snd kv))) d)"
| "deep_sanitize_summary sha256 (PList xs) = PList (map (deep_sanitize_summary sha256) xs)"
| "deep_sanitize_summary sha256 v = v"

definition sanitize_key :: "(string \<Rightarrow> string) \<Rightarrow> string \<Rightarrow> dict \<Rightarrow> dict" where
  "sanitize_key sha256 k s = (if dhas s k then dset k (deep_sanitize_summary sha256 (dget s k)) s else s)"

definition sanitize_step :: "(string \<Rightarrow> string) \<Rightarrow> py \<Rightarrow> py" where
  "sanitize_step sha256 step =
    (case step of PDict s \<Rightarrow> PDict (sanitize_key sha256 ''outputs_summary'' (sanitize_key sha256 ''inputs_summary'' s)) | v \<Rightarrow> v)"

definition sanitize_record :: "(string \<Rightarrow> string) \<Rightarrow> dict \<Rightarrow> dict result" where
  "sanitize_record sha256 r =
    ebind (py_items (dget_or r ''steps'' (PList []))) (\<lambda>steps. Inr
      [(''workflow_id'', dget_or r ''workflow_id'' (PStr [])), (''workflow_name'', dget_or r ''workflow_name'' (PStr [])),
       (''created_at'', dget_or r ''created_at'' (PStr [])), (''updated_at'', dget_or r ''updated_at'' (PStr [])),
       (''finished_at'', dget r ''finished_at''), (''status'', dget_or r ''status'' (PStr [])),
       (''risk_level'', dget_or r ''risk_level'' (PStr ''info'')), (''tool_name'', dget_or r ''tool_name'' (PStr [])),
       (''project_root'', dget_or r ''project_root'' (PStr [])), (''git_head_before'', dget r ''git_head_before''),
       (''git_head_after'', dget r ''git_head_after''),
       (''inputs_summary'', deep_sanitize_summary sha256 (dget_or r ''inputs_summary'' (PDict []))),
       (''outputs_summary'', deep_sanitize_summary sha256 (dget_or r ''outputs_summary'' (PDict []))),
       (''changed_files'', dget_or r ''changed_files'' (PList [])), (''diff_hash'', dget r ''diff_hash''),
       (''stop_reason'', dget r ''stop_reason''), (''warnings'', dget_or r ''warnings'' (PList [])),
       (''blockers'', dget_or r ''blockers'' (PList [])), (''preview_ids'', dget_or r ''preview_ids'' (PList [])),
       (''steps'', PList (map (sanitize_step sha256) steps))])"

definition summarize_run :: "dict \<Rightarrow> dict result" where
  "summarize_run r =
    ebind (py_len (dget_or r ''changed_files'' (PList []))) (\<lambda>files.
    ebind (py_len (dget_or r ''steps'' (PList []))) (\<lambda>steps. Inr
      [(''workflow_id'', dget_or r ''workflow_id'' (PStr [])), (''workflow_name'', dget_or r ''workflow_name'' (PStr [])),
       (''created_at'', dget_or r ''created_at'' (PStr [])), (''updated_at'', dget_or r ''updated_at'' (PStr [])),
       (''finished_at'', dget r ''finished_at''), (''status'', dget_or r ''status'' (PStr [])),
       (''risk_level'', dget_or r ''risk_level'' (PStr ''info'')), (''tool_name'', dget_or r ''tool_name'' (PStr [])),
       (''stop_reason'', dget r ''stop_reason''), (''preview_ids'', dget_or r ''preview_ids'' (PList [])),
       (''changed_files_count'', PInt (int files)), (''step_count'', PInt (int steps))]))"

section \<open>Operations\<close>

text \<open>The arguments of \<open>create_run\<close>, with what it draws: two identifiers and the time.\<close>

record create_args =
  ca_workflow_name :: string
  ca_tool_name :: string
  ca_action :: string
  ca_inputs_summary :: "dict option"
  ca_risk_level :: string
  ca_project_root :: string
  ca_workflow_id :: string
  ca_step_id :: string
  ca_now :: string

definition inputs_or_empty :: "create_args \<Rightarrow> py" where
  "inputs_or_empty a = PDict (case ca_inputs_summary a of Some d \<Rightarrow> d | None \<Rightarrow> [])"

definition first_step :: "create_args \<Rightarrow> dict" where
  "first_step a =
    [(''step_id'', PStr (ca_step_id a)), (''started_at'', PStr (ca_now a)), (''finished_at'', PStr (ca_now a)),
     (''tool_name'', PStr (ca_tool_name a)), (''action'', PStr (ca_action a)), (''status'', PStr ''running''),
     (''risk_level'', PStr (ca_risk_level a)), (''inputs_summary'', inputs_or_empty a), (''outputs_summary'', PDict []),
     (''changed_files'', PList []), (''diff_hash'', PNone), (''preview_ids'', PList []), (''warnings'', PList []),
     (''blockers'', PList []), (''error_code'', PNone), (''stop_reason'', PNone)]"

definition new_record :: "create_args \<Rightarrow> dict" where
  "new_record a =
    [(''workflow_id'', PStr (ca_workflow_id a)), (''workflow_name'', PStr (ca_workflow_name a)),
     (''created_at'', PStr (ca_now a)), (''updated_at'', PStr (ca_now a)), (''finished_at'', PNone),
     (''status'', PStr ''running''), (''risk_level'', PStr (ca_risk_level a)), (''steps'', PList [PDict (first_step a)]),
     (''inputs_summary'', inputs_or_empty a), (''outputs_summary'', PDict []), (''changed_files'', PList []),
     (''diff_hash'', PNone), (''stop_reason'', PNone), (''warnings'', PList []), (''blockers'', PList []),
     (''preview_ids'', PList []), (''tool_name'', PStr (ca_tool_name a)), (''project_root'', PStr (ca_project_root a)),
     (''git_head_before'', PNone), (''git_head_after'', PNone)]"

text \<open>The reply of an operation: an error, or the record that was written.\<close>

type_synonym wf_reply = "wf_error + dict"

definition create_run :: "string option \<Rightarrow> create_args \<Rightarrow> wf_dir \<Rightarrow> wf_reply \<times> wf_dir" where
  "create_run fault a dir =
    (case validate_workflow_id (PStr (ca_workflow_id a)) of
       Some e \<Rightarrow> (Inl e, dir)
     | None \<Rightarrow>
         (case atomic_write_json fault (record_file (ca_workflow_id a)) (PDict (new_record a)) dir of
            (Inl e, dir') \<Rightarrow> (Inl e, dir')
          | (Inr _, dir') \<Rightarrow> (Inr (new_record a), dir')))"

text \<open>The part the two updates share: find the record, compute its successor, write it.\<close>

definition load_record :: "string \<Rightarrow> wf_dir \<Rightarrow> wf_error + py" where
  "load_record workflow_id dir =
    (case validate_workflow_id (PStr workflow_id) of
       Some e \<Rightarrow> Inl e
     | None \<Rightarrow>
         if record_file workflow_id \<in> set (wd_escapes dir) then Inl Traversal
         else case read_json_safe dir (record_file workflow_id) of
                None \<Rightarrow> Inl Not_Found
              | Some v \<Rightarrow> Inr v)"

definition save_record :: "string option \<Rightarrow> string \<Rightarrow> dict \<Rightarrow> wf_dir \<Rightarrow> wf_reply \<times> wf_dir" where
  "save_record fault workflow_id r dir =
    (case atomic_write_json fault (record_file workflow_id) (PDict r) dir of
       (Inl e, dir') \<Rightarrow> (Inl e, dir')
     | (Inr _, dir') \<Rightarrow> (Inr r, dir'))"

text \<open>What \<open>append_step\<close> makes of a record.\<close>

definition with_merged :: "string \<Rightarrow> py list \<Rightarrow> dict \<Rightarrow> dict result" where
  "with_merged k new r = ebind (merge_new (dget_or r k (PList [])) new) (\<lambda>v. Inr (dset k v r))"

definition appended :: "string \<Rightarrow> dict \<Rightarrow> dict \<Rightarrow> dict result" where
  "appended now step r =
    ebind (py_append (dget_or r ''steps'' (PList [])) (PDict step)) (\<lambda>steps.
    ebind (py_items (dget_or step ''preview_ids'' (PList []))) (\<lambda>pids.
    ebind (with_merged ''preview_ids'' pids (dset ''updated_at'' (PStr now) (dset ''steps'' steps r))) (\<lambda>r1.
    ebind (if truthy (dget_or step ''changed_files'' (PList []))
           then ebind (py_items (dget_or step ''changed_files'' (PList []))) (\<lambda>files. with_merged ''changed_files'' files r1)
           else Inr r1) (\<lambda>r2.
    Inr (if truthy (dget step ''diff_hash'') then dset ''diff_hash'' (dget step ''diff_hash'') r2 else r2)))))"

definition append_step :: "string option \<Rightarrow> string \<Rightarrow> string \<Rightarrow> dict \<Rightarrow> wf_dir \<Rightarrow> wf_reply result \<times> wf_dir" where
  "append_step fault now workflow_id step dir =
    (case load_record workflow_id dir of
       Inl e \<Rightarrow> (Inr (Inl e), dir)
     | Inr v \<Rightarrow>
         (case ebind (as_dict v) (appended now step) of
            Inl x \<Rightarrow> (Inl x, dir)
          | Inr r \<Rightarrow> apfst Inr (save_record fault workflow_id r dir)))"

record finish_args =
  fa_status :: string
  fa_outputs_summary :: "dict option"
  fa_stop_reason :: "string option"
  fa_warnings :: "string list option"
  fa_blockers :: "string list option"
  fa_step_outputs_summary :: "dict option"
  fa_step_changed_files :: "string list option"
  fa_step_diff_hash :: "string option"
  fa_step_preview_ids :: "string list option"

definition set_opt :: "string \<Rightarrow> py option \<Rightarrow> dict \<Rightarrow> dict" where
  "set_opt k v d = (case v of Some x \<Rightarrow> dset k x d | None \<Rightarrow> d)"

definition opt_truthy :: "py option \<Rightarrow> py option" where
  "opt_truthy v = (case v of Some x \<Rightarrow> if truthy x then Some x else None | None \<Rightarrow> None)"

definition finished_step :: "finish_args \<Rightarrow> string \<Rightarrow> dict \<Rightarrow> dict" where
  "finished_step f now s =
    set_opt ''preview_ids'' (map_option strs (fa_step_preview_ids f))
    (set_opt ''diff_hash'' (map_option PStr (fa_step_diff_hash f))
    (set_opt ''changed_files'' (map_option strs (fa_step_changed_files f))
    (set_opt ''outputs_summary'' (map_option PDict (fa_step_outputs_summary f))
    (set_opt ''stop_reason'' (opt_truthy (map_option PStr (fa_stop_reason f)))
    (dset ''finished_at'' (PStr now) (dset ''status'' (PStr (fa_status f)) s))))))"

text \<open>\<open>steps[-1][...] = ...\<close>: the last step must be a dict in a list.\<close>

definition finish_last :: "finish_args \<Rightarrow> string \<Rightarrow> py \<Rightarrow> py result" where
  "finish_last f now steps =
    (case steps of
       PList xs \<Rightarrow> (case last xs of PDict s \<Rightarrow> Inr (PList (butlast xs @ [PDict (finished_step f now s)])) | _ \<Rightarrow> Inl (Py_Exc ''TypeError''))
     | PDict d \<Rightarrow> Inl (Py_Exc ''KeyError'')
     | _ \<Rightarrow> Inl (Py_Exc ''TypeError''))"

definition merge_given :: "string \<Rightarrow> string list option \<Rightarrow> dict \<Rightarrow> dict result" where
  "merge_given k given r =
    (case given of Some (x # xs) \<Rightarrow> with_merged k (map PStr (x # xs)) r | _ \<Rightarrow> Inr r)"

definition finished_record :: "finish_args \<Rightarrow> string \<Rightarrow> dict \<Rightarrow> dict result" where
  "finished_record f now r =
    (let r1 = set_opt ''blockers'' (map_option strs (fa_blockers f))
          (set_opt ''warnings'' (map_option strs (fa_warnings f))
          (set_opt ''stop_reason'' (map_option PStr (fa_stop_reason f))
          (set_opt ''outputs_summary'' (map_option PDict (fa_outputs_summary f))
          (dset ''updated_at'' (PStr now) (dset ''finished_at'' (PStr now) (dset ''status'' (PStr (fa_status f)) r))))));
         steps = dget_or r1 ''steps'' (PList [])
     in ebind (if truthy steps then ebind (finish_last f now steps) (\<lambda>s. Inr (dset ''steps'' s r1)) else Inr r1) (\<lambda>r2.
        ebind (merge_given ''preview_ids'' (fa_step_preview_ids f) r2) (\<lambda>r3.
        ebind (merge_given ''changed_files'' (fa_step_changed_files f) r3) (\<lambda>r4.
        Inr (set_opt ''diff_hash'' (opt_truthy (map_option PStr (fa_step_diff_hash f))) r4)))))"

definition finish_run :: "string option \<Rightarrow> string \<Rightarrow> string \<Rightarrow> finish_args \<Rightarrow> wf_dir \<Rightarrow> wf_reply result \<times> wf_dir" where
  "finish_run fault now workflow_id f dir =
    (case load_record workflow_id dir of
       Inl e \<Rightarrow> (Inr (Inl e), dir)
     | Inr v \<Rightarrow>
         (case ebind (as_dict v) (finished_record f now) of
            Inl x \<Rightarrow> (Inl x, dir)
          | Inr r \<Rightarrow> apfst Inr (save_record fault workflow_id r dir)))"

section \<open>Queries\<close>

text \<open>The entries a query looks at: JSON files inside the directory.\<close>

definition is_record_entry :: "wf_dir \<Rightarrow> string \<times> wf_entry \<Rightarrow> bool" where
  "is_record_entry dir e \<longleftrightarrow> ends_with (fst e) ''.json'' \<and> snd e \<noteq> Subdirectory \<and> fst e \<notin> set (wd_escapes dir)"

definition entry_value :: "wf_entry \<Rightarrow> py option" where
  "entry_value e = (case e of Parsed v \<Rightarrow> if v = PNone then None else Some v | _ \<Rightarrow> None)"

text \<open>An exception ends the search: the whole loop stands in one \<open>try\<close>.\<close>

fun search_preview :: "string \<Rightarrow> py list \<Rightarrow> dict option" where
  "search_preview pid [] = None"
| "search_preview pid (v # vs) =
     (case ebind (as_dict v) (\<lambda>r. ebind (py_in (PStr pid) (dget_or r ''preview_ids'' (PList []))) (\<lambda>b. Inr (b, r))) of
        Inl _ \<Rightarrow> None
      | Inr (True, r) \<Rightarrow> Some r
      | Inr (False, _) \<Rightarrow> search_preview pid vs)"

definition record_values :: "wf_dir \<Rightarrow> (string \<times> wf_entry) list \<Rightarrow> py list" where
  "record_values dir es = List.map_filter (\<lambda>e. entry_value (snd e)) (filter (is_record_entry dir) es)"

definition find_run_by_preview_id :: "py \<Rightarrow> wf_dir \<Rightarrow> dict option" where
  "find_run_by_preview_id pid dir =
    (case pid of
       PStr s \<Rightarrow> if py_strip s = [] \<or> \<not> wd_exists dir then None else search_preview s (record_values dir (wd_entries dir))
     | _ \<Rightarrow> None)"

definition sort_text :: "dict \<Rightarrow> string \<Rightarrow> string" where
  "sort_text r k = (case dget r k of PStr s \<Rightarrow> s | _ \<Rightarrow> [])"

text \<open>The key of the sort, as a list in the order of the tuple.\<close>

definition list_sort_key :: "dict \<Rightarrow> string list" where
  "list_sort_key r = [sort_text r ''created_at'', sort_text r ''updated_at'', sort_text r ''workflow_id'']"

definition effective_limit :: "py \<Rightarrow> nat" where
  "effective_limit v =
    nat (min (case v of PInt i \<Rightarrow> if i < 1 then 20 else i | PBool b \<Rightarrow> if b then 1 else 20 | _ \<Rightarrow> 20) 100)"

definition run_matches :: "string option \<Rightarrow> string option \<Rightarrow> dict \<Rightarrow> bool" where
  "run_matches name status r \<longleftrightarrow>
    (case name of Some n \<Rightarrow> dget r ''workflow_name'' = PStr n | None \<Rightarrow> True)
    \<and> (case status of Some s \<Rightarrow> dget r ''status'' = PStr s | None \<Rightarrow> True)"

text \<open>Without a filter the record is only looked at when it is sorted and summarised.\<close>

definition listed_runs :: "string option \<Rightarrow> string option \<Rightarrow> py list \<Rightarrow> dict list result" where
  "listed_runs name status vs = ebind (emap as_dict vs) (\<lambda>rs. Inr (filter (run_matches name status) rs))"

definition list_runs :: "py \<Rightarrow> string option \<Rightarrow> string option \<Rightarrow> wf_dir \<Rightarrow> (dict list \<times> string list) result" where
  "list_runs limit name status dir =
    (if \<not> wd_exists dir then Inr ([], [])
     else let es = filter (is_record_entry dir) (sort_reverse fst (wd_entries dir))
          in ebind (listed_runs name status (List.map_filter (\<lambda>e. entry_value (snd e)) es)) (\<lambda>matching.
             ebind (emap summarize_run (take (effective_limit limit) (sort_reverse list_sort_key matching))) (\<lambda>runs.
             Inr (runs, map fst (filter (\<lambda>e. entry_value (snd e) = None) es)))))"

definition get_run :: "(string \<Rightarrow> string) \<Rightarrow> py \<Rightarrow> wf_dir \<Rightarrow> (wf_error + dict) result" where
  "get_run sha256 workflow_id dir =
    (case workflow_id of
       PStr s \<Rightarrow>
         (case load_record s dir of
            Inl e \<Rightarrow> Inr (Inl e)
          | Inr v \<Rightarrow> ebind (as_dict v) (\<lambda>r. ebind (sanitize_record sha256 r) (\<lambda>safe. Inr (Inr safe))))
     | _ \<Rightarrow> Inr (Inl Empty_Id))"

end
