(* ===== verification/WorkflowFacts.thy ===== *)
theory WorkflowFacts
  imports WorkflowRecords
begin

text \<open>
  Facts about the store of workflow runs: masking leaves no sensitive text, the records stay well formed
  under every operation (so none of them raises), recorded previews can be found again, and listings
  are sorted and bounded.
\<close>

section \<open>Masking\<close>

text \<open>A text under a sensitive key, at any depth.\<close>

fun exposes :: "py \<Rightarrow> bool" where
  "exposes (PDict d) = list_ex (\<lambda>kv. masked_field (fst kv) (snd kv) \<or> exposes (snd kv)) d"
| "exposes (PList xs) = list_ex exposes xs"
| "exposes _ = False"

lemma mask_not_masked [simp]: "\<not> masked_field k (mask_of h k' s)"
  by (simp add: masked_field_def mask_of_def)

lemma mask_not_exposed [simp]: "\<not> exposes (mask_of h k s)"
  by (simp add: mask_of_def masked_field_def SENSITIVE_FIELD_KEYS_def)

lemma masked_sanitize [simp]: "masked_field k (deep_sanitize_summary h v) = masked_field k v"
  by (cases v) (auto simp: masked_field_def)

lemma sanitize_exposes_nothing [simp]: "\<not> exposes (deep_sanitize_summary h v)"
  by (induction h v rule: deep_sanitize_summary.induct) (auto simp: list_ex_iff)

lemma sanitize_keeps_clean: "\<not> exposes v \<Longrightarrow> deep_sanitize_summary h v = v"
proof (induction h v rule: deep_sanitize_summary.induct)
  case (1 h d)
  have "(fst kv, if masked_field (fst kv) (snd kv) then mask_of h (fst kv) (text_payload (snd kv)) else deep_sanitize_summary h (snd kv)) = kv"
    if "kv \<in> set d" for kv
    using 1 that by (cases kv) (auto simp: list_ex_iff)
  then show ?case by (simp add: map_idI)
next
  case (2 h xs)
  then show ?case by (simp add: list_ex_iff map_idI)
qed simp_all

lemma sanitize_idem [simp]: "deep_sanitize_summary h (deep_sanitize_summary h v) = deep_sanitize_summary h v"
  by (simp add: sanitize_keeps_clean)

text \<open>A step is masked in its two summaries.\<close>

definition step_exposes :: "py \<Rightarrow> bool" where
  "step_exposes v = (case v of PDict s \<Rightarrow> exposes (dget s ''inputs_summary'') \<or> exposes (dget s ''outputs_summary'') | _ \<Rightarrow> False)"

lemma sanitize_step_exposes_nothing: "\<not> step_exposes (sanitize_step h v)"
proof (cases v)
  case (PDict s)
  have none: "\<not> dhas s k \<Longrightarrow> dget s k = PNone" for k
    by (cases "map_of s k") (auto simp: dget_or_def dhas_map_of)
  show ?thesis unfolding PDict step_exposes_def sanitize_step_def sanitize_key_def
    using none [of "''inputs_summary''"] none [of "''outputs_summary''"] by simp
qed (simp_all add: step_exposes_def sanitize_step_def)

lemma sanitized_record:
  assumes "sanitize_record h r = Inr s"
  shows "\<not> exposes (dget s ''inputs_summary'')" "\<not> exposes (dget s ''outputs_summary'')"
    and "\<exists>xs. dget s ''steps'' = PList xs \<and> (\<forall>x\<in>set xs. \<not> step_exposes x)"
  using assms sanitize_step_exposes_nothing
  by (auto simp: sanitize_record_def dget_or_def)

section \<open>Well-formed records\<close>

definition string_set :: "py \<Rightarrow> bool" where
  "string_set v \<longleftrightarrow> (\<exists>ss. v = strs ss \<and> distinct ss)"

definition ids_at :: "dict \<Rightarrow> string \<Rightarrow> string list" where
  "ids_at r k = (case dget_or r k (PList []) of PList xs \<Rightarrow> map text_payload xs | _ \<Rightarrow> [])"

definition record_ok :: "string \<Rightarrow> dict \<Rightarrow> bool" where
  "record_ok i r \<longleftrightarrow> dget r ''workflow_id'' = PStr i
    \<and> (\<exists>xs. dget_or r ''steps'' (PList []) = PList xs \<and> xs \<noteq> [] \<and> list_all is_dict xs)
    \<and> string_set (dget_or r ''preview_ids'' (PList [])) \<and> string_set (dget_or r ''changed_files'' (PList []))"

text \<open>What the callers pass as a step.\<close>

definition step_ok :: "dict \<Rightarrow> bool" where
  "step_ok s \<longleftrightarrow> (\<exists>ss. dget_or s ''preview_ids'' (PList []) = strs ss) \<and> (\<exists>ss. dget_or s ''changed_files'' (PList []) = strs ss)"

definition dir_ok :: "wf_dir \<Rightarrow> bool" where
  "dir_ok dir \<longleftrightarrow> distinct (map fst (wd_entries dir)) \<and> wd_escapes dir = [] \<and> (wd_exists dir \<or> wd_entries dir = [])
    \<and> (\<forall>e\<in>set (wd_entries dir). \<exists>i r. e = (record_file i, Parsed (PDict r)) \<and> record_ok i r)"

lemma map_text_of_strs [simp]: "map (text_payload \<circ> PStr) ss = ss"
  by (simp add: comp_def)

lemma string_set_strs [simp]: "string_set (strs ss) \<longleftrightarrow> distinct ss"
  by (auto simp: string_set_def inj_map_eq_map inj_def)

lemma ids_at_strs: "dget_or r k (PList []) = strs ss \<Longrightarrow> ids_at r k = ss"
  by (simp add: ids_at_def)

lemma string_set_ids: "string_set (dget_or r k (PList [])) \<Longrightarrow> dget_or r k (PList []) = strs (ids_at r k) \<and> distinct (ids_at r k)"
  by (auto simp: string_set_def ids_at_strs)

lemma py_in_strs [simp]: "py_in (PStr x) (strs ss) = Inr (x \<in> set ss)"
  by (auto simp: py_in_def list_ex_iff py_eq_def)

lemma merge_new_strs [simp]: "merge_new (strs ss) (map PStr xs) = Inr (strs (foldl append_unique ss xs))"
proof (induction xs arbitrary: ss)
  case (Cons x xs)
  with Cons [of "ss @ [x]"] show ?case by (simp add: append_unique_def py_append_def)
qed simp

lemma merged_ids:
  assumes "dget_or r k (PList []) = strs ss"
  shows "with_merged k (map PStr xs) r = Inr (dset k (strs (foldl append_unique ss xs)) r)"
  by (simp add: with_merged_def assms)

definition more_ids :: "string \<Rightarrow> string list \<Rightarrow> dict \<Rightarrow> dict" where
  "more_ids k xs r = dset k (strs (foldl append_unique (ids_at r k) xs)) r"

lemma with_merged_ok: "string_set (dget_or r k (PList [])) \<Longrightarrow> with_merged k (map PStr xs) r = Inr (more_ids k xs r)"
  using merged_ids string_set_ids by (simp add: more_ids_def)

lemma more_ids_get [simp]: "dget_or (more_ids k xs r) k' v = (if k = k' then strs (foldl append_unique (ids_at r k) xs) else dget_or r k' v)"
  by (simp add: more_ids_def)

lemma ids_more_ids: "ids_at (more_ids k xs r) k' = (if k = k' then foldl append_unique (ids_at r k) xs else ids_at r k')"
  by (simp add: ids_at_def)

lemma record_ok_frame:
  assumes "record_ok i r" "\<And>k v. k \<in> {''workflow_id'', ''steps'', ''preview_ids'', ''changed_files''} \<Longrightarrow> dget_or r' k v = dget_or r k v"
  shows "record_ok i r'"
  using assms by (simp add: record_ok_def)

lemma record_ok_more:
  assumes "record_ok i r" "k \<in> {''preview_ids'', ''changed_files''}"
  shows "record_ok i (more_ids k xs r)"
proof -
  have "distinct (ids_at r k)" using assms string_set_ids [of r k] by (auto simp: record_ok_def)
  with assms show ?thesis by (auto simp: record_ok_def)
qed

lemma record_ok_dset: "record_ok i r \<Longrightarrow> k \<notin> {''workflow_id'', ''steps'', ''preview_ids'', ''changed_files''} \<Longrightarrow> record_ok i (dset k v r)"
  by (erule record_ok_frame) auto

lemma record_ok_set_opt: "record_ok i r \<Longrightarrow> k \<notin> {''workflow_id'', ''steps'', ''preview_ids'', ''changed_files''} \<Longrightarrow> record_ok i (set_opt k v r)"
  by (simp add: set_opt_def record_ok_dset split: option.splits)

lemma record_ok_steps: "record_ok i r \<Longrightarrow> xs \<noteq> [] \<Longrightarrow> list_all is_dict xs \<Longrightarrow> record_ok i (dset ''steps'' (PList xs) r)"
  by (simp add: record_ok_def)

lemma new_record_ok: "record_ok (ca_workflow_id a) (new_record a)"
  by (simp add: record_ok_def new_record_def dget_or_def string_set_def)

section \<open>The operations on well-formed records\<close>

text \<open>What is recorded is kept, in its order.\<close>

definition keeps_ids :: "dict \<Rightarrow> dict \<Rightarrow> bool" where
  "keeps_ids r r' \<longleftrightarrow> extends (ids_at r ''preview_ids'') (ids_at r' ''preview_ids'')
    \<and> extends (ids_at r ''changed_files'') (ids_at r' ''changed_files'')"

lemma ids_dset [simp]: "ids_at (dset k v r) k' = (if k = k' then (case v of PList xs \<Rightarrow> map text_payload xs | _ \<Rightarrow> []) else ids_at r k')"
  by (simp add: ids_at_def)

lemma ids_set_opt: "k \<noteq> k' \<Longrightarrow> ids_at (set_opt k v r) k' = ids_at r k'"
  by (simp add: set_opt_def split: option.splits)

lemma get_set_opt: "k \<noteq> k' \<Longrightarrow> dget_or (set_opt k v r) k' w = dget_or r k' w"
  by (simp add: set_opt_def split: option.splits)

lemma appended_ok:
  assumes "record_ok i r" "step_ok step"
  obtains r' where "appended now step r = Inr r'" "record_ok i r'" "keeps_ids r r'"
    "set (ids_at r' ''preview_ids'') = set (ids_at r ''preview_ids'') \<union> set (ids_at step ''preview_ids'')"
    "set (ids_at r' ''changed_files'') = set (ids_at r ''changed_files'') \<union> set (ids_at step ''changed_files'')"
    "\<exists>xs. dget r ''steps'' = PList xs \<and> dget r' ''steps'' = PList (xs @ [PDict step])"
proof -
  obtain xs where xs: "dget_or r ''steps'' (PList []) = PList xs" "xs \<noteq> []" "list_all is_dict xs"
    using assms(1) by (auto simp: record_ok_def)
  have xs': "dget r ''steps'' = PList xs" using xs by (auto simp: dget_or_def split: option.splits)
  obtain ps fs where p: "dget_or step ''preview_ids'' (PList []) = strs ps" and f: "dget_or step ''changed_files'' (PList []) = strs fs"
    using assms(2) by (auto simp: step_ok_def)
  define r1 where "r1 = dset ''updated_at'' (PStr now) (dset ''steps'' (PList (xs @ [PDict step])) r)"
  have r1: "record_ok i r1" unfolding r1_def using assms(1) xs by (intro record_ok_dset record_ok_steps) auto
  define r2 where "r2 = more_ids ''preview_ids'' ps r1"
  have r2: "record_ok i r2" unfolding r2_def using r1 by (intro record_ok_more) auto
  define r3 where "r3 = (if fs \<noteq> [] then more_ids ''changed_files'' fs r2 else r2)"
  have r3: "record_ok i r3" unfolding r3_def using r2 by (auto intro: record_ok_more)
  define r4 where "r4 = (if truthy (dget step ''diff_hash'') then dset ''diff_hash'' (dget step ''diff_hash'') r3 else r3)"
  have m2: "with_merged ''preview_ids'' (map PStr ps) r1 = Inr r2"
    unfolding r2_def using r1 by (intro with_merged_ok) (simp add: record_ok_def)
  have m3: "with_merged ''changed_files'' (map PStr fs) r2 = Inr (more_ids ''changed_files'' fs r2)"
    using r2 by (intro with_merged_ok) (simp add: record_ok_def)
  have "appended now step r = Inr r4"
    unfolding appended_def xs(1) p f py_append_def py_items_def
    using m2 [unfolded r1_def] m3 by (simp add: r3_def r4_def)
  moreover have "record_ok i r4" unfolding r4_def using r3 by (auto intro: record_ok_dset)
  moreover have "ids_at r4 ''preview_ids'' = foldl append_unique (ids_at r ''preview_ids'') ps"
    by (simp add: r4_def r3_def r2_def r1_def ids_more_ids)
  moreover have "ids_at r4 ''changed_files'' = foldl append_unique (ids_at r ''changed_files'') fs"
    by (simp add: r4_def r3_def r2_def r1_def ids_more_ids)
  moreover have "dget r4 ''steps'' = PList (xs @ [PDict step])"
    by (simp add: r4_def r3_def r2_def r1_def)
  ultimately show thesis
    using p f xs' by (intro that [of r4]) (auto simp: keeps_ids_def foldl_append_unique_extends ids_at_strs)
qed

definition given_list :: "string list option \<Rightarrow> string list" where
  "given_list v = (case v of Some xs \<Rightarrow> xs | None \<Rightarrow> [])"

lemma merge_given_ok:
  assumes "record_ok i r" "k \<in> {''preview_ids'', ''changed_files''}"
  obtains r' where "merge_given k v r = Inr r'" "record_ok i r'"
    "ids_at r' k = foldl append_unique (ids_at r k) (given_list v)" "\<And>k'. k' \<noteq> k \<Longrightarrow> ids_at r' k' = ids_at r k'"
    "\<And>k' w. k' \<noteq> k \<Longrightarrow> dget_or r' k' w = dget_or r k' w"
proof (cases "given_list v")
  case Nil
  then show thesis by (intro that [of r]) (auto simp: merge_given_def given_list_def assms split: option.splits list.splits)
next
  case (Cons x xs)
  have ok: "string_set (dget_or r k (PList []))" using assms by (auto simp: record_ok_def)
  have "merge_given k v r = Inr (more_ids k (given_list v) r)"
    using Cons with_merged_ok [OF ok, of "x # xs"] by (auto simp: merge_given_def given_list_def split: option.splits)
  then show thesis using assms by (intro that [of "more_ids k (given_list v) r"]) (auto simp: record_ok_more ids_more_ids)
qed

lemma finished_ok:
  assumes "record_ok i r"
  obtains r' where "finished_record f now r = Inr r'" "record_ok i r'" "keeps_ids r r'"
    "set (ids_at r' ''preview_ids'') = set (ids_at r ''preview_ids'') \<union> set (given_list (fa_step_preview_ids f))"
    "set (ids_at r' ''changed_files'') = set (ids_at r ''changed_files'') \<union> set (given_list (fa_step_changed_files f))"
    "dget r' ''status'' = PStr (fa_status f)" "dget r' ''finished_at'' = PStr now"
proof -
  define r1 where "r1 = set_opt ''blockers'' (map_option strs (fa_blockers f))
          (set_opt ''warnings'' (map_option strs (fa_warnings f))
          (set_opt ''stop_reason'' (map_option PStr (fa_stop_reason f))
          (set_opt ''outputs_summary'' (map_option PDict (fa_outputs_summary f))
          (dset ''updated_at'' (PStr now) (dset ''finished_at'' (PStr now) (dset ''status'' (PStr (fa_status f)) r))))))"
  have r1: "record_ok i r1" unfolding r1_def using assms by (intro record_ok_set_opt record_ok_dset) auto
  have i1: "ids_at r1 ''preview_ids'' = ids_at r ''preview_ids''" "ids_at r1 ''changed_files'' = ids_at r ''changed_files''"
    and s1: "dget r1 ''status'' = PStr (fa_status f)" "dget r1 ''finished_at'' = PStr now"
    by (simp_all add: r1_def ids_set_opt get_set_opt)
  obtain xs where xs: "dget_or r1 ''steps'' (PList []) = PList xs" "xs \<noteq> []" "list_all is_dict xs"
    using r1 by (auto simp: record_ok_def)
  then have "is_dict (last xs)" by (simp add: list_all_iff)
  then obtain d where d: "last xs = PDict d" by (cases "last xs") auto
  define ys where "ys = butlast xs @ [PDict (finished_step f now d)]"
  have "list_all is_dict (butlast xs)" using xs(3) by (auto simp: list_all_iff dest: in_set_butlastD)
  then have ys: "ys \<noteq> []" "list_all is_dict ys" by (simp_all add: ys_def)
  define r2 where "r2 = dset ''steps'' (PList ys) r1"
  have r2: "record_ok i r2" unfolding r2_def using r1 ys by (rule record_ok_steps)
  obtain r3 where r3: "merge_given ''preview_ids'' (fa_step_preview_ids f) r2 = Inr r3" "record_ok i r3"
    "ids_at r3 ''preview_ids'' = foldl append_unique (ids_at r2 ''preview_ids'') (given_list (fa_step_preview_ids f))"
    "ids_at r3 ''changed_files'' = ids_at r2 ''changed_files''"
    "dget r3 ''status'' = dget r2 ''status''" "dget r3 ''finished_at'' = dget r2 ''finished_at''"
    by (rule merge_given_ok [OF r2, of "''preview_ids''" "fa_step_preview_ids f"]) auto
  obtain r4 where r4: "merge_given ''changed_files'' (fa_step_changed_files f) r3 = Inr r4" "record_ok i r4"
    "ids_at r4 ''changed_files'' = foldl append_unique (ids_at r3 ''changed_files'') (given_list (fa_step_changed_files f))"
    "ids_at r4 ''preview_ids'' = ids_at r3 ''preview_ids''"
    "dget r4 ''status'' = dget r3 ''status''" "dget r4 ''finished_at'' = dget r3 ''finished_at''"
    by (rule merge_given_ok [OF r3(2), of "''changed_files''" "fa_step_changed_files f"]) auto
  define r5 where "r5 = set_opt ''diff_hash'' (opt_truthy (map_option PStr (fa_step_diff_hash f))) r4"
  have t: "truthy (PList xs)" using xs(2) by simp
  have fin: "finish_last f now (PList xs) = Inr (PList ys)" by (simp add: finish_last_def d ys_def)
  have "finished_record f now r = Inr r5"
    unfolding finished_record_def Let_def r1_def [symmetric] xs(1) using t fin r3(1) [unfolded r2_def] r4(1)
    by (simp add: r5_def)
  moreover have "record_ok i r5" unfolding r5_def using r4(2) by (intro record_ok_set_opt) auto
  moreover have "ids_at r5 k = ids_at r4 k" if "k \<noteq> ''diff_hash''" for k using that by (simp add: r5_def ids_set_opt)
  moreover have "dget r5 k = dget r4 k" if "k \<noteq> ''diff_hash''" for k using that by (simp add: r5_def get_set_opt)
  ultimately show thesis
    using r3 r4 i1 s1 by (intro that [of r5]) (auto simp: keeps_ids_def r2_def foldl_append_unique_extends)
qed

section \<open>The directory\<close>

lemma record_file_inj [simp]: "record_file i = record_file j \<longleftrightarrow> i = j"
  by (simp add: record_file_def)

lemma record_file_json [simp]: "ends_with (record_file i) ''.json''"
  by (simp add: record_file_def ends_with_def)

lemma dir_ok_lookup:
  assumes "dir_ok dir" "map_of (wd_entries dir) (record_file i) = Some e"
  obtains r where "e = Parsed (PDict r)" "record_ok i r"
  using assms map_of_SomeD [OF assms(2)] unfolding dir_ok_def by fastforce

lemma load_ok:
  assumes "dir_ok dir" "load_record i dir = Inr v"
  obtains r where "v = PDict r" "record_ok i r" "map_of (wd_entries dir) (record_file i) = Some (Parsed (PDict r))"
proof -
  obtain e where e: "map_of (wd_entries dir) (record_file i) = Some e" "e = Parsed v"
    using assms(2) by (auto simp: load_record_def read_json_safe_def split: option.splits if_splits wf_entry.splits)
  obtain r where "e = Parsed (PDict r)" "record_ok i r" using dir_ok_lookup [OF assms(1) e(1)] .
  with e show thesis by (auto intro: that)
qed

definition put_record :: "string \<Rightarrow> dict \<Rightarrow> wf_dir \<Rightarrow> wf_dir" where
  "put_record i r dir = dir\<lparr>wd_exists := True, wd_entries := AList.update (record_file i) (Parsed (PDict r)) (wd_entries dir),
     wd_escapes := removeAll (record_file i) (wd_escapes dir)\<rparr>"

lemma dir_ok_made: "dir_ok dir \<Longrightarrow> dir_ok (dir\<lparr>wd_exists := True\<rparr>)"
  by (auto simp: dir_ok_def)

lemma set_update_subset: "set (AList.update k v d) \<subseteq> insert (k, v) (set d)"
  by (induction d) auto

lemma put_record_ok: "dir_ok dir \<Longrightarrow> record_ok i r \<Longrightarrow> dir_ok (put_record i r dir)"
  using set_update_subset [of "record_file i" "Parsed (PDict r)" "wd_entries dir"]
  by (fastforce simp: dir_ok_def put_record_def distinct_update)

lemma save_record_cases:
  assumes "dir_ok dir"
  shows "save_record fault i r dir =
    (case fault of None \<Rightarrow> (Inr r, put_record i r dir) | Some e \<Rightarrow> (Inl (Write_Failed e), dir\<lparr>wd_exists := True\<rparr>))"
proof -
  have "map_of (wd_entries dir) (record_file i) \<noteq> Some Subdirectory"
    using assms by (auto elim: dir_ok_lookup)
  then show ?thesis
    by (auto simp: save_record_def atomic_write_json_def put_record_def Let_def split: option.splits)
qed

lemma create_run_cases:
  assumes "dir_ok dir"
  shows "create_run fault a dir =
    (case validate_workflow_id (PStr (ca_workflow_id a)) of
       Some e \<Rightarrow> (Inl e, dir)
     | None \<Rightarrow> save_record fault (ca_workflow_id a) (new_record a) dir)"
  by (simp add: create_run_def save_record_def split: option.splits)

text \<open>Steps of the store: the three writers, with any fault.\<close>

inductive wf_step :: "wf_dir \<Rightarrow> wf_dir \<Rightarrow> bool" where
  created: "create_run fault a dir = (reply, dir') \<Longrightarrow> wf_step dir dir'"
| step_added: "step_ok step \<Longrightarrow> append_step fault now i step dir = (reply, dir') \<Longrightarrow> wf_step dir dir'"
| run_finished: "finish_run fault now i f dir = (reply, dir') \<Longrightarrow> wf_step dir dir'"

inductive wf_reach :: "wf_dir \<Rightarrow> bool" where
  start: "wf_reach \<lparr>wd_exists = False, wd_entries = [], wd_escapes = []\<rparr>"
| more: "wf_reach dir \<Longrightarrow> wf_step dir dir' \<Longrightarrow> wf_reach dir'"

inductive_cases wf_stepE: "wf_step dir dir'"

lemma append_step_ok:
  assumes "dir_ok dir" "step_ok step"
  shows "(\<exists>e. append_step fault now i step dir = (Inr (Inl e), dir)) \<or>
    (\<exists>r r'. map_of (wd_entries dir) (record_file i) = Some (Parsed (PDict r)) \<and> appended now step r = Inr r'
      \<and> record_ok i r' \<and> append_step fault now i step dir = apfst Inr (save_record fault i r' dir))"
proof (cases "load_record i dir")
  case (Inr v)
  obtain r where r: "v = PDict r" "record_ok i r" "map_of (wd_entries dir) (record_file i) = Some (Parsed (PDict r))"
    using load_ok [OF assms(1) Inr] .
  obtain r' where "appended now step r = Inr r'" "record_ok i r'" using appended_ok [OF r(2) assms(2)] .
  with Inr r show ?thesis by (simp add: append_step_def as_dict_def)
qed (simp add: append_step_def)

lemma finish_run_ok:
  assumes "dir_ok dir"
  shows "(\<exists>e. finish_run fault now i f dir = (Inr (Inl e), dir)) \<or>
    (\<exists>r r'. map_of (wd_entries dir) (record_file i) = Some (Parsed (PDict r)) \<and> finished_record f now r = Inr r'
      \<and> record_ok i r' \<and> finish_run fault now i f dir = apfst Inr (save_record fault i r' dir))"
proof (cases "load_record i dir")
  case (Inr v)
  obtain r where r: "v = PDict r" "record_ok i r" "map_of (wd_entries dir) (record_file i) = Some (Parsed (PDict r))"
    using load_ok [OF assms Inr] .
  obtain r' where "finished_record f now r = Inr r'" "record_ok i r'" using finished_ok [OF r(2)] by metis
  with Inr r show ?thesis by (simp add: finish_run_def as_dict_def)
qed (simp add: finish_run_def)

lemma save_keeps_ok: "dir_ok dir \<Longrightarrow> record_ok i r \<Longrightarrow> dir_ok (snd (save_record fault i r dir))"
  by (simp add: save_record_cases put_record_ok dir_ok_made split: option.splits)

lemma wf_step_ok: "wf_step dir dir' \<Longrightarrow> dir_ok dir \<Longrightarrow> dir_ok dir'"
proof (erule wf_stepE)
  fix fault a reply assume "create_run fault a dir = (reply, dir')" "dir_ok dir"
  then show "dir_ok dir'"
    using save_keeps_ok [OF _ new_record_ok, of dir fault a] by (auto simp: create_run_cases split: option.splits)
next
  fix step fault now i reply assume "step_ok step" "append_step fault now i step dir = (reply, dir')" "dir_ok dir"
  then have "dir' = dir \<or> (\<exists>r. record_ok i r \<and> dir' = snd (save_record fault i r dir))"
    using append_step_ok [of dir step fault now i] by (metis snd_apfst snd_conv)
  with \<open>dir_ok dir\<close> show "dir_ok dir'" by (auto intro: save_keeps_ok)
next
  fix fault now i f reply assume "finish_run fault now i f dir = (reply, dir')" "dir_ok dir"
  then have "dir' = dir \<or> (\<exists>r. record_ok i r \<and> dir' = snd (save_record fault i r dir))"
    using finish_run_ok [of dir fault now i f] by (metis snd_apfst snd_conv)
  with \<open>dir_ok dir\<close> show "dir_ok dir'" by (auto intro: save_keeps_ok)
qed

lemma wf_reach_ok: "wf_reach dir \<Longrightarrow> dir_ok dir"
proof (induction rule: wf_reach.induct)
  case start
  show ?case by (simp add: dir_ok_def)
next
  case (more dir dir')
  then show ?case by (blast intro: wf_step_ok)
qed

section \<open>Queries\<close>

text \<open>The records of a directory, in its order.\<close>

definition dict_of :: "wf_entry \<Rightarrow> dict" where
  "dict_of e = (case e of Parsed (PDict r) \<Rightarrow> r | _ \<Rightarrow> [])"

definition stored_runs :: "(string \<times> wf_entry) list \<Rightarrow> dict list" where
  "stored_runs es = map (dict_of \<circ> snd) es"

definition ok_entry :: "string \<times> wf_entry \<Rightarrow> bool" where
  "ok_entry e \<longleftrightarrow> (\<exists>i r. e = (record_file i, Parsed (PDict r)) \<and> record_ok i r)"

lemma dir_ok_entries: "dir_ok dir \<Longrightarrow> \<forall>e\<in>set (wd_entries dir). ok_entry e"
  by (simp add: dir_ok_def ok_entry_def)

lemma ok_entry_value: "ok_entry e \<Longrightarrow> entry_value (snd e) = Some (PDict (dict_of (snd e)))"
  by (auto simp: ok_entry_def entry_value_def dict_of_def)

lemma ok_entry_record: "dir_ok dir \<Longrightarrow> ok_entry e \<Longrightarrow> is_record_entry dir e"
  by (auto simp: ok_entry_def is_record_entry_def dir_ok_def)

lemma map_filter_all: "\<forall>x\<in>set xs. f x = Some (g x) \<Longrightarrow> List.map_filter f xs = map g xs"
  by (induction xs) auto

lemma entry_values: "\<forall>e\<in>set es. ok_entry e \<Longrightarrow> List.map_filter (\<lambda>e. entry_value (snd e)) es = map PDict (stored_runs es)"
  by (subst map_filter_all [where g = "\<lambda>e. PDict (dict_of (snd e))"]) (simp_all add: ok_entry_value stored_runs_def)

lemma record_entries: "dir_ok dir \<Longrightarrow> \<forall>e\<in>set es. ok_entry e \<Longrightarrow> filter (is_record_entry dir) es = es"
  by (simp add: filter_id_conv ok_entry_record)

lemma stored_ok: "\<forall>e\<in>set es. ok_entry e \<Longrightarrow> r \<in> set (stored_runs es) \<Longrightarrow> \<exists>i. record_ok i r"
  by (fastforce simp: stored_runs_def ok_entry_def dict_of_def)

lemma record_ok_ids: "record_ok i r \<Longrightarrow> dget_or r ''preview_ids'' (PList []) = strs (ids_at r ''preview_ids'')"
  using string_set_ids [of r "''preview_ids''"] by (simp add: record_ok_def)

lemma search_preview_find:
  "\<forall>r\<in>set rs. \<exists>i. record_ok i r \<Longrightarrow> search_preview pid (map PDict rs) = find (\<lambda>r. pid \<in> set (ids_at r ''preview_ids'')) rs"
  by (induction rs) (auto simp: as_dict_def dest!: record_ok_ids)

lemma find_run_eq:
  assumes "dir_ok dir" "py_strip pid \<noteq> []"
  shows "find_run_by_preview_id (PStr pid) dir = find (\<lambda>r. pid \<in> set (ids_at r ''preview_ids'')) (stored_runs (wd_entries dir))"
proof -
  have ok: "\<forall>e\<in>set (wd_entries dir). ok_entry e" using assms(1) by (rule dir_ok_entries)
  have "record_values dir (wd_entries dir) = map PDict (stored_runs (wd_entries dir))"
    using ok by (simp add: record_values_def record_entries [OF assms(1) ok] entry_values)
  moreover have "\<not> wd_exists dir \<Longrightarrow> wd_entries dir = []" using assms(1) by (simp add: dir_ok_def)
  ultimately show ?thesis
    using search_preview_find [of "stored_runs (wd_entries dir)" pid] stored_ok [OF ok] assms(2)
    by (auto simp: find_run_by_preview_id_def stored_runs_def)
qed

lemma stored_put: "r \<in> set (stored_runs (wd_entries (put_record i r dir)))"
proof -
  have "(record_file i, Parsed (PDict r)) \<in> set (AList.update (record_file i) (Parsed (PDict r)) (wd_entries dir))"
    using map_of_SomeD [of "AList.update (record_file i) (Parsed (PDict r)) (wd_entries dir)"] by (simp add: update_conv')
  then show ?thesis by (force simp: stored_runs_def put_record_def dict_of_def)
qed

lemma found_after_put:
  assumes "dir_ok dir" "record_ok i r" "pid \<in> set (ids_at r ''preview_ids'')" "py_strip pid \<noteq> []"
  shows "\<exists>r'. find_run_by_preview_id (PStr pid) (put_record i r dir) = Some r' \<and> pid \<in> set (ids_at r' ''preview_ids'')"
proof -
  have ok: "dir_ok (put_record i r dir)" using assms(1,2) by (rule put_record_ok)
  let ?P = "\<lambda>r. pid \<in> set (ids_at r ''preview_ids'')"
  have "find ?P (stored_runs (wd_entries (put_record i r dir))) \<noteq> None"
    using stored_put [of r i dir] assms(3) by (metis find_None_iff)
  then obtain r' where "find ?P (stored_runs (wd_entries (put_record i r dir))) = Some r'" by blast
  moreover from this have "?P r'" by (auto simp: find_Some_iff)
  ultimately show ?thesis by (simp add: find_run_eq [OF ok assms(4)])
qed

lemma append_replies: "dir_ok dir \<Longrightarrow> step_ok step \<Longrightarrow> \<exists>r. fst (append_step fault now i step dir) = Inr r"
  using append_step_ok [of dir step fault now i] by (metis fst_apfst fst_conv)

lemma finish_replies: "dir_ok dir \<Longrightarrow> \<exists>r. fst (finish_run fault now i f dir) = Inr r"
  using finish_run_ok [of dir fault now i f] by (metis fst_apfst fst_conv)

lemma finished_is_found:
  assumes "dir_ok dir" "finish_run fault now i f dir = (Inr (Inr r), dir')"
    and "fa_step_preview_ids f = Some pids" "pid \<in> set pids" "py_strip pid \<noteq> []"
  shows "\<exists>r'. find_run_by_preview_id (PStr pid) dir' = Some r' \<and> pid \<in> set (ids_at r' ''preview_ids'')"
proof -
  obtain r0 r1 where r: "map_of (wd_entries dir) (record_file i) = Some (Parsed (PDict r0))" "finished_record f now r0 = Inr r1"
    "record_ok i r1" "finish_run fault now i f dir = apfst Inr (save_record fault i r1 dir)"
    using finish_run_ok [OF assms(1), of fault now i f] unfolding assms(2) prod.inject by blast
  have "record_ok i r0" using dir_ok_lookup [OF assms(1) r(1)] by auto
  then obtain r1' where "finished_record f now r0 = Inr r1'"
    "set (ids_at r1' ''preview_ids'') = set (ids_at r0 ''preview_ids'') \<union> set (given_list (fa_step_preview_ids f))"
    by (rule finished_ok)
  then have "pid \<in> set (ids_at r1 ''preview_ids'')" using r(2) assms(3,4) by (simp add: given_list_def)
  moreover have "dir' = put_record i r1 dir"
    using r(4) unfolding assms(2) save_record_cases [OF assms(1)] by (cases fault) simp_all
  ultimately show ?thesis using found_after_put [OF assms(1) r(3) _ assms(5)] by blast
qed

lemma shown_run:
  assumes "get_run sha256 (PStr i) dir = Inr (Inr s)"
  shows "\<not> exposes (dget s ''inputs_summary'')" "\<not> exposes (dget s ''outputs_summary'')"
    and "\<exists>xs. dget s ''steps'' = PList xs \<and> (\<forall>x\<in>set xs. \<not> step_exposes x)"
    and "\<exists>r. read_json_safe dir (record_file i) = Some (PDict r) \<and> (\<not> exposes (dget_or r ''inputs_summary'' (PDict [])) \<longrightarrow>
       dget s ''inputs_summary'' = dget_or r ''inputs_summary'' (PDict []))"
proof -
  obtain v r where v: "load_record i dir = Inr v" "v = PDict r" "sanitize_record sha256 r = Inr s"
    using assms by (cases "load_record i dir") (auto simp: get_run_def as_dict_def split: py.splits)
  from sanitized_record [OF v(3)]
  show "\<not> exposes (dget s ''inputs_summary'')" "\<not> exposes (dget s ''outputs_summary'')"
    "\<exists>xs. dget s ''steps'' = PList xs \<and> (\<forall>x\<in>set xs. \<not> step_exposes x)" .
  have "dget s ''inputs_summary'' = deep_sanitize_summary sha256 (dget_or r ''inputs_summary'' (PDict []))"
    using v(3) by (cases "py_items (dget_or r ''steps'' (PList []))") (auto simp: sanitize_record_def dget_or_def)
  moreover have "read_json_safe dir (record_file i) = Some (PDict r)"
    using v(1,2) by (auto simp: load_record_def split: option.splits if_splits)
  ultimately show "\<exists>r. read_json_safe dir (record_file i) = Some (PDict r) \<and> (\<not> exposes (dget_or r ''inputs_summary'' (PDict [])) \<longrightarrow>
       dget s ''inputs_summary'' = dget_or r ''inputs_summary'' (PDict []))"
    by (auto simp: sanitize_keeps_clean)
qed

text \<open>Showing a run raises nothing, and a search looks at every stored run: no exception cuts it short.\<close>

lemma get_run_replies:
  assumes "dir_ok dir"
  shows "\<exists>reply. get_run sha256 v dir = Inr reply"
proof (cases v)
  case (PStr i)
  show ?thesis
  proof (cases "load_record i dir")
    case (Inr x)
    obtain r where r: "x = PDict r" "record_ok i r" using load_ok [OF assms Inr] .
    then obtain xs where "dget_or r ''steps'' (PList []) = PList xs" by (auto simp: record_ok_def)
    then have "\<exists>safe. sanitize_record sha256 r = Inr safe" by (simp add: sanitize_record_def py_items_def)
    with Inr r(1) show ?thesis by (auto simp: PStr get_run_def as_dict_def)
  qed (simp add: PStr get_run_def)
qed (simp_all add: get_run_def)

definition has_preview :: "string \<Rightarrow> dict \<Rightarrow> bool" where
  "has_preview pid r \<longleftrightarrow> pid \<in> set (ids_at r ''preview_ids'')"

definition first_with_preview :: "py \<Rightarrow> dict list \<Rightarrow> dict option" where
  "first_with_preview v rs = (case v of PStr pid \<Rightarrow> if py_strip pid = [] then None else find (has_preview pid) rs | _ \<Rightarrow> None)"

lemma search_is_complete:
  assumes "dir_ok dir"
  shows "find_run_by_preview_id v dir = first_with_preview v (stored_runs (wd_entries dir))"
proof (cases v)
  case (PStr pid)
  show ?thesis
  proof (cases "py_strip pid = []")
    case True
    then show ?thesis by (simp add: PStr find_run_by_preview_id_def first_with_preview_def)
  next
    case False
    then show ?thesis by (simp add: PStr find_run_eq [OF assms] first_with_preview_def has_preview_def [abs_def])
  qed
qed (simp_all add: find_run_by_preview_id_def first_with_preview_def)

text \<open>Listing.\<close>

lemma emap_all: "\<forall>x\<in>set xs. f x = Inr (g x) \<Longrightarrow> emap f xs = Inr (map g xs)"
  by (induction xs) auto

definition summary_of :: "dict \<Rightarrow> dict" where
  "summary_of r = (case summarize_run r of Inr s \<Rightarrow> s | Inl _ \<Rightarrow> [])"

lemma summarize_ok: "record_ok i r \<Longrightarrow> summarize_run r = Inr (summary_of r)"
  by (auto simp: record_ok_def string_set_def summary_of_def summarize_run_def py_len_def py_items_def)

lemma list_runs_eq:
  assumes "dir_ok dir"
  shows "list_runs limit name status dir =
    Inr (map summary_of (take (effective_limit limit)
          (sort_reverse list_sort_key (filter (run_matches name status) (stored_runs (sort_reverse fst (wd_entries dir)))))), [])"
proof (cases "wd_exists dir")
  case False
  then have "wd_entries dir = []" using assms by (simp add: dir_ok_def)
  with False show ?thesis by (simp add: list_runs_def stored_runs_def sort_reverse_def)
next
  case True
  let ?es = "sort_reverse fst (wd_entries dir)"
  have ok: "\<forall>e\<in>set ?es. ok_entry e" using dir_ok_entries [OF assms] by simp
  have listed: "listed_runs name status (map PDict rs) = Inr (filter (run_matches name status) rs)" for rs
    by (subst listed_runs_def, subst emap_all [where g = "\<lambda>v. case v of PDict r \<Rightarrow> r | _ \<Rightarrow> []"])
       (auto simp: as_dict_def comp_def)
  have none: "filter (\<lambda>e. entry_value (snd e) = None) ?es = []"
    using ok by (auto simp: filter_empty_conv ok_entry_value)
  let ?rs = "take (effective_limit limit) (sort_reverse list_sort_key (filter (run_matches name status) (stored_runs ?es)))"
  have "\<forall>r\<in>set ?rs. summarize_run r = Inr (summary_of r)"
  proof
    fix r assume "r \<in> set ?rs"
    then have "r \<in> set (stored_runs ?es)" by (auto dest!: in_set_takeD)
    with stored_ok [OF ok] show "summarize_run r = Inr (summary_of r)" using summarize_ok by blast
  qed
  from emap_all [OF this] show ?thesis
    unfolding list_runs_def Let_def record_entries [OF assms ok] entry_values [OF ok] listed none using True by simp
qed

lemma effective_limit_bounds: "1 \<le> effective_limit v \<and> effective_limit v \<le> 100"
  by (auto simp: effective_limit_def split: py.splits)

text \<open>A prefix of a list sorted in descending order: nothing left out comes before anything kept.\<close>

lemma take_descending:
  assumes "sorted_wrt (\<lambda>x y. f y \<le> f x) xs" "x \<in> set (take n xs)" "y \<in> set (drop n xs)"
  shows "f y \<le> (f x :: 'k :: linorder)"
  using assms by (metis append_take_drop_id sorted_wrt_append)

section \<open>What is not masked, and what a malformed file does\<close>

lemma list_under_sensitive_key_stays:
  "deep_sanitize_summary h (PDict [(''content'', PList [PStr ''secret''])]) = PDict [(''content'', PList [PStr ''secret''])]"
  by (simp add: masked_field_def)

definition ex_create :: create_args where
  "ex_create = \<lparr>ca_workflow_name = ''w'', ca_tool_name = ''t'', ca_action = ''a'',
     ca_inputs_summary = Some [(''prompt'', PStr ''secret''), (''k'', PList [PDict [(''content'', PStr ''text'')]])],
     ca_risk_level = ''info'', ca_project_root = ''/p'', ca_workflow_id = ''r1'', ca_step_id = ''s1'', ca_now = ''2025-01-01T00:00:00Z''\<rparr>"

definition no_dir :: wf_dir where
  "no_dir = \<lparr>wd_exists = False, wd_entries = [], wd_escapes = []\<rparr>"

definition ex_dir :: wf_dir where
  "ex_dir = snd (create_run None ex_create no_dir)"

definition ex_finish :: finish_args where
  "ex_finish = \<lparr>fa_status = ''done'', fa_outputs_summary = None, fa_stop_reason = None, fa_warnings = None, fa_blockers = None,
     fa_step_outputs_summary = None, fa_step_changed_files = Some [''a.py''], fa_step_diff_hash = None, fa_step_preview_ids = Some [''p1'']\<rparr>"

lemma ex_dir_reach: "wf_reach ex_dir"
  unfolding ex_dir_def
  by (rule wf_reach.more [OF wf_reach.start], rule wf_step.created [where fault = None and a = ex_create and reply = "fst (create_run None ex_create no_dir)"])
     (simp add: no_dir_def)

text \<open>
  A file with a JSON array among the records: the listing raises, although a file that cannot be
  parsed is only reported, and the search for a preview stops before the records behind it.
\<close>

definition with_array :: wf_dir where
  "with_array = \<lparr>wd_exists = True, wd_entries = (''a.json'', Parsed (PList [])) #
     wd_entries (put_record ''r1'' (new_record ex_create) no_dir), wd_escapes = []\<rparr>"

lemma array_file_breaks_listing: "list_runs (PInt 20) None None with_array = Inl (Py_Exc ''AttributeError'')"
  by code_simp

lemma array_file_hides_runs:
  "find_run_by_preview_id (PStr ''p1'') (\<lparr>wd_exists = True, wd_entries = [(''a.json'', Parsed (PList [])),
     (''r1.json'', Parsed (PDict [(''preview_ids'', strs [''p1''])]))], wd_escapes = []\<rparr>) = None"
  by code_simp

end
