(* ===== verification/TodoList.thy ===== *)
theory TodoList
  imports Canonical
begin

text \<open>
  \<open>runner/mcp_todolist.py\<close>: the list of todos of a project, kept in one JSON file that is read, checked
  and normalised by every operation and written as a whole.  The clock and write faults are
  parameters.  The search for a free id is a loop without a bound; it is defined with a proof that it ends.
\<close>

section \<open>The file and its items\<close>

datatype todo_file = No_File | Unreadable_File | Invalid_Json | Todo_Json py

datatype todo_error =
    Invalid_Content | Invalid_Status | Invalid_Id | Invalid_Update_Request
  | Todo_Json_Invalid | Todo_Read_Error | Todo_Schema_Invalid string | Todo_File_Not_Found | Todo_Not_Found | Todo_Write_Failed

record todo_item =
  td_id :: string
  td_content :: string
  td_created_at :: string
  td_status :: string
  td_updated_at :: "string option"

definition VALID_STATUSES :: "string list" where
  "VALID_STATUSES = [''planned'', ''done'']"

section \<open>Normalisation\<close>

definition stripped :: "py \<Rightarrow> string option" where
  "stripped v = (case v of PStr s \<Rightarrow> if py_strip s = [] then None else Some (py_strip s) | _ \<Rightarrow> None)"

definition normalize_content :: "py \<Rightarrow> string option" where
  "normalize_content v = stripped v"

definition normalize_id :: "py \<Rightarrow> string option" where
  "normalize_id v = stripped v"

definition normalize_add_status :: "py \<Rightarrow> string option" where
  "normalize_add_status v =
    (case v of
       PNone \<Rightarrow> Some ''planned''
     | PStr s \<Rightarrow>
         (let n = py_lower (py_strip s)
          in if n = [] then Some ''planned'' else if n \<in> set VALID_STATUSES then Some n else None)
     | _ \<Rightarrow> None)"

definition normalize_required_status :: "py \<Rightarrow> string option" where
  "normalize_required_status v =
    (case v of PStr s \<Rightarrow> (let n = py_lower (py_strip s) in if n \<in> set VALID_STATUSES then Some n else None) | _ \<Rightarrow> None)"

section \<open>Reading and writing\<close>

text \<open>The error names the field that is wrong; the code's message adds the index of the item.\<close>

definition load_item :: "py \<Rightarrow> todo_error + todo_item" where
  "load_item v =
    (case v of
       PDict d \<Rightarrow>
         (case stripped (dget d ''id'') of None \<Rightarrow> Inl (Todo_Schema_Invalid ''id'') | Some i \<Rightarrow>
         (case stripped (dget d ''content'') of None \<Rightarrow> Inl (Todo_Schema_Invalid ''content'') | Some c \<Rightarrow>
         (case stripped (dget d ''created_at'') of None \<Rightarrow> Inl (Todo_Schema_Invalid ''created_at'') | Some t \<Rightarrow>
         (case normalize_required_status (dget_or d ''status'' (PStr ''planned'')) of None \<Rightarrow> Inl (Todo_Schema_Invalid ''status'') | Some s \<Rightarrow>
            if dget d ''updated_at'' = PNone
            then Inr \<lparr>td_id = i, td_content = c, td_created_at = t, td_status = s, td_updated_at = None\<rparr>
            else case stripped (dget d ''updated_at'') of
                   None \<Rightarrow> Inl (Todo_Schema_Invalid ''updated_at'')
                 | Some u \<Rightarrow> Inr \<lparr>td_id = i, td_content = c, td_created_at = t, td_status = s, td_updated_at = Some u\<rparr>))))
     | _ \<Rightarrow> Inl (Todo_Schema_Invalid ''item''))"

definition load_todo_file :: "todo_file \<Rightarrow> todo_error + todo_item list" where
  "load_todo_file file =
    (case file of
       No_File \<Rightarrow> Inl Todo_File_Not_Found
     | Unreadable_File \<Rightarrow> Inl Todo_Read_Error
     | Invalid_Json \<Rightarrow> Inl Todo_Json_Invalid
     | Todo_Json (PDict d) \<Rightarrow>
         if \<not> py_eq (dget d ''schema_version'') (PInt 1) then Inl (Todo_Schema_Invalid ''schema_version'')
         else (case dget d ''items'' of PList xs \<Rightarrow> emap load_item xs | _ \<Rightarrow> Inl (Todo_Schema_Invalid ''items''))
     | Todo_Json _ \<Rightarrow> Inl (Todo_Schema_Invalid ''root''))"

definition item_json :: "todo_item \<Rightarrow> py" where
  "item_json i = PDict ([(''id'', PStr (td_id i)), (''content'', PStr (td_content i)), (''created_at'', PStr (td_created_at i)),
     (''status'', PStr (td_status i))] @ (case td_updated_at i of Some u \<Rightarrow> [(''updated_at'', PStr u)] | None \<Rightarrow> []))"

definition todo_json :: "todo_item list \<Rightarrow> py" where
  "todo_json items = PDict [(''schema_version'', PInt 1), (''items'', PList (map item_json items))]"

section \<open>Identifiers\<close>

text \<open>\<open>f'{n:03d}'\<close>, and the id with a suffix.\<close>

definition three_digits :: "nat \<Rightarrow> string" where
  "three_digits n = replicate (3 - length (show_nat n)) (CHR ''0'') @ show_nat n"

definition candidate :: "string \<Rightarrow> nat \<Rightarrow> string" where
  "candidate today n = ''todo-'' @ today @ ''-'' @ three_digits n"

text \<open>The suffix of an id of the day, by the pattern \<open>todo-(8 digits)-(3 digits)\<close>.\<close>

definition suffix_of :: "string \<Rightarrow> string \<Rightarrow> nat option" where
  "suffix_of today i =
    (let day = take 8 (drop 5 i); digits = drop 14 i
     in if length i = 17 \<and> take 5 i = ''todo-'' \<and> list_all is_digit day \<and> i ! 13 = CHR ''-'' \<and> list_all is_digit digits \<and> day = today
        then Some (read_nat digits) else None)"

definition max_suffix :: "string \<Rightarrow> string list \<Rightarrow> nat" where
  "max_suffix today ids = foldl max 0 (List.map_filter (suffix_of today) ids)"

lemma read_zeros: "foldl (\<lambda>n c. 10 * n + (of_char c - 48)) (0 :: nat) (replicate k (CHR ''0'')) = 0"
  by (induction k) simp_all

lemma read_three_digits [simp]: "read_nat (three_digits n) = n"
  using read_show_nat [of n] by (simp add: three_digits_def read_nat_def read_zeros del: read_show_nat)

lemma candidate_inj [simp]: "candidate today m = candidate today n \<longleftrightarrow> m = n"
proof
  assume "candidate today m = candidate today n"
  then have "read_nat (three_digits m) = read_nat (three_digits n)" by (simp add: candidate_def)
  then show "m = n" by simp
qed simp

text \<open>The suffixes from \<open>n\<close> on whose ids are taken.\<close>

definition taken :: "string \<Rightarrow> string list \<Rightarrow> nat \<Rightarrow> nat set" where
  "taken today ids n = {m. n \<le> m \<and> candidate today m \<in> set ids}"

lemma finite_taken: "finite (taken today ids n)"
proof -
  have "inj_on (candidate today) (taken today ids n)" by (simp add: inj_on_def)
  moreover have "candidate today ` taken today ids n \<subseteq> set ids" by (auto simp: taken_def)
  ultimately show ?thesis using finite_set inj_on_finite by blast
qed

lemma taken_Suc:
  assumes "candidate today n \<in> set ids"
  shows "taken today ids n = insert n (taken today ids (Suc n))" "n \<notin> taken today ids (Suc n)"
  using assms by (auto simp: taken_def Suc_le_eq order_le_less)

text \<open>\<open>while True: if candidate not in existing_ids: return candidate; suffix += 1\<close>\<close>

function next_free :: "string \<Rightarrow> string list \<Rightarrow> nat \<Rightarrow> nat" where
  "next_free today ids n = (if candidate today n \<in> set ids then next_free today ids (Suc n) else n)"
  by pat_completeness auto
termination
proof (relation "measure (\<lambda>(today, ids, n). card (taken today ids n))")
  fix today ids n assume "candidate today n \<in> set ids"
  from taken_Suc [OF this] show "((today, ids, Suc n), today, ids, n) \<in> measure (\<lambda>(today, ids, n). card (taken today ids n))"
    by (simp add: finite_taken)
qed simp

declare next_free.simps [simp del]

definition generate_item_id :: "string \<Rightarrow> todo_item list \<Rightarrow> string" where
  "generate_item_id today items =
    (let ids = map td_id items in candidate today (next_free today ids (max_suffix today ids + 1)))"

section \<open>Operations\<close>

text \<open>The reply of a query: the items shown, and the counts of all, of the planned and of the done items.\<close>

record todo_view =
  tv_items :: "todo_item list"
  tv_total :: nat
  tv_planned :: nat
  tv_done :: nat

definition todo_read :: "bool \<Rightarrow> todo_file \<Rightarrow> todo_error + todo_view" where
  "todo_read include_done file =
    (if file = No_File then Inr \<lparr>tv_items = [], tv_total = 0, tv_planned = 0, tv_done = 0\<rparr>
     else case load_todo_file file of
       Inl e \<Rightarrow> Inl e
     | Inr items \<Rightarrow>
         (let planned_items = filter (\<lambda>i. td_status i \<noteq> ''done'') items;
              done_items = filter (\<lambda>i. td_status i = ''done'') items
          in Inr \<lparr>tv_items = (if include_done then items else planned_items), tv_total = length items,
                  tv_planned = length planned_items, tv_done = length done_items\<rparr>))"

definition write_todos :: "bool \<Rightarrow> todo_item list \<Rightarrow> 'a \<Rightarrow> todo_file \<Rightarrow> (todo_error + 'a) \<times> todo_file" where
  "write_todos fault items reply file =
    (if fault then (Inl Todo_Write_Failed, file) else (Inr reply, Todo_Json (todo_json items)))"

text \<open>The clock of an operation: the day for ids and the time.\<close>

record todo_clock =
  tc_today :: string
  tc_now :: string

definition todo_add :: "bool \<Rightarrow> todo_clock \<Rightarrow> py \<Rightarrow> py \<Rightarrow> todo_file \<Rightarrow> (todo_error + todo_item) \<times> todo_file" where
  "todo_add fault clock content status file =
    (case normalize_content content of None \<Rightarrow> (Inl Invalid_Content, file) | Some c \<Rightarrow>
    (case normalize_add_status status of None \<Rightarrow> (Inl Invalid_Status, file) | Some st \<Rightarrow>
    (case (if file = No_File then Inr [] else load_todo_file file) of
       Inl e \<Rightarrow> (Inl e, file)
     | Inr items \<Rightarrow>
         (let item = \<lparr>td_id = generate_item_id (tc_today clock) items, td_content = c, td_created_at = tc_now clock,
                       td_status = st, td_updated_at = None\<rparr>
          in write_todos fault (items @ [item]) item file))))"

text \<open>The first item with an id.\<close>

fun index_of :: "string \<Rightarrow> todo_item list \<Rightarrow> nat option" where
  "index_of i [] = None"
| "index_of i (x # xs) = (if td_id x = i then Some 0 else map_option Suc (index_of i xs))"

definition todo_delete :: "bool \<Rightarrow> py \<Rightarrow> todo_file \<Rightarrow> (todo_error + todo_item) \<times> todo_file" where
  "todo_delete fault item_id file =
    (case normalize_id item_id of None \<Rightarrow> (Inl Invalid_Id, file) | Some i \<Rightarrow>
    (if file = No_File then (Inl Todo_File_Not_Found, file)
     else case load_todo_file file of
       Inl e \<Rightarrow> (Inl e, file)
     | Inr items \<Rightarrow>
         (case index_of i items of
            None \<Rightarrow> (Inl Todo_Not_Found, file)
          | Some n \<Rightarrow> write_todos fault (take n items @ drop (Suc n) items) (items ! n) file)))"

definition updated_item :: "todo_clock \<Rightarrow> string option \<Rightarrow> string option \<Rightarrow> todo_item \<Rightarrow> todo_item" where
  "updated_item clock content status item =
    item\<lparr>td_content := (case content of Some c \<Rightarrow> c | None \<Rightarrow> td_content item),
         td_status := (case status of Some s \<Rightarrow> s | None \<Rightarrow> td_status item),
         td_updated_at := Some (tc_now clock)\<rparr>"

definition todo_update ::
  "bool \<Rightarrow> todo_clock \<Rightarrow> py \<Rightarrow> py \<Rightarrow> py \<Rightarrow> todo_file \<Rightarrow> (todo_error + todo_item) \<times> todo_file" where
  "todo_update fault clock item_id content status file =
    (case normalize_id item_id of None \<Rightarrow> (Inl Invalid_Id, file) | Some i \<Rightarrow>
    (if content = PNone \<and> status = PNone then (Inl Invalid_Update_Request, file)
     else if content \<noteq> PNone \<and> normalize_content content = None then (Inl Invalid_Content, file)
     else if status \<noteq> PNone \<and> normalize_required_status status = None then (Inl Invalid_Status, file)
     else if file = No_File then (Inl Todo_File_Not_Found, file)
     else case load_todo_file file of
       Inl e \<Rightarrow> (Inl e, file)
     | Inr items \<Rightarrow>
         (case index_of i items of
            None \<Rightarrow> (Inl Todo_Not_Found, file)
          | Some n \<Rightarrow>
              (let item = updated_item clock (normalize_content content) (normalize_required_status status) (items ! n)
               in write_todos fault (items[n := item]) item file))))"

section \<open>Identifiers are fresh\<close>

lemma next_free_fresh: "candidate today (next_free today ids n) \<notin> set ids"
  by (induction today ids n rule: next_free.induct) (subst next_free.simps, auto)

lemma next_free_le: "n \<le> next_free today ids n"
proof (induction today ids n rule: next_free.induct)
  case (1 today ids n)
  then show ?case by (subst next_free.simps) (auto simp: Suc_le_eq)
qed

text \<open>The loop runs at most once more than there are ids.\<close>

lemma next_free_bound: "next_free today ids n \<le> n + card (taken today ids n)"
proof (induction today ids n rule: next_free.induct)
  case (1 today ids n)
  show ?case
  proof (cases "candidate today n \<in> set ids")
    case True
    then have "card (taken today ids n) = Suc (card (taken today ids (Suc n)))"
      using taken_Suc [OF True] finite_taken by simp
    with 1 [OF True] True show ?thesis by (subst next_free.simps) simp
  qed (subst next_free.simps, simp)
qed

lemma card_taken: "card (taken today ids n) \<le> length ids"
proof -
  have "card (taken today ids n) = card (candidate today ` taken today ids n)"
    by (simp add: card_image inj_on_def)
  also have "\<dots> \<le> card (set ids)" by (rule card_mono) (auto simp: taken_def)
  finally show ?thesis using card_length [of ids] by linarith
qed

lemma generated_is_fresh: "generate_item_id today items \<notin> set (map td_id items)"
  by (simp add: generate_item_id_def Let_def next_free_fresh del: set_map)

section \<open>What is written is read back\<close>

definition clean_todo :: "string \<Rightarrow> bool" where
  "clean_todo s \<longleftrightarrow> s \<noteq> [] \<and> py_strip s = s"

definition todo_item_ok :: "todo_item \<Rightarrow> bool" where
  "todo_item_ok i \<longleftrightarrow> clean_todo (td_id i) \<and> clean_todo (td_content i) \<and> clean_todo (td_created_at i)
    \<and> td_status i \<in> set VALID_STATUSES \<and> (\<forall>u. td_updated_at i = Some u \<longrightarrow> clean_todo u)"

lemma stripped_clean: "stripped v = Some s \<Longrightarrow> clean_todo s"
  by (auto simp: stripped_def clean_todo_def split: py.splits if_splits)

lemma stripped_of_clean [simp]: "clean_todo s \<Longrightarrow> stripped (PStr s) = Some s"
  by (simp add: stripped_def clean_todo_def)

lemma required_status_valid: "normalize_required_status v = Some s \<Longrightarrow> s \<in> set VALID_STATUSES"
  by (auto simp: normalize_required_status_def Let_def split: py.splits if_splits)

lemma add_status_valid: "normalize_add_status v = Some s \<Longrightarrow> s \<in> set VALID_STATUSES"
  by (auto simp: normalize_add_status_def Let_def VALID_STATUSES_def split: py.splits if_splits)

lemma required_status_of_valid [simp]: "s \<in> set VALID_STATUSES \<Longrightarrow> normalize_required_status (PStr s) = Some s"
  by (auto simp: VALID_STATUSES_def normalize_required_status_def py_strip_def is_ws_def py_lower_def py_lower_char_def)

lemma load_item_ok: "load_item v = Inr i \<Longrightarrow> todo_item_ok i"
  by (auto simp: load_item_def todo_item_ok_def split: py.splits option.splits if_splits
      dest: stripped_clean required_status_valid)

lemma load_item_json [simp]: "todo_item_ok i \<Longrightarrow> load_item (item_json i) = Inr i"
  by (cases i) (auto simp: load_item_def item_json_def todo_item_ok_def dget_or_def split: option.splits)

lemma load_todo_ok: "load_todo_file file = Inr items \<Longrightarrow> list_all todo_item_ok items"
  by (auto simp: load_todo_file_def list_all_iff split: todo_file.splits py.splits if_splits
      dest!: emap_Inr_set dest: load_item_ok)

lemma load_todo_json: "list_all todo_item_ok items \<Longrightarrow> load_todo_file (Todo_Json (todo_json items)) = Inr items"
  by (simp add: load_todo_file_def todo_json_def dget_or_def emap_fixed list_all_iff)

section \<open>The invariant\<close>

text \<open>The file is absent or holds checked items with distinct ids, as it is written.\<close>

definition todo_ok :: "todo_item list \<Rightarrow> todo_file \<Rightarrow> bool" where
  "todo_ok items file \<longleftrightarrow> list_all todo_item_ok items \<and> distinct (map td_id items)
    \<and> (file = Todo_Json (todo_json items) \<or> file = No_File \<and> items = [])"

lemma todo_ok_load: "todo_ok items file \<Longrightarrow> (if file = No_File then Inr [] else load_todo_file file) = Inr items"
  by (auto simp: todo_ok_def load_todo_json)

lemma three_digits_end: "three_digits n \<noteq> [] \<and> \<not> is_ws (last (three_digits n))"
proof -
  have "is_digit (last (show_nat n))" using show_nat_digits [of n] by (simp add: list_all_iff)
  then have "\<not> is_ws (last (show_nat n))" by (auto simp: is_digit_def is_ws_def Let_def)
  then show ?thesis by (simp add: three_digits_def)
qed

lemma strip_clean_ends: "s \<noteq> [] \<Longrightarrow> \<not> is_ws (hd s) \<Longrightarrow> \<not> is_ws (last s) \<Longrightarrow> clean_todo s"
proof -
  assume a: "s \<noteq> []" "\<not> is_ws (hd s)" "\<not> is_ws (last s)"
  then have "dropWhile is_ws s = s" "dropWhile is_ws (rev s) = rev s"
    by (simp_all add: dropWhile_not_head hd_rev)
  with a show ?thesis by (simp add: clean_todo_def py_strip_def)
qed

lemma candidate_clean [simp]: "clean_todo (candidate today n)"
  using three_digits_end [of n] by (intro strip_clean_ends) (simp_all add: candidate_def is_ws_def)

lemma generated_clean [simp]: "clean_todo (generate_item_id today items)"
  by (simp add: generate_item_id_def Let_def)

lemma index_of_Some: "index_of i xs = Some n \<Longrightarrow> n < length xs \<and> td_id (xs ! n) = i"
  by (induction xs arbitrary: n) (auto split: if_splits)

lemma index_of_None: "index_of i xs = None \<longleftrightarrow> i \<notin> set (map td_id xs)"
  by (induction xs) auto

lemma index_of_snoc: "i \<notin> set (map td_id xs) \<Longrightarrow> td_id x = i \<Longrightarrow> index_of i (xs @ [x]) = Some (length xs)"
  by (induction xs) auto

definition clock_ok :: "todo_clock \<Rightarrow> bool" where
  "clock_ok clock \<longleftrightarrow> clean_todo (tc_now clock)"

lemma todo_add_ok:
  assumes "todo_ok items file" "clock_ok clock" "normalize_content content = Some c" "normalize_add_status status = Some st"
  defines "item \<equiv> \<lparr>td_id = generate_item_id (tc_today clock) items, td_content = c, td_created_at = tc_now clock,
    td_status = st, td_updated_at = None\<rparr>"
  shows "todo_add False clock content status file = (Inr item, Todo_Json (todo_json (items @ [item])))"
    and "todo_ok (items @ [item]) (Todo_Json (todo_json (items @ [item])))"
proof -
  show "todo_add False clock content status file = (Inr item, Todo_Json (todo_json (items @ [item])))"
    using todo_ok_load [OF assms(1)] by (simp add: todo_add_def assms(3,4) write_todos_def item_def Let_def)
  have "todo_item_ok item"
    using assms(2-4) by (simp add: item_def todo_item_ok_def clock_ok_def normalize_content_def stripped_clean add_status_valid)
  then show "todo_ok (items @ [item]) (Todo_Json (todo_json (items @ [item])))"
    using assms(1) generated_is_fresh [of "tc_today clock" items] by (simp add: todo_ok_def item_def del: set_map)
qed

lemma list_all_without: "list_all P xs \<Longrightarrow> list_all P (take n xs @ drop (Suc n) xs)"
  by (auto simp: list_all_iff dest: in_set_takeD in_set_dropD)

lemma distinct_without: "distinct xs \<Longrightarrow> distinct (take n xs @ drop (Suc n) xs)"
  by (simp add: set_take_disj_set_drop_if_distinct)

lemma todo_ok_without:
  assumes "todo_ok items file" shows "todo_ok (take n items @ drop (Suc n) items) (Todo_Json (todo_json (take n items @ drop (Suc n) items)))"
  using assms list_all_without [of todo_item_ok items n] distinct_without [of "map td_id items" n]
  by (simp add: todo_ok_def take_map drop_map)

lemma todo_ok_update:
  assumes "todo_ok items file" "n < length items" "todo_item_ok x" "td_id x = td_id (items ! n)"
  shows "todo_ok (items[n := x]) (Todo_Json (todo_json (items[n := x])))"
proof -
  have "map td_id (items[n := x]) = map td_id items"
    using assms(2,4) by (simp add: map_update list_update_same_conv)
  moreover have "list_all todo_item_ok (items[n := x])"
    using assms(1,3) set_update_subset_insert [of items n x] by (auto simp: todo_ok_def list_all_iff)
  ultimately show ?thesis using assms(1) by (simp add: todo_ok_def)
qed

lemma updated_item_ok:
  assumes "todo_item_ok i" "clock_ok clock"
  shows "todo_item_ok (updated_item clock (normalize_content c) (normalize_required_status s) i)"
  using assms by (auto simp: updated_item_def todo_item_ok_def clock_ok_def normalize_content_def
      split: option.splits dest: stripped_clean required_status_valid)

inductive todo_step :: "todo_file \<Rightarrow> todo_file \<Rightarrow> bool" where
  added: "clock_ok clock \<Longrightarrow> todo_add fault clock content status file = (reply, file') \<Longrightarrow> todo_step file file'"
| deleted: "todo_delete fault i file = (reply, file') \<Longrightarrow> todo_step file file'"
| updated: "clock_ok clock \<Longrightarrow> todo_update fault clock i content status file = (reply, file') \<Longrightarrow> todo_step file file'"

inductive todo_reach :: "todo_file \<Rightarrow> bool" where
  start: "todo_reach No_File"
| more: "todo_reach file \<Longrightarrow> todo_step file file' \<Longrightarrow> todo_reach file'"

inductive_cases todo_stepE: "todo_step file file'"

lemma todo_step_ok:
  assumes "todo_step file file'" "todo_ok items file"
  shows "\<exists>items'. todo_ok items' file'"
  using assms(1)
proof (rule todo_stepE)
  fix clock fault content status reply
  assume c: "clock_ok clock" and a: "todo_add fault clock content status file = (reply, file')"
  show ?thesis
  proof (cases "normalize_content content = None \<or> normalize_add_status status = None \<or> fault")
    case True
    with a assms(2) todo_ok_load [OF assms(2)] show ?thesis
      by (auto simp: todo_add_def write_todos_def Let_def split: option.splits)
  next
    case False
    then obtain x st where "normalize_content content = Some x" "normalize_add_status status = Some st" "\<not> fault" by auto
    with todo_add_ok [OF assms(2) c, of content x status st] a show ?thesis by auto
  qed
next
  fix fault i reply assume a: "todo_delete fault i file = (reply, file')"
  then have "file' = file \<or> (\<exists>n. file' = Todo_Json (todo_json (take n items @ drop (Suc n) items)))"
    using todo_ok_load [OF assms(2)]
    by (auto simp: todo_delete_def write_todos_def split: option.splits if_splits sum.splits)
  with assms(2) todo_ok_without [OF assms(2)] show ?thesis by metis
next
  fix clock fault i content status reply
  assume c: "clock_ok clock" and a: "todo_update fault clock i content status file = (reply, file')"
  let ?item = "\<lambda>n. updated_item clock (normalize_content content) (normalize_required_status status) (items ! n)"
  have "file' = file \<or> (\<exists>n. n < length items \<and> file' = Todo_Json (todo_json (items[n := ?item n])))"
    using a todo_ok_load [OF assms(2)] index_of_Some
    by (auto simp: todo_update_def write_todos_def Let_def split: option.splits if_splits sum.splits)
  then show ?thesis
  proof
    assume "\<exists>n. n < length items \<and> file' = Todo_Json (todo_json (items[n := ?item n]))"
    then obtain n where n: "n < length items" "file' = Todo_Json (todo_json (items[n := ?item n]))" by blast
    have "todo_item_ok (items ! n)" using assms(2) n(1) by (simp add: todo_ok_def list_all_length)
    then have "todo_item_ok (?item n)" using c by (rule updated_item_ok)
    from todo_ok_update [OF assms(2) n(1) this] n(2) show ?thesis by (auto simp: updated_item_def)
  qed (use assms(2) in blast)
qed

lemma todo_reach_ok: "todo_reach file \<Longrightarrow> \<exists>items. todo_ok items file"
proof (induction rule: todo_reach.induct)
  case start
  have "todo_ok [] No_File" by (simp add: todo_ok_def)
  then show ?case ..
next
  case (more f f')
  then show ?case using todo_step_ok by blast
qed

text \<open>Deleting what was added brings the items back.\<close>

lemma add_then_delete:
  assumes "todo_ok items file" "clock_ok clock" "todo_add False clock content status file = (Inr item, file')"
  shows "todo_delete False (PStr (td_id item)) file' = (Inr item, Todo_Json (todo_json items))"
proof -
  obtain c st where n: "normalize_content content = Some c" "normalize_add_status status = Some st"
    using assms(3) by (auto simp: todo_add_def split: option.splits)
  note added = todo_add_ok [OF assms(1,2) n]
  from added(1) assms(3) have item: "item = \<lparr>td_id = generate_item_id (tc_today clock) items, td_content = c, td_created_at = tc_now clock,
    td_status = st, td_updated_at = None\<rparr>" and written: "file' = Todo_Json (todo_json (items @ [item]))" by auto
  have load: "load_todo_file file' = Inr (items @ [item])"
    using todo_ok_load [OF added(2)] unfolding item written by simp
  have index: "index_of (td_id item) (items @ [item]) = Some (length items)"
    using generated_is_fresh [of "tc_today clock" items] by (intro index_of_snoc) (simp_all add: item del: set_map)
  have i: "normalize_id (PStr (td_id item)) = Some (td_id item)"
    by (simp add: normalize_id_def item)
  have ne: "file' \<noteq> No_File" by (simp add: written)
  show ?thesis
    by (simp add: todo_delete_def i ne load index write_todos_def)
qed

lemma next_free_skips: "n \<le> k \<Longrightarrow> k < next_free today ids n \<Longrightarrow> candidate today k \<in> set ids"
proof (induction today ids n rule: next_free.induct)
  case (1 today ids n)
  show ?case
  proof (cases "candidate today n \<in> set ids")
    case True
    then have e: "next_free today ids n = next_free today ids (Suc n)" by (subst next_free.simps) simp
    show ?thesis
    proof (cases "k = n")
      case False
      with "1.prems" e show ?thesis using "1.IH" [OF True] by simp
    qed (simp add: True)
  next
    case False
    then have "next_free today ids n = n" by (subst next_free.simps) simp
    with "1.prems" show ?thesis by simp
  qed
qed

lemma generated_id:
  "\<exists>n. generate_item_id today items = candidate today n \<and> candidate today n \<notin> set (map td_id items)
    \<and> max_suffix today (map td_id items) < n \<and> n \<le> max_suffix today (map td_id items) + 1 + length items
    \<and> list_all (\<lambda>k. candidate today k \<in> set (map td_id items)) [max_suffix today (map td_id items) + 1..<n]"
proof -
  let ?ids = "map td_id items" and ?m = "max_suffix today (map td_id items) + 1"
  have "next_free today ?ids ?m \<le> ?m + length items"
    using next_free_bound [of today ?ids ?m] card_taken [of today ?ids ?m] by (simp del: set_map)
  moreover have "?m \<le> next_free today ?ids ?m" by (rule next_free_le)
  moreover have "list_all (\<lambda>k. candidate today k \<in> set ?ids) [?m..<next_free today ?ids ?m]"
    unfolding list_all_iff using next_free_skips [of ?m _ today ?ids] by (simp del: set_map)
  ultimately show ?thesis
    unfolding generate_item_id_def Let_def using next_free_fresh [of today ?ids ?m] by (intro exI [of _ "next_free today ?ids ?m"]) (simp del: set_map)
qed

lemma added_todo:
  assumes "todo_ok items file" "clock_ok clock" "todo_add False clock content status file = (Inr item, file')"
  shows "load_todo_file file' = Inr (items @ [item])" "td_id item \<notin> set (map td_id items)"
proof -
  obtain c st where n: "normalize_content content = Some c" "normalize_add_status status = Some st"
    using assms(3) by (auto simp: todo_add_def split: option.splits)
  note added = todo_add_ok [OF assms(1,2) n]
  from added(1) assms(3) have e: "file' = Todo_Json (todo_json (items @ [item]))" "td_id item = generate_item_id (tc_today clock) items" by auto
  with assms(3) added have "todo_ok (items @ [item]) file'" by auto
  then show "load_todo_file file' = Inr (items @ [item])" using load_todo_json unfolding todo_ok_def e(1) by blast
  show "td_id item \<notin> set (map td_id items)" unfolding e(2) by (rule generated_is_fresh)
qed

end
