(* ===== verification/ExecutorSettings.thy ===== *)
theory ExecutorSettings
  imports PyCollections
begin

text \<open>
  \<open>runner/executor_registry.py\<close> and \<open>runner/runner_settings.py\<close>: the executor providers, and the settings
  that choose one for a project.  A project is resolved through layers (plan file, project settings,
  user settings, the user's entry for the project); saving updates the user's entry.  Resolution of
  directories (\<open>realpath\<close>), the digests and the clock are parameters.
\<close>

section \<open>The registry\<close>

record provider_info =
  pi_provider :: string
  pi_display_name :: string
  pi_enabled :: bool
  pi_model_selection :: bool
  pi_probe :: bool

definition SUPPORTED_EXECUTOR_PROVIDERS :: "(string \<times> provider_info) list" where
  "SUPPORTED_EXECUTOR_PROVIDERS =
    [(''pi'', \<lparr>pi_provider = ''pi'', pi_display_name = ''Pi'', pi_enabled = True, pi_model_selection = False, pi_probe = False\<rparr>),
     (''codex'', \<lparr>pi_provider = ''codex'', pi_display_name = ''Codex'', pi_enabled = True, pi_model_selection = False, pi_probe = False\<rparr>),
     (''opencode'', \<lparr>pi_provider = ''opencode'', pi_display_name = ''OpenCode'', pi_enabled = True, pi_model_selection = True, pi_probe = True\<rparr>)]"

definition DEFAULT_EXECUTION_PROVIDER :: string where
  "DEFAULT_EXECUTION_PROVIDER = ''codex''"

definition provider_key :: "string \<Rightarrow> string" where
  "provider_key s = py_lower (py_strip s)"

definition is_supported_execution_provider :: "py \<Rightarrow> bool" where
  "is_supported_execution_provider v =
    (case v of PStr s \<Rightarrow> provider_key s \<in> set (map fst SUPPORTED_EXECUTOR_PROVIDERS) | _ \<Rightarrow> False)"

definition normalize_execution_provider :: "py \<Rightarrow> string \<Rightarrow> string" where
  "normalize_execution_provider v dflt =
    (case v of PStr s \<Rightarrow> if provider_key s \<in> set (map fst SUPPORTED_EXECUTOR_PROVIDERS) then provider_key s else dflt | _ \<Rightarrow> dflt)"

definition default_info :: provider_info where
  "default_info = \<lparr>pi_provider = ''codex'', pi_display_name = ''Codex'', pi_enabled = True, pi_model_selection = False, pi_probe = False\<rparr>"

definition get_executor_provider_info :: "py \<Rightarrow> provider_info" where
  "get_executor_provider_info v =
    (case v of
       PStr s \<Rightarrow> (case map_of SUPPORTED_EXECUTOR_PROVIDERS (provider_key s) of Some info \<Rightarrow> info | None \<Rightarrow> default_info)
     | _ \<Rightarrow> default_info)"

definition get_executor_provider_display :: "py \<Rightarrow> string" where
  "get_executor_provider_display v = pi_display_name (get_executor_provider_info v)"

section \<open>Settings\<close>

definition PROFILE_SOURCE :: string where
  "PROFILE_SOURCE = ''manage_executor_config.set_default_profile_apply''"

record executor_profile =
  xp_provider :: "string option"
  xp_model :: "string option"
  xp_reasoning_effort :: "string option"
  xp_source :: string
  xp_updated_at :: "string option"

record runner_settings =
  st_execution_provider :: string
  st_executor_profile :: "executor_profile option"

datatype settings_file = Project_File | User_File

record resolved_settings =
  rv_settings :: runner_settings
  rv_provider_source :: string
  rv_profile_source :: "string option"
  rv_provider_file :: "settings_file option"
  rv_profile_file :: "settings_file option"

definition sanitize_optional_str :: "py \<Rightarrow> string option" where
  "sanitize_optional_str v = (case v of PStr s \<Rightarrow> if py_strip s = [] then None else Some (py_strip s) | _ \<Rightarrow> None)"

definition is_sensitive_key :: "string \<Rightarrow> bool" where
  "is_sensitive_key key =
    (let lower = py_lower key
     in list_ex (contains_str lower) [''api_key'', ''apikey'', ''api-key'', ''bearer'', ''token'', ''authorization'', ''auth_token'', ''authtoken'', ''secret''])"

definition strip_sensitive_keys :: "dict \<Rightarrow> dict" where
  "strip_sensitive_keys d = filter (\<lambda>kv. \<not> is_sensitive_key (fst kv)) d"

definition default_settings :: runner_settings where
  "default_settings = \<lparr>st_execution_provider = DEFAULT_EXECUTION_PROVIDER, st_executor_profile = None\<rparr>"

definition parse_profile :: "dict \<Rightarrow> executor_profile" where
  "parse_profile d =
    \<lparr>xp_provider = sanitize_optional_str (dget d ''provider''), xp_model = sanitize_optional_str (dget d ''model''),
     xp_reasoning_effort = sanitize_optional_str (dget d ''reasoning_effort''),
     xp_source = (case sanitize_optional_str (dget d ''source'') of Some s \<Rightarrow> s | None \<Rightarrow> PROFILE_SOURCE),
     xp_updated_at = sanitize_optional_str (dget d ''updated_at'')\<rparr>"

definition put_some :: "string \<Rightarrow> string option \<Rightarrow> dict" where
  "put_some k v = (case v of Some s \<Rightarrow> [(k, PStr s)] | None \<Rightarrow> [])"

text \<open>\<open>profile.source or _EXECUTOR_PROFILE_SOURCE\<close>, \<open>profile.updated_at or _now_iso()\<close>\<close>

definition profile_to_dict :: "string \<Rightarrow> executor_profile \<Rightarrow> dict" where
  "profile_to_dict now p =
    put_some ''provider'' (xp_provider p) @ put_some ''model'' (xp_model p) @ put_some ''reasoning_effort'' (xp_reasoning_effort p)
    @ [(''source'', PStr (if xp_source p = [] then PROFILE_SOURCE else xp_source p)),
       (''updated_at'', PStr (case xp_updated_at p of Some u \<Rightarrow> if u = [] then now else u | None \<Rightarrow> now))]"

text \<open>\<open>_read_json_dict\<close>\<close>

definition read_json_dict :: "json_file \<Rightarrow> dict option" where
  "read_json_dict file = (case file of Json (PDict d) \<Rightarrow> Some d | _ \<Rightarrow> None)"

text \<open>A plan file that holds another JSON value than an object raises AttributeError.\<close>

definition supported_key :: "py \<Rightarrow> string option" where
  "supported_key v =
    (case v of PStr s \<Rightarrow> if is_supported_execution_provider (PStr s) then Some (provider_key s) else None | _ \<Rightarrow> None)"

definition first_of :: "'a option \<Rightarrow> 'a option \<Rightarrow> 'a option" where
  "first_of a b = (case a of Some x \<Rightarrow> Some x | None \<Rightarrow> b)"

definition load_provider_from_plan :: "json_file \<Rightarrow> string option result" where
  "load_provider_from_plan file =
    (case file of
       Json v \<Rightarrow> ebind (as_dict v) (\<lambda>d. Inr
         (first_of (supported_key (dget d ''execution_provider''))
           (case dget d ''model_execution'' of
              PDict m \<Rightarrow> supported_key (py_or (dget m ''execution_provider'') (dget m ''provider''))
            | _ \<Rightarrow> None)))
     | _ \<Rightarrow> Inr None)"

section \<open>Loading one file\<close>

text \<open>The settings and whether the warning is set.  No plan file: Absent.\<close>

definition load_settings :: "json_file \<Rightarrow> json_file \<Rightarrow> (runner_settings \<times> bool) result" where
  "load_settings file plan_file =
    (case file of
       Absent \<Rightarrow> ebind (load_provider_from_plan plan_file) (\<lambda>p. Inr
         (case p of Some s \<Rightarrow> (\<lparr>st_execution_provider = s, st_executor_profile = None\<rparr>, False) | None \<Rightarrow> (default_settings, False)))
     | Json (PDict d) \<Rightarrow> Inr
         (\<lparr>st_execution_provider = normalize_execution_provider (dget d ''execution_provider'') DEFAULT_EXECUTION_PROVIDER,
           st_executor_profile = (case dget d ''executor_profile'' of PDict p \<Rightarrow> Some (parse_profile p) | _ \<Rightarrow> None)\<rparr>, False)
     | _ \<Rightarrow> Inr (default_settings, True))"

definition load_profile :: "json_file \<Rightarrow> executor_profile option" where
  "load_profile file =
    (case read_json_dict file of
       Some d \<Rightarrow> (case dget d ''executor_profile'' of PDict p \<Rightarrow> Some (parse_profile p) | _ \<Rightarrow> None)
     | None \<Rightarrow> None)"

section \<open>Resolution for a project\<close>

definition apply_settings_payload :: "dict \<Rightarrow> string \<Rightarrow> settings_file \<Rightarrow> resolved_settings \<Rightarrow> resolved_settings" where
  "apply_settings_payload payload source file r =
    (let profile = (case dget payload ''executor_profile'' of PDict p \<Rightarrow> Some (parse_profile p) | _ \<Rightarrow> None);
         chosen = first_of (supported_key (dget payload ''execution_provider''))
           (case profile of Some p \<Rightarrow> supported_key (of_opt (xp_provider p)) | None \<Rightarrow> None);
         r1 = (case chosen of
             Some s \<Rightarrow> r\<lparr>rv_settings := (rv_settings r)\<lparr>st_execution_provider := s\<rparr>, rv_provider_source := source, rv_provider_file := Some file\<rparr>
           | None \<Rightarrow> r)
     in case profile of
          Some p \<Rightarrow> r1\<lparr>rv_settings := (rv_settings r1)\<lparr>st_executor_profile := Some p\<rparr>, rv_profile_source := Some source, rv_profile_file := Some file\<rparr>
        | None \<Rightarrow> r1)"

text \<open>The entry of a project in the user's settings, by the first 16 digits of the digest of its root.\<close>

definition project_profile_key :: "(string \<Rightarrow> string) \<Rightarrow> (string \<Rightarrow> string) \<Rightarrow> string \<Rightarrow> string" where
  "project_profile_key sha256 normalize_root root = take 16 (sha256 (normalize_root root))"

definition extract_user_project_payload :: "dict \<Rightarrow> string \<Rightarrow> dict option" where
  "extract_user_project_payload payload key =
    (case dget payload ''project_profiles'' of
       PDict ps \<Rightarrow> (case dget ps key of PDict e \<Rightarrow> Some e | _ \<Rightarrow> None)
     | _ \<Rightarrow> None)"

definition initial_resolved :: resolved_settings where
  "initial_resolved = \<lparr>rv_settings = default_settings, rv_provider_source = ''default'', rv_profile_source = None,
     rv_provider_file = None, rv_profile_file = None\<rparr>"

definition apply_optional :: "dict option \<Rightarrow> string \<Rightarrow> settings_file \<Rightarrow> resolved_settings \<Rightarrow> resolved_settings" where
  "apply_optional payload source file r = (case payload of Some d \<Rightarrow> apply_settings_payload d source file r | None \<Rightarrow> r)"

definition resolve_for_project :: "string \<Rightarrow> json_file \<Rightarrow> json_file \<Rightarrow> json_file \<Rightarrow> resolved_settings result" where
  "resolve_for_project key plan_file project_file user_file =
    ebind (load_provider_from_plan plan_file) (\<lambda>p. Inr
      (let r0 = (case p of
             Some s \<Rightarrow> initial_resolved\<lparr>rv_settings := default_settings\<lparr>st_execution_provider := s\<rparr>, rv_provider_source := ''plan''\<rparr>
           | None \<Rightarrow> initial_resolved);
           r1 = apply_optional (read_json_dict project_file) ''project_settings'' Project_File r0
       in case read_json_dict user_file of
            None \<Rightarrow> r1
          | Some user \<Rightarrow>
              apply_optional (extract_user_project_payload user key) ''user_settings_project'' User_File
                (apply_settings_payload user ''user_settings_global'' User_File r1)))"

section \<open>Saving\<close>

datatype save_error = Stale_Settings | Settings_Not_Found | Profile_Key_Conflict | Settings_Write_Failed

text \<open>\<open>_check_expected_hash\<close>: a file that is missing has no hash.\<close>

definition settings_file_hash :: "(json_file \<Rightarrow> string) \<Rightarrow> json_file \<Rightarrow> string option" where
  "settings_file_hash hash_of file = (if file = Absent then None else Some (hash_of file))"

definition fresh :: "(json_file \<Rightarrow> string) \<Rightarrow> string option \<Rightarrow> json_file \<Rightarrow> bool" where
  "fresh hash_of expected file \<longleftrightarrow> (expected = None \<or> settings_file_hash hash_of file = expected)"

definition write_settings :: "bool \<Rightarrow> dict \<Rightarrow> 'a \<Rightarrow> json_file \<Rightarrow> (save_error + 'a) \<times> json_file" where
  "write_settings fault payload reply file =
    (if fault then (Inl Settings_Write_Failed, file) else (Inr reply, Json (PDict payload)))"

definition or_default :: "string \<Rightarrow> string" where
  "or_default s = (if s = [] then DEFAULT_EXECUTION_PROVIDER else s)"

definition save_profile :: "(json_file \<Rightarrow> string) \<Rightarrow> bool \<Rightarrow> string \<Rightarrow> executor_profile \<Rightarrow> string option \<Rightarrow> json_file \<Rightarrow> (save_error + py \<times> dict) \<times> json_file" where
  "save_profile hash_of fault now profile expected file =
    (if \<not> fresh hash_of expected file then (Inl Stale_Settings, file)
     else let existing = strip_sensitive_keys (case read_json_dict file of Some d \<Rightarrow> d | None \<Rightarrow> []);
              pd = profile_to_dict now profile;
              provider = (case xp_provider profile of
                  Some s \<Rightarrow> if s = [] then dget_or existing ''execution_provider'' (PStr DEFAULT_EXECUTION_PROVIDER) else PStr s
                | None \<Rightarrow> dget_or existing ''execution_provider'' (PStr DEFAULT_EXECUTION_PROVIDER))
          in write_settings fault (dset ''executor_profile'' (PDict pd) (dset ''execution_provider'' provider existing)) (provider, pd) file)"

definition save_settings :: "(json_file \<Rightarrow> string) \<Rightarrow> bool \<Rightarrow> string \<Rightarrow> runner_settings \<Rightarrow> string option \<Rightarrow> json_file \<Rightarrow> (save_error + unit) \<times> json_file" where
  "save_settings hash_of fault now settings expected file =
    (let payload = [(''execution_provider'', PStr (st_execution_provider settings))]
           @ (case st_executor_profile settings of Some p \<Rightarrow> [(''executor_profile'', PDict (profile_to_dict now p))] | None \<Rightarrow> [])
     in if \<not> fresh hash_of expected file then (Inl Stale_Settings, file) else write_settings fault payload () file)"

definition project_entry :: "string \<Rightarrow> string \<Rightarrow> runner_settings \<Rightarrow> dict \<Rightarrow> dict" where
  "project_entry now root settings old =
    (let e = dset ''execution_provider'' (PStr (or_default (st_execution_provider settings)))
               (dset ''project_root'' (PStr root) (strip_sensitive_keys old))
     in case st_executor_profile settings of
          Some p \<Rightarrow> dset ''executor_profile'' (PDict (profile_to_dict now p)) e
        | None \<Rightarrow> AList.delete ''executor_profile'' e)"

definition dict_or_empty :: "py \<Rightarrow> dict" where
  "dict_or_empty v = (case v of PDict d \<Rightarrow> d | _ \<Rightarrow> [])"

definition save_settings_for_project ::
  "(json_file \<Rightarrow> string) \<Rightarrow> bool \<Rightarrow> string \<Rightarrow> string \<Rightarrow> string \<Rightarrow> runner_settings \<Rightarrow> string option \<Rightarrow> json_file \<Rightarrow> (save_error + dict) \<times> json_file" where
  "save_settings_for_project hash_of fault now key root settings expected file =
    (if \<not> fresh hash_of expected file then (Inl Stale_Settings, file)
     else let payload = dset ''schema_version'' (PInt 1) (strip_sensitive_keys (case read_json_dict file of Some d \<Rightarrow> d | None \<Rightarrow> []));
              profiles = dict_or_empty (dget payload ''project_profiles'');
              entry = project_entry now root settings (dict_or_empty (dget profiles key))
          in write_settings fault (dset ''project_profiles'' (PDict (dset key (PDict entry) profiles)) payload) entry file)"

definition save_profile_for_project ::
  "(json_file \<Rightarrow> string) \<Rightarrow> bool \<Rightarrow> string \<Rightarrow> string \<Rightarrow> string \<Rightarrow> executor_profile \<Rightarrow> string option \<Rightarrow> json_file \<Rightarrow> (save_error + dict) \<times> json_file" where
  "save_profile_for_project hash_of fault now key root profile expected file =
    save_settings_for_project hash_of fault now key root
      \<lparr>st_execution_provider = (case xp_provider profile of Some s \<Rightarrow> or_default s | None \<Rightarrow> DEFAULT_EXECUTION_PROVIDER),
       st_executor_profile = Some profile\<rparr> expected file"

section \<open>Moving a project\<close>

datatype migration = Not_Updated string | Moved string string

definition migrate_project_profile ::
  "(json_file \<Rightarrow> string) \<Rightarrow> bool \<Rightarrow> string list \<Rightarrow> string \<Rightarrow> string \<Rightarrow> string option \<Rightarrow> json_file \<Rightarrow> (save_error + migration) \<times> json_file" where
  "migrate_project_profile hash_of fault old_keys new_key new_root expected file =
    (if \<not> fresh hash_of expected file then (Inl Stale_Settings, file)
     else case read_json_dict file of
       None \<Rightarrow> (Inl Settings_Not_Found, file)
     | Some payload \<Rightarrow>
         (case dget payload ''project_profiles'' of
            PDict profiles \<Rightarrow>
              (case find (\<lambda>k. dhas profiles k \<and> k \<noteq> new_key) old_keys of
                 None \<Rightarrow> (Inr (Not_Updated ''no_migration_needed''), file)
               | Some old_key \<Rightarrow>
                   if dhas profiles new_key then (Inl Profile_Key_Conflict, file)
                   else (let rest = AList.delete old_key profiles;
                             moved = (case dget profiles old_key of
                                 PDict p \<Rightarrow> dset new_key (PDict (dset ''project_root'' (PStr new_root) p)) rest
                               | _ \<Rightarrow> rest)
                         in write_settings fault (dset ''project_profiles'' (PDict moved) payload) (Moved old_key new_key) file))
          | _ \<Rightarrow> (Inr (Not_Updated ''no_project_profiles''), file)))"

section \<open>Resolution yields a supported provider\<close>

lemma supported_key_Some: "supported_key v = Some s \<Longrightarrow> s \<in> {''pi'', ''codex'', ''opencode''}"
  by (auto simp: supported_key_def is_supported_execution_provider_def SUPPORTED_EXECUTOR_PROVIDERS_def split: py.splits if_splits)

lemma supported_key_of [simp]: "s \<in> {''pi'', ''codex'', ''opencode''} \<Longrightarrow> supported_key (PStr s) = Some s"
  by (auto simp: supported_key_def is_supported_execution_provider_def SUPPORTED_EXECUTOR_PROVIDERS_def provider_key_def
      py_strip_def is_ws_def py_lower_def py_lower_char_def)

lemma first_of_Some: "first_of a b = Some x \<longleftrightarrow> a = Some x \<or> (a = None \<and> b = Some x)"
  by (cases a) (auto simp: first_of_def)

definition provider_of :: "resolved_settings \<Rightarrow> string" where
  "provider_of r = st_execution_provider (rv_settings r)"

definition profile_of :: "resolved_settings \<Rightarrow> executor_profile option" where
  "profile_of r = st_executor_profile (rv_settings r)"

definition payload_profile :: "dict \<Rightarrow> executor_profile option" where
  "payload_profile payload = (case dget payload ''executor_profile'' of PDict p \<Rightarrow> Some (parse_profile p) | _ \<Rightarrow> None)"

definition payload_provider :: "dict \<Rightarrow> string option" where
  "payload_provider payload = first_of (supported_key (dget payload ''execution_provider''))
     (case payload_profile payload of Some p \<Rightarrow> supported_key (of_opt (xp_provider p)) | None \<Rightarrow> None)"

lemma applied_provider [simp]: "provider_of (apply_settings_payload d source f r) =
    (case payload_provider d of Some s \<Rightarrow> s | None \<Rightarrow> provider_of r)"
  by (auto simp: apply_settings_payload_def Let_def payload_provider_def payload_profile_def provider_of_def split: option.splits)

lemma applied_profile [simp]: "profile_of (apply_settings_payload d source f r) =
    (case payload_profile d of Some p \<Rightarrow> Some p | None \<Rightarrow> profile_of r)"
  by (auto simp: apply_settings_payload_def Let_def payload_profile_def profile_of_def split: option.splits py.splits)

lemma payload_provider_supported: "payload_provider d = Some s \<Longrightarrow> s \<in> {''pi'', ''codex'', ''opencode''}"
  unfolding payload_provider_def first_of_Some by (auto split: option.splits dest!: supported_key_Some)

lemma plan_provider_supported: "load_provider_from_plan file = Inr (Some s) \<Longrightarrow> s \<in> {''pi'', ''codex'', ''opencode''}"
proof -
  assume a: "load_provider_from_plan file = Inr (Some s)"
  then obtain d where "file = Json (PDict d)"
    by (auto simp: load_provider_from_plan_def as_dict_def split: json_file.splits py.splits)
  with a have "supported_key (dget d ''execution_provider'') = Some s
      \<or> (\<exists>m. supported_key (py_or (dget m ''execution_provider'') (dget m ''provider'')) = Some s)"
    by (cases "dget d ''model_execution''") (auto simp: load_provider_from_plan_def as_dict_def first_of_Some)
  then show ?thesis using supported_key_Some by blast
qed

text \<open>The last layer that names a supported provider wins.\<close>

definition layers :: "string \<Rightarrow> json_file \<Rightarrow> json_file \<Rightarrow> dict list" where
  "layers key project_file user_file =
    (case read_json_dict project_file of Some d \<Rightarrow> [d] | None \<Rightarrow> [])
    @ (case read_json_dict user_file of
         Some u \<Rightarrow> u # (case extract_user_project_payload u key of Some e \<Rightarrow> [e] | None \<Rightarrow> [])
       | None \<Rightarrow> [])"

definition last_some :: "'a option list \<Rightarrow> 'a \<Rightarrow> 'a" where
  "last_some xs d = foldl (\<lambda>acc x. case x of Some y \<Rightarrow> y | None \<Rightarrow> acc) d xs"

definition plan_layer :: "string option \<Rightarrow> resolved_settings" where
  "plan_layer p = (case p of
      Some s \<Rightarrow> initial_resolved\<lparr>rv_settings := default_settings\<lparr>st_execution_provider := s\<rparr>, rv_provider_source := ''plan''\<rparr>
    | None \<Rightarrow> initial_resolved)"

lemma plan_layer_settings [simp]:
  "provider_of (plan_layer p) = (case p of Some s \<Rightarrow> s | None \<Rightarrow> DEFAULT_EXECUTION_PROVIDER)"
  "profile_of (plan_layer p) = None"
  by (simp_all add: plan_layer_def provider_of_def profile_of_def initial_resolved_def default_settings_def split: option.splits)

lemma fold_layers_provider:
  "provider_of (foldl (\<lambda>r (d, source, f). apply_settings_payload d source f r) r ls) =
    last_some (map (payload_provider \<circ> fst) ls) (provider_of r)"
  by (induction ls arbitrary: r) (auto simp: last_some_def)

lemma fold_layers_profile:
  "profile_of (foldl (\<lambda>r (d, source, f). apply_settings_payload d source f r) r ls) =
    last_some (map (map_option Some \<circ> payload_profile \<circ> fst) ls) (profile_of r)"
proof (induction ls arbitrary: r)
  case (Cons l ls)
  then show ?case by (cases "payload_profile (fst l)") (auto simp: last_some_def split: prod.splits)
qed (simp add: last_some_def)

definition sourced_layers :: "string \<Rightarrow> json_file \<Rightarrow> json_file \<Rightarrow> (dict \<times> string \<times> settings_file) list" where
  "sourced_layers key project_file user_file =
    (case read_json_dict project_file of Some d \<Rightarrow> [(d, ''project_settings'', Project_File)] | None \<Rightarrow> [])
    @ (case read_json_dict user_file of
         Some u \<Rightarrow> (u, ''user_settings_global'', User_File)
           # (case extract_user_project_payload u key of Some e \<Rightarrow> [(e, ''user_settings_project'', User_File)] | None \<Rightarrow> [])
       | None \<Rightarrow> [])"

lemma sourced_layers_fst: "map fst (sourced_layers key project_file user_file) = layers key project_file user_file"
  by (simp add: sourced_layers_def layers_def split: option.splits)

lemma resolve_fold:
  assumes "load_provider_from_plan plan_file = Inr p"
  shows "resolve_for_project key plan_file project_file user_file = Inr
    (foldl (\<lambda>r (d, source, f). apply_settings_payload d source f r) (plan_layer p) (sourced_layers key project_file user_file))"
  using assms
  by (cases "read_json_dict project_file"; cases "read_json_dict user_file")
     (simp_all add: resolve_for_project_def Let_def plan_layer_def [symmetric] apply_optional_def sourced_layers_def split: option.splits)

lemma resolve_layers:
  assumes "load_provider_from_plan plan_file = Inr p"
  shows "\<exists>r. resolve_for_project key plan_file project_file user_file = Inr r
    \<and> provider_of r = last_some (map payload_provider (layers key project_file user_file))
        (case p of Some s \<Rightarrow> s | None \<Rightarrow> DEFAULT_EXECUTION_PROVIDER)
    \<and> profile_of r = last_some (map (map_option Some \<circ> payload_profile) (layers key project_file user_file)) None"
  unfolding resolve_fold [OF assms] sourced_layers_fst [symmetric]
  by (simp add: fold_layers_provider fold_layers_profile comp_assoc)

lemma last_some_in: "last_some xs d = y \<Longrightarrow> y = d \<or> Some y \<in> set xs"
  by (induction xs arbitrary: d) (auto simp: last_some_def split: option.splits)

lemma last_some_snoc [simp]: "last_some (xs @ [x]) d = (case x of Some y \<Rightarrow> y | None \<Rightarrow> last_some xs d)"
  by (simp add: last_some_def split: option.splits)

lemma resolved_supported:
  assumes "resolve_for_project key plan_file project_file user_file = Inr r"
  shows "provider_of r \<in> {''pi'', ''codex'', ''opencode''}"
proof -
  obtain p where p: "load_provider_from_plan plan_file = Inr p"
    using assms by (auto simp: resolve_for_project_def)
  let ?ls = "map payload_provider (layers key project_file user_file)"
  let ?d = "case p of Some s \<Rightarrow> s | None \<Rightarrow> DEFAULT_EXECUTION_PROVIDER"
  have "provider_of r = last_some ?ls ?d" using resolve_layers [OF p, of key project_file user_file] assms by auto
  then have "provider_of r = ?d \<or> Some (provider_of r) \<in> set ?ls" using last_some_in by metis
  then show ?thesis
  proof
    assume "provider_of r = ?d"
    with p show ?thesis by (cases p) (auto simp: DEFAULT_EXECUTION_PROVIDER_def dest: plan_provider_supported)
  next
    assume "Some (provider_of r) \<in> set ?ls"
    then obtain d where "payload_provider d = Some (provider_of r)" by auto
    then show ?thesis by (rule payload_provider_supported)
  qed
qed

section \<open>Saving and resolving\<close>

text \<open>A profile as the settings hold it: its texts are stripped and not empty.\<close>

definition clean_opt :: "string option \<Rightarrow> bool" where
  "clean_opt v \<longleftrightarrow> (\<forall>s. v = Some s \<longrightarrow> s \<noteq> [] \<and> py_strip s = s)"

definition profile_ok :: "executor_profile \<Rightarrow> bool" where
  "profile_ok p \<longleftrightarrow> clean_opt (xp_provider p) \<and> clean_opt (xp_model p) \<and> clean_opt (xp_reasoning_effort p)
    \<and> clean_opt (Some (xp_source p)) \<and> clean_opt (xp_updated_at p)"

definition dated :: "string \<Rightarrow> executor_profile \<Rightarrow> executor_profile" where
  "dated now p = p\<lparr>xp_updated_at := Some (case xp_updated_at p of Some u \<Rightarrow> u | None \<Rightarrow> now)\<rparr>"

lemma sanitize_of_clean [simp]: "s \<noteq> [] \<Longrightarrow> py_strip s = s \<Longrightarrow> sanitize_optional_str (PStr s) = Some s"
  by (simp add: sanitize_optional_str_def)

lemma sanitize_None [simp]: "sanitize_optional_str PNone = None"
  by (simp add: sanitize_optional_str_def)

lemma parse_profile_to_dict:
  "profile_ok p \<Longrightarrow> clean_opt (Some now) \<Longrightarrow> parse_profile (profile_to_dict now p) = dated now p"
  by (cases p)
     (auto simp: parse_profile_def profile_to_dict_def put_some_def dget_or_def profile_ok_def clean_opt_def dated_def split: option.splits)

lemma map_of_filter_keep: "P k \<Longrightarrow> map_of (filter (\<lambda>kv. P (fst kv)) d) k = map_of d k"
  by (induction d) auto

lemma dget_strip [simp]: "\<not> is_sensitive_key k \<Longrightarrow> dget_or (strip_sensitive_keys d) k v = dget_or d k v"
  using map_of_filter_keep [of "\<lambda>k. \<not> is_sensitive_key k" k d] by (simp add: dget_or_def strip_sensitive_keys_def)

lemma not_sensitive [simp]:
  "\<not> is_sensitive_key ''execution_provider''" "\<not> is_sensitive_key ''executor_profile''" "\<not> is_sensitive_key ''project_profiles''"
  by (simp_all add: is_sensitive_key_def py_lower_def py_lower_char_def Let_def)

text \<open>The layers of a project after its settings were saved: the user's file keeps what is global.\<close>

definition saved_entry :: "string \<Rightarrow> string \<Rightarrow> string \<Rightarrow> runner_settings \<Rightarrow> json_file \<Rightarrow> dict" where
  "saved_entry key now root settings file =
    project_entry now root settings
      (dict_or_empty (dget (dict_or_empty (dget (case read_json_dict file of Some d \<Rightarrow> d | None \<Rightarrow> []) ''project_profiles'')) key))"

lemma save_for_project_result:
  assumes "fresh hash_of expected file"
  obtains payload where
    "save_settings_for_project hash_of False now key root settings expected file
      = (Inr (saved_entry key now root settings file), Json (PDict payload))"
    "dget payload ''execution_provider'' = dget (case read_json_dict file of Some d \<Rightarrow> d | None \<Rightarrow> []) ''execution_provider''"
    "dget payload ''executor_profile'' = dget (case read_json_dict file of Some d \<Rightarrow> d | None \<Rightarrow> []) ''executor_profile''"
    "dget payload ''project_profiles'' = PDict (dset key (PDict (saved_entry key now root settings file))
      (dict_or_empty (dget (case read_json_dict file of Some d \<Rightarrow> d | None \<Rightarrow> []) ''project_profiles'')))"
proof -
  define u where "u = (case read_json_dict file of Some d \<Rightarrow> d | None \<Rightarrow> [])"
  define profiles where "profiles = dict_or_empty (dget u ''project_profiles'')"
  define payload where "payload = dset ''project_profiles'' (PDict (dset key (PDict (saved_entry key now root settings file)) profiles))
    (dset ''schema_version'' (PInt 1) (strip_sensitive_keys u))"
  show thesis
  proof (rule that [of payload])
    show "save_settings_for_project hash_of False now key root settings expected file
        = (Inr (saved_entry key now root settings file), Json (PDict payload))"
      using assms by (simp add: save_settings_for_project_def write_settings_def Let_def saved_entry_def payload_def profiles_def u_def)
  qed (simp_all add: payload_def profiles_def flip: u_def)
qed

lemma payload_provider_cong:
  "dget d ''execution_provider'' = dget e ''execution_provider'' \<Longrightarrow> dget d ''executor_profile'' = dget e ''executor_profile'' \<Longrightarrow>
    payload_provider d = payload_provider e \<and> payload_profile d = payload_profile e"
  by (simp add: payload_provider_def payload_profile_def)

lemma entry_provider:
  assumes "st_execution_provider settings \<in> {''pi'', ''codex'', ''opencode''}"
  shows "payload_provider (project_entry now root settings old) = Some (st_execution_provider settings)"
proof -
  have "dget (project_entry now root settings old) ''execution_provider'' = PStr (st_execution_provider settings)"
    using assms by (auto simp: project_entry_def Let_def or_default_def split: option.splits)
  with assms show ?thesis by (auto simp: payload_provider_def first_of_def)
qed

lemma entry_profile:
  "payload_profile (project_entry now root settings old) =
    (case st_executor_profile settings of Some p \<Rightarrow> Some (parse_profile (profile_to_dict now p)) | None \<Rightarrow> None)"
  by (auto simp: payload_profile_def project_entry_def Let_def split: option.splits)

lemma layers_snoc:
  "read_json_dict user_file = Some u \<Longrightarrow> extract_user_project_payload u key = Some e \<Longrightarrow>
    \<exists>ls. layers key project_file user_file = ls @ [e]"
  by (simp add: layers_def)

text \<open>What is saved for a project is what is resolved for it.\<close>

lemma saved_is_resolved:
  assumes "fresh hash_of expected user_file" "load_provider_from_plan plan_file = Inr p"
    and "st_execution_provider settings \<in> {''pi'', ''codex'', ''opencode''}" "st_executor_profile settings = Some pr"
    and "profile_ok pr" "clean_opt (Some now)"
  shows "\<exists>reply user_file' r. save_settings_for_project hash_of False now key root settings expected user_file = (Inr reply, user_file')
    \<and> resolve_for_project key plan_file project_file user_file' = Inr r
    \<and> provider_of r = st_execution_provider settings \<and> profile_of r = Some (dated now pr)"
proof -
  let ?e = "saved_entry key now root settings user_file"
  obtain payload where s: "save_settings_for_project hash_of False now key root settings expected user_file = (Inr ?e, Json (PDict payload))"
    "dget payload ''project_profiles'' = PDict (dset key (PDict ?e)
      (dict_or_empty (dget (case read_json_dict user_file of Some d \<Rightarrow> d | None \<Rightarrow> []) ''project_profiles'')))"
    using save_for_project_result [OF assms(1)] by metis
  have "extract_user_project_payload payload key = Some ?e" by (simp add: extract_user_project_payload_def s(2))
  then obtain ls where ls: "layers key project_file (Json (PDict payload)) = ls @ [?e]"
    using layers_snoc [of "Json (PDict payload)" payload key ?e project_file] by (auto simp: read_json_dict_def)
  obtain r where "resolve_for_project key plan_file project_file (Json (PDict payload)) = Inr r"
    "provider_of r = st_execution_provider settings" "profile_of r = Some (dated now pr)"
    using resolve_layers [OF assms(2), of key project_file "Json (PDict payload)"] assms(3-6)
    unfolding ls by (auto simp: saved_entry_def entry_provider entry_profile parse_profile_to_dict)
  with s(1) show ?thesis by blast
qed

text \<open>Other projects keep their settings, when the user's file could be read.\<close>

lemma save_keeps_other_projects:
  assumes "fresh hash_of expected user_file" "load_provider_from_plan plan_file = Inr p"
    and "read_json_dict user_file = Some u" "other \<noteq> key"
    and "save_settings_for_project hash_of False now key root settings expected user_file = (Inr reply, user_file')"
  shows "\<exists>r r'. resolve_for_project other plan_file project_file user_file = Inr r
    \<and> resolve_for_project other plan_file project_file user_file' = Inr r'
    \<and> provider_of r' = provider_of r \<and> profile_of r' = profile_of r"
proof -
  obtain payload where s: "user_file' = Json (PDict payload)"
    "dget payload ''execution_provider'' = dget u ''execution_provider''" "dget payload ''executor_profile'' = dget u ''executor_profile''"
    "dget payload ''project_profiles'' = PDict (dset key (PDict (saved_entry key now root settings user_file)) (dict_or_empty (dget u ''project_profiles'')))"
    by (rule save_for_project_result [OF assms(1), of now key root settings, unfolded assms(3,5) option.simps(5)]) simp
  have "extract_user_project_payload payload other = extract_user_project_payload u other"
  proof -
    have none: "dget [(key, v)] other = PNone" for v using assms(4) by (simp add: dget_or_def)
    show ?thesis using assms(4)
      by (cases "dget u ''project_profiles''") (simp_all add: extract_user_project_payload_def s(4) dict_or_empty_def none)
  qed
  moreover have "read_json_dict user_file' = Some payload" by (simp add: s(1) read_json_dict_def)
  ultimately have same: "map payload_provider (layers other project_file user_file') = map payload_provider (layers other project_file user_file)"
    "map (map_option Some \<circ> payload_profile) (layers other project_file user_file') = map (map_option Some \<circ> payload_profile) (layers other project_file user_file)"
    using payload_provider_cong [OF s(2,3)] assms(3) by (simp_all add: layers_def)
  show ?thesis
    using resolve_layers [OF assms(2), of other project_file user_file] resolve_layers [OF assms(2), of other project_file user_file']
    unfolding same by metis
qed

text \<open>A stale digest stops every writer before it touches the file.\<close>

lemma stale_save_writes_nothing:
  assumes "\<not> fresh hash_of expected file"
  shows "save_settings_for_project hash_of fault now key root settings expected file = (Inl Stale_Settings, file)"
    and "save_settings hash_of fault now settings expected file = (Inl Stale_Settings, file)"
    and "save_profile hash_of fault now pr expected file = (Inl Stale_Settings, file)"
    and "migrate_project_profile hash_of fault old_keys new_key new_root expected file = (Inl Stale_Settings, file)"
  using assms by (simp_all add: save_settings_for_project_def save_settings_def save_profile_def migrate_project_profile_def Let_def)

section \<open>What the code loses\<close>

text \<open>A user file that cannot be parsed is replaced by one with the saved project only.\<close>

lemma garbage_is_replaced:
  "save_settings_for_project hash_of False now key root settings None (Garbage raw)
    = save_settings_for_project hash_of False now key root settings None Absent"
  by (simp add: save_settings_for_project_def fresh_def read_json_dict_def Let_def write_settings_def)

text \<open>A profile entry that is not an object is dropped by a migration that reports it as moved.\<close>

lemma migration_drops_entry:
  "migrate_project_profile hash_of False [''old''] ''new'' ''/n'' None
      (Json (PDict [(''project_profiles'', PDict [(''old'', PStr ''x'')])]))
    = (Inr (Moved ''old'' ''new''), Json (PDict [(''project_profiles'', PDict [])]))"
  by (simp add: migrate_project_profile_def fresh_def read_json_dict_def dget_or_def dhas_def write_settings_def Let_def)

end
