(* ===== verification/PlanLoader.thy ===== *)
theory PlanLoader
  imports ExecutorSettings RunnerServices
begin

text \<open>
  \<open>runner/plan_loader.py\<close>: a plan file becomes the plan's dataclasses; and \<open>runner/execution_profile.py\<close>:
  the provider and the model a version runs with.  Python does not check the types of dataclass fields,
  so a field that the loader copies is a JSON value of any type; fields it converts have their type.
\<close>

section \<open>The loaded plan\<close>

record loaded_model_execution =
  lm_mode :: py
  lm_model_command :: py
  lm_prompt_input_mode :: py
  lm_timeout_seconds :: py
  lm_stream_output :: py
  lm_provider :: py
  lm_model :: py
  lm_model_name :: py
  lm_pi_model :: py
  lm_codex_model :: py
  lm_opencode_model :: py

record loaded_runner_policy =
  lr_auto_continue_on_pass :: py
  lr_max_fix_attempts_per_version :: py
  lr_require_clean_worktree :: py
  lr_stop_on_acceptance_failure :: py
  lr_stop_on_scope_violation :: py

record loaded_review_policy =
  lv_enabled :: bool
  lv_mode :: string
  lv_after_versions :: "string list"

record loaded_commit_policy =
  lc_enabled :: bool
  lc_mode :: string
  lc_after_acceptance_pass :: bool
  lc_require_clean_scope :: bool
  lc_include_runner_runtime_files :: bool
  lc_require_confirm :: bool
  lc_require_commit_before_continue :: bool

record loaded_command =
  la_command :: py
  la_cwd :: py
  la_timeout_seconds :: py
  la_continue_on_failure :: py

record version_execution =
  ve_provider :: "string option"
  ve_model :: "string option"
  ve_model_name :: "string option"
  ve_pi_model :: "string option"
  ve_codex_model :: "string option"
  ve_opencode_model :: "string option"
  ve_lane :: "string option"
  ve_capability_level :: "string option"
  ve_notes :: "string option"

record loaded_version =
  lb_version :: py
  lb_name :: py
  lb_description :: py
  lb_prompt_file :: py
  lb_enabled :: py
  lb_context_files :: py
  lb_allowed_files :: py
  lb_forbidden_files :: py
  lb_acceptance_commands :: "loaded_command list"
  lb_manual_acceptance :: py
  lb_out_of_scope :: py
  lb_execution :: "version_execution option"
  lb_allow_no_changes :: py
  lb_required_changed_files :: py
  lb_work_item_id :: py
  lb_task_version :: py
  lb_attempt_id :: py

record loaded_plan =
  lp_project_name :: py
  lp_plan_version :: py
  lp_project_root :: py
  lp_model_execution :: loaded_model_execution
  lp_runner_policy :: loaded_runner_policy
  lp_versions :: "loaded_version list"
  lp_review_policy :: loaded_review_policy
  lp_commit_policy :: loaded_commit_policy
  lp_default_commands :: "loaded_command list"
  lp_logs_dir :: py
  lp_runtime_dir :: py
  lp_rules_file :: py
  lp_state_file :: py
  lp_work_item_id :: py
  lp_task_version :: py
  lp_attempt_id :: py

section \<open>Parsing\<close>

definition mode_or_default :: "py \<Rightarrow> string" where
  "mode_or_default v = (case v of PStr s \<Rightarrow> if py_strip s = [] then ''manual_gate'' else s | _ \<Rightarrow> ''manual_gate'')"

definition is_true :: "py \<Rightarrow> bool" where
  "is_true v = (case v of PBool b \<Rightarrow> b | _ \<Rightarrow> False)"

definition parse_review_policy :: "py \<Rightarrow> loaded_review_policy" where
  "parse_review_policy v =
    (case v of
       PDict d \<Rightarrow> \<lparr>lv_enabled = is_true (dget d ''enabled''), lv_mode = mode_or_default (dget d ''mode''),
         lv_after_versions = (case dget d ''after_versions'' of
             PList xs \<Rightarrow> List.map_filter (\<lambda>x. case x of PStr s \<Rightarrow> Some s | _ \<Rightarrow> None) xs | _ \<Rightarrow> [])\<rparr>
     | _ \<Rightarrow> \<lparr>lv_enabled = False, lv_mode = ''manual_gate'', lv_after_versions = []\<rparr>)"

definition parse_commit_policy :: "py \<Rightarrow> loaded_commit_policy" where
  "parse_commit_policy v =
    (case v of
       PDict d \<Rightarrow> \<lparr>lc_enabled = is_true (dget d ''enabled''), lc_mode = mode_or_default (dget d ''mode''),
         lc_after_acceptance_pass = truthy (dget_or d ''after_acceptance_pass'' (PBool True)),
         lc_require_clean_scope = truthy (dget_or d ''require_clean_scope'' (PBool True)),
         lc_include_runner_runtime_files = truthy (dget_or d ''include_runner_runtime_files'' (PBool False)),
         lc_require_confirm = truthy (dget_or d ''require_confirm'' (PBool True)),
         lc_require_commit_before_continue = truthy (dget_or d ''require_commit_before_continue'' (PBool False))\<rparr>
     | _ \<Rightarrow> \<lparr>lc_enabled = False, lc_mode = ''manual_gate'', lc_after_acceptance_pass = True, lc_require_clean_scope = True,
         lc_include_runner_runtime_files = False, lc_require_confirm = True, lc_require_commit_before_continue = False\<rparr>)"

text \<open>A provider that is not supported is dropped.\<close>

definition parse_version_execution :: "py \<Rightarrow> version_execution option" where
  "parse_version_execution v =
    (case v of
       PDict d \<Rightarrow>
         (let provider = sanitize_optional_str (dget d ''provider'')
          in Some \<lparr>ve_provider = (case provider of Some p \<Rightarrow> if is_supported_execution_provider (PStr p) then Some p else None | None \<Rightarrow> None),
              ve_model = sanitize_optional_str (dget d ''model''), ve_model_name = sanitize_optional_str (dget d ''model_name''),
              ve_pi_model = sanitize_optional_str (dget d ''pi_model''), ve_codex_model = sanitize_optional_str (dget d ''codex_model''),
              ve_opencode_model = sanitize_optional_str (dget d ''opencode_model''), ve_lane = sanitize_optional_str (dget d ''lane''),
              ve_capability_level = sanitize_optional_str (dget d ''capability_level''), ve_notes = sanitize_optional_str (dget d ''notes'')\<rparr>)
     | _ \<Rightarrow> None)"

definition parse_command :: "py \<Rightarrow> loaded_command result" where
  "parse_command v = ebind (as_dict v) (\<lambda>d. Inr
     \<lparr>la_command = dget d ''command'', la_cwd = dget d ''cwd'', la_timeout_seconds = dget_or d ''timeout_seconds'' (PInt 600),
      la_continue_on_failure = dget_or d ''continue_on_failure'' (PBool False)\<rparr>)"

definition parse_commands :: "py \<Rightarrow> loaded_command list result" where
  "parse_commands v = ebind (py_items v) (emap parse_command)"

definition parse_model_execution :: "py \<Rightarrow> loaded_model_execution result" where
  "parse_model_execution v = ebind (as_dict v) (\<lambda>d. Inr
     \<lparr>lm_mode = dget_or d ''mode'' (PStr ''manual''), lm_model_command = dget d ''model_command'',
      lm_prompt_input_mode = dget_or d ''prompt_input_mode'' (PStr ''stdin''),
      lm_timeout_seconds = dget_or d ''timeout_seconds'' (PInt 1800), lm_stream_output = dget_or d ''stream_output'' (PBool True),
      lm_provider = dget d ''provider'', lm_model = dget d ''model'', lm_model_name = dget d ''model_name'',
      lm_pi_model = dget d ''pi_model'', lm_codex_model = dget d ''codex_model'', lm_opencode_model = dget d ''opencode_model''\<rparr>)"

definition parse_runner_policy :: "py \<Rightarrow> loaded_runner_policy result" where
  "parse_runner_policy v = ebind (as_dict v) (\<lambda>d. Inr
     \<lparr>lr_auto_continue_on_pass = dget_or d ''auto_continue_on_pass'' (PBool False),
      lr_max_fix_attempts_per_version = dget_or d ''max_fix_attempts_per_version'' (PInt 3),
      lr_require_clean_worktree = dget_or d ''require_clean_worktree'' (PBool True),
      lr_stop_on_acceptance_failure = dget_or d ''stop_on_acceptance_failure'' (PBool True),
      lr_stop_on_scope_violation = dget_or d ''stop_on_scope_violation'' (PBool True)\<rparr>)"

definition parse_loaded_version :: "py \<Rightarrow> loaded_version result" where
  "parse_loaded_version v = ebind (as_dict v) (\<lambda>d.
     ebind (parse_commands (dget_or d ''acceptance_commands'' (PList []))) (\<lambda>commands. Inr
     \<lparr>lb_version = dget_or d ''version'' (PStr []), lb_name = dget_or d ''name'' (PStr []), lb_description = dget d ''description'',
      lb_prompt_file = dget_or d ''prompt_file'' (PStr []), lb_enabled = dget_or d ''enabled'' (PBool True),
      lb_context_files = dget_or d ''context_files'' (PList []), lb_allowed_files = dget_or d ''allowed_files'' (PList []),
      lb_forbidden_files = dget_or d ''forbidden_files'' (PList []), lb_acceptance_commands = commands,
      lb_manual_acceptance = dget_or d ''manual_acceptance'' (PList []), lb_out_of_scope = dget_or d ''out_of_scope'' (PList []),
      lb_execution = parse_version_execution (dget d ''execution''), lb_allow_no_changes = dget_or d ''allow_no_changes'' (PBool False),
      lb_required_changed_files = dget_or d ''required_changed_files'' (PList []), lb_work_item_id = dget d ''work_item_id'',
      lb_task_version = dget d ''task_version'', lb_attempt_id = dget d ''attempt_id''\<rparr>))"

definition runner_relpath :: "string \<Rightarrow> py" where
  "runner_relpath part = PStr (''.colameta/'' @ part)"

definition parse_plan :: "py \<Rightarrow> loaded_plan result" where
  "parse_plan v = ebind (as_dict v) (\<lambda>d.
     ebind (parse_model_execution (dget_or d ''model_execution'' (PDict []))) (\<lambda>me.
     ebind (parse_runner_policy (dget_or d ''runner_policy'' (PDict []))) (\<lambda>rp.
     ebind (parse_commands (dget_or d ''default_acceptance_commands'' (PList []))) (\<lambda>commands.
     ebind (ebind (py_items (dget_or d ''versions'' (PList []))) (emap parse_loaded_version)) (\<lambda>versions. Inr
     \<lparr>lp_project_name = dget_or d ''project_name'' (PStr ''unknown''), lp_plan_version = dget_or d ''plan_version'' (PStr ''0.0.0''),
      lp_project_root = dget_or d ''project_root'' (PStr ''.''), lp_model_execution = me, lp_runner_policy = rp, lp_versions = versions,
      lp_review_policy = parse_review_policy (dget d ''review_policy''), lp_commit_policy = parse_commit_policy (dget d ''commit_policy''),
      lp_default_commands = commands, lp_logs_dir = dget_or d ''logs_dir'' (runner_relpath ''logs''),
      lp_runtime_dir = dget_or d ''runtime_dir'' (runner_relpath ''runtime''), lp_rules_file = dget_or d ''rules_file'' (runner_relpath ''rules.md''),
      lp_state_file = dget_or d ''state_file'' (runner_relpath ''state.json''), lp_work_item_id = dget d ''work_item_id'',
      lp_task_version = dget d ''task_version'', lp_attempt_id = dget d ''attempt_id''\<rparr>)))))"

text \<open>\<open>load_plan\<close>: every failure is reported as a RuntimeError.\<close>

definition load_plan :: "json_file \<Rightarrow> loaded_plan result" where
  "load_plan file =
    (case file of
       Json v \<Rightarrow> (case parse_plan v of Inr p \<Rightarrow> Inr p | Inl _ \<Rightarrow> Inl (Py_Exc ''RuntimeError''))
     | _ \<Rightarrow> Inl (Py_Exc ''RuntimeError''))"

definition version_reference :: "loaded_version \<Rightarrow> dict" where
  "version_reference v = [(''work_item_id'', lb_work_item_id v), (''task_version'', lb_task_version v), (''attempt_id'', lb_attempt_id v)]"

definition plan_reference :: "loaded_plan \<Rightarrow> dict" where
  "plan_reference p = [(''work_item_id'', lp_work_item_id p), (''task_version'', lp_task_version p), (''attempt_id'', lp_attempt_id p)]"

definition validate_loaded_plan :: "loaded_plan \<Rightarrow> unit result" where
  "validate_loaded_plan p =
    (if optional_plan_work_item_reference_rejections (plan_reference p) \<noteq> [] then Inl (Py_Exc ''ValueError'')
     else if list_ex (\<lambda>v. optional_plan_work_item_reference_rejections (version_reference v) \<noteq> []) (lp_versions p) then Inl (Py_Exc ''ValueError'')
     else if lp_versions p = [] then Inr ()
     else if list_ex (\<lambda>v. truthy (lb_enabled v)) (lp_versions p) then Inr () else Inl (Py_Exc ''ValueError''))"

section \<open>Provider and model of a version\<close>

definition resolve_version_execution_provider :: "loaded_plan \<Rightarrow> loaded_version option \<Rightarrow> string \<Rightarrow> string" where
  "resolve_version_execution_provider plan version fallback =
    (let of_version = (case version of
             Some v \<Rightarrow> (case lb_execution v of
                 Some x \<Rightarrow> (case ve_provider x of Some p \<Rightarrow> if p \<noteq> [] \<and> is_supported_execution_provider (PStr p) then Some p else None | None \<Rightarrow> None)
               | None \<Rightarrow> None)
           | None \<Rightarrow> None);
         of_plan = (case lm_provider (lp_model_execution plan) of
             PStr p \<Rightarrow> if p \<noteq> [] \<and> is_supported_execution_provider (PStr p) then Some p else None
           | _ \<Rightarrow> None)
     in case first_of of_version of_plan of
          Some p \<Rightarrow> p
        | None \<Rightarrow> if is_supported_execution_provider (PStr fallback) then fallback else DEFAULT_EXECUTION_PROVIDER)"

definition profile_model_for_provider :: "runner_settings option \<Rightarrow> string \<Rightarrow> string option" where
  "profile_model_for_provider settings provider =
    (case settings of
       Some st \<Rightarrow> (case st_executor_profile st of
           Some p \<Rightarrow> (case (xp_model p, xp_provider p) of
               (Some m, Some q) \<Rightarrow> if m \<noteq> [] \<and> q \<noteq> [] \<and> provider_key q = provider_key provider then Some m else None
             | _ \<Rightarrow> None)
         | None \<Rightarrow> None)
     | None \<Rightarrow> None)"

definition own_model :: "string \<Rightarrow> version_execution \<Rightarrow> string option" where
  "own_model key x = (if key = ''opencode'' then ve_opencode_model x else if key = ''codex'' then ve_codex_model x else ve_pi_model x)"

definition plan_model :: "string \<Rightarrow> loaded_model_execution \<Rightarrow> py" where
  "plan_model key m = (if key = ''opencode'' then lm_opencode_model m else if key = ''codex'' then lm_codex_model m else lm_pi_model m)"

definition first_nonempty :: "string option list \<Rightarrow> string option" where
  "first_nonempty xs = find (\<lambda>s. s \<noteq> []) (List.map_filter (\<lambda>x. x) xs)"

text \<open>The three branches of the code differ in the field that is asked first.\<close>

definition resolve_version_execution_model ::
  "loaded_plan \<Rightarrow> loaded_version option \<Rightarrow> string \<Rightarrow> runner_settings option \<Rightarrow> string option" where
  "resolve_version_execution_model plan version provider settings =
    (let key = provider_key provider; me = lp_model_execution plan
     in if key \<notin> set [''pi'', ''codex'', ''opencode''] then None
        else let of_version = (case version of
                   Some v \<Rightarrow> (case lb_execution v of
                       Some x \<Rightarrow> first_nonempty (map (\<lambda>f. sanitize_optional_str (of_opt f)) [own_model key x, ve_model x, ve_model_name x])
                     | None \<Rightarrow> None)
                 | None \<Rightarrow> None);
                 of_plan = first_nonempty (map sanitize_optional_str [plan_model key me, lm_model me, lm_model_name me, lm_model_command me])
             in first_of of_version (first_of (profile_model_for_provider settings key) of_plan))"

definition resolve_execution_reasoning_effort :: "string \<Rightarrow> runner_settings option \<Rightarrow> string option" where
  "resolve_execution_reasoning_effort provider settings =
    (if provider_key provider \<notin> set [''pi'', ''codex'', ''opencode''] then None
     else case settings of
            Some st \<Rightarrow> (case st_executor_profile st of
                Some p \<Rightarrow> (case (xp_reasoning_effort p, xp_provider p) of
                    (Some e, Some q) \<Rightarrow> if e \<noteq> [] \<and> q \<noteq> [] \<and> provider_key q = provider_key provider then Some (py_strip e) else None
                  | _ \<Rightarrow> None)
              | None \<Rightarrow> None)
          | None \<Rightarrow> None)"

record execution_summary =
  es_provider :: string
  es_provider_display :: string
  es_model :: "string option"
  es_source :: string
  es_lane :: "string option"
  es_capability_level :: "string option"

definition version_fields :: "version_execution \<Rightarrow> string option list" where
  "version_fields x = [ve_provider x, ve_model x, ve_model_name x, ve_pi_model x, ve_codex_model x, ve_opencode_model x,
     ve_lane x, ve_capability_level x, ve_notes x]"

definition plan_fields :: "loaded_model_execution \<Rightarrow> py list" where
  "plan_fields m = [lm_provider m, lm_model m, lm_model_name m, lm_pi_model m, lm_codex_model m, lm_opencode_model m, lm_model_command m]"

definition nonempty :: "string option \<Rightarrow> string option" where
  "nonempty v = (case v of Some s \<Rightarrow> if s = [] then None else Some s | None \<Rightarrow> None)"

text \<open>\<open>model_display\<close> is the model, or a fixed text when there is none.\<close>

definition get_version_execution_summary ::
  "loaded_plan \<Rightarrow> loaded_version option \<Rightarrow> string \<Rightarrow> runner_settings option \<Rightarrow> execution_summary" where
  "get_version_execution_summary plan version fallback settings =
    (let provider = resolve_version_execution_provider plan version fallback;
         execution = (case version of Some v \<Rightarrow> lb_execution v | None \<Rightarrow> None)
     in \<lparr>es_provider = provider, es_provider_display = get_executor_provider_display (PStr provider),
         es_model = resolve_version_execution_model plan version provider settings,
         es_source = (if (case execution of Some x \<Rightarrow> list_ex (\<lambda>f. f \<noteq> None) (version_fields x) | None \<Rightarrow> False) then ''version''
           else if list_ex (\<lambda>f. f \<noteq> PNone) (plan_fields (lp_model_execution plan)) then ''plan'' else ''settings''),
         es_lane = (case execution of Some x \<Rightarrow> nonempty (ve_lane x) | None \<Rightarrow> None),
         es_capability_level = (case execution of Some x \<Rightarrow> nonempty (ve_capability_level x) | None \<Rightarrow> None)\<rparr>)"

section \<open>Facts\<close>

lemma load_plan_error: "load_plan file = Inl e \<Longrightarrow> e = Py_Exc ''RuntimeError''"
  by (auto simp: load_plan_def split: json_file.splits sum.splits)

text \<open>Only a literal true enables a policy.\<close>

lemma review_enabled_iff: "lv_enabled (parse_review_policy v) \<longleftrightarrow> (\<exists>d. v = PDict d \<and> dget d ''enabled'' = PBool True)"
  by (cases v) (auto simp: parse_review_policy_def is_true_def split: py.splits)

lemma commit_enabled_iff: "lc_enabled (parse_commit_policy v) \<longleftrightarrow> (\<exists>d. v = PDict d \<and> dget d ''enabled'' = PBool True)"
  by (cases v) (auto simp: parse_commit_policy_def is_true_def split: py.splits)

lemma loaded_policies: "load_plan (Json (PDict d)) = Inr p \<Longrightarrow>
    lp_review_policy p = parse_review_policy (dget d ''review_policy'') \<and> lp_commit_policy p = parse_commit_policy (dget d ''commit_policy'')"
  by (auto simp: load_plan_def parse_plan_def as_dict_def split: sum.splits)

lemma loaded_provider_supported:
  assumes "parse_loaded_version v = Inr b" "lb_execution b = Some x" "ve_provider x = Some p"
  shows "is_supported_execution_provider (PStr p)"
  using assms
  by (auto simp: parse_loaded_version_def parse_version_execution_def as_dict_def Let_def split: py.splits option.splits if_splits)

lemma default_provider_supported [simp]: "is_supported_execution_provider (PStr DEFAULT_EXECUTION_PROVIDER)"
  using supported_key_of [of "''codex''"] by (auto simp: supported_key_def DEFAULT_EXECUTION_PROVIDER_def split: if_splits)

text \<open>The provider a version runs with is always supported.\<close>

lemma resolved_provider_supported: "is_supported_execution_provider (PStr (resolve_version_execution_provider plan version fallback))"
  by (auto simp: resolve_version_execution_provider_def Let_def first_of_def split: option.splits py.splits if_splits)

lemma supported_iff_key: "is_supported_execution_provider (PStr s) \<longleftrightarrow> provider_key s \<in> {''pi'', ''codex'', ''opencode''}"
  by (auto simp: is_supported_execution_provider_def SUPPORTED_EXECUTOR_PROVIDERS_def)

text \<open>A provider the version names is used, whatever the plan and the settings say.\<close>

lemma version_provider_wins:
  assumes "parse_loaded_version v = Inr b" "lb_execution b = Some x" "ve_provider x = Some p"
  shows "resolve_version_execution_provider plan (Some b) fallback = p"
proof -
  have "is_supported_execution_provider (PStr p)" using assms by (rule loaded_provider_supported)
  moreover from this have "p \<noteq> []"
    by (auto simp: supported_iff_key provider_key_def py_strip_def py_lower_def)
  ultimately show ?thesis using assms(2,3) by (simp add: resolve_version_execution_provider_def first_of_def)
qed

lemma empty_plan_loads:
  "\<exists>p. load_plan (Json (PDict [])) = Inr p \<and> lp_versions p = [] \<and> validate_loaded_plan p = Inr ()
    \<and> lp_project_name p = PStr ''unknown'' \<and> lr_max_fix_attempts_per_version (lp_runner_policy p) = PInt 3"
  by (auto simp: load_plan_def parse_plan_def as_dict_def parse_model_execution_def parse_runner_policy_def parse_commands_def py_items_def
      dget_or_def validate_loaded_plan_def plan_reference_def optional_plan_work_item_reference_rejections_def)

lemma loaded_versions:
  assumes "load_plan file = Inr plan" "v \<in> set (lp_versions plan)"
  shows "\<exists>w. parse_loaded_version w = Inr v"
proof -
  obtain j where "file = Json j" "parse_plan j = Inr plan" using assms(1) by (auto simp: load_plan_def split: json_file.splits sum.splits)
  then obtain xs where "emap parse_loaded_version xs = Inr (lp_versions plan)"
    by (auto simp: parse_plan_def)
  with assms(2) show ?thesis using emap_Inr_set by metis
qed

end
