(* ===== verification/ConfirmationStore.thy ===== *)
theory ConfirmationStore
  imports PyCollections Canonical
begin

text \<open>
  \<open>runner/confirmation_store.py\<close>, \<open>runner/preview_artifact.py\<close>, \<open>runner/core_confirmation.py\<close> and
  \<open>runner/operator_artifact_binding.py\<close>: the files in which previews wait for their confirmation, the
  facts that are shown about them, and the guard every apply passes.  The clock, the reading of ISO
  times, the digest and the identifiers are parameters; a store with symbolic links is outside the model.
\<close>

section \<open>The store\<close>

text \<open>A file that cannot be parsed reads as None, as does one that holds null.\<close>

datatype artifact_file = Not_Json | Json_Value py

type_synonym artifact_store = "(string \<times> artifact_file) list"

definition preview_char :: "char \<Rightarrow> bool" where
  "preview_char c = (let n = (of_char c :: nat) in
     (65 \<le> n \<and> n \<le> 90) \<or> (97 \<le> n \<and> n \<le> 122) \<or> (48 \<le> n \<and> n \<le> 57) \<or> n = 95 \<or> n = 46 \<or> n = 45)"

text \<open>\<open>re.match\<close> with a final \<open>$\<close>, which also stands before a last line feed.\<close>

definition safe_preview_id :: "string \<Rightarrow> bool" where
  "safe_preview_id s =
    (let body = (if s \<noteq> [] \<and> last s = CHR 0x0A then butlast s else s) in body \<noteq> [] \<and> list_all preview_char body)"

text \<open>The name of the file in the store's directory: no separator can occur in it.\<close>

definition safe_path :: "py \<Rightarrow> string option" where
  "safe_path v = (case v of PStr s \<Rightarrow> if safe_preview_id s then Some (s @ ''.json'') else None | _ \<Rightarrow> None)"

definition store_write :: "string \<Rightarrow> dict \<Rightarrow> artifact_store \<Rightarrow> artifact_store result" where
  "store_write preview_id payload store =
    (case safe_path (PStr preview_id) of
       None \<Rightarrow> Inl (Py_Exc ''ValueError'')
     | Some f \<Rightarrow> Inr (AList.update f (Json_Value (PDict payload)) store))"

definition store_read :: "artifact_store \<Rightarrow> py \<Rightarrow> py" where
  "store_read store preview_id =
    (case safe_path preview_id of
       None \<Rightarrow> PNone
     | Some f \<Rightarrow> (case map_of store f of Some (Json_Value v) \<Rightarrow> v | _ \<Rightarrow> PNone))"

definition store_delete :: "py \<Rightarrow> artifact_store \<Rightarrow> bool \<times> artifact_store" where
  "store_delete preview_id store =
    (case safe_path preview_id of
       None \<Rightarrow> (False, store)
     | Some f \<Rightarrow> if map_of store f = None then (False, store) else (True, AList.delete f store))"

text \<open>
  What the clock and the reading of times give: instants in microseconds, None for a text that is no time.  A time without
  zone is local time for the store and UTC for the guard of Git commit previews.
\<close>

record time_view =
  tm_now :: int
  tm_read :: "string \<Rightarrow> int option"
  tm_read_utc :: "string \<Rightarrow> int option"

definition is_expired :: "time_view \<Rightarrow> dict \<Rightarrow> bool" where
  "is_expired tm payload =
    (case dget_or payload ''expires_at'' (PStr []) of
       PStr s \<Rightarrow> if s = [] then False else (case tm_read tm s of Some t \<Rightarrow> t < tm_now tm | None \<Rightarrow> False)
     | _ \<Rightarrow> False)"

definition store_status :: "time_view \<Rightarrow> artifact_store \<Rightarrow> py \<Rightarrow> dict result" where
  "store_status tm store preview_id =
    (if safe_path preview_id = None then Inr [(''ok'', PBool False), (''error_code'', PStr ''INVALID_PREVIEW_ID'')]
     else if store_read store preview_id = PNone
       then Inr [(''ok'', PBool True), (''preview_id'', preview_id), (''exists'', PBool False), (''expired'', PBool False)]
     else ebind (as_dict (store_read store preview_id)) (\<lambda>payload. Inr
       [(''ok'', PBool True), (''preview_id'', preview_id), (''exists'', PBool True), (''expired'', PBool (is_expired tm payload)),
        (''expires_at'', dget_or payload ''expires_at'' (PStr [])), (''created_at'', dget_or payload ''created_at'' (PStr []))]))"

definition validate_project :: "string \<Rightarrow> dict \<Rightarrow> string option" where
  "validate_project project_root payload = (if dget payload ''project_root'' \<noteq> PStr project_root then Some ''PROJECT_MISMATCH'' else None)"

definition validate_not_expired :: "time_view \<Rightarrow> dict \<Rightarrow> string option" where
  "validate_not_expired tm payload = (if is_expired tm payload then Some ''PREVIEW_EXPIRED'' else None)"

section \<open>Confirmation facts\<close>

definition CONFIRMATION_KNOWN_FIELDS :: "string list" where
  "CONFIRMATION_KNOWN_FIELDS = [''required'', ''prompt'', ''message'', ''label'', ''preview_id'', ''patch_id'', ''run_id'', ''workflow_id'',
     ''action'', ''tool'', ''params'', ''preview_ids'']"

definition PREVIEW_RESULT_ID_FIELDS :: "string list" where
  "PREVIEW_RESULT_ID_FIELDS = [''preview_id'', ''patch_id'', ''run_id'', ''workflow_id'', ''preview_ids'']"

record confirmation_fact =
  cf_required :: bool
  cf_prompt :: "string option"
  cf_message :: "string option"
  cf_label :: "string option"
  cf_preview_id :: "string option"
  cf_patch_id :: "string option"
  cf_run_id :: "string option"
  cf_workflow_id :: "string option"
  cf_action :: "string option"
  cf_tool :: "string option"
  cf_params :: "dict option"
  cf_preview_ids :: "string list option"
  cf_metadata :: "dict option"

definition put_opt :: "string \<Rightarrow> py option \<Rightarrow> dict \<Rightarrow> dict" where
  "put_opt k v d = (case v of Some x \<Rightarrow> dset k x d | None \<Rightarrow> d)"

definition text_items :: "string list \<Rightarrow> py" where
  "text_items xs = PList (map PStr xs)"

definition fact_to_dict :: "confirmation_fact \<Rightarrow> dict" where
  "fact_to_dict f =
    put_opt ''preview_ids'' (map_option text_items (cf_preview_ids f))
    (put_opt ''params'' (map_option PDict (cf_params f))
    (put_opt ''tool'' (map_option PStr (cf_tool f))
    (put_opt ''action'' (map_option PStr (cf_action f))
    (put_opt ''workflow_id'' (map_option PStr (cf_workflow_id f))
    (put_opt ''run_id'' (map_option PStr (cf_run_id f))
    (put_opt ''patch_id'' (map_option PStr (cf_patch_id f))
    (put_opt ''preview_id'' (map_option PStr (cf_preview_id f))
    (put_opt ''label'' (map_option PStr (cf_label f))
    (put_opt ''message'' (map_option PStr (cf_message f))
    (put_opt ''prompt'' (map_option PStr (cf_prompt f))
    (dset ''required'' (PBool (cf_required f)) (case cf_metadata f of Some m \<Rightarrow> m | None \<Rightarrow> []))))))))))))"

definition as_optional_str :: "py \<Rightarrow> string option" where
  "as_optional_str v = (case v of PStr s \<Rightarrow> Some s | _ \<Rightarrow> None)"

definition as_optional_dict :: "py \<Rightarrow> dict option" where
  "as_optional_dict v = (case v of PDict d \<Rightarrow> Some d | _ \<Rightarrow> None)"

definition as_optional_list :: "py \<Rightarrow> string list option" where
  "as_optional_list v = (case v of PList xs \<Rightarrow> Some (List.map_filter as_optional_str xs) | _ \<Rightarrow> None)"

definition metadata_beyond :: "string list \<Rightarrow> dict \<Rightarrow> dict option" where
  "metadata_beyond known d =
    (let m = filter (\<lambda>kv. fst kv \<notin> set known) d in if m = [] then None else Some m)"

text \<open>A fact read from the known fields of a dict; the rest is metadata.\<close>

definition fact_from_fields :: "dict \<Rightarrow> dict option \<Rightarrow> confirmation_fact" where
  "fact_from_fields d metadata =
    \<lparr>cf_required = truthy (dget_or d ''required'' (PBool True)), cf_prompt = as_optional_str (dget d ''prompt''),
     cf_message = as_optional_str (dget d ''message''), cf_label = as_optional_str (dget d ''label''),
     cf_preview_id = as_optional_str (dget d ''preview_id''), cf_patch_id = as_optional_str (dget d ''patch_id''),
     cf_run_id = as_optional_str (dget d ''run_id''), cf_workflow_id = as_optional_str (dget d ''workflow_id''),
     cf_action = as_optional_str (dget d ''action''), cf_tool = as_optional_str (dget d ''tool''),
     cf_params = as_optional_dict (dget d ''params''), cf_preview_ids = as_optional_list (dget d ''preview_ids''),
     cf_metadata = metadata\<rparr>"

definition normalize_confirmation_fact :: "py \<Rightarrow> confirmation_fact option" where
  "normalize_confirmation_fact v =
    (case v of PDict d \<Rightarrow> Some (fact_from_fields d (metadata_beyond CONFIRMATION_KNOWN_FIELDS d)) | _ \<Rightarrow> None)"

definition empty_fact :: "dict option \<Rightarrow> confirmation_fact" where
  "empty_fact metadata =
    \<lparr>cf_required = True, cf_prompt = None, cf_message = None, cf_label = None, cf_preview_id = None, cf_patch_id = None,
     cf_run_id = None, cf_workflow_id = None, cf_action = None, cf_tool = None, cf_params = None, cf_preview_ids = None,
     cf_metadata = metadata\<rparr>"

definition confirmation_fact_from_preview_result :: "py \<Rightarrow> confirmation_fact option" where
  "confirmation_fact_from_preview_result v =
    (case v of
       PDict d \<Rightarrow>
         if \<not> list_ex (dhas d) PREVIEW_RESULT_ID_FIELDS \<and> \<not> is_dict (dget d ''confirmation'') \<and> dget d ''requires_confirmation'' \<noteq> PBool True
         then None
         else if is_dict (dget d ''confirmation'') then normalize_confirmation_fact (dget d ''confirmation'')
         else Some ((empty_fact (metadata_beyond (CONFIRMATION_KNOWN_FIELDS @ [''requires_confirmation'']) d))
           \<lparr>cf_preview_id := as_optional_str (dget d ''preview_id''), cf_patch_id := as_optional_str (dget d ''patch_id''),
            cf_run_id := as_optional_str (dget d ''run_id''), cf_workflow_id := as_optional_str (dget d ''workflow_id''),
            cf_preview_ids := as_optional_list (dget d ''preview_ids'')\<rparr>)
     | _ \<Rightarrow> None)"

definition confirmation_fact_from_next_action :: "py \<Rightarrow> confirmation_fact option" where
  "confirmation_fact_from_next_action v =
    (case v of
       PDict d \<Rightarrow>
         if \<not> truthy (dget d ''requires_confirmation'') then None
         else Some (fact_from_fields d (metadata_beyond (CONFIRMATION_KNOWN_FIELDS @ [''requires_confirmation'']) d))
     | _ \<Rightarrow> None)"

definition CONFIRMATION_ARTIFACT_FIELDS :: "string list" where
  "CONFIRMATION_ARTIFACT_FIELDS = [''artifact_kind'', ''requires_confirmation'', ''created_at'', ''expires_at'', ''project_root'', ''content'']"

definition confirmation_fact_from_preview_artifact :: "py \<Rightarrow> confirmation_fact option" where
  "confirmation_fact_from_preview_artifact v =
    (case v of
       PDict d \<Rightarrow>
         (case as_optional_str (dget d ''preview_id'') of
            None \<Rightarrow> None
          | Some pid \<Rightarrow>
              if pid = [] then None
              else Some ((empty_fact (metadata_beyond (CONFIRMATION_KNOWN_FIELDS @ CONFIRMATION_ARTIFACT_FIELDS) d))
                \<lparr>cf_preview_id := Some pid, cf_patch_id := as_optional_str (dget d ''patch_id''),
                 cf_run_id := as_optional_str (dget d ''run_id''), cf_workflow_id := as_optional_str (dget d ''workflow_id''),
                 cf_action := as_optional_str (dget d ''action''), cf_tool := as_optional_str (dget d ''tool''),
                 cf_params := as_optional_dict (dget d ''params''), cf_preview_ids := as_optional_list (dget d ''preview_ids'')\<rparr>))
     | _ \<Rightarrow> None)"

definition confirmation_fact_from_commit_preview :: "py \<Rightarrow> confirmation_fact option" where
  "confirmation_fact_from_commit_preview v =
    (case v of
       PDict d \<Rightarrow>
         (case as_optional_str (dget d ''preview_id'') of
            None \<Rightarrow> None
          | Some pid \<Rightarrow>
              if pid = [] then None
              else Some ((empty_fact (metadata_beyond [''preview_id'', ''message''] d))
                \<lparr>cf_preview_id := Some pid, cf_message := as_optional_str (dget d ''message'')\<rparr>))
     | _ \<Rightarrow> None)"

definition confirmation_fact_from_store :: "artifact_store \<Rightarrow> py \<Rightarrow> confirmation_fact option" where
  "confirmation_fact_from_store store preview_id = confirmation_fact_from_preview_artifact (store_read store preview_id)"

definition confirmation_status_fact :: "time_view \<Rightarrow> artifact_store \<Rightarrow> py \<Rightarrow> dict result" where
  "confirmation_status_fact tm store preview_id =
    ebind (store_status tm store preview_id) (\<lambda>status. Inr
      (if \<not> truthy (dget status ''ok'') \<or> \<not> truthy (dget status ''exists'') then status
       else case confirmation_fact_from_store store preview_id of
              Some f \<Rightarrow> dset ''confirmation'' (PDict (fact_to_dict f)) status
            | None \<Rightarrow> status))"

section \<open>The apply guard\<close>

text \<open>The digest is over the rendering with sorted keys and without spaces.\<close>

definition canonical_artifact_digest :: "(string \<Rightarrow> string) \<Rightarrow> py \<Rightarrow> string" where
  "canonical_artifact_digest sha256 payload = sha256 (render (jsort payload))"

text \<open>The binding of the operator's approval: the id and the digest of the preview that was shown.\<close>

definition bound_artifact_error :: "(string \<Rightarrow> string) \<Rightarrow> (string \<times> string) option \<Rightarrow> string \<Rightarrow> py \<Rightarrow> string option" where
  "bound_artifact_error sha256 binding preview_id payload =
    (case binding of
       None \<Rightarrow> None
     | Some (expected_id, expected_digest) \<Rightarrow>
         if preview_id \<noteq> expected_id then Some ''OPERATOR_PREVIEW_CHANGED''
         else if canonical_artifact_digest sha256 payload \<noteq> expected_digest then Some ''OPERATOR_PREVIEW_CHANGED'' else None)"

record guard_reply =
  gr_ok :: bool
  gr_payload :: "dict option"
  gr_confirmation :: "dict option"
  gr_error_code :: "string option"
  gr_preview_id :: string

definition refuse :: "dict option \<Rightarrow> string \<Rightarrow> string \<Rightarrow> guard_reply" where
  "refuse payload code pid =
    \<lparr>gr_ok = False, gr_payload = payload, gr_confirmation = None, gr_error_code = Some code, gr_preview_id = pid\<rparr>"

text \<open>\<open>payload = PNone\<close>: the caller has not read the preview.\<close>

definition confirmation_apply_guard ::
  "(string \<Rightarrow> string) \<Rightarrow> (string \<times> string) option \<Rightarrow> time_view \<Rightarrow> artifact_store \<Rightarrow> string \<Rightarrow> string option \<Rightarrow> py \<Rightarrow> guard_reply" where
  "confirmation_apply_guard sha256 binding tm store preview_id project_root payload =
    (let pid = py_strip preview_id;
         found = (if payload = PNone then store_read store (PStr pid) else payload)
     in case found of
          PDict d \<Rightarrow>
            (case bound_artifact_error sha256 binding pid (PDict d) of
               Some e \<Rightarrow> refuse (Some d) e pid
             | None \<Rightarrow>
                 if (case project_root of Some r \<Rightarrow> dget d ''project_root'' \<noteq> PStr r | None \<Rightarrow> False) then refuse (Some d) ''PROJECT_MISMATCH'' pid
                 else if is_expired tm d then refuse (Some d) ''PREVIEW_EXPIRED'' pid
                 else \<lparr>gr_ok = True, gr_payload = Some d,
                       gr_confirmation = map_option fact_to_dict (confirmation_fact_from_preview_artifact (PDict d)),
                       gr_error_code = None, gr_preview_id = pid\<rparr>)
        | _ \<Rightarrow> refuse None ''PREVIEW_NOT_FOUND'' pid)"

definition guard_reports_expired_before_mismatch :: "time_view \<Rightarrow> guard_reply \<Rightarrow> bool" where
  "guard_reports_expired_before_mismatch tm guard =
    (gr_error_code guard = Some ''PROJECT_MISMATCH'' \<and> (case gr_payload guard of Some d \<Rightarrow> is_expired tm d | None \<Rightarrow> False))"

section \<open>The guard of Git commit previews\<close>

record commit_guard_reply =
  cg_ok :: bool
  cg_confirmation :: "dict option"
  cg_error_code :: "string option"
  cg_preview_id :: "string option"
  cg_commit_hash :: py

definition parse_commit_preview_time :: "time_view \<Rightarrow> py \<Rightarrow> int option" where
  "parse_commit_preview_time tm v = (case v of PStr s \<Rightarrow> if s = [] then None else tm_read_utc tm s | _ \<Rightarrow> None)"

definition confirmation_git_commit_preview_guard :: "time_view \<Rightarrow> py \<Rightarrow> commit_guard_reply" where
  "confirmation_git_commit_preview_guard tm preview =
    (case preview of
       PDict d \<Rightarrow>
         (let fact = confirmation_fact_from_commit_preview preview;
              shown = map_option fact_to_dict fact;
              pid = (case fact of Some f \<Rightarrow> cf_preview_id f | None \<Rightarrow> as_optional_str (dget d ''preview_id''))
          in if truthy (dget d ''committed_at'')
             then \<lparr>cg_ok = False, cg_confirmation = shown, cg_error_code = Some ''PREVIEW_ALREADY_COMMITTED'', cg_preview_id = pid,
                   cg_commit_hash = dget d ''commit_hash''\<rparr>
             else if (case parse_commit_preview_time tm (dget d ''expires_at'') of Some t \<Rightarrow> t \<le> tm_now tm | None \<Rightarrow> True)
             then \<lparr>cg_ok = False, cg_confirmation = shown, cg_error_code = Some ''PREVIEW_EXPIRED'', cg_preview_id = pid, cg_commit_hash = PNone\<rparr>
             else \<lparr>cg_ok = True, cg_confirmation = shown, cg_error_code = None, cg_preview_id = pid, cg_commit_hash = PNone\<rparr>)
     | _ \<Rightarrow> \<lparr>cg_ok = False, cg_confirmation = None, cg_error_code = Some ''PREVIEW_INVALID'', cg_preview_id = None, cg_commit_hash = PNone\<rparr>)"

section \<open>Facts\<close>

lemma read_after_write:
  assumes "store_write pid payload store = Inr store'"
  shows "store_read store' (PStr pid) = PDict payload"
    and "other \<noteq> PStr pid \<Longrightarrow> store_read store' other = store_read store other"
proof -
  obtain f where f: "safe_path (PStr pid) = Some f" "store' = AList.update f (Json_Value (PDict payload)) store"
    using assms by (auto simp: store_write_def split: option.splits)
  then show "store_read store' (PStr pid) = PDict payload" by (simp add: store_read_def update_conv')
  assume "other \<noteq> PStr pid"
  then have "safe_path other \<noteq> Some f"
    using f(1) by (auto simp: safe_path_def split: py.splits if_splits)
  then show "store_read store' other = store_read store other"
    by (auto simp: store_read_def f(2) update_conv' split: option.splits)
qed

lemma read_after_delete:
  assumes "store_delete pid store = (ok, store')"
  shows "store_read store' pid = PNone"
  using assms by (auto simp: store_delete_def store_read_def delete_conv' split: option.splits if_splits)

lemma guard_ok_iff:
  fixes preview_id :: string
  defines "pid \<equiv> py_strip preview_id"
  shows "gr_ok (confirmation_apply_guard sha256 binding tm store preview_id project_root payload) \<longleftrightarrow>
    (\<exists>d. (if payload = PNone then store_read store (PStr pid) else payload) = PDict d
      \<and> (\<forall>i h. binding = Some (i, h) \<longrightarrow> pid = i \<and> canonical_artifact_digest sha256 (PDict d) = h)
      \<and> (\<forall>r. project_root = Some r \<longrightarrow> dget d ''project_root'' = PStr r)
      \<and> \<not> is_expired tm d)"
proof -
  define found where "found = (if payload = PNone then store_read store (PStr pid) else payload)"
  have guard: "confirmation_apply_guard sha256 binding tm store preview_id project_root payload =
    (case found of
       PDict d \<Rightarrow>
         (case bound_artifact_error sha256 binding pid (PDict d) of
            Some e \<Rightarrow> refuse (Some d) e pid
          | None \<Rightarrow>
              if (case project_root of Some r \<Rightarrow> dget d ''project_root'' \<noteq> PStr r | None \<Rightarrow> False) then refuse (Some d) ''PROJECT_MISMATCH'' pid
              else if is_expired tm d then refuse (Some d) ''PREVIEW_EXPIRED'' pid
              else \<lparr>gr_ok = True, gr_payload = Some d,
                    gr_confirmation = map_option fact_to_dict (confirmation_fact_from_preview_artifact (PDict d)),
                    gr_error_code = None, gr_preview_id = pid\<rparr>)
     | _ \<Rightarrow> refuse None ''PREVIEW_NOT_FOUND'' pid)"
    by (simp only: confirmation_apply_guard_def Let_def pid_def found_def)
  have bound: "bound_artifact_error sha256 binding pid (PDict d) = None \<longleftrightarrow>
      (\<forall>i h. binding = Some (i, h) \<longrightarrow> pid = i \<and> canonical_artifact_digest sha256 (PDict d) = h)" for d
    by (auto simp: bound_artifact_error_def split: option.splits)
  show ?thesis
  proof (cases found)
    case (PDict d)
    show ?thesis
      unfolding guard found_def [symmetric] PDict bound [symmetric]
      by (auto simp: refuse_def bound [symmetric] split: option.splits)
  qed (simp_all add: guard refuse_def flip: found_def)
qed

lemma commit_guard_ok_iff:
  "cg_ok (confirmation_git_commit_preview_guard tm preview) \<longleftrightarrow>
    (\<exists>d t. preview = PDict d \<and> \<not> truthy (dget d ''committed_at'')
      \<and> parse_commit_preview_time tm (dget d ''expires_at'') = Some t \<and> tm_now tm < t)"
  by (cases preview) (auto simp: confirmation_git_commit_preview_guard_def Let_def split: option.splits)

text \<open>A fact whose metadata has none of the known fields is read back from its dict.\<close>

definition fact_ok :: "confirmation_fact \<Rightarrow> bool" where
  "fact_ok f \<longleftrightarrow> cf_metadata f \<noteq> Some []
    \<and> (\<forall>m. cf_metadata f = Some m \<longrightarrow> (\<forall>kv\<in>set m. fst kv \<notin> set CONFIRMATION_KNOWN_FIELDS))"

lemma dget_put_other [simp]: "k \<noteq> k' \<Longrightarrow> dget_or (put_opt k v d) k' w = dget_or d k' w"
  by (simp add: put_opt_def split: option.splits)

lemma dget_put_same [simp]: "dget_or d k w = w \<Longrightarrow> dget_or (put_opt k v d) k w = (case v of Some x \<Rightarrow> x | None \<Rightarrow> w)"
  by (simp add: put_opt_def split: option.splits)

lemma filter_update_known: "k \<in> K \<Longrightarrow> filter (\<lambda>kv. fst kv \<notin> K) (dset k v d) = filter (\<lambda>kv. fst kv \<notin> K) d"
  by (induction d) auto

lemma filter_put_known: "k \<in> K \<Longrightarrow> filter (\<lambda>kv. fst kv \<notin> K) (put_opt k v d) = filter (\<lambda>kv. fst kv \<notin> K) d"
  by (simp add: put_opt_def filter_update_known split: option.splits)

lemma known_not_in_metadata: "\<forall>kv\<in>set m. fst kv \<notin> K \<Longrightarrow> k \<in> K \<Longrightarrow> map_of m k = None"
  by (auto simp: map_of_eq_None_iff)

lemma as_optional_list_items [simp]: "as_optional_list (text_items xs) = Some xs"
proof -
  have "List.map_filter as_optional_str (map PStr xs) = xs" by (induction xs) (simp_all add: as_optional_str_def)
  then show ?thesis by (simp add: as_optional_list_def text_items_def)
qed

lemma fact_ok_metadata: "fact_ok f \<Longrightarrow> \<forall>kv\<in>set (case cf_metadata f of Some m \<Rightarrow> m | None \<Rightarrow> []). fst kv \<notin> set CONFIRMATION_KNOWN_FIELDS"
  by (cases "cf_metadata f") (auto simp: fact_ok_def)

lemma fact_metadata_back:
  assumes "fact_ok f"
  shows "metadata_beyond CONFIRMATION_KNOWN_FIELDS (fact_to_dict f) = cf_metadata f"
proof -
  let ?m = "case cf_metadata f of Some m \<Rightarrow> m | None \<Rightarrow> []"
  have known: "list_all (\<lambda>k. k \<in> set CONFIRMATION_KNOWN_FIELDS) CONFIRMATION_KNOWN_FIELDS" by (simp add: list_all_iff)
  have "filter (\<lambda>kv. fst kv \<notin> set CONFIRMATION_KNOWN_FIELDS) (fact_to_dict f) = filter (\<lambda>kv. fst kv \<notin> set CONFIRMATION_KNOWN_FIELDS) ?m"
    unfolding fact_to_dict_def using known [unfolded arg_cong [OF CONFIRMATION_KNOWN_FIELDS_def, of "list_all P" for P]]
    by (simp add: filter_put_known filter_update_known)
  also have "\<dots> = ?m" using fact_ok_metadata [OF assms] by (simp add: filter_id_conv)
  finally show ?thesis using assms by (auto simp: metadata_beyond_def Let_def fact_ok_def split: option.splits)
qed

lemma fact_round_trip:
  assumes "fact_ok f"
  shows "normalize_confirmation_fact (PDict (fact_to_dict f)) = Some f"
proof -
  let ?m = "case cf_metadata f of Some m \<Rightarrow> m | None \<Rightarrow> []"
  have none: "dget_or ?m k w = w" if "k \<in> set CONFIRMATION_KNOWN_FIELDS" for k w
  proof -
    have "map_of ?m k = None"
      using fact_ok_metadata [OF assms] that by (rule known_not_in_metadata)
    then show ?thesis by (simp add: dget_or_def)
  qed
  have some: "as_optional_str (case v of Some x \<Rightarrow> ((\<lambda>x. x) \<circ> PStr) x | None \<Rightarrow> PNone) = v" for v
    by (cases v) (simp_all add: as_optional_str_def)
  have params: "as_optional_dict (case v of Some x \<Rightarrow> ((\<lambda>x. x) \<circ> PDict) x | None \<Rightarrow> PNone) = v" for v
    by (cases v) (simp_all add: as_optional_dict_def)
  have ids: "as_optional_list (case v of Some x \<Rightarrow> ((\<lambda>x. x) \<circ> text_items) x | None \<Rightarrow> PNone) = v" for v
    by (cases v) (simp_all add: as_optional_list_def [of PNone])
  have known: "list_all (\<lambda>k. k \<in> set CONFIRMATION_KNOWN_FIELDS) CONFIRMATION_KNOWN_FIELDS" by (simp add: list_all_iff)
  have fields_back: "fact_from_fields (fact_to_dict f) (cf_metadata f) = f"
    using known [unfolded arg_cong [OF CONFIRMATION_KNOWN_FIELDS_def, of "list_all P" for P]]
    unfolding fact_from_fields_def fact_to_dict_def by (simp add: none some params ids)
  show ?thesis by (simp add: normalize_confirmation_fact_def fact_metadata_back [OF assms] fields_back)
qed

text \<open>An expiry that cannot be read is no expiry.\<close>

lemma unreadable_expiry_never_expires:
  "dget_or payload ''expires_at'' (PStr []) = PStr s \<Longrightarrow> tm_read tm s = None \<Longrightarrow> \<not> is_expired tm payload"
  by (simp add: is_expired_def)

text \<open>With a digest free of collisions, an approved apply works on the preview that was shown.\<close>

lemma bound_guard_payload:
  assumes "gr_ok (confirmation_apply_guard sha256 (Some (i, canonical_artifact_digest sha256 (PDict shown))) tm store preview_id root payload)"
    and "inj sha256"
  shows "\<exists>d. gr_payload (confirmation_apply_guard sha256 (Some (i, canonical_artifact_digest sha256 (PDict shown))) tm store preview_id root payload) = Some d
    \<and> jsort (PDict d) = jsort (PDict shown) \<and> py_strip preview_id = i"
proof -
  let ?g = "confirmation_apply_guard sha256 (Some (i, canonical_artifact_digest sha256 (PDict shown))) tm store preview_id root payload"
  obtain d where d: "(if payload = PNone then store_read store (PStr (py_strip preview_id)) else payload) = PDict d"
    "py_strip preview_id = i" "canonical_artifact_digest sha256 (PDict d) = canonical_artifact_digest sha256 (PDict shown)"
    using assms(1) unfolding guard_ok_iff by auto
  have "render (jsort (PDict d)) = render (jsort (PDict shown))"
    using d(3) assms(2) unfolding canonical_artifact_digest_def by (rule injD [rotated])
  then have "jsort (PDict d) = jsort (PDict shown)" by (rule render_inj)
  moreover have "gr_payload ?g = Some d"
    using assms(1) d(1) unfolding confirmation_apply_guard_def Let_def
    by (auto simp: refuse_def split: option.splits if_splits)
  ultimately show ?thesis using d(2) by blast
qed

lemma bound_guard_applies:
  assumes "gr_ok (confirmation_apply_guard sha256 (Some (i, canonical_artifact_digest sha256 (PDict shown))) tm store preview_id (Some root) payload)"
    and "inj sha256"
  shows "\<exists>d. gr_payload (confirmation_apply_guard sha256 (Some (i, canonical_artifact_digest sha256 (PDict shown))) tm store preview_id (Some root) payload) = Some d
    \<and> jsort (PDict d) = jsort (PDict shown) \<and> py_strip preview_id = i \<and> dget d ''project_root'' = PStr root \<and> \<not> is_expired tm d"
proof -
  let ?g = "confirmation_apply_guard sha256 (Some (i, canonical_artifact_digest sha256 (PDict shown))) tm store preview_id (Some root) payload"
  obtain d where d: "gr_payload ?g = Some d" "jsort (PDict d) = jsort (PDict shown)" "py_strip preview_id = i"
    using bound_guard_payload [OF assms] by blast
  obtain e where e: "(if payload = PNone then store_read store (PStr (py_strip preview_id)) else payload) = PDict e"
    "dget e ''project_root'' = PStr root" "\<not> is_expired tm e"
    using assms(1) unfolding guard_ok_iff by auto
  have "d = e"
    using assms(1) d(1) e(1) unfolding confirmation_apply_guard_def Let_def
    by (auto simp: refuse_def split: option.splits if_splits)
  with d e show ?thesis by blast
qed

end
