(* ===== verification/OAuthStore.thy ===== *)
theory OAuthStore
  imports PyCollections
begin

text \<open>
  \<open>runner/mcp_oauth.py\<close>: the store of registered clients, authorization codes, access tokens and revoked
  tokens, and the provider over it (registration, authorization with PKCE, exchange, revocation,
  validation).  The store is one JSON file; the clock, what \<open>secrets\<close> draws, the S256 challenge and faults
  of the file system are parameters.  The order of keys in the file, which nothing observes, is kept.
\<close>

section \<open>Environment\<close>

definition DEFAULT_SCOPES :: "string list" where
  "DEFAULT_SCOPES = [''mcp:read'', ''mcp:preview'', ''mcp:commit'', ''mcp:plan'']"

text \<open>A save may fail when the file is opened, or while it is rewritten in place.\<close>

datatype save_fault = No_Fault | Open_Fails | Write_Fails

text \<open>
  \<open>oe_fault n\<close> is the fault of the nth save of an operation; \<open>oe_show\<close> is \<open>str()\<close> of a value that is no text.
\<close>

record oauth_env =
  oe_now :: int
  oe_stamp :: string
  oe_secret :: string
  oe_challenge :: "string \<Rightarrow> string"
  oe_show :: "py \<Rightarrow> string"
  oe_fault :: "nat \<Rightarrow> save_fault"

section \<open>The store\<close>

definition TABLES :: "string list" where
  "TABLES = [''clients'', ''authorization_codes'', ''access_tokens'', ''revoked_tokens'']"

definition empty_store :: "string \<Rightarrow> dict" where
  "empty_store stamp = map (\<lambda>k. (k, PDict [])) TABLES @ [(''created_at'', PStr stamp), (''updated_at'', PStr stamp)]"

definition set_default :: "string \<Rightarrow> py \<Rightarrow> dict \<Rightarrow> dict" where
  "set_default k v d = (if dhas d k then d else dset k v d)"

definition touched :: "string \<Rightarrow> dict \<Rightarrow> dict" where
  "touched stamp d = dset ''updated_at'' (PStr stamp) (set_default ''created_at'' (PStr stamp) d)"

definition with_table :: "dict \<Rightarrow> string \<Rightarrow> dict" where
  "with_table d k = (if is_dict (dget d k) then d else dset k (PDict []) d)"

definition load_store :: "string \<Rightarrow> json_file \<Rightarrow> dict" where
  "load_store stamp file =
    (case file of Json (PDict d) \<Rightarrow> touched stamp (foldl with_table d TABLES) | _ \<Rightarrow> empty_store stamp)"

definition save_store :: "save_fault \<Rightarrow> string \<Rightarrow> dict \<Rightarrow> json_file \<Rightarrow> unit result \<times> json_file" where
  "save_store fault stamp d file =
    (case fault of
       No_Fault \<Rightarrow> (Inr (), Json (PDict (touched stamp d)))
     | Open_Fails \<Rightarrow> (Inl (Py_Exc ''OSError''), file)
     | Write_Fails \<Rightarrow> (Inl (Py_Exc ''OSError''), Garbage []))"

definition rows :: "dict \<Rightarrow> string \<Rightarrow> dict" where
  "rows d k = (case dget d k of PDict t \<Rightarrow> t | _ \<Rightarrow> [])"

definition put_row :: "string \<Rightarrow> string \<Rightarrow> dict \<Rightarrow> dict \<Rightarrow> dict" where
  "put_row k i row d = dset k (PDict (dset i (PDict row) (rows d k))) d"

definition row_at :: "dict \<Rightarrow> string \<Rightarrow> string \<Rightarrow> dict option" where
  "row_at d k i = (case dget (rows d k) i of PDict r \<Rightarrow> Some r | _ \<Rightarrow> None)"

text \<open>\<open>int(row.get('expires_at') or 0)\<close>\<close>

definition expiry :: "dict \<Rightarrow> int result" where
  "expiry row =
    (let v = py_or (dget row ''expires_at'') (PInt 0)
     in case int_of_py v of Some i \<Rightarrow> Inr i | None \<Rightarrow> Inl (Py_Exc (if is_str v then ''ValueError'' else ''TypeError'')))"

fun live_rows :: "int \<Rightarrow> dict \<Rightarrow> dict result" where
  "live_rows now [] = Inr []"
| "live_rows now (kv # t) =
     ebind (case snd kv of PDict r \<Rightarrow> ebind (expiry r) (\<lambda>e. Inr (now < e)) | _ \<Rightarrow> Inr False) (\<lambda>keep.
     ebind (live_rows now t) (\<lambda>rest. Inr (if keep then kv # rest else rest)))"

definition cleanup_expired :: "oauth_env \<Rightarrow> json_file \<Rightarrow> unit result \<times> json_file" where
  "cleanup_expired e file =
    (let d = load_store (oe_stamp e) file
     in case ebind (live_rows (oe_now e) (rows d ''authorization_codes'')) (\<lambda>codes.
             ebind (live_rows (oe_now e) (rows d ''access_tokens'')) (\<lambda>tokens. Inr (codes, tokens))) of
          Inl x \<Rightarrow> (Inl x, file)
        | Inr (codes, tokens) \<Rightarrow>
            if length codes \<noteq> length (rows d ''authorization_codes'') \<or> length tokens \<noteq> length (rows d ''access_tokens'')
            then save_store (oe_fault e 0) (oe_stamp e) (dset ''access_tokens'' (PDict tokens) (dset ''authorization_codes'' (PDict codes) d)) file
            else (Inr (), file))"

record oauth_client =
  oc_client_id :: string
  oc_client_name :: string
  oc_redirect_uris :: "string list"
  oc_scope :: string
  oc_issued_at :: int

definition client_row :: "oauth_client \<Rightarrow> dict" where
  "client_row c = [(''client_id'', PStr (oc_client_id c)), (''client_name'', PStr (oc_client_name c)),
     (''redirect_uris'', PList (map PStr (oc_redirect_uris c))), (''scope'', PStr (oc_scope c)), (''client_id_issued_at'', PInt (oc_issued_at c))]"

record authorization_code =
  ac_code :: string
  ac_client_id :: string
  ac_redirect_uri :: string
  ac_challenge :: string
  ac_method :: string
  ac_scope :: string
  ac_expires_at :: int
  ac_created_at :: int

definition code_row :: "authorization_code \<Rightarrow> dict" where
  "code_row c = [(''code'', PStr (ac_code c)), (''client_id'', PStr (ac_client_id c)), (''redirect_uri'', PStr (ac_redirect_uri c)),
     (''code_challenge'', PStr (ac_challenge c)), (''code_challenge_method'', PStr (ac_method c)), (''scope'', PStr (ac_scope c)),
     (''expires_at'', PInt (ac_expires_at c)), (''created_at'', PInt (ac_created_at c))]"

record access_token =
  at_token :: string
  at_client_id :: string
  at_scope :: string
  at_expires_at :: int
  at_created_at :: int

definition token_row :: "access_token \<Rightarrow> dict" where
  "token_row t = [(''token'', PStr (at_token t)), (''client_id'', PStr (at_client_id t)), (''scope'', PStr (at_scope t)),
     (''expires_at'', PInt (at_expires_at t)), (''created_at'', PInt (at_created_at t))]"

text \<open>The locked updates: load, change one table, save.\<close>

definition store_register_client :: "oauth_env \<Rightarrow> oauth_client \<Rightarrow> json_file \<Rightarrow> unit result \<times> json_file" where
  "store_register_client e c file =
    save_store (oe_fault e 0) (oe_stamp e) (put_row ''clients'' (oc_client_id c) (client_row c) (load_store (oe_stamp e) file)) file"

definition get_client :: "oauth_env \<Rightarrow> string \<Rightarrow> json_file \<Rightarrow> dict option" where
  "get_client e client_id file = row_at (load_store (oe_stamp e) file) ''clients'' client_id"

definition create_authorization_code :: "oauth_env \<Rightarrow> authorization_code \<Rightarrow> json_file \<Rightarrow> unit result \<times> json_file" where
  "create_authorization_code e c file =
    save_store (oe_fault e 0) (oe_stamp e) (put_row ''authorization_codes'' (ac_code c) (code_row c) (load_store (oe_stamp e) file)) file"

definition pop_authorization_code :: "oauth_env \<Rightarrow> string \<Rightarrow> json_file \<Rightarrow> dict option result \<times> json_file" where
  "pop_authorization_code e code file =
    (let d = load_store (oe_stamp e) file
     in apfst (\<lambda>r. ebind r (\<lambda>_. Inr (row_at d ''authorization_codes'' code)))
         (save_store (oe_fault e 0) (oe_stamp e)
           (dset ''authorization_codes'' (PDict (AList.delete code (rows d ''authorization_codes''))) d) file))"

definition create_access_token :: "oauth_env \<Rightarrow> access_token \<Rightarrow> json_file \<Rightarrow> unit result \<times> json_file" where
  "create_access_token e t file =
    save_store (oe_fault e 1) (oe_stamp e) (put_row ''access_tokens'' (at_token t) (token_row t) (load_store (oe_stamp e) file)) file"

definition store_validate_token :: "oauth_env \<Rightarrow> string \<Rightarrow> json_file \<Rightarrow> dict option result" where
  "store_validate_token e token file =
    (let d = load_store (oe_stamp e) file
     in if dhas (rows d ''revoked_tokens'') token then Inr None
        else case row_at d ''access_tokens'' token of
               None \<Rightarrow> Inr None
             | Some r \<Rightarrow> ebind (expiry r) (\<lambda>x. Inr (if x \<le> oe_now e then None else Some r)))"

definition store_revoke_token :: "oauth_env \<Rightarrow> string \<Rightarrow> json_file \<Rightarrow> unit result \<times> json_file" where
  "store_revoke_token e token file =
    (let d = load_store (oe_stamp e) file;
         d1 = dset ''access_tokens'' (PDict (AList.delete token (rows d ''access_tokens''))) d
     in save_store (oe_fault e 0) (oe_stamp e) (put_row ''revoked_tokens'' token [(''revoked_at'', PInt (oe_now e))] d1) file)"

section \<open>The provider\<close>

text \<open>A status with the error code of the body, or with the body.\<close>

datatype token_reply = Refused string | Granted dict

datatype page = Invalid_Client | Unregistered_Redirect | Bad_Response_Type | Pkce_Required | Consent string string

text \<open>
  A page of status 400 or the consent page with the client's name and the scope; or a redirect to the
  client's URI with the parameters that are set in its query.
\<close>

datatype authorize_reply = Page page | Redirect string "(string \<times> string) list"

definition normalize_scope :: "py \<Rightarrow> string option" where
  "normalize_scope v =
    (if v = PNone \<or> v = PStr [] then Some (join_ws DEFAULT_SCOPES)
     else case v of
       PStr s \<Rightarrow>
         (if split_ws s = [] then Some (join_ws DEFAULT_SCOPES)
          else if list_ex (\<lambda>w. w \<notin> set DEFAULT_SCOPES) (split_ws s) then None
          else Some (join_ws (split_ws s)))
     | _ \<Rightarrow> None)"

definition redirect_ok :: "py \<Rightarrow> bool" where
  "redirect_ok v = (case v of PStr u \<Rightarrow> starts_with u ''http://'' \<or> starts_with u ''https://'' | _ \<Rightarrow> False)"

definition text_or_empty :: "py \<Rightarrow> string" where
  "text_or_empty v = (case v of PStr s \<Rightarrow> s | _ \<Rightarrow> [])"

definition new_client :: "oauth_env \<Rightarrow> dict \<Rightarrow> py list \<Rightarrow> string \<Rightarrow> oauth_client" where
  "new_client e payload uris scope =
    (let name = text_or_empty (dget payload ''client_name'')
     in \<lparr>oc_client_id = oe_secret e, oc_client_name = (if name = [] then ''MVP Runner MCP Client'' else name),
         oc_redirect_uris = map text_or_empty uris, oc_scope = scope, oc_issued_at = oe_now e\<rparr>)"

definition client_reply :: "oauth_client \<Rightarrow> dict" where
  "client_reply c =
    [(''client_id'', PStr (oc_client_id c)), (''client_id_issued_at'', PInt (oc_issued_at c)),
     (''client_name'', PStr (oc_client_name c)), (''redirect_uris'', PList (map PStr (oc_redirect_uris c))),
     (''grant_types'', PList [PStr ''authorization_code'']), (''response_types'', PList [PStr ''code'']),
     (''token_endpoint_auth_method'', PStr ''none''), (''scope'', PStr (oc_scope c))]"

definition register_client :: "oauth_env \<Rightarrow> dict \<Rightarrow> json_file \<Rightarrow> token_reply result \<times> json_file" where
  "register_client e payload file =
    (case dget payload ''redirect_uris'' of
       PList uris \<Rightarrow>
         if uris = [] \<or> \<not> list_all redirect_ok uris then (Inr (Refused ''invalid_request''), file)
         else (case normalize_scope (dget payload ''scope'') of
             None \<Rightarrow> (Inr (Refused ''invalid_scope''), file)
           | Some scope \<Rightarrow>
               apfst (\<lambda>r. ebind r (\<lambda>_. Inr (Granted (client_reply (new_client e payload uris scope)))))
                 (store_register_client e (new_client e payload uris scope) file))
     | _ \<Rightarrow> (Inr (Refused ''invalid_request''), file))"

text \<open>\<open>{key: values[-1] for key, values in query.items() if values}\<close>\<close>

definition last_params :: "(string \<times> string list) list \<Rightarrow> (string \<times> string) list" where
  "last_params query = map (\<lambda>(k, vs). (k, last vs)) (filter (\<lambda>kv. snd kv \<noteq> []) query)"

definition param :: "(string \<times> string) list \<Rightarrow> string \<Rightarrow> string" where
  "param ps k = (case map_of ps k of Some v \<Rightarrow> v | None \<Rightarrow> [])"

text \<open>The text of a value after \<open>or ''\<close>.\<close>

definition shown_text :: "oauth_env \<Rightarrow> py \<Rightarrow> string" where
  "shown_text e v = (if \<not> truthy v then [] else case v of PStr s \<Rightarrow> s | w \<Rightarrow> oe_show e w)"

definition redirect_with :: "string \<Rightarrow> (string \<times> string) list \<Rightarrow> authorize_reply" where
  "redirect_with uri values = Redirect uri (filter (\<lambda>kv. snd kv \<noteq> []) values)"

definition CODE_TTL_SECONDS :: int where "CODE_TTL_SECONDS = 300"

definition new_code :: "oauth_env \<Rightarrow> (string \<times> string) list \<Rightarrow> string \<Rightarrow> authorization_code" where
  "new_code e ps scope =
    \<lparr>ac_code = oe_secret e, ac_client_id = param ps ''client_id'', ac_redirect_uri = param ps ''redirect_uri'',
     ac_challenge = param ps ''code_challenge'', ac_method = ''S256'', ac_scope = scope,
     ac_expires_at = oe_now e + CODE_TTL_SECONDS, ac_created_at = oe_now e\<rparr>"

text \<open>The scope of a request, None when it is not supported or not one of the client's.\<close>

definition scope_of_request :: "oauth_env \<Rightarrow> (string \<times> string) list \<Rightarrow> dict \<Rightarrow> string option" where
  "scope_of_request e ps client =
    (case normalize_scope (py_or (PStr (param ps ''scope'')) (dget client ''scope'')) of
       None \<Rightarrow> None
     | Some scope \<Rightarrow>
         if list_ex (\<lambda>w. w \<notin> set (split_ws (shown_text e (dget client ''scope'')))) (split_ws scope) then None else Some scope)"

definition authorize :: "oauth_env \<Rightarrow> (string \<times> string list) list \<Rightarrow> json_file \<Rightarrow> authorize_reply result \<times> json_file" where
  "authorize e query file =
    (let ps = last_params query; client_id = param ps ''client_id''; uri = param ps ''redirect_uri''; state = param ps ''state''
     in case get_client e client_id file of
          None \<Rightarrow> (Inr (Page Invalid_Client), file)
        | Some client \<Rightarrow>
            (case py_in (PStr uri) (dget_or client ''redirect_uris'' (PList [])) of
               Inl x \<Rightarrow> (Inl x, file)
             | Inr registered \<Rightarrow>
                 if \<not> registered then (Inr (Page Unregistered_Redirect), file)
                 else if param ps ''response_type'' \<noteq> ''code'' then (Inr (Page Bad_Response_Type), file)
                 else if param ps ''code_challenge'' = [] \<or> param ps ''code_challenge_method'' \<noteq> ''S256'' then (Inr (Page Pkce_Required), file)
                 else (case scope_of_request e ps client of
                     None \<Rightarrow> (Inr (redirect_with uri [(''error'', ''invalid_scope''), (''state'', state)]), file)
                   | Some scope \<Rightarrow>
                       if param ps ''deny'' = ''1'' then (Inr (redirect_with uri [(''error'', ''access_denied''), (''state'', state)]), file)
                       else if param ps ''approve'' \<noteq> ''1'' then
                         (Inr (Page (Consent (let n = shown_text e (dget client ''client_name'') in if n = [] then ''MVP Runner MCP Client'' else n) scope)), file)
                       else apfst (\<lambda>r. ebind r (\<lambda>_. Inr (redirect_with uri [(''code'', oe_secret e), (''state'', state)])))
                         (create_authorization_code e (new_code e ps scope) file))))"

definition nonempty_text :: "py \<Rightarrow> bool" where
  "nonempty_text v = (case v of PStr s \<Rightarrow> s \<noteq> [] | _ \<Rightarrow> False)"

text \<open>\<open>secrets.compare_digest\<close> raises on texts that are not ASCII; the challenge of a verifier always is.\<close>

definition ascii_text :: "string \<Rightarrow> bool" where
  "ascii_text s = list_all (\<lambda>c. (of_char c :: nat) < 128) s"

text \<open>Whether a code that was popped is refused; each case of refusal has the error \<open>invalid_grant\<close>.\<close>

definition code_refusal :: "oauth_env \<Rightarrow> dict \<Rightarrow> string \<Rightarrow> string \<Rightarrow> string \<Rightarrow> bool result" where
  "code_refusal e code client_id uri verifier =
    ebind (expiry code) (\<lambda>x.
      if x \<le> oe_now e then Inr True
      else if dget code ''client_id'' \<noteq> PStr client_id \<or> dget code ''redirect_uri'' \<noteq> PStr uri then Inr True
      else if dget code ''code_challenge_method'' \<noteq> PStr ''S256'' then Inr True
      else let expected = shown_text e (dget code ''code_challenge'')
           in if \<not> ascii_text expected then Inl (Py_Exc ''TypeError'')
              else Inr (expected \<noteq> oe_challenge e verifier))"

definition granted_scope :: "oauth_env \<Rightarrow> dict \<Rightarrow> string" where
  "granted_scope e code = (let s = shown_text e (dget code ''scope'') in if s = [] then join_ws DEFAULT_SCOPES else s)"

definition new_token :: "oauth_env \<Rightarrow> int \<Rightarrow> dict \<Rightarrow> dict \<Rightarrow> access_token" where
  "new_token e ttl payload code =
    \<lparr>at_token = oe_secret e, at_client_id = text_or_empty (dget payload ''client_id''), at_scope = granted_scope e code,
     at_expires_at = oe_now e + ttl, at_created_at = oe_now e\<rparr>"

definition token_body :: "int \<Rightarrow> access_token \<Rightarrow> dict" where
  "token_body ttl t = [(''access_token'', PStr (at_token t)), (''token_type'', PStr ''Bearer''),
     (''expires_in'', PInt ttl), (''scope'', PStr (at_scope t))]"

definition exchange_token :: "oauth_env \<Rightarrow> int \<Rightarrow> dict \<Rightarrow> json_file \<Rightarrow> token_reply result \<times> json_file" where
  "exchange_token e ttl payload file =
    (if dget payload ''grant_type'' \<noteq> PStr ''authorization_code'' then (Inr (Refused ''unsupported_grant_type''), file)
     else if \<not> list_all (\<lambda>k. nonempty_text (dget payload k)) [''code'', ''client_id'', ''redirect_uri'', ''code_verifier'']
       then (Inr (Refused ''invalid_request''), file)
     else case pop_authorization_code e (text_or_empty (dget payload ''code'')) file of
       (Inl x, file1) \<Rightarrow> (Inl x, file1)
     | (Inr None, file1) \<Rightarrow> (Inr (Refused ''invalid_grant''), file1)
     | (Inr (Some code), file1) \<Rightarrow>
         (case code_refusal e code (text_or_empty (dget payload ''client_id'')) (text_or_empty (dget payload ''redirect_uri''))
                 (text_or_empty (dget payload ''code_verifier'')) of
            Inl x \<Rightarrow> (Inl x, file1)
          | Inr refused \<Rightarrow>
              if refused then (Inr (Refused ''invalid_grant''), file1)
              else apfst (\<lambda>r. ebind r (\<lambda>_. Inr (Granted (token_body ttl (new_token e ttl payload code)))))
                (create_access_token e (new_token e ttl payload code) file1)))"

definition revoke_token :: "oauth_env \<Rightarrow> dict \<Rightarrow> json_file \<Rightarrow> unit result \<times> json_file" where
  "revoke_token e payload file =
    (if nonempty_text (dget payload ''token'') then store_revoke_token e (text_or_empty (dget payload ''token'')) file else (Inr (), file))"

definition validate_token :: "oauth_env \<Rightarrow> string \<Rightarrow> json_file \<Rightarrow> dict option result \<times> json_file" where
  "validate_token e token file =
    (case cleanup_expired e file of
       (Inl x, file') \<Rightarrow> (Inl x, file')
     | (Inr _, file') \<Rightarrow> (store_validate_token e token file', file'))"

definition validate_scope :: "dict \<Rightarrow> string \<Rightarrow> bool" where
  "validate_scope token required = (required \<in> set (split_ws (text_or_empty (dget token ''scope''))))"

section \<open>Metadata\<close>

text \<open>\<open>url.rstrip('/')\<close>; the documents under the public address of the server.\<close>

definition public_base :: "string \<Rightarrow> string" where
  "public_base url = rev (dropWhile (\<lambda>c. c = CHR ''/'') (rev url))"

definition protected_resource_metadata :: "string \<Rightarrow> dict" where
  "protected_resource_metadata url = [(''resource'', PStr (public_base url @ ''/mcp'')),
     (''authorization_servers'', PList [PStr (public_base url)]), (''bearer_methods_supported'', PList [PStr ''header'']),
     (''resource_name'', PStr ''MVP Runner MCP'')]"

definition protected_resource_metadata_url :: "string \<Rightarrow> string" where
  "protected_resource_metadata_url url = public_base url @ ''/.well-known/oauth-protected-resource''"

definition authorization_server_metadata :: "string \<Rightarrow> dict" where
  "authorization_server_metadata url =
    (let b = public_base url
     in [(''issuer'', PStr b), (''authorization_endpoint'', PStr (b @ ''/authorize'')), (''token_endpoint'', PStr (b @ ''/token'')),
         (''registration_endpoint'', PStr (b @ ''/register'')), (''revocation_endpoint'', PStr (b @ ''/revoke'')),
         (''response_types_supported'', PList [PStr ''code'']), (''grant_types_supported'', PList [PStr ''authorization_code'']),
         (''code_challenge_methods_supported'', PList [PStr ''S256'']), (''token_endpoint_auth_methods_supported'', PList [PStr ''none'']),
         (''scopes_supported'', PList (map PStr DEFAULT_SCOPES))])"

end
