(* ===== verification/OAuthFacts.thy ===== *)
theory OAuthFacts
  imports OAuthStore
begin

text \<open>
  What the OAuth store and provider guarantee: the tables after each operation and each fault, traces of
  calls in the style of protocol proofs (the latest call first, secrets drawn fresh), and the provenance
  of every client, code and token that such a trace leaves in the store.
\<close>

section \<open>Words\<close>

lemma split_on_word: "c \<notin> set w \<Longrightarrow> split_on c (w @ s) = (w @ hd (split_on c s)) # tl (split_on c s)"
  by (induction w) (auto split: list.splits)

lemma split_on_sep_free: "w \<in> set (split_on c s) \<Longrightarrow> c \<notin> set w"
proof (induction s arbitrary: w)
  case (Cons x s)
  show ?case
  proof (cases "split_on c s")
    case (Cons p ps)
    then show ?thesis using Cons.IH Cons.prems by (auto split: if_splits)
  qed simp
qed simp

lemma split_on_chars: "w \<in> set (split_on c s) \<Longrightarrow> set w \<subseteq> set s"
proof (induction s arbitrary: w)
  case (Cons x s)
  show ?case
  proof (cases "split_on c s")
    case (Cons p ps)
    then show ?thesis using Cons.IH Cons.prems by (fastforce split: if_splits)
  qed simp
qed simp

definition is_word :: "string \<Rightarrow> bool" where
  "is_word w = (w \<noteq> [] \<and> list_all (\<lambda>c. \<not> is_ws c) w)"

lemma is_word_blank: "is_word w \<Longrightarrow> CHR '' '' \<notin> set w"
  by (auto simp: is_word_def list_all_iff is_ws_def Let_def)

lemma is_word_map: "is_word w \<Longrightarrow> map (\<lambda>c. if is_ws c then CHR '' '' else c) w = w"
  by (induction w) (auto simp: is_word_def)

lemma split_ws_words: "list_all is_word (split_ws s)"
proof -
  have "is_word w" if w: "w \<in> set (split_ws s)" for w
  proof -
    let ?s = "map (\<lambda>c. if is_ws c then CHR '' '' else c) s"
    from w have "w \<noteq> []" "CHR '' '' \<notin> set w" "set w \<subseteq> set ?s"
      using split_on_sep_free [of w "CHR '' ''" ?s] split_on_chars [of w "CHR '' ''" ?s] by (auto simp: split_ws_def)
    then show ?thesis by (fastforce simp: is_word_def list_all_iff)
  qed
  then show ?thesis by (simp add: list_all_iff)
qed

text \<open>\<open>' '.join(ws).split() == ws\<close> for a list of words.\<close>

lemma split_join_ws: "list_all is_word ws \<Longrightarrow> split_ws (join_ws ws) = ws"
proof (induction ws rule: join_ws.induct)
  case (2 w)
  then show ?case
    using split_on_word [of "CHR '' ''" w "[]"] by (simp add: split_ws_def is_word_map is_word_blank) (simp add: is_word_def)
next
  case (3 w v ws)
  let ?f = "\<lambda>c. if is_ws c then CHR '' '' else c"
  have b: "is_ws (CHR '' '')" by code_simp
  have "split_on (CHR '' '') (map ?f (join_ws (w # v # ws))) = w # split_on (CHR '' '') (map ?f (join_ws (v # ws)))"
    using 3(2) split_on_word [of "CHR '' ''" w "CHR '' '' # map ?f (join_ws (v # ws))"]
    by (simp add: is_word_map is_word_blank b)
  then show ?case using 3 by (simp add: split_ws_def is_word_def)
qed (simp add: split_ws_def)

lemma default_scopes_words: "list_all is_word DEFAULT_SCOPES" by code_simp

definition text_words :: "py \<Rightarrow> string list" where
  "text_words v = split_ws (text_or_empty v)"

text \<open>A normalised scope has the words that were asked for, all of them supported, or all the supported ones.\<close>

lemma normalize_scope_words:
  assumes "normalize_scope v = Some s"
  shows "split_ws s = (if text_words v = [] then DEFAULT_SCOPES else text_words v)" "set (split_ws s) \<subseteq> set DEFAULT_SCOPES" "s \<noteq> []"
proof -
  have d: "split_ws (join_ws DEFAULT_SCOPES) = DEFAULT_SCOPES" by (rule split_join_ws [OF default_scopes_words])
  have e: "split_ws [] = []" by code_simp
  have n: "join_ws DEFAULT_SCOPES \<noteq> []" "DEFAULT_SCOPES \<noteq> []" by code_simp+
  consider "text_words v = []" "s = join_ws DEFAULT_SCOPES"
    | t where "v = PStr t" "split_ws t \<noteq> []" "set (split_ws t) \<subseteq> set DEFAULT_SCOPES" "s = join_ws (split_ws t)"
    using assms by (auto simp: normalize_scope_def text_words_def text_or_empty_def e list_ex_iff split: if_splits py.splits)
  then have "split_ws s = (if text_words v = [] then DEFAULT_SCOPES else text_words v) \<and> set (split_ws s) \<subseteq> set DEFAULT_SCOPES"
  proof cases
    case 2
    then show ?thesis using split_join_ws [OF split_ws_words, of t] by (simp add: text_words_def text_or_empty_def)
  qed (simp add: d)
  then show "split_ws s = (if text_words v = [] then DEFAULT_SCOPES else text_words v)" "set (split_ws s) \<subseteq> set DEFAULT_SCOPES"
    by (rule conjunct1, rule conjunct2)
  with e n(2) show "s \<noteq> []" by (auto split: if_splits)
qed

section \<open>The tables of a file\<close>

definition table :: "json_file \<Rightarrow> string \<Rightarrow> dict" where
  "table file k = (case file of Json (PDict d) \<Rightarrow> rows d k | _ \<Rightarrow> [])"

definition row_of :: "json_file \<Rightarrow> string \<Rightarrow> string \<Rightarrow> dict option" where
  "row_of file k i = (case dget (table file k) i of PDict r \<Rightarrow> Some r | _ \<Rightarrow> None)"

definition distinct_tables :: "json_file \<Rightarrow> bool" where
  "distinct_tables file = (\<forall>k\<in>set TABLES. distinct (map fst (table file k)))"

lemma rows_dset [simp]: "rows (dset k' (PDict t) d) k = (if k = k' then t else rows d k)"
  by (simp add: rows_def)

lemma rows_with_table [simp]: "rows (with_table d k') k = rows d k"
  by (cases "dget d k'") (auto simp: with_table_def rows_def)

lemma rows_with_tables [simp]: "rows (foldl with_table d ks) k = rows d k"
  by (induction ks arbitrary: d) simp_all

lemma tables_are_no_times: "k \<in> set TABLES \<Longrightarrow> k \<noteq> ''created_at'' \<and> k \<noteq> ''updated_at''"
  by (auto simp: TABLES_def)

lemma rows_touched [simp]: "k \<in> set TABLES \<Longrightarrow> rows (touched s d) k = rows d k"
  using tables_are_no_times [of k] by (auto simp: touched_def set_default_def rows_def)

lemma rows_empty_store [simp]: "k \<in> set TABLES \<Longrightarrow> rows (empty_store s) k = []"
  by (auto simp: empty_store_def TABLES_def rows_def dget_or_def)

lemma rows_load [simp]: "k \<in> set TABLES \<Longrightarrow> rows (load_store s file) k = table file k"
  by (simp add: load_store_def table_def split: json_file.splits py.splits)

lemma row_at_load [simp]: "k \<in> set TABLES \<Longrightarrow> row_at (load_store s file) k i = row_of file k i"
  by (simp add: row_at_def row_of_def)

lemma in_TABLES [simp]: "''clients'' \<in> set TABLES" "''authorization_codes'' \<in> set TABLES" "''access_tokens'' \<in> set TABLES"
  "''revoked_tokens'' \<in> set TABLES"
  by (simp_all add: TABLES_def)

lemma save_outcome:
  assumes "save_store fault s d file = (r, file')"
  obtains (saved) "r = Inr ()" "\<And>k. k \<in> set TABLES \<Longrightarrow> table file' k = rows d k"
    | (unchanged) e where "r = Inl e" "file' = file"
    | (lost) e where "r = Inl e" "\<And>k. table file' k = []"
  using assms by (cases fault) (auto simp: save_store_def table_def)

text \<open>Every row of the new file was there before, or is the one row that was added.\<close>

definition kept :: "json_file \<Rightarrow> json_file \<Rightarrow> bool" where
  "kept file file' = ((distinct_tables file \<longrightarrow> distinct_tables file')
     \<and> (\<forall>k\<in>set TABLES. \<forall>i r. row_of file' k i = Some r \<longrightarrow> row_of file k i = Some r))"

definition row_added :: "string \<Rightarrow> string \<Rightarrow> dict \<Rightarrow> json_file \<Rightarrow> json_file \<Rightarrow> bool" where
  "row_added k0 i0 r0 file file' = ((distinct_tables file \<longrightarrow> distinct_tables file')
     \<and> (\<forall>k\<in>set TABLES. \<forall>i r. row_of file' k i = Some r \<longrightarrow> (if k = k0 \<and> i = i0 then r = r0 else row_of file k i = Some r)))"

lemma kept_refl [simp]: "kept file file"
  by (simp add: kept_def)

lemma kept_trans: "kept f g \<Longrightarrow> kept g h \<Longrightarrow> kept f h"
  by (simp add: kept_def)

lemma kept_lost: "(\<And>k. table file' k = []) \<Longrightarrow> kept file file'"
  by (simp add: kept_def distinct_tables_def row_of_def dget_or_def)

lemma put_row_outcome:
  assumes "save_store fault s (put_row k i row (load_store s file)) file = (r, file')" "k \<in> set TABLES"
  shows "(r = Inr () \<and> row_added k i row file file') \<or> ((\<exists>x. r = Inl x) \<and> kept file file')"
  using assms(1)
proof (cases rule: save_outcome)
  case saved
  then show ?thesis using assms(2)
    by (auto simp: row_added_def row_of_def put_row_def distinct_tables_def distinct_update split: if_splits)
qed (auto intro: kept_lost)

lemma pop_outcome:
  assumes "pop_authorization_code e code file = (r, file')"
  shows "kept file file'" "r = Inr v \<Longrightarrow> v = row_of file ''authorization_codes'' code \<and> row_of file' ''authorization_codes'' code = None"
proof -
  obtain q where q: "save_store (oe_fault e 0) (oe_stamp e) (dset ''authorization_codes''
      (PDict (AList.delete code (table file ''authorization_codes''))) (load_store (oe_stamp e) file)) file = (q, file')"
    and r: "r = ebind q (\<lambda>_. Inr (row_of file ''authorization_codes'' code))"
    using assms by (auto simp: pop_authorization_code_def Let_def apfst_def map_prod_def split: prod.splits)
  have "kept file file' \<and> (r = Inr v \<longrightarrow> v = row_of file ''authorization_codes'' code \<and> row_of file' ''authorization_codes'' code = None)"
    using q
  proof (cases rule: save_outcome)
    case saved
    then show ?thesis
      by (auto simp: kept_def row_of_def r distinct_tables_def distinct_delete split: if_splits)
  qed (auto simp: r intro: kept_lost)
  then show "kept file file'" "r = Inr v \<Longrightarrow> v = row_of file ''authorization_codes'' code \<and> row_of file' ''authorization_codes'' code = None"
    by simp_all
qed

lemma revoke_outcome:
  assumes "store_revoke_token e token file = (r, file')"
  shows "(r = Inr () \<and> row_of file' ''access_tokens'' token = None \<or> (\<exists>x. r = Inl x))
    \<and> (distinct_tables file \<longrightarrow> distinct_tables file')
    \<and> (\<forall>k\<in>set TABLES - {''revoked_tokens''}. \<forall>i r. row_of file' k i = Some r \<longrightarrow> row_of file k i = Some r)"
proof -
  have "save_store (oe_fault e 0) (oe_stamp e) (put_row ''revoked_tokens'' token [(''revoked_at'', PInt (oe_now e))]
      (dset ''access_tokens'' (PDict (AList.delete token (table file ''access_tokens''))) (load_store (oe_stamp e) file))) file = (r, file')"
    using assms by (simp add: store_revoke_token_def Let_def)
  then show ?thesis
  proof (cases rule: save_outcome)
    case saved
    then show ?thesis
      by (auto simp: row_of_def put_row_def distinct_tables_def distinct_delete distinct_update split: if_splits)
  next
    case unchanged
    then show ?thesis by simp
  next
    case lost
    then have "kept file file'" by (intro kept_lost)
    with lost(1) show ?thesis by (simp add: kept_def)
  qed
qed

section \<open>Expired rows\<close>

lemma live_rows_subseq:
  assumes "live_rows now t = Inr t'"
  shows "set t' \<subseteq> set t" "distinct (map fst t) \<Longrightarrow> distinct (map fst t')"
  using assms
proof (induction t arbitrary: t')
  case (Cons kv t)
  { case 1 with Cons show ?case by (fastforce split: if_splits) }
  { case 2
    then obtain rest where "live_rows now t = Inr rest" "t' = kv # rest \<or> t' = rest" by (auto split: if_splits)
    with 2 Cons show ?case by fastforce }
qed simp_all

lemma live_rows_keeps_live:
  assumes "live_rows now t = Inr t'" "(i, PDict r) \<in> set t" "expiry r = Inr x" "now < x"
  shows "(i, PDict r) \<in> set t'"
  using assms by (induction t arbitrary: t') (auto split: if_splits)

lemma live_rows_expiry:
  assumes "live_rows now t = Inr t'" "(i, PDict r) \<in> set t"
  shows "\<exists>x. expiry r = Inr x"
  using assms by (induction t arbitrary: t') (auto split: if_splits)

lemma row_of_member: "distinct_tables file \<Longrightarrow> k \<in> set TABLES \<Longrightarrow>
  row_of file k i = Some r \<longleftrightarrow> (i, PDict r) \<in> set (table file k)"
proof -
  assume d: "distinct_tables file" "k \<in> set TABLES"
  then have "map_of (table file k) i = Some (PDict r) \<longleftrightarrow> (i, PDict r) \<in> set (table file k)"
    by (simp add: distinct_tables_def)
  then show ?thesis by (auto simp: row_of_def dget_or_def split: option.splits py.splits)
qed

lemma cleanup_outcome:
  assumes "cleanup_expired e file = (r, file')"
  obtains (raised) x where "r = Inl x" "file' = file"
    | (saved) codes tokens where "live_rows (oe_now e) (table file ''authorization_codes'') = Inr codes"
       "live_rows (oe_now e) (table file ''access_tokens'') = Inr tokens" "r = Inr ()"
       "\<And>k. k \<in> set TABLES \<Longrightarrow> table file' k = (if k = ''access_tokens'' then tokens else if k = ''authorization_codes'' then codes else table file k)"
    | (nothing) codes tokens where "live_rows (oe_now e) (table file ''authorization_codes'') = Inr codes"
       "live_rows (oe_now e) (table file ''access_tokens'') = Inr tokens" "r = Inr ()" "file' = file"
    | (lost) x where "r = Inl x" "\<And>k. table file' k = []"
proof -
  note D = assms [unfolded cleanup_expired_def Let_def rows_load [OF in_TABLES(2)] rows_load [OF in_TABLES(3)]]
  show thesis
  proof (cases "live_rows (oe_now e) (table file ''authorization_codes'')")
    case (Inl x)
    with D have "r = Inl x" "file' = file" by simp_all
    then show thesis by (rule raised)
  next
    case codes: (Inr codes)
    show thesis
    proof (cases "live_rows (oe_now e) (table file ''access_tokens'')")
      case (Inl x)
      with D codes have "r = Inl x" "file' = file" by simp_all
      then show thesis by (rule raised)
    next
      case tokens: (Inr tokens)
      show thesis
      proof (cases "length codes \<noteq> length (table file ''authorization_codes'') \<or> length tokens \<noteq> length (table file ''access_tokens'')")
        case True
        with D codes tokens have "save_store (oe_fault e 0) (oe_stamp e) (dset ''access_tokens'' (PDict tokens)
            (dset ''authorization_codes'' (PDict codes) (load_store (oe_stamp e) file))) file = (r, file')" by simp
        then show thesis
        proof (cases rule: save_outcome)
          case saved
          then show thesis by (intro that(2) [OF codes tokens]) simp_all
        next
          case unchanged
          then show thesis by (intro that(1))
        next
          case lost
          then show thesis by (intro that(4))
        qed
      next
        case False
        with D codes tokens have "r = Inr ()" "file' = file" by simp_all
        with codes tokens show thesis by (rule nothing)
      qed
    qed
  qed
qed

lemma cleanup_kept:
  assumes "cleanup_expired e file = (r, file')" "distinct_tables file"
  shows "kept file file'"
  using assms(1)
proof (cases rule: cleanup_outcome)
  case (saved codes tokens)
  have sub: "set codes \<subseteq> set (table file ''authorization_codes'')" "set tokens \<subseteq> set (table file ''access_tokens'')"
    by (rule live_rows_subseq(1) [OF saved(1)], rule live_rows_subseq(1) [OF saved(2)])
  have d: "distinct_tables file'"
    using assms(2) live_rows_subseq(2) [OF saved(1)] live_rows_subseq(2) [OF saved(2)] saved(4) by (auto simp: distinct_tables_def)
  have "row_of file k i = Some r" if "k \<in> set TABLES" "row_of file' k i = Some r" for k i r
    using that sub by (auto simp: row_of_member [OF d] row_of_member [OF assms(2)] saved(4) split: if_splits)
  with d show ?thesis by (simp add: kept_def)
next
  case lost
  then show ?thesis by (intro kept_lost)
qed simp_all

end
