(* ===== verification/OAuthTraces.thy ===== *)
theory OAuthTraces
  imports OAuthFacts
begin

text \<open>
  Traces of calls of the provider, latest first, from a server without a store file.  The secrets of
  \<open>secrets.token_urlsafe\<close> are new: none was drawn before, and none was presented by a caller before it was
  drawn.  Faults of the file system may strike every save.
\<close>

section \<open>Calls\<close>

datatype oauth_call =
    Register dict
  | Authorize "(string \<times> string list) list"
  | Exchange dict
  | Revoke dict
  | Validate string

datatype oauth_reply =
    Token_Reply "token_reply result"
  | Authorize_Reply "authorize_reply result"
  | Revoke_Reply "unit result"
  | Validate_Reply "dict option result"

fun handle :: "oauth_env \<Rightarrow> int \<Rightarrow> oauth_call \<Rightarrow> json_file \<Rightarrow> oauth_reply \<times> json_file" where
  "handle e ttl (Register p) file = apfst Token_Reply (register_client e p file)"
| "handle e ttl (Authorize q) file = apfst Authorize_Reply (authorize e q file)"
| "handle e ttl (Exchange p) file = apfst Token_Reply (exchange_token e ttl p file)"
| "handle e ttl (Revoke p) file = apfst Revoke_Reply (revoke_token e p file)"
| "handle e ttl (Validate t) file = apfst Validate_Reply (validate_token e t file)"

type_synonym oauth_event = "oauth_env \<times> oauth_call \<times> oauth_reply"

text \<open>The text a call presents as a secret.\<close>

fun presented :: "oauth_call \<Rightarrow> string list" where
  "presented (Exchange p) = [text_or_empty (dget p ''code'')]"
| "presented (Revoke p) = [text_or_empty (dget p ''token'')]"
| "presented (Validate t) = [t]"
| "presented _ = []"

definition used :: "oauth_event list \<Rightarrow> string list" where
  "used tr = concat (map (\<lambda>(e, call, _). oe_secret e # presented call) tr)"

inductive oauth_run :: "(string \<Rightarrow> string) \<Rightarrow> int \<Rightarrow> oauth_event list \<Rightarrow> json_file \<Rightarrow> bool" for ch ttl where
  Start: "oauth_run ch ttl [] Absent"
| Call: "\<lbrakk>oauth_run ch ttl tr file; oe_challenge e = ch; oe_secret e \<notin> set (used tr); oe_secret e \<notin> set (presented call); oe_secret e \<noteq> [];
    handle e ttl call file = (reply, file')\<rbrakk> \<Longrightarrow> oauth_run ch ttl ((e, call, reply) # tr) file'"

section \<open>Events and what came before them\<close>

text \<open>\<open>P\<close> holds of an event of the trace and of the trace before it.\<close>

fun occurs :: "(oauth_event \<Rightarrow> oauth_event list \<Rightarrow> bool) \<Rightarrow> oauth_event list \<Rightarrow> bool" where
  "occurs P [] = False"
| "occurs P (x # tr) = (P x tr \<or> occurs P tr)"

text \<open>A registration that gave a client its id, with this redirect URI and scopes that include \<open>scope\<close>.\<close>

fun registers :: "string \<Rightarrow> string \<Rightarrow> string \<Rightarrow> oauth_event \<Rightarrow> bool" where
  "registers client uri scope (e, Register p, Token_Reply (Inr (Granted b))) =
     (dget b ''client_id'' = PStr client \<and> (case dget p ''redirect_uris'' of PList us \<Rightarrow> PStr uri \<in> set us | _ \<Rightarrow> False)
      \<and> redirect_ok (PStr uri) \<and> set (split_ws scope) \<subseteq> set (text_words (dget b ''scope'')))"
| "registers client uri scope _ = False"

text \<open>An approval that sent the code to its redirect URI, after the client was registered with it.\<close>

fun approves :: "authorization_code \<Rightarrow> oauth_event \<Rightarrow> oauth_event list \<Rightarrow> bool" where
  "approves c (e, Authorize q, Authorize_Reply (Inr (Redirect uri vs))) older =
     (let ps = last_params q
      in map_of vs ''code'' = Some (ac_code c) \<and> param ps ''approve'' = ''1'' \<and> param ps ''deny'' \<noteq> ''1''
       \<and> param ps ''client_id'' = ac_client_id c \<and> uri = ac_redirect_uri c \<and> param ps ''redirect_uri'' = uri
       \<and> param ps ''code_challenge'' = ac_challenge c \<and> ac_challenge c \<noteq> [] \<and> ac_expires_at c = oe_now e + CODE_TTL_SECONDS
       \<and> (split_ws (param ps ''scope'') \<noteq> [] \<longrightarrow> split_ws (ac_scope c) = split_ws (param ps ''scope''))
       \<and> occurs (\<lambda>y _. registers (ac_client_id c) uri (ac_scope c) y) older)"
| "approves c _ older = False"

text \<open>An exchange that granted the token for a code approved before, by the holder of its verifier.\<close>

fun grants :: "int \<Rightarrow> access_token \<Rightarrow> oauth_event \<Rightarrow> oauth_event list \<Rightarrow> bool" where
  "grants ttl t (e, Exchange p, Token_Reply (Inr (Granted b))) older =
     (dget b ''access_token'' = PStr (at_token t) \<and> dget b ''scope'' = PStr (at_scope t) \<and> at_expires_at t = oe_now e + ttl
      \<and> dget p ''client_id'' = PStr (at_client_id t)
      \<and> (\<exists>c. dget p ''code'' = PStr (ac_code c) \<and> ac_client_id c = at_client_id t \<and> dget p ''redirect_uri'' = PStr (ac_redirect_uri c)
           \<and> ac_challenge c = oe_challenge e (text_or_empty (dget p ''code_verifier'')) \<and> oe_now e < ac_expires_at c
           \<and> ac_scope c = at_scope t \<and> occurs (approves c) older))"
| "grants ttl t _ older = False"

text \<open>An exchange that was answered with a token for this code, and a revocation that was stored.\<close>

fun redeems :: "string \<Rightarrow> oauth_event \<Rightarrow> bool" where
  "redeems code (e, Exchange p, Token_Reply (Inr (Granted b))) = (dget p ''code'' = PStr code)"
| "redeems code _ = False"

fun revokes :: "string \<Rightarrow> oauth_event \<Rightarrow> bool" where
  "revokes token (e, Revoke p, Revoke_Reply (Inr _)) = (token \<noteq> [] \<and> dget p ''token'' = PStr token)"
| "revokes token _ = False"

lemma occurs_mono: "occurs P tr \<Longrightarrow> occurs P (x # tr)"
  by simp

lemma occurs_weaken: "occurs P tr \<Longrightarrow> (\<And>x older. P x older \<Longrightarrow> Q x older) \<Longrightarrow> occurs Q tr"
  by (induction tr) auto

lemma used_Cons [simp]: "used ((e, call, reply) # tr) = oe_secret e # presented call @ used tr"
  by (simp add: used_def)

lemma redeemed_was_presented: "occurs (\<lambda>x _. redeems code x) tr \<Longrightarrow> code \<in> set (used tr)"
proof (induction tr)
  case (Cons x tr)
  then show ?case by (cases "(code, x)" rule: redeems.cases) (auto simp: text_or_empty_def used_def)
qed simp

lemma revoked_was_presented: "occurs (\<lambda>x _. revokes token x) tr \<Longrightarrow> token \<in> set (used tr)"
proof (induction tr)
  case (Cons x tr)
  then show ?case by (cases "(token, x)" rule: revokes.cases) (auto simp: text_or_empty_def used_def)
qed simp

section \<open>Provenance\<close>

definition client_known :: "oauth_event list \<Rightarrow> string \<Rightarrow> dict \<Rightarrow> bool" where
  "client_known tr i row = (\<exists>c. row = client_row c \<and> oc_scope c \<noteq> []
     \<and> (\<forall>uri\<in>set (oc_redirect_uris c). \<forall>scope. set (split_ws scope) \<subseteq> set (split_ws (oc_scope c))
          \<longrightarrow> occurs (\<lambda>x _. registers i uri scope x) tr)
     \<and> set (split_ws (oc_scope c)) \<subseteq> set DEFAULT_SCOPES)"

definition code_known :: "oauth_event list \<Rightarrow> string \<Rightarrow> dict \<Rightarrow> bool" where
  "code_known tr i row = (\<exists>c. row = code_row c \<and> ac_code c = i \<and> ac_method c = ''S256'' \<and> ac_scope c \<noteq> []
     \<and> set (split_ws (ac_scope c)) \<subseteq> set DEFAULT_SCOPES \<and> occurs (approves c) tr \<and> \<not> occurs (\<lambda>x _. redeems i x) tr)"

definition token_known :: "int \<Rightarrow> oauth_event list \<Rightarrow> string \<Rightarrow> dict \<Rightarrow> bool" where
  "token_known ttl tr i row = (\<exists>t. row = token_row t \<and> at_token t = i
     \<and> set (split_ws (at_scope t)) \<subseteq> set DEFAULT_SCOPES \<and> occurs (grants ttl t) tr \<and> \<not> occurs (\<lambda>x _. revokes i x) tr)"

definition provenance :: "int \<Rightarrow> oauth_event list \<Rightarrow> json_file \<Rightarrow> bool" where
  "provenance ttl tr file =
    (distinct_tables file
     \<and> (\<forall>i r. row_of file ''clients'' i = Some r \<longrightarrow> client_known tr i r)
     \<and> (\<forall>i r. row_of file ''authorization_codes'' i = Some r \<longrightarrow> code_known tr i r)
     \<and> (\<forall>i r. row_of file ''access_tokens'' i = Some r \<longrightarrow> token_known ttl tr i r))"

lemma client_known_mono: "client_known tr i r \<Longrightarrow> client_known (x # tr) i r"
  unfolding client_known_def by auto

lemma code_known_mono: "code_known tr i r \<Longrightarrow> \<not> redeems i x \<Longrightarrow> code_known (x # tr) i r"
  unfolding code_known_def by auto

lemma token_known_mono: "token_known ttl tr i r \<Longrightarrow> \<not> revokes i x \<Longrightarrow> token_known ttl (x # tr) i r"
  unfolding token_known_def by auto

lemma provenance_step:
  assumes "provenance ttl tr file" "distinct_tables file'"
    and "\<And>i r. row_of file' ''clients'' i = Some r \<Longrightarrow> row_of file ''clients'' i = Some r \<or> client_known (x # tr) i r"
    and "\<And>i r. row_of file' ''authorization_codes'' i = Some r \<Longrightarrow>
      row_of file ''authorization_codes'' i = Some r \<and> \<not> redeems i x \<or> code_known (x # tr) i r"
    and "\<And>i r. row_of file' ''access_tokens'' i = Some r \<Longrightarrow>
      row_of file ''access_tokens'' i = Some r \<and> \<not> revokes i x \<or> token_known ttl (x # tr) i r"
  shows "provenance ttl (x # tr) file'"
  unfolding provenance_def
proof (intro conjI allI impI)
  show "distinct_tables file'" by (rule assms(2))
next
  fix i r assume "row_of file' ''clients'' i = Some r"
  from assms(3) [OF this] show "client_known (x # tr) i r"
    using assms(1) client_known_mono unfolding provenance_def by blast
next
  fix i r assume "row_of file' ''authorization_codes'' i = Some r"
  from assms(4) [OF this] show "code_known (x # tr) i r"
    using assms(1) code_known_mono unfolding provenance_def by blast
next
  fix i r assume "row_of file' ''access_tokens'' i = Some r"
  from assms(5) [OF this] show "token_known ttl (x # tr) i r"
    using assms(1) token_known_mono unfolding provenance_def by blast
qed

lemma provenanceD:
  assumes "provenance ttl tr file"
  shows "row_of file ''clients'' i = Some r \<Longrightarrow> client_known tr i r"
    and "row_of file ''authorization_codes'' i = Some r \<Longrightarrow> code_known tr i r"
    and "row_of file ''access_tokens'' i = Some r \<Longrightarrow> token_known ttl tr i r"
    and "distinct_tables file"
  using assms by (simp_all add: provenance_def)

lemma keptD: "kept file file' \<Longrightarrow> k \<in> set TABLES \<Longrightarrow> row_of file' k i = Some r \<Longrightarrow> row_of file k i = Some r"
  by (simp add: kept_def)

lemma addedD: "row_added k0 i0 r0 file file' \<Longrightarrow> k \<in> set TABLES \<Longrightarrow> row_of file' k i = Some r \<Longrightarrow>
  k = k0 \<and> i = i0 \<and> r = r0 \<or> row_of file k i = Some r"
  by (auto simp: row_added_def split: if_splits)

lemma distinct_kept: "provenance ttl tr file \<Longrightarrow> kept file file' \<Longrightarrow> distinct_tables file'"
  by (simp add: provenance_def kept_def)

lemma distinct_added: "provenance ttl tr file \<Longrightarrow> row_added k i r file file' \<Longrightarrow> distinct_tables file'"
  by (simp add: provenance_def row_added_def)

lemma provenance_kept:
  assumes "provenance ttl tr file" "kept file file'" "\<And>i. \<not> redeems i x" "\<And>i. \<not> revokes i x"
  shows "provenance ttl (x # tr) file'"
  by (rule provenance_step [OF assms(1) distinct_kept [OF assms(1,2)]]) (auto dest: keptD [OF assms(2), rotated] simp: assms(3,4))

subsection \<open>Registration\<close>

lemma redirects_are_texts: "list_all redirect_ok us \<Longrightarrow> map (\<lambda>u. PStr (text_or_empty u)) us = us"
  by (induction us) (auto simp: redirect_ok_def text_or_empty_def split: py.splits)

lemma register_provenance:
  assumes P: "provenance ttl tr file" and r: "register_client e p file = (r, file')"
  shows "provenance ttl ((e, Register p, Token_Reply r) # tr) file'"
proof -
  let ?x = "(e, Register p, Token_Reply r)"
  consider "file' = file" | us scope q where "dget p ''redirect_uris'' = PList us" "list_all redirect_ok us"
    "normalize_scope (dget p ''scope'') = Some scope" "store_register_client e (new_client e p us scope) file = (q, file')"
    "r = ebind q (\<lambda>_. Inr (Granted (client_reply (new_client e p us scope))))"
    using r by (auto simp: register_client_def apfst_def map_prod_def split: py.splits option.splits if_splits prod.splits)
  then show ?thesis
  proof cases
    case 1
    then show ?thesis by (intro provenance_kept [OF P]) simp_all
  next
    case 2
    define c where "c = new_client e p us scope"
    have c: "oc_client_id c = oe_secret e" "oc_redirect_uris c = map text_or_empty us" "oc_scope c = scope"
      by (simp_all add: c_def new_client_def Let_def)
    consider "q = Inr ()" "row_added ''clients'' (oe_secret e) (client_row c) file file'" | "kept file file'"
      using put_row_outcome [OF _ in_TABLES(1)] 2(4) c(1) unfolding store_register_client_def c_def by metis
    then show ?thesis
    proof cases
      case 1
      have r: "r = Inr (Granted (client_reply c))" using 2(5) 1(1) by (simp add: c_def)
      have b: "dget (client_reply c) ''client_id'' = PStr (oe_secret e)" "dget (client_reply c) ''scope'' = PStr scope"
        by (simp_all add: client_reply_def c dget_or_def)
      have "client_known (?x # tr) (oe_secret e) (client_row c)"
        unfolding client_known_def
      proof (intro exI [of _ c] conjI ballI allI impI)
        show "oc_scope c \<noteq> []" "set (split_ws (oc_scope c)) \<subseteq> set DEFAULT_SCOPES"
          using normalize_scope_words(2,3) [OF 2(3)] c(3) by simp_all
        fix uri s
        assume s: "set (split_ws s) \<subseteq> set (split_ws (oc_scope c))" and "uri \<in> set (oc_redirect_uris c)"
        then have "PStr uri \<in> set (map (\<lambda>u. PStr (text_or_empty u)) us)" using c(2) by auto
        then have "PStr uri \<in> set us" unfolding redirects_are_texts [OF 2(2)] .
        with s b c(3) 2(1,2) show "occurs (\<lambda>x _. registers (oe_secret e) uri s x) (?x # tr)"
          by (simp add: r text_words_def text_or_empty_def list_all_iff)
      qed simp
      then show ?thesis
        by (intro provenance_step [OF P distinct_added [OF P 1(2)]]) (auto dest: addedD [OF 1(2), rotated])
    next
      case kept: 2
      then show ?thesis by (intro provenance_kept [OF P]) simp_all
    qed
  qed
qed

subsection \<open>Authorization\<close>

lemma scope_of_request_words:
  assumes "scope_of_request e ps (client_row c) = Some scope" "oc_scope c \<noteq> []"
  shows "set (split_ws scope) \<subseteq> set (split_ws (oc_scope c))" "set (split_ws scope) \<subseteq> set DEFAULT_SCOPES" "scope \<noteq> []"
    and "split_ws (param ps ''scope'') \<noteq> [] \<Longrightarrow> split_ws scope = split_ws (param ps ''scope'')"
proof -
  have d: "dget (client_row c) ''scope'' = PStr (oc_scope c)" by (simp add: client_row_def dget_or_def)
  have n: "normalize_scope (py_or (PStr (param ps ''scope'')) (PStr (oc_scope c))) = Some scope"
    and w: "set (split_ws scope) \<subseteq> set (split_ws (oc_scope c))"
    using assms by (auto simp: scope_of_request_def d shown_text_def list_ex_iff split: option.splits if_splits)
  show "set (split_ws scope) \<subseteq> set (split_ws (oc_scope c))" by (rule w)
  show "set (split_ws scope) \<subseteq> set DEFAULT_SCOPES" "scope \<noteq> []" by (rule normalize_scope_words [OF n])+
  assume a: "split_ws (param ps ''scope'') \<noteq> []"
  have e: "split_ws [] = []" by code_simp
  with a have "param ps ''scope'' \<noteq> []" by auto
  then have "text_words (py_or (PStr (param ps ''scope'')) (PStr (oc_scope c))) = split_ws (param ps ''scope'')"
    by (simp add: py_or_def text_words_def text_or_empty_def)
  with normalize_scope_words(1) [OF n] a show "split_ws scope = split_ws (param ps ''scope'')" by simp
qed

lemma authorize_outcome:
  assumes "authorize e query file = (r, file')"
  defines "ps \<equiv> last_params query"
  obtains (unchanged) "file' = file"
    | (created) client scope q where "row_of file ''clients'' (param ps ''client_id'') = Some client"
      "py_in (PStr (param ps ''redirect_uri'')) (dget_or client ''redirect_uris'' (PList [])) = Inr True" "param ps ''code_challenge'' \<noteq> []"
      "scope_of_request e ps client = Some scope" "param ps ''deny'' \<noteq> ''1''" "param ps ''approve'' = ''1''"
      "create_authorization_code e (new_code e ps scope) file = (q, file')"
      "r = ebind q (\<lambda>_. Inr (redirect_with (param ps ''redirect_uri'') [(''code'', oe_secret e), (''state'', param ps ''state'')]))"
  using assms by (auto simp: authorize_def Let_def apfst_def map_prod_def get_client_def
      split: option.splits sum.splits if_splits prod.splits)

lemma py_in_texts: "py_in (PStr uri) (PList (map PStr us)) = Inr (uri \<in> set us)"
  by (auto simp: py_in_def list_ex_iff)

lemma authorize_provenance:
  assumes P: "provenance ttl tr file" and r: "authorize e query file = (r, file')"
    and fresh: "oe_secret e \<notin> set (used tr)" "oe_secret e \<noteq> []"
  shows "provenance ttl ((e, Authorize query, Authorize_Reply r) # tr) file'"
  using r
proof (cases rule: authorize_outcome)
  case unchanged
  then show ?thesis by (intro provenance_kept [OF P]) simp_all
next
  case (created client scope q)
  let ?x = "(e, Authorize query, Authorize_Reply r)" and ?ps = "last_params query"
  define c where "c = new_code e ?ps scope"
  have c: "ac_code c = oe_secret e" "ac_client_id c = param ?ps ''client_id''" "ac_redirect_uri c = param ?ps ''redirect_uri''"
    "ac_challenge c = param ?ps ''code_challenge''" "ac_method c = ''S256''" "ac_scope c = scope" "ac_expires_at c = oe_now e + CODE_TTL_SECONDS"
    by (simp_all add: c_def new_code_def)
  obtain k where k: "client = client_row k" "oc_scope k \<noteq> []"
    and known: "\<And>uri s. uri \<in> set (oc_redirect_uris k) \<Longrightarrow> set (split_ws s) \<subseteq> set (split_ws (oc_scope k)) \<Longrightarrow>
      occurs (\<lambda>x _. registers (param ?ps ''client_id'') uri s x) tr"
    using provenanceD(1) [OF P created(1)] unfolding client_known_def by metis
  have uri: "param ?ps ''redirect_uri'' \<in> set (oc_redirect_uris k)"
    using created(2) by (simp add: k client_row_def dget_or_def py_in_texts)
  note scope = scope_of_request_words [OF created(4) [unfolded k(1)] k(2)]
  consider "q = Inr ()" "row_added ''authorization_codes'' (oe_secret e) (code_row c) file file'" | "kept file file'"
    using put_row_outcome [OF _ in_TABLES(2)] created(7) c(1) unfolding create_authorization_code_def c_def by metis
  then show ?thesis
  proof cases
    case 1
    have "approves c ?x tr"
      using created(3,5,6) 1(1) fresh(2) scope(4) known [OF uri scope(1)] by (simp add: created(8) redirect_with_def c Let_def)
    moreover have "\<not> occurs (\<lambda>x _. redeems (oe_secret e) x) (?x # tr)"
      using fresh(1) redeemed_was_presented by auto
    ultimately have "code_known (?x # tr) (oe_secret e) (code_row c)"
      unfolding code_known_def using c scope by (intro exI [of _ c] conjI) simp_all
    then show ?thesis
      by (intro provenance_step [OF P distinct_added [OF P 1(2)]]) (auto dest: addedD [OF 1(2), rotated])
  next
    case kept: 2
    then show ?thesis by (intro provenance_kept [OF P]) simp_all
  qed
qed

subsection \<open>Exchange\<close>

lemma exchange_outcome:
  assumes "exchange_token e ttl p file = (r, file')"
  obtains (unchanged) x where "file' = file" "r = Inr (Refused x)"
    | (refused) q where "pop_authorization_code e (text_or_empty (dget p ''code'')) file = (q, file')" "\<And>b. r \<noteq> Inr (Granted b)"
    | (granted) code file1 q where "list_all (\<lambda>k. nonempty_text (dget p k)) [''code'', ''client_id'', ''redirect_uri'', ''code_verifier'']"
      "pop_authorization_code e (text_or_empty (dget p ''code'')) file = (Inr (Some code), file1)"
      "code_refusal e code (text_or_empty (dget p ''client_id'')) (text_or_empty (dget p ''redirect_uri'')) (text_or_empty (dget p ''code_verifier'')) = Inr False"
      "create_access_token e (new_token e ttl p code) file1 = (q, file')"
      "r = ebind q (\<lambda>_. Inr (Granted (token_body ttl (new_token e ttl p code))))"
proof (cases "dget p ''grant_type'' = PStr ''authorization_code''
    \<and> list_all (\<lambda>k. nonempty_text (dget p k)) [''code'', ''client_id'', ''redirect_uri'', ''code_verifier'']")
  case False
  then show thesis using assms unchanged by (auto simp: exchange_token_def split: if_splits)
next
  case True
  obtain q1 file1 where pop: "pop_authorization_code e (text_or_empty (dget p ''code'')) file = (q1, file1)" by fastforce
  note D = assms [unfolded exchange_token_def pop] True
  show thesis
  proof (cases q1)
    case (Inl x)
    with D have "file' = file1" "r = Inl x" by simp_all
    with pop show thesis by (intro refused) simp_all
  next
    case (Inr row)
    show thesis
    proof (cases row)
      case None
      with D Inr have "file' = file1" "r = Inr (Refused ''invalid_grant'')" by simp_all
      with pop show thesis by (intro refused) simp_all
    next
      case (Some code)
      let ?c = "code_refusal e code (text_or_empty (dget p ''client_id'')) (text_or_empty (dget p ''redirect_uri'')) (text_or_empty (dget p ''code_verifier''))"
      consider x where "?c = Inl x" | "?c = Inr True" | "?c = Inr False" by (cases ?c) auto
      then show thesis
      proof cases
        case 3
        obtain q where q: "create_access_token e (new_token e ttl p code) file1 = (q, file')"
          and "r = ebind q (\<lambda>_. Inr (Granted (token_body ttl (new_token e ttl p code))))"
          using D Inr Some 3 by (auto simp: apfst_def map_prod_def split: prod.splits)
        with True Inr Some pop 3 show thesis by (intro granted [of code file1 q]) simp_all
      qed (use D Inr Some pop in \<open>auto intro: refused\<close>)
    qed
  qed
qed

lemma exchange_provenance:
  assumes P: "provenance ttl tr file" and r: "exchange_token e ttl p file = (r, file')"
    and fresh: "oe_secret e \<notin> set (used tr)"
  shows "provenance ttl ((e, Exchange p, Token_Reply r) # tr) file'"
  using r
proof (cases rule: exchange_outcome)
  case (unchanged x)
  then show ?thesis by (intro provenance_kept [OF P]) simp_all
next
  case (refused q)
  have "\<not> redeems i (e, Exchange p, Token_Reply r)" for i
    using refused(2) by (cases "(i, e, Exchange p, Token_Reply r)" rule: redeems.cases) auto
  with pop_outcome(1) [OF refused(1)] show ?thesis by (intro provenance_kept [OF P]) simp_all
next
  case (granted code file1 q)
  let ?x = "(e, Exchange p, Token_Reply r)" and ?i = "text_or_empty (dget p ''code'')"
  define t where "t = new_token e ttl p code"
  have t: "at_token t = oe_secret e" "at_client_id t = text_or_empty (dget p ''client_id'')" "at_scope t = granted_scope e code"
    "at_expires_at t = oe_now e + ttl"
    by (simp_all add: t_def new_token_def)
  have texts: "dget p k = PStr x" if "text_or_empty (dget p k) = x" "k \<in> {''code'', ''client_id'', ''redirect_uri'', ''code_verifier''}" for k x
    using granted(1) that by (auto simp: nonempty_text_def text_or_empty_def split: py.splits)
  note pop = pop_outcome(1) [OF granted(2)] pop_outcome(2) [OF granted(2) refl]
  obtain c where c: "code = code_row c" "ac_code c = ?i" "ac_scope c \<noteq> []" "set (split_ws (ac_scope c)) \<subseteq> set DEFAULT_SCOPES"
    "occurs (approves c) tr"
    using provenanceD(2) [OF P, of ?i code] pop(2) unfolding code_known_def by metis
  have row: "dget code ''client_id'' = PStr (ac_client_id c)" "dget code ''redirect_uri'' = PStr (ac_redirect_uri c)"
    "dget code ''code_challenge'' = PStr (ac_challenge c)" "dget code ''scope'' = PStr (ac_scope c)" "dget code ''expires_at'' = PInt (ac_expires_at c)"
    by (simp_all add: c code_row_def dget_or_def)
  have x: "expiry code = Inr (ac_expires_at c)"
    by (simp add: expiry_def row py_or_def int_of_py_def)
  have chk: "oe_now e < ac_expires_at c" "text_or_empty (dget p ''client_id'') = ac_client_id c" "text_or_empty (dget p ''redirect_uri'') = ac_redirect_uri c"
    "ac_challenge c = oe_challenge e (text_or_empty (dget p ''code_verifier''))"
    using granted(3) by (auto simp: code_refusal_def x row shown_text_def Let_def split: if_splits)
  have given: "dget p ''client_id'' = PStr (ac_client_id c)" "dget p ''redirect_uri'' = PStr (ac_redirect_uri c)"
      "dget p ''code'' = PStr (ac_code c)"
    by (rule texts, simp add: chk c(2), simp)+
  have s: "at_scope t = ac_scope c" using c(3) by (simp add: t granted_scope_def row shown_text_def Let_def)
  consider "q = Inr ()" "row_added ''access_tokens'' (oe_secret e) (token_row t) file1 file'" | z where "q = Inl z" "kept file1 file'"
    using put_row_outcome [OF _ in_TABLES(3)] granted(4) t(1) unfolding create_access_token_def t_def by metis
  then show ?thesis
  proof cases
    case 1
    have b: "r = Inr (Granted (token_body ttl t))" using granted(5) 1(1) by (simp add: t_def)
    have "dget (token_body ttl t) ''access_token'' = PStr (at_token t)" "dget (token_body ttl t) ''scope'' = PStr (at_scope t)"
      by (simp_all add: token_body_def dget_or_def)
    then have "grants ttl t ?x tr"
      using c(5) chk s t by (simp add: b given exI [of _ c])
    moreover have "\<not> occurs (\<lambda>x _. revokes (oe_secret e) x) (?x # tr)"
      using fresh revoked_was_presented by auto
    ultimately have "token_known ttl (?x # tr) (oe_secret e) (token_row t)"
      unfolding token_known_def using c(4) s t(1) by (intro exI [of _ t] conjI) simp_all
    moreover have "row_of file' ''authorization_codes'' ?i = None"
      using pop(2) by (cases "row_of file' ''authorization_codes'' ?i") (auto dest: addedD [OF 1(2) in_TABLES(2)])
    then have gone: "row_of file' ''authorization_codes'' (ac_code c) = None" by (simp only: c(2))
    have "\<not> redeems j ?x" if "row_of file' ''authorization_codes'' j = Some w" for j w
      using that gone by (auto simp: b given(3))
    moreover have "distinct_tables file'" using distinct_kept [OF P pop(1)] 1(2) by (simp add: row_added_def)
    ultimately show ?thesis
      by (intro provenance_step [OF P]) (auto dest!: addedD [OF 1(2), rotated] keptD [OF pop(1), rotated])
  next
    case kept: 2
    then have "r = Inl z" by (simp add: granted(5))
    with kept_trans [OF pop(1) kept(2)] show ?thesis by (intro provenance_kept [OF P]) simp_all
  qed
qed

subsection \<open>Revocation and validation\<close>

lemma revoke_provenance:
  assumes P: "provenance ttl tr file" and r: "revoke_token e p file = (r, file')"
  shows "provenance ttl ((e, Revoke p, Revoke_Reply r) # tr) file'"
proof (cases "nonempty_text (dget p ''token'')")
  case False
  then have "file' = file" "\<And>i. \<not> revokes i (e, Revoke p, Revoke_Reply r)"
    using r by (cases r; auto simp: revoke_token_def nonempty_text_def)+
  then show ?thesis by (intro provenance_kept [OF P]) simp_all
next
  case True
  then obtain t where t: "dget p ''token'' = PStr t" by (auto simp: nonempty_text_def split: py.splits)
  then have "store_revoke_token e t file = (r, file')"
    using r True by (simp add: revoke_token_def text_or_empty_def)
  note o = revoke_outcome [OF this]
  have gone: "row_of file' ''access_tokens'' t = None" if "r = Inr u" for u using o that by auto
  show ?thesis
  proof (rule provenance_step [OF P])
    fix i row assume row: "row_of file' ''access_tokens'' i = Some row"
    have "\<not> revokes i (e, Revoke p, Revoke_Reply r)"
      using gone row by (cases r) (auto simp: t)
    with o row show "row_of file ''access_tokens'' i = Some row \<and> \<not> revokes i (e, Revoke p, Revoke_Reply r)
        \<or> token_known ttl ((e, Revoke p, Revoke_Reply r) # tr) i row"
      by (simp add: TABLES_def)
  qed (use o provenanceD(4) [OF P] in \<open>simp_all add: TABLES_def\<close>)
qed

lemma validate_provenance:
  assumes P: "provenance ttl tr file" and r: "validate_token e t file = (r, file')"
  shows "provenance ttl ((e, Validate t, Validate_Reply r) # tr) file'"
proof -
  obtain q where "cleanup_expired e file = (q, file')"
    using r by (auto simp: validate_token_def split: prod.splits sum.splits)
  from cleanup_kept [OF this provenanceD(4) [OF P]] show ?thesis by (intro provenance_kept [OF P]) simp_all
qed

theorem run_provenance: "oauth_run ch ttl tr file \<Longrightarrow> provenance ttl tr file"
proof (induction rule: oauth_run.induct)
  case Start
  show ?case by (simp add: provenance_def distinct_tables_def row_of_def table_def dget_or_def)
next
  case (Call tr f e call reply f')
  note P = Call.IH and H = Call.hyps
  show ?case
    using H(6) by (cases call) (auto simp: apfst_def map_prod_def split: prod.splits
      intro: register_provenance [OF P] authorize_provenance [OF P _ H(3,5)] exchange_provenance [OF P _ H(3)]
        revoke_provenance [OF P] validate_provenance [OF P])
qed

section \<open>What a trace guarantees\<close>

lemma store_validate_token_row:
  assumes "store_validate_token e t file = Inr (Some row)"
  shows "row_of file ''access_tokens'' t = Some row" "\<exists>x. expiry row = Inr x \<and> oe_now e < x"
  using assms by (auto simp: store_validate_token_def Let_def split: if_splits option.splits)

lemma expiry_token_row [simp]: "expiry (token_row t) = Inr (at_expires_at t)"
  by (simp add: expiry_def token_row_def dget_or_def py_or_def int_of_py_def)

lemma validated_token_was_granted:
  assumes "oauth_run ch ttl tr file" "fst (validate_token e t file) = Inr (Some row)"
  shows "\<exists>tok. row = token_row tok \<and> at_token tok = t \<and> occurs (grants ttl tok) tr \<and> \<not> occurs (\<lambda>x _. revokes t x) tr
    \<and> oe_now e < at_expires_at tok \<and> set (split_ws (at_scope tok)) \<subseteq> set DEFAULT_SCOPES"
proof -
  note P = run_provenance [OF assms(1)]
  obtain q file' where c: "cleanup_expired e file = (q, file')" by fastforce
  with assms(2) have v: "store_validate_token e t file' = Inr (Some row)"
    by (auto simp: validate_token_def split: sum.splits)
  have "row_of file ''access_tokens'' t = Some row"
    by (rule keptD [OF cleanup_kept [OF c provenanceD(4) [OF P]] _ store_validate_token_row(1) [OF v]]) simp
  from provenanceD(3) [OF P this] obtain tok where tok: "row = token_row tok" "at_token tok = t"
    "set (split_ws (at_scope tok)) \<subseteq> set DEFAULT_SCOPES" "occurs (grants ttl tok) tr" "\<not> occurs (\<lambda>x _. revokes t x) tr"
    unfolding token_known_def by blast
  with store_validate_token_row(2) [OF v] show ?thesis by auto
qed

lemma redeemed_code_was_stored:
  assumes "exchange_token e ttl p file = (r, file')" "redeems code (e, Exchange p, Token_Reply r)"
  shows "\<exists>row. row_of file ''authorization_codes'' code = Some row"
  using assms(1)
proof (cases rule: exchange_outcome)
  case (granted row file1 q)
  have "dget p ''code'' = PStr code" using assms(2) by (cases "(code, e, Exchange p, Token_Reply r)" rule: redeems.cases) auto
  then show ?thesis using pop_outcome(2) [OF granted(2) refl] by (intro exI [of _ row]) (simp add: text_or_empty_def)
qed (use assms(2) in \<open>cases "(code, e, Exchange p, Token_Reply r)" rule: redeems.cases; auto\<close>)+

lemma occurs_filter: "(\<not> occurs (\<lambda>x _. P x) tr) = (filter P tr = [])"
  by (induction tr) auto

lemma code_redeemed_once: "oauth_run ch ttl tr file \<Longrightarrow> length (filter (redeems code) tr) \<le> 1"
proof (induction rule: oauth_run.induct)
  case (Call tr f e call reply f')
  show ?case
  proof (cases "redeems code (e, call, reply)")
    case True
    then obtain p b where x: "call = Exchange p" "reply = Token_Reply (Inr (Granted b))"
      by (cases "(code, e, call, reply)" rule: redeems.cases) auto
    with Call.hyps(6) have "exchange_token e ttl p f = (Inr (Granted b), f')" by (auto simp: apfst_def map_prod_def split: prod.splits)
    from redeemed_code_was_stored [OF this] True x obtain row where "row_of f ''authorization_codes'' code = Some row" by auto
    from provenanceD(2) [OF run_provenance [OF Call.hyps(1)] this] have "filter (redeems code) tr = []"
      by (auto simp: code_known_def occurs_filter)
    then show ?thesis by simp
  qed (use Call.IH in simp)
qed simp

section \<open>Single operations\<close>

text \<open>An exchange that reaches the store uses the code up, also when it is refused.\<close>

lemma row_absent_not_granted:
  assumes "row_of file ''authorization_codes'' (text_or_empty (dget p ''code'')) = None"
  shows "fst (exchange_token e ttl p file) \<noteq> Inr (Granted b)"
proof -
  obtain r file' where x: "exchange_token e ttl p file = (r, file')" by fastforce
  then show ?thesis
  proof (cases rule: exchange_outcome)
    case (granted row file1 q)
    then show ?thesis using pop_outcome(2) [OF granted(2) refl] assms by simp
  qed (use x in simp_all)
qed

lemma exchange_uses_code_up:
  assumes "exchange_token e ttl p file = (r, file')" "oe_fault e 0 = No_Fault"
    and "dget p ''grant_type'' = PStr ''authorization_code''"
    and "list_all (\<lambda>k. nonempty_text (dget p k)) [''code'', ''client_id'', ''redirect_uri'', ''code_verifier'']"
  shows "row_of file' ''authorization_codes'' (text_or_empty (dget p ''code'')) = None"
proof -
  let ?i = "text_or_empty (dget p ''code'')"
  obtain q file1 where pop: "pop_authorization_code e ?i file = (q, file1)" by fastforce
  have "\<exists>v. q = Inr v"
    using pop assms(2) by (auto simp: pop_authorization_code_def save_store_def Let_def apfst_def map_prod_def)
  with pop_outcome(2) [OF pop] have gone: "row_of file1 ''authorization_codes'' ?i = None" by blast
  show ?thesis using assms(1)
  proof (cases rule: exchange_outcome)
    case (unchanged x)
    then show ?thesis using assms(1,3,4) pop pop_outcome(2) [OF pop] gone
      by (auto simp: exchange_token_def apfst_def map_prod_def split: sum.splits option.splits prod.splits if_splits)
  next
    case (refused q)
    with pop gone show ?thesis by simp
  next
    case (granted row file2 q2)
    then have f: "file2 = file1" using pop by simp
    have "kept file1 file' \<or> (\<exists>i r. row_added ''access_tokens'' i r file1 file')"
      using put_row_outcome [OF _ in_TABLES(3)] granted(4) unfolding create_access_token_def f by metis
    then have "row_of file' ''authorization_codes'' ?i = Some row \<Longrightarrow> row_of file1 ''authorization_codes'' ?i = Some row" for row
      by (auto dest: keptD [OF _ in_TABLES(2)] addedD [OF _ in_TABLES(2)])
    with gone show ?thesis by (cases "row_of file' ''authorization_codes'' ?i") simp_all
  qed
qed

text \<open>Cleaning up does not change which tokens are valid: it removes rows that are refused anyway.\<close>

lemma cleanup_keeps_validation:
  assumes "distinct_tables file" "cleanup_expired e file = (Inr u, file')"
  shows "store_validate_token e t file' = store_validate_token e t file"
  using assms(2)
proof (cases rule: cleanup_outcome)
  case (saved codes tokens)
  have d: "distinct_tables file'"
    using assms(1) live_rows_subseq(2) [OF saved(1)] live_rows_subseq(2) [OF saved(2)] saved(4) by (auto simp: distinct_tables_def)
  have revoked: "table file' ''revoked_tokens'' = table file ''revoked_tokens''" by (simp add: saved(4))
  have mem: "row_of file' ''access_tokens'' t = Some row \<longleftrightarrow> (t, PDict row) \<in> set tokens" for row
    by (simp add: row_of_member [OF d] saved(4))
  show ?thesis
  proof (cases "row_of file ''access_tokens'' t")
    case None
    then have "row_of file' ''access_tokens'' t = None"
      using keptD [OF cleanup_kept [OF assms(2,1)] in_TABLES(3), of t] by (cases "row_of file' ''access_tokens'' t") simp_all
    with None revoked show ?thesis by (simp add: store_validate_token_def Let_def)
  next
    case (Some row)
    then have m: "(t, PDict row) \<in> set (table file ''access_tokens'')" by (simp add: row_of_member [OF assms(1)])
    from live_rows_expiry [OF saved(2) m] obtain x where x: "expiry row = Inr x" by blast
    show ?thesis
    proof (cases "oe_now e < x")
      case True
      from live_rows_keeps_live [OF saved(2) m x this] have "row_of file' ''access_tokens'' t = Some row" by (simp add: mem)
      with Some revoked show ?thesis by (simp add: store_validate_token_def Let_def)
    next
      case False
      have "row_of file' ''access_tokens'' t \<in> {None, Some row}"
        using keptD [OF cleanup_kept [OF assms(2,1)] in_TABLES(3), of t] Some by (cases "row_of file' ''access_tokens'' t") auto
      with Some revoked x False show ?thesis by (auto simp: store_validate_token_def Let_def)
    qed
  qed
qed simp_all

lemma cleanup_keeps_revocations: "fst (cleanup_expired e file) = Inr () \<Longrightarrow>
  table (snd (cleanup_expired e file)) ''revoked_tokens'' = table file ''revoked_tokens''"
proof -
  assume ok: "fst (cleanup_expired e file) = Inr ()"
  then have "cleanup_expired e file = (Inr (), snd (cleanup_expired e file))" by (cases "cleanup_expired e file") simp
  then show ?thesis by (cases rule: cleanup_outcome) simp_all
qed

section \<open>A session\<close>

text \<open>Calls without faults, latest first: the clock, the secret drawn, the call.  The challenge of a verifier is its reversal.\<close>

definition sample_env :: "int \<Rightarrow> string \<Rightarrow> oauth_env" where
  "sample_env now secret = \<lparr>oe_now = now, oe_stamp = ''T'', oe_secret = secret, oe_challenge = rev, oe_show = (\<lambda>_. ''?''),
     oe_fault = (\<lambda>_. No_Fault)\<rparr>"

fun session :: "int \<Rightarrow> (int \<times> string \<times> oauth_call) list \<Rightarrow> oauth_event list \<times> json_file" where
  "session ttl [] = ([], Absent)"
| "session ttl ((now, secret, call) # cs) =
     (let tr = fst (session ttl cs); a = handle (sample_env now secret) ttl call (snd (session ttl cs))
      in ((sample_env now secret, call, fst a) # tr, snd a))"

fun fresh_secrets :: "(int \<times> string \<times> oauth_call) list \<Rightarrow> bool" where
  "fresh_secrets [] = True"
| "fresh_secrets ((now, secret, call) # cs) =
     (secret \<noteq> [] \<and> secret \<notin> set (presented call)
      \<and> list_all (\<lambda>c. secret \<noteq> fst (snd c) \<and> secret \<notin> set (presented (snd (snd c)))) cs \<and> fresh_secrets cs)"

lemma used_session: "set (used (fst (session ttl cs))) = (\<Union>c\<in>set cs. insert (fst (snd c)) (set (presented (snd (snd c)))))"
  by (induction ttl cs rule: session.induct) (auto simp: used_def Let_def sample_env_def)

lemma session_runs: "fresh_secrets cs \<Longrightarrow> oauth_run rev ttl (fst (session ttl cs)) (snd (session ttl cs))"
proof (induction ttl cs rule: session.induct)
  case (2 ttl now secret call cs)
  let ?e = "sample_env now secret"
  have "oauth_run rev ttl ((?e, call, fst (handle ?e ttl call (snd (session ttl cs)))) # fst (session ttl cs))
      (snd (handle ?e ttl call (snd (session ttl cs))))"
    using 2 by (intro Call) (auto simp: sample_env_def used_session list_all_iff)
  then show ?case by (simp add: Let_def)
qed (simp add: Start)

definition sample_query :: "(string \<times> string list) list" where
  "sample_query = [(''client_id'', [''K'']), (''redirect_uri'', [''https://a/cb'']), (''response_type'', [''code'']),
     (''code_challenge'', [''olleh'']), (''code_challenge_method'', [''S256'']), (''scope'', [''mcp:read'']), (''approve'', [''1''])]"

definition sample_exchange :: "string \<Rightarrow> dict" where
  "sample_exchange verifier = [(''grant_type'', PStr ''authorization_code''), (''code'', PStr ''C''), (''client_id'', PStr ''K''),
     (''redirect_uri'', PStr ''https://a/cb''), (''code_verifier'', PStr verifier)]"

definition sample_calls :: "(int \<times> string \<times> oauth_call) list" where
  "sample_calls = [(20, ''T'', Exchange (sample_exchange ''hello'')), (10, ''C'', Authorize sample_query),
     (0, ''K'', Register [(''redirect_uris'', PList [PStr ''https://a/cb'']), (''scope'', PStr ''mcp:read mcp:plan'')])]"

lemma sample_fresh: "fresh_secrets sample_calls" by code_simp

text \<open>The first request of a client carries the approval itself: no consent page was shown before the code was issued.\<close>

lemma approval_without_consent_page:
  "map (snd \<circ> snd) (fst (session 60 (tl sample_calls))) =
     [Authorize_Reply (Inr (Redirect ''https://a/cb'' [(''code'', ''C'')])),
      snd (snd (hd (fst (session 60 (tl (tl sample_calls))))))]"
  by code_simp

text \<open>A challenge that is not ASCII is accepted by \<open>authorize\<close>; the exchange then raises, with the code used up.\<close>

lemma odd_challenge_raises:
  "fst (exchange_token (sample_env 20 ''T'') 60 (sample_exchange ''hello'') (snd (session 60
      ((10, ''C'', Authorize (AList.update ''code_challenge'' [[CHR 0xE9]] sample_query)) # tl (tl sample_calls))))) = Inl (Py_Exc ''TypeError'')"
  by code_simp

end
