(* ===== verification/ShellWords.thy ===== *)
theory ShellWords
  imports PyCollections
begin

text \<open>
  What the code uses of Python's \<open>shlex\<close>: \<open>split\<close> in POSIX mode without comments, as the states of its
  lexer, and \<open>quote\<close>; and the proof that splitting undoes quoting.
\<close>

section \<open>The lexer\<close>

definition squote :: char where "squote = CHR 0x27"
definition dquote :: char where "dquote = CHR 0x22"
definition backslash :: char where "backslash = CHR 0x5C"

definition sh_space :: "char \<Rightarrow> bool" where
  "sh_space c = (c = CHR '' '' \<or> c = CHR 0x09 \<or> c = CHR 0x0D \<or> c = CHR 0x0A)"

text \<open>\<open>Escaped k\<close> returns to the quotes \<open>k\<close>, or to a word when it is None.\<close>

datatype lex_state = Blank | In_Word | Quoted char | Escaped "char option"

text \<open>The token so far is emitted when it has characters or was quoted.\<close>

definition emit :: "bool \<Rightarrow> string \<Rightarrow> string list result \<Rightarrow> string list result" where
  "emit quoted token rest = (if token \<noteq> [] \<or> quoted then ebind rest (\<lambda>ts. Inr (token # ts)) else rest)"

definition no_closing :: py_error where "no_closing = Py_Exc ''ValueError''"

fun sh_lex :: "lex_state \<Rightarrow> bool \<Rightarrow> string \<Rightarrow> string \<Rightarrow> string list result" where
  "sh_lex Blank quoted token [] = emit quoted token (Inr [])"
| "sh_lex Blank quoted token (c # s) =
     (if sh_space c then emit quoted token (sh_lex Blank False [] s)
      else if c = backslash then sh_lex (Escaped None) quoted token s
      else if c = squote \<or> c = dquote then sh_lex (Quoted c) quoted token s
      else sh_lex In_Word quoted [c] s)"
| "sh_lex In_Word quoted token [] = emit quoted token (Inr [])"
| "sh_lex In_Word quoted token (c # s) =
     (if sh_space c then emit quoted token (sh_lex Blank False [] s)
      else if c = squote \<or> c = dquote then sh_lex (Quoted c) quoted token s
      else if c = backslash then sh_lex (Escaped None) quoted token s
      else sh_lex In_Word quoted (token @ [c]) s)"
| "sh_lex (Quoted k) quoted token [] = Inl no_closing"
| "sh_lex (Quoted k) quoted token (c # s) =
     (if c = k then sh_lex In_Word True token s
      else if c = backslash \<and> k = dquote then sh_lex (Escaped (Some k)) True token s
      else sh_lex (Quoted k) True (token @ [c]) s)"
| "sh_lex (Escaped k) quoted token [] = Inl no_closing"
| "sh_lex (Escaped None) quoted token (c # s) = sh_lex In_Word quoted (token @ [c]) s"
| "sh_lex (Escaped (Some k)) quoted token (c # s) =
     sh_lex (Quoted k) quoted (token @ (if c \<noteq> backslash \<and> c \<noteq> k then [backslash, c] else [c])) s"

definition sh_split :: "string \<Rightarrow> string list result" where
  "sh_split s = sh_lex Blank False [] s"

section \<open>Quoting\<close>

text \<open>The characters of \<open>[\w@%+=:,./-]\<close> in ASCII.\<close>

definition sh_safe :: "char \<Rightarrow> bool" where
  "sh_safe c = (let n = (of_char c :: nat) in
     (48 \<le> n \<and> n \<le> 57) \<or> (65 \<le> n \<and> n \<le> 90) \<or> (97 \<le> n \<and> n \<le> 122) \<or> c \<in> set ''_@%+=:,./-'')"

definition quote_body :: "string \<Rightarrow> string" where
  "quote_body s = concat (map (\<lambda>c. if c = squote then [squote, dquote, squote, dquote, squote] else [c]) s)"

definition sh_quote :: "string \<Rightarrow> string" where
  "sh_quote s = (if s = [] then [squote, squote] else if list_all sh_safe s then s else squote # quote_body s @ [squote])"

section \<open>Splitting undoes quoting\<close>

lemma safe_is_plain: "sh_safe c \<Longrightarrow> \<not> sh_space c \<and> c \<noteq> squote \<and> c \<noteq> dquote \<and> c \<noteq> backslash"
  by (auto simp: sh_safe_def sh_space_def squote_def dquote_def backslash_def Let_def)

lemma lex_safe: "list_all sh_safe w \<Longrightarrow> sh_lex In_Word q t (w @ s) = sh_lex In_Word q (t @ w) s"
  by (induction w arbitrary: t) (auto dest: safe_is_plain)

lemma lex_quote_body: "sh_lex (Quoted squote) True t (quote_body w @ squote # s) = sh_lex In_Word True (t @ w) s"
proof (induction w arbitrary: t)
  case (Cons c w)
  have "sh_lex (Quoted squote) True t (quote_body (c # w) @ squote # s) = sh_lex (Quoted squote) True (t @ [c]) (quote_body w @ squote # s)"
    by (simp add: quote_body_def squote_def dquote_def backslash_def sh_space_def)
  with Cons show ?case by simp
qed (simp add: quote_body_def)

text \<open>A quoted word read from the start of a token leaves the word as the token.\<close>

lemma lex_quoted_word: "\<exists>q. sh_lex Blank False [] (sh_quote w @ s) = sh_lex In_Word q w s \<and> (w = [] \<longrightarrow> q)"
proof -
  consider "w = []" | "w \<noteq> []" "list_all sh_safe w" | "w \<noteq> []" "\<not> list_all sh_safe w" by blast
  then show ?thesis
  proof cases
    case 1
    then show ?thesis by (auto simp: sh_quote_def squote_def sh_space_def backslash_def)
  next
    case 2
    then obtain c v where w: "w = c # v" by (cases w) auto
    with 2 safe_is_plain [of c] have "sh_lex Blank False [] (sh_quote w @ s) = sh_lex In_Word False ([c] @ v) s"
      by (simp only: sh_quote_def if_True if_False list.distinct) (simp add: lex_safe)
    with w show ?thesis by auto
  next
    case 3
    have b: "\<not> sh_space squote" "squote \<noteq> backslash" by (simp_all add: sh_space_def squote_def backslash_def)
    obtain c v where w: "w = c # v" using 3 by (cases w) auto
    have first: "sh_lex (Quoted squote) False [] (quote_body w @ squote # s) = sh_lex (Quoted squote) True [] (quote_body w @ squote # s)"
      by (simp add: w quote_body_def)
    have "sh_lex Blank False [] (sh_quote w @ s) = sh_lex In_Word True w s"
      using 3 b lex_quote_body [of "[]" w s] by (simp add: sh_quote_def first)
    then show ?thesis by blast
  qed
qed

lemma sh_split_join: "sh_split (join_ws (map sh_quote ws)) = Inr ws"
proof (induction ws rule: join_ws.induct)
  case 1
  show ?case by (simp add: sh_split_def emit_def)
next
  case (2 w)
  obtain q where "sh_lex Blank False [] (sh_quote w @ []) = sh_lex In_Word q w []" "w = [] \<longrightarrow> q"
    using lex_quoted_word by blast
  then show ?case by (auto simp: sh_split_def emit_def)
next
  case (3 w v ws)
  let ?s = "CHR '' '' # join_ws (map sh_quote (v # ws))"
  obtain q where q: "sh_lex Blank False [] (sh_quote w @ ?s) = sh_lex In_Word q w ?s" "w = [] \<longrightarrow> q"
    using lex_quoted_word by blast
  have "sh_lex In_Word q w ?s = emit q w (sh_split (join_ws (map sh_quote (v # ws))))"
    by (simp add: sh_space_def sh_split_def)
  with q 3 show ?case by (auto simp: sh_split_def emit_def)
qed

end
