(* ===== verification/AcceptanceCommands.thy ===== *)
theory AcceptanceCommands
  imports AcceptanceRun ShellWords PosixPaths
begin

text \<open>
  The commands of an acceptance run on their way to a process: the interpreter that replaces \<open>python\<close>
  (\<open>runner/acceptance_runner.py\<close>), and the checks before anything is started
  (\<open>adapters/shell_adapter.py\<close>).  The file system, the lookup on the path and the processes are
  parameters; together they instantiate the parameter \<open>shell\<close> of \<open>AcceptanceRun\<close>.
\<close>

section \<open>The environment\<close>

record acceptance_host =
  ah_is_file :: "string \<Rightarrow> bool"
  ah_is_dir :: "string \<Rightarrow> bool"
  ah_which_python3 :: "string option"
  ah_path :: "string option"

definition resolve_python :: "acceptance_host \<Rightarrow> system_view \<Rightarrow> string \<Rightarrow> string" where
  "resolve_python host sys project_root =
    (let venv_python = posix_join (abspath sys project_root) [''.venv'', ''bin'', ''python'']
     in if ah_is_file host venv_python then venv_python
        else case ah_which_python3 host of Some p \<Rightarrow> if p = [] then ''python3'' else p | None \<Rightarrow> ''python3'')"

definition resolve_venv_bin :: "acceptance_host \<Rightarrow> system_view \<Rightarrow> string \<Rightarrow> string option" where
  "resolve_venv_bin host sys project_root =
    (let venv_bin = posix_join (abspath sys project_root) [''.venv'', ''bin'']
     in if ah_is_dir host venv_bin then Some venv_bin else None)"

text \<open>The PATH of the commands; None leaves the environment as it is.\<close>

definition build_acceptance_env :: "acceptance_host \<Rightarrow> string option \<Rightarrow> string option" where
  "build_acceptance_env host venv_bin_path =
    (case venv_bin_path of
       None \<Rightarrow> None
     | Some bin \<Rightarrow> if bin = [] then None
         else let original = (case ah_path host of Some p \<Rightarrow> p | None \<Rightarrow> [])
              in Some (if original = [] then bin else bin @ '':'' @ original))"

text \<open>The command that is run, and whether parsing failed with a warning.\<close>

definition rewrite_command_for_python :: "string \<Rightarrow> string \<Rightarrow> string \<times> bool" where
  "rewrite_command_for_python command resolved_python =
    (case sh_split command of
       Inl _ \<Rightarrow> (command, True)
     | Inr [] \<Rightarrow> (command, False)
     | Inr (p # ps) \<Rightarrow>
         if p \<noteq> ''python'' \<and> p \<noteq> ''python3'' then (command, False)
         else (join_ws (map sh_quote (resolved_python # ps)), False))"

section \<open>Starting a command\<close>

definition SHELL_META_PATTERNS :: "string list" where
  "SHELL_META_PATTERNS = [''&&'', ''||'', '';'', ''|'', ''>'', ''<'', ''`'', ''$('', ''${'', [CHR 0x0A], [CHR 0x0D]]"

definition ALLOWED_EXECUTABLES :: "string list" where
  "ALLOWED_EXECUTABLES = [''python'', ''python3'', ''pytest'', ''git'', ''make'', ''tox'', ''nox'', ''ruff'', ''mypy'', ''pyright'',
     ''node'', ''npm'', ''npx'', ''pnpm'', ''yarn'', ''uv'', ''go'', ''cargo'']"

text \<open>\<open>os.path.basename\<close>\<close>

definition path_basename :: "string \<Rightarrow> string" where
  "path_basename p = rev (takeWhile (\<lambda>c. c \<noteq> CHR ''/'') (rev p))"

definition command_to_argv :: "string \<Rightarrow> string list result" where
  "command_to_argv command =
    (if py_strip command = [] then Inl (Py_Exc ''ValueError'')
     else if list_ex (contains_str command) SHELL_META_PATTERNS then Inl (Py_Exc ''ValueError'')
     else case sh_split command of
       Inl e \<Rightarrow> Inl e
     | Inr [] \<Rightarrow> Inl (Py_Exc ''ValueError'')
     | Inr (p # ps) \<Rightarrow> if path_basename p \<notin> set ALLOWED_EXECUTABLES then Inl (Py_Exc ''ValueError'') else Inr (p # ps))"

text \<open>How a process ends: with an exit code, by the time limit, or it cannot be started.\<close>

datatype process_end = Exited int | Timed_Out | Not_Started

definition shell_run :: "(string list \<Rightarrow> process_end) \<Rightarrow> string \<Rightarrow> int" where
  "shell_run process command =
    (case command_to_argv command of
       Inl _ \<Rightarrow> - 2
     | Inr argv \<Rightarrow> (case process argv of Exited n \<Rightarrow> n | Timed_Out \<Rightarrow> - 1 | Not_Started \<Rightarrow> - 2))"

text \<open>The shell of an acceptance run: the process of the command at each position.\<close>

definition acceptance_shell :: "string \<Rightarrow> (nat \<Rightarrow> string list \<Rightarrow> process_end) \<Rightarrow> shell" where
  "acceptance_shell resolved_python process = (\<lambda>i command. shell_run (process i) (fst (rewrite_command_for_python command resolved_python)))"

section \<open>The report of a rerun\<close>

text \<open>\<open>command_results\<close> and \<open>failed_command_indexes\<close> of \<open>acceptance_workflow.py\<close>, counted from 1.\<close>

definition command_rows :: "string \<Rightarrow> string \<Rightarrow> acceptance_result \<Rightarrow> dict list" where
  "command_rows resolved_python cwd r =
    map (\<lambda>(i, c). let executed = fst (rewrite_command_for_python (cr_command c) resolved_python)
        in [(''index'', PInt (int i)), (''status'', PStr (cr_status c)), (''exit_code'', PInt (cr_exit_code c)),
            (''original_command'', PStr (cr_command c)), (''executed_command'', PStr (if executed = [] then cr_command c else executed)),
            (''cwd'', PStr cwd)])
      (enumerate 1 (ar_commands r))"

definition failed_command_indexes :: "acceptance_result \<Rightarrow> nat list" where
  "failed_command_indexes r = map fst (filter (\<lambda>(i, c). cr_status c \<noteq> ''PASSED'') (enumerate 1 (ar_commands r)))"

section \<open>What rewriting keeps and what is started\<close>

text \<open>Rewriting replaces the interpreter and leaves every argument as it was.\<close>

lemma rewriting_keeps_arguments:
  assumes "sh_split command = Inr words"
  shows "sh_split (fst (rewrite_command_for_python command py)) =
    Inr (if words \<noteq> [] \<and> hd words \<in> {''python'', ''python3''} then py # tl words else words)"
proof (cases words)
  case (Cons p ps)
  then show ?thesis
    using assms sh_split_join [of "py # ps"] by (auto simp: rewrite_command_for_python_def)
qed (use assms in \<open>simp add: rewrite_command_for_python_def\<close>)

lemma rewriting_fails_only_with_warning: "snd (rewrite_command_for_python command py) = (\<exists>e. sh_split command = Inl e)"
  by (auto simp: rewrite_command_for_python_def split: sum.splits list.splits)

lemma started_is_allowed:
  assumes "command_to_argv command = Inr argv"
  shows "argv \<noteq> []" "path_basename (hd argv) \<in> set ALLOWED_EXECUTABLES" "sh_split command = Inr argv"
    "\<And>p. p \<in> set SHELL_META_PATTERNS \<Longrightarrow> \<not> contains_str command p"
  using assms by (auto simp: command_to_argv_def list_ex_iff split: if_splits sum.splits list.splits)

text \<open>Only processes with an allowed executable are started: the verdict does not depend on any other.\<close>

lemma only_allowed_processes:
  assumes "\<And>i argv. argv \<noteq> [] \<Longrightarrow> path_basename (hd argv) \<in> set ALLOWED_EXECUTABLES \<Longrightarrow> process i argv = process' i argv"
  shows "acceptance_shell py process = acceptance_shell py process'"
proof (intro ext)
  fix i command
  show "acceptance_shell py process i command = acceptance_shell py process' i command"
    using assms started_is_allowed(1,2)
    by (auto simp: acceptance_shell_def shell_run_def split: sum.splits)
qed

text \<open>A command passes only when its process was started with exactly its words, the interpreter apart, and exits with zero.\<close>

lemma passed_command_was_run:
  assumes "acceptance_shell py process i command = 0"
  obtains words where "sh_split command = Inr words" "words \<noteq> []"
    "process i (if hd words \<in> {''python'', ''python3''} then py # tl words else words) = Exited 0"
    "path_basename (if hd words \<in> {''python'', ''python3''} then py else hd words) \<in> set ALLOWED_EXECUTABLES"
proof -
  let ?c = "fst (rewrite_command_for_python command py)"
  obtain argv where a: "command_to_argv ?c = Inr argv" "process i argv = Exited 0"
    using assms by (auto simp: acceptance_shell_def shell_run_def split: sum.splits process_end.splits)
  note s = started_is_allowed(1-3) [OF a(1)]
  obtain words where w: "sh_split command = Inr words"
  proof (cases "sh_split command")
    case (Inl e)
    then have "?c = command" by (simp add: rewrite_command_for_python_def)
    with s(3) Inl show thesis by simp
  qed
  have v: "argv = (if words \<noteq> [] \<and> hd words \<in> {''python'', ''python3''} then py # tl words else words)"
    using rewriting_keeps_arguments [OF w, of py] s(3) by simp
  with s(1) have "words \<noteq> []" by auto
  with that [OF w this] v a(2) s(2) show thesis by (auto split: if_splits)
qed

text \<open>Words with an operator are refused also inside quotes.\<close>

lemma quoted_operator_is_refused: "acceptance_shell ''/usr/bin/python3'' (\<lambda>_ _. Exited 0) 0 ''python -c \"import a; a.run()\"'' = - 2"
  by code_simp

text \<open>A rerun reports a failed command exactly when it fails.\<close>

lemma failing_command_is_run:
  "(\<exists>k<length cs. shell (i + k) (ac_command (cs ! k)) \<noteq> 0) = (\<exists>k<commands_run shell i cs. shell (i + k) (ac_command (cs ! k)) \<noteq> 0)"
proof (induction cs arbitrary: i)
  case (Cons c cs)
  have e: "(\<exists>k<Suc n. shell (i + k) (ac_command ((c # cs) ! k)) \<noteq> 0)
      = (shell i (ac_command c) \<noteq> 0 \<or> (\<exists>k<n. shell (Suc i + k) (ac_command (cs ! k)) \<noteq> 0))" for n
    by (auto simp: Ex_less_Suc2)
  show ?case using Cons [of "Suc i"] e [of "length cs"] e [of "commands_run shell (Suc i) cs"] e [of 0]
    by (auto simp del: add_Suc)
qed simp

lemma failed_indexes_iff: "(failed_command_indexes r = []) = (\<forall>c\<in>set (ar_commands r). cr_status c = ''PASSED'')"
proof -
  have "(filter (\<lambda>(i, c). cr_status c \<noteq> ''PASSED'') (enumerate n xs) = []) = (\<forall>c\<in>set xs. cr_status c = ''PASSED'')" for n xs
    by (induction xs arbitrary: n) simp_all
  then show ?thesis by (simp add: failed_command_indexes_def)
qed

lemma rerun_reports_its_failures: "(failed_command_indexes (run_acceptance shell run_id v) = []) = (ar_status (run_acceptance shell run_id v) = ''PASSED'')"
  using failing_command_is_run [of "bv_acceptance_commands v" shell 0]
  by (auto simp: failed_indexes_iff acceptance_results acceptance_verdict succeeds_def run_command_def Let_def)

text \<open>A version with one command whose process exits with zero only for these words.\<close>

definition sample_process :: "nat \<Rightarrow> string list \<Rightarrow> process_end" where
  "sample_process i argv = (if argv = [''/w/python'', ''-m'', ''pytest'', ''a b''] then Exited 0 else Exited 1)"

definition sample_version :: build_version where
  "sample_version = \<lparr>bv_version = ''v'', bv_name = ''v'', bv_enabled = True, bv_allowed_files = [], bv_forbidden_files = [],
     bv_acceptance_commands = [\<lparr>ac_command = ''python -m pytest \"a b\"'', ac_timeout_seconds = 1, ac_continue_on_failure = False\<rparr>],
     bv_reference = []\<rparr>"

lemma sample_passes: "ar_status (run_acceptance (acceptance_shell ''/w/python'' sample_process) ''r'' sample_version) = ''PASSED''"
  by code_simp

end
