(* ===== verification/GovernanceSettings.thy ===== *)
theory GovernanceSettings
  imports WorkItems PyCollections
begin

text \<open>
  \<open>runner/work_item_governance/settings.py\<close>: the switches of the governance service from the two settings
  files of a project.  Which bytes decode as UTF-8 is a parameter.
\<close>

definition default_config :: config where
  "default_config = \<lparr>cf_enabled = False, cf_gate_mode = ''shadow'', cf_canary_marked = False\<rparr>"

text \<open>A file that is missing, cannot be parsed or holds no object is skipped; one that does not decode raises.\<close>

definition settings_candidate :: "(string \<Rightarrow> bool) \<Rightarrow> json_file \<Rightarrow> dict result" where
  "settings_candidate decodes file =
    (case file of
       Json (PDict d) \<Rightarrow> Inr d
     | Garbage bytes \<Rightarrow> if decodes bytes then Inr [] else Inl (Py_Exc ''UnicodeDecodeError'')
     | _ \<Rightarrow> Inr [])"

text \<open>\<open>data.update(candidate)\<close>\<close>

definition dict_update :: "dict \<Rightarrow> dict \<Rightarrow> dict" where
  "dict_update d e = foldl (\<lambda>a (k, v). dset k v a) d e"

definition settings_of :: "dict \<Rightarrow> config result" where
  "settings_of data =
    (let section = (case dget data ''work_item_governance'' of PDict s \<Rightarrow> s | _ \<Rightarrow> []);
         enabled = (dget_or section ''shadow_ledger_enabled'' (dget_or data ''work_item_shadow_ledger_enabled'' (PBool False)) = PBool True);
         gate_mode = dget_or section ''gate_mode'' (PStr ''shadow'')
     in ebind (in_str_set gate_mode [''off'', ''shadow'', ''authoritative'']) (\<lambda>known.
        Inr \<lparr>cf_enabled = enabled, cf_gate_mode = (case gate_mode of PStr s \<Rightarrow> if known then s else ''shadow'' | _ \<Rightarrow> ''shadow''),
             cf_canary_marked = (dget section ''authoritative_canary'' = PBool True)\<rparr>))"

definition load_work_item_governance_settings :: "(string \<Rightarrow> bool) \<Rightarrow> json_file \<Rightarrow> json_file \<Rightarrow> config result" where
  "load_work_item_governance_settings decodes runner_settings settings =
    ebind (settings_candidate decodes runner_settings) (\<lambda>a.
    ebind (settings_candidate decodes settings) (\<lambda>b.
    settings_of (dict_update (dict_update [] a) b)))"

section \<open>What the files can switch on\<close>

lemma map_of_dict_update: "map_of (dict_update d e) k = (case map_of (rev e) k of Some v \<Rightarrow> Some v | None \<Rightarrow> map_of d k)"
proof (induction e rule: rev_induct)
  case (snoc kv e)
  then show ?case by (cases kv) (simp add: dict_update_def update_conv' split: option.splits)
qed (simp add: dict_update_def)

text \<open>Off unless a file says True: without the value True under one of its two keys the service stays disabled.\<close>

lemma enabled_needs_true:
  assumes "load_work_item_governance_settings decodes a b = Inr cfg" "cf_enabled cfg"
  shows "\<exists>d \<in> {d. a = Json (PDict d)} \<union> {d. b = Json (PDict d)}.
    (\<exists>s. (''work_item_governance'', PDict s) \<in> set d \<and> (''shadow_ledger_enabled'', PBool True) \<in> set s)
    \<or> (''work_item_shadow_ledger_enabled'', PBool True) \<in> set d"
proof -
  obtain x y where x: "settings_candidate decodes a = Inr x" "settings_candidate decodes b = Inr y"
    and c: "settings_of (dict_update (dict_update [] x) y) = Inr cfg"
    using assms(1) by (auto simp: load_work_item_governance_settings_def)
  let ?d = "dict_update (dict_update [] x) y"
  have src: "\<exists>d \<in> {d. a = Json (PDict d)} \<union> {d. b = Json (PDict d)}. (k, v) \<in> set d" if "map_of ?d k = Some v" for k v
  proof -
    have "(k, v) \<in> set x \<or> (k, v) \<in> set y"
      using that by (auto simp: map_of_dict_update split: option.splits dest!: map_of_SomeD)
    then show ?thesis using x by (auto simp: settings_candidate_def split: json_file.splits py.splits if_splits)
  qed
  let ?section = "case dget ?d ''work_item_governance'' of PDict s \<Rightarrow> s | _ \<Rightarrow> []"
  have e: "dget_or ?section ''shadow_ledger_enabled'' (dget_or ?d ''work_item_shadow_ledger_enabled'' (PBool False)) = PBool True"
    using c assms(2) by (auto simp: settings_of_def Let_def)
  show ?thesis
  proof (cases "map_of ?section ''shadow_ledger_enabled''")
    case None
    with e have "map_of ?d ''work_item_shadow_ledger_enabled'' = Some (PBool True)"
      by (auto simp: dget_or_def split: option.splits)
    from src [OF this] show ?thesis by blast
  next
    case (Some v)
    with e have v: "v = PBool True" by (simp add: dget_or_def)
    from Some have ne: "?section \<noteq> []" by auto
    then obtain s where s: "map_of ?d ''work_item_governance'' = Some (PDict s)" "?section = s"
      by (auto simp: dget_or_def split: option.splits py.splits)
    from Some s(2) v have "(''shadow_ledger_enabled'', PBool True) \<in> set s" by (metis map_of_SomeD)
    with src [OF s(1)] show ?thesis by blast
  qed
qed

lemma settings_gate_mode: "settings_of d = Inr cfg \<Longrightarrow> cf_gate_mode cfg \<in> {''off'', ''shadow'', ''authoritative''}"
proof -
  assume a: "settings_of d = Inr cfg"
  define g where "g = dget_or (case dget d ''work_item_governance'' of PDict s \<Rightarrow> s | _ \<Rightarrow> []) ''gate_mode'' (PStr ''shadow'')"
  obtain known where k: "in_str_set g [''off'', ''shadow'', ''authoritative''] = Inr known"
    and c: "cf_gate_mode cfg = (case g of PStr s \<Rightarrow> if known then s else ''shadow'' | _ \<Rightarrow> ''shadow'')"
    using a unfolding settings_of_def Let_def g_def [symmetric] by auto
  show ?thesis using k unfolding c by (cases g) auto
qed

lemma gate_mode_known:
  assumes "load_work_item_governance_settings decodes a b = Inr cfg"
  shows "cf_gate_mode cfg \<in> {''off'', ''shadow'', ''authoritative''}"
  using assms unfolding load_work_item_governance_settings_def ebind_Inr_iff by (elim exE conjE) (rule settings_gate_mode)

lemma no_files_default: "load_work_item_governance_settings decodes Absent Absent = Inr default_config"
  by (simp add: load_work_item_governance_settings_def settings_candidate_def settings_of_def dict_update_def dget_or_def default_config_def)

text \<open>A gate mode that is a list, or a file in another encoding, is no default but an exception.\<close>

lemma listed_gate_mode_raises:
  "load_work_item_governance_settings (\<lambda>_. True) (Json (PDict [(''work_item_governance'', PDict [(''gate_mode'', PList [])])])) Absent
    = Inl (Py_Exc ''TypeError'')"
  by (simp add: load_work_item_governance_settings_def settings_candidate_def settings_of_def dict_update_def dget_or_def)

end
