(* ===== verification/Workspace.thy ===== *)
theory Workspace
  imports PosixPaths PyCollections FilePolicyRules
begin

text \<open>
  Where a project keeps its files: \<open>runner/runner_paths.py\<close>, \<open>runner/workspace.py\<close> and the overlay of
  \<open>runner/stage_parallel_shard_input_overlay.py\<close>, a manifest that redirects the plan and state of one
  worktree.  Paths are texts; what exists, the manifest file and \<open>str()\<close> of other values are parameters.
\<close>

section \<open>Runner directories\<close>

definition PRIMARY_USER_CONFIG_DIRNAME :: string where "PRIMARY_USER_CONFIG_DIRNAME = ''colameta''"

definition abs_expand :: "system_view \<Rightarrow> string \<Rightarrow> string" where
  "abs_expand sys path = abspath sys (expanduser sys path)"

definition resolve_project_runner_dir :: "system_view \<Rightarrow> string \<Rightarrow> string" where
  "resolve_project_runner_dir sys project_root = posix_join (abs_expand sys project_root) [PRIMARY_PROJECT_RUNNER_DIRNAME]"

definition resolve_project_runner_path :: "system_view \<Rightarrow> string \<Rightarrow> string list \<Rightarrow> string" where
  "resolve_project_runner_path sys project_root parts = posix_join (resolve_project_runner_dir sys project_root) parts"

text \<open>\<open>XDG_CONFIG_HOME\<close> is the argument, None when it is not set.\<close>

definition user_config_dir :: "system_view \<Rightarrow> string option \<Rightarrow> string" where
  "user_config_dir sys xdg =
    (let x = py_strip (case xdg of Some v \<Rightarrow> v | None \<Rightarrow> []);
         base = (if x \<noteq> [] then abs_expand sys x else abs_expand sys (posix_join ''~'' [''.config'']))
     in posix_join base [PRIMARY_USER_CONFIG_DIRNAME])"

section \<open>The overlay\<close>

definition ARTIFACT_KIND :: string where "ARTIFACT_KIND = ''stage_parallel_shard_input_overlay''"

record overlay_view = system_view +
  ov_is_file :: "string \<Rightarrow> bool"
  ov_manifest :: "string \<Rightarrow> json_file"
  ov_show :: "py \<Rightarrow> string"

definition view_of :: "overlay_view \<Rightarrow> system_view" where
  "view_of v = \<lparr>sv_cwd = sv_cwd v, sv_home = sv_home v, sv_exists = sv_exists v, sv_is_dir = sv_is_dir v\<rparr>"

definition overlay_root :: "system_view \<Rightarrow> string \<Rightarrow> string" where
  "overlay_root sys project_root =
    posix_join (abs_expand sys project_root) [''.colameta'', ''runtime/stage-parallel-shard-inputs/current'']"

definition overlay_paths :: "system_view \<Rightarrow> string \<Rightarrow> (string \<times> string) list" where
  "overlay_paths sys project_root =
    (let r = overlay_root sys project_root
     in [(''project_root'', abs_expand sys project_root), (''overlay_root'', r), (''manifest_file'', posix_join r [''manifest.json'']),
         (''plan_file'', posix_join r [''plan.json'']), (''state_file'', posix_join r [''state.json'']),
         (''prompt_file'', posix_join r [''prompt.md'']), (''runtime_dir'', posix_join r [''runtime'']), (''logs_dir'', posix_join r [''logs''])])"

definition is_under :: "system_view \<Rightarrow> string \<Rightarrow> string \<Rightarrow> bool" where
  "is_under sys path parent = (commonpath (abspath sys path) (abspath sys parent) = Some (abspath sys parent))"

definition overlay_entry_ok :: "overlay_view \<Rightarrow> string \<Rightarrow> bool \<Rightarrow> py \<Rightarrow> bool" where
  "overlay_entry_ok v root must_exist entry =
    (case entry of PStr p \<Rightarrow> is_under (view_of v) p root \<and> (must_exist \<longrightarrow> ov_is_file v p) | _ \<Rightarrow> False)"

definition overlay_applies :: "overlay_view \<Rightarrow> string \<Rightarrow> dict \<Rightarrow> bool" where
  "overlay_applies v project_root manifest =
    (let sys = view_of v; root = overlay_root sys project_root;
         w = py_or (dget manifest ''worktree_path'') (PStr [])
     in dget manifest ''artifact_kind'' = PStr ARTIFACT_KIND
        \<and> abspath sys (case w of PStr s \<Rightarrow> s | _ \<Rightarrow> ov_show v w) = abs_expand sys project_root
        \<and> list_all (\<lambda>k. overlay_entry_ok v root True (dget manifest k)) [''plan_file'', ''state_file'', ''prompt_file'']
        \<and> list_all (\<lambda>k. overlay_entry_ok v root False (dget manifest k)) [''runtime_dir'', ''logs_dir''])"

definition load_valid_overlay :: "overlay_view \<Rightarrow> string \<Rightarrow> dict option" where
  "load_valid_overlay v project_root =
    (let root = overlay_root (view_of v) project_root; manifest_file = posix_join root [''manifest.json'']
     in if \<not> ov_is_file v manifest_file then None
        else case ov_manifest v manifest_file of
          Json (PDict manifest) \<Rightarrow>
            if overlay_applies v project_root manifest then Some (dset ''overlay_root'' (PStr root) manifest) else None
        | _ \<Rightarrow> None)"

section \<open>The workspace\<close>

record project_workspace =
  ws_workspace_root :: string
  ws_runner_dir :: string
  ws_prompts_dir :: string
  ws_runtime_dir :: string
  ws_logs_dir :: string
  ws_backup_dir :: string
  ws_plan_file :: string
  ws_state_file :: string
  ws_rules_file :: string

definition entry_text :: "dict \<Rightarrow> string \<Rightarrow> string" where
  "entry_text d k = (case dget d k of PStr s \<Rightarrow> s | _ \<Rightarrow> [])"

definition from_project_path :: "overlay_view \<Rightarrow> string \<Rightarrow> project_workspace" where
  "from_project_path v project_path =
    (let sys = view_of v; workspace_root = abs_expand sys project_path; runner_dir = resolve_project_runner_dir sys workspace_root;
         workspace = \<lparr>ws_workspace_root = workspace_root, ws_runner_dir = runner_dir,
           ws_prompts_dir = posix_join runner_dir [''prompts''], ws_runtime_dir = posix_join runner_dir [''runtime''],
           ws_logs_dir = posix_join runner_dir [''logs''], ws_backup_dir = posix_join runner_dir [''backup''],
           ws_plan_file = posix_join runner_dir [''plan.json''], ws_state_file = posix_join runner_dir [''state.json''],
           ws_rules_file = posix_join runner_dir [''rules.md'']\<rparr>
     in case load_valid_overlay v workspace_root of
          None \<Rightarrow> workspace
        | Some overlay \<Rightarrow> workspace\<lparr>ws_runtime_dir := entry_text overlay ''runtime_dir'', ws_logs_dir := entry_text overlay ''logs_dir'',
            ws_plan_file := entry_text overlay ''plan_file'', ws_state_file := entry_text overlay ''state_file''\<rparr>)"

text \<open>The directories that \<open>ensure_directories\<close> creates.\<close>

definition workspace_directories :: "project_workspace \<Rightarrow> string list" where
  "workspace_directories ws = [ws_runner_dir ws, ws_prompts_dir ws, ws_runtime_dir ws, ws_logs_dir ws, ws_backup_dir ws]"

section \<open>Everything lies in the runner directory\<close>

text \<open>A path whose components, once it is made absolute, begin with those of the directory.\<close>

definition inside :: "system_view \<Rightarrow> string \<Rightarrow> string \<Rightarrow> bool" where
  "inside sys dir p = (\<exists>zs. real_parts (abspath sys p) = real_parts (abspath sys dir) @ zs)"

lemma is_under_inside: "is_under sys p dir \<Longrightarrow> inside sys dir p"
  unfolding is_under_def inside_def by (rule commonpath_parts)

lemma inside_trans: "inside sys a b \<Longrightarrow> inside sys b c \<Longrightarrow> inside sys a c"
  unfolding inside_def by force

lemma real_parts_abspath:
  assumes "starts_with p ''/''"
  shows "real_parts (abspath sys p) = norm_comps True (real_parts p)"
  using assms real_parts_normpath by (simp add: abspath_def)

lemma norm_comps_prefix: "\<forall>c\<in>set cs. proper c \<Longrightarrow> norm_comps True (ds @ cs) = norm_comps True ds @ cs"
  by (induction cs rule: rev_induct) (simp_all add: norm_comps_snoc norm_step_proper flip: append_assoc)

lemma join_inside:
  assumes "starts_with a ''/''" "list_all proper cs"
  shows "inside sys a (posix_join a cs)"
proof -
  have "real_parts (posix_join a cs) = real_parts a @ cs \<and> starts_with (posix_join a cs) ''/''"
    using assms
  proof (induction cs arbitrary: a)
    case (Cons c cs)
    have "starts_with (posix_join a [c]) ''/''" by (rule path_join_rooted [OF Cons.prems(1)])
    moreover have "real_parts (posix_join a [c]) = real_parts a @ [c]"
      using Cons.prems by (intro real_parts_join_proper) auto
    moreover have "posix_join a (c # cs) = posix_join (posix_join a [c]) cs" by simp
    ultimately show ?case using Cons.IH [of "posix_join a [c]"] Cons.prems(2) by (simp del: posix_join.simps)
  qed simp
  moreover have "\<forall>c\<in>set cs. proper c" using assms(2) by (simp add: list_all_iff)
  ultimately show ?thesis
    using assms(1) by (auto simp: inside_def real_parts_abspath norm_comps_prefix)
qed

lemma abs_expand_rooted: "starts_with (sv_cwd sys) ''/'' \<Longrightarrow> starts_with (abs_expand sys p) ''/''"
  unfolding abs_expand_def by (rule abspath_rooted)

lemma names_proper: "list_all proper [''.colameta'', ''prompts'', ''runtime'', ''logs'', ''backup'', ''plan.json'', ''state.json'', ''rules.md'']"
  by code_simp

lemma rooted_not_tilde: "starts_with p ''/'' \<Longrightarrow> expanduser sys p = p"
  by (auto simp: expanduser_def starts_with_slash)

lemma overlay_root_inside:
  assumes "starts_with (sv_cwd sys) ''/''"
  shows "inside sys (resolve_project_runner_dir sys p) (overlay_root sys p)"
proof -
  let ?d = "resolve_project_runner_dir sys p"
  have r: "starts_with ?d ''/''"
    unfolding resolve_project_runner_dir_def by (rule path_join_rooted [OF abs_expand_rooted [OF assms]])
  have nd: "?d \<noteq> []" using r by auto
  have split: "split_on slash (x @ slash # ''runtime/stage-parallel-shard-inputs/current'') =
      split_on slash x @ [''runtime'', ''stage-parallel-shard-inputs'', ''current'']" for x
    by (subst split_on_append_sep) code_simp
  have e: "\<not> ends_with ?d ''/''"
    by (simp add: resolve_project_runner_dir_def PRIMARY_PROJECT_RUNNER_DIRNAME_def ends_with_def)
  have "overlay_root sys p = ?d @ slash # ''runtime/stage-parallel-shard-inputs/current''"
    using e nd by (simp add: overlay_root_def resolve_project_runner_dir_def PRIMARY_PROJECT_RUNNER_DIRNAME_def)
  then have "real_parts (overlay_root sys p) = real_parts ?d @ [''runtime'', ''stage-parallel-shard-inputs'', ''current'']"
    by (simp add: real_parts_def split)
  moreover have "starts_with (overlay_root sys p) ''/''"
    unfolding overlay_root_def by (rule path_join_rooted [OF abs_expand_rooted [OF assms]])
  moreover have "list_all proper [''runtime'', ''stage-parallel-shard-inputs'', ''current'']" by code_simp
  ultimately show ?thesis
    using r norm_comps_prefix [of "[''runtime'', ''stage-parallel-shard-inputs'', ''current'']" "real_parts ?d"]
    by (auto simp: inside_def real_parts_abspath)
qed

lemma overlay_entries:
  assumes "load_valid_overlay v p = Some overlay" "k \<in> {''plan_file'', ''state_file'', ''prompt_file'', ''runtime_dir'', ''logs_dir''}"
  shows "is_under (view_of v) (entry_text overlay k) (overlay_root (view_of v) p)"
proof -
  obtain manifest where m: "overlay_applies v p manifest" "overlay = dset ''overlay_root'' (PStr (overlay_root (view_of v) p)) manifest"
    using assms(1) by (auto simp: load_valid_overlay_def Let_def split: if_splits json_file.splits py.splits)
  have "\<exists>b. overlay_entry_ok v (overlay_root (view_of v) p) b (dget manifest k)"
    using m(1) assms(2) by (fastforce simp: overlay_applies_def Let_def)
  moreover have "entry_text overlay k = entry_text manifest k"
    using assms(2) by (auto simp: m(2) entry_text_def)
  ultimately show ?thesis
    by (auto simp: overlay_entry_ok_def entry_text_def split: py.splits)
qed

lemma workspace_inside:
  fixes p q :: string
  assumes cwd: "starts_with (sv_cwd v) ''/''"
  defines "ws \<equiv> from_project_path v p"
  assumes q: "q \<in> {ws_prompts_dir ws, ws_runtime_dir ws, ws_logs_dir ws, ws_backup_dir ws, ws_plan_file ws, ws_state_file ws, ws_rules_file ws}"
  shows "inside (view_of v) (ws_runner_dir ws) q"
proof -
  let ?sys = "view_of v" and ?root = "abs_expand (view_of v) p"
  have cwd': "starts_with (sv_cwd ?sys) ''/''" using cwd by (simp add: view_of_def)
  define d where "d = resolve_project_runner_dir ?sys ?root"
  have d: "starts_with d ''/''"
    unfolding d_def resolve_project_runner_dir_def by (rule path_join_rooted [OF abs_expand_rooted [OF cwd']])
  have std: "inside ?sys d (posix_join d [x])"
    if "x \<in> set [''prompts'', ''runtime'', ''logs'', ''backup'', ''plan.json'', ''state.json'', ''rules.md'']" for x
    using names_proper that by (intro join_inside [OF d]) (auto simp: list_all_iff)
  have ov: "inside ?sys d (entry_text overlay k)"
    if "load_valid_overlay v ?root = Some overlay" "k \<in> {''plan_file'', ''state_file'', ''prompt_file'', ''runtime_dir'', ''logs_dir''}" for overlay k
    using inside_trans [OF overlay_root_inside [OF cwd'] is_under_inside [OF overlay_entries [OF that]]] unfolding d_def .
  have dir: "ws_runner_dir ws = d"
    by (simp add: ws_def from_project_path_def d_def Let_def split: option.splits)
  show ?thesis
    unfolding dir using q
    by (auto simp: ws_def from_project_path_def Let_def std ov simp flip: d_def simp del: posix_join.simps split: option.splits)
qed

text \<open>A worktree with an overlay.\<close>

definition sample_overlay :: overlay_view where
  "sample_overlay = \<lparr>sv_cwd = ''/'', sv_home = (\<lambda>p. p), sv_exists = (\<lambda>_. True), sv_is_dir = (\<lambda>_. True), ov_is_file = (\<lambda>_. True),
     ov_manifest = (\<lambda>_. let r = ''/w/.colameta/runtime/stage-parallel-shard-inputs/current/'' in Json (PDict
       [(''artifact_kind'', PStr ARTIFACT_KIND), (''worktree_path'', PStr ''/w''), (''plan_file'', PStr (r @ ''p.json'')),
        (''state_file'', PStr (r @ ''s.json'')), (''prompt_file'', PStr (r @ ''p.md'')), (''runtime_dir'', PStr (r @ ''run'')),
        (''logs_dir'', PStr (r @ ''log''))])), ov_show = (\<lambda>_. [])\<rparr>"

lemma sample_overlay_applies:
  "ws_plan_file (from_project_path sample_overlay ''/w'') = ''/w/.colameta/runtime/stage-parallel-shard-inputs/current/p.json''"
  by code_simp

end
