(* ===== verification/PlanFiles.thy ===== *)
theory PlanFiles
  imports RunnerServices Workspace
begin

text \<open>
  The plan file under \<open>runner/plan_reload_workflow.py\<close>: migration of the paths in it to a new project root,
  synchronisation with the workspace, and the whole reload, which writes the plan file before it is
  known whether the plan loads.  A write fault and the plan loader are parameters.
\<close>

section \<open>Migration to another root\<close>

text \<open>\<open>sorted(_PLAN_IDENTITY_PATH_FIELDS)\<close>\<close>

definition PLAN_IDENTITY_PATH_FIELDS :: "string list" where
  "PLAN_IDENTITY_PATH_FIELDS = [''backup_dir'', ''logs_dir'', ''plan_file'', ''project_root'', ''prompts_dir'', ''rules_file'',
     ''runtime_dir'', ''state_file'', ''workspace'', ''workspace_path'']"

text \<open>The longest old root that is the path or a directory above it is replaced.\<close>

definition under_root :: "string \<Rightarrow> string \<Rightarrow> bool" where
  "under_root root s = (s = root \<or> starts_with s (root @ ''/''))"

definition replace_root_in_string :: "string \<Rightarrow> string list \<Rightarrow> string \<Rightarrow> string" where
  "replace_root_in_string s old_roots new_root =
    (case find (\<lambda>r. under_root r s) (sort_reverse length old_roots) of
       None \<Rightarrow> s | Some r \<Rightarrow> new_root @ drop (length r) s)"

definition migrate_field :: "string list \<Rightarrow> string \<Rightarrow> dict \<times> string list \<Rightarrow> string \<Rightarrow> dict \<times> string list" where
  "migrate_field old_roots new_root acc key =
    (case dget (fst acc) key of
       PStr s \<Rightarrow> (let updated = replace_root_in_string s old_roots new_root
                 in if updated \<noteq> s then (dset key (PStr updated) (fst acc), snd acc @ [key]) else acc)
     | _ \<Rightarrow> acc)"

definition migrated :: "string \<Rightarrow> string \<Rightarrow> string list \<Rightarrow> dict \<Rightarrow> dict \<times> string list" where
  "migrated new_name new_root old_roots data =
    foldl (migrate_field old_roots new_root)
      (if dget data ''project_name'' \<noteq> PStr new_name then (dset ''project_name'' (PStr new_name) data, [''project_name'']) else (data, []))
      PLAN_IDENTITY_PATH_FIELDS"

text \<open>The error code, or the changed fields.\<close>

datatype migration_reply = Migration_Failed string | Migrated "string list"

definition migrate_plan_identity :: "bool \<Rightarrow> string \<Rightarrow> string \<Rightarrow> string list \<Rightarrow> json_file \<Rightarrow> migration_reply result \<times> json_file" where
  "migrate_plan_identity fault new_name new_root old_roots file =
    (case file of
       Json (PDict data) \<Rightarrow>
         (let (data', changed) = migrated new_name new_root old_roots data
          in if changed = [] then (Inr (Migrated []), file)
             else if fault then (Inl (Py_Exc ''OSError''), file)
             else (Inr (Migrated changed), Json (PDict data')))
     | Json _ \<Rightarrow> (Inr (Migration_Failed ''PLAN_NOT_OBJECT''), file)
     | _ \<Rightarrow> (Inr (Migration_Failed ''PLAN_READ_FAILED''), file))"

section \<open>Synchronisation with the workspace\<close>

definition expected_paths :: "project_workspace \<Rightarrow> (string \<times> string) list" where
  "expected_paths ws = [(''project_root'', ws_workspace_root ws), (''logs_dir'', ws_logs_dir ws),
     (''runtime_dir'', ws_runtime_dir ws), (''state_file'', ws_state_file ws)]"

definition sync_field :: "dict \<times> string list \<Rightarrow> string \<times> string \<Rightarrow> dict \<times> string list" where
  "sync_field acc kv =
    (if dget (fst acc) (fst kv) \<noteq> PStr (snd kv) then (dset (fst kv) (PStr (snd kv)) (fst acc), snd acc @ [fst kv]) else acc)"

text \<open>A rules file is only moved when it is an absolute path.\<close>

definition stale_rules :: "project_workspace \<Rightarrow> py \<Rightarrow> bool" where
  "stale_rules ws v = (case v of PStr s \<Rightarrow> starts_with s ''/'' \<and> s \<noteq> ws_rules_file ws | _ \<Rightarrow> False)"

definition synced :: "project_workspace \<Rightarrow> dict \<Rightarrow> dict \<times> string list" where
  "synced ws data =
    (let acc = foldl sync_field (data, []) (expected_paths ws)
     in if stale_rules ws (dget (fst acc) ''rules_file'') then (dset ''rules_file'' (PStr (ws_rules_file ws)) (fst acc), snd acc @ [''rules_file''])
        else acc)"

datatype sync_reply = Not_Synced string | Synced "string list"

definition sync_plan_file_paths :: "bool \<Rightarrow> project_workspace \<Rightarrow> json_file \<Rightarrow> sync_reply result \<times> json_file" where
  "sync_plan_file_paths fault ws file =
    (case file of
       Json (PDict data) \<Rightarrow>
         (let (data', changed) = synced ws data
          in if changed = [] then (Inr (Synced []), file)
             else if fault then (Inl (Py_Exc ''OSError''), file)
             else (Inr (Synced changed), Json (PDict data')))
     | Json _ \<Rightarrow> (Inr (Not_Synced ''plan_not_object''), file)
     | _ \<Rightarrow> (Inr (Not_Synced ''plan_read_failed''), file))"

section \<open>The reload\<close>

text \<open>The paths are synchronised first; a plan that does not load afterwards leaves the plan file changed.\<close>

definition reload_plan ::
  "bool \<Rightarrow> (json_file \<Rightarrow> build_plan result) \<Rightarrow> string \<Rightarrow> project_workspace \<Rightarrow> json_file \<Rightarrow> state_file
    \<Rightarrow> service_reply result \<times> json_file \<times> state_file" where
  "reload_plan fault load now ws plan_file state_file =
    (case sync_plan_file_paths fault ws plan_file of
       (Inl e, plan_file') \<Rightarrow> (Inl e, plan_file', state_file)
     | (Inr _, plan_file') \<Rightarrow>
         (case load plan_file' of
            Inl _ \<Rightarrow> (Inr \<lparr>sv_ok = False, sv_error_code = Some ''PLAN_LOAD_FAILED'', sv_current_version = None, sv_runner_status = []\<rparr>,
                       plan_file', state_file)
          | Inr plan \<Rightarrow> (let (reply, state_file') = reload_plan_service now plan state_file in (reply, plan_file', state_file'))))"

section \<open>Facts\<close>

lemma replaced_path:
  assumes "r \<in> set old_roots" "under_root r s"
  shows "\<exists>r'. r' \<in> set old_roots \<and> under_root r' s \<and> length r \<le> length r'
    \<and> replace_root_in_string s old_roots new_root = new_root @ drop (length r') s"
proof -
  have "\<exists>r'. find (\<lambda>r. under_root r s) (sort_reverse length old_roots) = Some r'"
    using assms by (metis find_None_iff not_None_eq set_sort_reverse)
  then obtain r' where f: "find (\<lambda>r. under_root r s) (sort_reverse length old_roots) = Some r'" by blast
  then obtain i where i: "i < length old_roots" "under_root (sort_reverse length old_roots ! i) s" "r' = sort_reverse length old_roots ! i"
    and first: "\<And>j. j < i \<Longrightarrow> \<not> under_root (sort_reverse length old_roots ! j) s"
    by (auto simp: find_Some_iff)
  obtain j where j: "j < length old_roots" "sort_reverse length old_roots ! j = r"
    using assms(1) by (metis in_set_conv_nth length_sort_reverse set_sort_reverse)
  have "i \<le> j" using first [of j] j(2) assms(2) by (meson not_le)
  with sorted_sort_reverse [of length old_roots] i(3) j have "length r \<le> length r'"
    by (cases "i = j") (auto simp: sorted_wrt_iff_nth_less)
  moreover have "r' \<in> set old_roots" using i by (metis length_sort_reverse nth_mem set_sort_reverse)
  ultimately show ?thesis using f i by (auto simp: replace_root_in_string_def)
qed

text \<open>After synchronisation the plan names the paths of the workspace, every other field is as it was, and a
  second one has nothing to do.\<close>

definition put :: "string \<times> string \<Rightarrow> dict \<Rightarrow> dict" where
  "put kv d = (if dget d (fst kv) \<noteq> PStr (snd kv) then dset (fst kv) (PStr (snd kv)) d else d)"

lemma dget_put [simp]: "dget (put kv d) k = (if fst kv = k then PStr (snd kv) else dget d k)"
  by (simp add: put_def)

lemma fst_sync_fields: "fst (foldl sync_field acc kvs) = foldl (\<lambda>d kv. put kv d) (fst acc) kvs"
  by (induction kvs arbitrary: acc) (simp_all add: sync_field_def put_def)

lemma fst_synced: "fst (synced ws data) =
  (let d = foldl (\<lambda>d kv. put kv d) data (expected_paths ws)
   in if stale_rules ws (dget d ''rules_file'') then dset ''rules_file'' (PStr (ws_rules_file ws)) d else d)"
  unfolding synced_def Let_def by (simp add: fst_sync_fields)

lemma synced_fields:
  shows "dget (fst (synced ws data)) ''project_root'' = PStr (ws_workspace_root ws)"
    and "dget (fst (synced ws data)) ''logs_dir'' = PStr (ws_logs_dir ws)"
    and "dget (fst (synced ws data)) ''runtime_dir'' = PStr (ws_runtime_dir ws)"
    and "dget (fst (synced ws data)) ''state_file'' = PStr (ws_state_file ws)"
    and "dget (fst (synced ws data)) ''rules_file'' = (if stale_rules ws (dget data ''rules_file'') then PStr (ws_rules_file ws) else dget data ''rules_file'')"
    and "k \<notin> {''project_root'', ''logs_dir'', ''runtime_dir'', ''state_file'', ''rules_file''} \<Longrightarrow> dget (fst (synced ws data)) k = dget data k"
  unfolding fst_synced Let_def by (auto simp: expected_paths_def)

lemma synced_unchanged:
  assumes "dget d ''project_root'' = PStr (ws_workspace_root ws)" "dget d ''logs_dir'' = PStr (ws_logs_dir ws)"
    "dget d ''runtime_dir'' = PStr (ws_runtime_dir ws)" "dget d ''state_file'' = PStr (ws_state_file ws)" "\<not> stale_rules ws (dget d ''rules_file'')"
  shows "synced ws d = (d, [])"
  using assms by (simp add: synced_def expected_paths_def sync_field_def Let_def)

lemma sync_is_idempotent:
  assumes "sync_plan_file_paths fault ws file = (Inr r, file')"
  shows "snd (sync_plan_file_paths fault' ws file') = file'" "\<exists>d. file = Json (PDict d) \<Longrightarrow> fst (sync_plan_file_paths fault' ws file') = Inr (Synced [])"
proof -
  have "sync_plan_file_paths fault' ws file' = (Inr (Synced []), file')" if "file = Json (PDict d)" for d
  proof -
    have "synced ws (fst (synced ws d)) = (fst (synced ws d), [])"
      by (rule synced_unchanged) (simp_all only: synced_fields, simp add: stale_rules_def)
    moreover have "synced ws d = (d, []) \<Longrightarrow> file' = file" "snd (synced ws d) \<noteq> [] \<Longrightarrow> file' = Json (PDict (fst (synced ws d)))"
      using assms that by (auto simp: sync_plan_file_paths_def split: prod.splits if_splits)
    moreover have "snd (synced ws d) = [] \<Longrightarrow> fst (synced ws d) = d"
      by (simp add: synced_def expected_paths_def sync_field_def Let_def split: if_splits)
    ultimately show ?thesis using that
      by (cases "snd (synced ws d) = []") (auto simp: sync_plan_file_paths_def split: prod.splits)
  qed
  moreover have "file' = file \<and> snd (sync_plan_file_paths fault' ws file) = file" if "\<nexists>d. file = Json (PDict d)"
    using assms that by (auto simp: sync_plan_file_paths_def split: json_file.splits py.splits)
  ultimately show "snd (sync_plan_file_paths fault' ws file') = file'" "\<exists>d. file = Json (PDict d) \<Longrightarrow> fst (sync_plan_file_paths fault' ws file') = Inr (Synced [])"
    by (cases "\<exists>d. file = Json (PDict d)"; auto)+
qed

text \<open>Migrating to a directory inside the old root is not idempotent: the second migration moves the paths again.\<close>

lemma migration_into_old_root_repeats:
  "let once = snd (migrate_plan_identity False ''n'' ''/a/b'' [''/a''] (Json (PDict [(''project_root'', PStr ''/a'')])))
   in snd (migrate_plan_identity False ''n'' ''/a/b'' [''/a''] once) \<noteq> once"
  by code_simp

text \<open>A reload that fails has written the paths into the plan file already.\<close>

lemma failed_reload_keeps_state: "fst (reload_plan fault load now ws plan_file state_file) = Inr r \<Longrightarrow> \<not> sv_ok r \<Longrightarrow>
  snd (snd (reload_plan fault load now ws plan_file state_file)) = state_file"
  by (auto simp: reload_plan_def reload_plan_service_def refusal_def accepted_def Let_def split: prod.splits sum.splits)

end
