(* ===== verification/Spec2Isabelle.thy ===== *)
theory Spec2Isabelle
  imports Scenario_Effects LedgerStatements PolicyFacts FileTransaction StateWriters FinalCloseout ConfirmationGuard OperationLease RunClaims ParallelGroupFacts WorkflowFacts TodoList PlanLoader ConfirmationStore OAuthTraces AcceptanceCommands GovernanceSettings PlanFiles
begin

text \<open>
  ColaMeta is a local control plane for coding agents: it keeps work items in a ledger, drives the
  versions of a plan through execution, acceptance and review, and guards what agents may touch.  This
  library models its two decision-making cores in Python, the Work Item governance service
  (\<open>src/runner/work_item_governance/\<close>) and the runner (\<open>src/runner/\<close>), and proves what makes them
  correct.  Definitions keep the names of the code; the manifest maps each to its lines.

  \<^bold>\<open>Conventions\<close> (\<open>Prelude\<close>).  A Python value of JSON shape is the datatype \<open>py\<close>, a dict an association
  list, an exception or a reject a left value of \<open>+\<close> with the machine-readable code (messages are not
  modelled), Python integers are \<open>int\<close>, strings are lists of characters from 0 to 255.  An operation
  of a service takes its state and returns the reply and the new state, also when it raises, so that
  what was changed before the exception is visible.  Clocks, identifiers, digests, signatures, git, the
  shell and system calls are parameters, gathered in an environment record per component.

  \<^bold>\<open>Governance\<close> (C1 to C13).
  \<^item> \<open>GovernanceSettings\<close> (\<open>settings.py\<close>): the switches of the service from two settings files.
  \<^item> \<open>Canonical\<close> (\<open>canonical.py\<close>), \<open>Contracts\<close> (\<open>contracts.py\<close>, \<open>ids.py\<close>: states, transition policy, UUIDv7
    identifiers on 8-bit words), \<open>Validation\<close> (\<open>validation.py\<close>), \<open>Principal\<close> (\<open>principal.py\<close>, \<open>preview.py\<close>).
  \<^item> \<open>Ledger\<close> (\<open>repository.py\<close>): the tables as lists of records; inserts check primary keys, unique
    indexes, checks and foreign keys as SQLite does.  The locale \<open>ledger_table\<close> is the contract of a table
    with a unique key (an insert appends exactly one row of a new key or fails); it is interpreted for
    every table.
  \<^item> \<open>WorkItems\<close>, \<open>Attempts\<close>, \<open>Decisions\<close>, \<open>Gates\<close>, \<open>Delivery\<close> (\<open>service.py\<close>): the commands in the order
    of the file, each a normalisation, a preview check and a transaction; \<open>WorkItemFacts\<close> and
    \<open>GateFacts\<close> hold the effect of each transaction.
  \<^item> \<open>LedgerSystem\<close>: \<open>run\<close> dispatches a command, \<open>step\<close> and \<open>reachable\<close> are the transition system, and
    \<open>change\<close> lists the shapes a committed command can have.  \<open>LedgerInvariants\<close> proves the invariant of
    reachable ledgers by rule induction; \<open>LedgerConstraints\<close> has the constraints of the schema on a whole
    ledger and \<open>LedgerStatements\<close> takes each command apart into statements that keep them.  \<open>LedgerSpec\<close> states the abstract machine \<open>item_step\<close> on the
    state and versions of items; its locale \<open>item_machine\<close> (what any implementation that simulates the
    machine guarantees) is interpreted on the service by the simulation.
  \<^item> \<open>TransitionRoundtrip\<close>, \<open>ServiceFacts\<close>: idempotence, authority and the effects of whole commands.
  \<^item> \<open>Evaluation\<close>, \<open>Scenario_Base\<close>, \<open>Scenario\<close>, \<open>Scenario_Effects\<close>: the life of one work item from
    creation to acceptance, run in the kernel; it supplies the witnesses.

  \<^bold>\<open>File policy\<close> (C14).
  \<^item> \<open>PathGlob\<close> (\<open>path_glob.py\<close>, with \<open>fnmatch\<close> and the parts of \<open>PurePosixPath\<close> in use): the backtracking
    matcher and its declarative meaning \<open>glob_spec\<close>; \<open>FilePolicyRules\<close> (every table of
    \<open>file_policy_rules.py\<close>), \<open>PathPolicy\<close> (\<open>path_policy.py\<close>, \<open>plan_allowed_files.py\<close>), \<open>PolicyFacts\<close> (what the
    policy never lets through), \<open>ScopeCheck\<close> (\<open>scope_checker.py\<close>).

  \<^bold>\<open>Effects and locks\<close> (C15 to C18, C23).
  \<^item> \<open>FileTransaction\<close> (\<open>file_transaction.py\<close>): a file system as a map of paths; a fault may strike each
    operation and each restore, before the directories, before or after the replacement.
  \<^item> \<open>ConfirmationGuard\<close> (\<open>dangerous_action_guard.py\<close>): previews and one-use confirmations, and sequences
    of them.
  \<^item> \<open>OperationLease\<close> (\<open>project_operation_lease.py\<close>): lease objects over the table of kernel locks, of
    which \<open>flock\<close> grants a shared lock beside shared locks only, an exclusive one alone.
  \<^item> \<open>RunClaims\<close> (\<open>executor_run_claims.py\<close>): the claim files as a map; creation with \<open>O_EXCL\<close>.

  \<^bold>\<open>The runner\<close> (C19 to C22, C37, C38).
  \<^item> \<open>References\<close> (\<open>references.py\<close>), \<open>RunnerState\<close> (\<open>schemas/plan.py\<close>, \<open>schemas/state.py\<close>, \<open>state_store.py\<close>),
    \<open>AcceptanceRun\<close> (\<open>acceptance_runner.py\<close>), \<open>RunnerMachine\<close> (every operation of \<open>state_machine.py\<close>).
  \<^item> \<open>RunnerFacts\<close> states what an acceptance run changes, \<open>RunnerInvariants\<close> the step relation, the
    reachable states, their invariant and its consequences.
  \<^item> \<open>RunnerServices\<close> (\<open>state_mutation_gateway.py\<close>, \<open>continue_version_workflow.py\<close>, \<open>acceptance_workflow.py\<close>,
    \<open>plan_reload_workflow.py\<close>, the check of \<open>plan_loader.py\<close>): the operations behind the state file.
    \<open>VersionedStore\<close> has the locale \<open>versioned_store\<close>, the optimistic concurrency that services rely on,
    with check and replacement as separate steps of interleaved writers; it is interpreted on the gateway.  \<open>PlanFiles\<close> has the plan file: synchronisation of its paths before a
    reload, and migration to another root.  \<open>RunnerScenario\<close> runs a plan of three versions; it also shows two
    sequences that evade the fix limit and the acceptance of a renamed version.
  \<^item> \<open>ShellWords\<close> is the lexer of \<open>shlex\<close> as a state machine, with the proof that splitting undoes quoting;
    \<open>AcceptanceCommands\<close> (\<open>acceptance_runner.py\<close>, \<open>shell_adapter.py\<close>) builds the shell of an acceptance run on
    it, which instantiates the parameter of \<open>AcceptanceRun\<close>.
  \<^item> \<open>Workspace\<close> (\<open>workspace.py\<close>, \<open>runner_paths.py\<close>, \<open>stage_parallel_shard_input_overlay.py\<close>): where a project
    keeps its files.

  \<^bold>\<open>Versions completed outside the runner\<close> (C24 to C27).
  \<^item> \<open>StateWriters\<close> (\<open>commit_state_workflow.py\<close>, \<open>state_mutation.py\<close>): the services that write results of other
    workflows into the state file.  The state machine's property that a version passes only by an
    acceptance run (C21) is about the machine; a recorded commit, a reconciliation and a closeout pass
    versions too, and C24 to C27 say when.
  \<^item> \<open>StateDicts\<close>, \<open>LineageReconciliation\<close> (\<open>state_lineage_reconciliation.py\<close>), \<open>FinalCloseout\<close>
    (\<open>final_version_closeout.py\<close>): previews over the JSON of plan and state, their blockers in the code's
    order, the proposed state, and the apply behind the gateway.  \<open>unchanged_preview_applies\<close> is the converse
    of C25.

  \<^bold>\<open>Parallel stages\<close> (C28 to C30; \<open>stage_parallel_plan.py\<close>).
  \<^item> \<open>PosixPaths\<close> has what the code uses of \<open>os.path\<close>; \<open>PyCollections\<close> ordered sets, stable sorts and
    lengths of Python values.
  \<^item> \<open>ParallelPlan\<close> (tasks, shards, overlaps, the plan and the run preview) and \<open>ParallelGroup\<close> (worktrees,
    executor previews, reported results, merge preview, closeout packet): seven builders, each of which
    calls the one before it; a packet is a record that extends \<open>packet\<close>.
  \<^item> \<open>ParallelFacts\<close> decides the overlaps, \<open>ParallelGroupFacts\<close> the blockers and the status of the group as
    functions of the shards, and shows what the checks do not see.

  \<^bold>\<open>Records, todos, settings, plans and approvals\<close> (C31 to C36).
  \<^item> \<open>WorkflowRecords\<close>, \<open>WorkflowFacts\<close> (\<open>workflow_records.py\<close>): the store of run records over a directory of
    JSON values, its step relation, reachable directories and their invariant.
  \<^item> \<open>TodoList\<close> (\<open>mcp_todolist.py\<close>), with the loop that searches a free id and its termination.
  \<^item> \<open>ExecutorSettings\<close> (\<open>executor_registry.py\<close>, \<open>runner_settings.py\<close>): the layers of settings, of which the
    last that names a supported provider wins, and the writers under an expected digest.
  \<^item> \<open>PlanLoader\<close> (\<open>plan_loader.py\<close>, \<open>execution_profile.py\<close>): a plan file as the dataclasses it is read into,
    and the provider and model of a version.
  \<^item> \<open>ConfirmationStore\<close> (\<open>confirmation_store.py\<close>, \<open>core_confirmation.py\<close>, \<open>operator_artifact_binding.py\<close>):
    preview artifacts, confirmation facts with their round trip, and the guards of an apply.

  \<^bold>\<open>Authorization of clients\<close> (C39, C40; \<open>mcp_oauth.py\<close>).
  \<^item> \<open>OAuthStore\<close>: the store file with its tables, and the provider over it.  \<open>OAuthFacts\<close>: the tables after
    each operation and each write fault.
  \<^item> \<open>OAuthTraces\<close>: sequences of calls as traces, latest first, in which secrets are drawn fresh; the
    provenance of every client, code and token in the store is proved by rule induction over them.

  \<^bold>\<open>Bounds\<close>.  No definition takes fuel: every loop of the modelled code recurses on a list or on a measure
  (\<open>strip_dot_slashes\<close>, the bracket expressions of shell patterns, the taken ids ahead of \<open>next_free\<close>)
  with its termination proved.  The size limits of the code (canonical JSON, text lengths, list lengths,
  page sizes, retry delays, eight parallel tasks) are kept.

  \<^bold>\<open>Not modelled\<close>.  The surfaces (web console, MCP server, command line), the executors and their
  orchestration, the commander and validation runs, the task books and release evidence: transport,
  presentation, processes and document formats; of \<open>mcp_executor_workflow.py\<close> only the save after a
  reconciliation or closeout.  In governance the activation and pilot rollout (the
  service is modelled without an activation guard), schema loading and the SQLite
  connection.  In the runner the text of prompts and audits; in authorization the HTML
  pages and the composition of the redirect URL; in confirmations the checks of \<open>preview_artifact.py\<close>'s callers.
  Writers of one JSON file replace it in one step here, but for the OAuth store, which is rewritten in
  place, and symbolic links inside a store are outside the models.  The services that save the state file
  are modelled one at a time, with nothing between the check of a save and its replacement
  (\<open>gateway_save\<close>); only C19 interleaves these two steps.
\<close>

section \<open>The state of a work item\<close>

text \<open>C1. In every reachable ledger the state of a work item is the replay of its applied gate events
  from \<open>proposed\<close>, each along an allowed transition: no command but an applied transition moves it.\<close>

theorem state_is_replay_of_gates:
  assumes "reachable l" "r \<in> set (work_items l)"
  shows "replay ''proposed'' (applied_gates l (wi_id r)) = Some (wi_state r)"
  using reachable_inv [OF assms(1)] assms(2) by (simp add: ledger_inv_def item_ok_def)

lemma state_is_replay_witness:
  "replay ''proposed'' (applied_gates sc9 sc_w) = Some ''accepted'' \<and> length (applied_gates sc9 sc_w) = 4"
proof -
  have m: "sc_item ''accepted'' 4 \<in> set (work_items sc9)" by (simp add: sc9_fields)
  have "length (applied_gates sc9 sc_w) = 4"
    by (simp add: applied_gates_def applied_def sc9_def sc8_def sc7_def sc6_def sc5_def sc4_def sc3_def sc2_def)
  with state_is_replay_of_gates [OF sc_reachable(1) m] show ?thesis by simp
qed

text \<open>C2. Acceptance is documented exactly once: a reachable work item is accepted if and only if it has
  one acceptance manifest, which binds the accepted task version and state version; and no runtime
  attempt of an accepted task version is still active.\<close>

theorem accepted_iff_one_manifest:
  assumes "reachable l" "r \<in> set (work_items l)"
  shows "(wi_state r = ''accepted'') = (length (manifests_of l (wi_id r)) = 1)
    \<and> (\<forall>m\<in>set (manifests_of l (wi_id r)). am_task_version m = wi_current_task_version r
           \<and> am_accepted_state_version m = wi_state_version r)
    \<and> (wi_state r = ''accepted'' \<longrightarrow> active_attempts l (wi_id r) (wi_current_task_version r) = [])"
  using reachable_inv [OF assms(1)] assms(2) by (auto simp: ledger_inv_def item_ok_def)

lemma accepted_iff_one_manifest_witness:
  "map am_accepted_state_version (manifests_of sc9 sc_w) = [4] \<and> active_attempts sc9 sc_w 1 = []"
proof -
  have m: "sc_item ''accepted'' 4 \<in> set (work_items sc9)" by (simp add: sc9_fields)
  show ?thesis using accepted_iff_one_manifest [OF sc_reachable(1) m] by (auto simp: length_Suc_conv)
qed

text \<open>C3. Versions are accounted for: the task versions of a reachable work item are exactly 1 up to its
  current one, and its state version is the number of applied gates plus the number of revisions.\<close>

theorem versions_accounted:
  assumes "reachable l" "r \<in> set (work_items l)"
  shows "(\<forall>v. has_task l (wi_id r) v \<longleftrightarrow> 1 \<le> v \<and> v \<le> wi_current_task_version r)
    \<and> wi_state_version r = int (length (applied_gates l (wi_id r))) + wi_current_task_version r - 1"
  using reachable_inv [OF assms(1)] assms(2) by (auto simp: ledger_inv_def item_ok_def)

lemma versions_accounted_witness: "int (length (applied_gates sc9 sc_w)) = 4 \<and> \<not> has_task sc9 sc_w 2"
proof -
  have m: "sc_item ''accepted'' 4 \<in> set (work_items sc9)" by (simp add: sc9_fields)
  show ?thesis using versions_accounted [OF sc_reachable(1) m] by simp
qed

text \<open>C4. The service refines the abstract machine of a work item: every committed command leaves the
  states and versions of all work items, creates one, revises an open one, or moves one along an
  allowed transition.\<close>

theorem commands_refine_item_machine:
  assumes "reachable l" "run e cfg l oper = Inr l'"
  shows "item_step (items_of l) (items_of l')"
  using assms by (intro service.refines step.step)

lemma commands_refine_witness: "item_step (items_of sc8) (items_of sc9)"
  by (rule commands_refine_item_machine [OF sc_reachable(2) sc_run9])

section \<open>The record is append-only\<close>

text \<open>C5. History is append-only: over any sequence of commands every table of facts keeps its rows as a
  prefix, and a completed attempt stays exactly as it was completed.\<close>

theorem history_is_append_only:
  assumes "reachable l" "step\<^sup>*\<^sup>* l l'"
  shows "history_extends l l' \<and> (\<forall>a\<in>set (execution_attempts l). at_completion_event_key a \<noteq> None
    \<longrightarrow> a \<in> set (execution_attempts l'))"
  by (rule history_steps [OF assms(2,1)])

lemma history_is_append_only_witness:
  "history_extends sc5 sc9 \<and> sc_completed_row \<in> set (execution_attempts sc9)"
  using history_is_append_only [OF sc_reachable(3) sc_steps(2)] by (simp add: sc_completed_row_def complete_attempt_row_def)

text \<open>C6. Keys are unique and references resolve in every reachable ledger.  In each of the fourteen tables that
  the service writes, no two rows share a primary key or the value of a UNIQUE column or column group
  (identifiers, creation previews, origins with a reference, event, completion, dedupe and idempotency
  keys, where not NULL), and every foreign key (work item, task version, attempt, superseded decision,
  gate event, where not NULL) has its row.\<close>

theorem keys_and_references:
  assumes "reachable l"
  shows "unique_columns l \<and> foreign_keys l"
  by (rule reachable_constraints [OF assms])

lemma keys_and_references_witness: "unique_columns sc9 \<and> foreign_keys sc9 \<and> length (gate_events sc9) = 4"
  using keys_and_references [OF sc_reachable(1)]
  by (simp add: sc9_def sc8_def sc7_def sc6_def sc5_def sc4_def sc3_def sc2_def)

section \<open>Gates\<close>

text \<open>C7. An applied gate is justified.  When a command records a transition as applied, the preview it was
  given verifies, and the command that was signed in that preview equals, as Python compares values, the
  one carried out, whose actor, authority basis and principal are those of the principal who applies it.
  That principal is trusted and holds the authority the transition policy demands; the transition
  satisfied every condition of the policy on the ledger before it, and moved the state of its work item
  and of no other.\<close>

theorem applied_gate_is_justified:
  assumes "reachable l" "apply_work_item_transition e cfg l p pc = Inr (Gate_Recorded g False view, l')"
    "ge_outcome g = ''transition_applied''"
  shows "\<exists>verified signer c item rq. preview_verify e p ''work_item_transition'' = Inr verified
    \<and> dget verified ''preview_id'' = PStr (ge_preview_id g)
    \<and> py_eq (PDict (bound_fields c)) (preview_command verified)
    \<and> pc = Some signer \<and> pr_trusted signer \<and> rq_authority rq \<in> set (pr_permissions signer)
    \<and> tc_principal_context c = principal_to_record signer \<and> tc_actor c = principal_actor_record signer
    \<and> tc_authority_basis c = authority_basis_of signer (rq_authority rq)
    \<and> ge_principal g = jsort (principal_to_record signer)
    \<and> row_with wi_id (ge_work_item_id g) (work_items l) = Some item
    \<and> tc_work_item_id c = ge_work_item_id g \<and> tc_target_state c = ge_target_state g \<and> transition_ok l item c rq
    \<and> items_of l' = (items_of l)(ge_work_item_id g \<mapsto>
         (ge_target_state g, wi_state_version item + 1, wi_current_task_version item))"
  by (rule applied_transition [OF assms])

lemma applied_gate_is_justified_witness: "\<exists>item c rq. transition_ok sc8 item c rq \<and> tc_work_item_id c = sc_w
    \<and> tc_target_state c = ''accepted'' \<and> items_of sc9 sc_w = Some (''accepted'', 4, 1)"
proof -
  obtain g view where a: "apply_work_item_transition (sc_env 9) sc_cfg sc8 (sc_transition_preview 9 sc_c9) (Some sc_principal)
    = Inr (Gate_Recorded g False view, sc9)" and g: "ge_outcome g = ''transition_applied''" "ge_work_item_id g = sc_w"
      "ge_target_state g = ''accepted''" using sc_apply9 by blast
  have "items_of sc9 sc_w = Some (''accepted'', 4, 1)" by (simp add: items_of_def sc9_fields)
  with applied_gate_is_justified [OF sc_reachable(2) a g(1)] g(2,3) show ?thesis by auto
qed

text \<open>C8. The gate evaluates exactly its policy: a transition is eligible if and only if every condition
  of \<open>transition_ok\<close> holds (allowed edge, current versions, authority, clear blockers, evidence that
  exists, no active attempt at acceptance, a trusted decision that is not superseded and whose
  evidence is presented).\<close>

theorem eligibility_is_the_policy:
  "(\<exists>ev. evaluate_transition l item c = Inr ev \<and> ev_eligible ev) = (\<exists>rq. transition_ok l item c rq)"
  using evaluate_transition_eligible by blast

text \<open>C9. Applying a preview is idempotent: when the same preview is applied again, with any clock and
  any fresh identifiers under which it still verifies, the gate recorded first is returned as a
  replay and the ledger does not change.\<close>

theorem transition_apply_idempotent:
  assumes "reachable l" "apply_work_item_transition e cfg l p pc = Inr (Gate_Recorded g again view, l')"
    and "preview_verify e' p ''work_item_transition'' = Inr verified" "e_sha e' = e_sha e"
  shows "\<exists>view'. apply_work_item_transition e' cfg l' p pc = Inr (Gate_Recorded g True view', l')"
  by (rule apply_transition_again [OF assms])

lemma transition_apply_idempotent_witness: "\<exists>g view. apply_work_item_transition (sc_env 9) sc_cfg sc9
    (sc_transition_preview 9 sc_c9) (Some sc_principal) = Inr (Gate_Recorded g True view, sc9)"
proof -
  obtain g view where a: "apply_work_item_transition (sc_env 9) sc_cfg sc8 (sc_transition_preview 9 sc_c9) (Some sc_principal)
    = Inr (Gate_Recorded g False view, sc9)" using sc_apply9 by blast
  then obtain w where "preview_verify (sc_env 9) (sc_transition_preview 9 sc_c9) ''work_item_transition'' = Inr w"
    by (rule apply_transition_recorded)
  from transition_apply_idempotent [OF sc_reachable(2) a this refl] show ?thesis by blast
qed

section \<open>Guards\<close>

text \<open>C10. Settings guard every write: a command succeeds only when the service is enabled, and changes
  the ledger only when the project is not a marked canary and no activation lease was ever recorded.\<close>

theorem writes_are_guarded:
  assumes "run e cfg l oper = Inr l'"
  shows "cf_enabled cfg \<and> (l' \<noteq> l \<longrightarrow> \<not> cf_canary_marked cfg \<and> latest_activation_lease l = None)"
  by (rule run_guarded [OF assms])

lemma writes_are_guarded_witness:
  "sc10 \<noteq> sc9 \<and> cf_enabled sc_cfg \<and> \<not> cf_canary_marked sc_cfg \<and> latest_activation_lease sc9 = None"
proof -
  have "blocker_events sc10 \<noteq> blocker_events sc9" by (simp add: sc9_fields sc10_def)
  then have "sc10 \<noteq> sc9" by metis
  with writes_are_guarded [OF sc_run10] show ?thesis by simp
qed

text \<open>C11. A blocker is active between its application and its clearing: after a command that applies it
  the blocker is active where it was not, after one that clears it the blocker is inactive where it
  was active.\<close>

theorem blocker_follows_its_events:
  assumes "record_blocker_event e cfg l command ty = Inr ((row, False), l')"
    "ty = ''blocker_applied'' \<or> ty = ''blocker_cleared''"
  shows "blocker_active l' (bl_work_item_id row) (bl_blocker_id row) = (ty = ''blocker_applied'')
    \<and> blocker_active l (bl_work_item_id row) (bl_blocker_id row) = (ty = ''blocker_cleared'')"
  by (rule blocker_command_effect [OF assms])

lemma blocker_follows_its_events_witness:
  "blocker_active sc10 sc_w (sc_id ''blocker'' 5) \<and> \<not> blocker_active sc9 sc_w (sc_id ''blocker'' 5)"
  using blocker_follows_its_events [OF sc_apply_block [unfolded apply_blocker_def]]
  by (simp add: sc_blocker_row_def)

section \<open>Attempts and decisions\<close>

text \<open>C12. Dispatch authority is exact: the service authorises an attempt if and only if it is a
  dispatchable runtime attempt that is still active, for the current task version of its own open work
  item.\<close>

theorem dispatch_authority_exact:
  assumes "get_execution_attempt_dispatch_authority cfg l i w v = Inr (ok, reasons)"
  shows "ok = (\<exists>a item. i = PStr (at_id a) \<and> w = PStr (wi_id item) \<and> v = PInt (wi_current_task_version item)
    \<and> row_with at_id (at_id a) (execution_attempts l) = Some a \<and> row_with wi_id (wi_id item) (work_items l) = Some item
    \<and> at_work_item_id a = wi_id item \<and> at_task_version a = wi_current_task_version item
    \<and> at_kind a = ''runtime'' \<and> at_dispatch_authorized a \<and> at_status a \<in> {''claimed'', ''running''}
    \<and> wi_state item \<notin> set TERMINAL_WORK_ITEM_STATES \<and> wi_state item \<noteq> ''submitted'')"
  by (rule dispatch_allowed [OF assms])

lemma dispatch_authority_exact_witness:
  "\<exists>a. row_with at_id sc_attempt (execution_attempts sc4) = Some a \<and> at_dispatch_authorized a \<and> at_work_item_id a = sc_w"
proof -
  have "get_execution_attempt_dispatch_authority sc_cfg sc4 (PStr sc_attempt) (PStr sc_w) (PInt 1) = Inr (True, [])"
    by (simp add: get_execution_attempt_dispatch_authority_def require_stable_id_def is_stable_id_def
        require_positive_integer_def sc4_def row_with_def sc_attempt_row_def runtime_attempt_row_def work_item_row_of_def
        dispatch_reasons_def TERMINAL_WORK_ITEM_STATES_def del: ebind_Inr_iff)
  from dispatch_authority_exact [OF this] show ?thesis by (metis py.inject(3))
qed

section \<open>Previews, canonical texts and commands\<close>

text \<open>C13. An accepted preview is authentic and alive: it is the value presented, of the expected
  operation and project, signed by this server over all its other fields, its digest that of its
  command, and its lifetime between 1 and 900 seconds not yet over.\<close>

theorem accepted_preview_is_authentic:
  assumes "preview_verify e v oper = Inr preview"
  shows "v = PDict preview \<and> dget preview ''operation'' = PStr oper
    \<and> dget preview ''project_binding'' = PStr (e_project_binding e)
    \<and> (\<exists>s. dget preview ''signature'' = PStr s \<and> preview_sign e preview = Inr s)
    \<and> (\<exists>command digest. dget preview ''command'' = PDict command
          \<and> canonical_sha256 (e_sha e) (PDict command) = Inr digest \<and> dget preview ''content_digest'' = PStr digest)
    \<and> (\<exists>t0 ttl. parse_timestamp e (dget preview ''issued_at'') = Inr t0
          \<and> dget preview ''ttl_seconds'' = PInt ttl \<and> 1 \<le> ttl \<and> ttl \<le> 900 \<and> e_now e \<le> t0 + ttl * 1000000)"
  using preview_verify_Inr [OF assms] by blast

lemma accepted_preview_is_authentic_witness:
  "\<exists>s. preview_sign (sc_env 0) (sc_preview 0 ''op'' [] []) = Inr s"
proof -
  have "preview_verify (sc_env 0) (PDict (sc_preview 0 ''op'' [] [])) ''op'' = Inr (sc_preview 0 ''op'' [] [])"
    by (rule sc_verify) simp_all
  from accepted_preview_is_authentic [OF this] show ?thesis by blast
qed

section \<open>Paths and file policy\<close>

text \<open>C14. The recursive glob matcher decides the meaning of a pattern: \<open>**\<close> stands for any list of path
  components, also none, every other component of the pattern for one component that its shell pattern
  matches, and an empty pattern or path matches nothing.\<close>

theorem glob_matcher_is_declarative:
  "glob_match pat path = (normalize pat \<noteq> [] \<and> normalize path \<noteq> []
     \<and> glob_spec (split_on slash (normalize pat)) (split_on slash (normalize path)))"
  by (simp add: glob_match_def Let_def match_parts_spec)

section \<open>File transactions\<close>

text \<open>C15. A batch of file operations is all or nothing.  Whatever faults strike: when it commits, every
  operation was applied and every path has the text of the last operation on it; when it is rolled back,
  every file is as before, provided the targets had no carriage returns; and no file outside the project
  root changes, even when the rollback fails.\<close>

theorem commit_is_all_or_nothing:
  assumes c: "commit root flt back opers fs = (rc, fs')"
  shows "(rc_status rc = Committed \<longrightarrow> rc_applied_count rc = length opers
        \<and> map_option fst (file_at fs' q) = applied_text opers fs q)
    \<and> (rc_status rc = Rolled_Back \<longrightarrow> (\<forall>oper\<in>set opers. plain_text fs (op_abs_path oper)) \<longrightarrow> file_at fs' q = file_at fs q)
    \<and> (\<not> is_prefix root q \<longrightarrow> file_at fs' q = file_at fs q)"
  using committed_text [OF c] rolled_back_files [OF c] outside_root_unchanged [OF c] by blast

lemma commit_is_all_or_nothing_witness:
  "map_option fst (file_at ((ex_fs([''p'', ''b''] \<mapsto> File (Some ''new'') 420)) ([''p'', ''a''] := None)) [''p'', ''b'']) = Some (Some ''new'')"
  using commit_is_all_or_nothing [OF ex_committed, of "[''p'', ''b'']"] by (simp add: applied_text_def ex_write_def ex_delete_def)

section \<open>Confirmations of dangerous actions\<close>

text \<open>C16. A confirmation is accepted exactly when it names an unused, unexpired preview and repeats what was
  previewed: the action, surface, route, project, head, signatures and payload digest.\<close>

theorem confirmation_accepted_iff:
  "(\<exists>r. fst (confirm H now c a g) = Inr r) =
     (\<exists>i p. c = PStr i \<and> py_strip i \<noteq> [] \<and> gd_previews g i = Some p \<and> \<not> pv_used p \<and> now \<le> pv_expires_at p \<and> same_action H p a)"
  by (rule confirm_accepts)

text \<open>C17. However previews and confirmations are interleaved, each issue of a confirmation id is accepted at
  most once.\<close>

theorem confirmation_is_one_use:
  assumes "\<forall>p. gd_previews g i \<noteq> Some p"
  shows "length (filter (confirmed i) (guard_run H es g)) \<le> length (filter (creates i) es)"
proof -
  have "gd_previews g i = None" using assms by (cases "gd_previews g i") auto
  then have "spent i g = 0" by (simp add: spent_def)
  then show ?thesis using accepted_at_most_once_per_issue [of i H es g] by simp
qed

lemma confirmation_is_one_use_witness:
  "\<forall>a d. length (filter (confirmed ''c1'') (guard_run (\<lambda>s. s) [Create 0 ''c1'' a d, Confirm 1 (PStr ''c1'') a, Confirm 2 (PStr ''c1'') a]
     \<lparr>gd_ttl_seconds = 300, gd_previews = Map.empty\<rparr>)) \<le> 1"
proof (intro allI)
  fix a d
  show "length (filter (confirmed ''c1'') (guard_run (\<lambda>s. s) [Create 0 ''c1'' a d, Confirm 1 (PStr ''c1'') a, Confirm 2 (PStr ''c1'') a]
     \<lparr>gd_ttl_seconds = 300, gd_previews = Map.empty\<rparr>)) \<le> 1"
    using confirmation_is_one_use [of "\<lparr>gd_ttl_seconds = 300, gd_previews = Map.empty\<rparr>" "''c1''" "\<lambda>s. s"
      "[Create 0 ''c1'' a d, Confirm 1 (PStr ''c1'') a, Confirm 2 (PStr ''c1'') a]"] by simp
qed

section \<open>Project leases\<close>

text \<open>C18. Leases exclude: in every state the leases reach, two that are held at the same time are both
  shared, even when releases fail.\<close>

theorem leases_exclude:
  assumes "lease_reachable clean s" "i < length (ls_leases s)" "j < length (ls_leases s)" "i \<noteq> j"
    "held (ls_leases s ! i)" "held (ls_leases s ! j)"
  shows "le_shared (ls_leases s ! i) \<and> le_shared (ls_leases s ! j)"
  by (rule held_leases_shared [OF assms])

lemma leases_exclude_witness: "le_shared (ls_leases ex_two_readers ! 0) \<and> le_shared (ls_leases ex_two_readers ! 1)"
  by (rule leases_exclude [OF ex_two_readers_reachable]) (simp_all add: ex_two_readers_eq ex_reader_def held_def)

section \<open>The runner's state machine\<close>

text \<open>C19. The state file is overwritten unseen only between a check and its replacement.  Several services read
  the file, check that it still has the time they read, and replace it in a later step; these steps
  interleave in any order, each of them whole, and no two states the file has had share a time.  Then each
  accepted save was computed from the state the file had at the check of that save; the state it overwrites is
  the one its writer had read if and only if nobody replaced the file between the check and the
  replacement; and the file ends with what the last replacement wrote.\<close>

theorem overwritten_unseen_only_after_check:
  assumes "file = Some (PDict (serialize_state st))" "s = store_run file_view rs_updated_at check_state put_state es file"
    and "distinct (map rs_updated_at (history st (so_log s)))" "None \<notin> set (map rs_updated_at (history st (so_log s)))"
    and "i < length (so_log s)" "r = so_log s ! i"
  shows "lg_seen r \<le> i \<and> lg_base r = history st (so_log s) ! lg_seen r \<and> lg_replaced r = history st (so_log s) ! i
    \<and> (lg_replaced r = lg_base r) = (lg_seen r = i) \<and> file_view (so_file s) = last (history st (so_log s))"
proof -
  have f: "file_valid file" "file_view file = st" by (auto simp: file_view_def file_valid_def assms(1))
  show ?thesis
    using state_gateway.save_overwrites [OF f(1), of es i r, unfolded f(2), folded assms(2), OF assms(3-6)]
      state_gateway.final_version [OF f(1), of es, unfolded f(2), folded assms(2), OF assms(3,4)] by blast
qed

lemma overwritten_unseen_only_after_check_witness:
  "lg_base (so_log (rn_run rn_race) ! 1) = rn0 \<and> lg_replaced (so_log (rn_run rn_race) ! 1) \<noteq> rn0"
proof -
  note log = conjunct1 [OF interleaved_save_overwrites_update]
  have h: "distinct (map rs_updated_at (history rn0 (so_log (rn_run rn_race))))"
    "None \<notin> set (map rs_updated_at (history rn0 (so_log (rn_run rn_race))))" "1 < length (so_log (rn_run rn_race))"
    unfolding log history_def by (simp_all add: rn0_time)
  have seen: "lg_seen (so_log (rn_run rn_race) ! 1) = 0" unfolding log by simp
  note all = overwritten_unseen_only_after_check [OF refl refl h refl]
  from all seen have "lg_base (so_log (rn_run rn_race) ! 1) = rn0" by (simp add: history_def)
  moreover from all seen have "lg_replaced (so_log (rn_run rn_race) ! 1) \<noteq> lg_base (so_log (rn_run rn_race) ! 1)" by (metis zero_neq_one)
  ultimately show ?thesis by simp
qed

text \<open>C20. A completed run has passed every enabled version of its plan, if no two versions of the plan have the
  same name (which the plan loader does not check): in every state that the operations of the state
  machine reach from the initial one, also when they raise.\<close>

theorem completed_run_passed_every_version:
  assumes "machine_reachable plan st" "distinct (map bv_version (bp_versions plan))" "rs_status st = ''COMPLETED''"
    and "j < length (bp_versions plan)" "bv_enabled (bp_versions plan ! j)"
  shows "vs_version (rs_versions st ! j) = bv_version (bp_versions plan ! j) \<and> vs_status (rs_versions st ! j) = ''PASSED''"
  by (rule completed_all_passed [OF assms])

lemma completed_run_passed_every_version_witness: "vs_status (rs_versions rn4 ! 2) = ''PASSED''"
  using completed_run_passed_every_version [OF rn_reachable(5) rn_distinct, of 2] rn4_fields rn_versions by simp

text \<open>C21. In the state machine a version becomes passed in one way only, if no two versions of the plan have the
  same name: in a state that its operations reach from the initial one, by an acceptance run of the
  current version in which every command of its plan exits with zero and the scope check does not fail.\<close>

theorem version_passes_only_by_acceptance:
  assumes "machine_step plan st st'" "machine_reachable plan st" "distinct (map bv_version (bp_versions plan))"
    and "j < length (bp_versions plan)"
    and "vs_status (rs_versions st' ! j) = ''PASSED''" "vs_status (rs_versions st ! j) \<noteq> ''PASSED''"
  shows "int j = rs_current_version_index st \<and> (\<exists>is_fix env. st' = snd (run_acceptance_step is_fix env plan st)
    \<and> (\<forall>i<length (bv_acceptance_commands (bp_versions plan ! j)).
         succeeds (me_shell env) (bv_acceptance_commands (bp_versions plan ! j)) i)
    \<and> sc_status (scope_of env (bp_versions plan ! j)) \<noteq> ''FAILED'')"
  by (rule passed_only_by_acceptance [OF assms])

lemma version_passes_only_by_acceptance_witness: "int 0 = rs_current_version_index rn0"
  using version_passes_only_by_acceptance [OF rn_step1 rn_reachable(1) rn_distinct, of 0] rn1_status rn0_status rn_versions
  by simp

text \<open>C22. The state machine always leaves a passed version, if no two versions of the plan have the same name:
  in a state that its operations reach from the initial one and that is at VERSION_PASSED after the
  normalisation with which the operation to continue starts, that operation succeeds, and either completes the run, when every later enabled version has
  passed, or moves forward to the first later enabled version that has not.  (The service that calls it
  refuses before, while a commit or a review is required.)\<close>

theorem continuing_makes_progress:
  assumes "machine_reachable plan st" "distinct (map bv_version (bp_versions plan))"
    and "rs_status (normalize_passed_current_version_status st) = ''VERSION_PASSED''"
  shows "\<exists>st'. continue_next_version env plan st = (Inr (), st') \<and>
    (if \<forall>j. rs_current_version_index st < j \<and> j < int (length (bp_versions plan)) \<longrightarrow> version_settled (bp_versions plan) (rs_versions st) j
     then rs_status st' = ''COMPLETED''
     else rs_status st' = ''READY'' \<and> rs_attempt st' = 1 \<and> rs_current_version_index st < rs_current_version_index st'
        \<and> \<not> version_settled (bp_versions plan) (rs_versions st) (rs_current_version_index st')
        \<and> (\<forall>j. rs_current_version_index st < j \<and> j < rs_current_version_index st' \<longrightarrow> version_settled (bp_versions plan) (rs_versions st) j))"
  by (rule continue_progress [OF machine_reachable_inv [OF assms(1,2)] assms(2,3)])

lemma continuing_makes_progress_witness: "\<exists>st'. continue_next_version (rn_env 0) rn_plan rn1 = (Inr (), st')"
  using continuing_makes_progress [OF rn_reachable(2) rn_distinct, of "rn_env 0"] rn1_passed by blast

section \<open>Claims of executor runs\<close>

text \<open>C23. A preview has one winner: among any calls by any workers, at most one acquires a vacant claim, and
  one more for each release.\<close>

theorem claim_has_one_winner:
  assumes "claim_run cfg es files = (log, files1)" "files i = None"
  shows "length (filter (wins i) log) \<le> 1 + length (filter (releases i) es)"
  using one_winner_per_release [OF assms(1), of i] assms(2) by (simp add: vacant_def)

lemma claim_has_one_winner_witness:
  "length (filter (wins ''p1'') (fst (claim_run ex_cfg [Acquire (ex_claim_env ''r1'') ''p1'' ex_request, Acquire (ex_claim_env ''r2'') ''p1'' ex_request] Map.empty))) \<le> 1"
proof -
  define es where "es = [Acquire (ex_claim_env ''r1'') ''p1'' ex_request, Acquire (ex_claim_env ''r2'') ''p1'' ex_request]"
  obtain log files1 where run: "claim_run ex_cfg es Map.empty = (log, files1)" by fastforce
  have "(Map.empty :: claim_files) ''p1'' = None" by simp
  from claim_has_one_winner [OF run this] show ?thesis by (simp add: run es_def [symmetric]) (simp add: es_def)
qed

section \<open>Versions completed outside the runner\<close>

text \<open>C24. A reconciliation that may be applied proposes a consistent state: the target is the current
  version and not started; every plan version before it is passed, unless a binding explicitly sends it
  back to not started; runtimes that no binding names are as they were; and every version it passes has
  a commit that git knows under the stated subject.\<close>

theorem reconciled_state_is_consistent:
  fixes q :: lineage_request
  assumes "build_state_lineage_reconciliation_preview hash_of git q = Inr a" "dget a ''can_apply'' = PBool True"
  shows "\<exists>new i k target bs. target = py_strip (lr_target_next_version q) \<and> bs = snd (read_request_bindings git q)
    \<and> dget a ''proposed_state'' = PDict new \<and> dget new ''current_version'' = PStr target
    \<and> position_of (lr_plan q) target = Some i \<and> dget new ''current_version_index'' = PInt (int i)
    \<and> position_of (lr_state q) target = Some k \<and> runtime_status (state_runtime_at new (Some k)) = ''NOT_STARTED''
    \<and> (\<forall>v\<in>set (take i (order_of (lr_plan q))).
         (\<exists>j. position_of (lr_state q) v = Some j \<and> runtime_status (state_runtime_at new (Some j)) = ''PASSED'')
         \<or> (\<exists>b\<in>set bs. bd_version b = v \<and> bd_target_status b = ''NOT_STARTED''))
    \<and> (\<forall>j. (\<forall>b\<in>set bs. position_of (lr_state q) (bd_version b) \<noteq> Some j) \<longrightarrow>
         state_runtime_at new (Some j) = state_runtime_at (lr_state q) (Some j))
    \<and> commits_confirmed git bs"
  using consistent_proposal [OF assms] by blast

lemma reconciled_state_is_consistent_witness:
  "\<exists>new. dget new ''current_version'' = PStr ''v2''
    \<and> commits_confirmed ex_git (snd (read_request_bindings ex_git (ex_lineage ''READY'' ''passed'')))"
proof -
  obtain a where "build_state_lineage_reconciliation_preview (\<lambda>v. ''h'') ex_git (ex_lineage ''READY'' ''passed'') = Inr a"
    "dget a ''can_apply'' = PBool True" using ex_lineage_preview by blast
  note s = reconciled_state_is_consistent [OF this]
  have "py_strip (lr_target_next_version (ex_lineage ''READY'' ''passed'')) = ''v2''" by code_simp
  with s show ?thesis by auto
qed

text \<open>C25. What is written is what was previewed, and nothing it rests on has moved: a reconciliation that is
  applied leaves the proposed state in the state file, which until then had the digest of the previewed
  state, with the expected head, a clean worktree and the commits of its bindings.\<close>

theorem reconciliation_writes_its_preview:
  assumes "build_state_lineage_reconciliation_preview hash_of git q = Inr a" "dget a ''can_apply'' = PBool True"
    and "\<forall>v. py_strip (hash_of v) = hash_of v"
    and "save_updated_state hash_of (stored_artifact pid ex a)
      (apply_state_lineage_reconciliation_artifact hash_of (stored_artifact pid ex a) st pid facts) file = (Inr (Inr r), file')"
  shows "file' = Some (PDict (proposed_of git q))
    \<and> (\<exists>current. file = Some current \<and> hash_of current = hash_of (PDict (lr_state q)))
    \<and> py_strip (af_current_head facts) = py_strip (lr_expected_head q) \<and> status_lines (af_git_status facts) = []
    \<and> commits_confirmed (af_git facts) (snd (read_request_bindings git q))"
  using applied_is_the_preview [OF assms(1,2) _ assms(4)] assms(3) by simp

lemma reconciliation_writes_its_preview_witness:
  "commits_confirmed (af_git ex_facts) (snd (read_request_bindings ex_git (ex_lineage ''READY'' ''passed'')))"
proof -
  obtain a where a: "build_state_lineage_reconciliation_preview (\<lambda>v. ''h'') ex_git (ex_lineage ''READY'' ''passed'') = Inr a"
    "dget a ''can_apply'' = PBool True" using ex_lineage_preview by blast
  have h: "\<forall>v. py_strip ((\<lambda>v. ''h'') (v :: py)) = ''h''" by (simp add: py_strip_def is_ws_def)
  have p: "''p1'' \<noteq> ([] :: string)" by simp
  obtain r where "save_updated_state (\<lambda>v. ''h'') (stored_artifact ''p1'' ''t9'' a)
      (apply_state_lineage_reconciliation_artifact (\<lambda>v. ''h'') (stored_artifact ''p1'' ''t9'' a) (lr_state (ex_lineage ''READY'' ''passed'')) ''p1'' ex_facts)
      (Some (PDict (lr_state (ex_lineage ''READY'' ''passed'')))) = (Inr (Inr r), Some (PDict (proposed_of ex_git (ex_lineage ''READY'' ''passed''))))"
    using unchanged_preview_applies [OF a _ p ex_facts_hold] h by blast
  from reconciliation_writes_its_preview [OF a h this] show ?thesis by simp
qed

text \<open>C26. A run that is closed has passed: applying a final closeout leaves a completed state in the state
  file in which every named version is passed, on a state file with the digest of the previewed one, the
  expected head, an existing commit and the evidence files as they were fingerprinted.\<close>

theorem closed_run_has_passed:
  assumes "build_final_version_closeout_preview hash_of rd q = Inr a" "dget a ''can_apply'' = PBool True"
    and "\<forall>v. py_strip (hash_of v) = hash_of v"
    and "save_updated_state hash_of (stored_artifact pid ex a)
      (apply_final_version_closeout_artifact hash_of rd2 (stored_artifact pid ex a) st pid facts) file = (Inr (Inr r), file')"
  shows "\<exists>new. file' = Some (PDict new) \<and> dget new ''status'' = PStr ''COMPLETED''
    \<and> (\<forall>v j. (v, j) \<in> set (version_index (dget (cq_state q) ''versions'')) \<longrightarrow>
         runtime_status (state_runtime_at new (Some j)) = ''PASSED'')
    \<and> (\<exists>current. file = Some current \<and> hash_of current = hash_of (PDict (cq_state q)))
    \<and> py_strip (af_current_head facts) = py_strip (cq_expected_head q)
    \<and> cf_exists (af_git facts) (py_strip (cq_accepted_commit q))
    \<and> verify_evidence_file_fingerprints rd2 (PList (snd (closeout_files rd q))) (py_strip (cq_project_root q)) = None"
proof -
  have h: "\<And>v. py_strip (hash_of v) = hash_of v" using assms(3) by blast
  show ?thesis
    using applied_closeout [OF assms(1,2) h assms(4)] closed_fields(1) closed_all_passed closeout_applicable [OF assms(1,2)] by blast
qed

lemma closed_run_has_passed_witness:
  "\<exists>new. dget new ''status'' = PStr ''COMPLETED'' \<and> cf_exists (af_git ex_facts) (py_strip (cq_accepted_commit ex_closing))"
proof -
  have h: "\<forall>v. py_strip ((\<lambda>v. ''h'') (v :: py)) = ''h''" by (simp add: py_strip_def is_ws_def)
  obtain a r where "build_final_version_closeout_preview (\<lambda>v. ''h'') ex_no_files ex_closing = Inr a" "dget a ''can_apply'' = PBool True"
    "save_updated_state (\<lambda>v. ''h'') (stored_artifact ''p1'' ''t9'' a)
        (apply_final_version_closeout_artifact (\<lambda>v. ''h'') ex_no_files (stored_artifact ''p1'' ''t9'' a) (cq_state ex_closing) ''p1'' ex_facts)
        (Some (PDict (cq_state ex_closing))) = (Inr (Inr r), Some (PDict (closed_state ex_no_files ex_closing)))"
    using ex_closing_applied by blast
  from closed_run_has_passed [OF this(1,2) h this(3)] show ?thesis by blast
qed

text \<open>C27. Recording a commit touches one version: when a commit was recorded, the state file holds exactly the
  state it held before but for the four commit fields of one version and the time of the update; that
  version has the requested name, or is the current one if none was requested, and it keeps its status
  unless it had not started, in which case the commit passes it.\<close>

theorem recorded_commit_touches_one_version:
  assumes "record_commit_metadata clock commit_hash message files version file = (r, file')" "\<not> cr_skipped r"
  shows "\<exists>st k. load_state file = Inr st \<and> k < length (rs_versions st)
    \<and> (if requested version = [] then int k = rs_current_version_index st
       else vs_version (rs_versions st ! k) = requested version)
    \<and> load_state file' = Inr (st\<lparr>rs_versions := (rs_versions st)[k := (rs_versions st ! k)
         \<lparr>vs_commit_hash := Some commit_hash, vs_committed_at := Some (clock 0), vs_commit_message := Some message,
          vs_commit_files := Some files,
          vs_status := (if vs_status (rs_versions st ! k) = ''NOT_STARTED'' then ''PASSED'' else vs_status (rs_versions st ! k))\<rparr>],
         rs_updated_at := Some (clock 1)\<rparr>)"
  by (rule recorded_commit_effect [OF assms])

lemma recorded_commit_touches_one_version_witness:
  "\<exists>st'. load_state (snd (record_commit_metadata (\<lambda>n. ''t'') ''c'' ''m'' [] None (Some (PDict (serialize_state rn0))))) = Inr st'
    \<and> rs_status st' = rs_status rn0"
proof -
  have "\<not> cr_skipped (fst (record_commit_metadata (\<lambda>n. ''t'') ''c'' ''m'' [] None (Some (PDict (serialize_state rn0)))))" by code_simp
  from recorded_commit_touches_one_version [OF prod.collapse [symmetric] this] show ?thesis by auto
qed

section \<open>Parallel stages\<close>

text \<open>C28. A plan is ready to run exactly when its shards are apart.  The tasks are the intents of the request that
  have a title or an id, or the default roadmap when there are none; the shards planned are those of the
  first one to eight of them, as the limit allows, in their order and numbered from one, with their titles
  and files; the plan preview suggests a run, and the run preview is ready, if and only if no
  two shards with different task ids list a common file.\<close>

theorem plan_ready_iff_apart:
  "shards_of q = map (\<lambda>(i, t). build_task_shard t i)
        (List.enumerate 1 (take (nat (bounded_parallel_limit (sq_max_parallel_tasks q))) (requested_tasks q)))
    \<and> map sh_title (shards_of q) = map ti_title (take (length (shards_of q)) (requested_tasks q))
    \<and> map sh_allowed_files (shards_of q) = map ti_allowed_files (take (length (shards_of q)) (requested_tasks q))
    \<and> pp_task_shards (build_stage_parallel_plan_preview sys q) = shards_of q
    \<and> length (shards_of q) = min (length (requested_tasks q)) (nat (bounded_parallel_limit (sq_max_parallel_tasks q)))
    \<and> 1 \<le> length (shards_of q) \<and> length (shards_of q) \<le> 8
    \<and> (pk_suggested_next_action (build_stage_parallel_plan_preview sys q) = ''ready_for_parallel_run_preview'') = disjoint_tasks (shards_of q)
    \<and> (pk_status (build_stage_parallel_run_preview h sys q) = ''preview_ready'') = disjoint_tasks (shards_of q)"
proof -
  have l: "length (shards_of q) = min (length (requested_tasks q)) (nat (bounded_parallel_limit (sq_max_parallel_tasks q)))"
    by (simp add: shards_in_order first_tasks_def)
  have t: "take (length (shards_of q)) (requested_tasks q) = first_tasks q" by (simp add: l first_tasks_def min_def)
  from l have "length (shards_of q) \<le> 8" using bounded_parallel_limit_bounds [of "sq_max_parallel_tasks q"] by linarith
  moreover have "1 \<le> length (shards_of q)" using shards_of_not_Nil [of q] by (cases "shards_of q") simp_all
  ultimately show ?thesis
    unfolding t using l plan_suggestion run_preview_status shard_titles_and_files shards_in_order [unfolded first_tasks_def] by simp
qed

text \<open>C29. A merge is previewed exactly for a group that is done: no file is shared between tasks, every
  worktree lies inside the runtime directory on a valid branch, and the last result reported for every
  shard succeeded with a passed validation.  The merge sequence then has every shard once, in the order of
  the plan, with the worktree and branch it was assigned; otherwise it is empty.\<close>

theorem merge_previewed_iff_group_done:
  "(pk_status (build_stage_parallel_merge_preview h sys q v) = ''preview_ready'') =
      (disjoint_tasks (shards_of q) \<and> list_all (\<lambda>a. sound_place a \<and> passed_result (normalize_executor_results v) (wa_task_id a)) (assignments_of h sys q))
    \<and> map (\<lambda>m. (ms_order m, ms_task_id m, ms_source_branch m, ms_source_worktree_path m))
        (mg_merge_sequence (mp_merge_plan (build_stage_parallel_merge_preview h sys q v)))
      = (if pk_status (build_stage_parallel_merge_preview h sys q v) = ''preview_ready''
         then map (\<lambda>(i, a). (i, wa_task_id a, wa_branch_name a, wa_worktree_path a)) (List.enumerate 1 (assignments_of h sys q)) else [])"
  unfolding merge_preview_group merge_sequence
  by (auto simp: group_merge_ready list_all_iff merge_sequence_entries)

text \<open>C30. Assigned worktrees are apart: when an assignment is ready, the shards of two task ids that are
  slugs get different directories and branches for disjoint sets of files, and each directory is new and
  lies inside the runtime directory of the project.\<close>

theorem assigned_worktrees_apart:
  assumes "pk_status (build_stage_parallel_worktree_assignment_preview h sys q) = ''preview_ready''" "starts_with (sv_cwd sys) ''/''"
    and "s \<in> set (shards_of q)" "t \<in> set (shards_of q)" "sh_task_id s \<noteq> sh_task_id t" "slug_id (sh_task_id s)" "slug_id (sh_task_id t)"
  shows "wa_worktree_path (assignment_of h sys q s) \<noteq> wa_worktree_path (assignment_of h sys q t)
    \<and> wa_branch_name (assignment_of h sys q s) \<noteq> wa_branch_name (assignment_of h sys q t)
    \<and> set (sh_allowed_files s) \<inter> set (sh_allowed_files t) = {}
    \<and> \<not> sv_exists sys (wa_worktree_path (assignment_of h sys q s))
    \<and> (\<exists>zs. real_parts (wa_worktree_path (assignment_of h sys q s)) = real_parts (abspath sys (runtime_root_of sys q)) @ zs)"
  using places_apart [OF assms(6,7,5,2)] ready_place [OF assms(1,3)] ready_disjoint [OF assms(1,3,4,5)] by simp

lemma assigned_worktrees_apart_witness:
  "let q = ex_stage [ex_task ''one'' ''a.py'', ex_task ''two'' ''b.py'']
   in wa_worktree_path (assignment_of ex_hash ex_view q (shards_of q ! 0)) \<noteq> wa_worktree_path (assignment_of ex_hash ex_view q (shards_of q ! 1))"
proof -
  let ?q = "ex_stage [ex_task ''one'' ''a.py'', ex_task ''two'' ''b.py'']"
  have "pk_status (build_stage_parallel_worktree_assignment_preview ex_hash ex_view ?q) = ''preview_ready''" by code_simp
  moreover have "starts_with (sv_cwd ex_view) ''/''" by code_simp
  moreover have "length (shards_of ?q) = 2" by code_simp
  moreover have "sh_task_id (shards_of ?q ! 0) \<noteq> sh_task_id (shards_of ?q ! 1)" by code_simp
  moreover have "slug_id (sh_task_id (shards_of ?q ! 0))" by code_simp
  moreover have "slug_id (sh_task_id (shards_of ?q ! 1))" by code_simp
  ultimately show ?thesis unfolding Let_def using assigned_worktrees_apart [of ex_hash ex_view ?q "shards_of ?q ! 0" "shards_of ?q ! 1"] by simp
qed

section \<open>Run records\<close>

text \<open>C31. The store of run records never breaks.  From an empty directory, under any sequence of its writers with
  any write faults, in which the preview ids and changed files of an appended step are lists of texts
  where it has them: appending such a step, finishing a run, showing a run and listing the runs raise
  nothing; a search for a preview id returns the first stored run that has it, and nothing only if no run
  has it or the id is blank or no text (so no exception that it swallows cuts it short); every stored
  record is well formed under its own identifier, and a list has at most 100 runs.\<close>

theorem run_records_never_raise:
  assumes "wf_reach dir" "step_ok added"
  shows "\<exists>r r' r'' runs. fst (append_step fault now i added dir) = Inr r \<and> fst (finish_run fault now i f dir) = Inr r'
    \<and> get_run sha256 v dir = Inr r'' \<and> list_runs limit name status dir = Inr (runs, []) \<and> length runs \<le> 100
    \<and> find_run_by_preview_id v dir = first_with_preview v (stored_runs (wd_entries dir))
    \<and> list_all ok_entry (wd_entries dir) \<and> distinct (map fst (wd_entries dir))"
proof -
  have ok: "dir_ok dir" using assms(1) by (rule wf_reach_ok)
  have "length (map summary_of (take (effective_limit limit) rs)) \<le> 100" for rs
    using effective_limit_bounds [of limit] by (simp add: min.coboundedI2)
  then show ?thesis
    using append_replies [OF ok assms(2)] finish_replies [OF ok] get_run_replies [OF ok] list_runs_eq [OF ok]
      search_is_complete [OF ok] dir_ok_entries [OF ok] ok
    by (auto simp: list_all_iff dir_ok_def)
qed

lemma run_records_never_raise_witness: "\<exists>runs. list_runs (PInt 5) None None ex_dir = Inr (runs, [])"
proof -
  have s: "step_ok [(''tool_name'', PStr ''t'')]" by (auto simp: step_ok_def dget_or_def)
  from run_records_never_raise [OF ex_dir_reach s] show ?thesis by blast
qed

text \<open>C32. A preview that was recorded is found.  In a directory that only the writers of the store have written,
  from an empty one and with steps whose preview ids and changed files are lists of texts: after a run was
  finished with preview ids, without a fault, a search for any of them that is not blank finds a run that
  has it.\<close>

theorem recorded_preview_is_found:
  assumes "wf_reach dir" "finish_run fault now i f dir = (Inr (Inr r), dir')"
    and "fa_step_preview_ids f = Some pids" "pid \<in> set pids" "py_strip pid \<noteq> []"
  shows "\<exists>r'. find_run_by_preview_id (PStr pid) dir' = Some r' \<and> pid \<in> set (ids_at r' ''preview_ids'')"
  using finished_is_found [OF wf_reach_ok [OF assms(1)] assms(2-5)] .

lemma recorded_preview_is_found_witness:
  "\<exists>r'. find_run_by_preview_id (PStr ''p1'') (snd (finish_run None ''2025-01-02T00:00:00Z'' ''r1'' ex_finish ex_dir)) = Some r'"
proof -
  have "\<exists>r. fst (finish_run None ''2025-01-02T00:00:00Z'' ''r1'' ex_finish ex_dir) = Inr (Inr r)"
    by (rule exI [of _ "case fst (finish_run None ''2025-01-02T00:00:00Z'' ''r1'' ex_finish ex_dir) of Inr (Inr r) \<Rightarrow> r"]) code_simp
  then obtain r where "finish_run None ''2025-01-02T00:00:00Z'' ''r1'' ex_finish ex_dir
      = (Inr (Inr r), snd (finish_run None ''2025-01-02T00:00:00Z'' ''r1'' ex_finish ex_dir))"
    by (metis prod.collapse)
  from recorded_preview_is_found [OF ex_dir_reach this, of "[''p1'']" "''p1''"] show ?thesis
    by (auto simp: ex_finish_def py_strip_def is_ws_def)
qed

section \<open>The todo list\<close>

text \<open>C33. The search for a free todo id ends: its loop tries the suffixes after the largest one of the day, at
  most one more than there are items, and stops at the first id that no item has.\<close>

theorem todo_id_search_ends:
  "\<exists>n. generate_item_id today items = candidate today n \<and> candidate today n \<notin> set (map td_id items)
    \<and> max_suffix today (map td_id items) < n \<and> n \<le> max_suffix today (map td_id items) + 1 + length items
    \<and> list_all (\<lambda>k. candidate today k \<in> set (map td_id items)) [max_suffix today (map td_id items) + 1..<n]"
  by (rule generated_id)

section \<open>Settings and plans\<close>

text \<open>C34. What is saved for a project is resolved for it.  Settings with the canonical name of a supported
  provider and a profile of clean texts (not empty, no outer white space) and at a clean time, saved with a
  digest that is not stale and without a write fault, come back from the resolution as they were saved, the profile dated with the
  time of the save, whatever a readable plan, the project's own file and the global settings say.\<close>

theorem saved_settings_are_resolved:
  assumes "fresh hash_of expected user_file" "load_provider_from_plan plan_file = Inr p"
    and "st_execution_provider settings \<in> {''pi'', ''codex'', ''opencode''}" "st_executor_profile settings = Some pr"
    and "profile_ok pr" "clean_opt (Some now)"
  shows "\<exists>reply user_file' r. save_settings_for_project hash_of False now key root settings expected user_file = (Inr reply, user_file')
    \<and> resolve_for_project key plan_file project_file user_file' = Inr r
    \<and> st_execution_provider (rv_settings r) = st_execution_provider settings
    \<and> st_executor_profile (rv_settings r) = Some (dated now pr)"
  using saved_is_resolved [OF assms] by (simp add: provider_of_def profile_of_def)

lemma saved_settings_are_resolved_witness:
  "\<exists>user_file' r. resolve_for_project ''k'' Absent Absent user_file' = Inr r \<and> st_execution_provider (rv_settings r) = ''pi''"
  using saved_settings_are_resolved [of "\<lambda>f. []" None Absent Absent None "\<lparr>st_execution_provider = ''pi'', st_executor_profile =
      Some \<lparr>xp_provider = Some ''pi'', xp_model = None, xp_reasoning_effort = None, xp_source = ''s'', xp_updated_at = None\<rparr>\<rparr>"
      "\<lparr>xp_provider = Some ''pi'', xp_model = None, xp_reasoning_effort = None, xp_source = ''s'', xp_updated_at = None\<rparr>" "''t''" "''k''" "''/p''" Absent]
  by (auto simp: fresh_def load_provider_from_plan_def profile_ok_def clean_opt_def py_strip_def is_ws_def)

text \<open>C35. A version runs with a supported provider, and with its own if it names one: whatever a plan file
  holds, the provider resolved for a loaded version is in the registry, and a provider that the loader
  kept for the version is the one that is used.\<close>

theorem version_runs_supported_provider:
  assumes "load_plan file = Inr plan" "v \<in> set (lp_versions plan)"
  shows "is_supported_execution_provider (PStr (resolve_version_execution_provider plan (Some v) fallback))
    \<and> (case lb_execution v of
         Some x \<Rightarrow> (case ve_provider x of Some p \<Rightarrow> resolve_version_execution_provider plan (Some v) fallback = p | None \<Rightarrow> True)
       | None \<Rightarrow> True)"
proof -
  obtain w where "parse_loaded_version w = Inr v" using loaded_versions [OF assms] by blast
  then show ?thesis using resolved_provider_supported version_provider_wins by (auto split: option.splits)
qed

lemma version_runs_supported_provider_witness:
  "\<exists>plan v. load_plan (Json (PDict [(''versions'', PList [PDict [(''execution'', PDict [(''provider'', PStr '' pi '')])]])])) = Inr plan
    \<and> v \<in> set (lp_versions plan) \<and> resolve_version_execution_provider plan (Some v) ''codex'' = ''pi''"
proof -
  let ?file = "Json (PDict [(''versions'', PList [PDict [(''execution'', PDict [(''provider'', PStr '' pi '')])]])])"
  have "(case load_plan ?file of Inr p \<Rightarrow> map (map_option ve_provider \<circ> lb_execution) (lp_versions p) = [Some (Some ''pi'')] | Inl _ \<Rightarrow> False)"
    by code_simp
  then obtain plan v x where "load_plan ?file = Inr plan" "lp_versions plan = [v]" "lb_execution v = Some x" "ve_provider x = Some ''pi''"
    by (auto split: sum.splits)
  with version_runs_supported_provider [of ?file plan v "''codex''"] show ?thesis by auto
qed

section \<open>Approval of previews\<close>

text \<open>C36. An approved apply works on the preview that was shown: when the operator's approval is bound to the
  digest of the preview shown, and digests do not collide, the guard lets an apply through only with the
  same value under the same id, of the same project and not expired.\<close>

theorem approved_apply_is_the_shown_preview:
  fixes shown :: dict and sha256 :: "string \<Rightarrow> string" and i :: string
  defines "binding \<equiv> (i, canonical_artifact_digest sha256 (PDict shown))"
  assumes "gr_ok (confirmation_apply_guard sha256 (Some binding) tm store preview_id (Some root) payload)" "inj sha256"
  shows "\<exists>d. gr_payload (confirmation_apply_guard sha256 (Some binding) tm store preview_id (Some root) payload) = Some d
    \<and> jsort (PDict d) = jsort (PDict shown) \<and> py_strip preview_id = i \<and> dget d ''project_root'' = PStr root \<and> \<not> is_expired tm d"
  using bound_guard_applies [OF assms(2) [unfolded binding_def] assms(3)] unfolding binding_def .

lemma approved_apply_is_the_shown_preview_witness:
  "let d = [(''preview_id'', PStr ''p1''), (''project_root'', PStr ''/p'')]; tm = \<lparr>tm_now = 0, tm_read = (\<lambda>s. None), tm_read_utc = (\<lambda>s. None)\<rparr>;
       store = [(''p1.json'', Json_Value (PDict d))]
   in \<exists>e. gr_payload (confirmation_apply_guard id (Some (''p1'', canonical_artifact_digest id (PDict d))) tm store '' p1'' (Some ''/p'') PNone) = Some e
     \<and> dget e ''project_root'' = PStr ''/p''"
proof -
  let ?d = "[(''preview_id'', PStr ''p1''), (''project_root'', PStr ''/p'')]"
  let ?tm = "\<lparr>tm_now = 0, tm_read = (\<lambda>s. None), tm_read_utc = (\<lambda>s. None)\<rparr>"
  have "gr_ok (confirmation_apply_guard id (Some (''p1'', canonical_artifact_digest id (PDict ?d))) ?tm
      [(''p1.json'', Json_Value (PDict ?d))] '' p1'' (Some ''/p'') PNone)" by code_simp
  from approved_apply_is_the_shown_preview [OF this inj_on_id] show ?thesis unfolding Let_def by blast
qed

section \<open>Acceptance commands and workspaces\<close>

text \<open>C37. A version passes by its commands: when an acceptance run passes, every command of the version was split
  into words, its process was started with exactly those words, but for the interpreter of the project in
  the place of python, its executable is on the list of allowed ones, and it exited with zero.\<close>

theorem acceptance_passes_by_its_commands:
  assumes "ar_status (run_acceptance (acceptance_shell py process) run_id v) = ''PASSED''" "i < length (bv_acceptance_commands v)"
  shows "\<exists>words. sh_split (ac_command (bv_acceptance_commands v ! i)) = Inr words \<and> words \<noteq> []
    \<and> (let argv = (if hd words \<in> {''python'', ''python3''} then py # tl words else words)
       in process i argv = Exited 0 \<and> path_basename (hd argv) \<in> set ALLOWED_EXECUTABLES)"
proof -
  have "acceptance_shell py process i (ac_command (bv_acceptance_commands v ! i)) = 0"
    using assms by (simp add: acceptance_verdict succeeds_def split: if_splits)
  then show ?thesis by (rule passed_command_was_run) (auto simp: Let_def)
qed

lemma acceptance_passes_by_its_commands_witness:
  "\<exists>words. sh_split (ac_command (bv_acceptance_commands sample_version ! 0)) = Inr words \<and> words \<noteq> []
    \<and> (let argv = (if hd words \<in> {''python'', ''python3''} then ''/w/python'' # tl words else words)
       in sample_process 0 argv = Exited 0 \<and> path_basename (hd argv) \<in> set ALLOWED_EXECUTABLES)"
  by (rule acceptance_passes_by_its_commands [OF sample_passes]) (simp add: sample_version_def)

text \<open>C38. A project's files stay in its runner directory: of every workspace, also of one that an overlay
  redirects, the directories and files have an absolute path whose components begin with those of the
  runner directory.\<close>

theorem workspace_stays_inside:
  fixes v :: overlay_view and p q :: string
  assumes "starts_with (sv_cwd v) ''/''"
    and "q \<in> {ws_prompts_dir (from_project_path v p), ws_runtime_dir (from_project_path v p), ws_logs_dir (from_project_path v p),
      ws_backup_dir (from_project_path v p), ws_plan_file (from_project_path v p), ws_state_file (from_project_path v p),
      ws_rules_file (from_project_path v p)}"
  shows "\<exists>rest. real_parts (abspath (view_of v) q) = real_parts (abspath (view_of v) (ws_runner_dir (from_project_path v p))) @ rest"
  using workspace_inside [OF assms] by (simp add: inside_def)

lemma workspace_stays_inside_witness:
  "\<exists>rest. real_parts (abspath (view_of sample_overlay) ''/w/.colameta/runtime/stage-parallel-shard-inputs/current/p.json'')
     = real_parts (abspath (view_of sample_overlay) (ws_runner_dir (from_project_path sample_overlay ''/w''))) @ rest"
proof -
  have cwd: "starts_with (sv_cwd sample_overlay) ''/''" by (simp add: sample_overlay_def)
  show ?thesis using workspace_stays_inside [OF cwd, of "ws_plan_file (from_project_path sample_overlay ''/w'')" "''/w''"]
    unfolding sample_overlay_applies by blast
qed

section \<open>Authorization of clients\<close>

text \<open>C39. A valid token was granted: whenever the server accepts a token, in any sequence of calls under any
  faults, an exchange granted it for a code, to the holder of the code's verifier and within the life of
  the code; an approval had sent that code to the redirect URI of the exchange for the same client, after
  the client registered that URI and the scopes; and the token has not expired and was not revoked.\<close>

theorem valid_token_was_granted:
  assumes "oauth_run ch ttl tr file" "fst (validate_token e t file) = Inr (Some row)"
  shows "\<exists>tok. row = token_row tok \<and> at_token tok = t \<and> occurs (grants ttl tok) tr \<and> \<not> occurs (\<lambda>x _. revokes t x) tr
    \<and> oe_now e < at_expires_at tok \<and> set (split_ws (at_scope tok)) \<subseteq> set DEFAULT_SCOPES"
  by (rule validated_token_was_granted [OF assms])

lemma valid_token_was_granted_witness:
  "\<exists>tok. at_token tok = ''T'' \<and> occurs (grants 60 tok) (fst (session 60 sample_calls)) \<and> 30 < at_expires_at tok"
proof -
  have "fst (validate_token (sample_env 30 ''x'') ''T'' (snd (session 60 sample_calls)))
      = Inr (Some (token_row \<lparr>at_token = ''T'', at_client_id = ''K'', at_scope = ''mcp:read'', at_expires_at = 80, at_created_at = 20\<rparr>))"
    by code_simp
  from valid_token_was_granted [OF session_runs [OF sample_fresh] this] show ?thesis by (auto simp: sample_env_def)
qed

text \<open>C40. A code buys one token: in any sequence of calls under any faults at most one exchange of a code is
  answered with a token, and from then on the code is not in the store.\<close>

theorem code_buys_one_token:
  assumes "oauth_run ch ttl tr file"
  shows "length (filter (redeems code) tr) \<le> 1
    \<and> (filter (redeems code) tr \<noteq> [] \<longrightarrow> row_of file ''authorization_codes'' code = None)"
proof -
  have "row_of file ''authorization_codes'' code = Some row \<Longrightarrow> filter (redeems code) tr = []" for row
    using provenanceD(2) [OF run_provenance [OF assms]] by (auto simp: code_known_def occurs_filter)
  then show ?thesis
    using code_redeemed_once [OF assms] by (cases "row_of file ''authorization_codes'' code") auto
qed

lemma code_buys_one_token_witness:
  "let calls = (21, ''U'', Exchange (sample_exchange ''hello'')) # sample_calls
   in length (filter (redeems ''C'') (fst (session 60 calls))) \<le> 1"
proof -
  have "fresh_secrets ((21, ''U'', Exchange (sample_exchange ''hello'')) # sample_calls)" by code_simp
  from code_buys_one_token [OF session_runs [OF this]] show ?thesis unfolding Let_def by blast
qed

section \<open>Further facts\<close>

text \<open>Versions only grow: over any sequence of commands the state version and the task version of a
  work item never decrease, a revision also counts as a state version, and an unchanged state version
  means an unchanged work item.\<close>

theorem versions_only_grow:
  assumes "reachable l" "step\<^sup>*\<^sup>* l l'" "items_of l w = Some (s, n, v)"
  shows "\<exists>s' n' v'. items_of l' w = Some (s', n', v') \<and> n \<le> n' \<and> v \<le> v' \<and> v' - v \<le> n' - n
    \<and> (n' = n \<longrightarrow> s' = s \<and> v' = v)"
  by (rule service.versions_grow [OF assms(2,1,3)])

lemma versions_only_grow_witness:
  "\<exists>s' n' v'. items_of sc9 sc_w = Some (s', n', v') \<and> 0 \<le> n' \<and> 1 \<le> v' \<and> v' - 1 \<le> n'"
  using versions_only_grow [OF sc_reachable(5) sc_steps(1), of sc_w "''proposed''" 0 1]
  by (auto simp: items_of_def)

text \<open>Delivery retries back off: the delay after the \<open>n\<close>th failure doubles until it stays at one hour.\<close>

theorem retry_delay_backs_off:
  assumes "1 \<le> n"
  shows "2 \<le> retry_delay_seconds n \<and> retry_delay_seconds n \<le> 3600
    \<and> retry_delay_seconds (n + 1) = min 3600 (2 * retry_delay_seconds n)"
proof -
  have p: "(2::int) ^ nat m = 2 * 2 ^ nat (m - 1)" if "1 \<le> m" for m
    using that by (simp add: nat_diff_distrib' flip: power_Suc)
  have d: "2 ^ nat (min (n + 1) 12) = (if n < 12 then 2 * 2 ^ nat (min n 12) else (4096::int))"
    using p [of "n + 1"] assms by (auto simp: min_def)
  have c: "2 ^ nat (min n 12) = (4096::int)" if "12 \<le> n" using that by (simp add: min_def)
  have "(2::int) ^ nat 1 \<le> 2 ^ nat (min n 12)" using assms by (intro power_increasing) auto
  then show ?thesis unfolding retry_delay_seconds_def d using c by (auto simp: min_def)
qed

lemma retry_delay_backs_off_witness: "retry_delay_seconds 12 = 3600 \<and> retry_delay_seconds 13 = 3600"
  using retry_delay_backs_off [of 12] by (simp add: retry_delay_seconds_def)


text \<open>A preview is accepted as long as it lives, by the codec that issued it.\<close>

theorem preview_issue_verify:
  assumes "preview_issue e oper command (PInt ttl) ids = Inr preview"
    and "e' = e\<lparr>e_now := t\<rparr>" "t \<le> e_now e + ttl * 1000000"
    and "\<And>u. e_parse e (e_iso e u) = Some u" "\<And>k s. is_ascii (e_mac e k s)"
  shows "preview_verify e' (PDict preview) oper = Inr preview"
  by (rule preview_roundtrip [OF assms])

lemma preview_issue_verify_witness: "\<exists>preview. preview_issue (sc_env 0) ''op'' [] (PInt 300) [] = Inr preview
    \<and> preview_verify ((sc_env 0)\<lparr>e_now := 300000000\<rparr>) (PDict preview) ''op'' = Inr preview"
proof -
  have "json_cost (PDict (preview_unsigned (sc_preview 0 ''op'' [] []))) \<le> max_json_bytes"
    by (rule sc_cost_preview) simp_all
  then obtain p where p: "preview_issue (sc_env 0) ''op'' [] (PInt 300) [] = Inr p"
    by (simp add: preview_issue_def ttl_valid_def MAX_PREVIEW_TTL_SECONDS_def canonical_sha256_small max_json_bytes_def
        preview_sign_def canonical_json_small preview_unsigned_def sc_preview_def isoformat_utc_def Let_def)
  show ?thesis
    using preview_issue_verify [OF p refl, of 300000000] p by simp
qed

text \<open>A path the source policy allows has no denied directory or file name among its components, at
  any depth.\<close>

theorem allowed_source_has_no_denied_part:
  assumes "is_allowed_source_path path" "c \<in> set (split_on slash (normalize path))"
  shows "c \<notin> set DENIED_PATH_PART_NAMES"
  by (rule allowed_source_parts [OF assms])

lemma allowed_source_has_no_denied_part_witness: "''runner'' \<notin> set DENIED_PATH_PART_NAMES"
proof -
  have a: "is_allowed_source_path ''runner/a.py''" by code_simp
  have c: "''runner'' \<in> set (split_on slash (normalize ''runner/a.py''))" by code_simp
  show ?thesis by (rule allowed_source_has_no_denied_part [OF a c])
qed

text \<open>Blockers, delivery receipts and outbox events are side records: their commands never touch the
  work items, their task versions, attempts, artifacts, decisions, gates or manifests.\<close>

theorem side_commands_move_nothing:
  assumes "run e cfg l oper = Inr l'" "side_operation oper"
  shows "items_of l' = items_of l \<and> side_effect_only l l'"
  using side_run [OF assms] by (simp add: items_of_def side_effect_only_def)

lemma side_commands_move_nothing_witness: "items_of sc10 = items_of sc9 \<and> side_effect_only sc9 sc10"
  by (rule side_commands_move_nothing [OF sc_run10]) (simp add: side_operation_def)

text \<open>Creation commands have a normal form: a normalised command normalises to itself, and none of its
  stored fields, at any depth, has a sensitive key.\<close>

theorem creation_normal_form:
  assumes "normalize_create_command v imported = Inr c"
  shows "normalize_create_command (create_py c) imported = Inr c
    \<and> (\<forall>k\<in>all_keys (PDict (cc_attributes c)) \<union> all_keys (task_py (cc_task c)). \<not> sensitive_key k)"
proof -
  have ok: "create_ok imported c" by (rule normalize_create_Inr [OF assms])
  then show ?thesis
    using normalize_create_again [OF ok] reject_sensitive_no_keys unfolding create_ok_def by blast
qed

lemma creation_normal_form_witness: "\<not> sensitive_key ''title''"
  using creation_normal_form [OF normalize_create_again [OF sc_create_ok]] by (auto simp: sc_command1_def)

text \<open>Acceptance and cancellation are final: no sequence of commands changes the state or the
  versions of a work item in a terminal state.\<close>

theorem terminal_is_final:
  assumes "reachable l" "step\<^sup>*\<^sup>* l l'" "items_of l w = Some (s, n, v)" "s \<in> set TERMINAL_WORK_ITEM_STATES"
  shows "items_of l' w = Some (s, n, v)"
  by (rule service.terminal_forever [OF assms(2,1,3,4)])

lemma terminal_is_final_witness: "items_of sc10 sc_w = Some (''accepted'', 4, 1)"
  using terminal_is_final [OF sc_reachable(1) sc_step10(2), of sc_w "''accepted''" 4 1]
  by (simp add: items_of_def sc9_fields TERMINAL_WORK_ITEM_STATES_def)

text \<open>A command signed for a principal is accepted when the same principal applies it: binding the
  authority at preview and verifying it at apply agree.\<close>

theorem signed_transition_roundtrip:
  assumes "normalize_transition_command v = Inr n" "bind_transition_authority n pc s = Inr c"
  shows "verify_signed_transition_authority (PDict (bound_fields c)) pc = Inr c"
  by (rule verify_signed_roundtrip [OF assms])

lemma signed_transition_roundtrip_witness:
  "verify_signed_transition_authority (PDict (bound_fields sc_c2)) (Some sc_principal) = Inr sc_c2"
proof (rule signed_transition_roundtrip)
  show "normalize_transition_command (PDict (transition_fields (sc_tc ''ready'' 0 [] []))) = Inr (sc_tc ''ready'' 0 [] [])"
    by (rule sc_tc_ok [where i = 0]) (simp_all add: WORK_ITEM_STATES_def)
  show "bind_transition_authority (sc_tc ''ready'' 0 [] []) (Some sc_principal) ''proposed'' = Inr sc_c2"
    by (simp add: bind_transition_authority_def sc_bind_def sc_names)
qed

text \<open>A runtime attempt is claimed only for the current task version of a work item that is neither
  terminal nor under review; the claim is new, active, dispatchable and found by its identifier.\<close>

theorem claim_is_current:
  assumes "create_execution_attempt e cfg l command = Inr ((row, False), l')"
  shows "at_kind row = ''runtime'' \<and> at_dispatch_authorized row \<and> at_status row \<in> {''claimed'', ''running''}
    \<and> at_completion_event_key row = None \<and> \<not> has_attempt l (at_id row)
    \<and> row_with at_id (at_id row) (execution_attempts l') = Some row
    \<and> (\<exists>item. row_with wi_id (at_work_item_id row) (work_items l') = Some item
          \<and> wi_state item \<notin> set TERMINAL_WORK_ITEM_STATES \<and> wi_state item \<noteq> ''submitted''
          \<and> wi_current_task_version item = at_task_version row)"
  by (rule created_attempt [OF assms])

lemma claim_is_current_witness:
  "row_with at_id (at_id sc_attempt_row) (execution_attempts sc4) = Some sc_attempt_row"
  using claim_is_current [OF sc_claim4] by blast

text \<open>A decision once recorded supports the gate: it was recorded for a trusted principal holding the
  permission of its action, and the gate accepts it at once, unsuperseded, for its own task version.\<close>

theorem recorded_decision_is_accepted:
  assumes "reachable l" "record_review_decision e cfg l command pc = Inr ((d, False), l')"
  shows "(\<exists>signer perm. pc = Some signer \<and> pr_trusted signer \<and> permission_for_decision (dr_action d) = Inr perm
      \<and> perm \<in> set (pr_permissions signer))
    \<and> assert_decision l' (dr_work_item_id d) (dr_task_version d) (dr_id d) = Inr d"
  by (rule recorded_decision [OF assms])

lemma recorded_decision_is_accepted_witness:
  "\<exists>d. d \<in> set (decision_records sc8) \<and> assert_decision sc8 (dr_work_item_id d) (dr_task_version d) (dr_id d) = Inr d"
proof -
  have "reachable sc7" using sc_reachable(4) sc_step by (meson reach_step)
  moreover obtain d where d: "record_review_decision (sc_env 8) sc_cfg sc7 (sc_decide ''accept'' ''k8'') (Some sc_principal)
    = Inr ((d, False), sc8)" using sc_decide8 by blast
  ultimately have "assert_decision sc8 (dr_work_item_id d) (dr_task_version d) (dr_id d) = Inr d"
    using recorded_decision_is_accepted [OF _ d] by blast
  moreover from this have "d \<in> set (decision_records sc8)"
    using row_with_Some unfolding assert_decision_Inr by metis
  ultimately show ?thesis by blast
qed

text \<open>The canonical text identifies a value: it does not depend on the order of the fields of an
  object, and two values with the same text are the same up to the order of fields at every level.\<close>

theorem canonical_text_faithful:
  assumes "distinct (map fst d)" "canonical_json (PDict d) = Inr s"
  shows "(\<forall>d'. mset d' = mset d \<longrightarrow> canonical_json (PDict d') = Inr s)
    \<and> (\<forall>v. canonical_json v = Inr s \<longrightarrow> jsort v = jsort (PDict d))"
proof (intro conjI allI impI)
  fix d' assume "mset d' = mset d"
  then have "sort_key fst d = sort_key fst d'" using sort_key_mset_eq assms(1) by metis
  then have "jsort (PDict d') = jsort (PDict d)" by (simp only: jsort_PDict)
  then show "canonical_json (PDict d') = Inr s" using assms(2) by (metis canonical_json_jsort)
next
  fix v assume "canonical_json v = Inr s"
  then show "jsort v = jsort (PDict d)" by (rule canonical_json_inj [OF _ assms(2)])
qed

lemma canonical_text_faithful_witness:
  "canonical_json (PDict [(''b'', PNone), (''a'', PBool True)]) = canonical_json (PDict [(''a'', PBool True), (''b'', PNone)])"
proof -
  obtain s where s: "canonical_json (PDict [(''a'', PBool True), (''b'', PNone)]) = Inr s"
    by (simp add: canonical_json_small max_json_bytes_def)
  show ?thesis using canonical_text_faithful [OF _ s] s by simp
qed

text \<open>Identifiers are well formed: an identifier made from a clock and ten random bytes is one the
  validators accept for its kind.\<close>

theorem new_identifier_is_stable:
  assumes "new_stable_id kind millis entropy = Inr s"
  shows "is_stable_id_str s kind"
  by (rule new_stable_id_wf [OF assms])

lemma new_identifier_is_stable_witness:
  "\<exists>s. new_stable_id ''work_item'' 1700000000000 (replicate 10 255) = Inr s \<and> is_stable_id_str s ''work_item''"
proof -
  obtain s where "new_stable_id ''work_item'' 1700000000000 (replicate 10 255) = Inr s"
    by (simp add: new_stable_id_def ID_PREFIXES_def new_uuid7_bytes_def Let_def)
  with new_identifier_is_stable show ?thesis by blast
qed

text \<open>A repository-relative path that is accepted stays in the repository: it is the root itself, or
  none of its components is empty, \<open>.\<close> or \<open>..\<close>.\<close>

theorem repo_relative_path_stays_inside:
  assumes "normalize_repo_relative_path raw = Some r"
  shows "r = ''.'' \<or> inside_repo r"
  by (rule repo_path_inside [OF assms])

lemma repo_relative_path_stays_inside_witness: "inside_repo ''a/b.py''"
proof -
  have "normalize_repo_relative_path ''./a//b.py'' = Some ''a/b.py''" by code_simp
  from repo_relative_path_stays_inside [OF this] show ?thesis by simp
qed

text \<open>The scope check decides: when git answers, a version is in scope exactly if every file it changed
  is a runner file, or matches an allowed pattern and no forbidden one; without an answer it is not
  checked.\<close>

theorem scope_check_is_exact:
  "sc_status (check_scope allowed forbidden git name_only diff_stat) =
    (if git \<and> go_exit_code name_only = 0 \<and> go_exit_code diff_stat = 0
     then if \<forall>p\<in>set (changed_files name_only). is_project_runner_path (normalize p) \<or> in_scope allowed forbidden p
          then ''PASSED'' else ''FAILED''
     else ''NOT_CHECKED'')"
  by (rule scope_verdict)

lemma scope_check_is_exact_witness:
  "sc_status (check_scope [''a.py''] [] True \<lparr>go_exit_code = 0, go_stdout = ''b.py''\<rparr> \<lparr>go_exit_code = 0, go_stdout = []\<rparr>)
    = ''FAILED''"
proof -
  have c: "changed_files \<lparr>go_exit_code = 0, go_stdout = ''b.py''\<rparr> = [''b.py'']" by code_simp
  have n: "\<not> is_project_runner_path (normalize ''b.py'')" by code_simp
  have "\<not> glob_match (normalize ''a.py'') ''b.py''" by code_simp
  then have s: "\<not> in_scope [''a.py''] [] ''b.py''" by (simp add: in_scope_def)
  show ?thesis unfolding scope_check_is_exact c using n s by simp
qed

text \<open>Where releases do not fail and the project directory is usable, acquiring a lease that is not held
  succeeds exactly when it and every held lease are shared, or none is held; otherwise it reports busy and
  holds nothing.\<close>

theorem acquire_succeeds_iff_compatible:
  assumes "lease_reachable True s" "i < length (ls_leases s)" "le_has_root (ls_leases s ! i)" "usable env"
    "\<not> held (ls_leases s ! i)"
  shows "(let l = ls_leases (acquire_step env i s) ! i in
    if \<forall>j<length (ls_leases s). held (ls_leases s ! j) \<longrightarrow> le_shared (ls_leases s ! j) \<and> le_shared (ls_leases s ! i)
    then held l \<and> le_status l = ''acquired'' else \<not> held l \<and> le_status l = ''busy'')"
  by (rule acquire_decides [OF assms])

lemma acquire_succeeds_iff_compatible_witness:
  "le_status (ls_leases (acquire_step ex_env 2 ex_three) ! 2) = ''busy''"
proof -
  have "\<not> (\<forall>j<length (ls_leases ex_three). held (ls_leases ex_three ! j) \<longrightarrow> le_shared (ls_leases ex_three ! j) \<and> le_shared (ls_leases ex_three ! 2))"
    by (intro notI, drule spec [of _ 0]) (simp add: ex_three_eq ex_reader_def held_def new_lease_def)
  moreover have "2 < length (ls_leases ex_three)" "le_has_root (ls_leases ex_three ! 2)" "\<not> held (ls_leases ex_three ! 2)"
    by (simp_all add: ex_three_eq held_def new_lease_def)
  ultimately show ?thesis
    using acquire_succeeds_iff_compatible [OF ex_three_reachable, of 2 ex_env] ex_env_usable by (simp add: Let_def)
qed

text \<open>Reading a state file back gives the state that was written, with its versions, metadata and last
  error.\<close>

theorem state_file_roundtrip: "parse_state (serialize_state s) = Some s"
  by (rule parse_serialized_state)

text \<open>The limit on fixes holds for fix runs: when a fix fails at the limit the version is blocked, every
  attempt to paste a fix prompt is refused and changes nothing, and another failing run keeps the block.\<close>

theorem failed_fix_at_limit_blocks:
  assumes "machine_reachable plan st" "distinct (map bv_version (bp_versions plan))"
    and "run_acceptance_step True env plan st = (Inr r, st')"
    and "ar_status (rr_acceptance r) = ''FAILED''" "rs_max_fix_attempts st \<le> rs_attempt st"
  shows "rs_status st' = ''BLOCKED_BY_MAX_FIX_ATTEMPTS''
    \<and> paste_manual_fix_prompt env2 plan content audit markdown allow st' = (Inl value_error, st')
    \<and> (\<forall>is_fix env3 r3 st3. run_acceptance_step is_fix env3 plan st' = (Inr r3, st3) \<longrightarrow> ar_status (rr_acceptance r3) = ''FAILED''
         \<longrightarrow> rs_status st3 = ''BLOCKED_BY_MAX_FIX_ATTEMPTS'' \<and> rs_attempt st3 = rs_attempt st')"
  by (rule failed_fix_at_limit [OF assms])

lemma failed_fix_at_limit_blocks_witness:
  "rs_status rn_failed = ''BLOCKED_BY_MAX_FIX_ATTEMPTS''
    \<and> paste_manual_fix_prompt (rn_env 0) rn_plan ''fix'' None None True rn_failed = (Inl value_error, rn_failed)"
  using failed_fix_at_limit_blocks [OF rn_reachable(1) rn_distinct rn_failed_run] by blast

text \<open>A finished claim stays finished: until it is released or finalized again as running, no heartbeat,
  worker start or other call makes it running.\<close>

theorem finished_claim_stays_finished:
  assumes "finished i files" "\<forall>e\<in>set es. \<not> reopens i e"
  shows "finished i (snd (claim_run cfg es files))"
  by (rule finished_stays [OF assms])

lemma finished_claim_stays_finished_witness:
  "finished ''p1'' (snd (claim_run ex_cfg [Heartbeat True ''t9'' ''p1'' ''r1''] (Map.empty(''p1'' \<mapsto> PDict [(''status'', PStr ''COMPLETED'')]))))"
  by (rule finished_claim_stays_finished) (simp_all add: finished_def text_of_def dget_or_def)

text \<open>Adding and deleting are inverse: in every state of the todo file that the operations reach, also with
  failing writes, adding an item appends it under a new id to what is read back, and deleting that id
  returns the item and leaves the items there were.\<close>

theorem added_todo_is_deleted:
  assumes "todo_reach file" "clock_ok clock" "todo_add False clock content status file = (Inr item, file')"
  shows "\<exists>items. (if file = No_File then Inr [] else load_todo_file file) = Inr items
    \<and> load_todo_file file' = Inr (items @ [item]) \<and> td_id item \<notin> set (map td_id items)
    \<and> todo_delete False (PStr (td_id item)) file' = (Inr item, Todo_Json (todo_json items))
    \<and> load_todo_file (Todo_Json (todo_json items)) = Inr items"
proof -
  obtain items where ok: "todo_ok items file" using todo_reach_ok [OF assms(1)] by blast
  have "load_todo_file (Todo_Json (todo_json items)) = Inr items" using ok by (simp add: todo_ok_def load_todo_json)
  then show ?thesis
    using todo_ok_load [OF ok] added_todo [OF ok assms(2,3)] add_then_delete [OF ok assms(2,3)] by blast
qed

lemma added_todo_is_deleted_witness:
  "let clock = \<lparr>tc_today = ''20250101'', tc_now = ''t''\<rparr>; added = todo_add False clock (PStr ''buy'') PNone No_File
   in \<exists>item. fst added = Inr item \<and> snd (todo_delete False (PStr (td_id item)) (snd added)) = Todo_Json (todo_json [])"
proof -
  let ?clock = "\<lparr>tc_today = ''20250101'', tc_now = ''t''\<rparr>"
  let ?added = "todo_add False ?clock (PStr ''buy'') PNone No_File"
  have clock: "clock_ok ?clock" by code_simp
  have "\<exists>item. fst ?added = Inr item" by (simp add: todo_add_def normalize_content_def stripped_def normalize_add_status_def py_strip_def is_ws_def write_todos_def Let_def)
  then obtain item where a: "?added = (Inr item, snd ?added)" by (metis prod.collapse)
  from added_todo_is_deleted [OF todo_reach.start clock a] show ?thesis
    unfolding Let_def using a by (metis Inr_inject fst_conv snd_conv)
qed

text \<open>Saving touches one project: when the user's settings file can be read, saving the settings of one
  project leaves the provider and the profile that every other project resolves to as they were.\<close>

theorem saving_leaves_other_projects:
  assumes "fresh hash_of expected user_file" "load_provider_from_plan plan_file = Inr p"
    and "read_json_dict user_file = Some u" "other \<noteq> key"
    and "save_settings_for_project hash_of False now key root settings expected user_file = (Inr reply, user_file')"
  shows "\<exists>r r'. resolve_for_project other plan_file project_file user_file = Inr r
    \<and> resolve_for_project other plan_file project_file user_file' = Inr r' \<and> rv_settings r' = rv_settings r"
proof -
  obtain r r' where "resolve_for_project other plan_file project_file user_file = Inr r"
    "resolve_for_project other plan_file project_file user_file' = Inr r'" "provider_of r' = provider_of r" "profile_of r' = profile_of r"
    using save_keeps_other_projects [OF assms] by blast
  moreover from this have "rv_settings r' = rv_settings r" by (simp add: provider_of_def profile_of_def)
  ultimately show ?thesis by blast
qed

lemma saving_leaves_other_projects_witness:
  "let file = Json (PDict [(''execution_provider'', PStr ''pi'')]);
       file' = snd (save_settings_for_project (\<lambda>f. []) False ''t'' ''k'' ''/p'' default_settings None file)
   in \<exists>r r'. resolve_for_project ''other'' Absent Absent file = Inr r \<and> resolve_for_project ''other'' Absent Absent file' = Inr r'
     \<and> rv_settings r' = rv_settings r"
proof -
  let ?u = "[(''execution_provider'', PStr ''pi'')]"
  let ?s = "save_settings_for_project (\<lambda>f. []) False ''t'' ''k'' ''/p'' default_settings None (Json (PDict ?u))"
  have f: "fresh (\<lambda>f. []) None (Json (PDict ?u))" by (simp add: fresh_def)
  have p: "load_provider_from_plan Absent = Inr None" by (simp add: load_provider_from_plan_def)
  have u: "read_json_dict (Json (PDict ?u)) = Some ?u" by (simp add: read_json_dict_def)
  have o: "''other'' \<noteq> ''k''" by simp
  obtain reply where "?s = (Inr reply, snd ?s)"
    by (simp add: save_settings_for_project_def fresh_def write_settings_def Let_def)
  from saving_leaves_other_projects [OF f p u o this] show ?thesis unfolding Let_def by blast
qed

text \<open>A run that is shown hides its payloads: no text stands under a sensitive key of its summaries or of
  the summaries of its steps, at any depth, and summaries without such texts are shown as they are stored.\<close>

theorem shown_run_hides_payloads:
  assumes "get_run sha256 (PStr i) dir = Inr (Inr s)"
  shows "\<not> exposes (dget s ''inputs_summary'') \<and> \<not> exposes (dget s ''outputs_summary'')
    \<and> (\<exists>xs. dget s ''steps'' = PList xs \<and> list_all (\<lambda>x. \<not> step_exposes x) xs)
    \<and> (\<exists>r. read_json_safe dir (record_file i) = Some (PDict r)
        \<and> (\<not> exposes (dget_or r ''inputs_summary'' (PDict [])) \<longrightarrow>
             dget s ''inputs_summary'' = dget_or r ''inputs_summary'' (PDict [])))"
  using shown_run [OF assms] by (auto simp: list_all_iff)

lemma shown_run_hides_payloads_witness:
  "\<exists>s. get_run (\<lambda>t. ''d'') (PStr ''r1'') ex_dir = Inr (Inr s) \<and> \<not> exposes (dget s ''inputs_summary'')"
proof -
  have "\<exists>s. get_run (\<lambda>t. ''d'') (PStr ''r1'') ex_dir = Inr (Inr s)"
    by (rule exI [of _ "case get_run (\<lambda>t. ''d'') (PStr ''r1'') ex_dir of Inr (Inr r) \<Rightarrow> r"]) code_simp
  with shown_run_hides_payloads show ?thesis by blast
qed

text \<open>A file whose name marks it as a secret (an environment file, a key or a certificate, or
  \<open>secret\<close> in its name, in any case) is blocked from commits in every directory and never allowed.\<close>

theorem secret_files_never_committed:
  assumes "secret_path (normalize path)"
  shows "is_commit_blocked_path path \<and> \<not> is_commit_allowed_path path"
  by (rule secret_never_committed [OF assms])

lemma secret_files_never_committed_witness: "\<not> is_commit_allowed_path ''src/deploy/My_Secret.py''"
proof -
  have "secret_path (normalize ''src/deploy/My_Secret.py'')" by code_simp
  from secret_files_never_committed [OF this] show ?thesis by simp
qed

end
